(* ===== verification/Prelude.thy ===== *)
theory Prelude
  imports Main "HOL-Library.Word" "HOL-Library.Monad_Syntax" "HOL-Library.Multiset"
begin

text \<open>
  Shared vocabulary of the development: bytes, the POSIX error numbers the code names,
  overwriting a range of a buffer, erasing a position of a vector, and the collections of
  rewrite rules the component theories extend.
\<close>

named_theorems path_simps \<open>characterisation of path predicates by their components\<close>
named_theorems fd_simps \<open>ownership of descriptors across an operation\<close>

type_synonym byte = "8 word"

section \<open>Error numbers\<close>

text \<open>The values of \<^verbatim>\<open><cerrno>\<close> on Linux and Android, the platforms of the disk backend.\<close>

abbreviation ENOENT :: int where "ENOENT \<equiv> 2"
abbreviation EINTR :: int where "EINTR \<equiv> 4"
abbreviation EIO :: int where "EIO \<equiv> 5"
abbreviation EEXIST :: int where "EEXIST \<equiv> 17"
abbreviation EXDEV :: int where "EXDEV \<equiv> 18"
abbreviation EINVAL :: int where "EINVAL \<equiv> 22"
abbreviation EOPNOTSUPP :: int where "EOPNOTSUPP \<equiv> 95"

abbreviation INT_MAX :: int where "INT_MAX \<equiv> 2147483647"

section \<open>Buffers\<close>

text \<open>
  \<open>overwrite xs i ys\<close> is the buffer \<open>xs\<close> after a \<^verbatim>\<open>memcpy\<close> of \<open>ys\<close> to its offset \<open>i\<close>.
\<close>

definition overwrite :: "'a list \<Rightarrow> nat \<Rightarrow> 'a list \<Rightarrow> 'a list" where
  "overwrite xs i ys = take i xs @ ys @ drop (i + length ys) xs"

lemma overwrite_Nil [simp]: "overwrite xs i [] = xs"
  by (simp add: overwrite_def)

lemma length_overwrite [simp]:
  "i + length ys \<le> length xs \<Longrightarrow> length (overwrite xs i ys) = length xs"
  by (simp add: overwrite_def)

lemma take_overwrite [simp]:
  "i \<le> length xs \<Longrightarrow> take (i + length ys) (overwrite xs i ys) = take i xs @ ys"
  by (simp add: overwrite_def)

lemma drop_overwrite [simp]:
  "i + length ys \<le> length xs \<Longrightarrow> drop (i + length ys) (overwrite xs i ys) = drop (i + length ys) xs"
  by (simp add: overwrite_def)

lemma overwrite_whole [simp]: "length ys = length xs \<Longrightarrow> overwrite xs 0 ys = ys"
  by (simp add: overwrite_def)

lemma overwrite_overwrite_adjacent:
  "i + length ys \<le> length xs \<Longrightarrow>
     overwrite (overwrite xs i ys) (i + length ys) zs = overwrite xs i (ys @ zs)"
  by (simp add: overwrite_def ac_simps)

text \<open>
  \<open>write_at c off bs\<close> is the file \<open>c\<close> after a POSIX \<^verbatim>\<open>pwrite\<close> of \<open>bs\<close> at \<open>off\<close>: a hole before the offset
  reads as zeros, and writing nothing changes nothing.
\<close>

definition write_at :: "byte list \<Rightarrow> nat \<Rightarrow> byte list \<Rightarrow> byte list" where
  "write_at c off bs =
     (if bs = [] then c else overwrite (c @ replicate (off - length c) 0) off bs)"

lemma write_at_Nil [simp]: "write_at c off [] = c"
  by (simp add: write_at_def)

lemma write_at_inside: "off + length bs \<le> length c \<Longrightarrow> write_at c off bs = overwrite c off bs"
  by (auto simp: write_at_def)

lemma length_write_at [simp]:
  "bs \<noteq> [] \<Longrightarrow> length (write_at c off bs) = max (length c) (off + length bs)"
  by (auto simp: write_at_def overwrite_def)

lemma write_at_adjacent: "write_at (write_at c off a) (off + length a) b = write_at c off (a @ b)"
proof (cases "a = [] \<or> b = []")
  case True
  then show ?thesis by auto
next
  case False
  then show ?thesis
    by (cases "off \<le> length c") (auto simp: write_at_def overwrite_def ac_simps min_def)
qed

lemma read_back:
  "off + n \<le> off' \<Longrightarrow> off + n \<le> length c \<Longrightarrow> take n (drop off (write_at c off' bs)) = take n (drop off c)"
  by (auto simp: write_at_def overwrite_def take_drop min_def ac_simps)

lemma read_back_same: "take (length bs) (drop off (write_at c off bs)) = bs"
  by (cases "bs = []") (auto simp: write_at_def overwrite_def)

lemma transfer_progress: "t < n \<Longrightarrow> 0 < k \<Longrightarrow> n - (t + k) < n - (t :: nat)"
  by arith

lemma some_truth [simp]: "Ex (\<lambda>b. b)" "\<exists>b. \<not> b"
  by blast+

section \<open>Vectors\<close>

text \<open>\<open>erase_at i xs\<close> is \<^verbatim>\<open>xs.erase(xs.begin() + i)\<close>.\<close>

definition erase_at :: "nat \<Rightarrow> 'a list \<Rightarrow> 'a list" where
  "erase_at i xs = take i xs @ drop (Suc i) xs"

lemma length_erase_at [simp]: "i < length xs \<Longrightarrow> length (erase_at i xs) = length xs - 1"
  by (simp add: erase_at_def)

lemma mset_erase_at: "i < length xs \<Longrightarrow> add_mset (xs ! i) (mset (erase_at i xs)) = mset xs"
proof -
  assume i: "i < length xs"
  have "mset xs = mset (take i xs @ xs ! i # drop (Suc i) xs)"
    using i by (simp only: id_take_nth_drop [symmetric])
  then show ?thesis by (simp add: erase_at_def)
qed

lemma set_erase_at: "set (erase_at i xs) \<subseteq> set xs"
  by (auto simp: erase_at_def dest: in_set_takeD in_set_dropD)

lemma distinct_erase_at:
  assumes "distinct xs" and "i < length xs"
  shows "xs ! i \<notin> set (erase_at i xs)" and "distinct (erase_at i xs)"
proof -
  have "distinct (take i xs @ xs ! i # drop (Suc i) xs)"
    by (subst id_take_nth_drop [OF assms(2), symmetric]) (rule assms(1))
  then show "xs ! i \<notin> set (erase_at i xs)" "distinct (erase_at i xs)"
    by (auto simp: erase_at_def)
qed

lemma map_erase_at: "map f (erase_at i xs) = erase_at i (map f xs)"
  by (simp add: erase_at_def take_map drop_map)

lemma mset_list_update:
  "i < length xs \<Longrightarrow> mset (xs[i := y]) = add_mset y (mset (erase_at i xs))"
  by (simp add: upd_conv_take_nth_drop erase_at_def)

text \<open>\<open>resize n v xs\<close> is \<^verbatim>\<open>xs.resize(n, v)\<close>.\<close>

definition resize :: "nat \<Rightarrow> 'a \<Rightarrow> 'a list \<Rightarrow> 'a list" where
  "resize n v xs = take n xs @ replicate (n - length xs) v"

lemma length_resize [simp]: "length (resize n v xs) = n"
  by (simp add: resize_def)

lemma nth_resize: "i < n \<Longrightarrow> resize n v xs ! i = (if i < length xs then xs ! i else v)"
  by (auto simp: resize_def nth_append)

lemma resize_same [simp]: "length xs = n \<Longrightarrow> resize n v xs = xs"
  by (simp add: resize_def)

text \<open>Counting up a 64-bit counter that is not at its last value.\<close>

lemma counter_step: "(c :: 64 word) \<noteq> - 1 \<Longrightarrow> x \<le> c \<Longrightarrow> x < c + 1"
proof -
  assume c: "c \<noteq> - 1" and "x \<le> c"
  have "unat c \<noteq> 2 ^ 64 - 1"
  proof
    assume "unat c = 2 ^ 64 - 1"
    then have "unat c = unat (- 1 :: 64 word)" by (simp add: unsigned_minus_1_eq_mask mask_eq_exp_minus_1)
    with c show False by (simp add: word_unat_eq_iff)
  qed
  moreover have "unat c < 2 ^ LENGTH(64)" by (rule unsigned_less)
  ultimately have "unat c + 1 < 2 ^ 64" by simp
  then have "unat (c + 1) = unat c + 1" by (simp add: unat_word_ariths)
  with \<open>x \<le> c\<close> show ?thesis by (simp add: word_less_nat_alt word_le_nat_alt)
qed

end
