(* ===== verification/Errors.thy ===== *)
theory Errors
  imports Prelude
begin

text \<open>
  Errors of the disk backend (\<^verbatim>\<open>swig/flow_saf_disk_io.cpp\<close>): the error codes it builds from
  bridge results and from \<^verbatim>\<open>errno\<close>, the operations it blames and the storage error it reports.
\<close>

section \<open>Error codes and storage errors\<close>

text \<open>
  An \<^verbatim>\<open>error_code\<close> is a value in a category; the code uses the default (success), the generic
  category with an error number, and three fixed codes of other categories.
\<close>

datatype error_code =
    NoError
  | GenericError int
  | OperationAborted
  | EndOfFile
  | NoMemory

text \<open>\<^verbatim>\<open>ec.failed()\<close>, that is, the conversion of a \<^verbatim>\<open>storage_error\<close> to \<^verbatim>\<open>bool\<close>.\<close>

fun failed :: "error_code \<Rightarrow> bool" where
  "failed NoError = False"
| "failed (GenericError v) = (v \<noteq> 0)"
| "failed OperationAborted = True"
| "failed EndOfFile = True"
| "failed NoMemory = True"

datatype operation_t =
    Op_unknown | Op_file_read | Op_file_write | Op_file_open | Op_file_stat | Op_file_rename
  | Op_file_remove | Op_file_truncate | Op_file_hard_link | Op_check_resume | Op_mkdir
  | Op_partfile_read | Op_partfile_write | Op_alloc_cache_piece

record storage_error =
  ec :: error_code
  err_file :: int
  operation :: operation_t

text \<open>The default storage error, and the constructor that names no file (index \<open>-1\<close>).\<close>

definition no_error :: storage_error where
  "no_error = \<lparr>ec = NoError, err_file = -1, operation = Op_unknown\<rparr>"

definition storage_error_of :: "error_code \<Rightarrow> operation_t \<Rightarrow> storage_error" where
  "storage_error_of c oper = \<lparr>ec = c, err_file = -1, operation = oper\<rparr>"

definition storage_error_at :: "error_code \<Rightarrow> int \<Rightarrow> operation_t \<Rightarrow> storage_error" where
  "storage_error_at c f oper = \<lparr>ec = c, err_file = f, operation = oper\<rparr>"

definition has_error :: "storage_error \<Rightarrow> bool" where
  "has_error e = failed (ec e)"

definition from_bridge_result :: "int \<Rightarrow> error_code" where
  "from_bridge_result result = (if result \<ge> 0 then NoError else GenericError (min (- result) INT_MAX))"

definition make_error :: "int \<Rightarrow> int \<Rightarrow> operation_t \<Rightarrow> storage_error" where
  "make_error result f oper = storage_error_at (from_bridge_result result) f oper"

definition aborted_error :: "operation_t \<Rightarrow> storage_error" where
  "aborted_error oper = storage_error_of OperationAborted oper"

section \<open>Facts\<close>

lemma has_error_no_error [simp]: "\<not> has_error no_error"
  by (simp add: has_error_def no_error_def)

lemma has_error_at [simp]: "has_error (storage_error_at c f oper) = failed c"
  by (simp add: has_error_def storage_error_at_def)

lemma has_error_of [simp]: "has_error (storage_error_of c oper) = failed c"
  by (simp add: has_error_def storage_error_of_def)

lemma has_error_aborted [simp]: "has_error (aborted_error oper)"
  by (simp add: aborted_error_def)

lemma failed_from_bridge_result [simp]: "failed (from_bridge_result r) \<longleftrightarrow> r < 0"
  by (auto simp: from_bridge_result_def min_def)

lemma has_error_make_error [simp]: "has_error (make_error r f oper) \<longleftrightarrow> r < 0"
  by (simp add: make_error_def)

lemma from_bridge_result_range:
  "r < 0 \<Longrightarrow> \<exists>v. from_bridge_result r = GenericError v \<and> 1 \<le> v \<and> v \<le> INT_MAX"
  by (auto simp: from_bridge_result_def)

lemma from_bridge_result_errno:
  "1 \<le> e \<Longrightarrow> e \<le> INT_MAX \<Longrightarrow> from_bridge_result (- e) = GenericError e"
  by (simp add: from_bridge_result_def)

end
