(* ===== verification/Paths.thy ===== *)
theory Paths
  imports Errors
begin

text \<open>
  Paths of the disk backend: the check that a path is relative and stays beneath the granted
  tree (\<^verbatim>\<open>safe_relative_path\<close>), the sentinel for the tree root (\<^verbatim>\<open>normalized_save_root\<close>) and the
  joining of a save root with a path (\<^verbatim>\<open>rooted_path\<close>). The check is a loop over separator
  positions; it is shown equal to a predicate on the components of the path.
\<close>

section \<open>Searching a string\<close>

fun index_of :: "char \<Rightarrow> string \<Rightarrow> nat option" where
  "index_of c [] = None"
| "index_of c (x # xs) = (if x = c then Some 0 else map_option Suc (index_of c xs))"

text \<open>\<^verbatim>\<open>path.find(c, pos)\<close>, with \<open>None\<close> for \<^verbatim>\<open>npos\<close>.\<close>

definition find_from :: "char \<Rightarrow> string \<Rightarrow> nat \<Rightarrow> nat option" where
  "find_from c s pos = map_option (\<lambda>i. i + pos) (index_of c (drop pos s))"

lemma index_of_None: "index_of c s = None \<longleftrightarrow> c \<notin> set s"
  by (induction s) auto

lemma index_of_Some: "index_of c s = Some i \<Longrightarrow> i < length s \<and> s ! i = c \<and> c \<notin> set (take i s)"
  by (induction s arbitrary: i) (auto split: if_splits)

lemma find_from_bounds: "find_from c s pos = Some i \<Longrightarrow> pos \<le> i \<and> i < length s"
  by (auto simp: find_from_def dest: index_of_Some)

abbreviation slash :: char where "slash \<equiv> CHR ''/''"
abbreviation backslash :: char where "backslash \<equiv> CHR 0x5C"
abbreviation NUL :: char where "NUL \<equiv> CHR 0x00"

section \<open>The check for safe relative paths\<close>

text \<open>The \<^verbatim>\<open>while\<close> loop of \<^verbatim>\<open>safe_relative_path\<close>, from position \<open>start\<close>.\<close>

function safe_components :: "string \<Rightarrow> nat \<Rightarrow> bool" where
  "safe_components path start =
     (if start < length path then
        let end_pos = find_from slash path start;
            sz = (case end_pos of None \<Rightarrow> length path | Some e \<Rightarrow> e) - start
        in if sz = 0 then False
           else let component = take sz (drop start path)
             in if component = ''.'' \<or> component = ''..'' then False
                else safe_components path (case end_pos of None \<Rightarrow> length path | Some e \<Rightarrow> e + 1)
      else True)"
  by pat_completeness auto
termination
  by (relation "measure (\<lambda>(path, start). length path - start)")
    (auto dest: find_from_bounds split: option.splits)

declare safe_components.simps [simp del]

definition safe_relative_path :: "string \<Rightarrow> bool" where
  "safe_relative_path path =
     (if path = [] \<or> hd path = slash \<or> hd path = backslash then False
      else if backslash \<in> set path \<or> NUL \<in> set path then False
      else if \<not> safe_components path 0 then False
      else last path \<noteq> slash)"

definition flow_session_root :: string where
  "flow_session_root = ''.flow-session-root''"

definition normalized_save_root :: "string \<Rightarrow> string" where
  "normalized_save_root path =
     (let rooted_sentinel = slash # flow_session_root
      in if path = flow_session_root then []
         else if length path \<ge> length rooted_sentinel
                 \<and> drop (length path - length rooted_sentinel) path = rooted_sentinel then []
         else path)"

definition rooted_path :: "string \<Rightarrow> string \<Rightarrow> string" where
  "rooted_path root relative = (if root = [] then relative else root @ [slash] @ relative)"

section \<open>Components\<close>

text \<open>The specification: the components of a path are its maximal slash-free pieces.\<close>

fun components :: "string \<Rightarrow> string list" where
  "components [] = [[]]"
| "components (c # cs) =
     (if c = slash then [] # components cs
      else (case components cs of [] \<Rightarrow> [[c]] | p # ps \<Rightarrow> (c # p) # ps))"

definition plain_component :: "string \<Rightarrow> bool" where
  "plain_component p \<longleftrightarrow> p \<noteq> [] \<and> p \<noteq> ''.'' \<and> p \<noteq> ''..''"

lemma components_nonempty [simp]: "components s \<noteq> []"
  by (cases s) (auto split: list.splits)

lemma components_no_slash: "slash \<notin> set s \<Longrightarrow> components s = [s]"
  by (induction s) auto

lemma components_append_slash: "components (a @ slash # b) = components a @ components b"
proof (induction a)
  case (Cons c a)
  then show ?case by (cases "components a") auto
qed simp

lemma components_index:
  assumes "index_of slash s = Some i"
  shows "components s = take i s # components (drop (Suc i) s)"
proof -
  from index_of_Some [OF assms]
  have i: "i < length s" "s ! i = slash" "slash \<notin> set (take i s)" by auto
  then have "s = take i s @ slash # drop (Suc i) s"
    using id_take_nth_drop [of i s] by simp
  then have "components s = components (take i s) @ components (drop (Suc i) s)"
    using components_append_slash [of "take i s" "drop (Suc i) s"] by simp
  with i(3) show ?thesis by (simp add: components_no_slash)
qed

lemma components_last_slash:
  "s \<noteq> [] \<Longrightarrow> last s = slash \<Longrightarrow> components s = components (butlast s) @ [[]]"
  using components_append_slash [of "butlast s" "[]"] append_butlast_last_id [of s] by simp

text \<open>What the loop establishes about the suffix it has still to read.\<close>

definition suffix_ok :: "string \<Rightarrow> bool" where
  "suffix_ok s \<longleftrightarrow> s = [] \<or>
     (\<forall>p \<in> set (if last s = slash then butlast (components s) else components s). plain_component p)"

lemma suffix_ok_None:
  "s \<noteq> [] \<Longrightarrow> index_of slash s = None \<Longrightarrow> suffix_ok s \<longleftrightarrow> plain_component s"
  by (auto simp: suffix_ok_def index_of_None components_no_slash dest: last_in_set)

lemma suffix_ok_Some:
  assumes "index_of slash s = Some i"
  shows "suffix_ok s \<longleftrightarrow> plain_component (take i s) \<and> suffix_ok (drop (Suc i) s)"
proof (cases "drop (Suc i) s = []")
  case True
  from index_of_Some [OF assms] have "i < length s" "s ! i = slash" by auto
  with True have "length s = Suc i" by simp
  with \<open>s ! i = slash\<close> have "last s = slash"
    by (metis diff_Suc_1 last_conv_nth list.size(3) nat.simps(3))
  with True \<open>length s = Suc i\<close> show ?thesis
    by (auto simp: suffix_ok_def components_index [OF assms])
next
  case False
  then have "last (drop (Suc i) s) = last s" "s \<noteq> []" by (auto simp: last_drop)
  with False show ?thesis
    by (auto simp: suffix_ok_def components_index [OF assms])
qed

lemma safe_components_suffix: "safe_components path start \<longleftrightarrow> suffix_ok (drop start path)"
proof (induction path start rule: safe_components.induct)
  case (1 path start)
  show ?case
  proof (cases "start < length path")
    case False
    then show ?thesis by (subst safe_components.simps) (simp add: suffix_ok_def)
  next
    case inside: True
    show ?thesis
    proof (cases "index_of slash (drop start path)")
      case None
      have "safe_components path (length path)"
        by (subst safe_components.simps) simp
      with None inside show ?thesis
        by (subst safe_components.simps)
          (auto simp: find_from_def suffix_ok_None plain_component_def Let_def)
    next
      case (Some i)
      have IH: "plain_component (take i (drop start path)) \<Longrightarrow>
        safe_components path (Suc (i + start)) \<longleftrightarrow> suffix_ok (drop (Suc (i + start)) path)"
        using "1.IH" [OF inside refl refl] Some index_of_Some [OF Some]
        by (auto simp: find_from_def plain_component_def)
      have "drop (Suc i) (drop start path) = drop (Suc (i + start)) path"
        by (simp add: ac_simps)
      with IH Some inside index_of_Some [OF Some] show ?thesis
        by (subst safe_components.simps)
          (auto simp: find_from_def suffix_ok_Some plain_component_def Let_def)
    qed
  qed
qed

section \<open>What the check decides\<close>

lemma safe_relative_path_iff [path_simps]:
  "safe_relative_path path \<longleftrightarrow>
     (\<forall>p \<in> set (components path). plain_component p) \<and> backslash \<notin> set path \<and> NUL \<notin> set path"
proof (cases "path = [] \<or> hd path = slash \<or> last path = slash")
  case True
  then have "[] \<in> set (components path)"
    using components_last_slash [of path] by (cases path) auto
  with True show ?thesis
    by (auto simp: safe_relative_path_def plain_component_def)
next
  case False
  then show ?thesis
    by (cases path) (auto simp: safe_relative_path_def safe_components_suffix suffix_ok_def)
qed

lemma safe_relative_path_append_slash [path_simps]:
  "safe_relative_path (a @ slash # b) \<longleftrightarrow> safe_relative_path a \<and> safe_relative_path b"
  by (auto simp: safe_relative_path_iff components_append_slash)

lemma safe_relative_path_nonempty [dest]: "safe_relative_path p \<Longrightarrow> p \<noteq> []"
  by (auto simp: safe_relative_path_def)

lemma safe_rooted_path [path_simps]:
  "safe_relative_path (rooted_path root relative) \<longleftrightarrow>
     (root = [] \<or> safe_relative_path root) \<and> safe_relative_path relative"
  by (auto simp: rooted_path_def safe_relative_path_append_slash)

text \<open>
  Lexical resolution of a component list against a stack of entered directories; \<open>None\<close> when it
  climbs above the root.
\<close>

fun resolve :: "string list \<Rightarrow> string list \<Rightarrow> string list option" where
  "resolve stack [] = Some (rev stack)"
| "resolve stack (p # ps) =
     (if p = [] \<or> p = ''.'' then resolve stack ps
      else if p = ''..'' then (case stack of [] \<Rightarrow> None | _ # st \<Rightarrow> resolve st ps)
      else resolve (p # stack) ps)"

lemma resolve_plain: "\<forall>p \<in> set ps. plain_component p \<Longrightarrow> resolve stack ps = Some (rev stack @ ps)"
  by (induction ps arbitrary: stack) (auto simp: plain_component_def)

lemma resolve_safe: "safe_relative_path p \<Longrightarrow> resolve [] (components p) = Some (components p)"
  by (simp add: safe_relative_path_iff resolve_plain)

section \<open>Save roots\<close>

lemma normalized_save_root_cases: "normalized_save_root p = [] \<or> normalized_save_root p = p"
  by (simp add: normalized_save_root_def Let_def)

lemma normalized_save_root_idem [simp]:
  "normalized_save_root (normalized_save_root p) = normalized_save_root p"
  using normalized_save_root_cases [of p] normalized_save_root_cases [of "[]"] by auto

lemma normalized_save_root_Nil [simp]: "normalized_save_root [] = []"
  using normalized_save_root_cases [of "[]"] by auto

lemma normalized_save_root_sentinel:
  "normalized_save_root (prefix @ slash # flow_session_root) = []"
  by (simp add: normalized_save_root_def)

lemma safe_normalized_save_root:
  "safe_relative_path p \<Longrightarrow>
     normalized_save_root p = [] \<or> safe_relative_path (normalized_save_root p)"
  using normalized_save_root_cases [of p] by auto

lemma safe_parent:
  assumes "safe_relative_path path" and "find_from slash path pos = Some sep"
  shows "safe_relative_path (take sep path)"
proof -
  from assms(2) have "sep < length path" "path ! sep = slash"
    by (auto simp: find_from_def add.commute dest: index_of_Some)
  then have "path = take sep path @ slash # drop (Suc sep) path"
    using id_take_nth_drop [of sep path] by simp
  with assms(1) safe_relative_path_append_slash [of "take sep path" "drop (Suc sep) path"]
  show ?thesis by metis
qed

end
