(* ===== verification/Environment.thy ===== *)
theory Environment
  imports Paths
begin

text \<open>
  The outside world of the disk backend: the storage bridge the host application implements
  (\<^verbatim>\<open>struct flow_saf_storage\<close>), the POSIX calls on the descriptors it hands over, the clock, the
  buffer pool, the hash functions and their hexadecimal rendering. None of it is code of the backend, so it is a parameter:
  a record of functions on an arbitrary world type \<open>'w\<close>. What the backend relies on is stated as
  locales. The environment \<open>audit E\<close> behaves as \<open>E\<close> and records every call in a trace, on which
  the ownership of descriptors and the paths that reach the bridge are defined.
\<close>

section \<open>Calls to the outside\<close>

text \<open>
  The result of a positioned read or write: the \<^verbatim>\<open>errno\<close> of a negative result (\<open>0\<close> when the callee
  left it unset), or the bytes read, respectively the number of bytes written.
\<close>

datatype read_ret = ReadFail int | ReadGot "byte list"
datatype write_ret = WriteFail int | Wrote nat

text \<open>The mode of \<open>br_open_file\<close>: \<^verbatim>\<open>bridge_open_read\<close> and \<^verbatim>\<open>bridge_open_read_write\<close>.\<close>

definition bridge_open_read :: int where "bridge_open_read = 0"
definition bridge_open_read_write :: int where "bridge_open_read_write = 2"

text \<open>
  The first six fields are the virtual functions of \<^verbatim>\<open>flow_saf_storage\<close>, with their result (a size,
  a descriptor or zero, or a negative errno). \<open>sys_ftruncate\<close> gives \<open>None\<close> for success and the
  \<^verbatim>\<open>errno\<close> otherwise. \<open>allocate_buffer\<close> gives the bytes of a fresh block or \<open>None\<close> when the pool is
  exhausted.
\<close>

record 'w env =
  br_validate_path :: "string \<Rightarrow> 'w \<Rightarrow> int \<times> 'w"
  br_create_directory :: "string \<Rightarrow> 'w \<Rightarrow> int \<times> 'w"
  br_open_file :: "string \<Rightarrow> int \<Rightarrow> 'w \<Rightarrow> int \<times> 'w"
  br_file_size :: "string \<Rightarrow> 'w \<Rightarrow> int \<times> 'w"
  br_rename :: "string \<Rightarrow> string \<Rightarrow> 'w \<Rightarrow> int \<times> 'w"
  br_remove :: "string \<Rightarrow> bool \<Rightarrow> 'w \<Rightarrow> int \<times> 'w"
  sys_pread :: "int \<Rightarrow> nat \<Rightarrow> nat \<Rightarrow> 'w \<Rightarrow> read_ret \<times> 'w"
  sys_pwrite :: "int \<Rightarrow> byte list \<Rightarrow> nat \<Rightarrow> 'w \<Rightarrow> write_ret \<times> 'w"
  sys_ftruncate :: "int \<Rightarrow> nat \<Rightarrow> 'w \<Rightarrow> int option \<times> 'w"
  sys_close :: "int \<Rightarrow> 'w \<Rightarrow> 'w"
  clock_now :: "'w \<Rightarrow> int \<times> 'w"
  allocate_buffer :: "'w \<Rightarrow> byte list option \<times> 'w"
  sha1 :: "byte list \<Rightarrow> byte list"
  sha256 :: "byte list \<Rightarrow> byte list"
  to_hex :: "byte list \<Rightarrow> string"

section \<open>Positioned transfers\<close>

text \<open>
  POSIX: a positioned read or write transfers at most the requested bytes and a failing one sets a
  positive \<^verbatim>\<open>errno\<close>. A loop that retries on \<^verbatim>\<open>EINTR\<close> ends when interruptions do not go on for ever;
  \<open>pending w\<close> bounds those still to come.
\<close>

locale posix_io =
  fixes E :: "'w env" and pending :: "'w \<Rightarrow> nat"
  assumes pread_bounded: "sys_pread E fd n off w = (ReadGot bs, w') \<Longrightarrow> length bs \<le> n"
    and pread_errno: "sys_pread E fd n off w = (ReadFail e, w') \<Longrightarrow> 0 < e"
    and pread_interrupt: "sys_pread E fd n off w = (ReadFail EINTR, w') \<Longrightarrow> pending w' < pending w"
    and pwrite_bounded: "sys_pwrite E fd bs off w = (Wrote k, w') \<Longrightarrow> k \<le> length bs"
    and pwrite_errno: "sys_pwrite E fd bs off w = (WriteFail e, w') \<Longrightarrow> 0 < e"
    and pwrite_interrupt: "sys_pwrite E fd bs off w = (WriteFail EINTR, w') \<Longrightarrow> pending w' < pending w"
    and ftruncate_errno: "sys_ftruncate E fd n w = (Some e, w') \<Longrightarrow> 0 < e"

section \<open>Discipline towards the bridge\<close>

text \<open>
  \<open>clean L w\<close> says that \<open>w\<close> was reached by well-behaved calls and that \<open>L\<close> are the descriptors the
  bridge handed over and the backend has not closed. A call keeps it when its paths are safe and
  its descriptor is live; opening adds a descriptor, closing takes one away.
\<close>

locale bridge_discipline =
  fixes E :: "'w env" and clean :: "int multiset \<Rightarrow> 'w \<Rightarrow> bool"
  assumes clean_validate: "safe_relative_path p \<Longrightarrow> clean L w \<Longrightarrow> clean L (snd (br_validate_path E p w))"
    and clean_mkdir: "safe_relative_path p \<Longrightarrow> clean L w \<Longrightarrow> clean L (snd (br_create_directory E p w))"
    and clean_open: "safe_relative_path p \<Longrightarrow> clean L w \<Longrightarrow> br_open_file E p m w = (r, w') \<Longrightarrow>
      clean (if r \<ge> 0 then add_mset r L else L) w'"
    and clean_size: "safe_relative_path p \<Longrightarrow> clean L w \<Longrightarrow> clean L (snd (br_file_size E p w))"
    and clean_pread: "fd \<in># L \<Longrightarrow> clean L w \<Longrightarrow> clean L (snd (sys_pread E fd n off w))"
    and clean_pwrite: "fd \<in># L \<Longrightarrow> clean L w \<Longrightarrow> clean L (snd (sys_pwrite E fd bs off w))"
    and clean_ftruncate: "fd \<in># L \<Longrightarrow> clean L w \<Longrightarrow> clean L (snd (sys_ftruncate E fd n w))"
    and clean_close: "fd \<in># L \<Longrightarrow> clean L w \<Longrightarrow> clean (L - {#fd#}) (sys_close E fd w)"
    and clean_clock: "clean L w \<Longrightarrow> clean L (snd (clock_now E w))"
    and clean_buffer: "clean L w \<Longrightarrow> clean L (snd (allocate_buffer E w))"

locale bridge_discipline_full = bridge_discipline +
  assumes clean_rename: "safe_relative_path p \<Longrightarrow> safe_relative_path q \<Longrightarrow> clean L w \<Longrightarrow>
      clean L (snd (br_rename E p q w))"
    and clean_remove: "safe_relative_path p \<Longrightarrow> clean L w \<Longrightarrow> clean L (snd (br_remove E p rec w))"

section \<open>The audited environment\<close>

text \<open>One event per call, with the arguments and the result that the audit is about.\<close>

datatype event =
    Ev_validate string
  | Ev_mkdir string
  | Ev_open string int int
  | Ev_size string
  | Ev_rename string string
  | Ev_remove string
  | Ev_read int
  | Ev_write int
  | Ev_truncate int
  | Ev_close int
  | Ev_other

type_synonym trace = "event list"

text \<open>The newest event comes first. Descriptors handed over and not yet closed:\<close>

fun live :: "trace \<Rightarrow> int list" where
  "live [] = []"
| "live (Ev_open p m r # tr) = (if r \<ge> 0 then r # live tr else live tr)"
| "live (Ev_close fd # tr) = remove1 fd (live tr)"
| "live (_ # tr) = live tr"

text \<open>Every transfer, truncation and close is on a live descriptor.\<close>

fun well_used :: "trace \<Rightarrow> bool" where
  "well_used [] = True"
| "well_used (e # tr) =
     ((case e of Ev_read fd \<Rightarrow> fd \<in> set (live tr) | Ev_write fd \<Rightarrow> fd \<in> set (live tr)
        | Ev_truncate fd \<Rightarrow> fd \<in> set (live tr) | Ev_close fd \<Rightarrow> fd \<in> set (live tr) | _ \<Rightarrow> True)
      \<and> well_used tr)"

text \<open>The paths an event delivers to the bridge.\<close>

fun delivered :: "event \<Rightarrow> string list" where
  "delivered (Ev_validate p) = [p]"
| "delivered (Ev_mkdir p) = [p]"
| "delivered (Ev_open p m r) = [p]"
| "delivered (Ev_size p) = [p]"
| "delivered (Ev_rename p q) = [p, q]"
| "delivered (Ev_remove p) = [p]"
| "delivered _ = []"

definition safe_trace :: "trace \<Rightarrow> bool" where
  "safe_trace tr \<longleftrightarrow> (\<forall>e \<in> set tr. \<forall>p \<in> set (delivered e). safe_relative_path p)"

text \<open>\<open>logged f ev (w, tr)\<close> runs \<open>f\<close> on the world and pushes the event of its result.\<close>

definition logged :: "('w \<Rightarrow> 'r \<times> 'w) \<Rightarrow> ('r \<Rightarrow> event) \<Rightarrow> 'w \<times> trace \<Rightarrow> 'r \<times> 'w \<times> trace" where
  "logged f ev = (\<lambda>(w, tr). let (r, w') = f w in (r, (w', ev r # tr)))"

definition audit :: "'w env \<Rightarrow> ('w \<times> trace) env" where
  "audit E = \<lparr>
     br_validate_path = (\<lambda>p. logged (br_validate_path E p) (\<lambda>_. Ev_validate p)),
     br_create_directory = (\<lambda>p. logged (br_create_directory E p) (\<lambda>_. Ev_mkdir p)),
     br_open_file = (\<lambda>p m. logged (br_open_file E p m) (\<lambda>r. Ev_open p m r)),
     br_file_size = (\<lambda>p. logged (br_file_size E p) (\<lambda>_. Ev_size p)),
     br_rename = (\<lambda>p q. logged (br_rename E p q) (\<lambda>_. Ev_rename p q)),
     br_remove = (\<lambda>p rec. logged (br_remove E p rec) (\<lambda>_. Ev_remove p)),
     sys_pread = (\<lambda>fd n off. logged (sys_pread E fd n off) (\<lambda>_. Ev_read fd)),
     sys_pwrite = (\<lambda>fd bs off. logged (sys_pwrite E fd bs off) (\<lambda>_. Ev_write fd)),
     sys_ftruncate = (\<lambda>fd n. logged (sys_ftruncate E fd n) (\<lambda>_. Ev_truncate fd)),
     sys_close = (\<lambda>fd (w, tr). (sys_close E fd w, Ev_close fd # tr)),
     clock_now = logged (clock_now E) (\<lambda>_. Ev_other),
     allocate_buffer = logged (allocate_buffer E) (\<lambda>_. Ev_other),
     sha1 = sha1 E,
     sha256 = sha256 E,
     to_hex = to_hex E\<rparr>"

text \<open>The world was reached by well-behaved calls and \<open>L\<close> is what is still open.\<close>

definition clean_trace :: "int multiset \<Rightarrow> trace \<Rightarrow> bool" where
  "clean_trace L tr \<longleftrightarrow> mset (live tr) = L \<and> well_used tr \<and> safe_trace tr"

definition clean_world :: "int multiset \<Rightarrow> 'w \<times> trace \<Rightarrow> bool" where
  "clean_world L w = clean_trace L (snd w)"

lemma snd_logged [simp]: "snd (snd (logged f ev w)) = ev (fst (f (fst w))) # snd w"
  by (simp add: logged_def split_beta Let_def)

lemma fst_logged [simp]: "fst (logged f ev w) = fst (f (fst w))"
  by (simp add: logged_def split_beta Let_def)

lemma logged_eq:
  "logged f ev w = (r, w') \<longleftrightarrow> (\<exists>v. f (fst w) = (r, v) \<and> w' = (v, ev r # snd w))"
  by (cases w) (auto simp: logged_def split_beta Let_def prod_eq_iff)

lemma safe_trace_Cons [simp]:
  "safe_trace (e # tr) \<longleftrightarrow> (\<forall>p \<in> set (delivered e). safe_relative_path p) \<and> safe_trace tr"
  by (simp add: safe_trace_def)

lemma safe_trace_Nil [simp]: "safe_trace []"
  by (simp add: safe_trace_def)

lemmas audit_simps = audit_def clean_world_def clean_trace_def

interpretation audited: bridge_discipline_full "audit E" clean_world for E :: "'w env"
  by unfold_locales
    (auto simp: audit_simps logged_eq)

text \<open>The audited environment transfers bytes as the one it records.\<close>

lemma posix_io_audit: "posix_io E pending \<Longrightarrow> posix_io (audit E) (pending \<circ> fst)"
  unfolding posix_io_def by (auto simp: audit_def logged_eq)

text \<open>The paths taken away by removing or renaming, newest first.\<close>

fun removed_paths :: "trace \<Rightarrow> string list" where
  "removed_paths [] = []"
| "removed_paths (Ev_remove p # tr) = p # removed_paths tr"
| "removed_paths (Ev_rename p q # tr) = p # removed_paths tr"
| "removed_paths (_ # tr) = removed_paths tr"

text \<open>
  The same discipline with a second demand: the calls so far have taken away exactly the paths
  \<open>ps\<close>. It is kept by every call except renaming and removing.
\<close>

definition preparing :: "string list \<Rightarrow> int multiset \<Rightarrow> 'w \<times> trace \<Rightarrow> bool" where
  "preparing ps L w \<longleftrightarrow> clean_world L w \<and> removed_paths (snd w) = ps"

interpretation prep: bridge_discipline "audit E" "preparing ps" for E :: "'w env" and ps
  by unfold_locales (auto simp: preparing_def audit_simps logged_eq)

end
