(* ===== verification/Memory_Bridge.thy ===== *)
theory Memory_Bridge
  imports Environment
begin

text \<open>
  A storage bridge in memory, after \<^verbatim>\<open>struct memory_bridge\<close> of \<^verbatim>\<open>swig/test/flow_saf_disk_io_test.cpp\<close>: files
  are contents reached through a table of paths and a table of descriptors, calls can be told to fail,
  and the first transfers can be interrupted. It is the environment of the concrete runs, and shows
  that the laws of the environment can hold.
\<close>

record memory =
  mb_contents :: "byte list list"
  mb_files :: "(string \<times> nat) list"
  mb_directories :: "string list"
  mb_descriptors :: "(int \<times> nat) list"
  mb_next :: int
  mb_failures :: "(string \<times> int) list"
  mb_interrupts :: nat
  mb_clock :: int

definition empty_memory :: memory where
  "empty_memory = \<lparr>mb_contents = [], mb_files = [], mb_directories = [], mb_descriptors = [], mb_next = 3,
     mb_failures = [], mb_interrupts = 0, mb_clock = 0\<rparr>"

section \<open>The callbacks\<close>

text \<open>\<^verbatim>\<open>consume_failure\<close>: a call that was told to fail does so once.\<close>

definition failing :: "string \<Rightarrow> (memory \<Rightarrow> int \<times> memory) \<Rightarrow> memory \<Rightarrow> int \<times> memory" where
  "failing oper f w =
     (case map_of (mb_failures w) oper of
        Some e \<Rightarrow> (e, w\<lparr>mb_failures := filter (\<lambda>x. fst x \<noteq> oper) (mb_failures w)\<rparr>)
      | None \<Rightarrow> f w)"

definition memory_create_directory :: "string \<Rightarrow> memory \<Rightarrow> int \<times> memory" where
  "memory_create_directory path = failing (''mkdir:'' @ path)
     (\<lambda>w. (0, w\<lparr>mb_directories := List.insert path (mb_directories w)\<rparr>))"

text \<open>A new descriptor on the content at a position.\<close>

definition new_descriptor :: "nat \<Rightarrow> memory \<Rightarrow> int \<times> memory" where
  "new_descriptor i w =
     (mb_next w, w\<lparr>mb_descriptors := (mb_next w, i) # mb_descriptors w, mb_next := mb_next w + 1\<rparr>)"

definition memory_open_file :: "string \<Rightarrow> int \<Rightarrow> memory \<Rightarrow> int \<times> memory" where
  "memory_open_file path mode = failing (''open:'' @ path)
     (\<lambda>w. case map_of (mb_files w) path of
        Some i \<Rightarrow> new_descriptor i w
      | None \<Rightarrow>
          if mode = bridge_open_read then (- ENOENT, w)
          else new_descriptor (length (mb_contents w))
                 (w\<lparr>mb_contents := mb_contents w @ [[]], mb_files := (path, length (mb_contents w)) # mb_files w\<rparr>))"

definition memory_file_size :: "string \<Rightarrow> memory \<Rightarrow> int \<times> memory" where
  "memory_file_size path = failing (''size:'' @ path)
     (\<lambda>w. case map_of (mb_files w) path of
        Some i \<Rightarrow> (int (length (mb_contents w ! i)), w) | None \<Rightarrow> (- ENOENT, w))"

text \<open>\<^verbatim>\<open>parent_path\<close>: what stands before the last separator.\<close>

definition parent_path :: "string \<Rightarrow> string" where
  "parent_path path = rev (drop 1 (dropWhile (\<lambda>c. c \<noteq> slash) (rev path)))"

definition memory_rename :: "string \<Rightarrow> string \<Rightarrow> memory \<Rightarrow> int \<times> memory" where
  "memory_rename old_path new_path = failing (''rename:'' @ old_path)
     (\<lambda>w. if parent_path old_path \<noteq> parent_path new_path then (- EXDEV, w)
        else (case map_of (mb_files w) old_path of
          None \<Rightarrow> (- ENOENT, w)
        | Some i \<Rightarrow> (0, w\<lparr>mb_files := filter (\<lambda>x. fst x \<noteq> old_path) (mb_files w) @ [(new_path, i)]\<rparr>)))"

definition has_prefix :: "string \<Rightarrow> string \<Rightarrow> bool" where
  "has_prefix path p \<longleftrightarrow> path = p \<or> take (length p + 1) path = p @ [slash]"

definition memory_remove :: "string \<Rightarrow> bool \<Rightarrow> memory \<Rightarrow> int \<times> memory" where
  "memory_remove path recursive = failing (''remove:'' @ path)
     (\<lambda>w. let gone = (\<lambda>p. p = path \<or> recursive \<and> has_prefix p path);
              removed = recursive \<or> path \<in> fst ` set (mb_files w) \<or> path \<in> set (mb_directories w)
          in (if removed then 0 else - ENOENT,
              w\<lparr>mb_files := filter (\<lambda>x. \<not> gone (fst x)) (mb_files w),
                mb_directories := filter (\<lambda>p. \<not> gone p) (mb_directories w)\<rparr>))"

section \<open>The POSIX calls\<close>

definition memory_pread :: "int \<Rightarrow> nat \<Rightarrow> nat \<Rightarrow> memory \<Rightarrow> read_ret \<times> memory" where
  "memory_pread fd n off w =
     (if mb_interrupts w > 0 then (ReadFail EINTR, w\<lparr>mb_interrupts := mb_interrupts w - 1\<rparr>)
      else (case map_of (mb_descriptors w) fd of
          None \<Rightarrow> (ReadFail 9, w)
        | Some i \<Rightarrow> (ReadGot (take n (drop off (mb_contents w ! i))), w)))"

definition memory_pwrite :: "int \<Rightarrow> byte list \<Rightarrow> nat \<Rightarrow> memory \<Rightarrow> write_ret \<times> memory" where
  "memory_pwrite fd bs off w =
     (if mb_interrupts w > 0 then (WriteFail EINTR, w\<lparr>mb_interrupts := mb_interrupts w - 1\<rparr>)
      else (case map_of (mb_descriptors w) fd of
          None \<Rightarrow> (WriteFail 9, w)
        | Some i \<Rightarrow> (Wrote (length bs),
            w\<lparr>mb_contents := (mb_contents w)[i := write_at (mb_contents w ! i) off bs]\<rparr>)))"

definition memory_ftruncate :: "int \<Rightarrow> nat \<Rightarrow> memory \<Rightarrow> int option \<times> memory" where
  "memory_ftruncate fd n w =
     (case map_of (mb_descriptors w) fd of
        None \<Rightarrow> (Some 9, w)
      | Some i \<Rightarrow> (None, w\<lparr>mb_contents := (mb_contents w)[i := resize n 0 (mb_contents w ! i)]\<rparr>))"

definition memory_close :: "int \<Rightarrow> memory \<Rightarrow> memory" where
  "memory_close fd w = w\<lparr>mb_descriptors := filter (\<lambda>x. fst x \<noteq> fd) (mb_descriptors w)\<rparr>"

definition hex_digit :: "nat \<Rightarrow> char" where
  "hex_digit n = ''0123456789abcdef'' ! n"

text \<open>The hash functions stand in for any: they keep the first bytes.\<close>

definition memory_env :: "memory env" where
  "memory_env = \<lparr>
     br_validate_path = (\<lambda>path. failing (''validate:'' @ path) (\<lambda>w. (0, w))),
     br_create_directory = memory_create_directory,
     br_open_file = memory_open_file,
     br_file_size = memory_file_size,
     br_rename = memory_rename,
     br_remove = memory_remove,
     sys_pread = memory_pread,
     sys_pwrite = memory_pwrite,
     sys_ftruncate = memory_ftruncate,
     sys_close = memory_close,
     clock_now = (\<lambda>w. (mb_clock w, w\<lparr>mb_clock := mb_clock w + 1\<rparr>)),
     allocate_buffer = (\<lambda>w. (Some (replicate 16 0), w)),
     sha1 = (\<lambda>bs. resize 20 0 bs),
     sha256 = (\<lambda>bs. resize 32 0 bs),
     to_hex = (\<lambda>bs. concat (map (\<lambda>b. [hex_digit (unat b div 16), hex_digit (unat b mod 16)]) bs))\<rparr>"

interpretation memory: posix_io memory_env mb_interrupts
  by unfold_locales
    (auto simp: memory_env_def memory_pread_def memory_pwrite_def memory_ftruncate_def split: if_splits option.splits)

end
