(* ===== verification/Transfers.thy ===== *)
theory Transfers
  imports Memory_Bridge
begin

text \<open>
  The transfer helpers of \<^verbatim>\<open>swig/flow_saf_disk_io.hpp\<close>: \<^verbatim>\<open>pread_all\<close> and \<^verbatim>\<open>pwrite_all\<close> repeat a
  partial transfer until all bytes have moved, retry on \<^verbatim>\<open>EINTR\<close> and turn an end of file into
  \<^verbatim>\<open>-EIO\<close>. A loop that is interrupted for ever does not return, which is the value \<open>None\<close>.
\<close>

section \<open>The loops\<close>

text \<open>The result of a failed call: \<^verbatim>\<open>-(errno == 0 ? EIO : errno)\<close>.\<close>

definition negated_errno :: "int \<Rightarrow> int" where
  "negated_errno e = - (if e = 0 then EIO else e)"

partial_function (option) pread_all_loop ::
  "(int \<Rightarrow> nat \<Rightarrow> nat \<Rightarrow> 'w \<Rightarrow> read_ret \<times> 'w) \<Rightarrow> int \<Rightarrow> nat \<Rightarrow> nat \<Rightarrow> nat \<Rightarrow> byte list \<Rightarrow> 'w
     \<Rightarrow> (int \<times> byte list \<times> 'w) option" where
  "pread_all_loop reader fd sz off transferred buffer w =
     (if transferred < sz then
        (case reader fd (sz - transferred) (off + transferred) w of
           (ReadFail e, w') \<Rightarrow>
             if e = EINTR then pread_all_loop reader fd sz off transferred buffer w'
             else Some (negated_errno e, buffer, w')
         | (ReadGot bs, w') \<Rightarrow>
             if bs = [] \<or> length bs > sz - transferred then Some (- EIO, buffer, w')
             else pread_all_loop reader fd sz off (transferred + length bs)
                    (overwrite buffer transferred bs) w')
      else Some (int transferred, buffer, w))"

definition pread_all ::
  "int \<Rightarrow> byte list \<Rightarrow> nat \<Rightarrow> nat \<Rightarrow> (int \<Rightarrow> nat \<Rightarrow> nat \<Rightarrow> 'w \<Rightarrow> read_ret \<times> 'w) \<Rightarrow> 'w
     \<Rightarrow> (int \<times> byte list \<times> 'w) option" where
  "pread_all fd buffer sz off reader w = pread_all_loop reader fd sz off 0 buffer w"

partial_function (option) pwrite_all_loop ::
  "(int \<Rightarrow> byte list \<Rightarrow> nat \<Rightarrow> 'w \<Rightarrow> write_ret \<times> 'w) \<Rightarrow> int \<Rightarrow> byte list \<Rightarrow> nat \<Rightarrow> nat \<Rightarrow> nat \<Rightarrow> 'w
     \<Rightarrow> (int \<times> 'w) option" where
  "pwrite_all_loop writer fd buffer sz off transferred w =
     (if transferred < sz then
        (case writer fd (take (sz - transferred) (drop transferred buffer)) (off + transferred) w of
           (WriteFail e, w') \<Rightarrow>
             if e = EINTR then pwrite_all_loop writer fd buffer sz off transferred w'
             else Some (negated_errno e, w')
         | (Wrote n, w') \<Rightarrow>
             if n = 0 \<or> n > sz - transferred then Some (- EIO, w')
             else pwrite_all_loop writer fd buffer sz off (transferred + n) w')
      else Some (int transferred, w))"

definition pwrite_all ::
  "int \<Rightarrow> byte list \<Rightarrow> nat \<Rightarrow> nat \<Rightarrow> (int \<Rightarrow> byte list \<Rightarrow> nat \<Rightarrow> 'w \<Rightarrow> write_ret \<times> 'w) \<Rightarrow> 'w
     \<Rightarrow> (int \<times> 'w) option" where
  "pwrite_all fd buffer sz off writer w = pwrite_all_loop writer fd buffer sz off 0 w"

section \<open>Termination\<close>

text \<open>
  The loops return whenever interruptions are finite; no bound on what the callee reports is
  needed, since both loops check the count before they use it.
\<close>

lemma pread_all_loop_returns:
  fixes pending :: "'w \<Rightarrow> nat"
  assumes "\<And>n off w w'. reader fd n off w = (ReadFail EINTR, w') \<Longrightarrow> pending w' < pending w"
  shows "\<exists>r. pread_all_loop reader fd sz off transferred buffer w = Some r"
proof (induction "(sz - transferred, pending w)" arbitrary: transferred buffer w
    rule: wf_induct_rule [OF wf_lex_prod [OF wf_less_than wf_less_than]])
  case 1
  note IH = "1"
  show ?case
  proof (cases "transferred < sz")
    case False
    then show ?thesis by (subst pread_all_loop.simps) simp
  next
    case inside: True
    obtain ret w' where ret: "reader fd (sz - transferred) (off + transferred) w = (ret, w')"
      by fastforce
    show ?thesis
    proof (cases ret)
      case (ReadFail e)
      with inside ret IH [of transferred w' buffer] assms show ?thesis
        by (subst pread_all_loop.simps) auto
    next
      case (ReadGot bs)
      with inside ret IH [of "transferred + length bs" w' "overwrite buffer transferred bs"]
        transfer_progress [OF inside, of "length bs"] show ?thesis by (subst pread_all_loop.simps) auto
    qed
  qed
qed

lemma pwrite_all_loop_returns:
  fixes pending :: "'w \<Rightarrow> nat"
  assumes "\<And>bs off w w'. writer fd bs off w = (WriteFail EINTR, w') \<Longrightarrow> pending w' < pending w"
  shows "\<exists>r. pwrite_all_loop writer fd buffer sz off transferred w = Some r"
proof (induction "(sz - transferred, pending w)" arbitrary: transferred w
    rule: wf_induct_rule [OF wf_lex_prod [OF wf_less_than wf_less_than]])
  case 1
  note IH = "1"
  show ?case
  proof (cases "transferred < sz")
    case False
    then show ?thesis by (subst pwrite_all_loop.simps) simp
  next
    case inside: True
    obtain ret w' where
      ret: "writer fd (take (sz - transferred) (drop transferred buffer)) (off + transferred) w = (ret, w')"
      by fastforce
    show ?thesis
    proof (cases ret)
      case (WriteFail e)
      with inside ret IH [of transferred w'] assms show ?thesis
        by (subst pwrite_all_loop.simps) auto
    next
      case (Wrote n)
      with inside ret IH [of "transferred + n" w'] transfer_progress [OF inside, of n] show ?thesis
        by (subst pwrite_all_loop.simps) auto
    qed
  qed
qed

section \<open>Induction over the iterations\<close>

text \<open>One case per way an iteration can go, for the runs that return.\<close>

lemma pread_all_loop_induct [consumes 1, case_names Done Fail Interrupt Stop Progress]:
  assumes "pread_all_loop reader fd sz off t buf w = Some r"
    and "\<And>t buf w. sz \<le> t \<Longrightarrow> Q t buf w (int t, buf, w)"
    and "\<And>t buf w e w'. t < sz \<Longrightarrow> reader fd (sz - t) (off + t) w = (ReadFail e, w') \<Longrightarrow> e \<noteq> EINTR \<Longrightarrow>
           Q t buf w (negated_errno e, buf, w')"
    and "\<And>t buf w w' r. t < sz \<Longrightarrow> reader fd (sz - t) (off + t) w = (ReadFail EINTR, w') \<Longrightarrow>
           Q t buf w' r \<Longrightarrow> Q t buf w r"
    and "\<And>t buf w bs w'. t < sz \<Longrightarrow> reader fd (sz - t) (off + t) w = (ReadGot bs, w') \<Longrightarrow>
           bs = [] \<or> length bs > sz - t \<Longrightarrow> Q t buf w (- EIO, buf, w')"
    and "\<And>t buf w bs w' r. t < sz \<Longrightarrow> reader fd (sz - t) (off + t) w = (ReadGot bs, w') \<Longrightarrow>
           bs \<noteq> [] \<Longrightarrow> length bs \<le> sz - t \<Longrightarrow> Q (t + length bs) (overwrite buf t bs) w' r \<Longrightarrow> Q t buf w r"
  shows "Q t buf w r"
proof -
  have "reader = reader \<longrightarrow> fd = fd \<longrightarrow> sz = sz \<longrightarrow> off = off \<longrightarrow> Q t buf w r"
    by (rule pread_all_loop.raw_induct [where
          P = "\<lambda>rd f s k t buf w r. rd = reader \<longrightarrow> f = fd \<longrightarrow> s = sz \<longrightarrow> k = off \<longrightarrow> Q t buf w r",
          OF _ assms(1)])
      (auto split: if_splits read_ret.splits prod.splits
        intro: assms(2-6) simp: not_less)
  then show ?thesis by simp
qed

lemma pwrite_all_loop_induct [consumes 1, case_names Done Fail Interrupt Stop Progress]:
  assumes "pwrite_all_loop writer fd buf sz off t w = Some r"
    and "\<And>t w. sz \<le> t \<Longrightarrow> Q t w (int t, w)"
    and "\<And>t w e w'. t < sz \<Longrightarrow> writer fd (take (sz - t) (drop t buf)) (off + t) w = (WriteFail e, w') \<Longrightarrow>
           e \<noteq> EINTR \<Longrightarrow> Q t w (negated_errno e, w')"
    and "\<And>t w w' r. t < sz \<Longrightarrow> writer fd (take (sz - t) (drop t buf)) (off + t) w = (WriteFail EINTR, w') \<Longrightarrow>
           Q t w' r \<Longrightarrow> Q t w r"
    and "\<And>t w n w'. t < sz \<Longrightarrow> writer fd (take (sz - t) (drop t buf)) (off + t) w = (Wrote n, w') \<Longrightarrow>
           n = 0 \<or> n > sz - t \<Longrightarrow> Q t w (- EIO, w')"
    and "\<And>t w n w' r. t < sz \<Longrightarrow> writer fd (take (sz - t) (drop t buf)) (off + t) w = (Wrote n, w') \<Longrightarrow>
           0 < n \<Longrightarrow> n \<le> sz - t \<Longrightarrow> Q (t + n) w' r \<Longrightarrow> Q t w r"
  shows "Q t w r"
proof -
  have "writer = writer \<longrightarrow> fd = fd \<longrightarrow> buf = buf \<longrightarrow> sz = sz \<longrightarrow> off = off \<longrightarrow> Q t w r"
    by (rule pwrite_all_loop.raw_induct [where
          P = "\<lambda>wr f b s k t w r. wr = writer \<longrightarrow> f = fd \<longrightarrow> b = buf \<longrightarrow> s = sz \<longrightarrow> k = off \<longrightarrow> Q t w r",
          OF _ assms(1)])
      (auto split: if_splits write_ret.splits prod.splits
        intro: assms(2-6) simp: not_less)
  then show ?thesis by simp
qed

section \<open>What the loops preserve and return\<close>

lemma pread_all_preserves:
  assumes "pread_all fd buffer sz off reader w = Some (r, buffer', w')"
    and "\<And>n off w. P w \<Longrightarrow> P (snd (reader fd n off w))" and "P w"
  shows "P w'"
proof -
  have "P w \<longrightarrow> P (snd (snd (r, buffer', w')))"
    using assms(1) unfolding pread_all_def
    by (induction rule: pread_all_loop_induct) (metis assms(2) snd_conv)+
  with \<open>P w\<close> show ?thesis by simp
qed

lemma pwrite_all_preserves:
  assumes "pwrite_all fd buffer sz off writer w = Some (r, w')"
    and "\<And>bs off w. P w \<Longrightarrow> P (snd (writer fd bs off w))" and "P w"
  shows "P w'"
proof -
  have "P w \<longrightarrow> P (snd (r, w'))"
    using assms(1) unfolding pwrite_all_def
    by (induction rule: pwrite_all_loop_induct) (metis assms(2) snd_conv)+
  with \<open>P w\<close> show ?thesis by simp
qed

context posix_io
begin

lemma pread_all_returns:
  "\<exists>r buffer' w'. pread_all fd buffer sz off (sys_pread E) w = Some (r, buffer', w')"
  using pread_all_loop_returns [where reader = "sys_pread E" and pending = pending] pread_interrupt
  by (fastforce simp: pread_all_def)

lemma pwrite_all_returns:
  "\<exists>r w'. pwrite_all fd buffer sz off (sys_pwrite E) w = Some (r, w')"
  using pwrite_all_loop_returns [where writer = "sys_pwrite E" and pending = pending] pwrite_interrupt
  by (fastforce simp: pwrite_all_def)

end

context bridge_discipline
begin

lemma clean_pread_all:
  "pread_all fd buffer sz off (sys_pread E) w = Some (r, buffer', w') \<Longrightarrow> fd \<in># L \<Longrightarrow> clean L w \<Longrightarrow> clean L w'"
  by (erule pread_all_preserves) (auto intro: clean_pread)

lemma clean_pwrite_all:
  "pwrite_all fd buffer sz off (sys_pwrite E) w = Some (r, w') \<Longrightarrow> fd \<in># L \<Longrightarrow> clean L w \<Longrightarrow> clean L w'"
  by (erule pwrite_all_preserves) (auto intro: clean_pwrite)

end

lemma pread_all_length:
  assumes "pread_all fd buffer sz off reader w = Some (r, buffer', w')" and "sz \<le> length buffer"
  shows "length buffer' = length buffer"
proof -
  have "sz \<le> length buffer \<longrightarrow> length (fst (snd (r, buffer', w'))) = length buffer"
    using assms(1) unfolding pread_all_def
    by (induction rule: pread_all_loop_induct) (auto simp: overwrite_def)
  with assms(2) show ?thesis by simp
qed

lemma negated_errno_neg: "0 \<le> e \<Longrightarrow> negated_errno e < 0"
  by (simp add: negated_errno_def)

text \<open>
  A reader serves the content \<open>c\<close> while \<open>P\<close> holds when what it reads at an offset is a prefix of
  \<open>c\<close> from there; a writer stores a prefix of its input into the content of the world.
\<close>

definition serves :: "('w \<Rightarrow> bool) \<Rightarrow> byte list \<Rightarrow> int \<Rightarrow> (int \<Rightarrow> nat \<Rightarrow> nat \<Rightarrow> 'w \<Rightarrow> read_ret \<times> 'w) \<Rightarrow> bool" where
  "serves P c fd reader \<longleftrightarrow>
     (\<forall>n off w r w'. P w \<and> reader fd n off w = (r, w') \<longrightarrow> P w' \<and>
        (case r of ReadGot bs \<Rightarrow> bs = take (length bs) (drop off c) | ReadFail e \<Rightarrow> 0 \<le> e))"

definition stores :: "('w \<Rightarrow> byte list) \<Rightarrow> int \<Rightarrow> (int \<Rightarrow> byte list \<Rightarrow> nat \<Rightarrow> 'w \<Rightarrow> write_ret \<times> 'w) \<Rightarrow> bool" where
  "stores cont fd writer \<longleftrightarrow>
     (\<forall>bs off w r w'. writer fd bs off w = (r, w') \<longrightarrow>
        (case r of Wrote n \<Rightarrow> n \<le> length bs \<and> cont w' = write_at (cont w) off (take n bs)
           | WriteFail e \<Rightarrow> 0 \<le> e \<and> cont w' = cont w))"

lemma serves_got:
  "serves P c fd reader \<Longrightarrow> P w \<Longrightarrow> reader fd n off w = (ReadGot bs, w') \<Longrightarrow>
     P w' \<and> bs = take (length bs) (drop off c)"
  unfolding serves_def by fastforce

lemma serves_fail:
  "serves P c fd reader \<Longrightarrow> P w \<Longrightarrow> reader fd n off w = (ReadFail e, w') \<Longrightarrow> P w' \<and> 0 \<le> e"
  unfolding serves_def by fastforce

lemma stores_wrote:
  "stores cont fd writer \<Longrightarrow> writer fd bs off w = (Wrote n, w') \<Longrightarrow>
     n \<le> length bs \<and> cont w' = write_at (cont w) off (take n bs)"
  unfolding stores_def by fastforce

lemma stores_fail:
  "stores cont fd writer \<Longrightarrow> writer fd bs off w = (WriteFail e, w') \<Longrightarrow> 0 \<le> e \<and> cont w' = cont w"
  unfolding stores_def by fastforce

lemma pread_all_loop_serves:
  assumes "pread_all_loop reader fd sz off t buf w = Some r"
    and "serves P c fd reader" "P w" "t \<le> sz" "sz \<le> length buf" "t + off \<le> length c \<or> t = 0"
    and "take t buf = take t (drop off c)"
  shows "case r of (res, buf', w') \<Rightarrow> P w' \<and> (res < 0 \<or>
           res = int sz \<and> buf' = take sz (drop off c) @ drop sz buf \<and> (sz = 0 \<or> off + sz \<le> length c))"
  using assms
proof (induction rule: pread_all_loop_induct)
  case (Done t buf w)
  then have "t = sz" by simp
  with Done.prems show ?case using append_take_drop_id [of sz buf] by auto
next
  case (Fail t buf w e w')
  then show ?case using serves_fail [OF Fail.prems(1,2) Fail.hyps(2)] negated_errno_neg by simp
next
  case (Interrupt t buf w w' r)
  then show ?case using serves_fail [OF Interrupt.prems(1,2) Interrupt.hyps(2)] by simp
next
  case (Stop t buf w bs w')
  then show ?case using serves_got [OF Stop.prems(1,2) Stop.hyps(2)] by simp
next
  case (Progress t buf w bs w' r)
  have P: "P w'" and bs: "bs = take (length bs) (drop (off + t) c)"
    using serves_got [OF Progress.prems(1,2) Progress.hyps(2)] by auto
  from bs have "length bs \<le> length c - (off + t)" by (metis length_drop length_take min.bounded_iff order_refl)
  with \<open>bs \<noteq> []\<close> have len: "t + length bs + off \<le> length c" by (cases bs) auto
  have t: "t \<le> length buf" "t + length bs \<le> sz" "t + length bs \<le> length buf"
    using Progress.hyps Progress.prems(3,4) by auto
  have "take (t + length bs) (overwrite buf t bs) = take t (drop off c) @ take (length bs) (drop (off + t) c)"
    using t(1) Progress.prems(6) bs by simp
  also have "\<dots> = take (t + length bs) (drop off c)"
    by (simp add: take_add ac_simps)
  finally have 1: "take (t + length bs) (overwrite buf t bs) = take (t + length bs) (drop off c)" .
  have 2: "drop sz (overwrite buf t bs) = drop sz buf"
    using t by (simp add: overwrite_def)
  show ?case
    using Progress.IH [OF Progress.prems(1) P t(2)] t Progress.prems(4) len 1 2 by simp
qed

lemma pwrite_all_loop_stores:
  assumes "pwrite_all_loop writer fd buf sz off t w = Some r"
    and "stores cont fd writer" "t \<le> sz" "sz \<le> length buf" "cont w = write_at c off (take t buf)"
  shows "case r of (res, w') \<Rightarrow> \<exists>k \<le> sz. cont w' = write_at c off (take k buf) \<and> (res < 0 \<or> res = int sz \<and> k = sz)"
  using assms
proof (induction rule: pwrite_all_loop_induct)
  case (Done t w)
  then show ?case by auto
next
  case (Fail t w e w')
  then show ?case using stores_fail [OF Fail.prems(1) Fail.hyps(2)] negated_errno_neg
    by (auto intro!: exI [of _ t])
next
  case (Interrupt t w w' r)
  then show ?case using stores_fail [OF Interrupt.prems(1) Interrupt.hyps(2)] by simp
next
  case (Stop t w n w')
  then have n: "n = 0" using stores_wrote [OF Stop.prems(1) Stop.hyps(2)] by auto
  then show ?case using stores_wrote [OF Stop.prems(1) Stop.hyps(2)] Stop.prems by auto
next
  case (Progress t w n w' r)
  have "take (t + n) buf = take t buf @ take n (take (sz - t) (drop t buf))"
    using Progress.hyps by (simp add: take_add min_def)
  moreover have "length (take t buf) = t" using Progress.prems by simp
  ultimately have "cont w' = write_at c off (take (t + n) buf)"
    using stores_wrote [OF Progress.prems(1) Progress.hyps(2)] Progress.prems(4)
      write_at_adjacent [of c off "take t buf"] by simp
  then show ?case using Progress.IH Progress.prems Progress.hyps by simp
qed

section \<open>Properties\<close>

text \<open>C8. \<^verbatim>\<open>pread_all\<close> returns whenever interruptions are finite, and then either reports a
  negative error number or has read exactly the requested bytes: it never reports a short count,
  and on success the buffer holds the content of the file at the offset.\<close>

theorem pread_all_total_correct:
  fixes pending :: "'w \<Rightarrow> nat"
  assumes "\<And>n off w w'. reader fd n off w = (ReadFail EINTR, w') \<Longrightarrow> pending w' < pending w"
    and "serves P c fd reader" and "P w" and "sz \<le> length buffer"
  shows "\<exists>res buffer' w'. pread_all fd buffer sz off reader w = Some (res, buffer', w') \<and> P w' \<and>
           (res < 0 \<or> res = int sz \<and> buffer' = take sz (drop off c) @ drop sz buffer \<and>
              (sz = 0 \<or> off + sz \<le> length c))"
proof -
  obtain r where r: "pread_all_loop reader fd sz off 0 buffer w = Some r"
    using pread_all_loop_returns [of reader fd pending] assms(1) by blast
  with pread_all_loop_serves [OF r assms(2,3)] assms(4) show ?thesis
    by (cases r) (auto simp: pread_all_def)
qed

text \<open>C9. \<^verbatim>\<open>pwrite_all\<close> returns whenever interruptions are finite; it reports exactly the requested
  count when the whole buffer is in the file at the offset, and otherwise a negative error number,
  with some prefix of the buffer written and nothing else changed.\<close>

theorem pwrite_all_total_correct:
  fixes pending :: "'w \<Rightarrow> nat"
  assumes "\<And>bs off w w'. writer fd bs off w = (WriteFail EINTR, w') \<Longrightarrow> pending w' < pending w"
    and "stores cont fd writer" and "sz \<le> length buffer"
  shows "\<exists>res w' k. pwrite_all fd buffer sz off writer w = Some (res, w') \<and> k \<le> sz \<and>
           cont w' = write_at (cont w) off (take k buffer) \<and> (res < 0 \<or> res = int sz \<and> k = sz)"
proof -
  obtain r where r: "pwrite_all_loop writer fd buffer sz off 0 w = Some r"
    using pwrite_all_loop_returns [of writer fd pending] assms(1) by blast
  with pwrite_all_loop_stores [OF r assms(2), of "cont w"] assms(3) show ?thesis
    by (cases r) (auto simp: pwrite_all_def)
qed

text \<open>
  The reader and the writer of \<^verbatim>\<open>test_transfer_helpers_retry_interrupts_and_partial_io\<close>: the first
  call is interrupted, every later one moves at most two bytes. The world of the reader counts the
  calls, the world of the writer is the count and the bytes written.
\<close>

definition test_reader :: "byte list \<Rightarrow> int \<Rightarrow> nat \<Rightarrow> nat \<Rightarrow> nat \<Rightarrow> read_ret \<times> nat" where
  "test_reader source fd sz off read_calls =
     (if read_calls = 0 then (ReadFail EINTR, read_calls + 1)
      else (ReadGot (take (min sz 2) (drop off source)), read_calls + 1))"

definition test_writer :: "int \<Rightarrow> byte list \<Rightarrow> nat \<Rightarrow> nat \<times> byte list \<Rightarrow> write_ret \<times> nat \<times> byte list" where
  "test_writer fd buffer off w =
     (case w of (write_calls, written) \<Rightarrow>
        if write_calls = 0 then (WriteFail EINTR, write_calls + 1, written)
        else let count = min (length buffer) 2
             in (Wrote count, write_calls + 1, write_at written off (take count buffer)))"

lemma serves_test_reader: "serves (\<lambda>_. True) c fd (test_reader c)"
proof -
  have "take (min (length c - off) m) (drop off c) = take m (drop off c)" for m off
    by (cases "m \<le> length c - off") (auto simp: min_def)
  then show ?thesis by (auto simp: serves_def test_reader_def split: if_splits)
qed

theorem pread_all_witness:
  "\<exists>w'. pread_all 7 [0, 0, 0, 0, 0, 0] 6 0 (test_reader [102, 108, 111, 119, 33, 33]) 0
     = Some (6, [102, 108, 111, 119, 33, 33], w')"
proof -
  let ?c = "[102, 108, 111, 119, 33, 33] :: byte list"
  have "\<exists>res buffer' w'. pread_all 7 [0, 0, 0, 0, 0, 0] 6 0 (test_reader ?c) 0 = Some (res, buffer', w') \<and> True \<and>
      (res < 0 \<or> res = int 6 \<and> buffer' = take 6 (drop 0 ?c) @ drop 6 [0, 0, 0, 0, 0, 0] \<and>
         (6 = (0::nat) \<or> 0 + 6 \<le> length ?c))"
    by (rule pread_all_total_correct [where pending = "\<lambda>n. if n = 0 then 1 else 0" and P = "\<lambda>_. True"])
      (auto simp: test_reader_def serves_test_reader split: if_splits)
  then obtain res buffer' w' where run: "pread_all 7 [0, 0, 0, 0, 0, 0] 6 0 (test_reader ?c) 0 = Some (res, buffer', w')"
    and res: "res < 0 \<or> res = int 6 \<and> buffer' = ?c" by auto
  have "\<exists>b w'. pread_all 7 [0, 0, 0, 0, 0, 0] 6 0 (test_reader ?c) 0 = Some (6, b, w')"
    by (simp add: pread_all_def pread_all_loop.simps test_reader_def numeral_eq_Suc overwrite_def)
  with run res show ?thesis by auto
qed

theorem pwrite_all_witness:
  "\<exists>n. pwrite_all 8 [102, 108, 111, 119, 33, 33] 6 0 test_writer (0, []) =
     Some (6, n, [102, 108, 111, 119, 33, 33])"
proof -
  let ?c = "[102, 108, 111, 119, 33, 33] :: byte list"
  have "\<exists>res w' k. pwrite_all 8 ?c 6 0 test_writer (0, []) = Some (res, w') \<and> k \<le> 6 \<and>
      snd w' = write_at (snd (0::nat, [])) 0 (take k ?c) \<and> (res < 0 \<or> res = int 6 \<and> k = 6)"
    by (rule pwrite_all_total_correct [where pending = "\<lambda>(n, _). if n = 0 then 1 else 0"])
      (auto simp: test_writer_def stores_def Let_def split: if_splits)
  then obtain res w' k where run: "pwrite_all 8 ?c 6 0 test_writer (0, []) = Some (res, w')"
    and res: "snd w' = write_at [] 0 (take k ?c)" "res < 0 \<or> res = int 6 \<and> k = 6" by auto
  have "\<exists>w'. pwrite_all 8 ?c 6 0 test_writer (0, []) = Some (6, w')"
    by (simp add: pwrite_all_def pwrite_all_loop.simps test_writer_def numeral_eq_Suc)
  with run res show ?thesis by (cases w') (auto simp: write_at_def overwrite_def)
qed

end
