(* ===== verification/Descriptors.thy ===== *)
theory Descriptors
  imports Transfers "HOL-Library.Sublist"
begin

text \<open>
  The descriptor pool of \<^verbatim>\<open>flow_saf_disk_io\<close>: the cache \<^verbatim>\<open>m_descriptors\<close> of open files, bounded by
  \<^verbatim>\<open>m_descriptor_limit\<close> with eviction of the least recently used entry, and the creation of the
  parent directories of a file opened for writing. The file \<open>-1\<close> is the part file of a storage.
\<close>

section \<open>State\<close>

record open_descriptor =
  od_storage :: nat
  od_file :: int
  od_path :: string
  od_descriptor :: int
  od_writable :: bool
  od_last_use :: "64 word"
  od_last_use_time :: int

record 'w disk =
  m_descriptors :: "open_descriptor list"
  m_descriptor_limit :: int
  m_use_counter :: "64 word"
  world :: 'w

text \<open>The destructor and \<^verbatim>\<open>reset\<close> of \<^verbatim>\<open>scoped_descriptor\<close>.\<close>

definition scoped_reset :: "'w env \<Rightarrow> int \<Rightarrow> 'w \<Rightarrow> 'w" where
  "scoped_reset E descriptor w = (if descriptor \<ge> 0 then sys_close E descriptor w else w)"

section \<open>Parent directories\<close>

text \<open>The \<^verbatim>\<open>while\<close> loop over the separators of the path.\<close>

function make_directories ::
  "'w env \<Rightarrow> string \<Rightarrow> nat option \<Rightarrow> storage_error \<Rightarrow> int \<Rightarrow> 'w \<Rightarrow> bool \<times> storage_error \<times> 'w" where
  "make_directories E path separator error f w =
     (case separator of
        None \<Rightarrow> (True, error, w)
      | Some sep \<Rightarrow>
          let (result, w') = br_create_directory E (take sep path) w
          in if result < 0 \<and> result \<noteq> - EEXIST then (False, make_error result f Op_mkdir, w')
             else make_directories E path (find_from slash path (sep + 1)) error f w')"
  by pat_completeness auto
termination
  by (relation "measure (\<lambda>(E, path, separator, error, f, w).
        case separator of None \<Rightarrow> 0 | Some sep \<Rightarrow> Suc (length path - sep))")
    (auto dest: find_from_bounds split: option.splits)

declare make_directories.simps [simp del]

definition ensure_parent_directories ::
  "'w env \<Rightarrow> string \<Rightarrow> storage_error \<Rightarrow> int \<Rightarrow> 'w \<Rightarrow> bool \<times> storage_error \<times> 'w" where
  "ensure_parent_directories E path error f w =
     (if \<not> safe_relative_path path then (False, storage_error_at (GenericError EINVAL) f Op_mkdir, w)
      else make_directories E path (find_from slash path 0) error f w)"

section \<open>Eviction and closing\<close>

text \<open>\<^verbatim>\<open>std::min_element\<close> by \<^verbatim>\<open>last_use\<close>: the position of the first smallest entry.\<close>

fun oldest :: "open_descriptor list \<Rightarrow> nat" where
  "oldest [] = 0"
| "oldest [x] = 0"
| "oldest (x # y # ys) =
     (let i = oldest (y # ys)
      in if od_last_use ((y # ys) ! i) < od_last_use x then Suc i else 0)"

definition evict_one :: "'w env \<Rightarrow> ('w, 'z) disk_scheme \<Rightarrow> ('w, 'z) disk_scheme" where
  "evict_one E d =
     (if m_descriptors d = [] then d
      else let i = oldest (m_descriptors d)
        in d\<lparr>m_descriptors := erase_at i (m_descriptors d),
             world := sys_close E (od_descriptor (m_descriptors d ! i)) (world d)\<rparr>)"

text \<open>\<^verbatim>\<open>while (int(m_descriptors.size()) >= m_descriptor_limit.load()) evict_one();\<close>\<close>

partial_function (option) evict_to_limit ::
  "'w env \<Rightarrow> ('w, 'z) disk_scheme \<Rightarrow> ('w, 'z) disk_scheme option" where
  "evict_to_limit E d =
     (if int (length (m_descriptors d)) \<ge> m_descriptor_limit d then evict_to_limit E (evict_one E d)
      else Some d)"

text \<open>
  The loop shared by \<^verbatim>\<open>close_storage\<close> and \<^verbatim>\<open>close_file\<close>: close and erase the entries that match.
\<close>

fun close_matching ::
  "'w env \<Rightarrow> (open_descriptor \<Rightarrow> bool) \<Rightarrow> open_descriptor list \<Rightarrow> 'w \<Rightarrow> open_descriptor list \<times> 'w" where
  "close_matching E p [] w = ([], w)"
| "close_matching E p (x # xs) w =
     (if p x then close_matching E p xs (sys_close E (od_descriptor x) w)
      else let (ys, w') = close_matching E p xs w in (x # ys, w'))"

definition close_storage :: "'w env \<Rightarrow> nat \<Rightarrow> ('w, 'z) disk_scheme \<Rightarrow> ('w, 'z) disk_scheme" where
  "close_storage E storage d =
     (let (ds, w) = close_matching E (\<lambda>x. od_storage x = storage) (m_descriptors d) (world d)
      in d\<lparr>m_descriptors := ds, world := w\<rparr>)"

definition close_file :: "'w env \<Rightarrow> nat \<Rightarrow> int \<Rightarrow> ('w, 'z) disk_scheme \<Rightarrow> ('w, 'z) disk_scheme" where
  "close_file E storage f d =
     (let (ds, w) = close_matching E (\<lambda>x. od_storage x = storage \<and> od_file x = f) (m_descriptors d) (world d)
      in d\<lparr>m_descriptors := ds, world := w\<rparr>)"

definition close_all :: "'w env \<Rightarrow> ('w, 'z) disk_scheme \<Rightarrow> ('w, 'z) disk_scheme" where
  "close_all E d =
     d\<lparr>m_descriptors := [],
       world := fold (\<lambda>x w. sys_close E (od_descriptor x) w) (m_descriptors d) (world d)\<rparr>"

section \<open>Opening\<close>

text \<open>The position of the first entry for a storage, file and path.\<close>

fun find_descriptor :: "nat \<Rightarrow> int \<Rightarrow> string \<Rightarrow> open_descriptor list \<Rightarrow> nat option" where
  "find_descriptor storage f path [] = None"
| "find_descriptor storage f path (x # xs) =
     (if od_storage x \<noteq> storage \<or> od_file x \<noteq> f \<or> od_path x \<noteq> path
      then map_option Suc (find_descriptor storage f path xs) else Some 0)"

text \<open>The part of \<^verbatim>\<open>open_file\<close> after the search of the cache.\<close>

definition open_uncached ::
  "'w env \<Rightarrow> nat \<Rightarrow> int \<Rightarrow> string \<Rightarrow> bool \<Rightarrow> storage_error \<Rightarrow> operation_t \<Rightarrow> ('w, 'z) disk_scheme
     \<Rightarrow> (int \<times> storage_error \<times> ('w, 'z) disk_scheme) option" where
  "open_uncached E storage f path wr error oper d =
     (let (ok, error', w) = (if wr then ensure_parent_directories E path error f (world d)
                             else (True, error, world d));
          d1 = d\<lparr>world := w\<rparr>
      in if \<not> ok then Some (- 1, error', d1)
         else if \<not> safe_relative_path path then
           Some (- 1, storage_error_at (GenericError EINVAL) f oper, d1)
         else do {
           d2 \<leftarrow> evict_to_limit E d1;
           let (result, w2) = br_open_file E path
                 (if wr then bridge_open_read_write else bridge_open_read) (world d2);
           if result < 0 then Some (- 1, make_error result f oper, d2\<lparr>world := w2\<rparr>)
           else
             let c = m_use_counter d2 + 1;
                 (now, w3) = clock_now E w2
             in Some (result, error', d2\<lparr>
                  m_descriptors := m_descriptors d2 @
                    [\<lparr>od_storage = storage, od_file = f, od_path = path, od_descriptor = result,
                      od_writable = wr, od_last_use = c, od_last_use_time = now\<rparr>],
                  m_use_counter := c, world := w3\<rparr>)
         })"

definition open_file ::
  "'w env \<Rightarrow> nat \<Rightarrow> int \<Rightarrow> string \<Rightarrow> bool \<Rightarrow> storage_error \<Rightarrow> operation_t \<Rightarrow> ('w, 'z) disk_scheme
     \<Rightarrow> (int \<times> storage_error \<times> ('w, 'z) disk_scheme) option" where
  "open_file E storage f path wr error oper d =
     (case find_descriptor storage f path (m_descriptors d) of
        Some i \<Rightarrow>
          let x = m_descriptors d ! i
          in if \<not> wr \<or> od_writable x then
               let c = m_use_counter d + 1;
                   (now, w) = clock_now E (world d)
               in Some (od_descriptor x, error, d\<lparr>
                    m_descriptors := (m_descriptors d)[i := x\<lparr>od_last_use := c, od_last_use_time := now\<rparr>],
                    m_use_counter := c, world := w\<rparr>)
             else open_uncached E storage f path wr error oper
               (d\<lparr>m_descriptors := erase_at i (m_descriptors d),
                  world := sys_close E (od_descriptor x) (world d)\<rparr>)
      | None \<Rightarrow> open_uncached E storage f path wr error oper d)"

text \<open>The pool limit of \<^verbatim>\<open>settings_updated\<close>: at least one descriptor.\<close>

definition set_descriptor_limit :: "int \<Rightarrow> ('w, 'z) disk_scheme \<Rightarrow> ('w, 'z) disk_scheme" where
  "set_descriptor_limit file_pool_size d = d\<lparr>m_descriptor_limit := max 1 file_pool_size\<rparr>"

section \<open>Searching, parent directories, eviction\<close>

definition od_matches :: "nat \<Rightarrow> int \<Rightarrow> string \<Rightarrow> open_descriptor \<Rightarrow> bool" where
  "od_matches storage f path x \<longleftrightarrow> od_storage x = storage \<and> od_file x = f \<and> od_path x = path"

lemma find_descriptor_Some:
  "find_descriptor storage f path ds = Some i \<Longrightarrow>
     i < length ds \<and> od_matches storage f path (ds ! i)"
  by (induction ds arbitrary: i) (auto simp: od_matches_def split: if_splits)

lemma find_descriptor_None:
  "find_descriptor storage f path ds = None \<longleftrightarrow> (\<forall>x \<in> set ds. \<not> od_matches storage f path x)"
  by (induction ds) (auto simp: od_matches_def)

lemma make_directories_ok:
  "make_directories E path separator error f w = (ok, error', w') \<Longrightarrow>
     (ok \<longrightarrow> error' = error) \<and> (\<not> ok \<longrightarrow> has_error error')"
proof (induction E path separator error f w rule: make_directories.induct)
  case (1 E path separator error f w)
  show ?case
  proof (cases separator)
    case None
    with "1.prems" show ?thesis by (subst (asm) make_directories.simps) simp
  next
    case (Some sep)
    obtain result w1 where w1: "br_create_directory E (take sep path) w = (result, w1)"
      by fastforce
    show ?thesis
      using "1.prems" "1.IH" [OF Some w1 [symmetric] refl] Some w1
      by (subst (asm) make_directories.simps) (auto split: if_splits)
  qed
qed

lemma ensure_parent_directories_ok:
  "ensure_parent_directories E path error f w = (ok, error', w') \<Longrightarrow>
     (ok \<longrightarrow> error' = error \<and> safe_relative_path path) \<and> (\<not> ok \<longrightarrow> has_error error')"
  by (auto simp: ensure_parent_directories_def dest: make_directories_ok split: if_splits)

lemma oldest_minimal:
  "ds \<noteq> [] \<Longrightarrow> oldest ds < length ds \<and> (\<forall>x \<in> set ds. od_last_use (ds ! oldest ds) \<le> od_last_use x)"
proof (induction ds rule: oldest.induct)
  case (3 x y ys)
  then show ?case by (auto simp: Let_def)
qed auto

text \<open>The loop ends because the limit is positive: an empty cache is below it.\<close>

lemma evict_to_limit_returns:
  "1 \<le> m_descriptor_limit d \<Longrightarrow> \<exists>d'. evict_to_limit E d = Some d'"
proof (induction "length (m_descriptors d)" arbitrary: d rule: less_induct)
  case less
  show ?case
  proof (cases "int (length (m_descriptors d)) \<ge> m_descriptor_limit d")
    case False
    then show ?thesis by (subst evict_to_limit.simps) simp
  next
    case True
    with less.prems have "m_descriptors d \<noteq> []" by auto
    then have "length (m_descriptors (evict_one E d)) < length (m_descriptors d)"
        "m_descriptor_limit (evict_one E d) = m_descriptor_limit d"
      using oldest_minimal [of "m_descriptors d"] by (auto simp: evict_one_def Let_def)
    with less True show ?thesis by (subst evict_to_limit.simps) simp
  qed
qed

lemma evict_to_limit_induct [consumes 1, case_names Done Evict]:
  assumes "evict_to_limit E d = Some d'"
    and "\<And>d. int (length (m_descriptors d)) < m_descriptor_limit d \<Longrightarrow> Q d d"
    and "\<And>d d'. int (length (m_descriptors d)) \<ge> m_descriptor_limit d \<Longrightarrow> Q (evict_one E d) d' \<Longrightarrow> Q d d'"
  shows "Q d d'"
proof -
  have "E = E \<longrightarrow> Q d d'"
    by (rule evict_to_limit.raw_induct [where P = "\<lambda>E' d d'. E' = E \<longrightarrow> Q d d'", OF _ assms(1)])
      (auto split: if_splits intro: assms(2,3))
  then show ?thesis by simp
qed

text \<open>
  What an operation on the cache leaves alone when it only drops entries: the limit, the use
  counter and the remaining entries.
\<close>

definition drops_entries :: "('w, 'z) disk_scheme \<Rightarrow> ('w, 'z) disk_scheme \<Rightarrow> bool" where
  "drops_entries d d' \<longleftrightarrow>
     m_descriptor_limit d' = m_descriptor_limit d \<and> m_use_counter d' = m_use_counter d
     \<and> disk.more d' = disk.more d \<and> subseq (m_descriptors d') (m_descriptors d)"

lemma subseq_erase_at: "subseq (erase_at i xs) xs"
proof (cases "i < length xs")
  case True
  then have "xs = take i xs @ xs ! i # drop (Suc i) xs" by (rule id_take_nth_drop)
  moreover have "subseq (drop (Suc i) xs) (xs ! i # drop (Suc i) xs)" by auto
  ultimately show ?thesis unfolding erase_at_def by (metis list_emb_append_mono subseq_order.refl)
qed (simp add: erase_at_def)

lemma drops_refl [simp]: "drops_entries d d"
  by (simp add: drops_entries_def)

lemma drops_trans: "drops_entries d d' \<Longrightarrow> drops_entries d' d'' \<Longrightarrow> drops_entries d d''"
  unfolding drops_entries_def by (metis subseq_order.trans)

lemma drops_world [simp]: "drops_entries d (d'\<lparr>world := w\<rparr>) \<longleftrightarrow> drops_entries d d'"
  "drops_entries (d\<lparr>world := w\<rparr>) d' \<longleftrightarrow> drops_entries d d'"
  by (simp_all add: drops_entries_def)

lemma evict_one_drops: "drops_entries d (evict_one E d)"
  by (auto simp: evict_one_def drops_entries_def Let_def subseq_erase_at)

lemma evict_to_limit_drops: "evict_to_limit E d = Some d' \<Longrightarrow> drops_entries d d'"
  by (induction rule: evict_to_limit_induct) (auto intro: drops_trans evict_one_drops)

lemma evict_to_limit_below:
  "evict_to_limit E d = Some d' \<Longrightarrow> int (length (m_descriptors d')) < m_descriptor_limit d'"
  by (induction rule: evict_to_limit_induct) auto

lemma close_matching_filter:
  "fst (close_matching E p ds w) = filter (\<lambda>x. \<not> p x) ds"
  by (induction E p ds w rule: close_matching.induct) (auto simp: split_beta Let_def)

lemma close_storage_entries [simp]:
  "m_descriptors (close_storage E storage d) = filter (\<lambda>x. od_storage x \<noteq> storage) (m_descriptors d)"
  using close_matching_filter [of E "\<lambda>x. od_storage x = storage" "m_descriptors d" "world d"]
  by (auto simp: close_storage_def split_beta Let_def)

lemma close_file_entries [simp]:
  "m_descriptors (close_file E storage f d) =
     filter (\<lambda>x. \<not> (od_storage x = storage \<and> od_file x = f)) (m_descriptors d)"
  using close_matching_filter
    [of E "\<lambda>x. od_storage x = storage \<and> od_file x = f" "m_descriptors d" "world d"]
  by (auto simp: close_file_def split_beta Let_def)

lemma close_storage_drops: "drops_entries d (close_storage E storage d)"
  unfolding drops_entries_def by (simp, simp add: close_storage_def split_beta Let_def)

lemma close_file_drops: "drops_entries d (close_file E storage f d)"
  unfolding drops_entries_def by (simp, simp add: close_file_def split_beta Let_def)

section \<open>The pool invariant\<close>

text \<open>
  The limit is positive, no two entries are for the same storage, file and path, and every entry
  holds a descriptor the bridge returned for a safe path.
\<close>

definition pool_key :: "open_descriptor \<Rightarrow> nat \<times> int \<times> string" where
  "pool_key x = (od_storage x, od_file x, od_path x)"

definition pool_inv :: "('w, 'z) disk_scheme \<Rightarrow> bool" where
  "pool_inv d \<longleftrightarrow> 1 \<le> m_descriptor_limit d \<and> distinct (map pool_key (m_descriptors d))
     \<and> (\<forall>x \<in> set (m_descriptors d). 0 \<le> od_descriptor x \<and> safe_relative_path (od_path x))"

lemma pool_inv_world [simp]: "pool_inv (d\<lparr>world := w\<rparr>) = pool_inv d"
  by (simp add: pool_inv_def)

lemma pool_inv_drops:
  assumes "drops_entries d d'" "pool_inv d"
  shows "pool_inv d'"
proof -
  from assms(1) have sub: "subseq (m_descriptors d') (m_descriptors d)"
    by (simp add: drops_entries_def)
  then have "distinct (map pool_key (m_descriptors d'))"
    using assms(2) subseq_map [of "m_descriptors d'" "m_descriptors d" pool_key]
      subseqs_distinctD unfolding pool_inv_def
    by (metis in_set_subseqs)
  with sub assms show ?thesis
    by (auto simp: pool_inv_def drops_entries_def dest: list_emb_set)
qed

section \<open>The outcomes of opening\<close>

text \<open>The entry the pool adds for a freshly opened file.\<close>

definition new_entry :: "nat \<Rightarrow> int \<Rightarrow> string \<Rightarrow> int \<Rightarrow> bool \<Rightarrow> 64 word \<Rightarrow> int \<Rightarrow> open_descriptor" where
  "new_entry storage f path fd wr c now =
     \<lparr>od_storage = storage, od_file = f, od_path = path, od_descriptor = fd,
      od_writable = wr, od_last_use = c, od_last_use_time = now\<rparr>"

text \<open>
  Without a usable entry: the directories cannot be made, the path is unsafe, the bridge refuses,
  or a new entry is appended after the pool was brought below its limit.
\<close>

lemma open_uncachedE:
  assumes "open_uncached E storage f path wr error oper d = Some (r, error', d')"
  obtains
    (directories) w where "wr" "ensure_parent_directories E path error f (world d) = (False, error', w)"
      "r = - 1" "has_error error'" "d' = d\<lparr>world := w\<rparr>"
  | (unsafe) "\<not> wr" "\<not> safe_relative_path path" "r = - 1" "has_error error'" "d' = d"
  | (refused) w1 d2 result w2 where "safe_relative_path path"
      "wr \<Longrightarrow> ensure_parent_directories E path error f (world d) = (True, error, w1)"
      "\<not> wr \<Longrightarrow> w1 = world d"
      "evict_to_limit E (d\<lparr>world := w1\<rparr>) = Some d2"
      "br_open_file E path (if wr then bridge_open_read_write else bridge_open_read) (world d2) = (result, w2)"
      "result < 0" "r = - 1" "error' = make_error result f oper" "d' = d2\<lparr>world := w2\<rparr>"
  | (opened) w1 d2 w2 now w3 where "safe_relative_path path"
      "wr \<Longrightarrow> ensure_parent_directories E path error f (world d) = (True, error, w1)"
      "\<not> wr \<Longrightarrow> w1 = world d"
      "evict_to_limit E (d\<lparr>world := w1\<rparr>) = Some d2"
      "br_open_file E path (if wr then bridge_open_read_write else bridge_open_read) (world d2) = (r, w2)"
      "0 \<le> r" "error' = error" "clock_now E w2 = (now, w3)"
      "d' = d2\<lparr>m_descriptors := m_descriptors d2 @ [new_entry storage f path r wr (m_use_counter d2 + 1) now],
               m_use_counter := m_use_counter d2 + 1, world := w3\<rparr>"
proof -
  obtain ok e1 w1 where prep: "(if wr then ensure_parent_directories E path error f (world d)
      else (True, error, world d)) = (ok, e1, w1)"
    by (metis prod_cases3)
  then have ok: "ok \<longrightarrow> e1 = error \<and> (wr \<longrightarrow> safe_relative_path path)" "\<not> ok \<longrightarrow> wr \<and> has_error e1"
    "\<not> wr \<longrightarrow> w1 = world d"
    using ensure_parent_directories_ok [of E path error f "world d" ok e1 w1]
    by (auto split: if_splits)
  show thesis
  proof (cases "ok \<and> safe_relative_path path")
    case False
    with assms prep ok show thesis
      by (cases ok) (auto simp: open_uncached_def Let_def intro: directories unsafe)
  next
    case True
    with assms prep obtain d2 where d2: "evict_to_limit E (d\<lparr>world := w1\<rparr>) = Some d2"
      by (auto simp: open_uncached_def Let_def bind_eq_Some_conv)
    obtain result w2 where br:
      "br_open_file E path (if wr then bridge_open_read_write else bridge_open_read) (world d2) = (result, w2)"
      by fastforce
    obtain now w3 where clock: "clock_now E w2 = (now, w3)" by fastforce
    have run: "open_uncached E storage f path wr error oper d =
        (if result < 0 then Some (- 1, make_error result f oper, d2\<lparr>world := w2\<rparr>)
         else Some (result, error, d2\<lparr>m_descriptors := m_descriptors d2 @
             [new_entry storage f path result wr (m_use_counter d2 + 1) now],
           m_use_counter := m_use_counter d2 + 1, world := w3\<rparr>))"
      using True prep ok d2 br clock by (simp add: open_uncached_def new_entry_def Let_def)
    have pre: "wr \<Longrightarrow> ensure_parent_directories E path error f (world d) = (True, error, w1)"
        "\<not> wr \<Longrightarrow> w1 = world d"
      using prep ok True by (auto split: if_splits)
    show thesis
      using assms run refused [OF _ pre d2 br] opened [OF _ pre d2 _ _ _ clock] br True
      by (auto split: if_splits)
  qed
qed

text \<open>\<^verbatim>\<open>open_file\<close> returns a cached entry, marking it as used, or opens after dropping a read-only one.\<close>

lemma open_fileE:
  assumes "open_file E storage f path wr error oper d = Some (r, error', d')"
  obtains
    (cached) i c now w where "find_descriptor storage f path (m_descriptors d) = Some i"
      "\<not> wr \<or> od_writable (m_descriptors d ! i)" "clock_now E (world d) = (now, w)"
      "r = od_descriptor (m_descriptors d ! i)" "error' = error" "c = m_use_counter d + 1"
      "d' = d\<lparr>m_descriptors := (m_descriptors d)[i :=
                (m_descriptors d ! i)\<lparr>od_last_use := c, od_last_use_time := now\<rparr>],
              m_use_counter := c, world := w\<rparr>"
  | (upgrade) i where "find_descriptor storage f path (m_descriptors d) = Some i" "wr"
      "\<not> od_writable (m_descriptors d ! i)"
      "open_uncached E storage f path wr error oper
         (d\<lparr>m_descriptors := erase_at i (m_descriptors d),
            world := sys_close E (od_descriptor (m_descriptors d ! i)) (world d)\<rparr>) = Some (r, error', d')"
  | (missing) "find_descriptor storage f path (m_descriptors d) = None"
      "open_uncached E storage f path wr error oper d = Some (r, error', d')"
proof (cases "find_descriptor storage f path (m_descriptors d)")
  case None
  with assms missing show thesis by (simp add: open_file_def)
next
  case (Some i)
  obtain now w where clock: "clock_now E (world d) = (now, w)" by fastforce
  show thesis
    using assms Some clock cached [OF Some _ clock] upgrade [OF Some]
    by (auto simp: open_file_def Let_def split: if_splits)
qed

section \<open>Opening keeps the pool invariant\<close>

lemma pool_key_matches:
  "pool_key x = (storage, f, path) \<longleftrightarrow> od_matches storage f path x"
  by (auto simp: pool_key_def od_matches_def)

lemma pool_key_new_entry [simp]: "pool_key (new_entry storage f path fd wr c now) = (storage, f, path)"
  by (simp add: pool_key_def new_entry_def)

lemma new_entry_simps [simp]:
  "od_descriptor (new_entry storage f path fd wr c now) = fd"
  "od_path (new_entry storage f path fd wr c now) = path"
  "od_last_use (new_entry storage f path fd wr c now) = c"
  by (simp_all add: new_entry_def)

definition absent :: "nat \<Rightarrow> int \<Rightarrow> string \<Rightarrow> ('w, 'z) disk_scheme \<Rightarrow> bool" where
  "absent storage f path d \<longleftrightarrow> (\<forall>x \<in> set (m_descriptors d). \<not> od_matches storage f path x)"

lemma absent_drops: "drops_entries d d' \<Longrightarrow> absent storage f path d \<Longrightarrow> absent storage f path d'"
  by (auto simp: absent_def drops_entries_def dest: list_emb_set)

lemma absent_erased:
  assumes "distinct (map pool_key (m_descriptors d))"
    and "find_descriptor storage f path (m_descriptors d) = Some i"
  shows "absent storage f path (d\<lparr>m_descriptors := erase_at i (m_descriptors d), world := w\<rparr>)"
proof -
  let ?ds = "m_descriptors d"
  have i: "i < length ?ds" "pool_key (?ds ! i) = (storage, f, path)"
    using find_descriptor_Some [OF assms(2)] by (auto simp: pool_key_matches)
  then have "(storage, f, path) \<notin> set (map pool_key (erase_at i ?ds))"
    using distinct_erase_at(1) [OF assms(1), of i] by (simp add: map_erase_at)
  then show ?thesis by (auto simp: absent_def pool_key_matches [symmetric] image_iff)
qed

lemma open_uncached_pool_inv:
  assumes "open_uncached E storage f path wr error oper d = Some (r, error', d')"
    and "pool_inv d" "absent storage f path d"
  shows "pool_inv d'"
  using assms(1)
proof (cases rule: open_uncachedE)
  case (opened w1 d2 w2 now w3)
  have drop: "drops_entries d d2" using evict_to_limit_drops [OF opened(4)] by simp
  then have "pool_inv d2" "absent storage f path d2"
    using assms pool_inv_drops absent_drops by blast+
  with opened show ?thesis
    by (auto simp: pool_inv_def absent_def pool_key_matches [symmetric])
next
  case (refused w1 d2 result w2)
  have "drops_entries d d2" using evict_to_limit_drops [OF refused(4)] by simp
  with refused assms(2) pool_inv_drops show ?thesis by auto
qed (use assms in auto)

lemma open_file_pool_inv:
  assumes "open_file E storage f path wr error oper d = Some (r, error', d')" and "pool_inv d"
  shows "pool_inv d'"
  using assms(1)
proof (cases rule: open_fileE)
  case (cached i c now w)
  then have "i < length (m_descriptors d)" by (simp add: find_descriptor_Some)
  moreover from this have "m_descriptors d ! i \<in> set (m_descriptors d)" by simp
  ultimately show ?thesis using cached assms(2)
    by (auto simp: pool_inv_def map_update pool_key_def dest!: set_update_subset_insert [THEN subsetD]
        intro!: distinct_list_update)
next
  case (upgrade i)
  then have "drops_entries d (d\<lparr>m_descriptors := erase_at i (m_descriptors d),
      world := sys_close E (od_descriptor (m_descriptors d ! i)) (world d)\<rparr>)"
    by (simp add: drops_entries_def subseq_erase_at)
  with upgrade assms(2) absent_erased show ?thesis
    by (metis open_uncached_pool_inv pool_inv_def pool_inv_drops)
next
  case missing
  with assms(2) show ?thesis
    by (auto simp: absent_def find_descriptor_None intro: open_uncached_pool_inv)
qed

section \<open>Termination, the bound of the pool, and the use order\<close>

lemma open_uncached_returns:
  assumes "1 \<le> m_descriptor_limit d"
  shows "\<exists>r. open_uncached E storage f path wr error oper d = Some r"
proof -
  obtain ok e1 w1 where prep: "(if wr then ensure_parent_directories E path error f (world d)
      else (True, error, world d)) = (ok, e1, w1)"
    by (metis prod_cases3)
  obtain d2 where "evict_to_limit E (d\<lparr>world := w1\<rparr>) = Some d2"
    using assms evict_to_limit_returns [of "d\<lparr>world := w1\<rparr>" E] by auto
  with prep show ?thesis by (simp add: open_uncached_def Let_def split_beta)
qed

lemma open_file_returns:
  "1 \<le> m_descriptor_limit d \<Longrightarrow> \<exists>r error' d'. open_file E storage f path wr error oper d = Some (r, error', d')"
  using open_uncached_returns [of d E storage f path wr error oper]
    open_uncached_returns [of "d\<lparr>m_descriptors := ds, world := w\<rparr>" E storage f path wr error oper for ds w]
  by (auto simp: open_file_def Let_def split_beta split: option.splits)

text \<open>Opening leaves what is not part of the pool alone.\<close>

lemma open_uncached_more:
  assumes "open_uncached E storage f path wr error oper d = Some (r, error', d')"
  shows "disk.more d' = disk.more d \<and> m_descriptor_limit d' = m_descriptor_limit d"
  using assms by (auto elim!: open_uncachedE dest!: evict_to_limit_drops simp: drops_entries_def)

lemma open_file_more:
  assumes "open_file E storage f path wr error oper d = Some (r, error', d')"
  shows "disk.more d' = disk.more d \<and> m_descriptor_limit d' = m_descriptor_limit d"
  using assms by (auto elim!: open_fileE dest!: open_uncached_more)

definition within_limit :: "('w, 'z) disk_scheme \<Rightarrow> bool" where
  "within_limit d \<longleftrightarrow> int (length (m_descriptors d)) \<le> m_descriptor_limit d"

lemma within_limit_drops: "drops_entries d d' \<Longrightarrow> within_limit d \<Longrightarrow> within_limit d'"
  by (auto simp: within_limit_def drops_entries_def dest: list_emb_length)

lemma within_limit_world [simp]: "within_limit (d\<lparr>world := w\<rparr>) = within_limit d"
  by (simp add: within_limit_def)

lemma open_uncached_within_limit:
  assumes "open_uncached E storage f path wr error oper d = Some (r, error', d')" and "within_limit d"
  shows "within_limit d'"
  using assms(1)
proof (cases rule: open_uncachedE)
  case (refused w1 d2 result w2)
  with evict_to_limit_below [OF refused(4)] show ?thesis by (simp add: within_limit_def)
next
  case (opened w1 d2 w2 now w3)
  with evict_to_limit_below [OF opened(4)] show ?thesis by (simp add: within_limit_def)
qed (use assms(2) in auto)

lemma open_file_within_limit:
  assumes "open_file E storage f path wr error oper d = Some (r, error', d')" and "within_limit d"
  shows "within_limit d'"
  using assms(1)
proof (cases rule: open_fileE)
  case (upgrade i)
  with assms(2) find_descriptor_Some [OF upgrade(1)] show ?thesis
    by (auto simp: within_limit_def intro!: open_uncached_within_limit [OF upgrade(4), unfolded within_limit_def])
qed (use assms(2) open_uncached_within_limit in \<open>auto simp: within_limit_def\<close>)

text \<open>
  The use order: the counter has not been reached by any entry twice. It holds until the 64-bit
  counter wraps.
\<close>

definition use_order :: "('w, 'z) disk_scheme \<Rightarrow> bool" where
  "use_order d \<longleftrightarrow> distinct (map od_last_use (m_descriptors d))
     \<and> (\<forall>x \<in> set (m_descriptors d). od_last_use x \<le> m_use_counter d)"

lemma use_order_drops:
  assumes "drops_entries d d'" "use_order d" shows "use_order d'"
proof -
  from assms(1) have sub: "subseq (m_descriptors d') (m_descriptors d)"
    by (simp add: drops_entries_def)
  then have "distinct (map od_last_use (m_descriptors d'))"
    using assms(2) subseq_map [of "m_descriptors d'" "m_descriptors d" od_last_use]
      subseqs_distinctD unfolding use_order_def
    by (metis in_set_subseqs)
  with sub assms show ?thesis
    by (auto simp: use_order_def drops_entries_def dest: list_emb_set)
qed

lemma use_order_world [simp]: "use_order (d\<lparr>world := w\<rparr>) = use_order d"
  by (simp add: use_order_def)

text \<open>What a use of an entry establishes: it is the newest one, and the order is kept.\<close>

definition newest :: "open_descriptor \<Rightarrow> ('w, 'z) disk_scheme \<Rightarrow> bool" where
  "newest x d \<longleftrightarrow> x \<in> set (m_descriptors d) \<and> od_last_use x = m_use_counter d
     \<and> (\<forall>y \<in> set (m_descriptors d). y = x \<or> od_last_use y < od_last_use x)"

lemma open_uncached_newest:
  assumes "open_uncached E storage f path wr error oper d = Some (r, error', d')"
    and "use_order d" "m_use_counter d \<noteq> - 1"
  shows "use_order d' \<and> (0 \<le> r \<longrightarrow> (\<exists>x. newest x d' \<and> od_descriptor x = r \<and>
           pool_key x = (storage, f, path) \<and> od_writable x = wr))"
  using assms(1)
proof (cases rule: open_uncachedE)
  case (refused w1 d2 result w2)
  have "drops_entries d d2" using evict_to_limit_drops [OF refused(4)] by simp
  with refused assms(2) use_order_drops show ?thesis by auto
next
  case (opened w1 d2 w2 now w3)
  let ?x = "new_entry storage f path r wr (m_use_counter d2 + 1) now"
  have drop: "drops_entries d d2" using evict_to_limit_drops [OF opened(4)] by simp
  with assms(2,3) have ord: "use_order d2" and "m_use_counter d2 \<noteq> - 1"
    using use_order_drops by (auto simp: drops_entries_def)
  then have less: "\<forall>y \<in> set (m_descriptors d2). od_last_use y < m_use_counter d2 + 1"
    by (auto simp: use_order_def intro: counter_step)
  then have "newest ?x d'" "od_writable ?x = wr"
    using opened by (auto simp: newest_def new_entry_def)
  moreover have "use_order d'"
    using less ord opened by (fastforce simp: use_order_def intro: less_imp_le)
  ultimately show ?thesis using opened by (metis new_entry_simps(1) pool_key_new_entry)
qed (use assms(2) in auto)

lemma open_file_newest:
  assumes "open_file E storage f path wr error oper d = Some (r, error', d')"
    and "use_order d" "m_use_counter d \<noteq> - 1"
  shows "use_order d' \<and> (0 \<le> r \<longrightarrow> (\<exists>x. newest x d' \<and> od_descriptor x = r \<and>
           pool_key x = (storage, f, path) \<and> (wr \<longrightarrow> od_writable x)))"
  using assms(1)
proof (cases rule: open_fileE)
  case (cached i c now w)
  let ?ds = "m_descriptors d"
  let ?x = "(?ds ! i)\<lparr>od_last_use := c, od_last_use_time := now\<rparr>"
  have i: "i < length ?ds" and key: "pool_key (?ds ! i) = (storage, f, path)"
    using find_descriptor_Some [OF cached(1)] by (auto simp: pool_key_matches)
  have less: "\<forall>y \<in> set ?ds. od_last_use y < c"
    using assms(2,3) cached(6) by (auto simp: use_order_def intro: counter_step)
  then have "newest ?x d'"
    using cached i by (auto simp: newest_def set_update_memI dest!: set_update_subset_insert [THEN subsetD])
  moreover have "use_order d'"
    using less assms(2) cached(7) i
    by (auto simp: use_order_def map_update intro!: distinct_list_update
        dest!: set_update_subset_insert [THEN subsetD] intro: less_imp_le)
  ultimately show ?thesis
    using cached key by (auto simp: pool_key_def intro!: exI [of _ ?x])
next
  case (upgrade i)
  let ?d = "d\<lparr>m_descriptors := erase_at i (m_descriptors d),
      world := sys_close E (od_descriptor (m_descriptors d ! i)) (world d)\<rparr>"
  have "drops_entries d ?d" by (simp add: drops_entries_def subseq_erase_at)
  with upgrade assms(2,3) show ?thesis
    using open_uncached_newest [OF upgrade(4)] use_order_drops by auto
next
  case missing
  with assms(2,3) open_uncached_newest show ?thesis by blast
qed

section \<open>Ownership of descriptors\<close>

text \<open>The descriptors the pool owns.\<close>

definition owned :: "('w, 'z) disk_scheme \<Rightarrow> int multiset" where
  "owned d = mset (map od_descriptor (m_descriptors d))"

lemma owned_world [simp]: "owned (d\<lparr>world := w\<rparr>) = owned d"
  by (simp add: owned_def)

lemma owned_erase:
  "i < length (m_descriptors d) \<Longrightarrow>
     owned (d\<lparr>m_descriptors := erase_at i (m_descriptors d)\<rparr>) =
       owned d - {#od_descriptor (m_descriptors d ! i)#}"
  using mset_erase_at [of i "map od_descriptor (m_descriptors d)"]
  by (simp add: owned_def map_erase_at) (metis add_mset_remove_trivial)

lemma owned_nth: "i < length (m_descriptors d) \<Longrightarrow> od_descriptor (m_descriptors d ! i) \<in># owned d"
  by (simp add: owned_def)

lemma make_directories_preserves:
  assumes "make_directories E path separator error f w = (ok, error', w')"
    and "safe_relative_path path"
    and "\<And>sep. separator = Some sep \<Longrightarrow> safe_relative_path (take sep path)"
    and "\<And>p w. safe_relative_path p \<Longrightarrow> P w \<Longrightarrow> P (snd (br_create_directory E p w))" and "P w"
  shows "P w'"
  using assms
proof (induction E path separator error f w rule: make_directories.induct)
  case (1 E path separator error f w)
  show ?case
  proof (cases separator)
    case None
    with "1.prems"(1,5) show ?thesis by (simp add: make_directories.simps)
  next
    case (Some sep)
    obtain result w1 where w1: "br_create_directory E (take sep path) w = (result, w1)"
      by fastforce
    with "1.prems" Some have P1: "P w1" by (metis snd_conv)
    show ?thesis
    proof (cases "result < 0 \<and> result \<noteq> - EEXIST")
      case True
      with "1.prems"(1) Some w1 P1 show ?thesis by (subst (asm) make_directories.simps) simp
    next
      case False
      with "1.prems"(1) Some w1
      have run: "make_directories E path (find_from slash path (sep + 1)) error f w1 = (ok, error', w')"
        by (subst (asm) make_directories.simps) auto
      show ?thesis
        by (rule "1.IH" [OF Some w1 [symmetric] refl False run "1.prems"(2) _ "1.prems"(4) P1])
          (use "1.prems"(2) safe_parent in blast)
    qed
  qed
qed

context bridge_discipline
begin

lemma clean_close_owned:
  assumes "fd \<in># M" and "clean (M + L) w"
  shows "clean (M + L - {#fd#}) (sys_close E fd w)"
  using clean_close [of fd "M + L" w] assms by simp

lemma clean_ensure_parent_directories:
  assumes "ensure_parent_directories E path error f w = (ok, error', w')" and "clean L w"
  shows "clean L w'"
  using assms safe_parent [of path 0] clean_mkdir
  by (auto simp: ensure_parent_directories_def split: if_splits
      elim!: make_directories_preserves)

lemma clean_evict_one:
  assumes "clean (owned d + L) (world d)"
  shows "clean (owned (evict_one E d) + L) (world (evict_one E d))"
  using assms oldest_minimal [of "m_descriptors d"]
  by (auto simp: evict_one_def Let_def owned_erase owned_nth intro: clean_close_owned)

lemma clean_evict_to_limit:
  "evict_to_limit E d = Some d' \<Longrightarrow> clean (owned d + L) (world d) \<Longrightarrow> clean (owned d' + L) (world d')"
  by (induction rule: evict_to_limit_induct) (auto intro: clean_evict_one)

lemma clean_open_uncached:
  assumes "open_uncached E storage f path wr error oper d = Some (r, error', d')"
    and "clean (owned d + L) (world d)"
  shows "clean (owned d' + L) (world d') \<and> (0 \<le> r \<longrightarrow> r \<in># owned d')"
  using assms(1)
proof (cases rule: open_uncachedE)
  case (directories w)
  with assms(2) clean_ensure_parent_directories show ?thesis by auto
next
  case unsafe
  with assms(2) show ?thesis by simp
next
  case (refused w1 d2 result w2)
  have "clean (owned d + L) w1"
    using refused(2,3) assms(2) clean_ensure_parent_directories by (cases wr) auto
  then have "clean (owned d2 + L) (world d2)"
    using clean_evict_to_limit [OF refused(4)] by simp
  with refused clean_open [OF refused(1) _ refused(5)] show ?thesis by fastforce
next
  case (opened w1 d2 w2 now w3)
  have "clean (owned d + L) w1"
    using opened(2,3) assms(2) clean_ensure_parent_directories by (cases wr) auto
  then have "clean (owned d2 + L) (world d2)"
    using clean_evict_to_limit [OF opened(4)] by simp
  then have "clean (add_mset r (owned d2 + L)) w2"
    using clean_open [OF opened(1) _ opened(5)] opened(6) by fastforce
  then have "clean (add_mset r (owned d2 + L)) w3"
    using clean_clock [of _ w2] opened(8) by simp
  with opened show ?thesis by (simp add: owned_def)
qed

lemma clean_open_file:
  assumes "open_file E storage f path wr error oper d = Some (r, error', d')"
    and "clean (owned d + L) (world d)"
  shows "clean (owned d' + L) (world d') \<and> (0 \<le> r \<longrightarrow> r \<in># owned d')"
  using assms(1)
proof (cases rule: open_fileE)
  case (cached i c now w)
  have i: "i < length (m_descriptors d)" using find_descriptor_Some [OF cached(1)] by simp
  have "owned d' = owned d"
    using i cached(7) mset_erase_at [of i "map od_descriptor (m_descriptors d)"]
    by (simp add: owned_def map_update mset_list_update map_erase_at)
  moreover have "clean (owned d + L) (world d')"
    using clean_clock [OF assms(2)] cached by simp
  moreover have "r \<in># owned d" using owned_nth [OF i] cached(4) by simp
  ultimately show ?thesis by simp
next
  case (upgrade i)
  have "i < length (m_descriptors d)" using find_descriptor_Some [OF upgrade(1)] by simp
  then show ?thesis
    using clean_open_uncached [OF upgrade(4), of L] assms(2)
    by (simp add: owned_erase owned_nth clean_close_owned)
next
  case missing
  with assms(2) clean_open_uncached show ?thesis by blast
qed

lemma clean_close_matching:
  "close_matching E p ds w = (ds', w') \<Longrightarrow> clean (mset (map od_descriptor ds) + L) w \<Longrightarrow>
     clean (mset (map od_descriptor ds') + L) w'"
proof (induction ds arbitrary: w ds' w' L)
  case (Cons x xs)
  show ?case
  proof (cases "p x")
    case True
    have "clean (mset (map od_descriptor xs) + L) (sys_close E (od_descriptor x) w)"
      using clean_close [OF _ Cons.prems(2), of "od_descriptor x"] by simp
    with True Cons show ?thesis by simp
  next
    case False
    then obtain ys where "close_matching E p xs w = (ys, w')" "ds' = x # ys"
      using Cons.prems(1) by (auto split: prod.splits)
    then show ?thesis
      using Cons.IH [of w ys w' "add_mset (od_descriptor x) L"] Cons.prems(2) by simp
  qed
qed simp

lemma clean_close_storage:
  "clean (owned d + L) (world d) \<Longrightarrow>
     clean (owned (close_storage E storage d) + L) (world (close_storage E storage d))"
  by (auto simp: close_storage_def owned_def split: prod.splits dest: clean_close_matching)

lemma clean_close_file:
  "clean (owned d + L) (world d) \<Longrightarrow>
     clean (owned (close_file E storage f d) + L) (world (close_file E storage f d))"
  by (auto simp: close_file_def owned_def split: prod.splits dest: clean_close_matching)

lemma clean_close_fold:
  "clean (mset (map od_descriptor ds) + L) w \<Longrightarrow>
     clean L (fold (\<lambda>x w. sys_close E (od_descriptor x) w) ds w)"
proof (induction ds arbitrary: w)
  case (Cons x xs)
  have "clean (mset (map od_descriptor xs) + L) (sys_close E (od_descriptor x) w)"
    using clean_close [OF _ Cons.prems, of "od_descriptor x"] by simp
  then show ?case using Cons.IH by simp
qed simp

lemma clean_close_all:
  "clean (owned d + L) (world d) \<Longrightarrow>
     owned (close_all E d) = {#} \<and> clean L (world (close_all E d))"
  by (simp add: close_all_def owned_def clean_close_fold)

lemma clean_scoped_reset:
  "clean (if fd \<ge> 0 then add_mset fd L else L) w \<Longrightarrow> clean L (scoped_reset E fd w)"
  using clean_close [of fd "add_mset fd L" w] by (auto simp: scoped_reset_def split: if_splits)

end

end
