(* ===== verification/Torrents.thy ===== *)
theory Torrents
  imports Descriptors
begin

text \<open>
  The torrent storage: the files of a torrent, their priorities and their paths beneath the save
  root (\<^verbatim>\<open>struct torrent_storage\<close> with its constructor, \<^verbatim>\<open>path_for\<close>, \<^verbatim>\<open>skipped\<close>, \<^verbatim>\<open>set_save_root\<close>).
  The file layout is libtorrent's \<^verbatim>\<open>file_storage\<close> and is a parameter: a record of the queries the
  code makes.
\<close>

section \<open>File layout and parameters\<close>

record slice =
  slice_file :: nat
  slice_offset :: nat
  slice_size :: nat

record file_storage =
  num_files :: nat
  pad_file_at :: "nat \<Rightarrow> bool"
  fs_file_size :: "nat \<Rightarrow> nat"
  fs_file_offset :: "nat \<Rightarrow> nat"
  map_block :: "int \<Rightarrow> int \<Rightarrow> int \<Rightarrow> slice list"
  num_pieces :: int
  piece_size :: "int \<Rightarrow> int"
  piece_size2 :: "int \<Rightarrow> int"
  blocks_in_piece2 :: "int \<Rightarrow> int"

type_synonym download_priority = "8 word"

text \<open>libtorrent's constants.\<close>

definition dont_download :: download_priority where "dont_download = 0"
definition default_priority :: download_priority where "default_priority = 4"
definition default_block_size :: nat where "default_block_size = 16384"

lemma default_block_size_pos [simp]: "0 < default_block_size"
  by (simp add: default_block_size_def)

text \<open>\<^verbatim>\<open>storage_params\<close>, with the path of every file after renaming as a function of its index.\<close>

record storage_params =
  sp_files :: file_storage
  sp_renamed_path :: "nat \<Rightarrow> string"
  sp_priorities :: "download_priority list"
  sp_path :: string
  sp_info_hash :: "byte list"

section \<open>The torrent storage\<close>

record torrent_storage =
  ts_files :: file_storage
  ts_priorities :: "download_priority list"
  ts_logical_paths :: "string list"
  ts_paths :: "string list"
  ts_save_root :: string
  ts_info_hash :: "byte list"
  ts_part_path :: string

datatype storage_exception =
    InvalidArgument string
  | SystemError error_code string

definition hash_hex :: "'w env \<Rightarrow> byte list \<Rightarrow> string" where
  "hash_hex E hash = to_hex E hash"

text \<open>The check of the save root in the constructor.\<close>

definition check_save_root :: "'w env \<Rightarrow> string \<Rightarrow> 'w \<Rightarrow> storage_exception option \<times> 'w" where
  "check_save_root E root w =
     (if root \<noteq> [] then
        if \<not> safe_relative_path root then
          (Some (InvalidArgument ''Flow SAF save root must be empty or relative''), w)
        else let (result, w') = br_validate_path E root w
          in if result = - EINVAL then
               (Some (InvalidArgument ''Flow SAF save root was rejected by storage''), w')
             else if result < 0 then
               (Some (SystemError (from_bridge_result result) ''Flow SAF save root validation failed''), w')
             else (None, w')
      else (None, w))"

definition new_torrent_storage ::
  "'w env \<Rightarrow> storage_params \<Rightarrow> 'w \<Rightarrow> (storage_exception + torrent_storage) \<times> 'w" where
  "new_torrent_storage E params w =
     (let files = sp_files params;
          root = normalized_save_root (sp_path params);
          (failure, w') = check_save_root E root w;
          logical = map (sp_renamed_path params) [0 ..< num_files files]
      in case failure of
           Some exn \<Rightarrow> (Inl exn, w')
         | None \<Rightarrow> (Inr \<lparr>
             ts_files = files,
             ts_priorities = resize (num_files files) default_priority (sp_priorities params),
             ts_logical_paths = logical,
             ts_paths = map (rooted_path root) logical,
             ts_save_root = root,
             ts_info_hash = sp_info_hash params,
             ts_part_path = ''.flow-parts/'' @ hash_hex E (sp_info_hash params) @ ''.parts''\<rparr>, w'))"

definition path_for :: "torrent_storage \<Rightarrow> nat \<Rightarrow> string" where
  "path_for t index = ts_paths t ! index"

definition skipped :: "torrent_storage \<Rightarrow> nat \<Rightarrow> bool" where
  "skipped t index \<longleftrightarrow> index < length (ts_priorities t) \<and> ts_priorities t ! index = dont_download"

definition set_save_root :: "torrent_storage \<Rightarrow> string \<Rightarrow> torrent_storage" where
  "set_save_root t root =
     (let r = normalized_save_root root
      in t\<lparr>ts_save_root := r,
           ts_paths := map (\<lambda>i. rooted_path r (ts_logical_paths t ! i)) [0 ..< length (ts_paths t)]\<rparr>)"

text \<open>The bookkeeping of a successful \<^verbatim>\<open>async_rename_file\<close>.\<close>

definition set_file_name :: "torrent_storage \<Rightarrow> nat \<Rightarrow> string \<Rightarrow> torrent_storage" where
  "set_file_name t index name =
     t\<lparr>ts_logical_paths := (ts_logical_paths t)[index := name],
       ts_paths := (ts_paths t)[index := rooted_path (ts_save_root t) name]\<rparr>"

section \<open>Invariants\<close>

text \<open>
  One priority, one logical path and one path per file; the paths are the logical paths beneath the
  save root, and the save root is normalized and empty or safe.
\<close>

definition torrent_inv :: "torrent_storage \<Rightarrow> bool" where
  "torrent_inv t \<longleftrightarrow>
     length (ts_priorities t) = num_files (ts_files t)
     \<and> length (ts_logical_paths t) = num_files (ts_files t)
     \<and> ts_paths t = map (rooted_path (ts_save_root t)) (ts_logical_paths t)
     \<and> normalized_save_root (ts_save_root t) = ts_save_root t
     \<and> (ts_save_root t = [] \<or> safe_relative_path (ts_save_root t))"

text \<open>Every path that reaches the bridge on behalf of the torrent is safe.\<close>

definition torrent_safe :: "torrent_storage \<Rightarrow> bool" where
  "torrent_safe t \<longleftrightarrow> torrent_inv t \<and> (\<forall>p \<in> set (ts_logical_paths t). safe_relative_path p)
     \<and> safe_relative_path (ts_part_path t)"

text \<open>
  What the code relies on in libtorrent's layout: \<^verbatim>\<open>map_block\<close> names files of the torrent.
\<close>

definition layout_ok :: "file_storage \<Rightarrow> bool" where
  "layout_ok files \<longleftrightarrow>
     (\<forall>piece start len. \<forall>sl \<in> set (map_block files piece start len). slice_file sl < num_files files)"

lemma torrent_safe_paths:
  "torrent_safe t \<Longrightarrow> p \<in> set (ts_paths t) \<Longrightarrow> safe_relative_path p"
  by (auto simp: torrent_safe_def torrent_inv_def safe_rooted_path)

lemma torrent_inv_length: "torrent_inv t \<Longrightarrow> length (ts_paths t) = num_files (ts_files t)"
  by (simp add: torrent_inv_def)

lemma torrent_safe_path_for:
  "torrent_safe t \<Longrightarrow> i < num_files (ts_files t) \<Longrightarrow> safe_relative_path (path_for t i)"
  using torrent_safe_paths [of t "ts_paths t ! i"]
  by (simp add: path_for_def torrent_safe_def torrent_inv_length)

lemma set_save_root_inv:
  "torrent_inv t \<Longrightarrow> normalized_save_root root = [] \<or> safe_relative_path root \<Longrightarrow>
     torrent_inv (set_save_root t root)"
  using normalized_save_root_cases [of root]
  by (auto simp: torrent_inv_def set_save_root_def Let_def map_nth intro!: nth_equalityI)

lemma set_save_root_safe:
  "torrent_safe t \<Longrightarrow> normalized_save_root root = [] \<or> safe_relative_path root \<Longrightarrow>
     torrent_safe (set_save_root t root)"
  using set_save_root_inv [of t root] by (auto simp: torrent_safe_def set_save_root_def Let_def)

lemma set_file_name_inv: "torrent_inv t \<Longrightarrow> torrent_inv (set_file_name t i name)"
  by (auto simp: torrent_inv_def set_file_name_def map_update)

lemma set_file_name_safe:
  "torrent_safe t \<Longrightarrow> safe_relative_path name \<Longrightarrow> torrent_safe (set_file_name t i name)"
  using set_file_name_inv [of t i name]
  by (auto simp: torrent_safe_def set_file_name_def dest!: set_update_subset_insert [THEN subsetD])

text \<open>The part file has a safe path because a hexadecimal rendering contains only digits.\<close>

definition hex_digits :: "char set" where
  "hex_digits = set ''0123456789abcdef''"

lemma safe_part_path:
  assumes "set h \<subseteq> hex_digits"
  shows "safe_relative_path (''.flow-parts/'' @ h @ ''.parts'')"
proof -
  have "slash \<notin> set (h @ ''.parts'')" "backslash \<notin> set (h @ ''.parts'')" "NUL \<notin> set (h @ ''.parts'')"
    using assms by (auto simp: hex_digits_def)
  moreover have "plain_component (h @ ''.parts'')"
    by (cases h) (auto simp: plain_component_def)
  ultimately have "safe_relative_path (h @ ''.parts'')"
    by (simp add: safe_relative_path_iff components_no_slash)
  moreover have "safe_relative_path ''.flow-parts''"
    by (simp add: safe_relative_path_iff plain_component_def)
  ultimately have "safe_relative_path (''.flow-parts'' @ slash # (h @ ''.parts''))"
    by (simp only: safe_relative_path_append_slash)
  then show ?thesis by simp
qed

lemma check_save_root_None:
  "check_save_root E root w = (None, w') \<Longrightarrow> root = [] \<or> safe_relative_path root"
  by (auto simp: check_save_root_def Let_def split: if_splits prod.splits)

lemma new_torrent_storage_inv:
  assumes "new_torrent_storage E params w = (Inr t, w')"
  shows "torrent_inv t" and "ts_files t = sp_files params"
    and "ts_logical_paths t = map (sp_renamed_path params) [0 ..< num_files (sp_files params)]"
    and "ts_save_root t = normalized_save_root (sp_path params)"
    and "ts_part_path t = ''.flow-parts/'' @ to_hex E (sp_info_hash params) @ ''.parts''"
  using assms
  by (auto simp: new_torrent_storage_def torrent_inv_def hash_hex_def Let_def
      split: prod.splits option.splits dest: check_save_root_None)

lemma new_torrent_storage_safe:
  assumes "new_torrent_storage E params w = (Inr t, w')"
    and "\<And>i. i < num_files (sp_files params) \<Longrightarrow> safe_relative_path (sp_renamed_path params i)"
    and "set (to_hex E (sp_info_hash params)) \<subseteq> hex_digits"
  shows "torrent_safe t"
  using new_torrent_storage_inv [OF assms(1)] assms(2) safe_part_path [OF assms(3)]
  by (auto simp: torrent_safe_def)

context bridge_discipline
begin

lemma clean_new_torrent_storage:
  "new_torrent_storage E params w = (res, w') \<Longrightarrow> clean L w \<Longrightarrow> clean L w'"
  using clean_validate [of "normalized_save_root (sp_path params)" L w]
  by (auto simp: new_torrent_storage_def check_save_root_def Let_def
      split: prod.splits option.splits if_splits)

end

end
