(* ===== verification/Blocks.thy ===== *)
theory Blocks
  imports Torrents
begin

text \<open>
  Block transfers of the worker: \<^verbatim>\<open>read_block\<close> and \<^verbatim>\<open>write_block\<close> map a request to slices of files
  and move each slice between the buffer and the file, or the part file when the file is not to be
  downloaded. Pad files read as zeros and swallow writes.
\<close>

record peer_request =
  req_piece :: int
  req_start :: int
  req_length :: int

section \<open>One slice\<close>

text \<open>The operation to blame: the one on the part file when the slice goes there.\<close>

definition read_op :: "bool \<Rightarrow> operation_t" where
  "read_op part = (if part then Op_partfile_read else Op_file_read)"

definition write_op :: "bool \<Rightarrow> operation_t" where
  "write_op part = (if part then Op_partfile_write else Op_file_write)"

text \<open>
  The inner \<^verbatim>\<open>while\<close> loops, with \<open>remaining\<close> bytes of the slice to go. The flag says whether the
  slice was completed; otherwise \<^verbatim>\<open>error\<close> is set and the block transfer returns.
\<close>

partial_function (option) read_slice ::
  "'w env \<Rightarrow> int \<Rightarrow> slice \<Rightarrow> nat \<Rightarrow> bool \<Rightarrow> nat \<Rightarrow> byte list \<Rightarrow> nat \<Rightarrow> storage_error \<Rightarrow> 'w
     \<Rightarrow> (bool \<times> byte list \<times> nat \<times> storage_error \<times> 'w) option" where
  "read_slice E descriptor sl file_offset part remaining output output_offset error w =
     (if remaining > 0 then
        (case sys_pread E descriptor remaining (file_offset + (slice_size sl - remaining)) w of
           (ReadFail e, w') \<Rightarrow>
             if e = EINTR then
               read_slice E descriptor sl file_offset part remaining output output_offset error w'
             else Some (False, output, output_offset,
               make_error (- e) (int (slice_file sl)) (read_op part), w')
         | (ReadGot bs, w') \<Rightarrow>
             if bs = [] then Some (False, output, output_offset,
               storage_error_at EndOfFile (int (slice_file sl))
                 (read_op part), w')
             else read_slice E descriptor sl file_offset part (remaining - length bs)
               (overwrite output output_offset bs) (output_offset + length bs) error w')
      else Some (True, output, output_offset, error, w))"

partial_function (option) write_slice ::
  "'w env \<Rightarrow> int \<Rightarrow> slice \<Rightarrow> nat \<Rightarrow> bool \<Rightarrow> nat \<Rightarrow> byte list \<Rightarrow> nat \<Rightarrow> storage_error \<Rightarrow> 'w
     \<Rightarrow> (bool \<times> nat \<times> storage_error \<times> 'w) option" where
  "write_slice E descriptor sl file_offset part remaining input input_offset error w =
     (if remaining > 0 then
        (case sys_pwrite E descriptor (take remaining (drop input_offset input))
                (file_offset + (slice_size sl - remaining)) w of
           (WriteFail e, w') \<Rightarrow>
             if e = EINTR then
               write_slice E descriptor sl file_offset part remaining input input_offset error w'
             else Some (False, input_offset,
               make_error (- e) (int (slice_file sl)) (write_op part), w')
         | (Wrote n, w') \<Rightarrow>
             if n = 0 then Some (False, input_offset,
               make_error (- EIO) (int (slice_file sl)) (write_op part), w')
             else write_slice E descriptor sl file_offset part (remaining - n) input (input_offset + n) error w')
      else Some (True, input_offset, error, w))"

section \<open>The slices of a block\<close>

text \<open>Path, cache key and base offset of a slice: those of the part file when the file is skipped.\<close>

definition slice_part :: "torrent_storage \<Rightarrow> slice \<Rightarrow> bool" where
  "slice_part t sl = skipped t (slice_file sl)"

definition slice_path :: "torrent_storage \<Rightarrow> slice \<Rightarrow> string" where
  "slice_path t sl = (if slice_part t sl then ts_part_path t else path_for t (slice_file sl))"

definition slice_key :: "torrent_storage \<Rightarrow> slice \<Rightarrow> int" where
  "slice_key t sl = (if slice_part t sl then - 1 else int (slice_file sl))"

definition slice_base :: "torrent_storage \<Rightarrow> slice \<Rightarrow> nat" where
  "slice_base t sl =
     (if slice_part t sl then fs_file_offset (ts_files t) (slice_file sl) + slice_offset sl
      else slice_offset sl)"

fun read_slices ::
  "'w env \<Rightarrow> torrent_storage \<Rightarrow> nat \<Rightarrow> slice list \<Rightarrow> byte list \<Rightarrow> nat \<Rightarrow> storage_error
     \<Rightarrow> ('w, 'z) disk_scheme \<Rightarrow> (nat \<times> byte list \<times> storage_error \<times> ('w, 'z) disk_scheme) option" where
  "read_slices E t storage [] output output_offset error d = Some (output_offset, output, error, d)"
| "read_slices E t storage (sl # sls) output output_offset error d =
     (if pad_file_at (ts_files t) (slice_file sl) then
        read_slices E t storage sls (overwrite output output_offset (replicate (slice_size sl) 0))
          (output_offset + slice_size sl) error d
      else do {
        let part = slice_part t sl;
        (descriptor, error1, d1) \<leftarrow> open_file E storage (slice_key t sl) (slice_path t sl) False error
          (read_op part) d;
        if descriptor < 0 then Some (output_offset, output, error1, d1)
        else do {
          (completed, output2, offset2, error2, w2) \<leftarrow> read_slice E descriptor sl (slice_base t sl) part
            (slice_size sl) output output_offset error1 (world d1);
          if completed then read_slices E t storage sls output2 offset2 error2 (d1\<lparr>world := w2\<rparr>)
          else Some (offset2, output2, error2, d1\<lparr>world := w2\<rparr>)
        }
      })"

definition read_block ::
  "'w env \<Rightarrow> torrent_storage \<Rightarrow> nat \<Rightarrow> peer_request \<Rightarrow> byte list \<Rightarrow> storage_error
     \<Rightarrow> ('w, 'z) disk_scheme \<Rightarrow> (nat \<times> byte list \<times> storage_error \<times> ('w, 'z) disk_scheme) option" where
  "read_block E t storage request output error d =
     read_slices E t storage (map_block (ts_files t) (req_piece request) (req_start request) (req_length request))
       output 0 error d"

fun write_slices ::
  "'w env \<Rightarrow> torrent_storage \<Rightarrow> nat \<Rightarrow> slice list \<Rightarrow> byte list \<Rightarrow> nat \<Rightarrow> storage_error
     \<Rightarrow> ('w, 'z) disk_scheme \<Rightarrow> (nat \<times> storage_error \<times> ('w, 'z) disk_scheme) option" where
  "write_slices E t storage [] input input_offset error d = Some (input_offset, error, d)"
| "write_slices E t storage (sl # sls) input input_offset error d =
     (if pad_file_at (ts_files t) (slice_file sl) then
        write_slices E t storage sls input (input_offset + slice_size sl) error d
      else do {
        let part = slice_part t sl;
        (descriptor, error1, d1) \<leftarrow> open_file E storage (slice_key t sl) (slice_path t sl) True error
          (write_op part) d;
        if descriptor < 0 then Some (input_offset, error1, d1)
        else do {
          (completed, offset2, error2, w2) \<leftarrow> write_slice E descriptor sl (slice_base t sl) part
            (slice_size sl) input input_offset error1 (world d1);
          if completed then write_slices E t storage sls input offset2 error2 (d1\<lparr>world := w2\<rparr>)
          else Some (offset2, error2, d1\<lparr>world := w2\<rparr>)
        }
      })"

definition write_block ::
  "'w env \<Rightarrow> torrent_storage \<Rightarrow> nat \<Rightarrow> peer_request \<Rightarrow> byte list \<Rightarrow> storage_error
     \<Rightarrow> ('w, 'z) disk_scheme \<Rightarrow> (nat \<times> storage_error \<times> ('w, 'z) disk_scheme) option" where
  "write_block E t storage request input error d =
     write_slices E t storage (map_block (ts_files t) (req_piece request) (req_start request) (req_length request))
       input 0 error d"

section \<open>Induction over the transfers of a slice\<close>

lemma read_slice_induct [consumes 1, case_names Done Fail Interrupt Eof Progress]:
  assumes "read_slice E fd sl base part rem out off err w = Some r"
    and "\<And>out off w. Q 0 out off w (True, out, off, err, w)"
    and "\<And>rem out off w e w'. 0 < rem \<Longrightarrow>
           sys_pread E fd rem (base + (slice_size sl - rem)) w = (ReadFail e, w') \<Longrightarrow> e \<noteq> EINTR \<Longrightarrow>
           Q rem out off w (False, out, off, make_error (- e) (int (slice_file sl)) (read_op part), w')"
    and "\<And>rem out off w w' r. 0 < rem \<Longrightarrow>
           sys_pread E fd rem (base + (slice_size sl - rem)) w = (ReadFail EINTR, w') \<Longrightarrow>
           Q rem out off w' r \<Longrightarrow> Q rem out off w r"
    and "\<And>rem out off w w'. 0 < rem \<Longrightarrow>
           sys_pread E fd rem (base + (slice_size sl - rem)) w = (ReadGot [], w') \<Longrightarrow>
           Q rem out off w (False, out, off, storage_error_at EndOfFile (int (slice_file sl)) (read_op part), w')"
    and "\<And>rem out off w bs w' r. 0 < rem \<Longrightarrow>
           sys_pread E fd rem (base + (slice_size sl - rem)) w = (ReadGot bs, w') \<Longrightarrow> bs \<noteq> [] \<Longrightarrow>
           Q (rem - length bs) (overwrite out off bs) (off + length bs) w' r \<Longrightarrow> Q rem out off w r"
  shows "Q rem out off w r"
proof -
  have "E = E \<longrightarrow> fd = fd \<longrightarrow> sl = sl \<longrightarrow> base = base \<longrightarrow> part = part \<longrightarrow> err = err \<longrightarrow> Q rem out off w r"
    by (rule read_slice.raw_induct [where P = "\<lambda>E' f s b p rem out off e w r.
          E' = E \<longrightarrow> f = fd \<longrightarrow> s = sl \<longrightarrow> b = base \<longrightarrow> p = part \<longrightarrow> e = err \<longrightarrow> Q rem out off w r",
          OF _ assms(1)])
      (auto split: if_splits read_ret.splits prod.splits
        intro: assms(2-6))
  then show ?thesis by simp
qed

lemma write_slice_induct [consumes 1, case_names Done Fail Interrupt Stop Progress]:
  assumes "write_slice E fd sl base part rem inp off err w = Some r"
    and "\<And>off w. Q 0 off w (True, off, err, w)"
    and "\<And>rem off w e w'. 0 < rem \<Longrightarrow>
           sys_pwrite E fd (take rem (drop off inp)) (base + (slice_size sl - rem)) w = (WriteFail e, w') \<Longrightarrow>
           e \<noteq> EINTR \<Longrightarrow>
           Q rem off w (False, off, make_error (- e) (int (slice_file sl)) (write_op part), w')"
    and "\<And>rem off w w' r. 0 < rem \<Longrightarrow>
           sys_pwrite E fd (take rem (drop off inp)) (base + (slice_size sl - rem)) w = (WriteFail EINTR, w') \<Longrightarrow>
           Q rem off w' r \<Longrightarrow> Q rem off w r"
    and "\<And>rem off w w'. 0 < rem \<Longrightarrow>
           sys_pwrite E fd (take rem (drop off inp)) (base + (slice_size sl - rem)) w = (Wrote 0, w') \<Longrightarrow>
           Q rem off w (False, off, make_error (- EIO) (int (slice_file sl)) (write_op part), w')"
    and "\<And>rem off w n w' r. 0 < rem \<Longrightarrow>
           sys_pwrite E fd (take rem (drop off inp)) (base + (slice_size sl - rem)) w = (Wrote n, w') \<Longrightarrow>
           0 < n \<Longrightarrow> Q (rem - n) (off + n) w' r \<Longrightarrow> Q rem off w r"
  shows "Q rem off w r"
proof -
  have "E = E \<longrightarrow> fd = fd \<longrightarrow> sl = sl \<longrightarrow> base = base \<longrightarrow> part = part \<longrightarrow> inp = inp \<longrightarrow> err = err \<longrightarrow>
      Q rem off w r"
    by (rule write_slice.raw_induct [where P = "\<lambda>E' f s b p rem i off e w r.
          E' = E \<longrightarrow> f = fd \<longrightarrow> s = sl \<longrightarrow> b = base \<longrightarrow> p = part \<longrightarrow> i = inp \<longrightarrow> e = err \<longrightarrow> Q rem off w r",
          OF _ assms(1)])
      (auto split: if_splits write_ret.splits prod.splits intro: assms(2-6))
  then show ?thesis by simp
qed

section \<open>Termination\<close>

context posix_io
begin

lemma read_slice_returns:
  "\<exists>c out' off' err' w'. read_slice E fd sl base part rem out off err w = Some (c, out', off', err', w')"
proof (induction "(rem, pending w)" arbitrary: rem out off w
    rule: wf_induct_rule [OF wf_lex_prod [OF wf_less_than wf_less_than]])
  case 1
  note IH = "1"
  show ?case
  proof (cases "0 < rem")
    case False
    then show ?thesis by (subst read_slice.simps) auto
  next
    case inside: True
    obtain ret w' where ret: "sys_pread E fd rem (base + (slice_size sl - rem)) w = (ret, w')"
      by fastforce
    show ?thesis
    proof (cases ret)
      case (ReadFail e)
      with inside ret IH [of rem w' out off] pread_interrupt show ?thesis
        by (subst read_slice.simps) auto
    next
      case (ReadGot bs)
      with inside ret IH [of "rem - length bs" w' "overwrite out off bs" "off + length bs"]
      show ?thesis by (subst read_slice.simps) auto
    qed
  qed
qed

lemma write_slice_returns:
  "\<exists>c off' err' w'. write_slice E fd sl base part rem inp off err w = Some (c, off', err', w')"
proof (induction "(rem, pending w)" arbitrary: rem off w
    rule: wf_induct_rule [OF wf_lex_prod [OF wf_less_than wf_less_than]])
  case 1
  note IH = "1"
  show ?case
  proof (cases "0 < rem")
    case False
    then show ?thesis by (subst write_slice.simps) auto
  next
    case inside: True
    obtain ret w' where
      ret: "sys_pwrite E fd (take rem (drop off inp)) (base + (slice_size sl - rem)) w = (ret, w')"
      by fastforce
    show ?thesis
    proof (cases ret)
      case (WriteFail e)
      with inside ret IH [of rem w' off] pwrite_interrupt show ?thesis
        by (subst write_slice.simps) auto
    next
      case (Wrote n)
      with inside ret IH [of "rem - n" w' "off + n"] show ?thesis
        by (subst write_slice.simps) auto
    qed
  qed
qed

lemma read_slices_returns:
  "pool_inv d \<Longrightarrow>
     \<exists>off' out' err' d'. read_slices E t storage sls out off err d = Some (off', out', err', d')"
proof (induction sls arbitrary: out off err d)
  case (Cons sl sls)
  show ?case
  proof (cases "pad_file_at (ts_files t) (slice_file sl)")
    case True
    with Cons show ?thesis by simp
  next
    case False
    obtain fd e1 d1 where o: "open_file E storage (slice_key t sl) (slice_path t sl) False err
        (read_op (slice_part t sl)) d = Some (fd, e1, d1)"
      using open_file_returns Cons.prems unfolding pool_inv_def by blast
    obtain c out2 off2 e2 w2 where r: "read_slice E fd sl (slice_base t sl) (slice_part t sl) (slice_size sl)
        out off e1 (world d1) = Some (c, out2, off2, e2, w2)"
      using read_slice_returns by blast
    have "pool_inv (d1\<lparr>world := w2\<rparr>)" using open_file_pool_inv [OF o Cons.prems] by simp
    with False o r Cons.IH show ?thesis by auto
  qed
qed simp

lemma write_slices_returns:
  "pool_inv d \<Longrightarrow>
     \<exists>off' err' d'. write_slices E t storage sls inp off err d = Some (off', err', d')"
proof (induction sls arbitrary: off err d)
  case (Cons sl sls)
  show ?case
  proof (cases "pad_file_at (ts_files t) (slice_file sl)")
    case True
    with Cons show ?thesis by simp
  next
    case False
    obtain fd e1 d1 where o: "open_file E storage (slice_key t sl) (slice_path t sl) True err
        (write_op (slice_part t sl)) d = Some (fd, e1, d1)"
      using open_file_returns Cons.prems unfolding pool_inv_def by blast
    obtain c off2 e2 w2 where r: "write_slice E fd sl (slice_base t sl) (slice_part t sl) (slice_size sl)
        inp off e1 (world d1) = Some (c, off2, e2, w2)"
      using write_slice_returns by blast
    have "pool_inv (d1\<lparr>world := w2\<rparr>)" using open_file_pool_inv [OF o Cons.prems] by simp
    with False o r Cons.IH show ?thesis by auto
  qed
qed simp

end

section \<open>Induction over the slices\<close>

lemma read_slices_induct [consumes 1, case_names Nil Pad Refused Failed Next]:
  assumes "read_slices E t storage sls out off err d = Some r"
    and "\<And>out off err d. Q [] out off err d (off, out, err, d)"
    and "\<And>sl sls out off err d r. pad_file_at (ts_files t) (slice_file sl) \<Longrightarrow>
           Q sls (overwrite out off (replicate (slice_size sl) 0)) (off + slice_size sl) err d r \<Longrightarrow>
           Q (sl # sls) out off err d r"
    and "\<And>sl sls out off err d fd e1 d1. \<not> pad_file_at (ts_files t) (slice_file sl) \<Longrightarrow>
           open_file E storage (slice_key t sl) (slice_path t sl) False err (read_op (slice_part t sl)) d
             = Some (fd, e1, d1) \<Longrightarrow> fd < 0 \<Longrightarrow> Q (sl # sls) out off err d (off, out, e1, d1)"
    and "\<And>sl sls out off err d fd e1 d1 out2 off2 e2 w2. \<not> pad_file_at (ts_files t) (slice_file sl) \<Longrightarrow>
           open_file E storage (slice_key t sl) (slice_path t sl) False err (read_op (slice_part t sl)) d
             = Some (fd, e1, d1) \<Longrightarrow> 0 \<le> fd \<Longrightarrow>
           read_slice E fd sl (slice_base t sl) (slice_part t sl) (slice_size sl) out off e1 (world d1)
             = Some (False, out2, off2, e2, w2) \<Longrightarrow>
           Q (sl # sls) out off err d (off2, out2, e2, d1\<lparr>world := w2\<rparr>)"
    and "\<And>sl sls out off err d fd e1 d1 out2 off2 e2 w2 r. \<not> pad_file_at (ts_files t) (slice_file sl) \<Longrightarrow>
           open_file E storage (slice_key t sl) (slice_path t sl) False err (read_op (slice_part t sl)) d
             = Some (fd, e1, d1) \<Longrightarrow> 0 \<le> fd \<Longrightarrow>
           read_slice E fd sl (slice_base t sl) (slice_part t sl) (slice_size sl) out off e1 (world d1)
             = Some (True, out2, off2, e2, w2) \<Longrightarrow>
           Q sls out2 off2 e2 (d1\<lparr>world := w2\<rparr>) r \<Longrightarrow> Q (sl # sls) out off err d r"
  shows "Q sls out off err d r"
  using assms(1)
proof (induction sls arbitrary: out off err d)
  case Nil
  then show ?case using assms(2) by auto
next
  case (Cons sl sls)
  show ?case
  proof (cases "pad_file_at (ts_files t) (slice_file sl)")
    case True
    with Cons assms(3) show ?thesis by simp
  next
    case False
    with Cons.prems obtain fd e1 d1 where
      opened: "open_file E storage (slice_key t sl) (slice_path t sl) False err (read_op (slice_part t sl)) d
        = Some (fd, e1, d1)"
      by (auto simp: Let_def bind_eq_Some_conv split del: if_split)
    show ?thesis
    proof (cases "fd < 0")
      case True
      with False opened Cons.prems assms(4) show ?thesis by auto
    next
      case fd: False
      with False opened Cons.prems obtain completed out2 off2 e2 w2 where
        transfer: "read_slice E fd sl (slice_base t sl) (slice_part t sl) (slice_size sl) out off e1 (world d1)
          = Some (completed, out2, off2, e2, w2)"
        by (auto simp: Let_def bind_eq_Some_conv split del: if_split)
      with False opened fd Cons.prems Cons.IH assms(5,6) show ?thesis
        by (cases completed) (auto simp: not_less)
    qed
  qed
qed

lemma write_slices_induct [consumes 1, case_names Nil Pad Refused Failed Next]:
  assumes "write_slices E t storage sls inp off err d = Some r"
    and "\<And>off err d. Q [] off err d (off, err, d)"
    and "\<And>sl sls off err d r. pad_file_at (ts_files t) (slice_file sl) \<Longrightarrow>
           Q sls (off + slice_size sl) err d r \<Longrightarrow> Q (sl # sls) off err d r"
    and "\<And>sl sls off err d fd e1 d1. \<not> pad_file_at (ts_files t) (slice_file sl) \<Longrightarrow>
           open_file E storage (slice_key t sl) (slice_path t sl) True err (write_op (slice_part t sl)) d
             = Some (fd, e1, d1) \<Longrightarrow> fd < 0 \<Longrightarrow> Q (sl # sls) off err d (off, e1, d1)"
    and "\<And>sl sls off err d fd e1 d1 off2 e2 w2. \<not> pad_file_at (ts_files t) (slice_file sl) \<Longrightarrow>
           open_file E storage (slice_key t sl) (slice_path t sl) True err (write_op (slice_part t sl)) d
             = Some (fd, e1, d1) \<Longrightarrow> 0 \<le> fd \<Longrightarrow>
           write_slice E fd sl (slice_base t sl) (slice_part t sl) (slice_size sl) inp off e1 (world d1)
             = Some (False, off2, e2, w2) \<Longrightarrow>
           Q (sl # sls) off err d (off2, e2, d1\<lparr>world := w2\<rparr>)"
    and "\<And>sl sls off err d fd e1 d1 off2 e2 w2 r. \<not> pad_file_at (ts_files t) (slice_file sl) \<Longrightarrow>
           open_file E storage (slice_key t sl) (slice_path t sl) True err (write_op (slice_part t sl)) d
             = Some (fd, e1, d1) \<Longrightarrow> 0 \<le> fd \<Longrightarrow>
           write_slice E fd sl (slice_base t sl) (slice_part t sl) (slice_size sl) inp off e1 (world d1)
             = Some (True, off2, e2, w2) \<Longrightarrow>
           Q sls off2 e2 (d1\<lparr>world := w2\<rparr>) r \<Longrightarrow> Q (sl # sls) off err d r"
  shows "Q sls off err d r"
  using assms(1)
proof (induction sls arbitrary: off err d)
  case Nil
  then show ?case using assms(2) by auto
next
  case (Cons sl sls)
  show ?case
  proof (cases "pad_file_at (ts_files t) (slice_file sl)")
    case True
    with Cons assms(3) show ?thesis by simp
  next
    case False
    with Cons.prems obtain fd e1 d1 where
      opened: "open_file E storage (slice_key t sl) (slice_path t sl) True err (write_op (slice_part t sl)) d
        = Some (fd, e1, d1)"
      by (auto simp: Let_def bind_eq_Some_conv split del: if_split)
    show ?thesis
    proof (cases "fd < 0")
      case True
      with False opened Cons.prems assms(4) show ?thesis by auto
    next
      case fd: False
      with False opened Cons.prems obtain completed off2 e2 w2 where
        transfer: "write_slice E fd sl (slice_base t sl) (slice_part t sl) (slice_size sl) inp off e1 (world d1)
          = Some (completed, off2, e2, w2)"
        by (auto simp: Let_def bind_eq_Some_conv split del: if_split)
      with False opened fd Cons.prems Cons.IH assms(5,6) show ?thesis
        by (cases completed) (auto simp: not_less)
    qed
  qed
qed

section \<open>Invariants and ownership\<close>

lemma read_slices_pool_inv:
  "read_slices E t storage sls out off err d = Some (off', out', err', d') \<Longrightarrow> pool_inv d \<Longrightarrow> pool_inv d'"
  by (induction sls out off err d "(off', out', err', d')" rule: read_slices_induct)
    (auto dest: open_file_pool_inv)

lemma write_slices_pool_inv:
  "write_slices E t storage sls inp off err d = Some (off', err', d') \<Longrightarrow> pool_inv d \<Longrightarrow> pool_inv d'"
  by (induction sls off err d "(off', err', d')" rule: write_slices_induct)
    (auto dest: open_file_pool_inv)

lemma read_slices_more:
  "read_slices E t storage sls out off err d = Some (off', out', err', d') \<Longrightarrow> disk.more d' = disk.more d"
  by (induction sls out off err d "(off', out', err', d')" rule: read_slices_induct)
    (auto dest: open_file_more)

lemma write_slices_more:
  "write_slices E t storage sls inp off err d = Some (off', err', d') \<Longrightarrow> disk.more d' = disk.more d"
  by (induction sls off err d "(off', err', d')" rule: write_slices_induct)
    (auto dest: open_file_more)

context bridge_discipline
begin

lemma clean_read_slice:
  assumes "read_slice E fd sl base part rem out off err w = Some (c, out', off', err', w')"
    and "fd \<in># L" and "clean L w"
  shows "clean L w'"
proof -
  have "clean L w \<longrightarrow> clean L (snd (snd (snd (snd (c, out', off', err', w')))))"
    using assms(1)
    by (induction rule: read_slice_induct) (metis assms(2) clean_pread snd_conv)+
  with assms(3) show ?thesis by simp
qed

lemma clean_write_slice:
  assumes "write_slice E fd sl base part rem inp off err w = Some (c, off', err', w')"
    and "fd \<in># L" and "clean L w"
  shows "clean L w'"
proof -
  have "clean L w \<longrightarrow> clean L (snd (snd (snd (c, off', err', w'))))"
    using assms(1)
    by (induction rule: write_slice_induct) (metis assms(2) clean_pwrite snd_conv)+
  with assms(3) show ?thesis by simp
qed

lemma clean_read_slices:
  "read_slices E t storage sls out off err d = Some (off', out', err', d') \<Longrightarrow>
     clean (owned d + L) (world d) \<Longrightarrow> clean (owned d' + L) (world d')"
proof (induction sls out off err d "(off', out', err', d')" rule: read_slices_induct)
  case (Failed sl sls out off err d fd e1 d1 w2)
  then show ?case using clean_open_file [OF Failed(2), of L] clean_read_slice [OF Failed(4), of "owned d1 + L"] by auto
next
  case (Next sl sls out off err d fd e1 d1 out2 off2 e2 w2)
  then show ?case using clean_open_file [OF Next(2), of L] clean_read_slice [OF Next(4), of "owned d1 + L"] by auto
qed (auto dest: clean_open_file)

lemma clean_write_slices:
  "write_slices E t storage sls inp off err d = Some (off', err', d') \<Longrightarrow>
     clean (owned d + L) (world d) \<Longrightarrow> clean (owned d' + L) (world d')"
proof (induction sls off err d "(off', err', d')" rule: write_slices_induct)
  case (Failed sl sls off err d fd e1 d1 w2)
  then show ?case using clean_open_file [OF Failed(2), of L] clean_write_slice [OF Failed(4), of "owned d1 + L"] by auto
next
  case (Next sl sls off err d fd e1 d1 off2 e2 w2)
  then show ?case using clean_open_file [OF Next(2), of L] clean_write_slice [OF Next(4), of "owned d1 + L"] by auto
qed (auto dest: clean_open_file)

end

section \<open>Results\<close>

lemma open_uncached_result:
  "open_uncached E storage f path wr error oper d = Some (r, error', d') \<Longrightarrow>
     (r = - 1 \<and> has_error error') \<or> (0 \<le> r \<and> error' = error)"
  by (erule open_uncachedE) auto

lemma open_file_result:
  assumes "open_file E storage f path wr error oper d = Some (r, error', d')" and "pool_inv d"
  shows "(r = - 1 \<and> has_error error') \<or> (0 \<le> r \<and> error' = error)"
  using assms(1)
proof (cases rule: open_fileE)
  case (cached i c now w)
  with find_descriptor_Some [OF cached(1)] assms(2) show ?thesis
    by (auto simp: pool_inv_def)
qed (auto dest: open_uncached_result)

context posix_io
begin

lemma read_slice_result:
  assumes "read_slice E fd sl base part rem out off err w = Some (c, out', off', err', w')"
  shows "(c \<longrightarrow> err' = err \<and> off' = off + rem) \<and> (\<not> c \<longrightarrow> has_error err' \<and> off' < off + rem) \<and> off \<le> off'
     \<and> (off + rem \<le> length out \<longrightarrow> length out' = length out)"
proof -
  have "case (c, out', off', err', w') of (c, out', off', err', w') \<Rightarrow>
      (c \<longrightarrow> err' = err \<and> off' = off + rem) \<and> (\<not> c \<longrightarrow> has_error err' \<and> off' < off + rem) \<and> off \<le> off'
      \<and> (off + rem \<le> length out \<longrightarrow> length out' = length out)"
    using assms
  proof (induction rule: read_slice_induct)
    case (Fail rem out off w e w')
    then show ?case using pread_errno [OF Fail(2)] by simp
  next
    case (Progress rem out off w bs w' r)
    then show ?case using pread_bounded [OF Progress(2)] by (auto split: prod.splits)
  qed auto
  then show ?thesis by simp
qed

lemma write_slice_result:
  assumes "write_slice E fd sl base part rem inp off err w = Some (c, off', err', w')"
    and "off + rem \<le> length inp"
  shows "(c \<longrightarrow> err' = err \<and> off' = off + rem) \<and> (\<not> c \<longrightarrow> has_error err' \<and> off' < off + rem) \<and> off \<le> off'"
proof -
  have "off + rem \<le> length inp \<longrightarrow> (case (c, off', err', w') of (c, off', err', w') \<Rightarrow>
      (c \<longrightarrow> err' = err \<and> off' = off + rem) \<and> (\<not> c \<longrightarrow> has_error err' \<and> off' < off + rem) \<and> off \<le> off')"
    using assms(1)
  proof (induction rule: write_slice_induct)
    case (Fail rem off w e w')
    then show ?case using pwrite_errno [OF Fail(2)] by simp
  next
    case (Progress rem off w n w' r)
    then show ?case using pwrite_bounded [OF Progress(2)] by (auto split: prod.splits)
  qed auto
  with assms(2) show ?thesis by simp
qed

end

end
