(* ===== verification/Check_Files.thy ===== *)
theory Check_Files
  imports Blocks
begin

text \<open>
  Checking the files of a torrent: \<^verbatim>\<open>initialize_files\<close> creates and sizes the files that are to be
  downloaded, \<^verbatim>\<open>validate_resume\<close> compares the sizes the bridge reports with what resume data claims.
\<close>

section \<open>Status flags\<close>

datatype disk_flag = Fatal_disk_error | Need_full_check | File_exist | Oversized_file

type_synonym status_t = "disk_flag set"

text \<open>The parts of \<^verbatim>\<open>add_torrent_params\<close> the check reads: the seed flag and the piece bits.\<close>

record resume_data =
  seed_mode :: bool
  have_pieces :: "bool list"

definition all_set :: "bool list \<Rightarrow> bool" where
  "all_set bits \<longleftrightarrow> bits \<noteq> [] \<and> list_all id bits"

section \<open>Creating files\<close>

text \<open>The \<^verbatim>\<open>for\<close> loop over the files; the first result is \<open>False\<close> when it returns early.\<close>

fun initialize_loop ::
  "'w env \<Rightarrow> torrent_storage \<Rightarrow> nat \<Rightarrow> nat list \<Rightarrow> bool \<Rightarrow> status_t \<Rightarrow> storage_error \<Rightarrow> ('w, 'z) disk_scheme
     \<Rightarrow> (bool \<times> bool \<times> status_t \<times> storage_error \<times> ('w, 'z) disk_scheme) option" where
  "initialize_loop E t storage [] had_file status error d = Some (True, had_file, status, error, d)"
| "initialize_loop E t storage (index # indices) had_file status error d =
     (if pad_file_at (ts_files t) index \<or> skipped t index then
        initialize_loop E t storage indices had_file status error d
      else do {
        let path = path_for t index;
        let (existing, w) = br_file_size E path (world d);
        let had_file1 = (had_file \<or> existing \<ge> 0);
        (descriptor, error1, d1) \<leftarrow> open_file E storage (int index) path True error Op_file_open (d\<lparr>world := w\<rparr>);
        if descriptor < 0 then Some (False, had_file1, insert Fatal_disk_error status, error1, d1)
        else (case sys_ftruncate E descriptor (fs_file_size (ts_files t) index) (world d1) of
            (Some e, w2) \<Rightarrow> Some (False, had_file1, insert Fatal_disk_error status,
              make_error (- e) (int index) Op_file_truncate, d1\<lparr>world := w2\<rparr>)
          | (None, w2) \<Rightarrow> initialize_loop E t storage indices had_file1 status error1 (d1\<lparr>world := w2\<rparr>))
      })"

definition initialize_files ::
  "'w env \<Rightarrow> torrent_storage \<Rightarrow> nat \<Rightarrow> status_t \<Rightarrow> storage_error \<Rightarrow> ('w, 'z) disk_scheme
     \<Rightarrow> (status_t \<times> storage_error \<times> ('w, 'z) disk_scheme) option" where
  "initialize_files E t storage status error d = do {
     (completed, had_file, status1, error1, d1) \<leftarrow>
       initialize_loop E t storage [0 ..< num_files (ts_files t)] False status error d;
     Some (if completed \<and> had_file then insert Need_full_check status1 else status1, error1, d1)
   }"

section \<open>Validating resume data\<close>

text \<open>The lambda \<^verbatim>\<open>check_file\<close>; the first result is what it returns.\<close>

definition check_file ::
  "'w env \<Rightarrow> torrent_storage \<Rightarrow> bool \<Rightarrow> nat \<Rightarrow> bool \<Rightarrow> status_t \<times> storage_error \<times> 'w
     \<Rightarrow> bool \<times> status_t \<times> storage_error \<times> 'w" where
  "check_file E t seed index exact_size s =
     (case s of (status, error, w) \<Rightarrow>
        if pad_file_at (ts_files t) index then (True, status, error, w)
        else if \<not> seed \<and> skipped t index then (True, status, error, w)
        else let (sz, w1) = br_file_size E (path_for t index) w;
                 expected = int (fs_file_size (ts_files t) index)
          in if sz < 0 \<and> sz \<noteq> - ENOENT then
               (False, insert Fatal_disk_error status, make_error sz (int index) Op_file_stat, w1)
             else if sz = - ENOENT \<or> (exact_size \<and> sz \<noteq> expected) then
               (True, if sz > expected then insert Oversized_file (insert Need_full_check status)
                      else insert Need_full_check status, error, w1)
             else (True, status, error, w1))"

fun check_all_files ::
  "'w env \<Rightarrow> torrent_storage \<Rightarrow> bool \<Rightarrow> nat list \<Rightarrow> status_t \<times> storage_error \<times> 'w
     \<Rightarrow> status_t \<times> storage_error \<times> 'w" where
  "check_all_files E t seed [] s = s"
| "check_all_files E t seed (index # indices) s =
     (let (ok, s1) = check_file E t seed index True s
      in if \<not> ok then s1 else check_all_files E t seed indices s1)"

text \<open>The inner loop over the slices of a piece, with the files checked so far.\<close>

fun check_slices ::
  "'w env \<Rightarrow> torrent_storage \<Rightarrow> bool \<Rightarrow> slice list \<Rightarrow> bool list \<Rightarrow> status_t \<times> storage_error \<times> 'w
     \<Rightarrow> bool \<times> bool list \<times> status_t \<times> storage_error \<times> 'w" where
  "check_slices E t seed [] checked s = (True, checked, s)"
| "check_slices E t seed (sl # sls) checked s =
     (let offset = slice_file sl
      in if checked ! offset then check_slices E t seed sls checked s
         else let checked1 = checked[offset := True];
                  (ok, s1) = check_file E t seed offset False s
           in if \<not> ok then (False, checked1, s1) else check_slices E t seed sls checked1 s1)"

fun check_pieces ::
  "'w env \<Rightarrow> torrent_storage \<Rightarrow> bool \<Rightarrow> bool list \<Rightarrow> nat list \<Rightarrow> bool list \<Rightarrow> status_t \<times> storage_error \<times> 'w
     \<Rightarrow> status_t \<times> storage_error \<times> 'w" where
  "check_pieces E t seed bits [] checked s = s"
| "check_pieces E t seed bits (piece # pieces) checked s =
     (if \<not> bits ! piece then check_pieces E t seed bits pieces checked s
      else let sls = map_block (ts_files t) (int piece) 0 (piece_size (ts_files t) (int piece));
               (ok, checked1, s1) = check_slices E t seed sls checked s
        in if \<not> ok then s1 else check_pieces E t seed bits pieces checked1 s1)"

definition validate_resume ::
  "'w env \<Rightarrow> torrent_storage \<Rightarrow> resume_data \<Rightarrow> status_t \<Rightarrow> storage_error \<Rightarrow> 'w
     \<Rightarrow> status_t \<times> storage_error \<times> 'w" where
  "validate_resume E t resume status error w =
     (let seed = seed_mode resume;
          bits = have_pieces resume;
          full = (seed \<or> (int (length bits) \<ge> num_pieces (ts_files t) \<and> all_set bits))
      in if full then check_all_files E t seed [0 ..< num_files (ts_files t)] (status, error, w)
         else check_pieces E t seed bits
           [0 ..< nat (min (int (length bits)) (num_pieces (ts_files t)))]
           (replicate (num_files (ts_files t)) False) (status, error, w))"


section \<open>Creating files: termination, invariants, ownership\<close>

lemma initialize_loop_returns:
  "pool_inv d \<Longrightarrow> \<exists>c h st err d'. initialize_loop E t storage is had status error d = Some (c, h, st, err, d')"
proof (induction "is" arbitrary: had status error d)
  case (Cons i "is")
  obtain ex w where sz: "br_file_size E (path_for t i) (world d) = (ex, w)" by fastforce
  obtain fd e1 d1 where o: "open_file E storage (int i) (path_for t i) True error Op_file_open (d\<lparr>world := w\<rparr>)
      = Some (fd, e1, d1)"
    using open_file_returns [of "d\<lparr>world := w\<rparr>"] Cons.prems unfolding pool_inv_def by force
  then have inv: "pool_inv (d1\<lparr>world := w2\<rparr>)" for w2
    using open_file_pool_inv [OF o] Cons.prems by simp
  obtain tr w2 where tr: "sys_ftruncate E fd (fs_file_size (ts_files t) i) (world d1) = (tr, w2)" by fastforce
  show ?case
  proof (cases "pad_file_at (ts_files t) i \<or> skipped t i \<or> 0 \<le> fd \<and> tr = None")
    case True
    then show ?thesis using Cons.IH [OF Cons.prems] Cons.IH [OF inv] sz o tr by (auto simp: Let_def)
  next
    case False
    then show ?thesis using sz o tr by (cases tr) (auto simp: Let_def)
  qed
qed (simp only: initialize_loop.simps, blast)

lemma initialize_files_returns:
  "pool_inv d \<Longrightarrow> \<exists>st err d'. initialize_files E t storage status error d = Some (st, err, d')"
  using initialize_loop_returns [of d E t storage "[0 ..< num_files (ts_files t)]" False status error]
  by (auto simp: initialize_files_def)

text \<open>The steps of the loop, as an induction rule over its result.\<close>

lemma initialize_loop_induct [consumes 1, case_names Nil Skip Refused Truncate Next]:
  assumes "initialize_loop E t storage is had st err d = Some r"
    and "\<And>had st err d. Q [] had st err d (True, had, st, err, d)"
    and "\<And>i is had st err d r. pad_file_at (ts_files t) i \<or> skipped t i \<Longrightarrow> Q is had st err d r \<Longrightarrow>
           Q (i # is) had st err d r"
    and "\<And>i is had st err d ex w fd e1 d1. \<not> pad_file_at (ts_files t) i \<Longrightarrow> \<not> skipped t i \<Longrightarrow>
           br_file_size E (path_for t i) (world d) = (ex, w) \<Longrightarrow>
           open_file E storage (int i) (path_for t i) True err Op_file_open (d\<lparr>world := w\<rparr>) = Some (fd, e1, d1) \<Longrightarrow>
           fd < 0 \<Longrightarrow> Q (i # is) had st err d (False, had \<or> 0 \<le> ex, insert Fatal_disk_error st, e1, d1)"
    and "\<And>i is had st err d ex w fd e1 d1 e w2. \<not> pad_file_at (ts_files t) i \<Longrightarrow> \<not> skipped t i \<Longrightarrow>
           br_file_size E (path_for t i) (world d) = (ex, w) \<Longrightarrow>
           open_file E storage (int i) (path_for t i) True err Op_file_open (d\<lparr>world := w\<rparr>) = Some (fd, e1, d1) \<Longrightarrow>
           0 \<le> fd \<Longrightarrow> sys_ftruncate E fd (fs_file_size (ts_files t) i) (world d1) = (Some e, w2) \<Longrightarrow>
           Q (i # is) had st err d (False, had \<or> 0 \<le> ex, insert Fatal_disk_error st,
             make_error (- e) (int i) Op_file_truncate, d1\<lparr>world := w2\<rparr>)"
    and "\<And>i is had st err d ex w fd e1 d1 w2 r. \<not> pad_file_at (ts_files t) i \<Longrightarrow> \<not> skipped t i \<Longrightarrow>
           br_file_size E (path_for t i) (world d) = (ex, w) \<Longrightarrow>
           open_file E storage (int i) (path_for t i) True err Op_file_open (d\<lparr>world := w\<rparr>) = Some (fd, e1, d1) \<Longrightarrow>
           0 \<le> fd \<Longrightarrow> sys_ftruncate E fd (fs_file_size (ts_files t) i) (world d1) = (None, w2) \<Longrightarrow>
           Q is (had \<or> 0 \<le> ex) st e1 (d1\<lparr>world := w2\<rparr>) r \<Longrightarrow> Q (i # is) had st err d r"
  shows "Q is had st err d r"
  using assms(1)
proof (induction "is" arbitrary: had st err d)
  case Nil
  then show ?case using assms(2) by auto
next
  case (Cons i "is")
  show ?case
  proof (cases "pad_file_at (ts_files t) i \<or> skipped t i")
    case True
    with Cons assms(3) show ?thesis by simp
  next
    case False
    obtain ex w where sz: "br_file_size E (path_for t i) (world d) = (ex, w)" by fastforce
    with False Cons.prems obtain fd e1 d1 where
      o: "open_file E storage (int i) (path_for t i) True err Op_file_open (d\<lparr>world := w\<rparr>) = Some (fd, e1, d1)"
      by (auto simp: Let_def bind_eq_Some_conv split del: if_split)
    obtain tr w2 where tr: "sys_ftruncate E fd (fs_file_size (ts_files t) i) (world d1) = (tr, w2)" by fastforce
    show ?thesis
    proof (cases "fd < 0")
      case True
      with False sz o Cons.prems assms(4) show ?thesis by auto
    next
      case fd: False
      with False sz o tr Cons.prems Cons.IH assms(5,6) show ?thesis
        by (cases tr) (auto simp: not_less)
    qed
  qed
qed

lemma initialize_loop_pool_inv:
  "initialize_loop E t storage is had st err d = Some (c, had', st', err', d') \<Longrightarrow> pool_inv d \<Longrightarrow> pool_inv d'"
  by (induction "is" had st err d "(c, had', st', err', d')" rule: initialize_loop_induct)
    (auto dest: open_file_pool_inv)

lemma initialize_loop_more:
  "initialize_loop E t storage is had st err d = Some (c, had', st', err', d') \<Longrightarrow> disk.more d' = disk.more d"
  by (induction "is" had st err d "(c, had', st', err', d')" rule: initialize_loop_induct)
    (auto dest: open_file_more)

lemma initialize_files_more:
  "initialize_files E t storage st err d = Some (st', err', d') \<Longrightarrow> disk.more d' = disk.more d"
  by (auto simp: initialize_files_def bind_eq_Some_conv dest: initialize_loop_more)

lemma initialize_files_pool_inv:
  "initialize_files E t storage st err d = Some (st', err', d') \<Longrightarrow> pool_inv d \<Longrightarrow> pool_inv d'"
  by (auto simp: initialize_files_def bind_eq_Some_conv dest: initialize_loop_pool_inv)

context bridge_discipline
begin

lemma clean_opened_after_size:
  assumes "br_file_size E p (world d) = (ex, w)" and "safe_relative_path p"
    and "open_file E storage f p wr err oper (d\<lparr>world := w\<rparr>) = Some (fd, e1, d1)"
    and "clean (owned d + L) (world d)"
  shows "clean (owned d1 + L) (world d1)" and "0 \<le> fd \<longrightarrow> fd \<in># owned d1 + L"
proof -
  have "clean (owned d + L) w" using clean_size [OF assms(2,4)] assms(1) by simp
  then show "clean (owned d1 + L) (world d1)" "0 \<le> fd \<longrightarrow> fd \<in># owned d1 + L"
    using clean_open_file [OF assms(3), of L] by auto
qed

lemma clean_initialize_loop:
  "initialize_loop E t storage is had st err d = Some (c, had', st', err', d') \<Longrightarrow>
     (\<And>i. i \<in> set is \<Longrightarrow> safe_relative_path (path_for t i)) \<Longrightarrow>
     clean (owned d + L) (world d) \<Longrightarrow> clean (owned d' + L) (world d')"
proof (induction "is" had st err d "(c, had', st', err', d')" rule: initialize_loop_induct)
  case (Refused i)
  then show ?case using clean_opened_after_size(1) [OF Refused(3) _ Refused(4), of L] by auto
next
  case (Truncate i "is" had st err d ex w fd e1 d1)
  then show ?case
    using clean_opened_after_size [OF Truncate(3) _ Truncate(4), of L]
      clean_ftruncate [of fd "owned d1 + L" "world d1" "fs_file_size (ts_files t) i"] by auto
next
  case (Next i "is" had st err d ex w fd e1 d1)
  then show ?case
    using clean_opened_after_size [OF Next(3) _ Next(4), of L]
      clean_ftruncate [of fd "owned d1 + L" "world d1" "fs_file_size (ts_files t) i"] by auto
qed auto

lemma clean_initialize_files:
  "initialize_files E t storage st err d = Some (st', err', d') \<Longrightarrow> torrent_safe t \<Longrightarrow>
     clean (owned d + L) (world d) \<Longrightarrow> clean (owned d' + L) (world d')"
  using torrent_safe_path_for
  by (auto simp: initialize_files_def bind_eq_Some_conv elim!: clean_initialize_loop)

lemma clean_check_file:
  "check_file E t seed i exact (st, err, w) = (ok, st', err', w') \<Longrightarrow> safe_relative_path (path_for t i) \<Longrightarrow>
     clean L w \<Longrightarrow> clean L w'"
  using clean_size [of "path_for t i" L w]
  by (auto simp: check_file_def Let_def split: if_splits prod.splits)

lemma clean_check_all_files:
  "check_all_files E t seed is (st, err, w) = (st', err', w') \<Longrightarrow>
     (\<And>i. i \<in> set is \<Longrightarrow> safe_relative_path (path_for t i)) \<Longrightarrow> clean L w \<Longrightarrow> clean L w'"
proof (induction "is" arbitrary: st err w)
  case (Cons i "is")
  obtain ok st1 err1 w1 where c: "check_file E t seed i True (st, err, w) = (ok, st1, err1, w1)"
    by (metis prod_cases4)
  with Cons.prems have "clean L w1" by (auto intro: clean_check_file)
  with Cons c show ?case by (auto split: if_splits)
qed simp

lemma clean_check_slices:
  "check_slices E t seed sls checked (st, err, w) = (ok, checked', st', err', w') \<Longrightarrow>
     (\<And>sl. sl \<in> set sls \<Longrightarrow> safe_relative_path (path_for t (slice_file sl))) \<Longrightarrow> clean L w \<Longrightarrow> clean L w'"
proof (induction sls arbitrary: checked st err w)
  case (Cons sl sls)
  obtain ok1 st1 err1 w1 where
    c: "check_file E t seed (slice_file sl) False (st, err, w) = (ok1, st1, err1, w1)"
    by (metis prod_cases4)
  with Cons.prems have "clean L w1" by (auto intro: clean_check_file)
  with Cons c show ?case by (auto simp: Let_def split: if_splits)
qed simp

lemma clean_check_pieces:
  "check_pieces E t seed bits ps checked (st, err, w) = (st', err', w') \<Longrightarrow> torrent_safe t \<Longrightarrow>
     layout_ok (ts_files t) \<Longrightarrow> clean L w \<Longrightarrow> clean L w'"
proof (induction ps arbitrary: checked st err w)
  case (Cons p ps)
  let ?sls = "map_block (ts_files t) (int p) 0 (piece_size (ts_files t) (int p))"
  obtain ok checked1 st1 err1 w1 where c: "check_slices E t seed ?sls checked (st, err, w) = (ok, checked1, st1, err1, w1)"
    by (metis prod_cases5)
  have "\<And>sl. sl \<in> set ?sls \<Longrightarrow> safe_relative_path (path_for t (slice_file sl))"
    using Cons.prems(2,3) torrent_safe_path_for unfolding layout_ok_def by blast
  from clean_check_slices [OF c this Cons.prems(4)] have "clean L w1" .
  with Cons.IH Cons.prems c show ?case by (auto split: if_splits)
qed simp

lemma clean_validate_resume:
  assumes "validate_resume E t resume st err w = (st', err', w')" and "torrent_safe t" "layout_ok (ts_files t)"
    and "clean L w"
  shows "clean L w'"
proof -
  have "safe_relative_path (path_for t i)" if "i \<in> set [0 ..< num_files (ts_files t)]" for i
    using assms(2) that torrent_safe_path_for by simp
  then show ?thesis
    using assms clean_check_all_files clean_check_pieces unfolding validate_resume_def Let_def
    by (metis (no_types, lifting))
qed

end


section \<open>What validating resume data decides\<close>

text \<open>
  A bridge whose reported sizes do not change while it is asked: \<open>size_of\<close> gives the answer for
  each path.
\<close>

definition stable_sizes :: "'w env \<Rightarrow> (string \<Rightarrow> int) \<Rightarrow> bool" where
  "stable_sizes E size_of \<longleftrightarrow> (\<forall>p w. fst (br_file_size E p w) = size_of p)"

text \<open>The files that are looked at, and what their sizes say.\<close>

definition looked_at :: "torrent_storage \<Rightarrow> bool \<Rightarrow> nat \<Rightarrow> bool" where
  "looked_at t seed i \<longleftrightarrow> \<not> pad_file_at (ts_files t) i \<and> (seed \<or> \<not> skipped t i)"

definition size_unknown :: "(string \<Rightarrow> int) \<Rightarrow> torrent_storage \<Rightarrow> nat \<Rightarrow> bool" where
  "size_unknown size_of t i \<longleftrightarrow> size_of (path_for t i) < 0 \<and> size_of (path_for t i) \<noteq> - ENOENT"

definition size_mismatch :: "(string \<Rightarrow> int) \<Rightarrow> torrent_storage \<Rightarrow> bool \<Rightarrow> nat \<Rightarrow> bool" where
  "size_mismatch size_of t exact i \<longleftrightarrow> size_of (path_for t i) = - ENOENT
     \<or> (exact \<and> size_of (path_for t i) \<noteq> int (fs_file_size (ts_files t) i))"

definition size_exceeded :: "(string \<Rightarrow> int) \<Rightarrow> torrent_storage \<Rightarrow> bool \<Rightarrow> nat \<Rightarrow> bool" where
  "size_exceeded size_of t exact i \<longleftrightarrow>
     exact \<and> size_of (path_for t i) > int (fs_file_size (ts_files t) i)"

text \<open>The flags that the files \<open>S\<close>, all of known size, call for.\<close>

definition resume_flags :: "(string \<Rightarrow> int) \<Rightarrow> torrent_storage \<Rightarrow> bool \<Rightarrow> nat set \<Rightarrow> status_t" where
  "resume_flags size_of t exact S =
     (if \<exists>i \<in> S. size_mismatch size_of t exact i then {Need_full_check} else {})
     \<union> (if \<exists>i \<in> S. size_exceeded size_of t exact i then {Oversized_file} else {})"

text \<open>
  A verdict on the files \<open>S\<close>: either all sizes are known and the status is the one they call for,
  or a size is unknown, the error names such a file and the status is fatal.
\<close>

definition verdict :: "(string \<Rightarrow> int) \<Rightarrow> torrent_storage \<Rightarrow> bool \<Rightarrow> nat set \<Rightarrow> status_t \<Rightarrow> storage_error \<Rightarrow> bool" where
  "verdict size_of t exact S status error \<longleftrightarrow>
     (if \<exists>i \<in> S. size_unknown size_of t i
      then Fatal_disk_error \<in> status \<and> (\<exists>i \<in> S. size_unknown size_of t i \<and>
             error = make_error (size_of (path_for t i)) (int i) Op_file_stat)
      else status = resume_flags size_of t exact S \<and> error = no_error)"

definition looked :: "torrent_storage \<Rightarrow> bool \<Rightarrow> nat set \<Rightarrow> nat set" where
  "looked t seed S = {i \<in> S. looked_at t seed i}"

lemma looked_insert:
  "looked t seed (insert i S) = (if looked_at t seed i then insert i (looked t seed S) else looked t seed S)"
  by (auto simp: looked_def)

lemma verdict_ok:
  "verdict size_of t exact S status no_error \<Longrightarrow> \<forall>i \<in> S. \<not> size_unknown size_of t i"
  by (auto simp: verdict_def no_error_def make_error_def storage_error_at_def split: if_splits)

text \<open>
  One file: with the files \<open>S\<close> judged well, the check either judges \<open>insert i S\<close> well and goes on,
  or stops with a verdict that stands for every larger set.
\<close>

lemma check_file_verdict:
  assumes "stable_sizes E size_of"
    and "check_file E t seed i exact (st, no_error, w) = (ok, st', err', w')"
    and "verdict size_of t exact (looked t seed S) st no_error"
  shows "if ok then err' = no_error \<and> verdict size_of t exact (looked t seed (insert i S)) st' no_error
    else \<forall>T. S \<subseteq> T \<longrightarrow> i \<in> T \<longrightarrow> verdict size_of t exact (looked t seed T) st' err'"
proof (cases "looked_at t seed i")
  case False
  with assms(2,3) show ?thesis
    by (auto simp: check_file_def looked_at_def looked_insert split: if_splits)
next
  case True
  have known: "\<forall>i \<in> looked t seed S. \<not> size_unknown size_of t i"
    using verdict_ok [OF assms(3)] .
  with assms(3) have st: "st = resume_flags size_of t exact (looked t seed S)"
    by (auto simp: verdict_def split: if_splits)
  let ?sz = "size_of (path_for t i)"
  obtain w1 where sz: "br_file_size E (path_for t i) w = (?sz, w1)"
    using assms(1) by (metis prod.collapse stable_sizes_def)
  show ?thesis
  proof (cases "size_unknown size_of t i")
    case unknown: True
    then have run: "ok = False" "st' = insert Fatal_disk_error st" "err' = make_error ?sz (int i) Op_file_stat"
      using assms(2) True sz
      by (auto simp: check_file_def looked_at_def size_unknown_def Let_def split: if_splits)
    then show ?thesis using unknown True by (auto simp: verdict_def looked_def)
  next
    case size_known: False
    then have run: "ok" "err' = no_error" "st' = st \<union> resume_flags size_of t exact {i}"
    proof -
      have "check_file E t seed i exact (st, no_error, w) =
          (True, if size_mismatch size_of t exact i
                 then if size_exceeded size_of t exact i then insert Oversized_file (insert Need_full_check st)
                      else insert Need_full_check st
                 else st, no_error, w1)"
      proof -
        have "?sz = - ENOENT \<or> 0 \<le> ?sz" using size_known unfolding size_unknown_def by linarith
        then show ?thesis
          by (rule disjE) (use True sz in \<open>auto simp: check_file_def looked_at_def size_mismatch_def
            size_exceeded_def Let_def\<close>)
      qed
      moreover have "size_exceeded size_of t exact i \<Longrightarrow> size_mismatch size_of t exact i"
        by (auto simp: size_exceeded_def size_mismatch_def)
      ultimately show "ok" "err' = no_error" "st' = st \<union> resume_flags size_of t exact {i}"
        using assms(2) by (auto simp: resume_flags_def)
    qed
    moreover have "resume_flags size_of t exact (looked t seed (insert i S)) =
        resume_flags size_of t exact (looked t seed S) \<union> resume_flags size_of t exact {i}"
      using True by (auto simp: resume_flags_def looked_insert)
    ultimately show ?thesis
      using known size_known True st by (auto simp: verdict_def looked_insert)
  qed
qed

lemma check_all_files_verdict:
  assumes "stable_sizes E size_of"
    and "check_all_files E t seed is (st, no_error, w) = (st', err', w')"
    and "verdict size_of t True (looked t seed S) st no_error"
  shows "verdict size_of t True (looked t seed (S \<union> set is)) st' err'"
  using assms(2,3)
proof (induction "is" arbitrary: S st w)
  case (Cons i "is")
  obtain ok st1 err1 w1 where c: "check_file E t seed i True (st, no_error, w) = (ok, st1, err1, w1)"
    by (metis prod_cases4)
  have v: "if ok then err1 = no_error \<and> verdict size_of t True (looked t seed (insert i S)) st1 no_error
    else \<forall>T. S \<subseteq> T \<longrightarrow> i \<in> T \<longrightarrow> verdict size_of t True (looked t seed T) st1 err1"
    using check_file_verdict [OF assms(1) c Cons.prems(2)] .
  show ?case
  proof (cases ok)
    case True
    with v Cons.prems c Cons.IH [of st1 w1 "insert i S"] show ?thesis by simp
  next
    case False
    with v Cons.prems c show ?thesis by auto
  qed
qed simp

text \<open>The mask of the files already checked stands for a set of files.\<close>

definition masked :: "bool list \<Rightarrow> nat set" where
  "masked checked = {i. i < length checked \<and> checked ! i}"

lemma masked_update: "i < length checked \<Longrightarrow> masked (checked[i := True]) = insert i (masked checked)"
  by (auto simp: masked_def nth_list_update)

lemma masked_replicate [simp]: "masked (replicate n False) = {}"
  by (auto simp: masked_def)

lemma check_slices_verdict:
  assumes "stable_sizes E size_of"
    and "check_slices E t seed sls checked (st, no_error, w) = (ok, checked', st', err', w')"
    and "verdict size_of t False (looked t seed (masked checked)) st no_error"
    and "\<And>sl. sl \<in> set sls \<Longrightarrow> slice_file sl < length checked"
  shows "if ok then err' = no_error \<and> length checked' = length checked
      \<and> masked checked' = masked checked \<union> slice_file ` set sls
      \<and> verdict size_of t False (looked t seed (masked checked')) st' no_error
    else \<forall>T. masked checked \<union> slice_file ` set sls \<subseteq> T \<longrightarrow> verdict size_of t False (looked t seed T) st' err'"
  using assms(2-)
proof (induction sls arbitrary: checked st w)
  case (Cons sl sls)
  let ?i = "slice_file sl"
  show ?case
  proof (cases "checked ! ?i")
    case True
    then have "insert ?i (masked checked) = masked checked"
      using Cons.prems(3) [of sl] by (auto simp: masked_def)
    then have "masked checked \<union> slice_file ` set (sl # sls) = masked checked \<union> slice_file ` set sls"
      by auto
    with True Cons.prems Cons.IH [of checked st w] show ?thesis by (cases ok) auto
  next
    case False
    obtain ok1 st1 err1 w1 where c: "check_file E t seed ?i False (st, no_error, w) = (ok1, st1, err1, w1)"
      by (metis prod_cases4)
    have v: "if ok1 then err1 = no_error \<and> verdict size_of t False (looked t seed (insert ?i (masked checked))) st1 no_error
      else \<forall>T. masked checked \<subseteq> T \<longrightarrow> ?i \<in> T \<longrightarrow> verdict size_of t False (looked t seed T) st1 err1"
      using check_file_verdict [OF assms(1) c Cons.prems(2)] .
    have upd: "masked (checked[?i := True]) = insert ?i (masked checked)"
      using Cons.prems(3) [of sl] by (simp add: masked_update)
    show ?thesis
    proof (cases ok1)
      case True
      with v Cons.prems False c upd Cons.IH [of "checked[?i := True]" st1 w1] show ?thesis by (cases ok) auto
    next
      case stop: False
      with v Cons.prems False c upd show ?thesis by auto
    qed
  qed
qed simp

text \<open>The files of the pieces the resume data claims.\<close>

definition claimed_files :: "torrent_storage \<Rightarrow> bool list \<Rightarrow> nat set \<Rightarrow> nat set" where
  "claimed_files t bits pieces = (\<Union>p \<in> {p \<in> pieces. bits ! p}.
     slice_file ` set (map_block (ts_files t) (int p) 0 (piece_size (ts_files t) (int p))))"

lemma claimed_files_insert:
  "claimed_files t bits (insert p ps) = (if bits ! p
     then slice_file ` set (map_block (ts_files t) (int p) 0 (piece_size (ts_files t) (int p))) \<union> claimed_files t bits ps
     else claimed_files t bits ps)"
  by (auto simp: claimed_files_def)

lemma check_pieces_verdict:
  assumes "stable_sizes E size_of"
    and "check_pieces E t seed bits ps checked (st, no_error, w) = (st', err', w')"
    and "verdict size_of t False (looked t seed (masked checked)) st no_error"
    and "\<And>i. i \<in> claimed_files t bits (set ps) \<Longrightarrow> i < length checked"
  shows "verdict size_of t False (looked t seed (masked checked \<union> claimed_files t bits (set ps))) st' err'"
  using assms(2-)
proof (induction ps arbitrary: checked st w)
  case Nil
  then show ?case by (simp add: claimed_files_def)
next
  case (Cons p ps)
  let ?sls = "map_block (ts_files t) (int p) 0 (piece_size (ts_files t) (int p))"
  show ?case
  proof (cases "bits ! p")
    case False
    with Cons.prems Cons.IH [of checked st w] show ?thesis by (simp add: claimed_files_insert)
  next
    case True
    obtain ok checked1 st1 err1 w1 where
      c: "check_slices E t seed ?sls checked (st, no_error, w) = (ok, checked1, st1, err1, w1)"
      by (metis prod_cases5)
    have bound: "\<And>sl. sl \<in> set ?sls \<Longrightarrow> slice_file sl < length checked"
      using Cons.prems(3) True by (auto simp: claimed_files_insert)
    note v = check_slices_verdict [OF assms(1) c Cons.prems(2) bound]
    show ?thesis
    proof (cases ok)
      case ok: True
      with v have v1: "err1 = no_error" "length checked1 = length checked"
          "masked checked1 = masked checked \<union> slice_file ` set ?sls"
          "verdict size_of t False (looked t seed (masked checked1)) st1 no_error"
        by auto
      have "check_pieces E t seed bits ps checked1 (st1, no_error, w1) = (st', err', w')"
        using Cons.prems(1) True c ok v1(1) by simp
      from Cons.IH [OF this v1(4)]
      have "verdict size_of t False (looked t seed (masked checked1 \<union> claimed_files t bits (set ps))) st' err'"
        using Cons.prems(3) True v1(2) by (simp add: claimed_files_insert)
      with v1(3) True show ?thesis by (simp add: claimed_files_insert Un_assoc)
    next
      case False
      with v Cons.prems True c show ?thesis by (auto simp: claimed_files_insert)
    qed
  qed
qed

text \<open>The files that validating looks at: all of them for a seed or a complete torrent.\<close>

definition resume_full :: "torrent_storage \<Rightarrow> resume_data \<Rightarrow> bool" where
  "resume_full t resume \<longleftrightarrow> seed_mode resume
     \<or> (int (length (have_pieces resume)) \<ge> num_pieces (ts_files t) \<and> all_set (have_pieces resume))"

definition resume_files :: "torrent_storage \<Rightarrow> resume_data \<Rightarrow> nat set" where
  "resume_files t resume =
     (if resume_full t resume then {..< num_files (ts_files t)}
      else claimed_files t (have_pieces resume)
        {p. p < length (have_pieces resume) \<and> int p < num_pieces (ts_files t)})"

lemma verdict_nothing: "verdict size_of t exact {} {} no_error"
  by (simp add: verdict_def resume_flags_def)

text \<open>C17. Validating resume data gives the verdict the sizes of the claimed files call for: a fatal error naming a
  file whose size cannot be read, if there is one among the files looked at, and otherwise a full check
  exactly when a file is missing or, for a complete torrent, of another size, and an oversized file exactly
  when one is too large.\<close>

theorem validate_resume_verdict:
  assumes "stable_sizes E size_of"
    and "\<And>i. i \<in> resume_files t resume \<Longrightarrow> i < num_files (ts_files t)"
    and "validate_resume E t resume {} no_error w = (status, error, w')"
  shows "verdict size_of t (resume_full t resume)
    (looked t (seed_mode resume) (resume_files t resume)) status error"
proof (cases "resume_full t resume")
  case True
  then have "check_all_files E t (seed_mode resume) [0 ..< num_files (ts_files t)] ({}, no_error, w)
      = (status, error, w')"
    using assms(3) by (simp add: validate_resume_def resume_full_def Let_def)
  from check_all_files_verdict [OF assms(1) this, of "{}"] True show ?thesis
    by (simp add: looked_def verdict_nothing resume_files_def atLeast0LessThan)
next
  case False
  let ?n = "nat (min (int (length (have_pieces resume))) (num_pieces (ts_files t)))"
  have range: "set [0 ..< ?n] = {p. p < length (have_pieces resume) \<and> int p < num_pieces (ts_files t)}"
    by auto
  have "check_pieces E t (seed_mode resume) (have_pieces resume) [0 ..< ?n]
      (replicate (num_files (ts_files t)) False) ({}, no_error, w) = (status, error, w')"
    using False assms(3) by (auto simp: validate_resume_def resume_full_def Let_def)
  from check_pieces_verdict [OF assms(1) this] False assms(2) range show ?thesis
    by (simp add: looked_def verdict_nothing resume_files_def)
qed

end
