(* ===== verification/Move_Storage.thy ===== *)
theory Move_Storage
  imports Check_Files
begin

text \<open>
  Moving the files of a torrent: \<^verbatim>\<open>copy_public_file\<close> copies one file through the bridge and
  \<^verbatim>\<open>move_storage\<close> plans, validates, copies, switches the save root and cleans up, in this order.
\<close>

section \<open>Copying one file\<close>

text \<open>The \<^verbatim>\<open>while (copied < size)\<close> loop; the first result is \<open>False\<close> for \<^verbatim>\<open>return false\<close>.\<close>

partial_function (option) copy_loop ::
  "'w env \<Rightarrow> int \<Rightarrow> int \<Rightarrow> nat \<Rightarrow> nat \<Rightarrow> nat \<Rightarrow> byte list \<Rightarrow> storage_error \<Rightarrow> 'w
     \<Rightarrow> (bool \<times> storage_error \<times> 'w) option" where
  "copy_loop E src dst sz index copied buffer error w =
     (if copied < sz then do {
        let len = min (length buffer) (sz - copied);
        (result, buffer1, w1) \<leftarrow> pread_all src buffer len copied (sys_pread E) w;
        if result < 0 then Some (False, make_error result (int index) Op_file_read, w1)
        else do {
          (result2, w2) \<leftarrow> pwrite_all dst buffer1 len copied (sys_pwrite E) w1;
          if result2 < 0 then Some (False, make_error result2 (int index) Op_file_write, w2)
          else copy_loop E src dst sz index (copied + len) buffer1 error w2
        }
      }
      else Some (True, error, w))"

definition copy_public_file ::
  "'w env \<Rightarrow> string \<Rightarrow> string \<Rightarrow> nat \<Rightarrow> nat \<Rightarrow> storage_error \<Rightarrow> 'w
     \<Rightarrow> (bool \<times> storage_error \<times> 'w) option" where
  "copy_public_file E source_path destination_path sz index error w =
     (if \<not> safe_relative_path source_path \<or> \<not> safe_relative_path destination_path then
        Some (False, storage_error_at (GenericError EINVAL) (int index) Op_file_rename, w)
      else
        let (ok, error1, w1) = ensure_parent_directories E destination_path error (int index) w
        in if \<not> ok then Some (False, error1, w1)
           else let (source, w2) = br_open_file E source_path bridge_open_read w1
             in if source < 0 then Some (False, make_error source (int index) Op_file_read, w2)
                else let (destination, w3) = br_open_file E destination_path bridge_open_read_write w2
                  in if destination < 0 then
                       Some (False, make_error destination (int index) Op_file_write, scoped_reset E source w3)
                     else (case sys_ftruncate E destination sz w3 of
                         (Some e, w4) \<Rightarrow> Some (False, make_error (- e) (int index) Op_file_truncate,
                            scoped_reset E source (scoped_reset E destination w4))
                       | (None, w4) \<Rightarrow> do {
                           (done, error2, w5) \<leftarrow> copy_loop E source destination sz index 0
                             (replicate default_block_size 0) error1 w4;
                           Some (done, error2, scoped_reset E source (scoped_reset E destination w5))
                         }))"

section \<open>Planning a move\<close>

datatype move_flags =
    Always_replace_files | Fail_if_exist | Dont_replace | Reset_save_path | Reset_save_path_unchecked

record move_operation =
  mo_index :: nat
  mo_source :: string
  mo_destination :: string
  mo_source_size :: int
  mo_destination_size :: int
  mo_copy :: bool
  mo_cleanup :: bool

text \<open>The first file whose paths are unsafe, if any; otherwise the destinations.\<close>

definition unsafe_file :: "torrent_storage \<Rightarrow> nat option" where
  "unsafe_file t = List.find (\<lambda>i. \<not> safe_relative_path (ts_logical_paths t ! i)
       \<or> \<not> safe_relative_path (ts_paths t ! i)) [0 ..< length (ts_logical_paths t)]"

definition move_destinations :: "torrent_storage \<Rightarrow> string \<Rightarrow> string list" where
  "move_destinations t root = map (rooted_path root) (ts_logical_paths t)"

definition new_operation :: "nat \<Rightarrow> string \<Rightarrow> string \<Rightarrow> move_operation" where
  "new_operation index source destination =
     \<lparr>mo_index = index, mo_source = source, mo_destination = destination,
      mo_source_size = - ENOENT, mo_destination_size = - ENOENT, mo_copy = False, mo_cleanup = False\<rparr>"

definition plan_operations :: "torrent_storage \<Rightarrow> string list \<Rightarrow> move_operation list" where
  "plan_operations t destinations =
     map (\<lambda>i. new_operation i (ts_paths t ! i) (destinations ! i))
       (filter (\<lambda>i. \<not> pad_file_at (ts_files t) i \<and> ts_paths t ! i \<noteq> destinations ! i)
          [0 ..< num_files (ts_files t)])"

text \<open>An operation whose destination is the current path of another file.\<close>

definition destination_taken :: "torrent_storage \<Rightarrow> move_operation \<Rightarrow> bool" where
  "destination_taken t oper = list_ex (\<lambda>source. source \<noteq> mo_index oper \<and> \<not> pad_file_at (ts_files t) source
       \<and> mo_destination oper = ts_paths t ! source) [0 ..< num_files (ts_files t)]"

section \<open>Stages of the move\<close>

text \<open>\<^verbatim>\<open>fail_if_exist\<close>: the first destination that exists or cannot be inspected stops the move.\<close>

fun fail_if_exist_loop ::
  "'w env \<Rightarrow> torrent_storage \<Rightarrow> string list \<Rightarrow> nat list \<Rightarrow> status_t \<Rightarrow> storage_error \<Rightarrow> 'w
     \<Rightarrow> bool \<times> status_t \<times> storage_error \<times> 'w" where
  "fail_if_exist_loop E t destinations [] status error w = (True, status, error, w)"
| "fail_if_exist_loop E t destinations (index # indices) status error w =
     (if pad_file_at (ts_files t) index then fail_if_exist_loop E t destinations indices status error w
      else let (sz, w1) = br_file_size E (destinations ! index) w
        in if sz \<ge> 0 then (False, insert File_exist status,
             storage_error_at (GenericError EEXIST) (int index) Op_file_stat, w1)
           else if sz \<noteq> - ENOENT then (False, insert Fatal_disk_error status,
             make_error sz (int index) Op_file_stat, w1)
           else fail_if_exist_loop E t destinations indices status error w1)"

text \<open>The loop that inspects sizes and decides which files to copy and which sources to clean up.\<close>

fun inspect_operations ::
  "'w env \<Rightarrow> move_flags \<Rightarrow> move_operation list \<Rightarrow> status_t \<Rightarrow> storage_error \<Rightarrow> 'w
     \<Rightarrow> bool \<times> move_operation list \<times> status_t \<times> storage_error \<times> 'w" where
  "inspect_operations E flags [] status error w = (True, [], status, error, w)"
| "inspect_operations E flags (oper # ops) status error w =
     (let (dsz, w1) = br_file_size E (mo_destination oper) w
      in if dsz < 0 \<and> dsz \<noteq> - ENOENT then (False, [], insert Fatal_disk_error status,
           make_error dsz (int (mo_index oper)) Op_file_stat, w1)
         else let (ssz, w2) = br_file_size E (mo_source oper) w1
           in if ssz < 0 \<and> ssz \<noteq> - ENOENT then (False, [], insert Fatal_disk_error status,
                make_error ssz (int (mo_index oper)) Op_file_stat, w2)
              else let oper1 = oper\<lparr>mo_destination_size := dsz, mo_source_size := ssz,
                                     mo_cleanup := (ssz \<ge> 0)\<rparr>;
                       kept = (flags = Dont_replace \<and> dsz \<ge> 0);
                       status1 = (if kept then insert Need_full_check status else status);
                       oper2 = (if kept then oper1 else oper1\<lparr>mo_copy := (ssz \<ge> 0)\<rparr>);
                       (ok, ops', status2, error2, w3) = inspect_operations E flags ops status1 error w2
                in (ok, oper2 # ops', status2, error2, w3))"

fun copy_operations ::
  "'w env \<Rightarrow> move_operation list \<Rightarrow> status_t \<Rightarrow> storage_error \<Rightarrow> 'w
     \<Rightarrow> (bool \<times> status_t \<times> storage_error \<times> 'w) option" where
  "copy_operations E [] status error w = Some (True, status, error, w)"
| "copy_operations E (oper # ops) status error w =
     (if \<not> mo_copy oper then copy_operations E ops status error w
      else do {
        (ok, error1, w1) \<leftarrow> copy_public_file E (mo_source oper) (mo_destination oper)
          (nat (mo_source_size oper)) (mo_index oper) error w;
        if \<not> ok then Some (False, insert Fatal_disk_error status, error1, w1)
        else copy_operations E ops status error1 w1
      })"

fun cleanup_sources :: "'w env \<Rightarrow> string list \<Rightarrow> move_operation list \<Rightarrow> 'w \<Rightarrow> 'w" where
  "cleanup_sources E destinations [] w = w"
| "cleanup_sources E destinations (oper # ops) w =
     (if \<not> mo_cleanup oper \<or> mo_source oper \<in> set destinations then cleanup_sources E destinations ops w
      else cleanup_sources E destinations ops (snd (br_remove E (mo_source oper) False w)))"

section \<open>The whole move\<close>

text \<open>
  The part of \<^verbatim>\<open>move_storage\<close> that touches files. \<^verbatim>\<open>copy_order\<close> lists the operations in their own
  order, so the copies run over the operations. The torrent comes back with the new save root only
  when every copy succeeded, and the sources are removed after that.
\<close>

definition move_files ::
  "'w env \<Rightarrow> torrent_storage \<Rightarrow> string \<Rightarrow> string list \<Rightarrow> move_operation list \<Rightarrow> move_flags
     \<Rightarrow> status_t \<Rightarrow> storage_error \<Rightarrow> 'w \<Rightarrow> (torrent_storage \<times> status_t \<times> storage_error \<times> 'w) option" where
  "move_files E t root destinations operations flags status error w =
     (let (ok, status1, error1, w1) =
        (if flags = Fail_if_exist
         then fail_if_exist_loop E t destinations [0 ..< num_files (ts_files t)] status error w
         else (True, status, error, w))
      in if \<not> ok then Some (t, status1, error1, w1)
         else let (ok2, operations2, status2, error2, w2) =
             inspect_operations E flags operations status1 error1 w1
           in if \<not> ok2 then Some (t, status2, error2, w2)
              else do {
                (ok3, status3, error3, w3) \<leftarrow> copy_operations E operations2 status2 error2 w2;
                Some (if \<not> ok3 then (t, status3, error3, w3)
                      else (set_save_root t root, status3, error3,
                            cleanup_sources E destinations operations2 w3))
              })"

definition move_storage ::
  "'w env \<Rightarrow> torrent_storage \<Rightarrow> nat \<Rightarrow> string \<Rightarrow> move_flags \<Rightarrow> status_t \<Rightarrow> storage_error
     \<Rightarrow> ('w, 'z) disk_scheme \<Rightarrow> (torrent_storage \<times> status_t \<times> storage_error \<times> ('w, 'z) disk_scheme) option" where
  "move_storage E t storage destination_root flags status error d =
     (let root = normalized_save_root destination_root;
          d0 = close_storage E storage d;
          destinations = move_destinations t root;
          operations = plan_operations t destinations
      in case unsafe_file t of
           Some i \<Rightarrow> Some (t, insert Fatal_disk_error status,
             storage_error_at (GenericError EINVAL) (int i) Op_file_rename, d0)
         | None \<Rightarrow> (case List.find (destination_taken t) operations of
             Some oper \<Rightarrow> Some (t, insert Fatal_disk_error status,
               storage_error_at (GenericError EINVAL) (int (mo_index oper)) Op_file_rename, d0)
           | None \<Rightarrow>
             let (validation, w1) = (if root = [] then (0, world d0) else br_validate_path E root (world d0))
             in if validation < 0 then
                  Some (t, insert Fatal_disk_error status,
                    storage_error_of (if validation = - EINVAL then GenericError EINVAL
                                      else from_bridge_result validation) Op_file_rename, d0\<lparr>world := w1\<rparr>)
                else if flags = Reset_save_path \<or> flags = Reset_save_path_unchecked then
                  Some (set_save_root t root,
                    if flags = Reset_save_path then insert Need_full_check status else status,
                    error, d0\<lparr>world := w1\<rparr>)
                else do {
                  (t', status', error', w') \<leftarrow>
                    move_files E t root destinations operations flags status error w1;
                  Some (t', status', error', d0\<lparr>world := w'\<rparr>)
                }))"

section \<open>The outcomes of copying and moving\<close>

lemma copy_loop_induct [consumes 1, case_names Done Read Write Next]:
  assumes "copy_loop E src dst sz index c buf err w = Some r"
    and "\<And>c buf w. sz \<le> c \<Longrightarrow> Q c buf w (True, err, w)"
    and "\<And>c buf w n buf1 w1. c < sz \<Longrightarrow>
           pread_all src buf (min (length buf) (sz - c)) c (sys_pread E) w = Some (n, buf1, w1) \<Longrightarrow> n < 0 \<Longrightarrow>
           Q c buf w (False, make_error n (int index) Op_file_read, w1)"
    and "\<And>c buf w n buf1 w1 m w2. c < sz \<Longrightarrow>
           pread_all src buf (min (length buf) (sz - c)) c (sys_pread E) w = Some (n, buf1, w1) \<Longrightarrow> 0 \<le> n \<Longrightarrow>
           pwrite_all dst buf1 (min (length buf) (sz - c)) c (sys_pwrite E) w1 = Some (m, w2) \<Longrightarrow> m < 0 \<Longrightarrow>
           Q c buf w (False, make_error m (int index) Op_file_write, w2)"
    and "\<And>c buf w n buf1 w1 m w2 r. c < sz \<Longrightarrow>
           pread_all src buf (min (length buf) (sz - c)) c (sys_pread E) w = Some (n, buf1, w1) \<Longrightarrow> 0 \<le> n \<Longrightarrow>
           pwrite_all dst buf1 (min (length buf) (sz - c)) c (sys_pwrite E) w1 = Some (m, w2) \<Longrightarrow> 0 \<le> m \<Longrightarrow>
           Q (c + min (length buf) (sz - c)) buf1 w2 r \<Longrightarrow> Q c buf w r"
  shows "Q c buf w r"
proof -
  have step: "Q c buf w r"
    if IH: "\<And>c buf w r. f c buf w = Some r \<Longrightarrow> Q c buf w r"
      and run: "(if c < sz then do {
          let len = min (length buf) (sz - c);
          (n, buf1, w1) \<leftarrow> pread_all src buf len c (sys_pread E) w;
          if n < 0 then Some (False, make_error n (int index) Op_file_read, w1)
          else do {
            (m, w2) \<leftarrow> pwrite_all dst buf1 len c (sys_pwrite E) w1;
            if m < 0 then Some (False, make_error m (int index) Op_file_write, w2)
            else f (c + len) buf1 w2
          } } else Some (True, err, w)) = Some r" for f c buf w r
  proof (cases "c < sz")
    case False
    with run assms(2) show ?thesis by auto
  next
    case True
    let ?len = "min (length buf) (sz - c)"
    from True run obtain n buf1 w1 where rd: "pread_all src buf ?len c (sys_pread E) w = Some (n, buf1, w1)"
      by (auto simp: Let_def bind_eq_Some_conv)
    show ?thesis
    proof (cases "n < 0")
      case neg: True
      with True run rd assms(3) show ?thesis by (auto simp: Let_def)
    next
      case n: False
      with True run rd obtain m w2 where wr: "pwrite_all dst buf1 ?len c (sys_pwrite E) w1 = Some (m, w2)"
        by (auto simp: Let_def bind_eq_Some_conv)
      with True run rd n IH assms(4,5) show ?thesis by (cases "m < 0") (auto simp: Let_def not_less)
    qed
  qed
  have "E = E \<longrightarrow> src = src \<longrightarrow> dst = dst \<longrightarrow> sz = sz \<longrightarrow> index = index \<longrightarrow> err = err \<longrightarrow> Q c buf w r"
  proof (rule copy_loop.raw_induct [where P = "\<lambda>E' s d z i c buf e w r. E' = E \<longrightarrow> s = src \<longrightarrow> d = dst \<longrightarrow>
          z = sz \<longrightarrow> i = index \<longrightarrow> e = err \<longrightarrow> Q c buf w r", OF _ assms(1)], intro impI, goal_cases)
    case (1 f E' s d z i c buf e w r)
    show ?case
    proof (rule step)
      show "Q c buf w r" if "f E src dst sz index c buf err w = Some r" for c buf w r
        using 1(1) [OF that] by simp
    qed (use 1(2) [unfolded 1(3-8)] in simp)
  qed
  then show ?thesis by simp
qed

lemma copy_public_fileE:
  assumes "copy_public_file E src dst sz index error w = Some (ok, err, w')"
  obtains
    (unsafe) "\<not> ok" "has_error err" "w' = w"
  | (directories) "safe_relative_path src" "safe_relative_path dst" "\<not> ok" "has_error err"
      "ensure_parent_directories E dst error (int index) w = (False, err, w')"
  | (source) w1 fd where "safe_relative_path src" "safe_relative_path dst"
      "ensure_parent_directories E dst error (int index) w = (True, error, w1)"
      "br_open_file E src bridge_open_read w1 = (fd, w')" "fd < 0" "\<not> ok" "has_error err"
  | (destination) w1 fd w2 fd2 w3 where "safe_relative_path src" "safe_relative_path dst"
      "ensure_parent_directories E dst error (int index) w = (True, error, w1)"
      "br_open_file E src bridge_open_read w1 = (fd, w2)" "0 \<le> fd"
      "br_open_file E dst bridge_open_read_write w2 = (fd2, w3)" "fd2 < 0" "w' = sys_close E fd w3"
      "\<not> ok" "has_error err"
  | (truncate) w1 fd w2 fd2 w3 e w4 where "safe_relative_path src" "safe_relative_path dst"
      "ensure_parent_directories E dst error (int index) w = (True, error, w1)"
      "br_open_file E src bridge_open_read w1 = (fd, w2)" "0 \<le> fd"
      "br_open_file E dst bridge_open_read_write w2 = (fd2, w3)" "0 \<le> fd2"
      "sys_ftruncate E fd2 sz w3 = (Some e, w4)" "w' = sys_close E fd (sys_close E fd2 w4)"
      "\<not> ok" "err = make_error (- e) (int index) Op_file_truncate"
  | (copied) w1 fd w2 fd2 w3 w4 w5 where "safe_relative_path src" "safe_relative_path dst"
      "ensure_parent_directories E dst error (int index) w = (True, error, w1)"
      "br_open_file E src bridge_open_read w1 = (fd, w2)" "0 \<le> fd"
      "br_open_file E dst bridge_open_read_write w2 = (fd2, w3)" "0 \<le> fd2"
      "sys_ftruncate E fd2 sz w3 = (None, w4)"
      "copy_loop E fd fd2 sz index 0 (replicate default_block_size 0) error w4 = Some (ok, err, w5)"
      "w' = sys_close E fd (sys_close E fd2 w5)"
proof -
  obtain ok1 e1 w1 where dirs: "ensure_parent_directories E dst error (int index) w = (ok1, e1, w1)"
    by (metis prod_cases3)
  obtain fd w2 where s: "br_open_file E src bridge_open_read w1 = (fd, w2)" by fastforce
  obtain fd2 w3 where d: "br_open_file E dst bridge_open_read_write w2 = (fd2, w3)" by fastforce
  obtain tr w4 where tr: "sys_ftruncate E fd2 sz w3 = (tr, w4)" by fastforce
  note made = ensure_parent_directories_ok [OF dirs]
  note run = assms [unfolded copy_public_file_def]
  show thesis
  proof (cases "safe_relative_path src \<and> safe_relative_path dst")
    case False
    with run unsafe show thesis by auto
  next
    case safe: True
    show thesis
    proof (cases ok1)
      case False
      with run safe dirs made directories show thesis by (auto simp: Let_def)
    next
      case True
      with made dirs have dirs1: "ensure_parent_directories E dst error (int index) w = (True, error, w1)" by simp
      consider "fd < 0" | "0 \<le> fd" "fd2 < 0" | e where "0 \<le> fd" "0 \<le> fd2" "tr = Some e"
        | "0 \<le> fd" "0 \<le> fd2" "tr = None" by (cases tr) force+
      then show thesis
      proof cases
        case 1
        with run safe dirs1 s source show thesis by (auto simp: Let_def)
      next
        case 2
        with run safe dirs1 s d destination show thesis by (auto simp: Let_def scoped_reset_def)
      next
        case 3
        with run safe dirs1 s d tr truncate show thesis by (auto simp: Let_def scoped_reset_def)
      next
        case 4
        with run safe dirs1 s d tr copied show thesis
          by (auto simp: Let_def scoped_reset_def bind_eq_Some_conv)
      qed
    qed
  qed
qed

section \<open>Termination\<close>

lemma copy_loop_returns:
  assumes "posix_io E pending" and "0 < length buffer"
  shows "\<exists>ok err w'. copy_loop E src dst sz index copied buffer error w = Some (ok, err, w')"
  using assms(2)
proof (induction "sz - copied" arbitrary: copied buffer w rule: less_induct)
  case less
  show ?case
  proof (cases "copied < sz")
    case False
    then show ?thesis by (subst copy_loop.simps) simp
  next
    case True
    let ?len = "min (length buffer) (sz - copied)"
    obtain r buffer1 w1 where rd: "pread_all src buffer ?len copied (sys_pread E) w = Some (r, buffer1, w1)"
      using posix_io.pread_all_returns [OF assms(1)] by blast
    obtain r2 w2 where wr: "pwrite_all dst buffer1 ?len copied (sys_pwrite E) w1 = Some (r2, w2)"
      using posix_io.pwrite_all_returns [OF assms(1)] by blast
    have "length buffer1 = length buffer" using pread_all_length [OF rd] by simp
    moreover from this have "\<exists>ok err w'. copy_loop E src dst sz index (copied + ?len) buffer1 error w2 = Some (ok, err, w')"
      using less.prems True transfer_progress [OF True, of ?len] by (intro less.hyps) auto
    ultimately show ?thesis using True rd wr by (subst copy_loop.simps) (auto simp: Let_def)
  qed
qed

lemma copy_public_file_returns:
  assumes "posix_io E pending"
  shows "\<exists>ok err w'. copy_public_file E src dst sz index error w = Some (ok, err, w')"
proof -
  obtain ok1 e1 w1 where dirs: "ensure_parent_directories E dst error (int index) w = (ok1, e1, w1)"
    by (metis prod_cases3)
  obtain fd w2 where s: "br_open_file E src bridge_open_read w1 = (fd, w2)" by fastforce
  obtain fd2 w3 where d: "br_open_file E dst bridge_open_read_write w2 = (fd2, w3)" by fastforce
  obtain tr w4 where tr: "sys_ftruncate E fd2 sz w3 = (tr, w4)" by fastforce
  obtain ok2 e2 w5 where
    "copy_loop E fd fd2 sz index 0 (replicate default_block_size 0) e1 w4 = Some (ok2, e2, w5)"
    using copy_loop_returns [OF assms, of "replicate default_block_size 0"] by fastforce
  with dirs s d tr show ?thesis
    by (cases tr) (simp_all add: copy_public_file_def Let_def)
qed

lemma copy_operations_returns:
  assumes "posix_io E pending"
  shows "\<exists>ok st err w'. copy_operations E ops status error w = Some (ok, st, err, w')"
proof (induction ops arbitrary: error w)
  case (Cons oper ops)
  obtain ok err w1 where "copy_public_file E (mo_source oper) (mo_destination oper)
      (nat (mo_source_size oper)) (mo_index oper) error w = Some (ok, err, w1)"
    using copy_public_file_returns [OF assms] by blast
  with Cons show ?case by (cases ok) auto
qed auto

lemma move_files_returns:
  assumes "posix_io E pending"
  shows "\<exists>t' st err w'. move_files E t root dests ops flags status error w = Some (t', st, err, w')"
proof -
  obtain ok st1 e1 w1 where 1: "(if flags = Fail_if_exist
      then fail_if_exist_loop E t dests [0 ..< num_files (ts_files t)] status error w
      else (True, status, error, w)) = (ok, st1, e1, w1)"
    by (metis prod_cases4)
  obtain ok2 ops2 st2 e2 w2 where 2: "inspect_operations E flags ops st1 e1 w1 = (ok2, ops2, st2, e2, w2)"
    by (metis prod_cases5)
  obtain ok3 st3 e3 w3 where 3: "copy_operations E ops2 st2 e2 w2 = Some (ok3, st3, e3, w3)"
    using copy_operations_returns [OF assms] by blast
  show ?thesis
    unfolding move_files_def 1 using 2 3 by (cases ok; cases ok2; cases ok3) simp_all
qed

lemma move_storage_returns:
  assumes "posix_io E pending"
  shows "\<exists>t' st err d'. move_storage E t storage root flags status error d = Some (t', st, err, d')"
proof (cases "unsafe_file t")
  case None
  let ?root = "normalized_save_root root"
  let ?ops = "plan_operations t (move_destinations t ?root)"
  let ?d0 = "close_storage E storage d"
  obtain v w1 where v: "(if ?root = [] then (0, world ?d0) else br_validate_path E ?root (world ?d0)) = (v, w1)"
    by fastforce
  obtain t' st err w' where
    "move_files E t ?root (move_destinations t ?root) ?ops flags status error w1 = Some (t', st, err, w')"
    using move_files_returns [OF assms] by blast
  with None show ?thesis
    unfolding move_storage_def Let_def v by (auto split: option.splits)
qed (simp add: move_storage_def Let_def)


section \<open>Results of the stages\<close>

lemma fail_if_exist_loop_result:
  "fail_if_exist_loop E t dests is st err w = (ok, st', err', w') \<Longrightarrow>
     (ok \<longrightarrow> st' = st \<and> err' = err) \<and> (\<not> ok \<longrightarrow> has_error err')"
  by (induction "is" arbitrary: w) (auto simp: Let_def split: if_splits prod.splits)

text \<open>Inspecting fills in sizes and decisions; index, source and destination stay.\<close>

definition same_plan :: "move_operation \<Rightarrow> move_operation \<Rightarrow> bool" where
  "same_plan a b \<longleftrightarrow> mo_index b = mo_index a \<and> mo_source b = mo_source a \<and> mo_destination b = mo_destination a"

text \<open>The loop with its tuple taken apart.\<close>

lemma inspect_operations_Cons:
  assumes "inspect_operations E flags (oper # ops) st err w = (ok, ops', st', err', w')"
  obtains
    (destination) dsz where "br_file_size E (mo_destination oper) w = (dsz, w')" "dsz < 0" "dsz \<noteq> - ENOENT"
      "\<not> ok" "has_error err'"
  | (source) dsz w1 ssz where "br_file_size E (mo_destination oper) w = (dsz, w1)"
      "br_file_size E (mo_source oper) w1 = (ssz, w')" "ssz < 0" "ssz \<noteq> - ENOENT" "\<not> ok" "has_error err'"
  | (inspected) dsz w1 ssz w2 kept ops2 where "br_file_size E (mo_destination oper) w = (dsz, w1)"
      "br_file_size E (mo_source oper) w1 = (ssz, w2)" "0 \<le> dsz \<or> dsz = - ENOENT" "0 \<le> ssz \<or> ssz = - ENOENT"
      "kept \<longleftrightarrow> flags = Dont_replace \<and> 0 \<le> dsz"
      "inspect_operations E flags ops (if kept then insert Need_full_check st else st) err w2
         = (ok, ops2, st', err', w')"
      "ops' = oper\<lparr>mo_destination_size := dsz, mo_source_size := ssz, mo_cleanup := (0 \<le> ssz),
                    mo_copy := (if kept then mo_copy oper else 0 \<le> ssz)\<rparr> # ops2"
proof -
  obtain dsz w1 where d: "br_file_size E (mo_destination oper) w = (dsz, w1)" by fastforce
  obtain ssz w2 where s: "br_file_size E (mo_source oper) w1 = (ssz, w2)" by fastforce
  define kept where "kept \<longleftrightarrow> flags = Dont_replace \<and> 0 \<le> dsz"
  obtain ok2 ops2 st2 e2 w3 where
    rest: "inspect_operations E flags ops (if kept then insert Need_full_check st else st) err w2
      = (ok2, ops2, st2, e2, w3)"
    by (metis prod_cases5)
  consider "dsz < 0 \<and> dsz \<noteq> - ENOENT" | "\<not> (dsz < 0 \<and> dsz \<noteq> - ENOENT)" "ssz < 0 \<and> ssz \<noteq> - ENOENT"
    | "\<not> (dsz < 0 \<and> dsz \<noteq> - ENOENT)" "\<not> (ssz < 0 \<and> ssz \<noteq> - ENOENT)" by blast
  then show thesis
  proof cases
    case 1
    with assms d destination show thesis by auto
  next
    case 2
    with assms d s source show thesis by auto
  next
    case 3
    have "oper\<lparr>mo_destination_size := dsz, mo_source_size := ssz, mo_cleanup := (0 \<le> ssz),
        mo_copy := (if kept then mo_copy oper else 0 \<le> ssz)\<rparr> =
      (if kept then oper\<lparr>mo_destination_size := dsz, mo_source_size := ssz, mo_cleanup := (0 \<le> ssz)\<rparr>
       else oper\<lparr>mo_destination_size := dsz, mo_source_size := ssz, mo_cleanup := (0 \<le> ssz)\<rparr>
              \<lparr>mo_copy := (0 \<le> ssz)\<rparr>)"
      by (cases kept; cases oper) simp_all
    with assms d s rest 3(1)[simplified] 3(2)[simplified]
    have "ok = ok2 \<and> ops' = oper\<lparr>mo_destination_size := dsz, mo_source_size := ssz, mo_cleanup := (0 \<le> ssz),
        mo_copy := (if kept then mo_copy oper else 0 \<le> ssz)\<rparr> # ops2 \<and> st' = st2 \<and> err' = e2 \<and> w' = w3"
      unfolding kept_def by (simp only: inspect_operations.simps Let_def split_beta 3 if_False fst_conv snd_conv) simp
    then have "inspect_operations E flags ops (if kept then insert Need_full_check st else st) err w2
        = (ok, ops2, st', err', w')"
      and "ops' = oper\<lparr>mo_destination_size := dsz, mo_source_size := ssz, mo_cleanup := (0 \<le> ssz),
        mo_copy := (if kept then mo_copy oper else 0 \<le> ssz)\<rparr> # ops2"
      using rest by simp_all
    moreover have "0 \<le> dsz \<or> dsz = - ENOENT" "0 \<le> ssz \<or> ssz = - ENOENT" using 3 by linarith+
    ultimately show thesis using inspected [OF d s _ _ kept_def] by blast
  qed
qed

lemma inspect_operations_result:
  "inspect_operations E flags ops st err w = (ok, ops', st', err', w') \<Longrightarrow>
     (ok \<longrightarrow> err' = err \<and> list_all2 same_plan ops ops' \<and> st \<subseteq> st') \<and> (\<not> ok \<longrightarrow> has_error err')"
proof (induction ops arbitrary: st w ops')
  case (Cons oper ops)
  from Cons.prems show ?case
    by (cases rule: inspect_operations_Cons)
      (use Cons.IH in \<open>fastforce simp: same_plan_def split: if_splits\<close>)+
qed simp


lemma copy_loop_result:
  assumes "copy_loop E src dst sz index c buf err w = Some (ok, err', w')"
  shows "(ok \<longrightarrow> err' = err) \<and> (\<not> ok \<longrightarrow> has_error err')"
proof -
  have "case (ok, err', w') of (ok, err', w') \<Rightarrow> (ok \<longrightarrow> err' = err) \<and> (\<not> ok \<longrightarrow> has_error err')"
    using assms by (induction rule: copy_loop_induct) auto
  then show ?thesis by simp
qed

lemma copy_public_file_result:
  assumes "posix_io E pending" and "copy_public_file E src dst sz index err w = Some (ok, err', w')"
  shows "(ok \<longrightarrow> err' = err) \<and> (\<not> ok \<longrightarrow> has_error err')"
  using assms(2)
  by (cases rule: copy_public_fileE)
    (auto dest: copy_loop_result posix_io.ftruncate_errno [OF assms(1)])

lemma copy_operations_result:
  assumes "posix_io E pending"
  shows "copy_operations E ops st err w = Some (ok, st', err', w') \<Longrightarrow>
    (ok \<longrightarrow> err' = err \<and> st' = st) \<and> (\<not> ok \<longrightarrow> has_error err')"
  by (induction ops arbitrary: err w)
    (auto simp: bind_eq_Some_conv split: if_splits dest!: copy_public_file_result [OF assms])

lemma move_filesE:
  assumes "move_files E t root dests ops flags st err w = Some (t', st', err', w')"
  obtains
    (exist) "flags = Fail_if_exist" "t' = t"
      "fail_if_exist_loop E t dests [0 ..< num_files (ts_files t)] st err w = (False, st', err', w')"
  | (inspect) st1 err1 w1 ops2 where "t' = t"
      "(if flags = Fail_if_exist then fail_if_exist_loop E t dests [0 ..< num_files (ts_files t)] st err w
        else (True, st, err, w)) = (True, st1, err1, w1)"
      "inspect_operations E flags ops st1 err1 w1 = (False, ops2, st', err', w')"
  | (copy) st1 err1 w1 ops2 st2 err2 w2 where "t' = t"
      "(if flags = Fail_if_exist then fail_if_exist_loop E t dests [0 ..< num_files (ts_files t)] st err w
        else (True, st, err, w)) = (True, st1, err1, w1)"
      "inspect_operations E flags ops st1 err1 w1 = (True, ops2, st2, err2, w2)"
      "copy_operations E ops2 st2 err2 w2 = Some (False, st', err', w')"
  | (moved) st1 err1 w1 ops2 st2 err2 w2 w3 where "t' = set_save_root t root"
      "(if flags = Fail_if_exist then fail_if_exist_loop E t dests [0 ..< num_files (ts_files t)] st err w
        else (True, st, err, w)) = (True, st1, err1, w1)"
      "inspect_operations E flags ops st1 err1 w1 = (True, ops2, st2, err2, w2)"
      "copy_operations E ops2 st2 err2 w2 = Some (True, st', err', w3)"
      "w' = cleanup_sources E dests ops2 w3"
proof -
  obtain ok st1 err1 w1 where 1: "(if flags = Fail_if_exist
      then fail_if_exist_loop E t dests [0 ..< num_files (ts_files t)] st err w
      else (True, st, err, w)) = (ok, st1, err1, w1)"
    by (metis prod_cases4)
  obtain ok2 ops2 st2 err2 w2 where 2: "inspect_operations E flags ops st1 err1 w1 = (ok2, ops2, st2, err2, w2)"
    by (metis prod_cases5)
  note run = assms [unfolded move_files_def 1 Let_def prod.case 2]
  show thesis
  proof (cases ok)
    case False
    with run 1 exist show thesis by (cases "flags = Fail_if_exist") auto
  next
    case ok: True
    show thesis
    proof (cases ok2)
      case False
      with run ok 1 2 inspect show thesis by auto
    next
      case True
      with run ok obtain ok3 st3 err3 w3 where 3: "copy_operations E ops2 st2 err2 w2 = Some (ok3, st3, err3, w3)"
        by (auto simp: bind_eq_Some_conv split: if_splits)
      with True run ok 1 2 copy moved show thesis by (cases ok3) auto
    qed
  qed
qed

text \<open>
  Before the files are touched: unsafe paths, a destination in use or a refused root reject the
  move, and resetting the save path ends it.
\<close>

lemma move_storageE:
  fixes root :: string
  defines "r \<equiv> normalized_save_root root"
  assumes "move_storage E t storage root flags st err d = Some (t', st', err', d')"
  obtains
    (rejected) "t' = t" "has_error err'" "Fatal_disk_error \<in> st'" "d' = close_storage E storage d"
  | (refused) v w where "t' = t" "has_error err'" "Fatal_disk_error \<in> st'" "r \<noteq> []" "unsafe_file t = None"
      "br_validate_path E r (world (close_storage E storage d)) = (v, w)"
      "v < 0" "d' = (close_storage E storage d)\<lparr>world := w\<rparr>"
  | (validated) v w where "unsafe_file t = None"
      "\<forall>oper \<in> set (plan_operations t (move_destinations t r)). \<not> destination_taken t oper"
      "(if r = [] then (0, world (close_storage E storage d))
        else br_validate_path E r (world (close_storage E storage d))) = (v, w)" "0 \<le> v"
      "(if flags = Reset_save_path \<or> flags = Reset_save_path_unchecked
        then Some (set_save_root t r, if flags = Reset_save_path then insert Need_full_check st else st, err, w)
        else move_files E t r (move_destinations t r) (plan_operations t (move_destinations t r)) flags st err w)
       = Some (t', st', err', world d')" "d' = (close_storage E storage d)\<lparr>world := world d'\<rparr>"
proof -
  let ?d0 = "close_storage E storage d"
  let ?ops = "plan_operations t (move_destinations t r)"
  obtain v w where v: "(if r = [] then (0, world ?d0) else br_validate_path E r (world ?d0)) = (v, w)"
    by fastforce
  note run = assms(2) [unfolded move_storage_def Let_def, folded r_def, unfolded v]
  show thesis
  proof (cases "unsafe_file t")
    case (Some i)
    with run rejected show thesis by auto
  next
    case safe: None
    show thesis
    proof (cases "List.find (destination_taken t) ?ops")
      case (Some oper)
      with safe run rejected show thesis by auto
    next
      case None
      then have free: "\<forall>oper \<in> set ?ops. \<not> destination_taken t oper"
        by (simp add: find_None_iff)
      show thesis
      proof (cases "v < 0")
        case True
        then have "r \<noteq> []" and "br_validate_path E r (world ?d0) = (v, w)" using v by (auto split: if_splits)
        with True safe None run refused show thesis by (auto split: if_splits)
      next
        case False
        with safe None run have "(if flags = Reset_save_path \<or> flags = Reset_save_path_unchecked
            then Some (set_save_root t r, if flags = Reset_save_path then insert Need_full_check st else st, err, w)
            else move_files E t r (move_destinations t r) ?ops flags st err w) = Some (t', st', err', world d')
          \<and> d' = ?d0\<lparr>world := world d'\<rparr>"
          by (auto simp: bind_eq_Some_conv split: if_splits)
        with validated [OF safe free v] False show thesis by simp
      qed
    qed
  qed
qed

section \<open>Discipline of the move\<close>

context bridge_discipline
begin

lemma clean_copy_loop:
  assumes "copy_loop E src dst sz index c buf err w = Some (ok, err', w')"
    and "src \<in># L" "dst \<in># L" "clean L w"
  shows "clean L w'"
proof -
  have "clean L w \<longrightarrow> clean L (snd (snd (ok, err', w')))"
    using assms(1)
    by (induction rule: copy_loop_induct) (auto dest: clean_pread_all [OF _ assms(2)] clean_pwrite_all [OF _ assms(3)])
  with assms(4) show ?thesis by simp
qed

text \<open>Whatever happens, the descriptors that copying opened are closed again.\<close>

lemma clean_copy_public_file:
  assumes "copy_public_file E src dst sz index err w = Some (ok, err', w')" and "clean L w"
  shows "clean L w'"
  using assms(1)
proof (cases rule: copy_public_fileE)
  case (source w1 fd)
  then show ?thesis
    using clean_ensure_parent_directories [OF source(3) assms(2)] clean_open [OF source(1) _ source(4), of L] by auto
next
  case (destination w1 fd w2 fd2 w3)
  then have "clean (add_mset fd L) w2"
    using clean_ensure_parent_directories [OF destination(3) assms(2)] clean_open [OF destination(1) _ destination(4), of L]
    by auto
  then have "clean (add_mset fd L) w3" using destination clean_open [OF destination(2) _ destination(6)] by fastforce
  then show ?thesis using destination clean_close [of fd "add_mset fd L" w3] by simp
next
  case (truncate w1 fd w2 fd2 w3 e w4)
  then have "clean (add_mset fd L) w2"
    using clean_ensure_parent_directories [OF truncate(3) assms(2)] clean_open [OF truncate(1) _ truncate(4), of L]
    by auto
  then have "clean (add_mset fd2 (add_mset fd L)) w3"
    using truncate clean_open [OF truncate(2) _ truncate(6)] by fastforce
  then have "clean (add_mset fd2 (add_mset fd L)) w4"
    using clean_ftruncate [of fd2 _ w3 sz] truncate(8) by fastforce
  then have "clean (add_mset fd L) (sys_close E fd2 w4)"
    using clean_close [of fd2 "add_mset fd2 (add_mset fd L)" w4] by simp
  then show ?thesis using truncate clean_close [of fd "add_mset fd L"] by fastforce
next
  case (copied w1 fd w2 fd2 w3 w4 w5)
  then have "clean (add_mset fd L) w2"
    using clean_ensure_parent_directories [OF copied(3) assms(2)] clean_open [OF copied(1) _ copied(4), of L]
    by auto
  then have "clean (add_mset fd2 (add_mset fd L)) w3"
    using copied clean_open [OF copied(2) _ copied(6)] by fastforce
  then have "clean (add_mset fd2 (add_mset fd L)) w4"
    using clean_ftruncate [of fd2 _ w3 sz] copied(8) by fastforce
  then have "clean (add_mset fd2 (add_mset fd L)) w5"
    using clean_copy_loop [OF copied(9)] by simp
  then have "clean (add_mset fd L) (sys_close E fd2 w5)"
    using clean_close [of fd2 "add_mset fd2 (add_mset fd L)" w5] by simp
  then show ?thesis using copied clean_close [of fd "add_mset fd L"] by fastforce
qed (use assms(2) clean_ensure_parent_directories in auto)

lemma clean_copy_operations:
  "copy_operations E ops st err w = Some (ok, st', err', w') \<Longrightarrow> clean L w \<Longrightarrow> clean L w'"
  by (induction ops arbitrary: err w)
    (auto simp: bind_eq_Some_conv split: if_splits intro: clean_copy_public_file)

lemma clean_fail_if_exist_loop:
  "fail_if_exist_loop E t dests is st err w = (ok, st', err', w') \<Longrightarrow>
     (\<And>i. i \<in> set is \<Longrightarrow> safe_relative_path (dests ! i)) \<Longrightarrow> clean L w \<Longrightarrow> clean L w'"
proof (induction "is" arbitrary: w)
  case (Cons i "is")
  have "clean L (snd (br_file_size E (dests ! i) w))" using Cons.prems clean_size by simp
  with Cons show ?case by (auto simp: Let_def split: if_splits prod.splits)
qed simp

lemma clean_inspect_operations:
  "inspect_operations E flags ops st err w = (ok, ops', st', err', w') \<Longrightarrow>
     (\<And>oper. oper \<in> set ops \<Longrightarrow> safe_relative_path (mo_source oper) \<and> safe_relative_path (mo_destination oper)) \<Longrightarrow>
     clean L w \<Longrightarrow> clean L w'"
proof (induction ops arbitrary: st w ops')
  case (Cons oper ops)
  have 1: "clean L (snd (br_file_size E (mo_destination oper) w))" using Cons.prems clean_size by simp
  have 2: "clean L (snd (br_file_size E (mo_source oper) v))" if "clean L v" for v
    using Cons.prems clean_size that by simp
  from Cons.prems(1) show ?case
    by (cases rule: inspect_operations_Cons) (use 1 2 Cons.prems(2) Cons.IH in \<open>fastforce+\<close>)
qed simp


text \<open>The world in which the files are in place and no source has been removed.\<close>

lemma clean_move_stages:
  assumes "(if flags = Fail_if_exist then fail_if_exist_loop E t dests [0 ..< num_files (ts_files t)] st err w
      else (True, st, err, w)) = (True, st1, err1, w1)"
    and "inspect_operations E flags ops st1 err1 w1 = (ok2, ops2, st2, err2, w2)"
    and "\<And>i. i < num_files (ts_files t) \<Longrightarrow> safe_relative_path (dests ! i)"
    and "\<And>oper. oper \<in> set ops \<Longrightarrow> safe_relative_path (mo_source oper) \<and> safe_relative_path (mo_destination oper)"
    and "clean L w"
  shows "clean L w2" and "copy_operations E ops2 st2 err2 w2 = Some (ok, st3, err3, w3) \<Longrightarrow> clean L w3"
proof -
  have "clean L w1"
  proof (cases "flags = Fail_if_exist")
    case True
    with assms(1) have "fail_if_exist_loop E t dests [0 ..< num_files (ts_files t)] st err w = (True, st1, err1, w1)"
      by simp
    then show ?thesis by (rule clean_fail_if_exist_loop) (use assms(3,5) in auto)
  qed (use assms(1,5) in auto)
  from clean_inspect_operations [OF assms(2) assms(4) this] show "clean L w2" .
  then show "copy_operations E ops2 st2 err2 w2 = Some (ok, st3, err3, w3) \<Longrightarrow> clean L w3"
    by (auto intro: clean_copy_operations)
qed

end

context bridge_discipline_full
begin

lemma clean_cleanup_sources:
  "(\<And>oper. oper \<in> set ops \<Longrightarrow> safe_relative_path (mo_source oper)) \<Longrightarrow> clean L w \<Longrightarrow>
     clean L (cleanup_sources E dests ops w)"
  by (induction ops arbitrary: w) (auto intro: clean_remove)

end

lemma same_plan_safe:
  assumes "list_all2 same_plan ops ops'"
    and "\<And>oper. oper \<in> set ops \<Longrightarrow> P (mo_source oper) (mo_destination oper)" and "oper \<in> set ops'"
  shows "P (mo_source oper) (mo_destination oper)"
proof -
  obtain oper0 where "oper0 \<in> set ops" "same_plan oper0 oper"
    using assms(1,3) by (metis in_set_conv_nth list_all2_conv_all_nth)
  with assms(2) [of oper0] show ?thesis by (simp add: same_plan_def)
qed

lemma safe_plan:
  assumes "torrent_safe t" and "root = [] \<or> safe_relative_path root"
  shows "i < num_files (ts_files t) \<Longrightarrow> safe_relative_path (move_destinations t root ! i)"
    and "oper \<in> set (plan_operations t (move_destinations t root)) \<Longrightarrow>
      safe_relative_path (mo_source oper) \<and> safe_relative_path (mo_destination oper)"
proof -
  have dest: "safe_relative_path (move_destinations t root ! i)" if "i < num_files (ts_files t)" for i
    using assms that by (auto simp: torrent_safe_def torrent_inv_def move_destinations_def safe_rooted_path)
  then show "i < num_files (ts_files t) \<Longrightarrow> safe_relative_path (move_destinations t root ! i)" .
  show "oper \<in> set (plan_operations t (move_destinations t root)) \<Longrightarrow>
      safe_relative_path (mo_source oper) \<and> safe_relative_path (mo_destination oper)"
    using dest torrent_safe_path_for [OF assms(1)]
    by (auto simp: plan_operations_def new_operation_def path_for_def)
qed

text \<open>The sources that cleaning up takes away.\<close>

definition cleaned_up :: "string list \<Rightarrow> move_operation list \<Rightarrow> string list" where
  "cleaned_up dests ops = map mo_source (filter (\<lambda>oper. mo_cleanup oper \<and> mo_source oper \<notin> set dests) ops)"

lemma removed_cleanup:
  "removed_paths (snd (cleanup_sources (audit E) dests ops w)) = rev (cleaned_up dests ops) @ removed_paths (snd w)"
  by (induction ops arbitrary: w) (auto simp: cleaned_up_def audit_def)

lemma move_files_removes:
  assumes "move_files (audit E) t root dests ops flags st err w = Some (t', st', err', w')"
    and "\<And>i. i < num_files (ts_files t) \<Longrightarrow> safe_relative_path (dests ! i)"
    and "\<And>oper. oper \<in> set ops \<Longrightarrow> safe_relative_path (mo_source oper) \<and> safe_relative_path (mo_destination oper)"
    and "clean_world L w" and "posix_io (audit E) pending" and "\<not> has_error err"
  shows "clean_world L w'"
    and "has_error err' \<Longrightarrow> t' = t \<and> removed_paths (snd w') = removed_paths (snd w)"
    and "\<not> has_error err' \<Longrightarrow> t' = set_save_root t root \<and> (\<exists>ps. removed_paths (snd w') = ps @ removed_paths (snd w)
      \<and> set ps \<subseteq> mo_source ` set ops - set dests)"
proof -
  let ?ps = "removed_paths (snd w)"
  have prep: "preparing ?ps L w" using assms(4) by (simp add: preparing_def)
  have "clean_world L w' \<and> (if has_error err' then t' = t \<and> removed_paths (snd w') = ?ps
     else t' = set_save_root t root \<and> (\<exists>ps. removed_paths (snd w') = ps @ ?ps
      \<and> set ps \<subseteq> mo_source ` set ops - set dests))"
    using assms(1)
  proof (cases rule: move_filesE)
    case exist
    have "preparing ?ps L w'"
      by (rule prep.clean_fail_if_exist_loop [OF exist(3)]) (use assms(2) prep in auto)
    then show ?thesis using exist fail_if_exist_loop_result [OF exist(3)] by (simp add: preparing_def)
  next
    case (inspect st1 err1 w1 ops2)
    have "preparing ?ps L w'"
      by (rule prep.clean_move_stages(1) [OF inspect(2,3)]) (use assms(2,3) prep in auto)
    then show ?thesis using inspect inspect_operations_result [OF inspect(3)] by (simp add: preparing_def)
  next
    case (copy st1 err1 w1 ops2 st2 err2 w2)
    have "preparing ?ps L w'"
      by (rule prep.clean_move_stages(2) [OF copy(2,3) _ _ _ copy(4)]) (use assms(2,3) prep in auto)
    then show ?thesis using copy copy_operations_result [OF assms(5) copy(4)] by (simp add: preparing_def)
  next
    case (moved st1 err1 w1 ops2 st2 err2 w2 w3)
    have prep3: "preparing ?ps L w3"
      by (rule prep.clean_move_stages(2) [OF moved(2,3) _ _ _ moved(4)]) (use assms(2,3) prep in auto)
    have plan: "list_all2 same_plan ops ops2" and "err2 = err1"
      using inspect_operations_result [OF moved(3)] by auto
    moreover have "err1 = err"
      using moved(2) by (auto split: if_splits dest: fail_if_exist_loop_result)
    moreover have "err' = err2" using copy_operations_result [OF assms(5) moved(4)] by simp
    ultimately have noerr: "\<not> has_error err'" using assms(6) by simp
    have safe2: "safe_relative_path (mo_source oper)" if "oper \<in> set ops2" for oper
      using same_plan_safe [OF plan _ that, of "\<lambda>a b. safe_relative_path a"] assms(3) by blast
    have src: "mo_source oper \<in> mo_source ` set ops" if "oper \<in> set ops2" for oper
      using same_plan_safe [OF plan _ that, of "\<lambda>a b. a \<in> mo_source ` set ops"] by blast
    have "clean_world L w'"
      unfolding moved(5) by (rule audited.clean_cleanup_sources) (use safe2 prep3 in \<open>auto simp: preparing_def\<close>)
    moreover have "removed_paths (snd w') = rev (cleaned_up dests ops2) @ ?ps"
      using removed_cleanup [of E dests ops2 w3] prep3 moved(5) by (simp add: preparing_def)
    moreover have "set (rev (cleaned_up dests ops2)) \<subseteq> mo_source ` set ops - set dests"
      using src by (auto simp: cleaned_up_def)
    ultimately show ?thesis using noerr moved(1) by auto
  qed
  then show "clean_world L w'"
    "has_error err' \<Longrightarrow> t' = t \<and> removed_paths (snd w') = removed_paths (snd w)"
    "\<not> has_error err' \<Longrightarrow> t' = set_save_root t root \<and> (\<exists>ps. removed_paths (snd w') = ps @ removed_paths (snd w)
      \<and> set ps \<subseteq> mo_source ` set ops - set dests)"
    by auto
qed


lemma close_storage_world [simp]: "close_storage E storage d\<lparr>world := world (close_storage E storage d)\<rparr> = close_storage E storage d"
  by simp

lemma plan_sources:
  "torrent_inv t \<Longrightarrow> mo_source ` set (plan_operations t dests) \<subseteq> set (ts_paths t)"
  by (auto simp: plan_operations_def new_operation_def torrent_inv_length)

text \<open>What a move guarantees, whatever the bridge answers.\<close>

definition move_outcome ::
  "torrent_storage \<Rightarrow> string \<Rightarrow> string list \<Rightarrow> torrent_storage \<Rightarrow> storage_error \<Rightarrow> string list \<Rightarrow> bool" where
  "move_outcome t root before t' err after \<longleftrightarrow>
     (if has_error err then t' = t \<and> after = before
      else t' = set_save_root t root \<and> (\<exists>ps. after = ps @ before
        \<and> set ps \<subseteq> set (ts_paths t) - set (move_destinations t (normalized_save_root root))))"

lemma set_save_root_normalized: "set_save_root t (normalized_save_root root) = set_save_root t root"
  by (simp add: set_save_root_def)

lemma move_storage_outcome:
  fixes root :: string
  defines "r \<equiv> normalized_save_root root"
  assumes "move_storage (audit E) t storage root flags st no_error d = Some (t', st', err', d')"
    and "posix_io E pending" and "torrent_safe t" and "r = [] \<or> safe_relative_path r"
    and "clean_world (owned d + L) (world d)"
  shows "clean_world (owned d' + L) (world d')" and "drops_entries d d'"
    and "\<forall>x \<in> set (m_descriptors d'). od_storage x \<noteq> storage"
    and "move_outcome t root (removed_paths (snd (world d))) t' err' (removed_paths (snd (world d')))"
proof -
  let ?d0 = "close_storage (audit E) storage d"
  let ?ps = "removed_paths (snd (world d))"
  let ?L = "owned ?d0 + L"
  have prep: "preparing ?ps (owned d + L) (world d)" using assms(6) by (simp add: preparing_def)
  have prep0: "preparing ?ps ?L (world ?d0)" by (rule prep.clean_close_storage [OF prep])
  have "d' = ?d0\<lparr>world := world d'\<rparr> \<and> clean_world ?L (world d')
      \<and> move_outcome t root ?ps t' err' (removed_paths (snd (world d')))"
    using assms(2)
  proof (cases rule: move_storageE)
    case rejected
    with prep0 show ?thesis by (simp add: preparing_def move_outcome_def)
  next
    case (refused v w)
    have "preparing ?ps ?L w"
      using prep.clean_validate [of r ?ps ?L "world ?d0" E] refused(4,6) assms(5) prep0 by (simp add: r_def)
    with refused show ?thesis by (simp add: preparing_def move_outcome_def)
  next
    case (validated v w)
    have w: "preparing ?ps ?L w"
      using prep.clean_validate [of r ?ps ?L "world ?d0" E] validated(3) assms(5) prep0
      by (auto simp: r_def split: if_splits)
    show ?thesis
    proof (cases "flags = Reset_save_path \<or> flags = Reset_save_path_unchecked")
      case True
      with validated w show ?thesis
        by (auto simp: preparing_def move_outcome_def set_save_root_normalized)
    next
      case False
      with validated(5) have run: "move_files (audit E) t r (move_destinations t r)
          (plan_operations t (move_destinations t r)) flags st no_error w = Some (t', st', err', world d')"
        by (simp add: r_def)
      have cw: "clean_world ?L w" "removed_paths (snd w) = ?ps" using w by (auto simp: preparing_def)
      have tinv: "torrent_inv t" using assms(4) by (simp add: torrent_safe_def)
      note moved = move_files_removes [OF run safe_plan(1) [OF assms(4,5)] safe_plan(2) [OF assms(4,5)] cw(1)
          posix_io_audit [OF assms(3)] has_error_no_error, unfolded cw(2)]
      show ?thesis
      proof (cases "has_error err'")
        case True
        with moved(1) moved(2) validated(6) show ?thesis by (simp add: move_outcome_def)
      next
        case False
        from moved(3) [OF _ _ this] plan_sources [OF tinv]
        have "t' = set_save_root t root \<and> (\<exists>ps. removed_paths (snd (world d')) = ps @ ?ps
            \<and> set ps \<subseteq> set (ts_paths t) - set (move_destinations t r))"
          unfolding r_def set_save_root_normalized by blast
        with False moved(1) validated(6) show ?thesis by (simp add: move_outcome_def r_def)
      qed
    qed
  qed
  then have d': "d' = ?d0\<lparr>world := world d'\<rparr>" and cw: "clean_world ?L (world d')"
    and out: "move_outcome t root ?ps t' err' (removed_paths (snd (world d')))" by auto
  show "clean_world (owned d' + L) (world d')" using cw by (subst d') simp
  show "drops_entries d d'" by (subst d') (simp add: close_storage_drops)
  show "\<forall>x \<in> set (m_descriptors d'). od_storage x \<noteq> storage" by (subst d') simp
  show "move_outcome t root ?ps t' err' (removed_paths (snd (world d')))" by (rule out)
qed


lemma move_files_torrent:
  "move_files E t root dests ops flags st err w = Some (t', st', err', w') \<Longrightarrow> t' = t \<or> t' = set_save_root t root"
  by (erule move_filesE) auto

lemma move_storage_keeps:
  assumes "move_storage E t storage root flags st err d = Some (t', st', err', d')"
  shows "drops_entries d d' \<and> (t' = t \<or> t' = set_save_root t root)"
  using assms
proof (cases rule: move_storageE)
  case (validated v w)
  have "t' = t \<or> t' = set_save_root t root"
  proof (cases "flags = Reset_save_path \<or> flags = Reset_save_path_unchecked")
    case True
    with validated(5) show ?thesis by (simp add: set_save_root_normalized)
  next
    case False
    with validated(5) show ?thesis by (auto dest!: move_files_torrent simp: set_save_root_normalized)
  qed
  moreover have "drops_entries d (close_storage E storage d\<lparr>world := world d'\<rparr>)"
    by (simp add: close_storage_drops)
  ultimately show ?thesis using validated(6) by simp
qed (simp_all add: close_storage_drops)

lemma set_save_root_files [simp]: "ts_files (set_save_root t root) = ts_files t"
  by (simp add: set_save_root_def Let_def)

end
