(* ===== verification/Priorities.thy ===== *)
theory Priorities
  imports Move_Storage
begin

text \<open>
  Changing file priorities: a file that becomes skipped moves its bytes to the part file, one that
  is wanted again gets them back (\<^verbatim>\<open>migrate_priority\<close>, and the worker's part of
  \<^verbatim>\<open>async_set_file_priority\<close>). A source that does not exist counts as zeros.
\<close>

section \<open>Migrating one file\<close>

text \<open>
  The copy loop: \<open>src_base\<close> and \<open>dst_base\<close> are the offsets of the file in the source and in the
  destination. The first result is \<open>False\<close> for an early return.
\<close>

partial_function (option) migrate_loop ::
  "'w env \<Rightarrow> bool \<Rightarrow> int \<Rightarrow> int \<Rightarrow> nat \<Rightarrow> nat \<Rightarrow> nat \<Rightarrow> nat \<Rightarrow> bool \<Rightarrow> nat \<Rightarrow> byte list \<Rightarrow> storage_error \<Rightarrow> 'w
     \<Rightarrow> (bool \<times> storage_error \<times> 'w) option" where
  "migrate_loop E has_source src dst sz src_base dst_base index to_part copied buffer error w =
     (if copied < sz then do {
        let len = min (length buffer) (sz - copied);
        (result, buffer1, w1) \<leftarrow>
          (if has_source then pread_all src buffer len (src_base + copied) (sys_pread E) w
           else Some (int len, overwrite buffer 0 (replicate len 0), w));
        if result < 0 then Some (False,
          make_error result (int index) (if to_part then Op_file_read else Op_partfile_read), w1)
        else do {
          (result2, w2) \<leftarrow> pwrite_all dst buffer1 len (dst_base + copied) (sys_pwrite E) w1;
          if result2 < 0 then Some (False,
            make_error result2 (int index) (if to_part then Op_partfile_write else Op_file_write), w2)
          else migrate_loop E has_source src dst sz src_base dst_base index to_part (copied + len) buffer1 error w2
        }
      }
      else Some (True, error, w))"

definition migrate_priority ::
  "'w env \<Rightarrow> torrent_storage \<Rightarrow> nat \<Rightarrow> nat \<Rightarrow> bool \<Rightarrow> storage_error \<Rightarrow> ('w, 'z) disk_scheme
     \<Rightarrow> (storage_error \<times> ('w, 'z) disk_scheme) option" where
  "migrate_priority E t storage index to_part error d =
     (let sz = fs_file_size (ts_files t) index
      in if sz = 0 then Some (error, d)
         else let source_path = (if to_part then path_for t index else ts_part_path t);
                  destination_path = (if to_part then ts_part_path t else path_for t index);
                  source_key = (if to_part then int index else - 1);
                  destination_key = (if to_part then - 1 else int index);
                  base = fs_file_offset (ts_files t) index;
                  d0 = close_file E storage destination_key (close_file E storage source_key d);
                  (source, w1) = br_open_file E source_path bridge_open_read (world d0)
           in if source < 0 \<and> source \<noteq> - ENOENT then
                Some (make_error source (int index) (if to_part then Op_file_read else Op_partfile_read),
                  d0\<lparr>world := w1\<rparr>)
              else let (ok, error1, w2) = ensure_parent_directories E destination_path error (int index) w1
                in if \<not> ok then Some (error1, d0\<lparr>world := scoped_reset E source w2\<rparr>)
                   else let (destination, w3) = br_open_file E destination_path bridge_open_read_write w2
                     in if destination < 0 then
                          Some (make_error destination (int index)
                                 (if to_part then Op_partfile_write else Op_file_write),
                            d0\<lparr>world := scoped_reset E source w3\<rparr>)
                        else let (truncated, w4) =
                            (if to_part then (None, w3) else sys_ftruncate E destination sz w3)
                          in (case truncated of
                              Some e \<Rightarrow> Some (make_error (- e) (int index) Op_file_truncate,
                                d0\<lparr>world := scoped_reset E source (scoped_reset E destination w4)\<rparr>)
                            | None \<Rightarrow> do {
                                (done, error2, w5) \<leftarrow> migrate_loop E (source \<ge> 0) source destination sz
                                  (if to_part then 0 else base) (if to_part then base else 0) index to_part 0
                                  (replicate default_block_size 0) error1 w4;
                                if \<not> done then
                                  Some (error2, d0\<lparr>world := scoped_reset E source (scoped_reset E destination w5)\<rparr>)
                                else
                                  let w6 = scoped_reset E destination (scoped_reset E source w5)
                                  in if to_part then
                                       let (result, w7) = br_remove E source_path False w6
                                       in Some (if result < 0 \<and> result \<noteq> - ENOENT
                                            then make_error result (int index) Op_file_remove else error2,
                                            d0\<lparr>world := w7\<rparr>)
                                     else Some (error2, d0\<lparr>world := w6\<rparr>)
                              }))"

section \<open>Applying new priorities\<close>

text \<open>The \<^verbatim>\<open>for\<close> loop of the job; a file whose migration fails ends it with its old priority.\<close>

fun set_priority_loop ::
  "'w env \<Rightarrow> nat \<Rightarrow> download_priority list \<Rightarrow> nat list \<Rightarrow> torrent_storage \<Rightarrow> storage_error \<Rightarrow> ('w, 'z) disk_scheme
     \<Rightarrow> (torrent_storage \<times> storage_error \<times> ('w, 'z) disk_scheme) option" where
  "set_priority_loop E storage priorities [] t error d = Some (t, error, d)"
| "set_priority_loop E storage priorities (index # indices) t error d = do {
     let was_skipped = (ts_priorities t ! index = dont_download);
     let now_skipped = (priorities ! index = dont_download);
     (error1, d1) \<leftarrow> (if \<not> pad_file_at (ts_files t) index \<and> was_skipped \<noteq> now_skipped
                       then migrate_priority E t storage index now_skipped error d
                       else Some (error, d));
     if has_error error1 then Some (t, error1, d1)
     else set_priority_loop E storage priorities indices
            (t\<lparr>ts_priorities := (ts_priorities t)[index := priorities ! index]\<rparr>) error1 d1
   }"

text \<open>The job of \<^verbatim>\<open>async_set_file_priority\<close>; the priorities already have one entry per file.\<close>

definition set_file_priority ::
  "'w env \<Rightarrow> nat \<Rightarrow> download_priority list \<Rightarrow> torrent_storage \<Rightarrow> storage_error \<Rightarrow> ('w, 'z) disk_scheme
     \<Rightarrow> (torrent_storage \<times> storage_error \<times> ('w, 'z) disk_scheme) option" where
  "set_file_priority E storage priorities t error d = do {
     (t1, error1, d1) \<leftarrow> set_priority_loop E storage priorities [0 ..< num_files (ts_files t)] t error d;
     if \<not> has_error error1 \<and> dont_download \<notin> set (ts_priorities t1) then
       let d2 = close_file E storage (- 1) d1;
           (result, w) = br_remove E (ts_part_path t1) False (world d2)
       in Some (t1, if result < 0 \<and> result \<noteq> - ENOENT
                    then storage_error_of (from_bridge_result result) Op_file_remove else error1,
                d2\<lparr>world := w\<rparr>)
     else Some (t1, error1, d1)
   }"


section \<open>Induction over the copy loop and the outcomes of a migration\<close>

text \<open>The bytes of the next chunk: read from the source, or zeros when there is none.\<close>

definition next_chunk ::
  "'w env \<Rightarrow> bool \<Rightarrow> int \<Rightarrow> byte list \<Rightarrow> nat \<Rightarrow> nat \<Rightarrow> 'w \<Rightarrow> (int \<times> byte list \<times> 'w) option" where
  "next_chunk E has_source src buffer len off w =
     (if has_source then pread_all src buffer len off (sys_pread E) w
      else Some (int len, overwrite buffer 0 (replicate len 0), w))"

lemma migrate_loop_induct [consumes 1, case_names Done Read Write Next]:
  assumes "migrate_loop E has src dst sz sb db index tp c buf err w = Some r"
    and "\<And>c buf w. sz \<le> c \<Longrightarrow> Q c buf w (True, err, w)"
    and "\<And>c buf w n buf1 w1. c < sz \<Longrightarrow>
           next_chunk E has src buf (min (length buf) (sz - c)) (sb + c) w = Some (n, buf1, w1) \<Longrightarrow> n < 0 \<Longrightarrow>
           Q c buf w (False, make_error n (int index) (if tp then Op_file_read else Op_partfile_read), w1)"
    and "\<And>c buf w n buf1 w1 m w2. c < sz \<Longrightarrow>
           next_chunk E has src buf (min (length buf) (sz - c)) (sb + c) w = Some (n, buf1, w1) \<Longrightarrow> 0 \<le> n \<Longrightarrow>
           pwrite_all dst buf1 (min (length buf) (sz - c)) (db + c) (sys_pwrite E) w1 = Some (m, w2) \<Longrightarrow> m < 0 \<Longrightarrow>
           Q c buf w (False, make_error m (int index) (if tp then Op_partfile_write else Op_file_write), w2)"
    and "\<And>c buf w n buf1 w1 m w2 r. c < sz \<Longrightarrow>
           next_chunk E has src buf (min (length buf) (sz - c)) (sb + c) w = Some (n, buf1, w1) \<Longrightarrow> 0 \<le> n \<Longrightarrow>
           pwrite_all dst buf1 (min (length buf) (sz - c)) (db + c) (sys_pwrite E) w1 = Some (m, w2) \<Longrightarrow> 0 \<le> m \<Longrightarrow>
           Q (c + min (length buf) (sz - c)) buf1 w2 r \<Longrightarrow> Q c buf w r"
  shows "Q c buf w r"
proof -
  have step: "Q c buf w r"
    if IH: "\<And>c buf w r. f c buf w = Some r \<Longrightarrow> Q c buf w r"
      and run: "(if c < sz then do {
          let len = min (length buf) (sz - c);
          (n, buf1, w1) \<leftarrow> (if has then pread_all src buf len (sb + c) (sys_pread E) w
                             else Some (int len, overwrite buf 0 (replicate len 0), w));
          if n < 0 then Some (False, make_error n (int index) (if tp then Op_file_read else Op_partfile_read), w1)
          else do {
            (m, w2) \<leftarrow> pwrite_all dst buf1 len (db + c) (sys_pwrite E) w1;
            if m < 0 then Some (False, make_error m (int index) (if tp then Op_partfile_write else Op_file_write), w2)
            else f (c + len) buf1 w2
          } } else Some (True, err, w)) = Some r" for f c buf w r
  proof (cases "c < sz")
    case False
    with run assms(2) show ?thesis by auto
  next
    case True
    let ?len = "min (length buf) (sz - c)"
    note run1 = run [unfolded Let_def, folded next_chunk_def]
    from True run1 obtain n buf1 w1 where rd: "next_chunk E has src buf ?len (sb + c) w = Some (n, buf1, w1)"
      by (auto simp: bind_eq_Some_conv split del: if_split)
    show ?thesis
    proof (cases "n < 0")
      case neg: True
      with True run1 rd assms(3) show ?thesis by auto
    next
      case n: False
      with True run1 rd obtain m w2 where wr: "pwrite_all dst buf1 ?len (db + c) (sys_pwrite E) w1 = Some (m, w2)"
        by (auto simp: bind_eq_Some_conv split del: if_split)
      with True run1 rd n IH assms(4,5) show ?thesis by (cases "m < 0") (auto simp: not_less)
    qed
  qed
  have "E = E \<longrightarrow> has = has \<longrightarrow> src = src \<longrightarrow> dst = dst \<longrightarrow> sz = sz \<longrightarrow> sb = sb \<longrightarrow> db = db \<longrightarrow> index = index \<longrightarrow>
      tp = tp \<longrightarrow> err = err \<longrightarrow> Q c buf w r"
  proof (rule migrate_loop.raw_induct [where P = "\<lambda>E' h s d z sb' db' i tp' c buf e w r. E' = E \<longrightarrow> h = has \<longrightarrow>
          s = src \<longrightarrow> d = dst \<longrightarrow> z = sz \<longrightarrow> sb' = sb \<longrightarrow> db' = db \<longrightarrow> i = index \<longrightarrow> tp' = tp \<longrightarrow> e = err \<longrightarrow> Q c buf w r",
          OF _ assms(1)], intro impI, goal_cases)
    case (1 f E' h s d z sb' db' i tp' c buf e w r)
    show ?case
    proof (rule step)
      show "Q c buf w r" if "f E has src dst sz sb db index tp c buf err w = Some r" for c buf w r
        using 1(1) [OF that] by simp
    qed (use 1(2) [unfolded 1(3-12)] in simp)
  qed
  then show ?thesis by simp
qed

text \<open>Paths, cache keys and offsets of the two sides of a migration.\<close>

definition source_of :: "torrent_storage \<Rightarrow> nat \<Rightarrow> bool \<Rightarrow> string" where
  "source_of t index to_part = (if to_part then path_for t index else ts_part_path t)"

definition destination_of :: "torrent_storage \<Rightarrow> nat \<Rightarrow> bool \<Rightarrow> string" where
  "destination_of t index to_part = (if to_part then ts_part_path t else path_for t index)"

definition close_both :: "'w env \<Rightarrow> nat \<Rightarrow> nat \<Rightarrow> bool \<Rightarrow> ('w, 'z) disk_scheme \<Rightarrow> ('w, 'z) disk_scheme" where
  "close_both E storage index to_part d =
     close_file E storage (if to_part then - 1 else int index)
       (close_file E storage (if to_part then int index else - 1) d)"

definition truncated_file :: "'w env \<Rightarrow> bool \<Rightarrow> int \<Rightarrow> nat \<Rightarrow> 'w \<Rightarrow> int option \<times> 'w" where
  "truncated_file E to_part fd sz w = (if to_part then (None, w) else sys_ftruncate E fd sz w)"

definition run_migration ::
  "'w env \<Rightarrow> torrent_storage \<Rightarrow> nat \<Rightarrow> bool \<Rightarrow> int \<Rightarrow> int \<Rightarrow> storage_error \<Rightarrow> 'w \<Rightarrow> (bool \<times> storage_error \<times> 'w) option" where
  "run_migration E t index to_part src dst err w =
     migrate_loop E (src \<ge> 0) src dst (fs_file_size (ts_files t) index)
       (if to_part then 0 else fs_file_offset (ts_files t) index)
       (if to_part then fs_file_offset (ts_files t) index else 0) index to_part 0
       (replicate default_block_size 0) err w"

lemma migrate_priorityE:
  assumes "migrate_priority E t storage index to_part err d = Some (err', d')"
  obtains
    (empty) "fs_file_size (ts_files t) index = 0" "err' = err" "d' = d"
  | (source) s w1 where "0 < fs_file_size (ts_files t) index"
      "br_open_file E (source_of t index to_part) bridge_open_read (world (close_both E storage index to_part d)) = (s, w1)"
      "s < 0" "has_error err'" "d' = close_both E storage index to_part d\<lparr>world := w1\<rparr>"
  | (directories) s w1 w2 where "0 < fs_file_size (ts_files t) index"
      "br_open_file E (source_of t index to_part) bridge_open_read (world (close_both E storage index to_part d)) = (s, w1)"
      "ensure_parent_directories E (destination_of t index to_part) err (int index) w1 = (False, err', w2)"
      "has_error err'" "d' = close_both E storage index to_part d\<lparr>world := scoped_reset E s w2\<rparr>"
  | (destination) s w1 w2 f w3 where "0 < fs_file_size (ts_files t) index"
      "br_open_file E (source_of t index to_part) bridge_open_read (world (close_both E storage index to_part d)) = (s, w1)"
      "ensure_parent_directories E (destination_of t index to_part) err (int index) w1 = (True, err, w2)"
      "br_open_file E (destination_of t index to_part) bridge_open_read_write w2 = (f, w3)" "f < 0"
      "has_error err'" "d' = close_both E storage index to_part d\<lparr>world := scoped_reset E s w3\<rparr>"
  | (truncate) s w1 w2 f w3 e w4 where "0 < fs_file_size (ts_files t) index"
      "br_open_file E (source_of t index to_part) bridge_open_read (world (close_both E storage index to_part d)) = (s, w1)"
      "ensure_parent_directories E (destination_of t index to_part) err (int index) w1 = (True, err, w2)"
      "br_open_file E (destination_of t index to_part) bridge_open_read_write w2 = (f, w3)" "0 \<le> f"
      "truncated_file E to_part f (fs_file_size (ts_files t) index) w3 = (Some e, w4)" "\<not> to_part"
      "err' = make_error (- e) (int index) Op_file_truncate"
      "d' = close_both E storage index to_part d\<lparr>world := scoped_reset E s (sys_close E f w4)\<rparr>"
  | (copied) s w1 w2 f w3 w4 ok err2 w5 where "0 < fs_file_size (ts_files t) index"
      "br_open_file E (source_of t index to_part) bridge_open_read (world (close_both E storage index to_part d)) = (s, w1)"
      "0 \<le> s \<or> s = - ENOENT"
      "ensure_parent_directories E (destination_of t index to_part) err (int index) w1 = (True, err, w2)"
      "br_open_file E (destination_of t index to_part) bridge_open_read_write w2 = (f, w3)" "0 \<le> f"
      "truncated_file E to_part f (fs_file_size (ts_files t) index) w3 = (None, w4)"
      "run_migration E t index to_part s f err w4 = Some (ok, err2, w5)"
      "(err', d') = (if \<not> ok then (err2, close_both E storage index to_part d\<lparr>world := scoped_reset E s (sys_close E f w5)\<rparr>)
         else if to_part then
           let (result, w7) = br_remove E (source_of t index to_part) False (sys_close E f (scoped_reset E s w5))
           in (if result < 0 \<and> result \<noteq> - ENOENT then make_error result (int index) Op_file_remove else err2,
               close_both E storage index to_part d\<lparr>world := w7\<rparr>)
         else (err2, close_both E storage index to_part d\<lparr>world := sys_close E f (scoped_reset E s w5)\<rparr>))"
proof -
  let ?d0 = "close_both E storage index to_part d"
  let ?sz = "fs_file_size (ts_files t) index"
  obtain s w1 where s: "br_open_file E (source_of t index to_part) bridge_open_read (world ?d0) = (s, w1)"
    by fastforce
  obtain ok e1 w2 where dirs: "ensure_parent_directories E (destination_of t index to_part) err (int index) w1 = (ok, e1, w2)"
    by (metis prod_cases3)
  note made = ensure_parent_directories_ok [OF dirs]
  obtain f w3 where f: "br_open_file E (destination_of t index to_part) bridge_open_read_write w2 = (f, w3)"
    by fastforce
  obtain tr w4 where tr: "truncated_file E to_part f ?sz w3 = (tr, w4)" by fastforce
  note run = assms [unfolded migrate_priority_def Let_def, folded source_of_def destination_of_def
      close_both_def truncated_file_def, folded run_migration_def, unfolded s prod.case dirs f tr]
  consider "?sz = 0" | "0 < ?sz" "s < 0 \<and> s \<noteq> - ENOENT"
    | "0 < ?sz" "\<not> (s < 0 \<and> s \<noteq> - ENOENT)" "\<not> ok"
    | "0 < ?sz" "\<not> (s < 0 \<and> s \<noteq> - ENOENT)" "ok" "f < 0"
    | e where "0 < ?sz" "\<not> (s < 0 \<and> s \<noteq> - ENOENT)" "ok" "\<not> f < 0" "tr = Some e"
    | "0 < ?sz" "\<not> (s < 0 \<and> s \<noteq> - ENOENT)" "ok" "\<not> f < 0" "tr = None"
    by (cases tr) auto
  then show thesis
  proof cases
    case 1
    with run empty show thesis by simp
  next
    case 2
    with run source [OF _ s] show thesis by auto
  next
    case 3
    with run made directories [OF _ s] dirs show thesis by auto
  next
    case 4
    with made dirs have "ensure_parent_directories E (destination_of t index to_part) err (int index) w1 = (True, err, w2)"
      by simp
    from destination [OF _ s this f] run 4 show thesis by auto
  next
    case 5
    then have "\<not> to_part" using tr by (auto simp: truncated_file_def split: if_splits)
    with 5 made dirs have "ensure_parent_directories E (destination_of t index to_part) err (int index) w1 = (True, err, w2)"
      by simp
    from truncate [OF _ s this f] run 5 tr \<open>\<not> to_part\<close> show thesis by (auto simp: scoped_reset_def)
  next
    case 6
    with made dirs have dirs1: "ensure_parent_directories E (destination_of t index to_part) err (int index) w1 = (True, err, w2)"
        and e1: "e1 = err" by simp_all
    from run 6 e1 obtain ok2 err2 w5 where m: "run_migration E t index to_part s f err w4 = Some (ok2, err2, w5)"
      by (auto simp: bind_eq_Some_conv)
    have "(err', d') = (if \<not> ok2 then (err2, ?d0\<lparr>world := scoped_reset E s (sys_close E f w5)\<rparr>)
         else if to_part then
           let (result, w7) = br_remove E (source_of t index to_part) False (sys_close E f (scoped_reset E s w5))
           in (if result < 0 \<and> result \<noteq> - ENOENT then make_error result (int index) Op_file_remove else err2,
               ?d0\<lparr>world := w7\<rparr>)
         else (err2, ?d0\<lparr>world := sys_close E f (scoped_reset E s w5)\<rparr>))"
      using run 6 e1 m by (auto simp: scoped_reset_def Let_def split: if_splits prod.splits)
    moreover have "0 \<le> s \<or> s = - ENOENT" "0 \<le> f" using 6 by linarith+
    ultimately show thesis using copied [OF 6(1) s _ dirs1 f _ _ m] tr 6(5) by blast
  qed
qed


section \<open>Termination\<close>

lemma next_chunk_returns:
  "posix_io E pending \<Longrightarrow> \<exists>n buf1 w1. next_chunk E has src buf len off w = Some (n, buf1, w1)"
  using posix_io.pread_all_returns by (fastforce simp: next_chunk_def)

lemma next_chunk_length:
  "next_chunk E has src buf len off w = Some (n, buf1, w1) \<Longrightarrow> len \<le> length buf \<Longrightarrow> length buf1 = length buf"
  by (auto simp: next_chunk_def pread_all_length split: if_splits)

lemma migrate_loop_returns:
  assumes "posix_io E pending" and "0 < length buf"
  shows "\<exists>ok err' w'. migrate_loop E has src dst sz sb db index tp c buf err w = Some (ok, err', w')"
  using assms(2)
proof (induction "sz - c" arbitrary: c buf w rule: less_induct)
  case less
  show ?case
  proof (cases "c < sz")
    case False
    then show ?thesis by (subst migrate_loop.simps) simp
  next
    case True
    let ?len = "min (length buf) (sz - c)"
    obtain n buf1 w1 where rd: "next_chunk E has src buf ?len (sb + c) w = Some (n, buf1, w1)"
      using next_chunk_returns [OF assms(1)] by blast
    obtain m w2 where wr: "pwrite_all dst buf1 ?len (db + c) (sys_pwrite E) w1 = Some (m, w2)"
      using posix_io.pwrite_all_returns [OF assms(1)] by blast
    have "length buf1 = length buf" using next_chunk_length [OF rd] by simp
    then obtain ok err' w' where
      "migrate_loop E has src dst sz sb db index tp (c + ?len) buf1 err w2 = Some (ok, err', w')"
      using less.hyps [of "c + ?len" buf1 w2] less.prems True transfer_progress [OF True, of ?len] by auto
    with True rd wr show ?thesis
      by (subst migrate_loop.simps) (simp add: Let_def next_chunk_def [symmetric])
  qed
qed

lemma migrate_priority_returns:
  assumes "posix_io E pending"
  shows "\<exists>err' d'. migrate_priority E t storage index to_part err d = Some (err', d')"
proof -
  let ?d0 = "close_both E storage index to_part d"
  let ?sz = "fs_file_size (ts_files t) index"
  obtain s w1 where s: "br_open_file E (source_of t index to_part) bridge_open_read (world ?d0) = (s, w1)"
    by fastforce
  obtain ok e1 w2 where dirs: "ensure_parent_directories E (destination_of t index to_part) err (int index) w1 = (ok, e1, w2)"
    by (metis prod_cases3)
  obtain f w3 where f: "br_open_file E (destination_of t index to_part) bridge_open_read_write w2 = (f, w3)"
    by fastforce
  obtain tr w4 where tr: "truncated_file E to_part f ?sz w3 = (tr, w4)" by fastforce
  have "0 < length (replicate default_block_size (0 :: byte))" by simp
  from migrate_loop_returns [OF assms this]
  obtain ok2 err2 w5 where m: "run_migration E t index to_part s f e1 w4 = Some (ok2, err2, w5)"
    unfolding run_migration_def by blast
  show ?thesis
    unfolding migrate_priority_def Let_def source_of_def [symmetric] destination_of_def [symmetric]
      close_both_def [symmetric] truncated_file_def [symmetric] run_migration_def [symmetric]
      s prod.case dirs f tr
    using m by (cases tr) (auto split: prod.splits)
qed

text \<open>The step of the priority loop at one file.\<close>

definition migration_step ::
  "'w env \<Rightarrow> torrent_storage \<Rightarrow> nat \<Rightarrow> download_priority list \<Rightarrow> nat \<Rightarrow> storage_error \<Rightarrow> ('w, 'z) disk_scheme
     \<Rightarrow> (storage_error \<times> ('w, 'z) disk_scheme) option" where
  "migration_step E t storage priorities index err d =
     (if \<not> pad_file_at (ts_files t) index
         \<and> (ts_priorities t ! index = dont_download) \<noteq> (priorities ! index = dont_download)
      then migrate_priority E t storage index (priorities ! index = dont_download) err d
      else Some (err, d))"

lemma migration_stepE:
  assumes "migration_step E t storage priorities i err d = Some (e1, d1)"
  obtains (migrated) "migrate_priority E t storage i (priorities ! i = dont_download) err d = Some (e1, d1)"
  | (kept) "e1 = err" "d1 = d"
proof (cases "\<not> pad_file_at (ts_files t) i \<and> (ts_priorities t ! i = dont_download) \<noteq> (priorities ! i = dont_download)")
  case True
  from assms [unfolded migration_step_def if_P [OF True]] show thesis by (rule migrated)
next
  case False
  from assms [unfolded migration_step_def if_not_P [OF False]] kept show thesis by blast
qed

lemma set_priority_loopE:
  assumes "set_priority_loop E storage priorities (i # is) t err d = Some (t', err', d')"
  obtains
    (stopped) "migration_step E t storage priorities i err d = Some (err', d')" "has_error err'" "t' = t"
  | (committed) e1 d1 where "migration_step E t storage priorities i err d = Some (e1, d1)" "\<not> has_error e1"
      "set_priority_loop E storage priorities is
         (t\<lparr>ts_priorities := (ts_priorities t)[i := priorities ! i]\<rparr>) e1 d1 = Some (t', err', d')"
proof (cases "migration_step E t storage priorities i err d")
  case None
  with assms show thesis unfolding set_priority_loop.simps Let_def migration_step_def [symmetric] by simp
next
  case (Some r)
  obtain e1 d1 where r: "r = (e1, d1)" by fastforce
  from assms have run: "(if has_error e1 then Some (t, e1, d1) else set_priority_loop E storage priorities is
      (t\<lparr>ts_priorities := (ts_priorities t)[i := priorities ! i]\<rparr>) e1 d1) = Some (t', err', d')"
    unfolding set_priority_loop.simps Let_def migration_step_def [symmetric] Some r by simp
  with Some r stopped committed show thesis by (cases "has_error e1") simp_all
qed

lemma set_priority_loop_returns:
  assumes "posix_io E pending"
  shows "\<exists>t' err' d'. set_priority_loop E storage priorities is t err d = Some (t', err', d')"
proof (induction "is" arbitrary: t err d)
  case (Cons i "is")
  obtain e1 d1 where m: "migration_step E t storage priorities i err d = Some (e1, d1)"
  proof (cases "migration_step E t storage priorities i err d")
    case None
    then show ?thesis
      using migrate_priority_returns [OF assms, of t storage i "priorities ! i = dont_download" err d]
      by (auto simp: migration_step_def split: if_splits)
  qed auto
  show ?case
    unfolding set_priority_loop.simps Let_def migration_step_def [symmetric] m
    using Cons by (cases "has_error e1") auto
qed simp

lemma set_file_priority_returns:
  assumes "posix_io E pending"
  shows "\<exists>t' err' d'. set_file_priority E storage priorities t err d = Some (t', err', d')"
proof -
  obtain t1 e1 d1 where
    "set_priority_loop E storage priorities [0 ..< num_files (ts_files t)] t err d = Some (t1, e1, d1)"
    using set_priority_loop_returns [OF assms] by blast
  then show ?thesis by (auto simp: set_file_priority_def Let_def split: prod.splits)
qed

section \<open>Entries, ownership\<close>

lemma close_both_drops: "drops_entries d (close_both E storage index to_part d)"
  unfolding close_both_def by (rule drops_trans [OF close_file_drops close_file_drops])

lemma migrate_priority_drops:
  assumes "migrate_priority E t storage index to_part err d = Some (err', d')"
  shows "drops_entries d d'"
  using assms
  by (cases rule: migrate_priorityE) (auto simp: close_both_drops Let_def split: if_splits prod.splits)

text \<open>A descriptor the bridge handed over, if it did.\<close>

definition held :: "int \<Rightarrow> int multiset \<Rightarrow> int multiset" where
  "held fd L = (if fd \<ge> 0 then add_mset fd L else L)"

lemma held_neg [simp]: "fd < 0 \<Longrightarrow> held fd L = L"
  by (simp add: held_def)

lemma in_held [simp]: "0 \<le> fd \<Longrightarrow> fd \<in># held fd L" "fd \<in># L \<Longrightarrow> fd \<in># held fd' L"
  by (simp_all add: held_def)

lemma torrent_safe_sides:
  assumes "torrent_safe t" "index < num_files (ts_files t)"
  shows "safe_relative_path (source_of t index to_part)" "safe_relative_path (destination_of t index to_part)"
  using assms torrent_safe_path_for by (auto simp: source_of_def destination_of_def torrent_safe_def)

context bridge_discipline
begin

lemma clean_held_open:
  "safe_relative_path p \<Longrightarrow> clean L w \<Longrightarrow> br_open_file E p m w = (r, w') \<Longrightarrow> clean (held r L) w'"
  using clean_open by (simp add: held_def)

lemma clean_held_reset: "clean (held fd L) w \<Longrightarrow> clean L (scoped_reset E fd w)"
  using clean_scoped_reset by (simp add: held_def)

lemma clean_held_close: "0 \<le> fd \<Longrightarrow> clean (held fd L) w \<Longrightarrow> clean L (sys_close E fd w)"
  using clean_held_reset [of fd L w] by (simp add: scoped_reset_def)

lemma held_commute: "held a (held b L) = held b (held a L)"
  by (simp add: held_def)

lemma clean_truncated_file:
  "truncated_file E to_part fd n w = (r, w') \<Longrightarrow> fd \<in># L \<Longrightarrow> clean L w \<Longrightarrow> clean L w'"
  using clean_ftruncate [of fd L w n] by (auto simp: truncated_file_def split: if_splits)

lemma clean_next_chunk:
  "next_chunk E has src buf len off w = Some (n, buf1, w1) \<Longrightarrow> (has \<Longrightarrow> src \<in># L) \<Longrightarrow> clean L w \<Longrightarrow> clean L w1"
  by (auto simp: next_chunk_def split: if_splits intro: clean_pread_all)

lemma clean_migrate_loop:
  assumes "migrate_loop E has src dst sz sb db index tp c buf err w = Some (ok, err', w')"
    and "has \<Longrightarrow> src \<in># L" "dst \<in># L" "clean L w"
  shows "clean L w'"
proof -
  have "clean L w \<longrightarrow> clean L (snd (snd (ok, err', w')))"
    using assms(1)
    by (induction rule: migrate_loop_induct)
      (auto dest: clean_next_chunk [OF _ assms(2)] clean_pwrite_all [OF _ assms(3)])
  with assms(4) show ?thesis by simp
qed

end

context bridge_discipline_full
begin

lemma clean_migrate_priority:
  assumes "migrate_priority E t storage index to_part err d = Some (err', d')"
    and "torrent_safe t" "index < num_files (ts_files t)" and "clean (owned d + L) (world d)"
  shows "clean (owned d' + L) (world d')"
proof -
  let ?d0 = "close_both E storage index to_part d"
  let ?L = "owned ?d0 + L"
  note safe = torrent_safe_sides [OF assms(2,3), of to_part]
  have c0: "clean ?L (world ?d0)"
    unfolding close_both_def by (intro clean_close_file assms(4))
  have c1: "clean (held s ?L) w1" if "br_open_file E (source_of t index to_part) bridge_open_read (world ?d0) = (s, w1)" for s w1
    by (rule clean_held_open [OF safe(1) c0 that])
  have c2: "clean (held s ?L) w2"
    if "br_open_file E (source_of t index to_part) bridge_open_read (world ?d0) = (s, w1)"
      "ensure_parent_directories E (destination_of t index to_part) err (int index) w1 = (b, e, w2)" for s w1 w2 b e
    by (rule clean_ensure_parent_directories [OF that(2) c1 [OF that(1)]])
  from assms(1) show ?thesis
  proof (cases rule: migrate_priorityE)
    case empty
    with assms(4) show ?thesis by simp
  next
    case (source s w1)
    with c1 [OF source(2)] show ?thesis by simp
  next
    case (directories s w1 w2)
    with clean_held_reset [OF c2 [OF directories(2,3)]] show ?thesis by simp
  next
    case (destination s w1 w2 f w3)
    have "clean (held s ?L) w3"
      using clean_held_open [OF safe(2) c2 [OF destination(2,3)] destination(4)] destination(5) by simp
    with destination clean_held_reset show ?thesis by simp
  next
    case (truncate s w1 w2 f w3 e w4)
    have "clean (held f (held s ?L)) w3"
      by (rule clean_held_open [OF safe(2) c2 [OF truncate(2,3)] truncate(4)])
    then have "clean (held f (held s ?L)) w4"
      by (rule clean_truncated_file [OF truncate(6), rotated]) (simp add: truncate(5))
    then have "clean ?L (scoped_reset E s (sys_close E f w4))"
      using clean_held_close [OF truncate(5)] clean_held_reset by blast
    with truncate show ?thesis by simp
  next
    case (copied s w1 w2 f w3 w4 ok err2 w5)
    have "clean (held f (held s ?L)) w3"
      by (rule clean_held_open [OF safe(2) c2 [OF copied(2,4)] copied(5)])
    then have "clean (held f (held s ?L)) w4"
      by (rule clean_truncated_file [OF copied(7), rotated]) (simp add: copied(6))
    then have c5: "clean (held f (held s ?L)) w5"
      using clean_migrate_loop [OF copied(8) [unfolded run_migration_def], of "held f (held s ?L)"] copied(6) by simp
    have fail: "clean ?L (scoped_reset E s (sys_close E f w5))"
      using clean_held_close [OF copied(6) c5] clean_held_reset by blast
    have closed: "clean ?L (sys_close E f (scoped_reset E s w5))"
      using c5 [unfolded held_commute [of f]] clean_held_reset clean_held_close [OF copied(6)] by blast
    have "clean ?L (snd (br_remove E (source_of t index to_part) False (sys_close E f (scoped_reset E s w5))))"
      by (rule clean_remove [OF safe(1) closed])
    with copied(9) fail closed show ?thesis
      by (auto simp: Let_def split: if_splits prod.splits)
  qed
qed

end


section \<open>What the priority job commits\<close>

text \<open>A file moves between its own path and the part file when it becomes unwanted or wanted; pad files are not stored.\<close>

definition changes_place :: "torrent_storage \<Rightarrow> download_priority list \<Rightarrow> nat \<Rightarrow> bool" where
  "changes_place t priorities i \<longleftrightarrow> \<not> pad_file_at (ts_files t) i
     \<and> (ts_priorities t ! i = dont_download) \<noteq> (priorities ! i = dont_download)"

text \<open>
  The pool, and the error so far, after the files before \<open>i\<close> have moved without error, each in turn from where the one
  before left off.
\<close>

inductive migrated_upto ::
  "'w env \<Rightarrow> nat \<Rightarrow> torrent_storage \<Rightarrow> download_priority list \<Rightarrow> ('w, 'z) disk_scheme \<Rightarrow> nat \<Rightarrow> storage_error
     \<Rightarrow> ('w, 'z) disk_scheme \<Rightarrow> bool"
  for E storage t priorities d where
  Start: "migrated_upto E storage t priorities d 0 no_error d"
| Stays: "migrated_upto E storage t priorities d i e d1 \<Longrightarrow> \<not> changes_place t priorities i \<Longrightarrow>
    migrated_upto E storage t priorities d (Suc i) e d1"
| Moves: "migrated_upto E storage t priorities d i e d1 \<Longrightarrow> changes_place t priorities i \<Longrightarrow>
    migrate_priority E t storage i (priorities ! i = dont_download) e d1 = Some (e2, d2) \<Longrightarrow> \<not> has_error e2 \<Longrightarrow>
    migrated_upto E storage t priorities d (Suc i) e2 d2"

inductive_cases migrated_upto_0E: "migrated_upto E storage t priorities d 0 e d1"
inductive_cases migrated_upto_SucE: "migrated_upto E storage t priorities d (Suc i) e d1"

text \<open>The torrent with the new priorities of the files before \<open>m\<close>.\<close>

definition prioritized :: "torrent_storage \<Rightarrow> download_priority list \<Rightarrow> nat \<Rightarrow> torrent_storage" where
  "prioritized t priorities m = t\<lparr>ts_priorities := take m priorities @ drop m (ts_priorities t)\<rparr>"

lemma prioritized_simps [simp]:
  "ts_files (prioritized t priorities m) = ts_files t" "ts_part_path (prioritized t priorities m) = ts_part_path t"
  "path_for (prioritized t priorities m) i = path_for t i"
  by (simp_all add: prioritized_def path_for_def)

lemma migrate_priority_prioritized [simp]:
  "migrate_priority E (prioritized t priorities m) storage i to_part err d = migrate_priority E t storage i to_part err d"
  by (simp only: migrate_priority_def prioritized_simps)

lemma migration_step_prioritized:
  assumes "k < length (ts_priorities t)" "length priorities = length (ts_priorities t)"
  shows "migration_step E (prioritized t priorities k) storage priorities k err d =
    (if changes_place t priorities k then migrate_priority E t storage k (priorities ! k = dont_download) err d
     else Some (err, d))"
proof -
  have "ts_priorities (prioritized t priorities k) ! k = ts_priorities t ! k"
    using assms by (simp add: prioritized_def nth_append)
  then show ?thesis by (simp add: migration_step_def changes_place_def)
qed

lemma prioritized_Suc:
  assumes "k < length (ts_priorities t)" "length priorities = length (ts_priorities t)"
  shows "(prioritized t priorities k)\<lparr>ts_priorities := (ts_priorities (prioritized t priorities k))[k := priorities ! k]\<rparr>
    = prioritized t priorities (Suc k)"
proof -
  have "drop k (ts_priorities t) = ts_priorities t ! k # drop (Suc k) (ts_priorities t)"
    using assms(1) by (simp add: Cons_nth_drop_Suc)
  then have "(take k priorities @ drop k (ts_priorities t))[k := priorities ! k]
      = take (Suc k) priorities @ drop (Suc k) (ts_priorities t)"
    using assms by (simp add: list_update_append take_Suc_conv_app_nth)
  then show ?thesis by (simp add: prioritized_def)
qed

text \<open>The loop goes on to the first file whose move fails, or to the end.\<close>

lemma set_priority_loop_prefix:
  assumes "set_priority_loop E storage priorities [k ..< n] (prioritized t priorities k) err d1 = Some (t', err', d')"
    and "length (ts_priorities t) = n" "length priorities = n" "k \<le> n" "\<not> has_error err"
    and "migrated_upto E storage t priorities d k err d1"
  shows "\<exists>m e d2. migrated_upto E storage t priorities d m e d2 \<and> \<not> has_error e \<and> m \<le> n \<and> t' = prioritized t priorities m
    \<and> (if m < n then has_error err' \<and> changes_place t priorities m
         \<and> migrate_priority E t storage m (priorities ! m = dont_download) e d2 = Some (err', d')
       else err' = e \<and> d' = d2)"
  using assms
proof (induction "n - k" arbitrary: k err d1)
  case 0
  then show ?case by (intro exI [of _ n] exI [of _ err] exI [of _ d1]) auto
next
  case (Suc j)
  then have k: "k < n" by simp
  then have range: "[k ..< n] = k # [Suc k ..< n]" by (rule upt_conv_Cons)
  have len: "k < length (ts_priorities t)" "length priorities = length (ts_priorities t)" using k Suc.prems(2,3) by auto
  note at_k = migration_step_prioritized [OF len]
  from Suc.prems(1) [unfolded range] show ?case
  proof (cases rule: set_priority_loopE)
    case stopped
    have step: "(if changes_place t priorities k then migrate_priority E t storage k (priorities ! k = dont_download) err d1
        else Some (err, d1)) = Some (err', d')"
      using stopped(1) by (simp only: at_k)
    have c: "changes_place t priorities k"
    proof (rule ccontr)
      assume "\<not> changes_place t priorities k"
      with step stopped(2) Suc.prems(5) show False by simp
    qed
    have "migrate_priority E t storage k (priorities ! k = dont_download) err d1 = Some (err', d')"
      using step by (simp only: c if_True)
    with c stopped k Suc.prems(5,6) show ?thesis by (intro exI [of _ k] exI [of _ err] exI [of _ d1]) auto
  next
    case (committed e2 d2)
    have step: "(if changes_place t priorities k then migrate_priority E t storage k (priorities ! k = dont_download) err d1
        else Some (err, d1)) = Some (e2, d2)"
      using committed(1) by (simp only: at_k)
    have "migrated_upto E storage t priorities d (Suc k) e2 d2"
    proof (cases "changes_place t priorities k")
      case True
      have "migrate_priority E t storage k (priorities ! k = dont_download) err d1 = Some (e2, d2)"
        using step by (simp only: True if_True)
      from migrated_upto.Moves [OF Suc.prems(6) True this committed(2)] show ?thesis .
    next
      case False
      with step Suc.prems(6) show ?thesis by (simp add: migrated_upto.Stays)
    qed
    from Suc.hyps(1) [OF _ committed(3) [unfolded prioritized_Suc [OF len]] Suc.prems(2,3) _ committed(2) this]
    show ?thesis using Suc.hyps(2) k by simp
  qed
qed

lemma set_file_priorityE:
  assumes "set_file_priority E storage priorities t err d = Some (t', err', d')"
  obtains e1 d1 where "set_priority_loop E storage priorities [0 ..< num_files (ts_files t)] t err d = Some (t', e1, d1)"
    "has_error e1 \<longrightarrow> err' = e1"
    "d' = d1 \<or> d' = close_file E storage (- 1) d1\<lparr>world :=
       snd (br_remove E (ts_part_path t') False (world (close_file E storage (- 1) d1)))\<rparr>"
proof -
  obtain t1 e1 d1 where loop:
      "set_priority_loop E storage priorities [0 ..< num_files (ts_files t)] t err d = Some (t1, e1, d1)"
    using assms by (auto simp: set_file_priority_def bind_eq_Some_conv)
  obtain result w where rm: "br_remove E (ts_part_path t1) False (world (close_file E storage (- 1) d1)) = (result, w)"
    by fastforce
  note run = assms [unfolded set_file_priority_def loop Option.bind.simps prod.case Let_def rm]
  show thesis
  proof (cases "\<not> has_error e1 \<and> dont_download \<notin> set (ts_priorities t1)")
    case True
    with run loop rm that show thesis by simp
  next
    case False
    with run have "t1 = t'" "e1 = err'" "d1 = d'" by (simp_all split: if_split_asm)
    with loop that show thesis by blast
  qed
qed

text \<open>C16. Changing priorities goes file by file up to the first error: there is a file such that all before it that change
  between wanted and unwanted have moved without error, in order, and those have their new priority while it and the
  files after it keep their old one; if there is such a file, it is one whose move failed, and that error is
  reported and nothing more is done. Otherwise all files have their new priority, and the part file is removed, if no file is
  unwanted, with an error only if that fails.\<close>

theorem set_file_priority_prefix:
  assumes "set_file_priority E storage priorities t no_error d = Some (t', err', d')"
    and "torrent_inv t" "length priorities = num_files (ts_files t)"
  shows "\<exists>m e d1. migrated_upto E storage t priorities d m e d1 \<and> \<not> has_error e \<and> m \<le> num_files (ts_files t)
    \<and> t' = t\<lparr>ts_priorities := take m priorities @ drop m (ts_priorities t)\<rparr>
    \<and> (if m < num_files (ts_files t) then has_error err' \<and> changes_place t priorities m
         \<and> migrate_priority E t storage m (priorities ! m = dont_download) e d1 = Some (err', d')
       else if dont_download \<in> set priorities then err' = e \<and> d' = d1
       else \<exists>result w. br_remove E (ts_part_path t) False (world (close_file E storage (- 1) d1)) = (result, w)
         \<and> d' = close_file E storage (- 1) d1\<lparr>world := w\<rparr>
         \<and> err' = (if result < 0 \<and> result \<noteq> - ENOENT then storage_error_of (from_bridge_result result) Op_file_remove else e))"
proof -
  let ?n = "num_files (ts_files t)"
  have len: "length (ts_priorities t) = ?n" using assms(2) by (simp add: torrent_inv_def)
  obtain t1 e1 d1 where loop: "set_priority_loop E storage priorities [0 ..< ?n] (prioritized t priorities 0) no_error d = Some (t1, e1, d1)"
    using assms(1) by (auto simp: set_file_priority_def prioritized_def bind_eq_Some_conv)
  from set_priority_loop_prefix [OF loop len assms(3) _ _ migrated_upto.Start] obtain m e d2 where
    m: "migrated_upto E storage t priorities d m e d2" "\<not> has_error e" "m \<le> ?n" "t1 = prioritized t priorities m"
      "if m < ?n then has_error e1 \<and> changes_place t priorities m
         \<and> migrate_priority E t storage m (priorities ! m = dont_download) e d2 = Some (e1, d1)
       else e1 = e \<and> d1 = d2"
    by auto
  have all: "ts_priorities t1 = priorities" if "\<not> m < ?n" using that m(3,4) len assms(3) by (simp add: prioritized_def)
  have part: "ts_part_path t1 = ts_part_path t" using m(4) by (simp add: prioritized_def)
  obtain result w where rm: "br_remove E (ts_part_path t) False (world (close_file E storage (- 1) d1)) = (result, w)" by fastforce
  have run: "set_priority_loop E storage priorities [0 ..< ?n] t no_error d = Some (t1, e1, d1)"
    using loop by (simp add: prioritized_def)
  note out = assms(1) [unfolded set_file_priority_def run Option.bind.simps prod.case Let_def part rm]
  have t1: "t1 = t\<lparr>ts_priorities := take m priorities @ drop m (ts_priorities t)\<rparr>" using m(4) by (simp add: prioritized_def)
  show ?thesis
  proof (cases "has_error e1 \<or> dont_download \<in> set (ts_priorities t1)")
    case True
    with out have r: "t' = t1" "err' = e1" "d' = d1" by auto
    have "m < ?n \<or> dont_download \<in> set priorities" using True all m(2,5) by (auto split: if_splits)
    with m(1,2,3,5) t1 r show ?thesis by (intro exI [of _ m] exI [of _ e] exI [of _ d2]) (auto split: if_splits)
  next
    case False
    with m(5) have n: "\<not> m < ?n" "e1 = e" "d1 = d2" by (auto split: if_splits)
    from False out have "t' = t1" "d' = close_file E storage (- 1) d1\<lparr>world := w\<rparr>"
      "err' = (if result < 0 \<and> result \<noteq> - ENOENT then storage_error_of (from_bridge_result result) Op_file_remove else e1)"
      by auto
    moreover have "dont_download \<notin> set priorities" using False all [OF n(1)] by simp
    ultimately show ?thesis using m(1,2,3) t1 n rm
      by (intro exI [of _ m] exI [of _ e] exI [of _ d2]) simp
  qed
qed

lemma set_priority_loop_keeps:
  assumes "set_priority_loop E storage priorities is t err d = Some (t', err', d')"
  shows "drops_entries d d' \<and> (torrent_safe t \<longrightarrow> torrent_safe t') \<and> (torrent_inv t \<longrightarrow> torrent_inv t')"
  using assms
proof (induction "is" arbitrary: t err d)
  case (Cons i "is")
  have step: "drops_entries d d1" if "migration_step E t storage priorities i err d = Some (e1, d1)" for e1 d1
    using that by (cases rule: migration_stepE) (auto dest: migrate_priority_drops)
  from Cons.prems show ?case
  proof (cases rule: set_priority_loopE)
    case stopped
    with step show ?thesis by simp
  next
    case (committed e1 d1)
    let ?t = "t\<lparr>ts_priorities := (ts_priorities t)[i := priorities ! i]\<rparr>"
    have "torrent_inv t \<Longrightarrow> torrent_inv ?t" "torrent_safe t \<Longrightarrow> torrent_safe ?t"
      by (simp_all add: torrent_safe_def torrent_inv_def)
    with Cons.IH [OF committed(3)] drops_trans [OF step [OF committed(1)]] show ?thesis by blast
  qed
qed simp

lemma set_priority_loop_files:
  "set_priority_loop E storage priorities is t err d = Some (t', err', d') \<Longrightarrow> ts_files t' = ts_files t"
proof (induction "is" arbitrary: t err d)
  case (Cons i "is")
  from Cons.prems show ?case
    by (cases rule: set_priority_loopE) (use Cons.IH in fastforce)+
qed simp

lemma set_file_priority_files:
  "set_file_priority E storage priorities t err d = Some (t', err', d') \<Longrightarrow> ts_files t' = ts_files t"
  by (erule set_file_priorityE) (rule set_priority_loop_files)

lemma set_file_priority_keeps:
  assumes "set_file_priority E storage priorities t err d = Some (t', err', d')"
  shows "drops_entries d d' \<and> (torrent_safe t \<longrightarrow> torrent_safe t') \<and> (torrent_inv t \<longrightarrow> torrent_inv t')"
  using assms
proof (rule set_file_priorityE)
  fix e1 d1
  assume "set_priority_loop E storage priorities [0 ..< num_files (ts_files t)] t err d = Some (t', e1, d1)"
    and "d' = d1 \<or> d' = close_file E storage (- 1) d1\<lparr>world :=
       snd (br_remove E (ts_part_path t') False (world (close_file E storage (- 1) d1)))\<rparr>"
  with set_priority_loop_keeps [OF this(1)] drops_trans [OF _ close_file_drops] show ?thesis by auto
qed

context bridge_discipline_full
begin

lemma clean_set_priority_loop:
  "set_priority_loop E storage priorities is t err d = Some (t', err', d') \<Longrightarrow> torrent_safe t \<Longrightarrow>
     (\<And>i. i \<in> set is \<Longrightarrow> i < num_files (ts_files t)) \<Longrightarrow>
     clean (owned d + L) (world d) \<Longrightarrow> clean (owned d' + L) (world d')"
proof (induction "is" arbitrary: t err d)
  case (Cons i "is")
  have step: "clean (owned d1 + L) (world d1)" if "migration_step E t storage priorities i err d = Some (e1, d1)" for e1 d1
    using that
  proof (cases rule: migration_stepE)
    case migrated
    then show ?thesis by (rule clean_migrate_priority) (use Cons.prems(2-4) in auto)
  qed (use Cons.prems(4) in simp)
  from Cons.prems(1) show ?case
  proof (cases rule: set_priority_loopE)
    case stopped
    with step show ?thesis by simp
  next
    case (committed e1 d1)
    let ?t = "t\<lparr>ts_priorities := (ts_priorities t)[i := priorities ! i]\<rparr>"
    have "torrent_safe ?t" using Cons.prems(2) by (simp add: torrent_safe_def torrent_inv_def)
    from Cons.IH [OF committed(3) this _ step [OF committed(1)]] Cons.prems(3) show ?thesis by simp
  qed
qed simp

lemma clean_set_file_priority:
  assumes "set_file_priority E storage priorities t err d = Some (t', err', d')" and "torrent_safe t"
    and "clean (owned d + L) (world d)"
  shows "clean (owned d' + L) (world d')"
  using assms(1)
proof (rule set_file_priorityE)
  fix e1 d1
  assume loop: "set_priority_loop E storage priorities [0 ..< num_files (ts_files t)] t err d = Some (t', e1, d1)"
    and d': "d' = d1 \<or> d' = close_file E storage (- 1) d1\<lparr>world :=
       snd (br_remove E (ts_part_path t') False (world (close_file E storage (- 1) d1)))\<rparr>"
  have range: "i < num_files (ts_files t)" if "i \<in> set [0 ..< num_files (ts_files t)]" for i
    using that by simp
  have c1: "clean (owned d1 + L) (world d1)"
    by (rule clean_set_priority_loop [OF loop assms(2) range assms(3)])
  have "torrent_safe t'" using set_priority_loop_keeps [OF loop] assms(2) by blast
  then have "safe_relative_path (ts_part_path t')" unfolding torrent_safe_def by blast
  note removed = clean_remove [OF this clean_close_file [OF c1, of storage "- 1"], where rec = False]
  from d' show ?thesis
  proof
    assume "d' = d1"
    with c1 show ?thesis by simp
  next
    assume "d' = close_file E storage (- 1) d1\<lparr>world :=
       snd (br_remove E (ts_part_path t') False (world (close_file E storage (- 1) d1)))\<rparr>"
    then show ?thesis using removed by simp
  qed
qed

end

end
