(* ===== verification/Disk_IO.thy ===== *)
theory Disk_IO
  imports Priorities
begin

text \<open>
  The class \<^verbatim>\<open>flow_saf_disk_io\<close>: its tables of torrents, its job queue and worker, and the
  asynchronous operations. A \<^verbatim>\<open>std::function<void()>\<close> in the queue is a value of \<open>job\<close> holding what
  the closure captures; a call of a completion handler posted to the \<^verbatim>\<open>io_context\<close> is a value of
  \<open>completion\<close>. The torrents live in a store (\<open>heap\<close>) shared by the table and by queued jobs, as
  the \<^verbatim>\<open>shared_ptr\<close>s are.
\<close>

section \<open>Jobs, completions, state\<close>

type_synonym handler = nat
type_synonym address = nat

datatype completion =
    Read_done handler "byte list option" storage_error
  | Write_done handler storage_error
  | Hash_done handler int "byte list" "byte list list" storage_error
  | Hash2_done handler int "byte list" storage_error
  | Move_done handler status_t string storage_error
  | Release_done handler
  | Check_done handler status_t storage_error
  | Rename_done handler string int storage_error
  | Delete_done handler storage_error
  | Priority_done handler storage_error "download_priority list"
  | Clear_done handler int

record remove_options =
  delete_files :: bool
  delete_partfile :: bool

datatype job =
    J_read address nat peer_request "byte list" handler
  | J_write address nat peer_request "byte list" handler
  | J_hash address nat int "byte list list" bool handler
  | J_hash2 address nat int int handler
  | J_move address nat string move_flags handler
  | J_release nat "handler option"
  | J_check address nat "resume_data option" "string list" handler
  | J_rename address nat int string handler
  | J_delete address nat remove_options handler
  | J_priority address nat "download_priority list" handler
  | J_clear int handler
  | J_close_storage nat

datatype counter =
    Num_blocks_read | Num_read_ops | Disk_read_time | Disk_job_time | Num_blocks_written
  | Num_write_ops | Disk_write_time | Num_read_back | Disk_hash_time

record 'w saf = "'w disk" +
  heap :: "torrent_storage list"
  m_torrents :: "address option list"
  m_free_storage :: "nat list"
  m_jobs :: "job list"
  m_accepting :: bool
  m_stopping :: bool
  worker_running :: bool
  worker_joinable :: bool
  posted :: "completion list"
  stats :: "counter \<Rightarrow> int"

definition post :: "completion \<Rightarrow> 'w saf \<Rightarrow> 'w saf" where
  "post c s = s\<lparr>posted := posted s @ [c]\<rparr>"

definition inc_stats_counter :: "counter \<Rightarrow> int \<Rightarrow> 'w saf \<Rightarrow> 'w saf" where
  "inc_stats_counter c n s = s\<lparr>stats := (stats s)(c := stats s c + n)\<rparr>"

text \<open>The constructor, with the pool limit of \<^verbatim>\<open>settings_updated\<close>, the initial queue and the worker started.\<close>

definition initial_saf :: "int \<Rightarrow> 'w \<Rightarrow> 'w saf" where
  "initial_saf file_pool_size w = set_descriptor_limit file_pool_size \<lparr>
     m_descriptors = [], m_descriptor_limit = 40, m_use_counter = 0, world = w,
     heap = [], m_torrents = [], m_free_storage = [], m_jobs = [],
     m_accepting = True, m_stopping = False, worker_running = True, worker_joinable = True,
     posted = [], stats = (\<lambda>_. 0)\<rparr>"

text \<open>The factory refuses a null bridge.\<close>

definition flow_saf_disk_io_constructor ::
  "int \<Rightarrow> 'w option \<Rightarrow> storage_exception + 'w saf" where
  "flow_saf_disk_io_constructor file_pool_size bridge =
     (case bridge of
        None \<Rightarrow> Inl (InvalidArgument ''Flow SAF disk I/O requires a non-null storage bridge'')
      | Some w \<Rightarrow> Inr (initial_saf file_pool_size w))"

section \<open>The table of torrents\<close>

text \<open>An entry is the address of the torrent, or \<open>None\<close> for a null pointer.\<close>

definition find_storage :: "nat \<Rightarrow> 'w saf \<Rightarrow> address option" where
  "find_storage index s = (if index < length (m_torrents s) then m_torrents s ! index else None)"

definition enqueue :: "job \<Rightarrow> 'w saf \<Rightarrow> 'w saf" where
  "enqueue j s = (if m_accepting s then s\<lparr>m_jobs := m_jobs s @ [j]\<rparr> else s)"

text \<open>The second argument is what the \<^verbatim>\<open>aborted\<close> closure posts, if anything.\<close>

definition enqueue_or_abort :: "job \<Rightarrow> completion option \<Rightarrow> 'w saf \<Rightarrow> 'w saf" where
  "enqueue_or_abort j aborted s =
     (if m_accepting s then s\<lparr>m_jobs := m_jobs s @ [j]\<rparr>
      else (case aborted of None \<Rightarrow> s | Some c \<Rightarrow> post c s))"

definition new_torrent :: "'w env \<Rightarrow> storage_params \<Rightarrow> 'w saf \<Rightarrow> (storage_exception + nat) \<times> 'w saf" where
  "new_torrent E params s =
     (case new_torrent_storage E params (world s) of
        (Inl exn, w) \<Rightarrow> (Inl exn, s\<lparr>world := w\<rparr>)
      | (Inr t, w) \<Rightarrow>
          let address = length (heap s);
              s1 = s\<lparr>world := w, heap := heap s @ [t]\<rparr>
          in if m_free_storage s = [] then
               (Inr (length (m_torrents s) mod 2 ^ 32), s1\<lparr>m_torrents := m_torrents s @ [Some address]\<rparr>)
             else let index = last (m_free_storage s)
               in (Inr index, s1\<lparr>m_free_storage := butlast (m_free_storage s),
                                  m_torrents := (m_torrents s)[index := Some address]\<rparr>))"

definition remove_torrent :: "nat \<Rightarrow> 'w saf \<Rightarrow> 'w saf" where
  "remove_torrent index s =
     (if index \<ge> length (m_torrents s) \<or> m_torrents s ! index = None then s
      else enqueue (J_close_storage index)
             (s\<lparr>m_torrents := (m_torrents s)[index := None],
                m_free_storage := m_free_storage s @ [index]\<rparr>))"


section \<open>The asynchronous operations\<close>

text \<open>The values of a default-constructed \<^verbatim>\<open>sha1_hash\<close> and \<^verbatim>\<open>sha256_hash\<close>.\<close>

definition zero_sha1 :: "byte list" where "zero_sha1 = replicate 20 0"
definition zero_sha256 :: "byte list" where "zero_sha256 = replicate 32 0"

definition async_read :: "'w env \<Rightarrow> nat \<Rightarrow> peer_request \<Rightarrow> handler \<Rightarrow> 'w saf \<Rightarrow> 'w saf" where
  "async_read E storage request handler s =
     (case find_storage storage s of
        None \<Rightarrow> post (Read_done handler None (aborted_error Op_file_read)) s
      | Some a \<Rightarrow>
          let (raw, w) = allocate_buffer E (world s); s1 = s\<lparr>world := w\<rparr>
          in (case raw of
                None \<Rightarrow> post (Read_done handler None (storage_error_of NoMemory Op_alloc_cache_piece)) s1
              | Some buffer \<Rightarrow> enqueue_or_abort (J_read a storage request buffer handler)
                  (Some (Read_done handler (Some buffer) (aborted_error Op_file_read))) s1))"

text \<open>The result is what \<^verbatim>\<open>async_write\<close> returns, always \<open>False\<close>.\<close>

definition async_write :: "nat \<Rightarrow> peer_request \<Rightarrow> byte list \<Rightarrow> handler \<Rightarrow> 'w saf \<Rightarrow> bool \<times> 'w saf" where
  "async_write storage request bytes handler s =
     (case find_storage storage s of
        None \<Rightarrow> (False, post (Write_done handler (aborted_error Op_file_write)) s)
      | Some a \<Rightarrow>
          let copy = take (nat (req_length request)) bytes
          in (False, enqueue_or_abort (J_write a storage request copy handler)
                       (Some (Write_done handler (aborted_error Op_file_write))) s))"

definition async_hash ::
  "nat \<Rightarrow> int \<Rightarrow> byte list list \<Rightarrow> bool \<Rightarrow> handler \<Rightarrow> 'w saf \<Rightarrow> 'w saf" where
  "async_hash storage piece block_hashes v1_hash handler s =
     (let aborted = Hash_done handler piece zero_sha1 block_hashes (aborted_error Op_file_read)
      in case find_storage storage s of
           None \<Rightarrow> post aborted s
         | Some a \<Rightarrow> enqueue_or_abort (J_hash a storage piece block_hashes v1_hash handler) (Some aborted) s)"

definition async_hash2 :: "nat \<Rightarrow> int \<Rightarrow> int \<Rightarrow> handler \<Rightarrow> 'w saf \<Rightarrow> 'w saf" where
  "async_hash2 storage piece offset handler s =
     (let aborted = Hash2_done handler piece zero_sha256 (aborted_error Op_file_read)
      in case find_storage storage s of
           None \<Rightarrow> post aborted s
         | Some a \<Rightarrow> enqueue_or_abort (J_hash2 a storage piece offset handler) (Some aborted) s)"

definition async_move_storage :: "nat \<Rightarrow> string \<Rightarrow> move_flags \<Rightarrow> handler \<Rightarrow> 'w saf \<Rightarrow> 'w saf" where
  "async_move_storage storage path flags handler s =
     (let aborted = Move_done handler {Fatal_disk_error} path (aborted_error Op_file_rename)
      in case find_storage storage s of
           None \<Rightarrow> post aborted s
         | Some a \<Rightarrow> enqueue_or_abort (J_move a storage path flags handler) (Some aborted) s)"

text \<open>An empty handler is \<open>None\<close>.\<close>

definition async_release_files :: "nat \<Rightarrow> handler option \<Rightarrow> 'w saf \<Rightarrow> 'w saf" where
  "async_release_files storage handler s =
     enqueue_or_abort (J_release storage handler) (map_option Release_done handler) s"

definition async_stop_torrent :: "nat \<Rightarrow> handler option \<Rightarrow> 'w saf \<Rightarrow> 'w saf" where
  "async_stop_torrent storage handler s = async_release_files storage handler s"

definition async_check_files ::
  "nat \<Rightarrow> resume_data option \<Rightarrow> string list \<Rightarrow> handler \<Rightarrow> 'w saf \<Rightarrow> 'w saf" where
  "async_check_files storage resume links handler s =
     (let aborted = Check_done handler {Fatal_disk_error} (aborted_error Op_check_resume)
      in case find_storage storage s of
           None \<Rightarrow> post aborted s
         | Some a \<Rightarrow> enqueue_or_abort (J_check a storage resume links handler) (Some aborted) s)"

definition async_rename_file :: "nat \<Rightarrow> int \<Rightarrow> string \<Rightarrow> handler \<Rightarrow> 'w saf \<Rightarrow> 'w saf" where
  "async_rename_file storage index name handler s =
     (let aborted = Rename_done handler name index (aborted_error Op_file_rename)
      in case find_storage storage s of
           None \<Rightarrow> post aborted s
         | Some a \<Rightarrow> enqueue_or_abort (J_rename a storage index name handler) (Some aborted) s)"

definition async_delete_files :: "nat \<Rightarrow> remove_options \<Rightarrow> handler \<Rightarrow> 'w saf \<Rightarrow> 'w saf" where
  "async_delete_files storage options handler s =
     (let aborted = Delete_done handler (aborted_error Op_file_remove)
      in case find_storage storage s of
           None \<Rightarrow> post aborted s
         | Some a \<Rightarrow> enqueue_or_abort (J_delete a storage options handler) (Some aborted) s)"

definition async_set_file_priority ::
  "nat \<Rightarrow> download_priority list \<Rightarrow> handler \<Rightarrow> 'w saf \<Rightarrow> 'w saf" where
  "async_set_file_priority storage priorities handler s =
     (case find_storage storage s of
        None \<Rightarrow> post (Priority_done handler (aborted_error Op_file_write) priorities) s
      | Some a \<Rightarrow>
          let ps = resize (num_files (ts_files (heap s ! a))) default_priority priorities
          in enqueue_or_abort (J_priority a storage ps handler)
               (Some (Priority_done handler (aborted_error Op_file_write) ps)) s)"

definition async_clear_piece :: "int \<Rightarrow> handler \<Rightarrow> 'w saf \<Rightarrow> 'w saf" where
  "async_clear_piece piece handler s =
     enqueue_or_abort (J_clear piece handler) (Some (Clear_done handler piece)) s"

section \<open>The open files of a torrent\<close>

record open_file_state =
  ofs_file :: int
  ofs_writable :: bool
  ofs_last_use :: int

definition get_status :: "nat \<Rightarrow> ('w, 'z) disk_scheme \<Rightarrow> open_file_state list" where
  "get_status storage d =
     map (\<lambda>x. \<lparr>ofs_file = od_file x, ofs_writable = od_writable x, ofs_last_use = od_last_use_time x\<rparr>)
       (filter (\<lambda>x. \<not> (od_storage x \<noteq> storage \<or> od_file x < 0)) (m_descriptors d))"

end
