(* ===== verification/Jobs.thy ===== *)
theory Jobs
  imports Disk_IO
begin

text \<open>
  What the worker does: the body of each queued closure, one definition per asynchronous operation,
  the dispatch \<open>run_job\<close>, and \<^verbatim>\<open>worker_loop\<close> with the shutdown by \<^verbatim>\<open>abort\<close>. A job returns \<open>None\<close> only when
  one of its transfer loops goes on for ever.
\<close>

section \<open>Job bodies\<close>

text \<open>The statistics of a successful transfer: the clock is read again and the counters are bumped.\<close>

definition elapsed_stats ::
  "'w env \<Rightarrow> int \<Rightarrow> (counter \<times> int) list \<Rightarrow> counter \<Rightarrow> 'w saf \<Rightarrow> 'w saf" where
  "elapsed_stats E start_time increments elapsed_counter s =
     (let (now, w) = clock_now E (world s);
          elapsed = now - start_time
      in inc_stats_counter Disk_job_time elapsed (inc_stats_counter elapsed_counter elapsed
           (fold (\<lambda>(c, n). inc_stats_counter c n) increments (s\<lparr>world := w\<rparr>))))"

definition run_read ::
  "'w env \<Rightarrow> address \<Rightarrow> nat \<Rightarrow> peer_request \<Rightarrow> byte list \<Rightarrow> handler \<Rightarrow> 'w saf \<Rightarrow> 'w saf option" where
  "run_read E a storage request buffer handler s = do {
     let (start_time, w) = clock_now E (world s);
     (transferred, buffer1, error, s1) \<leftarrow>
       read_block E (heap s ! a) storage request buffer no_error (s\<lparr>world := w\<rparr>);
     let error1 = (if \<not> has_error error \<and> int transferred \<noteq> req_length request
                   then storage_error_of EndOfFile Op_file_read else error);
     let s2 = (if has_error error1 then s1
               else elapsed_stats E start_time [(Num_blocks_read, 1), (Num_read_ops, 1)] Disk_read_time s1);
     Some (post (Read_done handler (Some buffer1) error1) s2)
   }"

definition run_write ::
  "'w env \<Rightarrow> address \<Rightarrow> nat \<Rightarrow> peer_request \<Rightarrow> byte list \<Rightarrow> handler \<Rightarrow> 'w saf \<Rightarrow> 'w saf option" where
  "run_write E a storage request copy handler s = do {
     let (start_time, w) = clock_now E (world s);
     (transferred, error, s1) \<leftarrow>
       write_block E (heap s ! a) storage request copy no_error (s\<lparr>world := w\<rparr>);
     let s2 = (if has_error error then s1
               else elapsed_stats E start_time [(Num_blocks_written, 1), (Num_write_ops, 1)] Disk_write_time s1);
     Some (post (Write_done handler error) s2)
   }"

text \<open>The hashes of the blocks of a piece: block \<open>k\<close> is hashed over its own range of the bytes.\<close>

definition hash_block :: "'w env \<Rightarrow> byte list \<Rightarrow> int \<Rightarrow> nat \<Rightarrow> byte list" where
  "hash_block E bytes size2 block =
     (let offset = block * default_block_size;
          len = min (int default_block_size) (size2 - int offset)
      in sha256 E (take (nat len) (drop offset bytes)))"

fun hash_blocks :: "'w env \<Rightarrow> byte list \<Rightarrow> int \<Rightarrow> nat list \<Rightarrow> byte list list \<Rightarrow> byte list list" where
  "hash_blocks E bytes size2 [] block_hashes = block_hashes"
| "hash_blocks E bytes size2 (block # blocks) block_hashes =
     hash_blocks E bytes size2 blocks (block_hashes[block := hash_block E bytes size2 block])"

definition run_hash ::
  "'w env \<Rightarrow> address \<Rightarrow> nat \<Rightarrow> int \<Rightarrow> byte list list \<Rightarrow> bool \<Rightarrow> handler \<Rightarrow> 'w saf \<Rightarrow> 'w saf option" where
  "run_hash E a storage piece block_hashes need_v1 handler s = do {
     let (start_time, w) = clock_now E (world s);
     let t = heap s ! a;
     let need_v2 = (block_hashes \<noteq> []);
     let size1 = (if need_v1 then piece_size (ts_files t) piece else 0);
     let size2 = (if need_v2 then piece_size2 (ts_files t) piece else 0);
     let bytes_to_read = max size1 size2;
     (transferred, bytes, error, s1) \<leftarrow>
       (if bytes_to_read > 0 then
          read_block E t storage \<lparr>req_piece = piece, req_start = 0, req_length = bytes_to_read\<rparr>
            (replicate (nat bytes_to_read) 0) no_error (s\<lparr>world := w\<rparr>)
        else Some (0, [], no_error, s\<lparr>world := w\<rparr>));
     let blocks2 = blocks_in_piece2 (ts_files t) piece;
     let error1 = (if \<not> has_error error \<and> need_v2 \<and> int (length block_hashes) < blocks2
                   then storage_error_of (GenericError EINVAL) Op_file_read else error);
     let hashes = (if \<not> has_error error1 \<and> need_v2
                   then hash_blocks E bytes size2 [0 ..< nat blocks2] block_hashes else block_hashes);
     let result = (if need_v1 \<and> \<not> has_error error1 then sha1 E (take (nat size1) bytes) else zero_sha1);
     let blocks = (bytes_to_read + int default_block_size - 1) div int default_block_size;
     let s2 = (if has_error error1 then s1
               else elapsed_stats E start_time
                 [(Num_read_back, blocks), (Num_blocks_read, blocks), (Num_read_ops, blocks)] Disk_hash_time s1);
     Some (post (Hash_done handler piece result hashes error1) s2)
   }"

definition run_hash2 ::
  "'w env \<Rightarrow> address \<Rightarrow> nat \<Rightarrow> int \<Rightarrow> int \<Rightarrow> handler \<Rightarrow> 'w saf \<Rightarrow> 'w saf option" where
  "run_hash2 E a storage piece offset handler s = do {
     let (start_time, w) = clock_now E (world s);
     let t = heap s ! a;
     let len = min (int default_block_size) (piece_size2 (ts_files t) piece - offset);
     (transferred, bytes, error, s1) \<leftarrow>
       (if len \<le> 0 then Some (0, [], storage_error_of (GenericError EINVAL) Op_file_read, s\<lparr>world := w\<rparr>)
        else read_block E t storage \<lparr>req_piece = piece, req_start = offset, req_length = len\<rparr>
               (replicate (nat len) 0) no_error (s\<lparr>world := w\<rparr>));
     let result = (if has_error error then zero_sha256 else sha256 E bytes);
     let s2 = (if has_error error then s1
               else elapsed_stats E start_time
                 [(Num_read_back, 1), (Num_blocks_read, 1), (Num_read_ops, 1)] Disk_hash_time s1);
     Some (post (Hash2_done handler piece result error) s2)
   }"

definition run_move ::
  "'w env \<Rightarrow> address \<Rightarrow> nat \<Rightarrow> string \<Rightarrow> move_flags \<Rightarrow> handler \<Rightarrow> 'w saf \<Rightarrow> 'w saf option" where
  "run_move E a storage path flags handler s =
     (if \<not> safe_relative_path path then
        Some (post (Move_done handler {Fatal_disk_error} path
                (storage_error_of (GenericError EINVAL) Op_file_rename)) s)
      else do {
        (t, status, error, s1) \<leftarrow> move_storage E (heap s ! a) storage path flags {} no_error s;
        Some (post (Move_done handler status path error) (s1\<lparr>heap := (heap s1)[a := t]\<rparr>))
      })"

definition run_release :: "'w env \<Rightarrow> nat \<Rightarrow> handler option \<Rightarrow> 'w saf \<Rightarrow> 'w saf" where
  "run_release E storage handler s =
     (let s1 = close_storage E storage s
      in case handler of None \<Rightarrow> s1 | Some h \<Rightarrow> post (Release_done h) s1)"

definition run_check ::
  "'w env \<Rightarrow> address \<Rightarrow> nat \<Rightarrow> resume_data option \<Rightarrow> string list \<Rightarrow> handler \<Rightarrow> 'w saf \<Rightarrow> 'w saf option" where
  "run_check E a storage resume links handler s =
     (if links \<noteq> [] then
        Some (post (Check_done handler {Fatal_disk_error}
                (storage_error_of (GenericError EOPNOTSUPP) Op_file_hard_link)) s)
      else case resume of
          Some r \<Rightarrow>
            if seed_mode r \<or> length (have_pieces r) > 0 then
              let (status, error, w) = validate_resume E (heap s ! a) r {} no_error (world s)
              in Some (post (Check_done handler status error) (s\<lparr>world := w\<rparr>))
            else do {
              (status, error, s1) \<leftarrow> initialize_files E (heap s ! a) storage {} no_error s;
              Some (post (Check_done handler status error) s1)
            }
        | None \<Rightarrow> do {
            (status, error, s1) \<leftarrow> initialize_files E (heap s ! a) storage {} no_error s;
            Some (post (Check_done handler status error) s1)
          })"

definition run_rename ::
  "'w env \<Rightarrow> address \<Rightarrow> nat \<Rightarrow> int \<Rightarrow> string \<Rightarrow> handler \<Rightarrow> 'w saf \<Rightarrow> 'w saf" where
  "run_rename E a storage index name handler s =
     (let t = heap s ! a
      in if index < 0 \<or> index \<ge> int (num_files (ts_files t)) \<or> \<not> safe_relative_path name then
           post (Rename_done handler name index (storage_error_at (GenericError EINVAL) index Op_file_rename)) s
         else
           let s1 = close_file E storage index s;
               offset = nat index;
               destination = rooted_path (ts_save_root t) name;
               (ok, error, w1) = ensure_parent_directories E destination no_error index (world s1)
           in if \<not> ok then post (Rename_done handler name index error) (s1\<lparr>world := w1\<rparr>)
              else let (result, w2) = br_rename E (ts_paths t ! offset) destination w1
                in if result < 0 then
                     post (Rename_done handler name index (make_error result index Op_file_rename))
                       (s1\<lparr>world := w2\<rparr>)
                   else post (Rename_done handler name index error)
                       (s1\<lparr>world := w2, heap := (heap s1)[a := set_file_name t offset name]\<rparr>))"

text \<open>The loop over the files to delete: the first failure other than a missing file is reported.\<close>

fun delete_loop ::
  "'w env \<Rightarrow> torrent_storage \<Rightarrow> nat list \<Rightarrow> storage_error \<Rightarrow> 'w \<Rightarrow> storage_error \<times> 'w" where
  "delete_loop E t [] error w = (error, w)"
| "delete_loop E t (index # indices) error w =
     (if pad_file_at (ts_files t) index then delete_loop E t indices error w
      else let (result, w1) = br_remove E (path_for t index) False w
        in delete_loop E t indices
             (if result < 0 \<and> result \<noteq> - ENOENT \<and> \<not> has_error error
              then make_error result (int index) Op_file_remove else error) w1)"

definition run_delete ::
  "'w env \<Rightarrow> address \<Rightarrow> nat \<Rightarrow> remove_options \<Rightarrow> handler \<Rightarrow> 'w saf \<Rightarrow> 'w saf" where
  "run_delete E a storage options handler s =
     (let t = heap s ! a;
          s1 = close_storage E storage s;
          (error, w1) = (if delete_files options
                         then delete_loop E t [0 ..< num_files (ts_files t)] no_error (world s1)
                         else (no_error, world s1));
          (error2, w2) = (if delete_partfile options \<or> delete_files options then
              let (result, w') = br_remove E (ts_part_path t) False w1
              in (if result < 0 \<and> result \<noteq> - ENOENT \<and> \<not> has_error error
                  then storage_error_of (from_bridge_result result) Op_file_remove else error, w')
            else (error, w1))
      in post (Delete_done handler error2) (s1\<lparr>world := w2\<rparr>))"

definition run_priority ::
  "'w env \<Rightarrow> address \<Rightarrow> nat \<Rightarrow> download_priority list \<Rightarrow> handler \<Rightarrow> 'w saf \<Rightarrow> 'w saf option" where
  "run_priority E a storage priorities handler s = do {
     (t, error, s1) \<leftarrow> set_file_priority E storage priorities (heap s ! a) no_error s;
     Some (post (Priority_done handler error (ts_priorities t)) (s1\<lparr>heap := (heap s1)[a := t]\<rparr>))
   }"

section \<open>The worker\<close>

fun run_job :: "'w env \<Rightarrow> job \<Rightarrow> 'w saf \<Rightarrow> 'w saf option" where
  "run_job E (J_read a storage request buffer h) s = run_read E a storage request buffer h s"
| "run_job E (J_write a storage request copy h) s = run_write E a storage request copy h s"
| "run_job E (J_hash a storage piece hashes v1 h) s = run_hash E a storage piece hashes v1 h s"
| "run_job E (J_hash2 a storage piece offset h) s = run_hash2 E a storage piece offset h s"
| "run_job E (J_move a storage path flags h) s = run_move E a storage path flags h s"
| "run_job E (J_release storage h) s = Some (run_release E storage h s)"
| "run_job E (J_check a storage resume links h) s = run_check E a storage resume links h s"
| "run_job E (J_rename a storage index name h) s = Some (run_rename E a storage index name h s)"
| "run_job E (J_delete a storage options h) s = Some (run_delete E a storage options h s)"
| "run_job E (J_priority a storage priorities h) s = run_priority E a storage priorities h s"
| "run_job E (J_clear piece h) s = Some (post (Clear_done h piece) s)"
| "run_job E (J_close_storage storage) s = Some (close_storage E storage s)"

text \<open>
  One pass of the loop body with a job at the front of the queue, and the loop from there on: it
  goes on while there are jobs, ends by closing the descriptors when it is told to stop, and waits
  otherwise (then the state is the one it waits in).
\<close>

definition worker_step :: "'w env \<Rightarrow> 'w saf \<Rightarrow> 'w saf option" where
  "worker_step E s = run_job E (hd (m_jobs s)) (s\<lparr>m_jobs := tl (m_jobs s)\<rparr>)"

definition worker_exit :: "'w env \<Rightarrow> 'w saf \<Rightarrow> 'w saf" where
  "worker_exit E s = (close_all E s)\<lparr>worker_running := False\<rparr>"

partial_function (option) worker_loop :: "'w env \<Rightarrow> 'w saf \<Rightarrow> 'w saf option" where
  "worker_loop E s =
     (if m_jobs s = [] then Some (if m_stopping s then worker_exit E s else s)
      else do { s1 \<leftarrow> worker_step E s; worker_loop E s1 })"

text \<open>
  \<^verbatim>\<open>abort\<close>: refuse further jobs, tell the worker to stop, wait for it, close what is left. The first
  and the last part are separate so that the interleaved system below can put the worker between.
\<close>

definition abort_begin :: "'w saf \<Rightarrow> 'w saf" where
  "abort_begin s = s\<lparr>m_accepting := False, m_stopping := True\<rparr>"

definition abort_end :: "'w env \<Rightarrow> 'w saf \<Rightarrow> 'w saf" where
  "abort_end E s = close_all E (s\<lparr>worker_joinable := False\<rparr>)"

definition abort :: "'w env \<Rightarrow> 'w saf \<Rightarrow> 'w saf option" where
  "abort E s =
     (if \<not> m_accepting s \<and> \<not> worker_joinable s then Some s
      else do {
        let s1 = abort_begin s;
        s2 \<leftarrow> (if worker_running s1 then worker_loop E s1 else Some s1);
        Some (abort_end E s2)
      })"

definition settings_updated :: "int \<Rightarrow> 'w saf \<Rightarrow> 'w saf" where
  "settings_updated file_pool_size s = set_descriptor_limit file_pool_size s"


section \<open>What a job keeps\<close>

text \<open>
  The parts of the state a job leaves alone: the tables, the queue, the flags, the number of torrents
  and the layout of each.
\<close>

definition same_frame :: "'w saf \<Rightarrow> 'w saf \<Rightarrow> bool" where
  "same_frame s s' \<longleftrightarrow> m_torrents s' = m_torrents s \<and> m_free_storage s' = m_free_storage s
     \<and> m_jobs s' = m_jobs s \<and> m_accepting s' = m_accepting s \<and> m_stopping s' = m_stopping s
     \<and> worker_running s' = worker_running s \<and> worker_joinable s' = worker_joinable s
     \<and> map ts_files (heap s') = map ts_files (heap s)"

lemma same_frame_refl [simp]: "same_frame s s"
  by (simp add: same_frame_def)

lemma same_frame_trans: "same_frame s s' \<Longrightarrow> same_frame s' s'' \<Longrightarrow> same_frame s s''"
  by (simp add: same_frame_def)

lemma same_frame_updates [simp]:
  "same_frame s (s'\<lparr>world := w\<rparr>) = same_frame s s'"
  "same_frame s (s'\<lparr>posted := cs\<rparr>) = same_frame s s'"
  "same_frame s (s'\<lparr>stats := f\<rparr>) = same_frame s s'"
  "same_frame s (post c s') = same_frame s s'"
  "same_frame s (inc_stats_counter k n s') = same_frame s s'"
  by (simp_all add: same_frame_def post_def inc_stats_counter_def)

lemma saf_more:
  fixes s s' :: "'w saf"
  assumes "disk.more s' = disk.more s"
  shows "same_frame s s'" "heap s' = heap s" "posted s' = posted s"
  using assms by (cases s; cases s'; simp add: same_frame_def)+

lemma drops_frame:
  fixes s s' :: "'w saf"
  assumes "drops_entries s s'"
  shows "same_frame s s'" "heap s' = heap s" "posted s' = posted s"
  using assms saf_more by (auto simp: drops_entries_def)

text \<open>The handler of the completion a job or a completion is for.\<close>

fun job_handler :: "job \<Rightarrow> handler option" where
  "job_handler (J_read a storage request buffer h) = Some h"
| "job_handler (J_write a storage request copy h) = Some h"
| "job_handler (J_hash a storage piece hashes v1 h) = Some h"
| "job_handler (J_hash2 a storage piece offset h) = Some h"
| "job_handler (J_move a storage path flags h) = Some h"
| "job_handler (J_release storage h) = h"
| "job_handler (J_check a storage resume links h) = Some h"
| "job_handler (J_rename a storage index name h) = Some h"
| "job_handler (J_delete a storage options h) = Some h"
| "job_handler (J_priority a storage priorities h) = Some h"
| "job_handler (J_clear piece h) = Some h"
| "job_handler (J_close_storage storage) = None"

fun completion_handler :: "completion \<Rightarrow> handler" where
  "completion_handler (Read_done h b e) = h"
| "completion_handler (Write_done h e) = h"
| "completion_handler (Hash_done h p r hs e) = h"
| "completion_handler (Hash2_done h p r e) = h"
| "completion_handler (Move_done h s p e) = h"
| "completion_handler (Release_done h) = h"
| "completion_handler (Check_done h s e) = h"
| "completion_handler (Rename_done h n i e) = h"
| "completion_handler (Delete_done h e) = h"
| "completion_handler (Priority_done h e ps) = h"
| "completion_handler (Clear_done h p) = h"

definition handlers :: "handler option \<Rightarrow> handler list" where
  "handlers h = (case h of None \<Rightarrow> [] | Some k \<Rightarrow> [k])"

lemma handlers_simps [simp]: "handlers None = []" "handlers (Some h) = [h]"
  by (simp_all add: handlers_def)

text \<open>
  The contract of a job with handler \<open>h\<close>: it leaves the frame alone and posts exactly one completion
  for \<open>h\<close> (none without a handler); the descriptor pool and the torrents keep their invariants.
\<close>

definition job_contract :: "handler option \<Rightarrow> 'w saf \<Rightarrow> 'w saf \<Rightarrow> bool" where
  "job_contract h s s' \<longleftrightarrow> same_frame s s'
     \<and> (\<exists>cs. posted s' = posted s @ cs \<and> map completion_handler cs = handlers h)
     \<and> (pool_inv s \<longrightarrow> pool_inv s') \<and> (list_all torrent_inv (heap s) \<longrightarrow> list_all torrent_inv (heap s'))"

lemma contract_post:
  assumes "same_frame s s1" "posted s1 = posted s" "pool_inv s \<longrightarrow> pool_inv s1"
    and "list_all torrent_inv (heap s) \<longrightarrow> list_all torrent_inv (heap s1)"
    and "completion_handler c = h"
  shows "job_contract (Some h) s (post c s1)"
proof -
  have "posted (post c s1) = posted s @ [c] \<and> map completion_handler [c] = handlers (Some h)"
    using assms(2,5) by (simp add: post_def)
  moreover have "pool_inv (post c s1) = pool_inv s1" "heap (post c s1) = heap s1"
    by (simp_all add: post_def pool_inv_def)
  ultimately show ?thesis
    unfolding job_contract_def using assms(1,3,4) by (metis same_frame_updates(4))
qed

lemma elapsed_stats_update:
  "\<exists>f. elapsed_stats E start incs k s = s\<lparr>world := snd (clock_now E (world s)), stats := f\<rparr>"
proof -
  have "\<exists>f. fold (\<lambda>(c, n). inc_stats_counter c n) incs v = v\<lparr>stats := f\<rparr>" for v :: "'w saf"
  proof (induction incs arbitrary: v)
    case Nil
    then show ?case by (cases v) auto
  next
    case (Cons i incs)
    obtain c n where i: "i = (c, n)" by fastforce
    obtain f where "fold (\<lambda>(c, n). inc_stats_counter c n) incs (inc_stats_counter c n v)
        = inc_stats_counter c n v\<lparr>stats := f\<rparr>" using Cons.IH by blast
    moreover have "inc_stats_counter c n v\<lparr>stats := f\<rparr> = v\<lparr>stats := f\<rparr>" by (simp add: inc_stats_counter_def)
    ultimately show ?case by (auto simp: i)
  qed
  then obtain f where "fold (\<lambda>(c, n). inc_stats_counter c n) incs (s\<lparr>world := snd (clock_now E (world s))\<rparr>)
      = s\<lparr>world := snd (clock_now E (world s)), stats := f\<rparr>" by blast
  then show ?thesis by (auto simp: elapsed_stats_def split_beta Let_def inc_stats_counter_def)
qed

lemma elapsed_stats_fields [simp]:
  fixes s0 s :: "'w saf"
  shows "same_frame s0 (elapsed_stats E start incs k s) = same_frame s0 s"
    "posted (elapsed_stats E start incs k s) = posted s"
    "heap (elapsed_stats E start incs k s) = heap s"
    "pool_inv (elapsed_stats E start incs k s) = pool_inv s"
    "owned (elapsed_stats E start incs k s) = owned s"
    "world (elapsed_stats E start incs k s) = snd (clock_now E (world s))"
proof -
  obtain f where "elapsed_stats E start incs k s = s\<lparr>world := snd (clock_now E (world s)), stats := f\<rparr>"
    using elapsed_stats_update by blast
  then show "same_frame s0 (elapsed_stats E start incs k s) = same_frame s0 s"
    "posted (elapsed_stats E start incs k s) = posted s"
    "heap (elapsed_stats E start incs k s) = heap s"
    "pool_inv (elapsed_stats E start incs k s) = pool_inv s"
    "owned (elapsed_stats E start incs k s) = owned s"
    "world (elapsed_stats E start incs k s) = snd (clock_now E (world s))"
    by (simp_all add: pool_inv_def owned_def)
qed

lemma read_block_keeps:
  fixes s s' :: "'w saf"
  assumes "read_block E t storage request out err s = Some (n, out', err', s')"
  shows "same_frame s s'" "heap s' = heap s" "posted s' = posted s" "pool_inv s \<longrightarrow> pool_inv s'"
proof -
  have "disk.more s' = disk.more s" using assms read_slices_more unfolding read_block_def by blast
  from saf_more [OF this] show "same_frame s s'" "heap s' = heap s" "posted s' = posted s" .
  show "pool_inv s \<longrightarrow> pool_inv s'" using assms read_slices_pool_inv unfolding read_block_def by blast
qed

lemma write_block_keeps:
  fixes s s' :: "'w saf"
  assumes "write_block E t storage request inp err s = Some (n, err', s')"
  shows "same_frame s s'" "heap s' = heap s" "posted s' = posted s" "pool_inv s \<longrightarrow> pool_inv s'"
proof -
  have "disk.more s' = disk.more s" using assms write_slices_more unfolding write_block_def by blast
  from saf_more [OF this] show "same_frame s s'" "heap s' = heap s" "posted s' = posted s" .
  show "pool_inv s \<longrightarrow> pool_inv s'" using assms write_slices_pool_inv unfolding write_block_def by blast
qed

lemma initialize_files_keeps:
  fixes s s' :: "'w saf"
  assumes "initialize_files E t storage st err s = Some (st', err', s')"
  shows "same_frame s s'" "heap s' = heap s" "posted s' = posted s" "pool_inv s \<longrightarrow> pool_inv s'"
proof -
  have "disk.more s' = disk.more s" using assms initialize_files_more by blast
  from saf_more [OF this] show "same_frame s s'" "heap s' = heap s" "posted s' = posted s" .
  show "pool_inv s \<longrightarrow> pool_inv s'" using assms initialize_files_pool_inv by blast
qed

lemma run_read_contract:
  assumes "run_read E a storage request buffer h s = Some s'"
  shows "job_contract (Some h) s s'"
proof -
  obtain st w where c: "clock_now E (world s) = (st, w)" by fastforce
  from assms obtain n b e s1 where
    r: "read_block E (heap s ! a) storage request buffer no_error (s\<lparr>world := w\<rparr>) = Some (n, b, e, s1)"
    by (auto simp: run_read_def c Let_def bind_eq_Some_conv)
  note k = read_block_keeps [OF r]
  have "same_frame s s1" using k(1) by (simp add: same_frame_def)
  with assms r k show ?thesis
    by (auto simp: run_read_def c Let_def intro!: contract_post split: if_splits)
qed


lemma run_write_contract:
  assumes "run_write E a storage request copy h s = Some s'"
  shows "job_contract (Some h) s s'"
proof -
  obtain st w where c: "clock_now E (world s) = (st, w)" by fastforce
  from assms obtain n e s1 where
    r: "write_block E (heap s ! a) storage request copy no_error (s\<lparr>world := w\<rparr>) = Some (n, e, s1)"
    by (auto simp: run_write_def c Let_def bind_eq_Some_conv)
  note k = write_block_keeps [OF r]
  have "same_frame s s1" using k(1) by (simp add: same_frame_def)
  with assms r k show ?thesis
    by (auto simp: run_write_def c Let_def intro!: contract_post split: if_splits)
qed

text \<open>The read of the two hashing jobs, when there is something to read.\<close>

lemma optional_read_keeps:
  fixes s s1 :: "'w saf"
  assumes "(if c then Some (n0, b0, e0, s\<lparr>world := w\<rparr>)
      else read_block E t storage request out err (s\<lparr>world := w\<rparr>)) = Some (n, b, e, s1)"
  shows "same_frame s s1" "heap s1 = heap s" "posted s1 = posted s" "pool_inv s \<longrightarrow> pool_inv s1"
proof -
  have "same_frame s s1 \<and> heap s1 = heap s \<and> posted s1 = posted s \<and> (pool_inv s \<longrightarrow> pool_inv s1)"
  proof (cases c)
    case False
    with assms have r: "read_block E t storage request out err (s\<lparr>world := w\<rparr>) = Some (n, b, e, s1)" by simp
    from read_block_keeps [OF r] show ?thesis by (simp add: same_frame_def)
  qed (use assms in auto)
  then show "same_frame s s1" "heap s1 = heap s" "posted s1 = posted s" "pool_inv s \<longrightarrow> pool_inv s1" by auto
qed

text \<open>The part of the hashing job after the read.\<close>

definition finish_hash ::
  "'w env \<Rightarrow> torrent_storage \<Rightarrow> int \<Rightarrow> int \<Rightarrow> byte list list \<Rightarrow> bool \<Rightarrow> handler \<Rightarrow> byte list \<Rightarrow> storage_error
     \<Rightarrow> 'w saf \<Rightarrow> 'w saf" where
  "finish_hash E t start_time piece block_hashes need_v1 handler bytes error s1 =
     (let need_v2 = (block_hashes \<noteq> []);
          size1 = (if need_v1 then piece_size (ts_files t) piece else 0);
          size2 = (if need_v2 then piece_size2 (ts_files t) piece else 0);
          bytes_to_read = max size1 size2;
          blocks2 = blocks_in_piece2 (ts_files t) piece;
          error1 = (if \<not> has_error error \<and> need_v2 \<and> int (length block_hashes) < blocks2
                    then storage_error_of (GenericError EINVAL) Op_file_read else error);
          hashes = (if \<not> has_error error1 \<and> need_v2
                    then hash_blocks E bytes size2 [0 ..< nat blocks2] block_hashes else block_hashes);
          result = (if need_v1 \<and> \<not> has_error error1 then sha1 E (take (nat size1) bytes) else zero_sha1);
          blocks = (bytes_to_read + int default_block_size - 1) div int default_block_size
      in post (Hash_done handler piece result hashes error1)
           (if has_error error1 then s1
            else elapsed_stats E start_time
              [(Num_read_back, blocks), (Num_blocks_read, blocks), (Num_read_ops, blocks)] Disk_hash_time s1))"

lemma run_hash_finish:
  assumes "clock_now E (world s) = (start_time, w)"
  shows "run_hash E a storage piece block_hashes need_v1 h s =
    (let t = heap s ! a;
         size1 = (if need_v1 then piece_size (ts_files t) piece else 0);
         size2 = (if block_hashes \<noteq> [] then piece_size2 (ts_files t) piece else 0);
         n = max size1 size2
     in do {
       (transferred, bytes, error, s1) \<leftarrow>
         (if \<not> n > 0 then Some (0, [], no_error, s\<lparr>world := w\<rparr>)
          else read_block E t storage \<lparr>req_piece = piece, req_start = 0, req_length = n\<rparr>
                 (replicate (nat n) 0) no_error (s\<lparr>world := w\<rparr>));
       Some (finish_hash E t start_time piece block_hashes need_v1 h bytes error s1)
     })"
  unfolding run_hash_def finish_hash_def assms prod.case Let_def
  by (rule arg_cong2 [where f = Option.bind]) (auto simp: fun_eq_iff)

lemma run_hash_contract:
  assumes "run_hash E a storage piece block_hashes v1 h s = Some s'"
  shows "job_contract (Some h) s s'"
proof -
  obtain st w where c: "clock_now E (world s) = (st, w)" by fastforce
  let ?t = "heap s ! a"
  let ?n = "max (if v1 then piece_size (ts_files ?t) piece else 0)
      (if block_hashes \<noteq> [] then piece_size2 (ts_files ?t) piece else 0)"
  from assms [unfolded run_hash_finish [OF c] Let_def] obtain n b e s1 where
    r: "(if \<not> ?n > 0 then Some (0, [], no_error, s\<lparr>world := w\<rparr>)
        else read_block E ?t storage \<lparr>req_piece = piece, req_start = 0, req_length = ?n\<rparr>
               (replicate (nat ?n) 0) no_error (s\<lparr>world := w\<rparr>)) = Some (n, b, e, s1)"
    and s': "s' = finish_hash E ?t st piece block_hashes v1 h b e s1"
    unfolding bind_eq_Some_conv by force
  note k = optional_read_keeps [OF r]
  show ?thesis
    unfolding s' finish_hash_def Let_def by (rule contract_post) (simp_all add: k)
qed

lemma run_hash2_contract:
  assumes "run_hash2 E a storage piece offset h s = Some s'"
  shows "job_contract (Some h) s s'"
proof -
  obtain st w where c: "clock_now E (world s) = (st, w)" by fastforce
  let ?t = "heap s ! a"
  let ?len = "min (int default_block_size) (piece_size2 (ts_files ?t) piece - offset)"
  from assms [unfolded run_hash2_def c prod.case Let_def] obtain n b e s1 where
    r: "(if ?len \<le> 0 then Some (0, [], storage_error_of (GenericError EINVAL) Op_file_read, s\<lparr>world := w\<rparr>)
        else read_block E ?t storage \<lparr>req_piece = piece, req_start = offset, req_length = ?len\<rparr>
               (replicate (nat ?len) 0) no_error (s\<lparr>world := w\<rparr>)) = Some (n, b, e, s1)"
    and s': "s' = post (Hash2_done h piece (if has_error e then zero_sha256 else sha256 E b) e)
        (if has_error e then s1 else elapsed_stats E st
           [(Num_read_back, 1), (Num_blocks_read, 1), (Num_read_ops, 1)] Disk_hash_time s1)"
    unfolding bind_eq_Some_conv by force
  note k = optional_read_keeps [OF r]
  show ?thesis unfolding s' by (rule contract_post) (simp_all add: k)
qed

lemma frame_heap_update:
  assumes "same_frame s s1" "a < length (heap s)" "ts_files t = ts_files (heap s ! a)"
  shows "same_frame s (s1\<lparr>heap := (heap s1)[a := t]\<rparr>)"
proof -
  have "(map ts_files (heap s))[a := ts_files t] = map ts_files (heap s)"
    using assms(2,3) by (metis list_update_id nth_map)
  with assms(1) show ?thesis by (simp add: same_frame_def map_update)
qed

lemma torrents_update:
  "list_all torrent_inv ts \<Longrightarrow> (torrent_inv (ts ! a) \<Longrightarrow> torrent_inv t) \<Longrightarrow> a < length ts \<Longrightarrow>
     list_all torrent_inv (ts[a := t])"
  by (auto simp: list_all_iff dest!: set_update_subset_insert [THEN subsetD])

lemma contract_heap:
  assumes k: "drops_entries s s1" and "a < length (heap s)" and "ts_files t = ts_files (heap s ! a)"
    and "torrent_inv (heap s ! a) \<Longrightarrow> torrent_inv t" and "completion_handler c = h"
  shows "job_contract (Some h) s (post c (s1\<lparr>heap := (heap s1)[a := t]\<rparr>))"
proof (rule contract_post)
  note f = drops_frame [OF k]
  show "same_frame s (s1\<lparr>heap := (heap s1)[a := t]\<rparr>)"
    by (rule frame_heap_update [OF f(1) assms(2,3)])
  show "posted (s1\<lparr>heap := (heap s1)[a := t]\<rparr>) = posted s" using f(3) by simp
  have "pool_inv (s1\<lparr>heap := (heap s1)[a := t]\<rparr>) = pool_inv s1" by (simp add: pool_inv_def)
  then show "pool_inv s \<longrightarrow> pool_inv (s1\<lparr>heap := (heap s1)[a := t]\<rparr>)" using pool_inv_drops [OF k] by blast
  have "heap (s1\<lparr>heap := (heap s1)[a := t]\<rparr>) = (heap s)[a := t]" using f(2) by simp
  then show "list_all torrent_inv (heap s) \<longrightarrow> list_all torrent_inv (heap (s1\<lparr>heap := (heap s1)[a := t]\<rparr>))"
    using torrents_update [OF _ assms(4) assms(2)] by metis
qed (rule assms(5))

lemma safe_root:
  assumes "safe_relative_path path"
  shows "normalized_save_root path = [] \<or> safe_relative_path path"
    and "normalized_save_root path = [] \<or> safe_relative_path (normalized_save_root path)"
  using assms normalized_save_root_cases [of path] by auto

lemma run_move_contract:
  assumes "run_move E a storage path flags h s = Some s'" and "a < length (heap s)"
  shows "job_contract (Some h) s s'"
proof (cases "safe_relative_path path")
  case False
  with assms show ?thesis by (auto simp: run_move_def intro!: contract_post)
next
  case True
  with assms(1) obtain t st e s1 where
    m: "move_storage E (heap s ! a) storage path flags {} no_error s = Some (t, st, e, s1)"
    and s': "s' = post (Move_done h st path e) (s1\<lparr>heap := (heap s1)[a := t]\<rparr>)"
    by (auto simp: run_move_def bind_eq_Some_conv)
  from move_storage_keeps [OF m] have k: "drops_entries s s1"
    and t: "t = heap s ! a \<or> t = set_save_root (heap s ! a) path" by auto
  have t2: "torrent_inv (heap s ! a) \<Longrightarrow> torrent_inv t"
    using t set_save_root_inv safe_root(1) [OF True] by blast
  have "ts_files t = ts_files (heap s ! a)" using t by auto
  from contract_heap [OF k assms(2) this t2 completion_handler.simps(5)] show ?thesis unfolding s' .
qed

lemma run_release_contract: "job_contract h s (run_release E storage h s)"
proof -
  have k: "drops_entries s (close_storage E storage s)" by (rule close_storage_drops)
  note f = drops_frame [OF k]
  show ?thesis
  proof (cases h)
    case None
    with f pool_inv_drops [OF k] show ?thesis by (simp add: run_release_def Let_def job_contract_def)
  next
    case (Some k)
    with f pool_inv_drops [OF k] show ?thesis
      by (auto simp: run_release_def Let_def intro!: contract_post pool_inv_drops [OF close_storage_drops])
  qed
qed

lemma run_check_contract:
  assumes "run_check E a storage resume links h s = Some s'"
  shows "job_contract (Some h) s s'"
proof -
  consider c where "s' = post c s" "completion_handler c = h"
    | c w where "s' = post c (s\<lparr>world := w\<rparr>)" "completion_handler c = h"
    | st e s1 where "initialize_files E (heap s ! a) storage {} no_error s = Some (st, e, s1)"
        "s' = post (Check_done h st e) s1"
    using assms by (auto simp: run_check_def bind_eq_Some_conv Let_def split: if_splits option.splits prod.splits)
  then show ?thesis
  proof cases
    case 1
    then show ?thesis by (auto intro!: contract_post)
  next
    case 2
    then show ?thesis by (auto intro!: contract_post)
  next
    case 3
    from initialize_files_keeps [OF 3(1)] show ?thesis unfolding 3(2) by (intro contract_post) auto
  qed
qed


lemma run_rename_contract:
  assumes "a < length (heap s)"
  shows "job_contract (Some h) s (run_rename E a storage index name h s)"
proof -
  let ?t = "heap s ! a"
  let ?s1 = "close_file E storage index s"
  have k: "drops_entries s ?s1" by (rule close_file_drops)
  note f = drops_frame [OF k]
  have p: "pool_inv s \<longrightarrow> pool_inv ?s1" using pool_inv_drops [OF k] by blast
  let ?t' = "set_file_name ?t (nat index) name"
  have t': "ts_files ?t' = ts_files ?t" "torrent_inv ?t \<Longrightarrow> torrent_inv ?t'"
    using set_file_name_inv by (simp_all add: set_file_name_def)
  have u: "same_frame s (?s1\<lparr>heap := (heap ?s1)[a := ?t']\<rparr>)"
    by (rule frame_heap_update [OF f(1) assms t'(1)])
  have v: "list_all torrent_inv (heap s) \<Longrightarrow> list_all torrent_inv ((heap s)[a := ?t'])"
    by (rule torrents_update [OF _ t'(2) assms])
  have w: "job_contract (Some h) s (post c (?s1\<lparr>world := w'\<rparr>))" if "completion_handler c = h" for c w'
    using f p that by (intro contract_post) auto
  have x: "job_contract (Some h) s (post c (?s1\<lparr>world := w', heap := (heap ?s1)[a := ?t']\<rparr>))"
    if "completion_handler c = h" for c w'
    using f p that u v by (intro contract_post) (auto simp: pool_inv_def same_frame_def)
  have y: "job_contract (Some h) s (post c s)" if "completion_handler c = h" for c
    using that by (intro contract_post) auto
  show ?thesis
    unfolding run_rename_def Let_def using w x y
    by (auto simp only: completion_handler.simps split: if_splits prod.splits)
qed

lemma run_delete_contract: "job_contract (Some h) s (run_delete E a storage options h s)"
proof -
  have k: "drops_entries s (close_storage E storage s)" by (rule close_storage_drops)
  note f = drops_frame [OF k]
  have p: "pool_inv s \<longrightarrow> pool_inv (close_storage E storage s)" using pool_inv_drops [OF k] by blast
  show ?thesis
    unfolding run_delete_def Let_def split_beta by (rule contract_post) (use f p in auto)
qed

lemma run_priority_contract:
  assumes "run_priority E a storage priorities h s = Some s'" and "a < length (heap s)"
  shows "job_contract (Some h) s s'"
proof -
  from assms(1) obtain t e s1 where
    m: "set_file_priority E storage priorities (heap s ! a) no_error s = Some (t, e, s1)"
    and s': "s' = post (Priority_done h e (ts_priorities t)) (s1\<lparr>heap := (heap s1)[a := t]\<rparr>)"
    by (auto simp: run_priority_def bind_eq_Some_conv)
  from set_file_priority_keeps [OF m] have k: "drops_entries s s1"
    and t: "torrent_inv (heap s ! a) \<Longrightarrow> torrent_inv t" by auto
  from contract_heap [OF k assms(2) set_file_priority_files [OF m] t completion_handler.simps(10)]
  show ?thesis unfolding s' .
qed

text \<open>The torrents a queued job refers to exist.\<close>

fun job_address :: "job \<Rightarrow> address option" where
  "job_address (J_read a storage request buffer h) = Some a"
| "job_address (J_write a storage request copy h) = Some a"
| "job_address (J_hash a storage piece hashes v1 h) = Some a"
| "job_address (J_hash2 a storage piece offset h) = Some a"
| "job_address (J_move a storage path flags h) = Some a"
| "job_address (J_release storage h) = None"
| "job_address (J_check a storage resume links h) = Some a"
| "job_address (J_rename a storage index name h) = Some a"
| "job_address (J_delete a storage options h) = Some a"
| "job_address (J_priority a storage priorities h) = Some a"
| "job_address (J_clear piece h) = None"
| "job_address (J_close_storage storage) = None"

definition job_ok :: "'w saf \<Rightarrow> job \<Rightarrow> bool" where
  "job_ok s j \<longleftrightarrow> (case job_address j of None \<Rightarrow> True | Some a \<Rightarrow> a < length (heap s))"

lemma run_job_contract:
  assumes "run_job E j s = Some s'" and "job_ok s j"
  shows "job_contract (job_handler j) s s'"
proof (cases j)
  case (J_clear piece h)
  with assms show ?thesis by (auto intro!: contract_post)
next
  case (J_close_storage storage)
  have k: "drops_entries s (close_storage E storage s)" by (rule close_storage_drops)
  note f = drops_frame [OF k]
  from J_close_storage assms f pool_inv_drops [OF k] show ?thesis by (auto simp: job_contract_def)
qed (use assms run_read_contract run_write_contract run_hash_contract run_hash2_contract run_move_contract
    run_release_contract run_check_contract run_rename_contract run_delete_contract run_priority_contract
    in \<open>auto simp: job_ok_def\<close>)

section \<open>Jobs return\<close>

context posix_io
begin

lemma read_block_returns:
  "pool_inv d \<Longrightarrow> \<exists>n b e d'. read_block E t storage request out err d = Some (n, b, e, d')"
  using read_slices_returns unfolding read_block_def by blast

lemma write_block_returns:
  "pool_inv d \<Longrightarrow> \<exists>n e d'. write_block E t storage request inp err d = Some (n, e, d')"
  using write_slices_returns unfolding write_block_def by blast


lemma run_job_returns:
  assumes "pool_inv s"
  shows "\<exists>s'. run_job E j s = Some s'"
proof (cases j)
  case (J_read a storage request buffer h)
  obtain st w where c: "clock_now E (world s) = (st, w)" by fastforce
  obtain n b e s1 where "read_block E (heap s ! a) storage request buffer no_error (s\<lparr>world := w\<rparr>) = Some (n, b, e, s1)"
    using read_block_returns assms by (metis pool_inv_world)
  with J_read c show ?thesis by (simp add: run_read_def Let_def)
next
  case (J_write a storage request copy h)
  obtain st w where c: "clock_now E (world s) = (st, w)" by fastforce
  obtain n e s1 where "write_block E (heap s ! a) storage request copy no_error (s\<lparr>world := w\<rparr>) = Some (n, e, s1)"
    using write_block_returns assms by (metis pool_inv_world)
  with J_write c show ?thesis by (simp add: run_write_def Let_def)
next
  case (J_hash a storage piece hashes v1 h)
  obtain st w where c: "clock_now E (world s) = (st, w)" by fastforce
  have run: "\<exists>s'. (if \<not> 0 < k then Some (0, [], no_error, s\<lparr>world := w\<rparr>)
        else read_block E (heap s ! a) storage request out no_error (s\<lparr>world := w\<rparr>))
      \<bind> (\<lambda>(n, b, e, s1). Some (f b e s1)) = Some s'" for k :: int and request out f
    using read_block_returns [of "s\<lparr>world := w\<rparr>" "heap s ! a" storage request out no_error] assms by fastforce
  show ?thesis unfolding J_hash run_job.simps run_hash_finish [OF c] Let_def by (rule run)
next
  case (J_hash2 a storage piece offset h)
  obtain st w where c: "clock_now E (world s) = (st, w)" by fastforce
  have run: "\<exists>s'. (if k \<le> 0 then Some (0, [], e0, s\<lparr>world := w\<rparr>)
        else read_block E (heap s ! a) storage request out no_error (s\<lparr>world := w\<rparr>))
      \<bind> (\<lambda>(n, b, e, s1). Some (f b e s1)) = Some s'" for k :: int and e0 request out f
    using read_block_returns [of "s\<lparr>world := w\<rparr>" "heap s ! a" storage request out no_error] assms by fastforce
  show ?thesis unfolding J_hash2 run_job.simps run_hash2_def c prod.case Let_def by (rule run)
next
  case (J_move a storage path flags h)
  obtain t st e s1 where "move_storage E (heap s ! a) storage path flags {} no_error s = Some (t, st, e, s1)"
    using move_storage_returns [OF posix_io_axioms] by blast
  with J_move show ?thesis by (simp add: run_move_def)
next
  case (J_check a storage resume links h)
  obtain st e s1 where i: "initialize_files E (heap s ! a) storage {} no_error s = Some (st, e, s1)"
    using initialize_files_returns [OF assms] by blast
  show ?thesis
  proof (cases resume)
    case None
    with J_check i show ?thesis by (simp add: run_check_def)
  next
    case (Some r)
    with J_check i show ?thesis by (simp add: run_check_def Let_def split_beta)
  qed
next
  case (J_priority a storage priorities h)
  obtain t e s1 where "set_file_priority E storage priorities (heap s ! a) no_error s = Some (t, e, s1)"
    using set_file_priority_returns [OF posix_io_axioms] by blast
  with J_priority show ?thesis by (simp add: run_priority_def)
qed simp_all

end


section \<open>Jobs towards the bridge\<close>

text \<open>All torrents deliver safe paths.\<close>

definition torrents_safe :: "'w saf \<Rightarrow> bool" where
  "torrents_safe s \<longleftrightarrow> list_all (\<lambda>t. torrent_safe t \<and> layout_ok (ts_files t)) (heap s)"

definition clean_saf :: "('w \<times> trace) saf \<Rightarrow> bool" where
  "clean_saf s \<longleftrightarrow> torrents_safe s \<and> clean_world (owned s) (world s)"

lemma torrents_safe_nth: "torrents_safe s \<Longrightarrow> a < length (heap s) \<Longrightarrow> torrent_safe (heap s ! a) \<and> layout_ok (ts_files (heap s ! a))"
  by (simp add: torrents_safe_def list_all_length)

lemma torrents_safe_update:
  "torrents_safe s \<Longrightarrow> a < length (heap s) \<Longrightarrow> ts_files t = ts_files (heap s ! a) \<Longrightarrow> torrent_safe t \<Longrightarrow>
     heap s' = (heap s)[a := t] \<Longrightarrow> torrents_safe s'"
  by (auto simp: torrents_safe_def list_all_length nth_list_update)

lemma clean_saf_post [simp]: "clean_saf (post c s) = clean_saf s"
  by (simp add: clean_saf_def torrents_safe_def post_def owned_def)

lemma clean_saf_step:
  assumes "clean_saf s" "heap s' = heap s" "clean_world (owned s') (world s')"
  shows "clean_saf s'"
  using assms by (simp add: clean_saf_def torrents_safe_def)

lemma clean_saf_world:
  "clean_saf s \<Longrightarrow> clean_world (owned s) w \<Longrightarrow> clean_saf (s\<lparr>world := w\<rparr>)"
  by (simp add: clean_saf_def torrents_safe_def)

lemma clean_saf_clock:
  "clean_saf s \<Longrightarrow> clock_now (audit E) (world s) = (now, w) \<Longrightarrow> clean_saf (s\<lparr>world := w\<rparr>)"
  using audited.clean_clock [of "owned s" "world s" E]
  by (auto simp: clean_saf_def torrents_safe_def)

lemma clean_saf_elapsed: "clean_saf s \<Longrightarrow> clean_saf (elapsed_stats (audit E) start incs k s)"
  using audited.clean_clock [of "owned s" "world s" E]
  by (auto simp: clean_saf_def torrents_safe_def)

lemma clean_saf_read_block:
  assumes "read_block (audit E) t storage request out err s = Some (n, b, e, s')" and "clean_saf s"
  shows "clean_saf s'"
  using assms(2) read_block_keeps(2) [OF assms(1)]
    audited.clean_read_slices [of E t storage _ out 0 err s n b e s' "{#}"] assms(1)
  by (auto simp: clean_saf_def torrents_safe_def read_block_def)

lemma clean_saf_write_block:
  assumes "write_block (audit E) t storage request inp err s = Some (n, e, s')" and "clean_saf s"
  shows "clean_saf s'"
  using assms(2) write_block_keeps(2) [OF assms(1)]
    audited.clean_write_slices [of E t storage _ inp 0 err s n e s' "{#}"] assms(1)
  by (auto simp: clean_saf_def torrents_safe_def write_block_def)

lemma clean_saf_close_storage: "clean_saf s \<Longrightarrow> clean_saf (close_storage (audit E) storage s)"
  using audited.clean_close_storage [of s "{#}" E storage]
  by (auto simp: clean_saf_def torrents_safe_def drops_frame(2) [OF close_storage_drops])

lemma clean_saf_close_file: "clean_saf s \<Longrightarrow> clean_saf (close_file (audit E) storage f s)"
  using audited.clean_close_file [of s "{#}" E storage f]
  by (auto simp: clean_saf_def torrents_safe_def drops_frame(2) [OF close_file_drops])

lemma run_read_clean:
  assumes "run_read (audit E) a storage request buffer h s = Some s'" and "clean_saf s"
  shows "clean_saf s'"
proof -
  obtain st w where c: "clock_now (audit E) (world s) = (st, w)" by (metis surj_pair)
  from assms(1) obtain n b e s1 where
    r: "read_block (audit E) (heap s ! a) storage request buffer no_error (s\<lparr>world := w\<rparr>) = Some (n, b, e, s1)"
    by (auto simp: run_read_def c Let_def bind_eq_Some_conv)
  have "clean_saf s1" by (rule clean_saf_read_block [OF r clean_saf_clock [OF assms(2) c]])
  with assms(1) r show ?thesis
    by (auto simp: run_read_def c Let_def clean_saf_elapsed split: if_splits)
qed

lemma run_write_clean:
  assumes "run_write (audit E) a storage request copy h s = Some s'" and "clean_saf s"
  shows "clean_saf s'"
proof -
  obtain st w where c: "clock_now (audit E) (world s) = (st, w)" by (metis surj_pair)
  from assms(1) obtain n e s1 where
    r: "write_block (audit E) (heap s ! a) storage request copy no_error (s\<lparr>world := w\<rparr>) = Some (n, e, s1)"
    by (auto simp: run_write_def c Let_def bind_eq_Some_conv)
  have "clean_saf s1" by (rule clean_saf_write_block [OF r clean_saf_clock [OF assms(2) c]])
  with assms(1) r show ?thesis
    by (auto simp: run_write_def c Let_def clean_saf_elapsed split: if_splits)
qed

lemma optional_read_clean:
  assumes "(if c then Some (n0, b0, e0, s\<lparr>world := w\<rparr>)
      else read_block (audit E) t storage request out err (s\<lparr>world := w\<rparr>)) = Some (n, b, e, s1)"
    and "clean_saf (s\<lparr>world := w\<rparr>)"
  shows "clean_saf s1"
  using assms clean_saf_read_block by (metis option.inject prod.inject)

lemma run_hash_clean:
  assumes "run_hash (audit E) a storage piece block_hashes v1 h s = Some s'" and "clean_saf s"
  shows "clean_saf s'"
proof -
  obtain st w where c: "clock_now (audit E) (world s) = (st, w)" by (metis surj_pair)
  let ?t = "heap s ! a"
  let ?n = "max (if v1 then piece_size (ts_files ?t) piece else 0)
      (if block_hashes \<noteq> [] then piece_size2 (ts_files ?t) piece else 0)"
  from assms(1) [unfolded run_hash_finish [OF c] Let_def] obtain n b e s1 where
    r: "(if \<not> ?n > 0 then Some (0, [], no_error, s\<lparr>world := w\<rparr>)
        else read_block (audit E) ?t storage \<lparr>req_piece = piece, req_start = 0, req_length = ?n\<rparr>
               (replicate (nat ?n) 0) no_error (s\<lparr>world := w\<rparr>)) = Some (n, b, e, s1)"
    and s': "s' = finish_hash (audit E) ?t st piece block_hashes v1 h b e s1"
    unfolding bind_eq_Some_conv by force
  have "clean_saf s1" by (rule optional_read_clean [OF r clean_saf_clock [OF assms(2) c]])
  then show ?thesis unfolding s' finish_hash_def Let_def by (simp add: clean_saf_elapsed)
qed

lemma run_hash2_clean:
  assumes "run_hash2 (audit E) a storage piece offset h s = Some s'" and "clean_saf s"
  shows "clean_saf s'"
proof -
  obtain st w where c: "clock_now (audit E) (world s) = (st, w)" by (metis surj_pair)
  let ?t = "heap s ! a"
  let ?len = "min (int default_block_size) (piece_size2 (ts_files ?t) piece - offset)"
  from assms(1) [unfolded run_hash2_def c prod.case Let_def] obtain n b e s1 where
    r: "(if ?len \<le> 0 then Some (0, [], storage_error_of (GenericError EINVAL) Op_file_read, s\<lparr>world := w\<rparr>)
        else read_block (audit E) ?t storage \<lparr>req_piece = piece, req_start = offset, req_length = ?len\<rparr>
               (replicate (nat ?len) 0) no_error (s\<lparr>world := w\<rparr>)) = Some (n, b, e, s1)"
    and s': "s' = post (Hash2_done h piece (if has_error e then zero_sha256 else sha256 (audit E) b) e)
        (if has_error e then s1 else elapsed_stats (audit E) st
           [(Num_read_back, 1), (Num_blocks_read, 1), (Num_read_ops, 1)] Disk_hash_time s1)"
    unfolding bind_eq_Some_conv by force
  have "clean_saf s1" by (rule optional_read_clean [OF r clean_saf_clock [OF assms(2) c]])
  then show ?thesis unfolding s' by (simp add: clean_saf_elapsed)
qed

lemma run_move_clean:
  assumes "run_move (audit E) a storage path flags h s = Some s'" and "clean_saf s"
    and "a < length (heap s)" and "posix_io E pending"
  shows "clean_saf s'"
proof (cases "safe_relative_path path")
  case False
  with assms show ?thesis by (auto simp: run_move_def)
next
  case True
  with assms(1) obtain t st e s1 where
    m: "move_storage (audit E) (heap s ! a) storage path flags {} no_error s = Some (t, st, e, s1)"
    and s': "s' = post (Move_done h st path e) (s1\<lparr>heap := (heap s1)[a := t]\<rparr>)"
    by (auto simp: run_move_def bind_eq_Some_conv)
  have safe: "torrents_safe s" and cw: "clean_world (owned s + {#}) (world s)"
    using assms(2) by (simp_all add: clean_saf_def)
  have t0: "torrent_safe (heap s ! a)" using torrents_safe_nth [OF safe assms(3)] by blast
  from move_storage_keeps [OF m] have k: "drops_entries s s1"
    and t: "t = heap s ! a \<or> t = set_save_root (heap s ! a) path" by auto
  have "clean_world (owned s1) (world s1)"
    using move_storage_outcome(1) [OF m assms(4) t0 safe_root(2) [OF True] cw] by simp
  moreover have "torrent_safe t" using t t0 set_save_root_safe safe_root(1) [OF True] by blast
  moreover have "ts_files t = ts_files (heap s ! a)" using t by auto
  moreover have "heap s1 = heap s" using drops_frame(2) [OF k] .
  ultimately show ?thesis
    unfolding s' clean_saf_post using torrents_safe_update [OF safe assms(3), of t "s1\<lparr>heap := (heap s1)[a := t]\<rparr>"]
    by (simp add: clean_saf_def owned_def)
qed

lemma run_check_clean:
  assumes "run_check (audit E) a storage resume links h s = Some s'" and "clean_saf s" and "a < length (heap s)"
  shows "clean_saf s'"
proof -
  have safe: "torrents_safe s" and cw: "clean_world (owned s + {#}) (world s)"
    using assms(2) by (simp_all add: clean_saf_def)
  note t = torrents_safe_nth [OF safe assms(3)]
  consider c where "s' = post c s"
    | c r st e w where "validate_resume (audit E) (heap s ! a) r {} no_error (world s) = (st, e, w)"
        "s' = post c (s\<lparr>world := w\<rparr>)"
    | st e s1 where "initialize_files (audit E) (heap s ! a) storage {} no_error s = Some (st, e, s1)"
        "s' = post (Check_done h st e) s1"
    using assms(1) by (auto simp: run_check_def bind_eq_Some_conv Let_def split: if_splits option.splits prod.splits)
  then show ?thesis
  proof cases
    case 1
    with assms(2) show ?thesis by simp
  next
    case 2
    have "clean_world (owned s) w" using audited.clean_validate_resume [OF 2(1)] t cw by simp
    with 2 assms(2) show ?thesis by (simp add: clean_saf_world)
  next
    case 3
    have "clean_world (owned s1) (world s1)" using audited.clean_initialize_files [OF 3(1) _ cw] t by simp
    with 3(2) clean_saf_step [OF assms(2) initialize_files_keeps(2) [OF 3(1)]] show ?thesis by simp
  qed
qed

lemma run_rename_clean:
  assumes "clean_saf s" and "a < length (heap s)"
  shows "clean_saf (run_rename (audit E) a storage index name h s)"
proof -
  let ?t = "heap s ! a" and ?s1 = "close_file (audit E) storage index s"
  let ?dest = "rooted_path (ts_save_root ?t) name"
  obtain ok error w1 where d: "ensure_parent_directories (audit E) ?dest no_error index (world ?s1) = (ok, error, w1)"
    by (metis surj_pair)
  obtain result w2 where r: "br_rename (audit E) (ts_paths ?t ! nat index) ?dest w1 = (result, w2)"
    by (metis surj_pair)
  have safe: "torrents_safe s" using assms(1) by (simp add: clean_saf_def)
  have t: "torrent_safe ?t" using torrents_safe_nth [OF safe assms(2)] by blast
  have c1: "clean_saf ?s1" by (rule clean_saf_close_file [OF assms(1)])
  have h1: "heap ?s1 = heap s" by (rule drops_frame(2) [OF close_file_drops])
  have w1: "clean_world (owned ?s1) w1"
    using audited.clean_ensure_parent_directories [OF d] c1 by (simp add: clean_saf_def)
  have w2: "clean_world (owned ?s1) w2"
    if "0 \<le> index" "index < int (num_files (ts_files ?t))" "safe_relative_path name"
  proof -
    have root: "ts_save_root ?t = [] \<or> safe_relative_path (ts_save_root ?t)"
      using t unfolding torrent_safe_def torrent_inv_def by blast
    have "safe_relative_path (ts_paths ?t ! nat index)"
      using torrent_safe_path_for [OF t, of "nat index"] that by (simp add: path_for_def)
    moreover have "safe_relative_path ?dest" using root that(3) by (simp add: safe_rooted_path)
    ultimately show ?thesis using audited.clean_rename [OF _ _ w1, of "ts_paths ?t ! nat index" ?dest E] by (simp add: r)
  qed
  let ?s2 = "?s1\<lparr>world := w2, heap := (heap ?s1)[a := set_file_name ?t (nat index) name]\<rparr>"
  have new: "torrents_safe ?s2" if "safe_relative_path name"
    by (rule torrents_safe_update [OF safe assms(2) _ set_file_name_safe [OF t that]])
      (simp_all add: h1 set_file_name_def)
  have renamed: "clean_saf ?s2"
    if "0 \<le> index" "index < int (num_files (ts_files ?t))" "safe_relative_path name"
    using new w2 that by (simp add: clean_saf_def owned_def)
  show ?thesis
    unfolding run_rename_def Let_def d r prod.case
    using assms(1) clean_saf_world [OF c1 w1] clean_saf_world [OF c1 w2] renamed
    by auto
qed

lemma delete_loop_clean:
  assumes "delete_loop (audit E) t is error w = (error', w')"
    and "torrent_safe t" "\<forall>i \<in> set is. i < num_files (ts_files t)" "clean_world L w"
  shows "clean_world L w'"
  using assms
proof (induction "is" arbitrary: error w)
  case (Cons i "is")
  then have "safe_relative_path (path_for t i)" using torrent_safe_path_for by simp
  from audited.clean_remove [OF this Cons.prems(4)]
  have "clean_world L (snd (br_remove (audit E) (path_for t i) False w))" .
  with Cons show ?case by (cases "br_remove (audit E) (path_for t i) False w") (auto split: if_splits)
qed simp

lemma run_delete_clean:
  assumes "clean_saf s" and "a < length (heap s)"
  shows "clean_saf (run_delete (audit E) a storage options h s)"
proof -
  let ?t = "heap s ! a" and ?s1 = "close_storage (audit E) storage s"
  have t: "torrent_safe ?t" using torrents_safe_nth assms by (auto simp: clean_saf_def)
  have c1: "clean_saf ?s1" by (rule clean_saf_close_storage [OF assms(1)])
  obtain error w1 where l: "(if delete_files options
      then delete_loop (audit E) ?t [0 ..< num_files (ts_files ?t)] no_error (world ?s1)
      else (no_error, world ?s1)) = (error, w1)" by (metis surj_pair)
  have w1: "clean_world (owned ?s1) w1"
  proof (cases "delete_files options")
    case True
    with l have "delete_loop (audit E) ?t [0 ..< num_files (ts_files ?t)] no_error (world ?s1) = (error, w1)" by simp
    from delete_loop_clean [OF this t] c1 show ?thesis by (simp add: clean_saf_def)
  qed (use l c1 in \<open>simp add: clean_saf_def\<close>)
  obtain result w2 where r: "br_remove (audit E) (ts_part_path ?t) False w1 = (result, w2)" by (metis surj_pair)
  have "safe_relative_path (ts_part_path ?t)" using t unfolding torrent_safe_def by blast
  from audited.clean_remove [OF this w1, of E False] have w2: "clean_world (owned ?s1) w2" by (simp add: r)
  show ?thesis
    unfolding run_delete_def Let_def l r prod.case
    using clean_saf_world [OF c1 w1] clean_saf_world [OF c1 w2] by auto
qed

lemma run_priority_clean:
  assumes "run_priority (audit E) a storage priorities h s = Some s'" and "clean_saf s" and "a < length (heap s)"
  shows "clean_saf s'"
proof -
  from assms(1) obtain t e s1 where
    m: "set_file_priority (audit E) storage priorities (heap s ! a) no_error s = Some (t, e, s1)"
    and s': "s' = post (Priority_done h e (ts_priorities t)) (s1\<lparr>heap := (heap s1)[a := t]\<rparr>)"
    by (auto simp: run_priority_def bind_eq_Some_conv)
  have safe: "torrents_safe s" and cw: "clean_world (owned s + {#}) (world s)"
    using assms(2) by (simp_all add: clean_saf_def)
  have t0: "torrent_safe (heap s ! a)" using torrents_safe_nth [OF safe assms(3)] by blast
  from set_file_priority_keeps [OF m] t0 have k: "drops_entries s s1" and t: "torrent_safe t" by auto
  have "clean_world (owned s1) (world s1)"
    using audited.clean_set_file_priority [OF m t0 cw] by simp
  moreover have "heap s1 = heap s" using drops_frame(2) [OF k] .
  ultimately show ?thesis
    unfolding s' clean_saf_post
    using torrents_safe_update [OF safe assms(3) set_file_priority_files [OF m] t, of "s1\<lparr>heap := (heap s1)[a := t]\<rparr>"]
    by (simp add: clean_saf_def owned_def)
qed

text \<open>A job keeps the torrents safe, delivers only safe paths and loses track of no descriptor.\<close>

lemma run_job_clean:
  assumes "run_job (audit E) j s = Some s'" and "job_ok s j" and "clean_saf s" and "posix_io E pending"
  shows "clean_saf s'"
  using assms(1-3)
proof (cases j)
  case (J_move a storage path flags h)
  with assms run_move_clean show ?thesis by (auto simp: job_ok_def)
next
  case (J_release storage h)
  with assms(1,3) show ?thesis
    by (auto simp: run_release_def Let_def clean_saf_close_storage split: option.splits)
qed (use assms run_read_clean run_write_clean run_hash_clean run_hash2_clean run_check_clean run_rename_clean
    run_delete_clean run_priority_clean clean_saf_close_storage in \<open>auto simp: job_ok_def\<close>)

end
