(* ===== verification/System.thy ===== *)
theory System
  imports Jobs
begin

text \<open>
  The disk backend as a concurrent system. Clients (the network thread of libtorrent) call the
  operations of \<^verbatim>\<open>flow_saf_disk_io\<close>, the worker takes jobs from the queue, \<^verbatim>\<open>abort\<close> begins and ends.
  Each of these is one step. Jobs and client operations are atomic towards each other: a client
  operation touches the tables, the queue and the flags (each under its mutex), a job touches the
  torrents it holds and the descriptor pool, and the parts they share are immutable (the layout).
\<close>

section \<open>Requests\<close>

datatype request =
    R_new_torrent storage_params
  | R_remove_torrent nat
  | R_read nat peer_request handler
  | R_write nat peer_request "byte list" handler
  | R_hash nat int "byte list list" bool handler
  | R_hash2 nat int int handler
  | R_move nat string move_flags handler
  | R_release nat "handler option"
  | R_stop nat "handler option"
  | R_check nat "resume_data option" "string list" handler
  | R_rename nat int string handler
  | R_delete nat remove_options handler
  | R_priority nat "download_priority list" handler
  | R_clear int handler
  | R_settings int

text \<open>What a call of the interface does to the state.\<close>

fun submit :: "'w env \<Rightarrow> request \<Rightarrow> 'w saf \<Rightarrow> 'w saf" where
  "submit E (R_new_torrent params) s = snd (new_torrent E params s)"
| "submit E (R_remove_torrent storage) s = remove_torrent storage s"
| "submit E (R_read storage request h) s = async_read E storage request h s"
| "submit E (R_write storage request bytes h) s = snd (async_write storage request bytes h s)"
| "submit E (R_hash storage piece hashes v1 h) s = async_hash storage piece hashes v1 h s"
| "submit E (R_hash2 storage piece offset h) s = async_hash2 storage piece offset h s"
| "submit E (R_move storage path flags h) s = async_move_storage storage path flags h s"
| "submit E (R_release storage h) s = async_release_files storage h s"
| "submit E (R_stop storage h) s = async_stop_torrent storage h s"
| "submit E (R_check storage resume links h) s = async_check_files storage resume links h s"
| "submit E (R_rename storage index name h) s = async_rename_file storage index name h s"
| "submit E (R_delete storage options h) s = async_delete_files storage options h s"
| "submit E (R_priority storage priorities h) s = async_set_file_priority storage priorities h s"
| "submit E (R_clear piece h) s = async_clear_piece piece h s"
| "submit E (R_settings n) s = settings_updated n s"

fun request_handler :: "request \<Rightarrow> handler option" where
  "request_handler (R_read storage request h) = Some h"
| "request_handler (R_write storage request bytes h) = Some h"
| "request_handler (R_hash storage piece hashes v1 h) = Some h"
| "request_handler (R_hash2 storage piece offset h) = Some h"
| "request_handler (R_move storage path flags h) = Some h"
| "request_handler (R_release storage h) = h"
| "request_handler (R_stop storage h) = h"
| "request_handler (R_check storage resume links h) = Some h"
| "request_handler (R_rename storage index name h) = Some h"
| "request_handler (R_delete storage options h) = Some h"
| "request_handler (R_priority storage priorities h) = Some h"
| "request_handler (R_clear piece h) = Some h"
| "request_handler _ = None"

section \<open>The job a request asks for\<close>

text \<open>
  What a request promises, without the queue: the job that serves it, with the torrent of its slot and what the request
  carries. There is none when the slot is empty, when no buffer is to be had or when the request needs none. It is queued
  only while jobs are accepted.
\<close>

fun requested_job :: "'w env \<Rightarrow> request \<Rightarrow> 'w saf \<Rightarrow> job option" where
  "requested_job E (R_new_torrent params) s = None"
| "requested_job E (R_remove_torrent i) s = map_option (\<lambda>_. J_close_storage i) (find_storage i s)"
| "requested_job E (R_read i request h) s =
     (case (find_storage i s, fst (allocate_buffer E (world s))) of
        (Some a, Some buffer) \<Rightarrow> Some (J_read a i request buffer h) | _ \<Rightarrow> None)"
| "requested_job E (R_write i request bytes h) s =
     map_option (\<lambda>a. J_write a i request (take (nat (req_length request)) bytes) h) (find_storage i s)"
| "requested_job E (R_hash i piece hashes v1 h) s = map_option (\<lambda>a. J_hash a i piece hashes v1 h) (find_storage i s)"
| "requested_job E (R_hash2 i piece offset h) s = map_option (\<lambda>a. J_hash2 a i piece offset h) (find_storage i s)"
| "requested_job E (R_move i path flags h) s = map_option (\<lambda>a. J_move a i path flags h) (find_storage i s)"
| "requested_job E (R_release i h) s = Some (J_release i h)"
| "requested_job E (R_stop i h) s = Some (J_release i h)"
| "requested_job E (R_check i resume links h) s = map_option (\<lambda>a. J_check a i resume links h) (find_storage i s)"
| "requested_job E (R_rename i index name h) s = map_option (\<lambda>a. J_rename a i index name h) (find_storage i s)"
| "requested_job E (R_delete i options h) s = map_option (\<lambda>a. J_delete a i options h) (find_storage i s)"
| "requested_job E (R_priority i priorities h) s =
     map_option (\<lambda>a. J_priority a i (resize (num_files (ts_files (heap s ! a))) default_priority priorities) h) (find_storage i s)"
| "requested_job E (R_clear piece h) s = Some (J_clear piece h)"
| "requested_job E (R_settings n) s = None"

definition requested_jobs :: "'w env \<Rightarrow> request \<Rightarrow> 'w saf \<Rightarrow> job list" where
  "requested_jobs E r s = (if m_accepting s then (case requested_job E r s of None \<Rightarrow> [] | Some j \<Rightarrow> [j]) else [])"

section \<open>Steps and runs\<close>

text \<open>
  An action carries what it was: the request with the jobs it asked for, the job that was at the front of the queue when
  the worker turned with the completions of that turn. Every call and every turn of the worker that returns is a step,
  whatever it does to the queue.
\<close>

datatype action =
    Call request "job list"
  | Work job "completion list"
  | Exit
  | Abort_begin
  | Abort_end

inductive step :: "'w env \<Rightarrow> 'w saf \<Rightarrow> action \<Rightarrow> 'w saf \<Rightarrow> bool" for E where
  Call: "step E s (Call r (requested_jobs E r s)) (submit E r s)"
| Work: "worker_running s \<Longrightarrow> m_jobs s = j # js \<Longrightarrow> worker_step E s = Some s' \<Longrightarrow>
    step E s (Work j (drop (length (posted s)) (posted s'))) s'"
| Exit: "worker_running s \<Longrightarrow> m_jobs s = [] \<Longrightarrow> m_stopping s \<Longrightarrow> step E s Exit (worker_exit E s)"
| Abort_begin: "m_accepting s \<or> worker_joinable s \<Longrightarrow> step E s Abort_begin (abort_begin s)"
| Abort_end: "m_stopping s \<Longrightarrow> \<not> worker_running s \<Longrightarrow> worker_joinable s \<Longrightarrow> step E s Abort_end (abort_end E s)"

inductive_cases step_CallE: "step E s (Call r js) s'"
inductive_cases step_WorkE: "step E s (Work j cs) s'"
inductive_cases step_ExitE: "step E s Exit s'"
inductive_cases step_Abort_beginE: "step E s Abort_begin s'"
inductive_cases step_Abort_endE: "step E s Abort_end s'"

text \<open>A run is the list of its actions, oldest first.\<close>

inductive runs :: "'w env \<Rightarrow> 'w saf \<Rightarrow> action list \<Rightarrow> 'w saf \<Rightarrow> bool" for E s where
  Start: "runs E s [] s"
| Step: "runs E s acts s1 \<Longrightarrow> step E s1 act s2 \<Longrightarrow> runs E s (acts @ [act]) s2"

inductive_cases runs_snocE: "runs E s (acts @ [act]) s'"

section \<open>What a client operation does\<close>

text \<open>
  The contract of a client call with handler \<open>h\<close>: it queues at most one job or posts at most one
  completion, for \<open>h\<close> and never both; it queues nothing once jobs are refused, and leaves the
  descriptor pool and the flags alone.
\<close>

definition client_contract :: "handler option \<Rightarrow> 'w saf \<Rightarrow> 'w saf \<Rightarrow> bool" where
  "client_contract h s s' \<longleftrightarrow>
     (\<exists>js cs. m_jobs s' = m_jobs s @ js \<and> posted s' = posted s @ cs
        \<and> concat (map (handlers \<circ> job_handler) js) @ map completion_handler cs = handlers h
        \<and> length js \<le> 1 \<and> (\<not> m_accepting s \<longrightarrow> js = []) \<and> (\<forall>j \<in> set js. job_ok s' j))
     \<and> m_descriptors s' = m_descriptors s \<and> (1 \<le> m_descriptor_limit s \<longrightarrow> 1 \<le> m_descriptor_limit s')
     \<and> m_accepting s' = m_accepting s \<and> m_stopping s' = m_stopping s
     \<and> worker_running s' = worker_running s \<and> worker_joinable s' = worker_joinable s"

text \<open>The tables a client call may change: the slots, the free list and the torrents.\<close>

definition tables :: "'w saf \<Rightarrow> address option list \<times> nat list \<times> torrent_storage list" where
  "tables s = (m_torrents s, m_free_storage s, heap s)"

lemma tables_simps [simp]:
  "tables (s\<lparr>world := w\<rparr>) = tables s" "tables (post c s) = tables s"
  "tables (s\<lparr>m_jobs := js\<rparr>) = tables s"
  by (simp_all add: tables_def post_def)

lemma client_post: "completion_handler c = h \<Longrightarrow> client_contract (Some h) s (post c s)"
  by (simp add: client_contract_def post_def)

lemma client_world: "client_contract h (s\<lparr>world := w\<rparr>) s' \<Longrightarrow> client_contract h s s'"
  by (simp add: client_contract_def)

lemma client_enqueue_or_abort:
  assumes "job_ok s j" "job_handler j = h" "h = map_option completion_handler c"
  shows "client_contract h s (enqueue_or_abort j c s)" "tables (enqueue_or_abort j c s) = tables s"
  using assms
  by (auto simp: client_contract_def enqueue_or_abort_def post_def job_ok_def tables_def split: option.splits)

text \<open>The slots name torrents of the store, and the free list names exactly the empty slots.\<close>

definition slots_ok :: "'w saf \<Rightarrow> bool" where
  "slots_ok s \<longleftrightarrow> (\<forall>a. Some a \<in> set (m_torrents s) \<longrightarrow> a < length (heap s))
     \<and> (\<forall>i < length (m_torrents s). \<forall>j < length (m_torrents s).
          m_torrents s ! i \<noteq> None \<longrightarrow> m_torrents s ! i = m_torrents s ! j \<longrightarrow> i = j)
     \<and> distinct (m_free_storage s)
     \<and> set (m_free_storage s) = {i. i < length (m_torrents s) \<and> m_torrents s ! i = None}"

lemma slots_ok_cong:
  "m_torrents s' = m_torrents s \<Longrightarrow> m_free_storage s' = m_free_storage s \<Longrightarrow>
     length (heap s') = length (heap s) \<Longrightarrow> slots_ok s' = slots_ok s"
  unfolding slots_ok_def by simp

lemma slots_ok_tables: "tables s' = tables s \<Longrightarrow> slots_ok s' = slots_ok s"
  unfolding tables_def slots_ok_def by simp

lemma find_storage_Some: "find_storage i s = Some a \<longleftrightarrow> i < length (m_torrents s) \<and> m_torrents s ! i = Some a"
  by (simp add: find_storage_def)

lemma find_storage_heap: "slots_ok s \<Longrightarrow> find_storage i s = Some a \<Longrightarrow> a < length (heap s)"
  unfolding slots_ok_def find_storage_Some by (metis nth_mem)

lemmas client_intros = client_post client_enqueue_or_abort

lemmas async_defs = async_read_def async_write_def async_hash_def async_hash2_def async_move_storage_def
  async_release_files_def async_stop_torrent_def async_check_files_def async_rename_file_def
  async_delete_files_def async_set_file_priority_def async_clear_piece_def

text \<open>Every asynchronous request keeps the tables.\<close>

fun is_async :: "request \<Rightarrow> bool" where
  "is_async (R_new_torrent params) = False"
| "is_async (R_remove_torrent storage) = False"
| "is_async _ = True"

lemma submit_tables: "is_async r \<Longrightarrow> tables (submit E r s) = tables s"
  by (cases r)
    (auto simp: async_defs Let_def settings_updated_def set_descriptor_limit_def tables_def enqueue_or_abort_def post_def
      split: option.splits prod.splits)

lemma new_torrent_contract: "client_contract None s (snd (new_torrent E params s))"
  by (auto simp: new_torrent_def client_contract_def Let_def split: prod.splits sum.splits)

lemma remove_torrent_contract: "client_contract None s (remove_torrent storage s)"
  by (auto simp: remove_torrent_def enqueue_def client_contract_def job_ok_def)

lemma submit_contract:
  assumes "slots_ok s"
  shows "client_contract (request_handler r) s (submit E r s)"
proof (cases r)
  case (R_read storage request h)
  have queued: "client_contract (Some h) s (enqueue_or_abort (J_read a storage request b h) (Some c) (s\<lparr>world := w\<rparr>))"
    if "find_storage storage s = Some a" "completion_handler c = h" for a b c w
    by (rule client_world [where w = w], rule client_enqueue_or_abort(1))
      (use that find_storage_heap [OF assms that(1)] in \<open>auto simp: job_ok_def\<close>)
  have refused: "client_contract (Some h) s (post c (s\<lparr>world := w\<rparr>))" if "completion_handler c = h" for c w
    by (rule client_world [where w = w]) (rule client_post [OF that])
  obtain raw w where b: "allocate_buffer E (world s) = (raw, w)" by (metis surj_pair)
  show ?thesis
    by (cases "find_storage storage s"; cases raw)
      (simp_all add: R_read async_read_def b Let_def client_post queued refused)
qed (auto simp: async_defs Let_def settings_updated_def new_torrent_contract remove_torrent_contract
      set_descriptor_limit_def job_ok_def option.map_comp o_def option.map_ident
      client_contract_def [where s' = "_\<lparr>m_descriptor_limit := _\<rparr>"]
      intro!: client_post client_enqueue_or_abort(1) dest: find_storage_heap [OF assms] split: option.splits)

section \<open>The table of slots\<close>

text \<open>
  The interface of the slot table, and what its users rely on: a slot stays with its torrent until
  it is given back, and no two live slots hold the same torrent.
\<close>

locale slot_table =
  fixes lookup :: "'s \<Rightarrow> nat \<Rightarrow> 'a option"
    and take_slot :: "'s \<Rightarrow> 'a \<Rightarrow> nat \<Rightarrow> 's \<Rightarrow> bool"
    and give_back :: "'s \<Rightarrow> nat \<Rightarrow> 's"
    and valid :: "'s \<Rightarrow> bool"
  assumes take_fresh: "valid s \<Longrightarrow> take_slot s a i s' \<Longrightarrow> lookup s i = None"
    and take_lookup: "valid s \<Longrightarrow> take_slot s a i s' \<Longrightarrow> lookup s' j = (if j = i then Some a else lookup s j)"
    and give_back_lookup: "valid s \<Longrightarrow> lookup (give_back s i) j = (if j = i then None else lookup s j)"
    and valid_take: "valid s \<Longrightarrow> take_slot s a i s' \<Longrightarrow> valid s'"
    and valid_give_back: "valid s \<Longrightarrow> valid (give_back s i)"
    and valid_inj: "valid s \<Longrightarrow> lookup s i = Some a \<Longrightarrow> lookup s j = Some a \<Longrightarrow> i = j"
begin

lemma take_keeps_others: "valid s \<Longrightarrow> take_slot s a i s' \<Longrightarrow> lookup s j = Some b \<Longrightarrow> lookup s' j = Some b"
  using take_fresh take_lookup by fastforce

lemma take_give_back:
  assumes "valid s" "take_slot s a i s'"
  shows "lookup (give_back s' i) = lookup s"
proof
  fix j
  show "lookup (give_back s' i) j = lookup s j"
    using take_fresh [OF assms] take_lookup [OF assms] give_back_lookup [OF valid_take [OF assms]]
    by (cases "j = i") auto
qed

lemma take_different:
  assumes "valid s" "take_slot s a i s1" "take_slot s1 b j s2"
  shows "i \<noteq> j"
  using take_fresh [OF valid_take [OF assms(1,2)] assms(3)] take_lookup [OF assms(1,2), of i] by auto

end

text \<open>A successful \<^verbatim>\<open>new_torrent\<close> as the operation of the interface.\<close>

definition takes_slot :: "'w env \<Rightarrow> 'w saf \<Rightarrow> address \<Rightarrow> nat \<Rightarrow> 'w saf \<Rightarrow> bool" where
  "takes_slot E s a i s' \<longleftrightarrow> a = length (heap s) \<and> length (m_torrents s) < 2 ^ 32
     \<and> (\<exists>params. new_torrent E params s = (Inr i, s'))"

lemma new_torrentE:
  assumes "new_torrent E params s = (res, s')"
  obtains (refused) exn w where "res = Inl exn" "s' = s\<lparr>world := w\<rparr>"
      "new_torrent_storage E params (world s) = (Inl exn, w)"
    | (appended) t w where "new_torrent_storage E params (world s) = (Inr t, w)" "m_free_storage s = []"
      "res = Inr (length (m_torrents s) mod 2 ^ 32)"
      "s' = s\<lparr>world := w, heap := heap s @ [t], m_torrents := m_torrents s @ [Some (length (heap s))]\<rparr>"
    | (reused) t w fs i where "new_torrent_storage E params (world s) = (Inr t, w)" "m_free_storage s = fs @ [i]"
      "res = Inr i"
      "s' = s\<lparr>world := w, heap := heap s @ [t], m_free_storage := fs,
              m_torrents := (m_torrents s)[i := Some (length (heap s))]\<rparr>"
proof -
  obtain r w where r: "new_torrent_storage E params (world s) = (r, w)" by (metis surj_pair)
  show ?thesis
  proof (cases r)
    case (Inl exn)
    with assms r show ?thesis by (intro refused) (auto simp: new_torrent_def)
  next
    case (Inr t)
    show ?thesis
    proof (cases "m_free_storage s" rule: rev_cases)
      case Nil
      with assms r Inr show ?thesis by (intro appended) (auto simp: new_torrent_def Let_def)
    next
      case (snoc fs i)
      with assms r Inr show ?thesis by (intro reused) (auto simp: new_torrent_def Let_def)
    qed
  qed
qed

lemma heap_fresh: "slots_ok s \<Longrightarrow> Some (length (heap s)) \<notin> set (m_torrents s)"
  by (auto simp: slots_ok_def)

lemma new_torrent_slots:
  assumes "slots_ok s" "new_torrent E params s = (res, s')"
  shows "slots_ok s'"
  using assms(2)
proof (cases rule: new_torrentE)
  case (refused exn w)
  with assms(1) slots_ok_tables show ?thesis by (metis tables_simps(1))
next
  case (appended t w)
  have fresh: "m_torrents s ! j \<noteq> Some (length (heap s))" if "j < length (m_torrents s)" for j
    using heap_fresh [OF assms(1)] that by (metis nth_mem)
  with assms(1) appended show ?thesis
    by (auto simp: slots_ok_def nth_append less_Suc_eq split: if_splits)
next
  case (reused t w fs i)
  from assms(1) reused have i: "i < length (m_torrents s)" "m_torrents s ! i = None"
    by (auto simp: slots_ok_def)
  have fresh: "m_torrents s ! j \<noteq> Some (length (heap s))" if "j < length (m_torrents s)" for j
    using heap_fresh [OF assms(1)] that by (metis nth_mem)
  have fs: "distinct fs" "set fs = {k. k < length (m_torrents s) \<and> m_torrents s ! k = None} - {i}"
    using assms(1) reused(2) unfolding slots_ok_def by auto
  from fresh have "Some (length (heap s)) \<noteq> m_torrents s ! j" if "j < length (m_torrents s)" for j
    using that by metis
  with fresh assms(1) reused(4) i fs show ?thesis
    by (auto simp: slots_ok_def nth_list_update less_Suc_eq
        dest!: set_update_subset_insert [THEN subsetD])
qed

lemma remove_torrent_slots: "slots_ok s \<Longrightarrow> slots_ok (remove_torrent i s)"
  by (auto simp: remove_torrent_def enqueue_def slots_ok_def nth_list_update
      dest!: set_update_subset_insert [THEN subsetD])

lemma live_slots_inj:
  "slots_ok s \<Longrightarrow> find_storage i s = Some a \<Longrightarrow> find_storage j s = Some a \<Longrightarrow> i = j"
  unfolding slots_ok_def find_storage_Some by (metis option.distinct(1))

interpretation slots: slot_table "\<lambda>s i. find_storage i s" "takes_slot E" "\<lambda>s i. remove_torrent i s" slots_ok
  for E :: "'w env"
proof (unfold_locales, goal_cases)
  case (1 s a i s')
  then show ?case
    by (auto simp: takes_slot_def find_storage_def slots_ok_def elim!: new_torrentE)
next
  case (2 s a i s' j)
  then have "\<And>fs k. m_free_storage s = fs @ [k] \<Longrightarrow> k < length (m_torrents s)" by (auto simp: slots_ok_def)
  with 2 show ?case
    by (fastforce simp: takes_slot_def find_storage_def nth_append nth_list_update elim!: new_torrentE)
next
  case (3 s i j)
  then show ?case by (auto simp: remove_torrent_def enqueue_def find_storage_def nth_list_update)
next
  case (4 s a i s')
  then show ?case using new_torrent_slots by (auto simp: takes_slot_def)
next
  case (5 s i)
  then show ?case by (rule remove_torrent_slots)
next
  case (6 s i a j)
  then show ?case by (rule live_slots_inj)
qed

section \<open>The invariant of the system\<close>

definition flags_ok :: "'w saf \<Rightarrow> bool" where
  "flags_ok s \<longleftrightarrow> m_stopping s = (\<not> m_accepting s) \<and> (worker_running s \<longrightarrow> worker_joinable s)
     \<and> (\<not> worker_running s \<longrightarrow> m_stopping s \<and> m_jobs s = [] \<and> m_descriptors s = [])"

definition sys_inv :: "'w saf \<Rightarrow> bool" where
  "sys_inv s \<longleftrightarrow> slots_ok s \<and> pool_inv s \<and> list_all torrent_inv (heap s)
     \<and> list_all (job_ok s) (m_jobs s) \<and> flags_ok s"

lemma sys_invE:
  assumes "sys_inv s"
  obtains "slots_ok s" "pool_inv s" "list_all torrent_inv (heap s)" "list_all (job_ok s) (m_jobs s)" "flags_ok s"
  using assms unfolding sys_inv_def by blast

lemma initial_sys_inv: "sys_inv (initial_saf n w)"
  by (simp add: sys_inv_def initial_saf_def set_descriptor_limit_def slots_ok_def pool_inv_def flags_ok_def)

lemma job_ok_mono: "job_ok s j \<Longrightarrow> length (heap s) \<le> length (heap s') \<Longrightarrow> job_ok s' j"
  by (auto simp: job_ok_def split: option.splits)

lemma job_ok_heap: "heap s' = heap s \<Longrightarrow> job_ok s' = job_ok s"
  by (auto simp: job_ok_def fun_eq_iff split: option.split)

lemma sys_inv_same:
  assumes "sys_inv s" "tables s' = tables s" "m_jobs s' = m_jobs s" "pool_inv s \<Longrightarrow> pool_inv s'" "flags_ok s'"
  shows "sys_inv s'"
  using assms slots_ok_tables [OF assms(2)] job_ok_heap [of s' s] by (simp add: sys_inv_def tables_def)

lemma jobs_ok_mono:
  "list_all (job_ok s) js \<Longrightarrow> length (heap s) \<le> length (heap s') \<Longrightarrow> list_all (job_ok s') js"
  by (auto simp: list_all_iff intro: job_ok_mono)

lemma client_pool_inv: "client_contract h s s' \<Longrightarrow> pool_inv s \<Longrightarrow> pool_inv s'"
  by (auto simp: client_contract_def pool_inv_def)

lemma client_flags: "client_contract h s s' \<Longrightarrow> flags_ok s \<Longrightarrow> flags_ok s'"
  by (auto simp: client_contract_def flags_ok_def)

text \<open>A client call only ever adds torrents, and those satisfy their invariant.\<close>

lemma new_torrent_heap:
  assumes "new_torrent E params s = (res, s')"
  shows "\<exists>ts. heap s' = heap s @ ts \<and> list_all torrent_inv ts"
  using assms
proof (cases rule: new_torrentE)
  case (appended t w)
  with new_torrent_storage_inv(1) [OF appended(1)] show ?thesis by (intro exI [of _ "[t]"]) simp
next
  case (reused t w fs i)
  with new_torrent_storage_inv(1) [OF reused(1)] show ?thesis by (intro exI [of _ "[t]"]) simp
qed simp

lemma submit_heap: "\<exists>ts. heap (submit E r s) = heap s @ ts \<and> list_all torrent_inv ts"
proof (cases "is_async r")
  case True
  with submit_tables [of r E s] show ?thesis by (intro exI [of _ "[]"]) (simp add: tables_def)
next
  case False
  then show ?thesis
  proof (cases r)
    case (R_new_torrent params)
    with new_torrent_heap show ?thesis by (metis prod.collapse submit.simps(1))
  next
    case (R_remove_torrent i)
    then show ?thesis by (intro exI [of _ "[]"]) (simp add: remove_torrent_def enqueue_def)
  qed simp_all
qed

lemma submit_slots: "slots_ok s \<Longrightarrow> slots_ok (submit E r s)"
proof (cases "is_async r")
  case True
  assume "slots_ok s"
  with slots_ok_tables [OF submit_tables [OF True]] show ?thesis by blast
next
  case False
  assume s: "slots_ok s"
  show ?thesis
  proof (cases r)
    case (R_new_torrent params)
    with s new_torrent_slots show ?thesis by (metis prod.collapse submit.simps(1))
  next
    case (R_remove_torrent i)
    with s show ?thesis by (simp add: remove_torrent_slots)
  qed (use False in simp_all)
qed

lemma submit_sys_inv:
  assumes "sys_inv s" shows "sys_inv (submit E r s)"
proof -
  let ?s = "submit E r s"
  from assms have s: "slots_ok s" "pool_inv s" "list_all torrent_inv (heap s)" "list_all (job_ok s) (m_jobs s)" "flags_ok s"
    by (auto elim: sys_invE)
  have c: "client_contract (request_handler r) s ?s" by (rule submit_contract [OF s(1)])
  from submit_heap obtain ts where h: "heap ?s = heap s @ ts" "list_all torrent_inv ts" by blast
  obtain js where js: "m_jobs ?s = m_jobs s @ js" "\<forall>j \<in> set js. job_ok ?s j"
    using c by (auto simp: client_contract_def)
  have "list_all (job_ok ?s) (m_jobs ?s)"
    using jobs_ok_mono [OF s(4), of ?s] js h by (auto simp: list_all_iff)
  with s h c show ?thesis
    unfolding sys_inv_def using submit_slots client_pool_inv client_flags by (metis list_all_append)
qed

text \<open>A job keeps the frame, so the worker keeps the invariant.\<close>

lemma worker_step_contract:
  assumes "worker_step E s = Some s'" "m_jobs s = j # js" "list_all (job_ok s) (m_jobs s)"
  shows "job_contract (job_handler j) (s\<lparr>m_jobs := js\<rparr>) s'"
proof -
  have "run_job E j (s\<lparr>m_jobs := js\<rparr>) = Some s'" using assms(1,2) by (simp add: worker_step_def)
  moreover have "job_ok (s\<lparr>m_jobs := js\<rparr>) j"
    using assms(2,3) job_ok_heap [of "s\<lparr>m_jobs := js\<rparr>" s] by simp
  ultimately show ?thesis by (rule run_job_contract)
qed

lemma worker_step_sys_inv:
  assumes "sys_inv s" "worker_running s" "worker_step E s = Some s'" "m_jobs s = j # js"
  shows "sys_inv s'" "m_jobs s' = js" "m_stopping s' = m_stopping s" "worker_running s' = worker_running s"
    "m_accepting s' = m_accepting s" "worker_joinable s' = worker_joinable s"
proof -
  from assms(1) have s: "slots_ok s" "pool_inv s" "list_all torrent_inv (heap s)" "list_all (job_ok s) (m_jobs s)" "flags_ok s"
    by (auto elim: sys_invE)
  let ?s = "s\<lparr>m_jobs := js\<rparr>"
  have "job_contract (job_handler j) ?s s'" by (rule worker_step_contract [OF assms(3,4) s(4)])
  then have f: "same_frame ?s s'" and p: "pool_inv ?s \<longrightarrow> pool_inv s'"
    and t: "list_all torrent_inv (heap ?s) \<longrightarrow> list_all torrent_inv (heap s')"
    unfolding job_contract_def by blast+
  have len: "length (heap s') = length (heap s)"
    using f by (auto simp: same_frame_def dest: map_eq_imp_length_eq)
  have pool: "pool_inv s'" using p s(2) by (simp add: pool_inv_def)
  have slots: "slots_ok s'" using f s(1) len slots_ok_cong [of s' s] by (simp add: same_frame_def)
  have jobs: "list_all (job_ok s') (m_jobs s')"
    using f s(4) len assms(4) by (auto simp: same_frame_def list_all_iff job_ok_def split: option.splits)
  have flags: "flags_ok s'" using f s(5) assms(2) by (auto simp: flags_ok_def same_frame_def)
  show "sys_inv s'" using pool slots jobs flags t s(3) by (simp add: sys_inv_def)
  show "m_jobs s' = js" "m_stopping s' = m_stopping s" "worker_running s' = worker_running s"
    "m_accepting s' = m_accepting s" "worker_joinable s' = worker_joinable s"
    using f by (simp_all add: same_frame_def)
qed

lemma close_all_fields [simp]:
  "m_descriptors (close_all E s) = []" "disk.more (close_all E s) = disk.more s"
  by (simp_all add: close_all_def)

lemma close_all_saf [simp]:
  fixes s :: "'w saf"
  shows "heap (close_all E s) = heap s" "m_torrents (close_all E s) = m_torrents s"
    "m_free_storage (close_all E s) = m_free_storage s" "m_jobs (close_all E s) = m_jobs s"
    "m_accepting (close_all E s) = m_accepting s" "m_stopping (close_all E s) = m_stopping s"
    "worker_running (close_all E s) = worker_running s" "worker_joinable (close_all E s) = worker_joinable s"
    "posted (close_all E s) = posted s" "m_descriptor_limit (close_all E s) = m_descriptor_limit s"
  by (simp_all add: close_all_def)

lemma close_all_pool_inv: "pool_inv s \<Longrightarrow> pool_inv (close_all E s)"
  by (simp add: pool_inv_def close_all_def)

lemma step_sys_inv:
  assumes "step E s act s'" "sys_inv s"
  shows "sys_inv s'"
proof -
  have f: "flags_ok s" using assms(2) by (rule sys_invE)
  from assms(1) show ?thesis
  proof (cases rule: step.cases)
    case (Call r)
    with assms(2) submit_sys_inv show ?thesis by blast
  next
    case (Work j js)
    with assms(2) worker_step_sys_inv(1) show ?thesis by blast
  next
    case Exit
    show ?thesis unfolding Exit(2)
      by (rule sys_inv_same [OF assms(2)])
        (use f Exit in \<open>auto simp: worker_exit_def tables_def flags_ok_def pool_inv_def\<close>)
  next
    case Abort_begin
    show ?thesis unfolding Abort_begin(2)
      by (rule sys_inv_same [OF assms(2)])
        (use f in \<open>auto simp: abort_begin_def tables_def flags_ok_def pool_inv_def\<close>)
  next
    case Abort_end
    show ?thesis unfolding Abort_end(2)
      by (rule sys_inv_same [OF assms(2)])
        (use f Abort_end in \<open>auto simp: abort_end_def tables_def flags_ok_def pool_inv_def\<close>)
  qed
qed

lemma runs_sys_inv: "runs E s acts s' \<Longrightarrow> sys_inv s \<Longrightarrow> sys_inv s'"
  by (induction rule: runs.induct) (auto intro: step_sys_inv)

section \<open>Every request is answered exactly once, in order\<close>

fun act_submitted :: "action \<Rightarrow> handler list" where
  "act_submitted (Call r js) = handlers (request_handler r)"
| "act_submitted _ = []"

fun act_queued :: "action \<Rightarrow> job list" where
  "act_queued (Call r js) = js"
| "act_queued _ = []"

fun act_executed :: "action \<Rightarrow> job list" where
  "act_executed (Work j cs) = [j]"
| "act_executed _ = []"

text \<open>The completions of the worker's turns.\<close>

fun act_answers :: "action \<Rightarrow> completion list" where
  "act_answers (Work j cs) = cs"
| "act_answers _ = []"

definition worker_answers :: "action list \<Rightarrow> completion list" where
  "worker_answers acts = concat (map act_answers acts)"

definition submitted :: "action list \<Rightarrow> handler list" where
  "submitted acts = concat (map act_submitted acts)"

definition queued :: "action list \<Rightarrow> job list" where
  "queued acts = concat (map act_queued acts)"

definition executed :: "action list \<Rightarrow> job list" where
  "executed acts = concat (map act_executed acts)"

text \<open>The handlers still waiting in the queue, and those already called.\<close>

definition pending_handlers :: "job list \<Rightarrow> handler list" where
  "pending_handlers js = concat (map (handlers \<circ> job_handler) js)"

definition completed :: "'w saf \<Rightarrow> handler list" where
  "completed s = map completion_handler (posted s)"

lemma run_lists_simps [simp]:
  "submitted [] = []" "queued [] = []" "executed [] = []" "pending_handlers [] = []" "worker_answers [] = []"
  "submitted (acts @ [act]) = submitted acts @ act_submitted act"
  "queued (acts @ [act]) = queued acts @ act_queued act"
  "executed (acts @ [act]) = executed acts @ act_executed act"
  "worker_answers (acts @ [act]) = worker_answers acts @ act_answers act"
  "pending_handlers (j # js) = handlers (job_handler j) @ pending_handlers js"
  "pending_handlers (js @ js') = pending_handlers js @ pending_handlers js'"
  by (simp_all add: submitted_def queued_def executed_def pending_handlers_def worker_answers_def)

text \<open>What is answered and what waits, as one multiset.\<close>

definition accounted :: "'w saf \<Rightarrow> handler multiset" where
  "accounted s = mset (completed s) + mset (pending_handlers (m_jobs s))"

lemma client_accounted:
  assumes "client_contract h s s'"
  shows "accounted s' = accounted s + mset (handlers h)"
proof -
  obtain js cs where q: "m_jobs s' = m_jobs s @ js" "posted s' = posted s @ cs"
    and h: "concat (map (handlers \<circ> job_handler) js) @ map completion_handler cs = handlers h"
    using assms by (auto simp: client_contract_def)
  from q have "accounted s' = accounted s + mset (concat (map (handlers \<circ> job_handler) js) @ map completion_handler cs)"
    by (simp add: accounted_def completed_def pending_handlers_def)
  then show ?thesis by (simp only: h)
qed

lemma worker_accounted:
  assumes "sys_inv s" "worker_running s" "worker_step E s = Some s'" "m_jobs s = j # js"
  shows "accounted s' = accounted s"
proof -
  have "list_all (job_ok s) (m_jobs s)" using assms(1) by (rule sys_invE)
  from worker_step_contract [OF assms(3,4) this] obtain cs where
    "posted s' = posted s @ cs" "map completion_handler cs = handlers (job_handler j)"
    by (auto simp: job_contract_def)
  with worker_step_sys_inv(2) [OF assms] assms(4) show ?thesis by (simp add: accounted_def completed_def)
qed

lemma step_accounted:
  assumes "step E s act s'" "sys_inv s"
  shows "accounted s' = accounted s + mset (act_submitted act)"
  using assms(1)
proof (cases rule: step.cases)
  case (Call r)
  have "slots_ok s" using assms(2) by (rule sys_invE)
  with Call client_accounted submit_contract show ?thesis by fastforce
next
  case (Work j js)
  with worker_accounted assms(2) show ?thesis by fastforce
qed (simp_all add: accounted_def completed_def worker_exit_def abort_begin_def abort_end_def)

lemma runs_accounted:
  assumes "runs E s acts s'" "sys_inv s"
  shows "accounted s' = accounted s + mset (submitted acts)"
  using assms
proof (induction rule: runs.induct)
  case (Step acts s1 act s2)
  with step_accounted [OF Step(2)] runs_sys_inv [OF Step(1)] show ?case by (simp add: union_assoc)
qed simp

text \<open>A call puts exactly the job it asks for at the end of the queue.\<close>

lemma submit_jobs: "m_jobs (submit E r s) = m_jobs s @ requested_jobs E r s"
  by (cases r)
    (auto simp: requested_jobs_def async_defs Let_def new_torrent_def remove_torrent_def find_storage_def enqueue_def
      enqueue_or_abort_def settings_updated_def set_descriptor_limit_def post_def
      split: option.splits prod.splits sum.splits)

text \<open>A step moves the front of the queue to the jobs executed, and answers that job.\<close>

lemma step_fifo:
  assumes "step E s act s'" "sys_inv s"
  shows "m_jobs s @ act_queued act = act_executed act @ m_jobs s'
    \<and> map completion_handler (act_answers act) = pending_handlers (act_executed act)"
  using assms(1)
proof (cases rule: step.cases)
  case (Work j js)
  have "list_all (job_ok s) (m_jobs s)" using assms(2) by (rule sys_invE)
  from worker_step_contract [OF Work(4,3) this] obtain cs where
    "posted s' = posted s @ cs" "map completion_handler cs = handlers (job_handler j)"
    by (auto simp: job_contract_def)
  with Work worker_step_sys_inv(2) [OF assms(2) Work(2,4,3)] show ?thesis by simp
qed (simp_all add: submit_jobs worker_exit_def abort_begin_def abort_end_def)

lemma runs_fifo:
  assumes "runs E s acts s'" "sys_inv s"
  shows "m_jobs s @ queued acts = executed acts @ m_jobs s'
    \<and> map completion_handler (worker_answers acts) = pending_handlers (executed acts)"
  using assms
proof (induction rule: runs.induct)
  case (Step acts s1 act s2)
  note fifo = step_fifo [OF Step(2) runs_sys_inv [OF Step(1,4)]]
  from Step have "m_jobs s @ queued acts = executed acts @ m_jobs s1"
    "map completion_handler (worker_answers acts) = pending_handlers (executed acts)" by auto
  with fifo show ?case by (simp flip: append_assoc) (simp add: append_assoc)
qed simp

section \<open>After the abort\<close>

text \<open>The error a completion reports, if its handler takes one.\<close>

fun completion_error :: "completion \<Rightarrow> storage_error option" where
  "completion_error (Read_done h b e) = Some e"
| "completion_error (Write_done h e) = Some e"
| "completion_error (Hash_done h p r hs e) = Some e"
| "completion_error (Hash2_done h p r e) = Some e"
| "completion_error (Move_done h s p e) = Some e"
| "completion_error (Release_done h) = None"
| "completion_error (Check_done h s e) = Some e"
| "completion_error (Rename_done h n i e) = Some e"
| "completion_error (Delete_done h e) = Some e"
| "completion_error (Priority_done h e ps) = Some e"
| "completion_error (Clear_done h p) = None"

definition refusal :: "completion \<Rightarrow> bool" where
  "refusal c \<longleftrightarrow> (case completion_error c of None \<Rightarrow> True | Some e \<Rightarrow> has_error e)"

lemma refused_errors [simp]:
  "has_error (aborted_error oper)" "has_error (storage_error_of NoMemory oper)"
  by (simp_all add: has_error_def aborted_error_def storage_error_of_def)

lemma post_refusal:
  "refusal c \<Longrightarrow> completion_handler c = h \<Longrightarrow>
     \<exists>cs. posted (post c s) = posted s @ cs \<and> map completion_handler cs = [h] \<and> list_all refusal cs"
  by (intro exI [of _ "[c]"]) (simp add: post_def)

lemma submit_refused:
  assumes "\<not> m_accepting s"
  shows "\<exists>cs. posted (submit E r s) = posted s @ cs \<and> list_all refusal cs
    \<and> map completion_handler cs = handlers (request_handler r) \<and> m_jobs (submit E r s) = m_jobs s"
  using assms
  by (cases r)
    (auto simp: async_defs Let_def new_torrent_def remove_torrent_def enqueue_def enqueue_or_abort_def
      settings_updated_def set_descriptor_limit_def post_def refusal_def
      split: option.splits prod.splits sum.splits)

text \<open>Nothing accepts jobs again once the shutdown has begun.\<close>

lemma step_refuses:
  assumes "step E s act s'" "sys_inv s" "\<not> m_accepting s"
  shows "\<not> m_accepting s'"
  using assms(1)
proof (cases rule: step.cases)
  case (Call r)
  have "slots_ok s" using assms(2) by (rule sys_invE)
  with submit_contract assms(3) Call show ?thesis by (fastforce simp: client_contract_def)
next
  case (Work j js)
  with worker_step_sys_inv(5) [OF assms(2)] assms(3) show ?thesis by blast
qed (use assms(3) in \<open>simp_all add: worker_exit_def abort_begin_def abort_end_def\<close>)

lemma abort_stays:
  assumes "runs E s0 acts s" "sys_inv s0" "Abort_begin \<in> set acts"
  shows "\<not> m_accepting s"
  using assms
proof (induction rule: runs.induct)
  case (Step acts s1 act s2)
  note inv = runs_sys_inv [OF Step.hyps(1) Step.prems(1)]
  show ?case
  proof (cases "act = Abort_begin")
    case True
    with Step.hyps(2) show ?thesis by (auto simp: abort_begin_def elim: step_Abort_beginE)
  next
    case False
    with Step inv show ?thesis using step_refuses by fastforce
  qed
qed simp

section \<open>The worker drains the queue\<close>

text \<open>One transition of the worker loop is one step of the system; the loop is a run.\<close>

lemma runs_trans:
  assumes "runs E s acts s1" "runs E s1 acts' s2"
  shows "runs E s (acts @ acts') s2"
  using assms(2,1)
proof (induction rule: runs.induct)
  case (Step acts' s2 act s3)
  then show ?case using runs.Step [of E s "acts @ acts'" s2 act s3] by simp
qed simp

lemma runs_one: "step E s act s' \<Longrightarrow> runs E s [act] s'"
  using runs.Step [OF runs.Start] by fastforce

context posix_io
begin

lemma worker_loop_drains:
  assumes "sys_inv s" "worker_running s"
  shows "\<exists>s' acts. worker_loop E s = Some s' \<and> runs E s acts s' \<and> m_jobs s' = []
    \<and> submitted acts = [] \<and> executed acts = m_jobs s
    \<and> m_stopping s' = m_stopping s \<and> worker_running s' = (\<not> m_stopping s)
    \<and> m_accepting s' = m_accepting s \<and> worker_joinable s' = worker_joinable s"
  using assms
proof (induction "length (m_jobs s)" arbitrary: s)
  case 0
  show ?case
  proof (cases "m_stopping s")
    case True
    with 0 have "runs E s [Exit] (worker_exit E s)" by (intro runs_one step.Exit) auto
    with 0 True show ?thesis
      by (intro exI [of _ "worker_exit E s"] exI [of _ "[Exit]"])
        (simp add: worker_loop.simps worker_exit_def submitted_def executed_def)
  next
    case False
    with 0 show ?thesis
      by (intro exI [of _ s] exI [of _ "[]"]) (auto simp: worker_loop.simps intro: runs.Start)
  qed
next
  case (Suc n)
  then obtain j js where js: "m_jobs s = j # js" "n = length js" by (cases "m_jobs s") auto
  have "pool_inv (s\<lparr>m_jobs := js\<rparr>)" using Suc.prems(1) by (auto simp: sys_inv_def pool_inv_def)
  from run_job_returns [OF this] js obtain s1 where s1: "worker_step E s = Some s1"
    by (auto simp: worker_step_def)
  note k = worker_step_sys_inv [OF Suc.prems s1 js(1)]
  let ?act = "Work j (drop (length (posted s)) (posted s1))"
  have st: "runs E s [?act] s1" using Suc.prems(2) js(1) s1 by (intro runs_one step.Work)
  have n: "n = length (m_jobs s1)" using js(2) k(2) by simp
  have "worker_running s1" using k(4) Suc.prems(2) by simp
  from Suc.hyps(1) [OF n k(1) this] obtain s' acts where
    r: "worker_loop E s1 = Some s'" "runs E s1 acts s'" "m_jobs s' = []" "submitted acts = []"
      "executed acts = m_jobs s1" "m_stopping s' = m_stopping s1" "worker_running s' = (\<not> m_stopping s1)"
      "m_accepting s' = m_accepting s1" "worker_joinable s' = worker_joinable s1" by blast
  have "worker_loop E s = Some s'" using r(1) s1 js(1) by (simp add: worker_loop.simps [of E s])
  moreover have "runs E s ([?act] @ acts) s'" by (rule runs_trans [OF st r(2)])
  moreover have "submitted ([?act] @ acts) = []" "executed ([?act] @ acts) = m_jobs s"
    using r(4,5) k(2) js(1) by (simp_all add: submitted_def executed_def)
  ultimately show ?case using r k by (intro exI [of _ s'] exI [of _ "[?act] @ acts"]) simp
qed

text \<open>The shutdown returns, with every job done and every descriptor closed.\<close>

lemma abort_completes:
  assumes "sys_inv s"
  shows "\<exists>s' acts. abort E s = Some s' \<and> runs E s acts s' \<and> submitted acts = [] \<and> executed acts = m_jobs s
    \<and> m_jobs s' = [] \<and> m_descriptors s' = [] \<and> \<not> m_accepting s' \<and> \<not> worker_running s' \<and> \<not> worker_joinable s'"
proof -
  have f: "flags_ok s" using assms by (rule sys_invE)
  show ?thesis
  proof (cases "m_accepting s \<or> worker_joinable s")
    case False
    with f show ?thesis
      by (intro exI [of _ s] exI [of _ "[]"]) (auto simp: abort_def flags_ok_def intro: runs.Start)
  next
    case True
    let ?s1 = "abort_begin s"
    have b: "runs E s [Abort_begin] ?s1" by (intro runs_one step.Abort_begin True)
    have i1: "sys_inv ?s1" by (rule runs_sys_inv [OF b assms])
    have f1: "m_stopping ?s1" "\<not> m_accepting ?s1" "m_jobs ?s1 = m_jobs s" "worker_running ?s1 = worker_running s"
      "worker_joinable ?s1 = worker_joinable s"
      by (simp_all add: abort_begin_def)
    obtain s2 acts where s2: "(if worker_running ?s1 then worker_loop E ?s1 else Some ?s1) = Some s2"
      and r2: "runs E ?s1 acts s2" "submitted acts = []" "executed acts = m_jobs s"
        "m_jobs s2 = []" "\<not> worker_running s2" "m_stopping s2" "\<not> m_accepting s2" "worker_joinable s2 = worker_joinable s"
    proof (cases "worker_running s")
      case run: True
      from worker_loop_drains [OF i1] run f1 that show ?thesis by auto
    next
      case run: False
      with f have "m_jobs s = []" by (auto simp: flags_ok_def)
      with run f1 that [of ?s1 "[]"] runs.Start show ?thesis by auto
    qed
    have e: "abort E s = Some (abort_end E s2)" using True s2 by (auto simp: abort_def Let_def)
    have fin: "m_jobs (abort_end E s2) = []" "m_descriptors (abort_end E s2) = []" "\<not> m_accepting (abort_end E s2)"
      "\<not> worker_running (abort_end E s2)" "\<not> worker_joinable (abort_end E s2)"
      using r2 by (simp_all add: abort_end_def)
    have j: "worker_joinable s2"
      using True r2(8) f by (auto simp: flags_ok_def)
    have "runs E s2 [Abort_end] (abort_end E s2)"
      using r2 j by (intro runs_one step.Abort_end)
    from runs_trans [OF b runs_trans [OF r2(1) this]]
    have "runs E s (Abort_begin # acts @ [Abort_end]) (abort_end E s2)" by simp
    moreover have "submitted (Abort_begin # acts @ [Abort_end]) = []" "executed (Abort_begin # acts @ [Abort_end]) = m_jobs s"
      using r2(2,3) by (simp_all add: submitted_def executed_def)
    ultimately show ?thesis using e fin
      by (intro exI [of _ "abort_end E s2"] exI [of _ "Abort_begin # acts @ [Abort_end]"]) simp
  qed
qed

end

section \<open>What reaches the bridge in a run\<close>

text \<open>
  What the backend relies on in a torrent it is given: libtorrent's file names are relative and
  without \<^verbatim>\<open>..\<close>, \<^verbatim>\<open>map_block\<close> names its own files, and the hash is rendered in hexadecimal digits.
\<close>

fun request_safe :: "'w env \<Rightarrow> request \<Rightarrow> bool" where
  "request_safe E (R_new_torrent params) \<longleftrightarrow>
     (\<forall>i < num_files (sp_files params). safe_relative_path (sp_renamed_path params i))
     \<and> set (to_hex E (sp_info_hash params)) \<subseteq> hex_digits \<and> layout_ok (sp_files params)"
| "request_safe E _ \<longleftrightarrow> True"

fun act_safe :: "'w env \<Rightarrow> action \<Rightarrow> bool" where
  "act_safe E (Call r js) = request_safe E r"
| "act_safe E _ = True"

lemma clean_saf_cong:
  assumes "clean_saf s" "heap s' = heap s" "m_descriptors s' = m_descriptors s" "world s' = world s"
  shows "clean_saf s'"
  using assms by (simp add: clean_saf_def torrents_safe_def owned_def)

lemma clean_saf_jobs [simp]: "clean_saf (s\<lparr>m_jobs := js\<rparr>) = clean_saf s"
  by (simp add: clean_saf_def torrents_safe_def owned_def)

lemma new_torrent_clean:
  assumes "clean_saf s" "request_safe E (R_new_torrent params)"
  shows "clean_saf (snd (new_torrent (audit E) params s))"
proof -
  obtain res s' where n: "new_torrent (audit E) params s = (res, s')" by (metis surj_pair)
  have w: "clean_world (owned s) w" if "new_torrent_storage (audit E) params (world s) = (r, w)" for r w
    using audited.clean_new_torrent_storage [OF that] assms(1) by (simp add: clean_saf_def)
  have t: "torrent_safe t \<and> layout_ok (ts_files t)"
    if "new_torrent_storage (audit E) params (world s) = (Inr t, w)" for t w
    using new_torrent_storage_safe [OF that] new_torrent_storage_inv(2) [OF that] assms(2)
    by (simp add: audit_def)
  from n have "clean_saf s'"
  proof (cases rule: new_torrentE)
    case (refused exn w')
    with w [OF refused(3)] assms(1) show ?thesis by (simp add: clean_saf_world)
  next
    case (appended u w')
    with w [OF appended(1)] t [OF appended(1)] assms(1) show ?thesis
      by (simp add: clean_saf_def torrents_safe_def owned_def)
  next
    case (reused u w' fs i)
    with w [OF reused(1)] t [OF reused(1)] assms(1) show ?thesis
      by (simp add: clean_saf_def torrents_safe_def owned_def)
  qed
  with n show ?thesis by simp
qed

lemma submit_clean:
  assumes "clean_saf s" "request_safe E r"
  shows "clean_saf (submit (audit E) r s)"
proof (cases r)
  case (R_new_torrent params)
  with new_torrent_clean assms show ?thesis by simp
next
  case (R_read storage request h)
  have "clean_world (owned s) (snd (allocate_buffer (audit E) (world s)))"
    using audited.clean_buffer [of "owned s" "world s" E] assms(1) by (simp add: clean_saf_def)
  then have "clean_saf (s\<lparr>world := snd (allocate_buffer (audit E) (world s))\<rparr>)"
    by (rule clean_saf_world [OF assms(1)])
  with assms(1) show ?thesis unfolding R_read
    by (auto simp: async_read_def Let_def enqueue_or_abort_def split: option.splits prod.splits)
qed (use assms(1) in \<open>auto simp: async_defs Let_def enqueue_or_abort_def settings_updated_def
    set_descriptor_limit_def remove_torrent_def enqueue_def elim: clean_saf_cong split: option.splits\<close>)

lemma close_all_clean: "clean_saf s \<Longrightarrow> clean_saf (close_all (audit E) s)"
  using audited.clean_close_all [of s "{#}" E] by (auto simp: clean_saf_def torrents_safe_def owned_def)

lemma step_clean:
  assumes "step (audit E) s act s'" "sys_inv s" "clean_saf s" "act_safe E act" "posix_io E pending"
  shows "clean_saf s'"
  using assms(1)
proof (cases rule: step.cases)
  case (Call r)
  with assms submit_clean show ?thesis by simp
next
  case (Work j js)
  let ?s = "s\<lparr>m_jobs := js\<rparr>"
  have c: "clean_saf ?s" by (rule clean_saf_cong [OF assms(3)]) simp_all
  have "list_all (job_ok s) (m_jobs s)" using assms(2) by (rule sys_invE)
  then have ok: "job_ok ?s j" using Work(3) job_ok_heap [of ?s s] by simp
  have "run_job (audit E) j ?s = Some s'" using Work(3,4) by (simp add: worker_step_def)
  from run_job_clean [OF this ok c assms(5)] show ?thesis .
next
  case Exit
  show ?thesis unfolding Exit(2) worker_exit_def
    by (rule clean_saf_cong [OF close_all_clean [OF assms(3)]]) simp_all
next
  case Abort_begin
  show ?thesis unfolding Abort_begin(2) abort_begin_def by (rule clean_saf_cong [OF assms(3)]) simp_all
next
  case Abort_end
  show ?thesis unfolding Abort_end(2) abort_end_def
    by (rule close_all_clean, rule clean_saf_cong [OF assms(3)]) simp_all
qed

lemma runs_clean:
  assumes "runs (audit E) s acts s'" "sys_inv s" "clean_saf s" "list_all (act_safe E) acts" "posix_io E pending"
  shows "clean_saf s'"
  using assms
proof (induction rule: runs.induct)
  case (Step acts s1 act s2)
  with step_clean [OF Step(2) runs_sys_inv [OF Step(1)]] show ?case by simp
qed simp

lemma initial_clean: "clean_saf (initial_saf n (w, []))"
  by (simp add: clean_saf_def torrents_safe_def initial_saf_def set_descriptor_limit_def owned_def
      clean_world_def clean_trace_def)

end
