(* ===== verification/Scenario.thy ===== *)
theory Scenario
  imports System "HOL-Library.Code_Target_Nat"
begin

text \<open>
  Runs of the system by execution: a script of requests and turns of the worker is replayed, and every
  replay is a run of the step relation. The concrete run of the development stores a block of a torrent
  of one file in the bridge in memory, reads it back, moves the descriptor limit, renames the file and
  shuts down.
\<close>

text \<open>The loops are executed by their equations.\<close>

lemmas [code] = evict_to_limit.simps migrate_loop.simps copy_loop.simps write_slice.simps read_slice.simps
  pread_all_loop.simps pwrite_all_loop.simps worker_loop.simps

datatype command = Submit request | Turn | Begin_abort | End_abort

fun perform :: "'w env \<Rightarrow> command \<Rightarrow> 'w saf \<Rightarrow> (action \<times> 'w saf) option" where
  "perform E (Submit r) s = Some (Call r (requested_jobs E r s), submit E r s)"
| "perform E Turn s =
     (if \<not> worker_running s then None
      else (case m_jobs s of
          [] \<Rightarrow> if m_stopping s then Some (Exit, worker_exit E s) else None
        | j # js \<Rightarrow> map_option (\<lambda>s'. (Work j (drop (length (posted s)) (posted s')), s')) (worker_step E s)))"
| "perform E Begin_abort s =
     (if m_accepting s \<or> worker_joinable s then Some (Abort_begin, abort_begin s) else None)"
| "perform E End_abort s =
     (if m_stopping s \<and> \<not> worker_running s \<and> worker_joinable s then Some (Abort_end, abort_end E s) else None)"

fun run_script :: "'w env \<Rightarrow> command list \<Rightarrow> 'w saf \<Rightarrow> (action list \<times> 'w saf) option" where
  "run_script E [] s = Some ([], s)"
| "run_script E (c # cs) s = do {
     (act, s1) \<leftarrow> perform E c s;
     (acts, s2) \<leftarrow> run_script E cs s1;
     Some (act # acts, s2)
   }"

lemma perform_step:
  assumes "perform E c s = Some (act, s')"
  shows "step E s act s'"
proof (cases c)
  case (Submit r)
  with assms show ?thesis by (auto intro: step.Call)
next
  case Turn
  with assms show ?thesis by (auto split: if_splits list.splits intro: step.intros)
qed (use assms in \<open>auto split: if_splits intro: step.intros\<close>)

lemma run_script_runs: "run_script E cs s = Some (acts, s') \<Longrightarrow> runs E s acts s'"
proof (induction cs arbitrary: s acts)
  case Nil
  then show ?case by (simp add: runs.Start)
next
  case (Cons c cs)
  then obtain act s1 acts' where "perform E c s = Some (act, s1)" "runs E s1 acts' s'" "acts = act # acts'"
    by (auto simp: bind_eq_Some_conv)
  with runs_trans [OF runs_one [OF perform_step]] show ?case by fastforce
qed

text \<open>A script of safe requests performs safe actions.\<close>

fun command_safe :: "'w env \<Rightarrow> command \<Rightarrow> bool" where
  "command_safe E (Submit r) = request_safe E r"
| "command_safe E _ = True"

lemma perform_safe: "perform E' c s = Some (act, s') \<Longrightarrow> command_safe E c \<Longrightarrow> act_safe E act"
  by (cases c) (auto simp: Let_def split: if_splits list.splits)

lemma run_script_safe:
  "run_script E' cs s = Some (acts, s') \<Longrightarrow> list_all (command_safe E) cs \<Longrightarrow> list_all (act_safe E) acts"
proof (induction cs arbitrary: s acts)
  case (Cons c cs)
  then obtain act s1 acts' where "perform E' c s = Some (act, s1)" "run_script E' cs s1 = Some (acts', s')"
    "acts = act # acts'"
    by (auto simp: bind_eq_Some_conv)
  with Cons perform_safe show ?case by auto
qed simp

section \<open>A torrent of one file\<close>

definition demo_layout :: file_storage where
  "demo_layout = \<lparr>num_files = 1, pad_file_at = (\<lambda>_. False), fs_file_size = (\<lambda>_. 4), fs_file_offset = (\<lambda>_. 0),
     map_block = (\<lambda>piece start len. [\<lparr>slice_file = 0, slice_offset = nat start, slice_size = nat len\<rparr>]),
     num_pieces = 1, piece_size = (\<lambda>_. 4), piece_size2 = (\<lambda>_. 4), blocks_in_piece2 = (\<lambda>_. 1)\<rparr>"

definition demo_params :: storage_params where
  "demo_params = \<lparr>sp_files = demo_layout, sp_renamed_path = (\<lambda>_. ''d/f''), sp_priorities = [],
     sp_path = ''t'', sp_info_hash = [1, 255]\<rparr>"

definition demo_block :: peer_request where
  "demo_block = \<lparr>req_piece = 0, req_start = 0, req_length = 4\<rparr>"

definition demo_script :: "command list" where
  "demo_script = [Submit (R_new_torrent demo_params), Submit (R_write 0 demo_block [7, 8, 9, 10] 1),
     Submit (R_read 5 demo_block 2), Submit (R_settings 0), Turn, Submit (R_rename 0 0 ''d/g'' 3),
     Submit (R_release 0 (Some 6)), Turn, Begin_abort, Submit (R_read 0 demo_block 4), Turn, Turn, End_abort]"

text \<open>The first transfer is interrupted once.\<close>

definition demo_start :: "memory saf" where
  "demo_start = initial_saf 4 (empty_memory\<lparr>mb_interrupts := 1\<rparr>)"

definition demo_acts :: "action list" where
  "demo_acts = fst (the (run_script memory_env demo_script demo_start))"

definition demo_end :: "memory saf" where
  "demo_end = snd (the (run_script memory_env demo_script demo_start))"

text \<open>The same script with the calls recorded.\<close>

definition audit_start :: "(memory \<times> trace) saf" where
  "audit_start = initial_saf 4 (empty_memory, [])"

definition audit_acts :: "action list" where
  "audit_acts = fst (the (run_script (audit memory_env) demo_script audit_start))"

definition audit_end :: "(memory \<times> trace) saf" where
  "audit_end = snd (the (run_script (audit memory_env) demo_script audit_start))"

text \<open>The script is executed once, and the facts about it are read off the result.\<close>

lemma demo_result:
  "case run_script memory_env demo_script demo_start of
     None \<Rightarrow> False
   | Some (acts, s) \<Rightarrow> submitted acts = [1, 2, 3, 6, 4] \<and> m_jobs s = [] \<and> \<not> m_accepting s
       \<and> pending_handlers (executed acts) = [1, 3, 6]
       \<and> list_ex (\<lambda>a. case a of Abort_begin \<Rightarrow> True | _ \<Rightarrow> False) acts"
  by code_simp

lemma demo_script_runs: "run_script memory_env demo_script demo_start \<noteq> None"
  using demo_result by (cases "run_script memory_env demo_script demo_start") auto

lemma demo_run: "runs memory_env demo_start demo_acts demo_end"
  using demo_script_runs by (intro run_script_runs [of _ demo_script]) (auto simp: demo_acts_def demo_end_def)

lemma demo_facts: "submitted demo_acts = [1, 2, 3, 6, 4]" "m_jobs demo_end = []" "\<not> m_accepting demo_end"
  "pending_handlers (executed demo_acts) = [1, 3, 6]"
  "list_ex (\<lambda>a. case a of Abort_begin \<Rightarrow> True | _ \<Rightarrow> False) demo_acts"
  using demo_result by (auto simp: demo_acts_def demo_end_def split: option.splits)

lemma audit_result:
  "case run_script (audit memory_env) demo_script audit_start of
     None \<Rightarrow> False | Some (acts, s) \<Rightarrow> \<not> worker_running s"
  by code_simp

lemma audit_script_runs: "run_script (audit memory_env) demo_script audit_start \<noteq> None"
  using audit_result by (cases "run_script (audit memory_env) demo_script audit_start") auto

lemma audit_run: "runs (audit memory_env) audit_start audit_acts audit_end"
  using audit_script_runs by (intro run_script_runs [of _ demo_script]) (auto simp: audit_acts_def audit_end_def)

lemma demo_request_safe: "request_safe memory_env (R_new_torrent demo_params)"
  by (simp add: demo_params_def demo_layout_def layout_ok_def safe_relative_path_iff plain_component_def
      memory_env_def hex_digits_def hex_digit_def)

lemma audit_acts_safe: "list_all (act_safe memory_env) audit_acts"
  using audit_script_runs demo_request_safe
  by (intro run_script_safe [of "audit memory_env" demo_script audit_start _ audit_end])
    (auto simp: audit_acts_def audit_end_def demo_script_def)

text \<open>The state after the first two requests, with the write still queued, and a second torrent there.\<close>

definition mid_state :: "memory saf" where
  "mid_state = snd (the (run_script memory_env (take 2 demo_script) demo_start))"

definition mid_acts :: "action list" where
  "mid_acts = fst (the (run_script memory_env (take 2 demo_script) demo_start))"

definition mid_new :: "nat \<times> memory saf" where
  "mid_new = (case new_torrent memory_env demo_params mid_state of (Inr i, s) \<Rightarrow> (i, s) | (Inl e, s) \<Rightarrow> (0, s))"

lemma mid_script_runs: "run_script memory_env (take 2 demo_script) demo_start \<noteq> None"
proof -
  have "(case run_script memory_env (take 2 demo_script) demo_start of None \<Rightarrow> False | Some (acts, s) \<Rightarrow> True)"
    by code_simp
  then show ?thesis by (cases "run_script memory_env (take 2 demo_script) demo_start") auto
qed

lemma mid_run: "runs memory_env (initial_saf 4 (empty_memory\<lparr>mb_interrupts := 1\<rparr>)) mid_acts mid_state"
  unfolding demo_start_def [symmetric]
  using mid_script_runs by (intro run_script_runs [of _ "take 2 demo_script"]) (auto simp: mid_acts_def mid_state_def)

lemma mid_facts: "submitted mid_acts = [1]" "length (m_jobs mid_state) = 1"
  by code_simp+

lemma mid_new_facts: "fst mid_new = 1" "length (m_torrents mid_state) < 2 ^ 32" "length (heap mid_state) = 1"
  "new_torrent memory_env demo_params mid_state = (Inr (fst mid_new), snd mid_new)"
proof -
  have 1: "length (m_torrents mid_state) = 1" "length (heap mid_state) = 1" "fst mid_new = 1"
    by code_simp+
  then show "fst mid_new = 1" "length (m_torrents mid_state) < 2 ^ 32" "length (heap mid_state) = 1" by simp_all
  obtain res s where r: "new_torrent memory_env demo_params mid_state = (res, s)" by (metis surj_pair)
  with 1(3) show "new_torrent memory_env demo_params mid_state = (Inr (fst mid_new), snd mid_new)"
    by (cases res) (simp_all add: mid_new_def)
qed

lemma audit_end_stopped: "\<not> worker_running audit_end"
  using audit_result by (auto simp: audit_end_def split: option.splits)

lemma demo_aborts: "Abort_begin \<in> set demo_acts"
proof -
  obtain a where "a \<in> set demo_acts" "case a of Abort_begin \<Rightarrow> True | _ \<Rightarrow> False"
    using demo_facts(5) by (auto simp: list_ex_iff)
  then show ?thesis by - (cases a; simp)
qed

end
