(* ===== verification/Contents.thy ===== *)
theory Contents
  imports Scenario
begin

text \<open>
  What the transfers do to the contents of files. The bridge is seen through two views of its world: the
  file a descriptor is open on, and the bytes of the file at each path (a missing file reads as empty).
  The laws of the views are a locale, which the bridge in memory satisfies; in it, the block transfers are
  shown to implement operations on the contents, and copying a file to copy.
\<close>

section \<open>Files behind descriptors\<close>

text \<open>The pool refers to the world: every entry is open on its own path.\<close>

definition bound :: "('w \<Rightarrow> bool) \<Rightarrow> ('w \<Rightarrow> int \<Rightarrow> string option) \<Rightarrow> ('w, 'z) disk_scheme \<Rightarrow> bool" where
  "bound ok on_path d \<longleftrightarrow> ok (world d) \<and> distinct (map od_descriptor (m_descriptors d))
     \<and> (\<forall>x \<in> set (m_descriptors d). on_path (world d) (od_descriptor x) = Some (od_path x))"

text \<open>What a slice holds, what a list of slices holds, and the contents after storing a block in its slices.\<close>

definition slice_data :: "torrent_storage \<Rightarrow> (string \<Rightarrow> byte list) \<Rightarrow> slice \<Rightarrow> byte list" where
  "slice_data t D sl =
     (if pad_file_at (ts_files t) (slice_file sl) then replicate (slice_size sl) 0
      else take (slice_size sl) (drop (slice_base t sl) (D (slice_path t sl))))"

definition block_data :: "torrent_storage \<Rightarrow> (string \<Rightarrow> byte list) \<Rightarrow> slice list \<Rightarrow> byte list" where
  "block_data t D sls = concat (map (slice_data t D) sls)"

fun store_slices ::
  "torrent_storage \<Rightarrow> byte list \<Rightarrow> nat \<Rightarrow> slice list \<Rightarrow> (string \<Rightarrow> byte list) \<Rightarrow> string \<Rightarrow> byte list" where
  "store_slices t input off [] D = D"
| "store_slices t input off (sl # sls) D =
     store_slices t input (off + slice_size sl) sls
       (if pad_file_at (ts_files t) (slice_file sl) then D
        else D(slice_path t sl :=
          write_at (D (slice_path t sl)) (slice_base t sl) (take (slice_size sl) (drop off input))))"

definition slices_size :: "slice list \<Rightarrow> nat" where
  "slices_size sls = sum_list (map slice_size sls)"

lemma slices_size_simps [simp]: "slices_size [] = 0" "slices_size (sl # sls) = slice_size sl + slices_size sls"
  by (simp_all add: slices_size_def)

lemma block_data_simps [simp]: "block_data t D [] = []"
  "block_data t D (sl # sls) = slice_data t D sl @ block_data t D sls"
  by (simp_all add: block_data_def)

locale file_world = posix_io E pending for E :: "'w env" and pending :: "'w \<Rightarrow> nat" +
  fixes ok :: "'w \<Rightarrow> bool" and on_path :: "'w \<Rightarrow> int \<Rightarrow> string option" and data :: "'w \<Rightarrow> string \<Rightarrow> byte list"
  assumes mkdir_view: "ok w \<Longrightarrow> br_create_directory E p w = (r, w') \<Longrightarrow> ok w' \<and> on_path w' = on_path w \<and> data w' = data w"
    and clock_view: "ok w \<Longrightarrow> clock_now E w = (now, w') \<Longrightarrow> ok w' \<and> on_path w' = on_path w \<and> data w' = data w"
    and refused_view: "ok w \<Longrightarrow> br_open_file E p m w = (fd, w') \<Longrightarrow> fd < 0 \<Longrightarrow>
      ok w' \<and> on_path w' = on_path w \<and> data w' = data w"
    and open_view: "ok w \<Longrightarrow> br_open_file E p m w = (fd, w') \<Longrightarrow> 0 \<le> fd \<Longrightarrow>
      ok w' \<and> on_path w fd = None \<and> on_path w' = (on_path w)(fd \<mapsto> p) \<and> data w' = data w"
    and close_view: "ok w \<Longrightarrow> ok (sys_close E fd w) \<and> on_path (sys_close E fd w) = (on_path w)(fd := None)
      \<and> data (sys_close E fd w) = data w"
    and pread_view: "ok w \<Longrightarrow> sys_pread E fd n off w = (got, w') \<Longrightarrow> ok w' \<and> on_path w' = on_path w \<and> data w' = data w"
    and pread_data: "ok w \<Longrightarrow> on_path w fd = Some p \<Longrightarrow> sys_pread E fd n off w = (ReadGot bs, w') \<Longrightarrow>
      bs = take (length bs) (drop off (data w p))"
    and pwrite_fail: "ok w \<Longrightarrow> sys_pwrite E fd bs off w = (WriteFail e, w') \<Longrightarrow>
      ok w' \<and> on_path w' = on_path w \<and> data w' = data w"
    and pwrite_data: "ok w \<Longrightarrow> on_path w fd = Some p \<Longrightarrow> sys_pwrite E fd bs off w = (Wrote k, w') \<Longrightarrow>
      ok w' \<and> on_path w' = on_path w \<and> data w' = (data w)(p := write_at (data w p) off (take k bs))"
    and ftruncate_fail: "ok w \<Longrightarrow> sys_ftruncate E fd n w = (Some e, w') \<Longrightarrow>
      ok w' \<and> on_path w' = on_path w \<and> data w' = data w"
    and ftruncate_data: "ok w \<Longrightarrow> on_path w fd = Some p \<Longrightarrow> sys_ftruncate E fd n w = (None, w') \<Longrightarrow>
      ok w' \<and> on_path w' = on_path w \<and> data w' = (data w)(p := resize n 0 (data w p))"
    and remove_view: "ok w \<Longrightarrow> br_remove E p False w = (i, w') \<Longrightarrow> ok w' \<and> (\<forall>q. q \<noteq> p \<longrightarrow> data w' q = data w q)"
begin

lemma bound_world:
  "bound ok on_path d \<Longrightarrow> ok w \<Longrightarrow> on_path w = on_path (world d) \<Longrightarrow> bound ok on_path (d\<lparr>world := w\<rparr>)"
  by (simp add: bound_def)

lemma bound_close:
  assumes "bound ok on_path d" "i < length (m_descriptors d)"
  shows "bound ok on_path (d\<lparr>m_descriptors := erase_at i (m_descriptors d),
      world := sys_close E (od_descriptor (m_descriptors d ! i)) (world d)\<rparr>)"
proof -
  let ?ds = "m_descriptors d"
  have "od_descriptor (?ds ! i) \<notin> set (map od_descriptor (erase_at i ?ds))"
    "distinct (map od_descriptor (erase_at i ?ds))"
    using distinct_erase_at [of "map od_descriptor ?ds" i] assms by (simp_all add: bound_def map_erase_at)
  then show ?thesis
    using assms close_view [of "world d"] set_erase_at [of i ?ds] by (auto simp: bound_def) (metis imageI)
qed

lemma close_data: "bound ok on_path d \<Longrightarrow> data (sys_close E fd (world d)) = data (world d)"
  by (simp add: bound_def close_view)

lemma evict_one_bound: "bound ok on_path d \<Longrightarrow> bound ok on_path (evict_one E d) \<and> data (world (evict_one E d)) = data (world d)"
  using oldest_minimal [of "m_descriptors d"] bound_close [of d "oldest (m_descriptors d)"]
  by (auto simp: evict_one_def Let_def close_data)

lemma evict_to_limit_bound:
  "evict_to_limit E d = Some d' \<Longrightarrow> bound ok on_path d \<Longrightarrow> bound ok on_path d' \<and> data (world d') = data (world d)"
  by (induction rule: evict_to_limit_induct) (auto dest: evict_one_bound)

lemma directories_view:
  assumes "ensure_parent_directories E path error f w = (r, error', w')" "ok w"
  shows "ok w' \<and> on_path w' = on_path w \<and> data w' = data w"
proof -
  let ?P = "\<lambda>v. ok v \<and> on_path v = on_path w \<and> data v = data w"
  have step: "?P (snd (br_create_directory E p v))" if "?P v" for p v
    using that mkdir_view [of v p "fst (br_create_directory E p v)" "snd (br_create_directory E p v)"] by simp
  show ?thesis
  proof (cases "safe_relative_path path")
    case True
    then have md: "make_directories E path (find_from slash path 0) error f w = (r, error', w')"
      using assms(1) by (simp add: ensure_parent_directories_def)
    show ?thesis
      by (rule make_directories_preserves [where P = ?P, OF md True]) (use safe_parent [OF True] step assms(2) in auto)
  qed (use assms in \<open>auto simp: ensure_parent_directories_def\<close>)
qed

lemma open_uncached_bound:
  assumes "open_uncached E storage f path wr error oper d = Some (r, error', d')" "bound ok on_path d"
  shows "bound ok on_path d' \<and> data (world d') = data (world d) \<and> (0 \<le> r \<longrightarrow> on_path (world d') r = Some path)"
  using assms(1)
proof (cases rule: open_uncachedE)
  case (directories w)
  with directories_view assms(2) show ?thesis by (auto simp: bound_def)
next
  case unsafe
  with assms(2) show ?thesis by simp
next
  case (refused w1 d2 result w2)
  have "ok w1 \<and> on_path w1 = on_path (world d) \<and> data w1 = data (world d)"
    using refused(2,3) directories_view assms(2) by (cases wr) (auto simp: bound_def)
  then have "bound ok on_path (d\<lparr>world := w1\<rparr>)" "data w1 = data (world d)" using bound_world assms(2) by auto
  with evict_to_limit_bound [OF refused(4)] refused_view [OF _ refused(5,6)] refused show ?thesis
    by (auto simp: bound_def)
next
  case (opened w1 d2 w2 now w3)
  have "ok w1 \<and> on_path w1 = on_path (world d) \<and> data w1 = data (world d)"
    using opened(2,3) directories_view assms(2) by (cases wr) (auto simp: bound_def)
  then have "bound ok on_path (d\<lparr>world := w1\<rparr>)" "data w1 = data (world d)" using bound_world assms(2) by auto
  with evict_to_limit_bound [OF opened(4)] have 2: "bound ok on_path d2" "data (world d2) = data (world d)" by auto
  then have o: "ok w2 \<and> on_path (world d2) r = None \<and> on_path w2 = (on_path (world d2))(r \<mapsto> path)
      \<and> data w2 = data (world d2)"
    using open_view [OF _ opened(5,6)] by (simp add: bound_def)
  with clock_view [OF _ opened(8)] have 3: "ok w3" "on_path w3 = (on_path (world d2))(r \<mapsto> path)"
    "data w3 = data (world d)"
    using 2 by auto
  have "r \<notin> od_descriptor ` set (m_descriptors d2)"
    using o 2 by (force simp: bound_def)
  with 2 3 opened show ?thesis by (auto simp: bound_def)
qed

lemma open_file_bound:
  assumes "open_file E storage f path wr error oper d = Some (r, error', d')" "bound ok on_path d"
  shows "bound ok on_path d' \<and> data (world d') = data (world d) \<and> (0 \<le> r \<longrightarrow> on_path (world d') r = Some path)"
  using assms(1)
proof (cases rule: open_fileE)
  case (cached i c now w)
  let ?ds = "m_descriptors d"
  have i: "i < length ?ds" "od_path (?ds ! i) = path"
    using find_descriptor_Some [OF cached(1)] by (auto simp: od_matches_def)
  then have on: "on_path (world d) r = Some path" using assms(2) cached(4) by (auto simp: bound_def)
  have w: "ok w" "on_path w = on_path (world d)" "data w = data (world d)"
    using clock_view [OF _ cached(3)] assms(2) by (auto simp: bound_def)
  have "map od_descriptor (m_descriptors d') = map od_descriptor ?ds"
    using cached(7) i by (simp add: map_update list_update_same_conv)
  moreover have "\<forall>x \<in> set (m_descriptors d'). on_path (world d) (od_descriptor x) = Some (od_path x)"
    using cached(4,7) i on assms(2) by (auto simp: bound_def dest!: set_update_subset_insert [THEN subsetD])
  ultimately show ?thesis using w on cached(7) assms(2) by (auto simp: bound_def)
next
  case (upgrade i)
  have "i < length (m_descriptors d)" using find_descriptor_Some [OF upgrade(1)] by simp
  with open_uncached_bound [OF upgrade(4) bound_close [OF assms(2)]] close_data [OF assms(2)] show ?thesis by simp
next
  case missing
  with assms(2) open_uncached_bound show ?thesis by blast
qed

text \<open>The inner loops move exactly the bytes of the slice.\<close>

lemma read_slice_data:
  assumes "read_slice E fd sl base part rem out off err w = Some (c, out', off', err', w')"
    and "ok w" "on_path w fd = Some p" "rem \<le> slice_size sl" "off + rem \<le> length out"
  defines "bytes \<equiv> take rem (drop (base + (slice_size sl - rem)) (data w p))"
  shows "ok w' \<and> on_path w' = on_path w \<and> data w' = data w
    \<and> (c \<longrightarrow> err' = err \<and> off' = off + rem \<and> length bytes = rem \<and> out' = overwrite out off bytes)"
proof -
  have "ok w \<longrightarrow> on_path w fd = Some p \<longrightarrow> rem \<le> slice_size sl \<longrightarrow> off + rem \<le> length out \<longrightarrow>
    (case (c, out', off', err', w') of (c, out', off', err', w') \<Rightarrow>
      ok w' \<and> on_path w' = on_path w \<and> data w' = data w
      \<and> (c \<longrightarrow> err' = err \<and> off' = off + rem
          \<and> length (take rem (drop (base + (slice_size sl - rem)) (data w p))) = rem
          \<and> out' = overwrite out off (take rem (drop (base + (slice_size sl - rem)) (data w p)))))"
    using assms(1)
  proof (induction rule: read_slice_induct)
    case (Fail rem out off w e w')
    with pread_view [OF _ Fail(2)] show ?case by simp
  next
    case (Interrupt rem out off w w' r)
    with pread_view [OF _ Interrupt(2)] show ?case by (auto split: prod.splits)
  next
    case (Eof rem out off w w')
    with pread_view [OF _ Eof(2)] show ?case by simp
  next
    case (Progress rem out off w bs w' r)
    let ?pos = "base + (slice_size sl - rem)" and ?n = "length bs"
    show ?case
    proof (intro impI)
      assume a: "ok w" "on_path w fd = Some p" "rem \<le> slice_size sl" "off + rem \<le> length out"
      have n: "?n \<le> rem" by (rule pread_bounded [OF Progress(2)])
      have v: "ok w'" "on_path w' = on_path w" "data w' = data w" using pread_view [OF a(1) Progress(2)] by auto
      have bs: "bs = take ?n (drop ?pos (data w p))" by (rule pread_data [OF a(1,2) Progress(2)])
      have pos: "base + (slice_size sl - (rem - ?n)) = ?pos + ?n" using n a(3) by simp
      have split: "take rem (drop ?pos (data w p)) = bs @ take (rem - ?n) (drop (?pos + ?n) (data w p))"
        using bs n take_add [of ?n "rem - ?n" "drop ?pos (data w p)"] by (simp add: add.commute)
      have "overwrite (overwrite out off bs) (off + ?n) zs = overwrite out off (bs @ zs)" for zs
        using a(4) n by (intro overwrite_overwrite_adjacent) simp
      with Progress.IH v a n split pos show
        "case r of (c, out', off', err', w') \<Rightarrow> ok w' \<and> on_path w' = on_path w \<and> data w' = data w
          \<and> (c \<longrightarrow> err' = err \<and> off' = off + rem \<and> length (take rem (drop ?pos (data w p))) = rem
              \<and> out' = overwrite out off (take rem (drop ?pos (data w p))))"
        by (auto split: prod.splits)
    qed
  qed simp
  with assms show ?thesis by simp
qed

lemma write_slice_data:
  assumes "write_slice E fd sl base part rem inp off err w = Some (c, off', err', w')"
    and "ok w" "on_path w fd = Some p" "rem \<le> slice_size sl" "off + rem \<le> length inp"
  shows "ok w' \<and> on_path w' = on_path w \<and> (c \<longrightarrow> err' = err \<and> off' = off + rem
    \<and> data w' = (data w)(p := write_at (data w p) (base + (slice_size sl - rem)) (take rem (drop off inp))))"
proof -
  have "ok w \<longrightarrow> on_path w fd = Some p \<longrightarrow> rem \<le> slice_size sl \<longrightarrow> off + rem \<le> length inp \<longrightarrow>
    (case (c, off', err', w') of (c, off', err', w') \<Rightarrow>
      ok w' \<and> on_path w' = on_path w \<and> (c \<longrightarrow> err' = err \<and> off' = off + rem
        \<and> data w' = (data w)(p := write_at (data w p) (base + (slice_size sl - rem)) (take rem (drop off inp)))))"
    using assms(1)
  proof (induction rule: write_slice_induct)
    case (Fail rem off w e w')
    with pwrite_fail [OF _ Fail(2)] show ?case by simp
  next
    case (Interrupt rem off w w' r)
    with pwrite_fail [OF _ Interrupt(2)] show ?case by (auto split: prod.splits)
  next
    case (Stop rem off w w')
    with pwrite_data [OF _ _ Stop(2)] show ?case by simp
  next
    case (Progress rem off w n w' r)
    let ?pos = "base + (slice_size sl - rem)"
    show ?case
    proof (intro impI)
      assume a: "ok w" "on_path w fd = Some p" "rem \<le> slice_size sl" "off + rem \<le> length inp"
      have n: "n \<le> rem" using pwrite_bounded [OF Progress(2)] a(4) by simp
      have v: "ok w'" "on_path w' = on_path w"
        "data w' = (data w)(p := write_at (data w p) ?pos (take n (drop off inp)))"
        using pwrite_data [OF a(1,2) Progress(2)] n by (auto simp: min_def)
      have pos: "base + (slice_size sl - (rem - n)) = ?pos + n" using n a(3) by simp
      have len: "length (take n (drop off inp)) = n" using n a(4) by simp
      have split: "take rem (drop off inp) = take n (drop off inp) @ take (rem - n) (drop (off + n) inp)"
        using n take_add [of n "rem - n" "drop off inp"] by (simp add: add.commute)
      have "write_at (data w' p) (?pos + n) zs = write_at (data w p) ?pos (take n (drop off inp) @ zs)" for zs
        using write_at_adjacent [of "data w p" ?pos "take n (drop off inp)" zs] len v(3) by simp
      with Progress.IH v a n split pos show
        "case r of (c, off', err', w') \<Rightarrow> ok w' \<and> on_path w' = on_path w \<and> (c \<longrightarrow> err' = err \<and> off' = off + rem
          \<and> data w' = (data w)(p := write_at (data w p) ?pos (take rem (drop off inp))))"
        by (auto split: prod.splits)
    qed
  qed simp
  with assms show ?thesis by simp
qed

text \<open>The block transfers implement the operations on contents.\<close>

lemma read_slices_data:
  assumes "read_slices E t storage sls out off err d = Some (off', out', err', d')"
    and "pool_inv d" "bound ok on_path d" "off + slices_size sls \<le> length out" "\<not> has_error err"
  shows "bound ok on_path d' \<and> data (world d') = data (world d)
    \<and> (\<not> has_error err' \<longrightarrow> off' = off + slices_size sls
        \<and> length (block_data t (data (world d)) sls) = slices_size sls
        \<and> out' = overwrite out off (block_data t (data (world d)) sls))"
  using assms
proof (induction sls out off err d "(off', out', err', d')" rule: read_slices_induct)
  case (Pad sl sls out off err d)
  have "overwrite (overwrite out off (replicate (slice_size sl) 0)) (off + slice_size sl) zs
      = overwrite out off (replicate (slice_size sl) 0 @ zs)" for zs :: "byte list"
    using Pad.prems(3) overwrite_overwrite_adjacent [of off "replicate (slice_size sl) 0" out zs] by simp
  with Pad show ?case by (simp add: slice_data_def add.assoc)
next
  case (Refused sl sls err d fd)
  with open_file_bound [OF Refused(2)] open_file_result [OF Refused(2)] show ?case by auto
next
  case (Failed sl sls out off err d fd e1 d1)
  from open_file_bound [OF Failed(2) Failed.prems(2)] Failed(3) have
    1: "bound ok on_path d1" "data (world d1) = data (world d)" "on_path (world d1) fd = Some (slice_path t sl)" by auto
  then have "ok (world d1)" by (simp add: bound_def)
  from read_slice_data [OF Failed(4) this 1(3)] Failed.prems(3) read_slice_result [OF Failed(4)] 1 Failed.hyps(5) show ?case
    by (auto simp: bound_def)
next
  case (Next sl sls out off err d fd e1 d1 out2 off2 e2 w2)
  from open_file_bound [OF Next(2) Next.prems(2)] Next(3) have
    1: "bound ok on_path d1" "data (world d1) = data (world d)" "on_path (world d1) fd = Some (slice_path t sl)" by auto
  have e1: "e1 = err" using open_file_result [OF Next(2) Next.prems(1)] Next(3) by auto
  have 0: "ok (world d1)" using 1(1) by (simp add: bound_def)
  let ?bytes = "take (slice_size sl) (drop (slice_base t sl) (data (world d) (slice_path t sl)))"
  have r: "ok w2" "on_path w2 = on_path (world d1)" "data w2 = data (world d)" "e2 = err" "off2 = off + slice_size sl"
    "length ?bytes = slice_size sl" "out2 = overwrite out off ?bytes"
    using read_slice_data [OF Next(4) 0 1(3)] Next.prems(3) 1(2) e1 by auto
  have b: "bound ok on_path (d1\<lparr>world := w2\<rparr>)" using bound_world [OF 1(1) r(1,2)] .
  have p: "pool_inv (d1\<lparr>world := w2\<rparr>)" using open_file_pool_inv [OF Next(2) Next.prems(1)] by simp
  have len: "length out2 = length out" using r(6,7) Next.prems(3) by simp
  have sd: "slice_data t (data (world d)) sl = ?bytes" using Next(1) by (simp add: slice_data_def)
  have "overwrite out2 (off + slice_size sl) zs = overwrite out off (?bytes @ zs)" for zs
    using overwrite_overwrite_adjacent [of off ?bytes out zs] Next.prems(3) unfolding r(7) r(6) by simp
  with Next.hyps(5) [OF p b] Next.prems(3,4) r len sd show ?case by (simp add: add.assoc)
qed simp

lemma write_slices_data:
  assumes "write_slices E t storage sls inp off err d = Some (off', err', d')"
    and "pool_inv d" "bound ok on_path d" "off + slices_size sls \<le> length inp" "\<not> has_error err"
  shows "bound ok on_path d' \<and> (\<not> has_error err' \<longrightarrow> off' = off + slices_size sls
    \<and> data (world d') = store_slices t inp off sls (data (world d)))"
  using assms
proof (induction sls off err d "(off', err', d')" rule: write_slices_induct)
  case (Refused sl sls err d fd)
  with open_file_bound [OF Refused(2)] open_file_result [OF Refused(2)] show ?case by auto
next
  case (Failed sl sls off err d fd e1 d1)
  from open_file_bound [OF Failed(2) Failed.prems(2)] Failed(3) have
    1: "bound ok on_path d1" "on_path (world d1) fd = Some (slice_path t sl)" by auto
  then have "ok (world d1)" by (simp add: bound_def)
  from write_slice_data [OF Failed(4) this 1(2)] Failed.prems(3) write_slice_result [OF Failed(4)] 1 Failed.hyps(5) show ?case
    by (auto simp: bound_def)
next
  case (Next sl sls off err d fd e1 d1 off2 e2 w2)
  from open_file_bound [OF Next(2) Next.prems(2)] Next(3) have
    1: "bound ok on_path d1" "data (world d1) = data (world d)" "on_path (world d1) fd = Some (slice_path t sl)" by auto
  have e1: "e1 = err" using open_file_result [OF Next(2) Next.prems(1)] Next(3) by auto
  have 0: "ok (world d1)" using 1(1) by (simp add: bound_def)
  have r: "ok w2" "on_path w2 = on_path (world d1)" "e2 = err" "off2 = off + slice_size sl"
    "data w2 = (data (world d))(slice_path t sl :=
        write_at (data (world d) (slice_path t sl)) (slice_base t sl) (take (slice_size sl) (drop off inp)))"
    using write_slice_data [OF Next(4) 0 1(3)] Next.prems(3) 1(2) e1 by auto
  have b: "bound ok on_path (d1\<lparr>world := w2\<rparr>)" using bound_world [OF 1(1) r(1,2)] .
  have p: "pool_inv (d1\<lparr>world := w2\<rparr>)" using open_file_pool_inv [OF Next(2) Next.prems(1)] by simp
  from Next.hyps(5) [OF p b] Next.prems(3,4) r Next(1) show ?case by (simp add: add.assoc)
qed auto

end

section \<open>Writing and reading back\<close>

text \<open>Two slices do not overlap: they are in different files or in disjoint ranges of one.\<close>

definition slices_apart :: "torrent_storage \<Rightarrow> slice \<Rightarrow> slice \<Rightarrow> bool" where
  "slices_apart t a b \<longleftrightarrow> slice_path t a \<noteq> slice_path t b
     \<or> slice_base t a + slice_size a \<le> slice_base t b \<or> slice_base t b + slice_size b \<le> slice_base t a"

fun slices_disjoint :: "torrent_storage \<Rightarrow> slice list \<Rightarrow> bool" where
  "slices_disjoint t [] = True"
| "slices_disjoint t (sl # sls) = (list_all (slices_apart t sl) sls \<and> slices_disjoint t sls)"

lemma read_back_above:
  "off' + length bs \<le> off \<Longrightarrow> off + n \<le> length c \<Longrightarrow> take n (drop off (write_at c off' bs)) = take n (drop off c)"
  by (cases "bs = []") (auto simp: write_at_def overwrite_def)

text \<open>A range of a file that was stored stays as it is while slices apart from it are stored.\<close>

lemma store_slices_keeps:
  assumes "list_all (slices_apart t a) sls" "slice_base t a + slice_size a \<le> length (D (slice_path t a))"
  shows "take (slice_size a) (drop (slice_base t a) (store_slices t inp off sls D (slice_path t a)))
    = take (slice_size a) (drop (slice_base t a) (D (slice_path t a)))"
  using assms
proof (induction sls arbitrary: off D)
  case (Cons sl sls)
  let ?bs = "take (slice_size sl) (drop off inp)"
  let ?D = "if pad_file_at (ts_files t) (slice_file sl) then D
    else D(slice_path t sl := write_at (D (slice_path t sl)) (slice_base t sl) ?bs)"
  have len: "length ?bs \<le> slice_size sl" by simp
  have grow: "length c \<le> length (write_at c o' bs)" for c o' and bs :: "byte list" by (cases "bs = []") auto
  have "slice_base t a + slice_size a \<le> length (?D (slice_path t a))"
    using Cons.prems(2) grow [of "D (slice_path t sl)"] by (auto intro: order_trans)
  moreover have "take (slice_size a) (drop (slice_base t a) (?D (slice_path t a)))
      = take (slice_size a) (drop (slice_base t a) (D (slice_path t a)))"
    using Cons.prems len read_back [of "slice_base t a" "slice_size a" "slice_base t sl" "D (slice_path t a)" ?bs]
      read_back_above [of "slice_base t sl" ?bs "slice_base t a" "slice_size a" "D (slice_path t a)"]
    by (auto simp: slices_apart_def)
  ultimately show ?case using Cons.IH [of ?D] Cons.prems(1) by simp
qed simp

lemma store_slices_read_back:
  assumes "slices_disjoint t sls" "off + slices_size sls \<le> length inp"
    and "list_all (\<lambda>sl. \<not> pad_file_at (ts_files t) (slice_file sl)) sls"
  shows "block_data t (store_slices t inp off sls D) sls = take (slices_size sls) (drop off inp)"
  using assms
proof (induction sls arbitrary: off D)
  case (Cons sl sls)
  let ?p = "slice_path t sl" and ?bs = "take (slice_size sl) (drop off inp)"
  let ?D = "D(?p := write_at (D ?p) (slice_base t sl) ?bs)"
  have len: "length ?bs = slice_size sl" using Cons.prems(2) by simp
  have again: "take (slice_size sl) (drop (slice_base t sl) (?D ?p)) = ?bs"
    using read_back_same [of ?bs "slice_base t sl" "D ?p"] len by simp
  have "slice_size sl = 0 \<or> slice_base t sl + slice_size sl \<le> length (?D ?p)"
    using len by (cases "?bs = []") auto
  then have "take (slice_size sl) (drop (slice_base t sl)
      (store_slices t inp (off + slice_size sl) sls ?D ?p)) = ?bs"
    using store_slices_keeps [of t sl sls ?D inp "off + slice_size sl"] again Cons.prems(1) by auto
  moreover have "block_data t (store_slices t inp (off + slice_size sl) sls ?D) sls
      = take (slices_size sls) (drop (off + slice_size sl) inp)"
    using Cons by simp
  ultimately show ?case
    using Cons.prems(3) take_add [of "slice_size sl" "slices_size sls" "drop off inp"]
    by (simp add: slice_data_def add.commute)
qed simp

section \<open>The bridge in memory\<close>

definition memory_ok :: "memory \<Rightarrow> bool" where
  "memory_ok w \<longleftrightarrow> distinct (map fst (mb_files w)) \<and> distinct (map snd (mb_files w))
     \<and> (\<forall>i \<in> snd ` set (mb_files w). i < length (mb_contents w)) \<and> 0 \<le> mb_next w
     \<and> (\<forall>x \<in> set (mb_descriptors w). fst x < mb_next w \<and> snd x < length (mb_contents w))
     \<and> (\<forall>e \<in> snd ` set (mb_failures w). e < 0)"

definition memory_data :: "memory \<Rightarrow> string \<Rightarrow> byte list" where
  "memory_data w p = (case map_of (mb_files w) p of None \<Rightarrow> [] | Some i \<Rightarrow> mb_contents w ! i)"

definition path_of :: "(string \<times> nat) list \<Rightarrow> nat \<Rightarrow> string option" where
  "path_of files = map_of (map (\<lambda>(p, i). (i, p)) files)"

definition memory_on_path :: "memory \<Rightarrow> int \<Rightarrow> string option" where
  "memory_on_path w fd = Option.bind (map_of (mb_descriptors w) fd) (path_of (mb_files w))"

lemma path_of_Some:
  assumes "distinct (map fst files)" "distinct (map snd files)"
  shows "path_of files i = Some p \<longleftrightarrow> map_of files p = Some i"
proof -
  have "map fst (map (\<lambda>(p, i). (i, p)) files) = map snd files" by (simp add: split_beta comp_def)
  then have "path_of files i = Some p \<longleftrightarrow> (i, p) \<in> set (map (\<lambda>(p, i). (i, p)) files)"
    unfolding path_of_def using assms(2) by (metis map_of_eq_Some_iff)
  then show ?thesis using assms(1) by (auto simp: map_of_eq_Some_iff)
qed

lemma path_of_exists: "i \<in> snd ` set files \<Longrightarrow> \<exists>p. path_of files i = Some p"
  by (induction files) (auto simp: path_of_def)

lemma memory_ok_cong:
  "mb_files w' = mb_files w \<Longrightarrow> length (mb_contents w') = length (mb_contents w) \<Longrightarrow> mb_next w' = mb_next w \<Longrightarrow>
     set (mb_descriptors w') \<subseteq> set (mb_descriptors w) \<Longrightarrow> set (mb_failures w') \<subseteq> set (mb_failures w) \<Longrightarrow>
     memory_ok w \<Longrightarrow> memory_ok w'"
  unfolding memory_ok_def by auto

lemma memory_view_cong:
  assumes "mb_files w' = mb_files w"
  shows "mb_contents w' = mb_contents w \<Longrightarrow> memory_data w' = memory_data w"
    and "mb_descriptors w' = mb_descriptors w \<Longrightarrow> memory_on_path w' = memory_on_path w"
  using assms by (auto simp: memory_data_def memory_on_path_def fun_eq_iff split: option.split)

text \<open>A call that fails on purpose, or does nothing, keeps the views.\<close>

lemma failing_cases:
  assumes "failing oper f w = (r, w')" "memory_ok w"
  obtains (fails) "r < 0" "memory_ok w'" "memory_on_path w' = memory_on_path w" "memory_data w' = memory_data w"
    | (works) "f w = (r, w')"
proof (cases "map_of (mb_failures w) oper")
  case None
  with assms works show thesis by (simp add: failing_def)
next
  case (Some e)
  then have e: "r = e" "w' = w\<lparr>mb_failures := filter (\<lambda>x. fst x \<noteq> oper) (mb_failures w)\<rparr>"
    using assms(1) by (simp_all add: failing_def)
  have "e < 0" using assms(2) map_of_SomeD [OF Some] by (force simp: memory_ok_def)
  moreover have "memory_ok w'" by (rule memory_ok_cong [OF _ _ _ _ _ assms(2)]) (auto simp: e)
  ultimately show thesis using fails memory_view_cong [of w' w] e by simp
qed

lemma on_path_Some:
  assumes "memory_ok w" "memory_on_path w fd = Some p"
  obtains i where "map_of (mb_descriptors w) fd = Some i" "map_of (mb_files w) p = Some i" "i < length (mb_contents w)"
proof -
  obtain i where i: "map_of (mb_descriptors w) fd = Some i" "path_of (mb_files w) i = Some p"
    using assms(2) by (auto simp: memory_on_path_def bind_eq_Some_conv)
  then have "map_of (mb_files w) p = Some i" using assms(1) by (simp add: memory_ok_def path_of_Some)
  moreover from map_of_SomeD [OF this] assms(1) have "i < length (mb_contents w)" by (force simp: memory_ok_def)
  ultimately show thesis using that i by simp
qed

text \<open>A new descriptor on a file of the table.\<close>

lemma new_descriptor_view:
  assumes "new_descriptor i w = (fd, w')" "memory_ok w" "map_of (mb_files w) p = Some i"
  shows "0 \<le> fd \<and> memory_ok w' \<and> memory_on_path w fd = None \<and> memory_on_path w' = (memory_on_path w)(fd \<mapsto> p)
    \<and> memory_data w' = memory_data w"
proof -
  have "path_of (mb_files w) i = Some p" using assms by (simp add: memory_ok_def path_of_Some)
  moreover have "map_of (mb_descriptors w) (mb_next w) = None"
    using assms(2) by (force simp: memory_ok_def map_of_eq_None_iff)
  moreover have in_files: "i \<in> snd ` set (mb_files w)" using map_of_SomeD [OF assms(3)] by force
  moreover have w': "fd = mb_next w" "w' = w\<lparr>mb_descriptors := (mb_next w, i) # mb_descriptors w, mb_next := mb_next w + 1\<rparr>"
    using assms(1) by (auto simp: new_descriptor_def)
  moreover have "memory_ok w'"
  proof -
    have "\<forall>x \<in> set (mb_descriptors w). fst x < mb_next w + 1 \<and> snd x < length (mb_contents w)"
      using assms(2) unfolding memory_ok_def by (meson less_add_one order.strict_trans)
    moreover have "i < length (mb_contents w)" using assms(2) in_files by (auto simp: memory_ok_def)
    ultimately show ?thesis using assms(2) unfolding memory_ok_def w'(2) by simp
  qed
  moreover have "0 \<le> mb_next w" using assms(2) by (simp add: memory_ok_def)
  ultimately show ?thesis
    using memory_view_cong(1) [of w' w] by (simp add: memory_on_path_def fun_eq_iff)
qed

lemma new_file_view:
  assumes "memory_ok w" "map_of (mb_files w) p = None"
  defines "v \<equiv> w\<lparr>mb_contents := mb_contents w @ [[]], mb_files := (p, length (mb_contents w)) # mb_files w\<rparr>"
  shows "memory_ok v \<and> memory_on_path v = memory_on_path w \<and> memory_data v = memory_data w"
proof -
  have new: "length (mb_contents w) \<notin> snd ` set (mb_files w)" using assms(1) by (force simp: memory_ok_def)
  have "p \<notin> fst ` set (mb_files w)" using assms(2) by (simp add: map_of_eq_None_iff)
  moreover have "\<forall>i \<in> snd ` set (mb_files w). i < length (mb_contents w) + 1"
    "\<forall>x \<in> set (mb_descriptors w). fst x < mb_next w \<and> snd x < length (mb_contents w) + 1"
    using assms(1) by (auto simp: memory_ok_def intro: less_SucI)
  ultimately have ok: "memory_ok v" using assms(1) new unfolding memory_ok_def v_def by simp
  have "memory_on_path v fd = memory_on_path w fd" for fd
  proof (cases "map_of (mb_descriptors w) fd")
    case (Some i)
    then have "i \<noteq> length (mb_contents w)" using assms(1) new map_of_SomeD [OF Some] by (force simp: memory_ok_def)
    with Some show ?thesis by (simp add: memory_on_path_def v_def path_of_def)
  qed (simp add: memory_on_path_def v_def)
  moreover have "memory_data v q = memory_data w q" for q
  proof (cases "map_of (mb_files w) q")
    case None
    then show ?thesis using assms(2) by (simp add: memory_data_def v_def)
  next
    case (Some i)
    then have "i < length (mb_contents w)" "q \<noteq> p"
      using assms(1,2) map_of_SomeD [OF Some] by (force simp: memory_ok_def)+
    with Some show ?thesis by (simp add: memory_data_def v_def nth_append)
  qed
  ultimately show ?thesis using ok by (simp add: fun_eq_iff)
qed

lemma memory_open_view:
  assumes "memory_open_file p m w = (fd, w')" "memory_ok w"
  shows "memory_ok w' \<and> memory_data w' = memory_data w
    \<and> (if 0 \<le> fd then memory_on_path w fd = None \<and> memory_on_path w' = (memory_on_path w)(fd \<mapsto> p)
       else memory_on_path w' = memory_on_path w)"
  using assms(1)[unfolded memory_open_file_def] assms(2)
proof (cases rule: failing_cases)
  case works
  show ?thesis
  proof (cases "map_of (mb_files w) p")
    case (Some i)
    with works new_descriptor_view [of i w fd w' p] assms(2) show ?thesis by simp
  next
    case None
    let ?v = "w\<lparr>mb_contents := mb_contents w @ [[]], mb_files := (p, length (mb_contents w)) # mb_files w\<rparr>"
    note v = new_file_view [OF assms(2) None]
    show ?thesis
    proof (cases "m = bridge_open_read")
      case True
      with works None assms(2) show ?thesis by auto
    next
      case False
      with works None have "new_descriptor (length (mb_contents w)) ?v = (fd, w')" by simp
      from new_descriptor_view [OF this, of p] v show ?thesis by simp
    qed
  qed
qed simp

text \<open>Replacing the bytes of one file.\<close>

lemma update_view:
  fixes c :: "byte list"
  assumes "memory_ok w" "map_of (mb_files w) p = Some i" "i < length (mb_contents w)"
  shows "memory_ok (w\<lparr>mb_contents := (mb_contents w)[i := c]\<rparr>)
    \<and> memory_on_path (w\<lparr>mb_contents := (mb_contents w)[i := c]\<rparr>) = memory_on_path w
    \<and> memory_data (w\<lparr>mb_contents := (mb_contents w)[i := c]\<rparr>) = (memory_data w)(p := c)"
proof -
  let ?v = "w\<lparr>mb_contents := (mb_contents w)[i := c]\<rparr>"
  have "memory_ok ?v" by (rule memory_ok_cong [OF _ _ _ _ _ assms(1)]) auto
  moreover have "memory_on_path ?v = memory_on_path w" using memory_view_cong(2) [of ?v w] by simp
  moreover have "memory_data ?v q = ((memory_data w)(p := c)) q" for q
  proof (cases "map_of (mb_files w) q")
    case None
    with assms(2) show ?thesis by (auto simp: memory_data_def)
  next
    case (Some j)
    have "j \<noteq> i" if "q \<noteq> p"
    proof
      assume "j = i"
      with Some assms(1,2) have "path_of (mb_files w) i = Some q" "path_of (mb_files w) i = Some p"
        by (simp_all add: memory_ok_def path_of_Some)
      with that show False by simp
    qed
    with Some assms(2,3) show ?thesis by (auto simp: memory_data_def)
  qed
  ultimately show ?thesis by (simp add: fun_eq_iff)
qed

lemma map_of_close: "map_of (filter (\<lambda>x. fst x \<noteq> k) xs) = (map_of xs)(k := None)"
  by (induction xs) (auto simp: fun_eq_iff)

interpretation memory_files: file_world memory_env mb_interrupts memory_ok memory_on_path memory_data
proof (unfold_locales, goal_cases)
  case (1 w p r w')
  from 1(2)[unfolded memory_env_def, simplified, unfolded memory_create_directory_def] 1(1) show ?case
  proof (cases rule: failing_cases)
    case works
    have "memory_ok w'" by (rule memory_ok_cong [OF _ _ _ _ _ 1(1)]) (use works in auto)
    with works memory_view_cong [of w' w] show ?thesis by auto
  qed simp
next
  case (2 w now w')
  have "memory_ok w'" by (rule memory_ok_cong [OF _ _ _ _ _ 2(1)]) (use 2(2) in \<open>auto simp: memory_env_def\<close>)
  with 2 memory_view_cong [of w' w] show ?case by (auto simp: memory_env_def)
next
  case (3 w p m fd w')
  with memory_open_view [of p m w fd w'] show ?case by (auto simp: memory_env_def)
next
  case (4 w p m fd w')
  with memory_open_view [of p m w fd w'] show ?case by (auto simp: memory_env_def)
next
  case (5 w fd)
  have "memory_ok (memory_close fd w)"
    by (rule memory_ok_cong [OF _ _ _ _ _ 5]) (auto simp: memory_close_def)
  then show ?case
    using memory_view_cong(1) [of "memory_close fd w" w]
    by (auto simp: memory_env_def memory_close_def memory_on_path_def map_of_close fun_eq_iff)
next
  case (6 w fd n off got w')
  have "memory_ok w'"
    by (rule memory_ok_cong [OF _ _ _ _ _ 6(1)])
      (use 6(2) in \<open>auto simp: memory_env_def memory_pread_def split: if_splits option.splits\<close>)
  with 6 memory_view_cong [of w' w] show ?case
    by (auto simp: memory_env_def memory_pread_def split: if_splits option.splits)
next
  case (7 w fd p n off bs w')
  obtain i where "map_of (mb_descriptors w) fd = Some i" "map_of (mb_files w) p = Some i"
    using on_path_Some [OF 7(1,2)] .
  with 7(3) show ?case
    by (auto simp: memory_env_def memory_pread_def memory_data_def min_def split: if_splits)
next
  case (8 w fd bs off e w')
  have "memory_ok w'"
    by (rule memory_ok_cong [OF _ _ _ _ _ 8(1)])
      (use 8(2) in \<open>auto simp: memory_env_def memory_pwrite_def split: if_splits option.splits\<close>)
  with 8 memory_view_cong [of w' w] show ?case
    by (auto simp: memory_env_def memory_pwrite_def split: if_splits option.splits)
next
  case (9 w fd p bs off k w')
  obtain i where "map_of (mb_descriptors w) fd = Some i" "map_of (mb_files w) p = Some i" "i < length (mb_contents w)"
    using on_path_Some [OF 9(1,2)] .
  with 9(3) update_view [OF 9(1), of p i "write_at (mb_contents w ! i) off bs"] show ?case
    by (auto simp: memory_env_def memory_pwrite_def memory_data_def split: if_splits)
next
  case (10 w fd n e w')
  then show ?case by (auto simp: memory_env_def memory_ftruncate_def split: option.splits)
next
  case (11 w fd p n w')
  obtain i where "map_of (mb_descriptors w) fd = Some i" "map_of (mb_files w) p = Some i" "i < length (mb_contents w)"
    using on_path_Some [OF 11(1,2)] .
  with 11(3) update_view [OF 11(1), of p i "resize n 0 (mb_contents w ! i)"] show ?case
    by (auto simp: memory_env_def memory_ftruncate_def memory_data_def)
next
  case (12 w p i w')
  from 12(2)[unfolded memory_env_def, simplified, unfolded memory_remove_def] 12(1) show ?case
  proof (cases rule: failing_cases)
    case works
    then have w': "w' = w\<lparr>mb_files := filter (\<lambda>x. fst x \<noteq> p) (mb_files w), mb_directories := filter (\<lambda>q. q \<noteq> p) (mb_directories w)\<rparr>"
      by (auto simp: Let_def)
    have "distinct (map fst (mb_files w'))" "distinct (map snd (mb_files w'))" "set (mb_files w') \<subseteq> set (mb_files w)"
      using 12(1) by (auto simp: memory_ok_def w' distinct_map intro: inj_on_subset)
    then have "memory_ok w'" using 12(1) unfolding memory_ok_def by (auto simp: w')
    then show ?thesis by (auto simp: w' memory_data_def map_of_close split: option.split)
  qed simp
qed

lemma empty_memory_ok: "memory_ok (empty_memory\<lparr>mb_interrupts := n\<rparr>)" "memory_ok empty_memory"
  by (simp_all add: memory_ok_def empty_memory_def)

end
