(* ===== verification/Copies.thy ===== *)
theory Copies
  imports Contents
begin

text \<open>
  What copying does to the contents of files: the copy of a file when a torrent moves, and the migration
  of a file into the part file, or out of it, when its priority changes.
\<close>

context file_world
begin

lemma pread_all_data:
  assumes "pread_all fd buf n off (sys_pread E) w = Some (res, buf', w')"
    and "ok w" "on_path w fd = Some p" "n \<le> length buf"
  shows "ok w' \<and> on_path w' = on_path w \<and> data w' = data w \<and> (0 \<le> res \<longrightarrow>
    take n buf' = take n (drop off (data w p)) \<and> length buf' = length buf \<and> (n = 0 \<or> off + n \<le> length (data w p)))"
proof -
  let ?P = "\<lambda>v. ok v \<and> on_path v = on_path w \<and> data v = data w"
  have s: "serves ?P (data w p) fd (sys_pread E)"
    unfolding serves_def
  proof (intro allI impI, elim conjE)
    fix k o' v r v' assume v: "ok v" "on_path v = on_path w" "data v = data w" "sys_pread E fd k o' v = (r, v')"
    with pread_view [OF v(1,4)] pread_data [of v fd p k o'] pread_errno [of fd k o' v] assms(3)
    show "?P v' \<and> (case r of ReadGot bs \<Rightarrow> bs = take (length bs) (drop o' (data w p)) | ReadFail e \<Rightarrow> 0 \<le> e)"
      by (cases r) (simp, fastforce)+
  qed
  have "pread_all_loop (sys_pread E) fd n off 0 buf w = Some (res, buf', w')"
    using assms(1) by (simp add: pread_all_def)
  from pread_all_loop_serves [OF this s] assms pread_all_length [OF assms(1,4)] show ?thesis by auto
qed

lemma pwrite_all_data:
  assumes "pwrite_all fd buf n off (sys_pwrite E) w = Some (res, w')"
    and "ok w" "on_path w fd = Some p" "n \<le> length buf"
  shows "ok w' \<and> on_path w' = on_path w \<and> (\<forall>q. q \<noteq> p \<longrightarrow> data w' q = data w q)
    \<and> (0 \<le> res \<longrightarrow> data w' p = write_at (data w p) off (take n buf))"
proof -
  let ?Q = "\<lambda>t v. ok v \<and> on_path v = on_path w \<and> (\<forall>q. q \<noteq> p \<longrightarrow> data v q = data w q)
    \<and> data v p = write_at (data w p) off (take t buf)"
  have "pwrite_all_loop (sys_pwrite E) fd buf n off 0 w = Some (res, w')"
    using assms(1) by (simp add: pwrite_all_def)
  then have "0 \<le> n \<longrightarrow> ?Q 0 w \<longrightarrow> (case (res, w') of (res, w') \<Rightarrow> ok w' \<and> on_path w' = on_path w
      \<and> (\<forall>q. q \<noteq> p \<longrightarrow> data w' q = data w q) \<and> (0 \<le> res \<longrightarrow> data w' p = write_at (data w p) off (take n buf)))"
  proof (induction rule: pwrite_all_loop_induct [where Q = "\<lambda>t v r. t \<le> n \<longrightarrow> ?Q t v \<longrightarrow> (case r of (res, w') \<Rightarrow>
      ok w' \<and> on_path w' = on_path w \<and> (\<forall>q. q \<noteq> p \<longrightarrow> data w' q = data w q)
      \<and> (0 \<le> res \<longrightarrow> data w' p = write_at (data w p) off (take n buf)))"])
    case (Fail t v e v')
    with pwrite_fail [OF _ Fail(2)] pwrite_errno [OF Fail(2)] negated_errno_neg [of e] show ?case by auto
  next
    case (Interrupt t v v' r)
    with pwrite_fail [OF _ Interrupt(2)] show ?case by auto
  next
    case (Stop t v k v')
    show ?case
    proof (intro impI)
      assume "t \<le> n" "?Q t v"
      with pwrite_data [OF _ _ Stop(2), of p] assms(3) have "ok v'" "on_path v' = on_path w"
        "\<forall>q. q \<noteq> p \<longrightarrow> data v' q = data w q" by auto
      then show "case (- EIO, v') of (res, w') \<Rightarrow> ok w' \<and> on_path w' = on_path w
        \<and> (\<forall>q. q \<noteq> p \<longrightarrow> data w' q = data w q) \<and> (0 \<le> res \<longrightarrow> data w' p = write_at (data w p) off (take n buf))"
        by simp
    qed
  next
    case (Progress t v k v' r)
    have "take (t + k) buf = take t buf @ take k (take (n - t) (drop t buf))"
      using Progress(1,4) by (simp add: take_add min_def)
    moreover have "length (take t buf) = t" using Progress(1) assms(4) by simp
    ultimately have "write_at (write_at (data w p) off (take t buf)) (off + t) (take k (take (n - t) (drop t buf)))
        = write_at (data w p) off (take (t + k) buf)"
      using write_at_adjacent [of "data w p" off "take t buf"] by simp
    with Progress pwrite_data [OF _ _ Progress(2), of p] assms(3) show ?case by auto
  qed auto
  with assms show ?thesis by simp
qed

text \<open>
  The loop that moves a range between two files: what it has written so far is the start of the range.
  \<open>range_data\<close> is the range, or zeros when there is no source.
\<close>

lemma move_chunk:
  assumes "next_chunk E has src buf n (sb + c) w = Some (res, buf1, w1)" "0 \<le> res"
    and "pwrite_all dst buf1 n (db + c) (sys_pwrite E) w1 = Some (res2, w2)" "0 \<le> res2"
    and "ok w" "has \<Longrightarrow> on_path w src = Some ps" "on_path w dst = Some pd" "ps \<noteq> pd"
    and "n \<le> length buf" "0 < n" "c + n \<le> sz"
    and "data w ps = D ps" "data w pd = write_at (D pd) db (take c chunk)" "c \<le> length chunk"
    and "chunk = (if has then take sz (drop sb (D ps)) else replicate sz 0)"
  shows "ok w2 \<and> on_path w2 = on_path w \<and> (\<forall>q. q \<noteq> pd \<longrightarrow> data w2 q = data w q) \<and> length buf1 = length buf
    \<and> data w2 pd = write_at (D pd) db (take (c + n) chunk) \<and> c + n \<le> length chunk"
proof -
  have 1: "ok w1 \<and> on_path w1 = on_path w \<and> data w1 = data w \<and> length buf1 = length buf
    \<and> take n buf1 = take n (drop c chunk) \<and> c + n \<le> length chunk"
  proof (cases has)
    case True
    with assms(1) have "pread_all src buf n (sb + c) (sys_pread E) w = Some (res, buf1, w1)" by (simp add: next_chunk_def)
    from pread_all_data [OF this assms(5) assms(6) [OF True] assms(9)] assms(2,10,11,12,15) True
    show ?thesis by (auto simp: drop_take min_def ac_simps)
  next
    case False
    with assms(1,9,11,15) assms(5) show ?thesis
      by (auto simp: next_chunk_def overwrite_def min_def)
  qed
  then have on: "on_path w1 dst = Some pd" "n \<le> length buf1" using assms(7,9) by auto
  have len: "length (take c chunk) = c" using assms(14) by simp
  have "write_at (write_at (D pd) db (take c chunk)) (db + c) (take n (drop c chunk)) = write_at (D pd) db (take (c + n) chunk)"
    using write_at_adjacent [of "D pd" db "take c chunk" "take n (drop c chunk)"] len by (simp add: take_add)
  with pwrite_all_data [OF assms(3) _ on] 1 assms(4,13) show ?thesis by simp
qed

lemma migrate_loop_data:
  assumes "migrate_loop E has src dst sz sb db index tp c buf err w = Some (fin, err', w')"
    and "ok w" "has \<Longrightarrow> on_path w src = Some ps" "on_path w dst = Some pd" "ps \<noteq> pd" "buf \<noteq> []" "c \<le> sz"
    and "data w ps = D ps" "data w pd = write_at (D pd) db (take c chunk)" "c \<le> length chunk"
    and "chunk = (if has then take sz (drop sb (D ps)) else replicate sz 0)"
  shows "fin \<Longrightarrow> ok w' \<and> on_path w' = on_path w \<and> (\<forall>q. q \<noteq> pd \<longrightarrow> data w' q = data w q)
    \<and> data w' pd = write_at (D pd) db chunk \<and> length chunk = sz \<and> err' = err"
proof -
  let ?pre = "\<lambda>c buf v. ok v \<and> on_path v = on_path w \<and> (\<forall>q. q \<noteq> pd \<longrightarrow> data v q = data w q) \<and> buf \<noteq> [] \<and> c \<le> sz
    \<and> data v pd = write_at (D pd) db (take c chunk) \<and> c \<le> length chunk"
  let ?post = "\<lambda>(fin, err', w'). fin \<longrightarrow> ok w' \<and> on_path w' = on_path w
    \<and> (\<forall>q. q \<noteq> pd \<longrightarrow> data w' q = data w q) \<and> data w' pd = write_at (D pd) db chunk \<and> length chunk = sz \<and> err' = err"
  have small: "length chunk \<le> sz" using assms(11) by auto
  have "?pre c buf w \<longrightarrow> ?post (fin, err', w')"
    using assms(1)
  proof (induction rule: migrate_loop_induct [where Q = "\<lambda>c buf v r. ?pre c buf v \<longrightarrow> ?post r"])
    case (Done c buf v)
    with small show ?case by auto
  next
    case (Next c buf v n buf1 w1 m w2 r)
    show ?case
    proof
      assume pre: "?pre c buf v"
      let ?len = "min (length buf) (sz - c)"
      have "ok w2 \<and> on_path w2 = on_path v \<and> (\<forall>q. q \<noteq> pd \<longrightarrow> data w2 q = data v q) \<and> length buf1 = length buf
        \<and> data w2 pd = write_at (D pd) db (take (c + ?len) chunk) \<and> c + ?len \<le> length chunk"
        by (rule move_chunk [OF Next(2-5), where ps = ps and sz = sz])
          (use pre assms Next(1) in auto)
      with pre Next have "?pre (c + ?len) buf1 w2" by auto
      with Next show "?post r" by blast
    qed
  qed auto
  moreover have "?pre c buf w" using assms by auto
  ultimately show "fin \<Longrightarrow> ?thesis" by simp
qed

lemma copy_loop_data:
  assumes "copy_loop E src dst sz index c buf err w = Some (fin, err', w')"
    and "ok w" "on_path w src = Some ps" "on_path w dst = Some pd" "ps \<noteq> pd" "buf \<noteq> []" "c \<le> sz"
    and "data w ps = D ps" "data w pd = write_at (D pd) 0 (take c (take sz (D ps)))" "c \<le> length (take sz (D ps))"
  shows "fin \<Longrightarrow> ok w' \<and> on_path w' = on_path w \<and> (\<forall>q. q \<noteq> pd \<longrightarrow> data w' q = data w q)
    \<and> data w' pd = write_at (D pd) 0 (take sz (D ps)) \<and> sz \<le> length (D ps) \<and> err' = err"
proof -
  let ?chunk = "take sz (D ps)"
  let ?pre = "\<lambda>c buf v. ok v \<and> on_path v = on_path w \<and> (\<forall>q. q \<noteq> pd \<longrightarrow> data v q = data w q) \<and> buf \<noteq> [] \<and> c \<le> sz
    \<and> data v pd = write_at (D pd) 0 (take c ?chunk) \<and> c \<le> length ?chunk"
  let ?post = "\<lambda>(fin, err', w'). fin \<longrightarrow> ok w' \<and> on_path w' = on_path w
    \<and> (\<forall>q. q \<noteq> pd \<longrightarrow> data w' q = data w q) \<and> data w' pd = write_at (D pd) 0 ?chunk \<and> sz \<le> length (D ps) \<and> err' = err"
  have "?pre c buf w \<longrightarrow> ?post (fin, err', w')"
    using assms(1)
  proof (induction rule: copy_loop_induct [where Q = "\<lambda>c buf v r. ?pre c buf v \<longrightarrow> ?post r"])
    case (Next c buf v n buf1 w1 m w2 r)
    show ?case
    proof
      assume pre: "?pre c buf v"
      let ?len = "min (length buf) (sz - c)"
      have rd: "next_chunk E True src buf ?len (0 + c) v = Some (n, buf1, w1)"
        using Next(2) by (simp add: next_chunk_def)
      have wr: "pwrite_all dst buf1 ?len (0 + c) (sys_pwrite E) w1 = Some (m, w2)" using Next(4) by simp
      have "ok w2 \<and> on_path w2 = on_path v \<and> (\<forall>q. q \<noteq> pd \<longrightarrow> data w2 q = data v q) \<and> length buf1 = length buf
        \<and> data w2 pd = write_at (D pd) 0 (take (c + ?len) ?chunk) \<and> c + ?len \<le> length ?chunk"
        by (rule move_chunk [OF rd Next(3) wr Next(5), where ps = ps and sz = sz])
          (use pre assms Next(1) in auto)
      with pre Next have "?pre (c + ?len) buf1 w2" by auto
      with Next show "?post r" by blast
    qed
  qed auto
  moreover have "?pre c buf w" using assms by auto
  ultimately show "fin \<Longrightarrow> ?thesis" by simp
qed

lemma write_whole: "length c = length bs \<Longrightarrow> write_at c 0 bs = bs"
  by (auto simp: write_at_def)

lemma scoped_view:
  "ok w \<Longrightarrow> ok (scoped_reset E fd w) \<and> data (scoped_reset E fd w) = data w"
  using close_view by (simp add: scoped_reset_def)

lemma copy_public_file_data:
  assumes "copy_public_file E src dst sz index error w = Some (True, err, w')" "ok w" "src \<noteq> dst"
  shows "ok w' \<and> data w' = (data w)(dst := take sz (data w src)) \<and> sz \<le> length (data w src) \<and> err = error"
  using assms(1)
proof (cases rule: copy_public_fileE)
  case (copied w1 fd w2 fd2 w3 w4 w5)
  have 1: "ok w1" "on_path w1 = on_path w" "data w1 = data w" using directories_view [OF copied(3) assms(2)] by auto
  have 2: "ok w2" "on_path w2 = (on_path w1)(fd \<mapsto> src)" "data w2 = data w" using open_view [OF 1(1) copied(4,5)] 1 by auto
  have 3: "ok w3" "on_path w2 fd2 = None" "on_path w3 = (on_path w2)(fd2 \<mapsto> dst)" "data w3 = data w"
    using open_view [OF 2(1) copied(6,7)] 2 by auto
  have on3: "on_path w3 fd2 = Some dst" "on_path w3 fd = Some src" using 2(2) 3(2,3) by auto
  have 4: "ok w4" "on_path w4 = on_path w3" "data w4 = (data w)(dst := resize sz 0 (data w dst))"
    using ftruncate_data [OF 3(1) on3(1) copied(8)] 3(4) by auto
  let ?D = "(data w)(dst := resize sz 0 (data w dst))"
  have "ok w5 \<and> on_path w5 = on_path w4 \<and> (\<forall>q. q \<noteq> dst \<longrightarrow> data w5 q = data w4 q)
      \<and> data w5 dst = write_at (?D dst) 0 (take sz (?D src)) \<and> sz \<le> length (?D src) \<and> err = error"
    by (rule copy_loop_data [OF copied(9)]) (use 4 on3 assms(3) in \<open>auto simp: default_block_size_def\<close>)
  then have 5: "ok w5" "\<forall>q. q \<noteq> dst \<longrightarrow> data w5 q = data w q" "sz \<le> length (data w src)"
    "data w5 dst = take sz (data w src)" "err = error"
    using 4(3) assms(3) write_whole [of "resize sz 0 (data w dst)" "take sz (data w src)"] by auto
  have "ok w' \<and> data w' = data w5" using close_view 5(1) copied(10) by simp
  with 5 show ?thesis by (auto simp: fun_eq_iff)
qed auto

lemma close_matching_view:
  "close_matching E p ds w = (ds', w') \<Longrightarrow> ok w \<Longrightarrow> ok w' \<and> data w' = data w"
proof (induction ds arbitrary: w ds' w')
  case (Cons x xs)
  then show ?case using close_view [OF Cons.prems(2)] by (auto split: if_splits prod.splits)
qed simp

lemma close_file_view:
  "ok (world d) \<Longrightarrow> ok (world (close_file E storage f d)) \<and> data (world (close_file E storage f d)) = data (world d)"
  using close_matching_view by (fastforce simp: close_file_def split: prod.splits)

lemma close_both_view:
  "ok (world d) \<Longrightarrow> ok (world (close_both E storage index to_part d))
     \<and> data (world (close_both E storage index to_part d)) = data (world d)"
  by (simp add: close_both_def close_file_view)

lemma migrate_loop_fails:
  assumes "migrate_loop E has src dst sz sb db index tp c buf err w = Some (fin, err', w')"
  shows "\<not> fin \<Longrightarrow> has_error err'"
proof -
  have "case (fin, err', w') of (fin, err', w') \<Rightarrow> \<not> fin \<longrightarrow> has_error err'"
    using assms by (induction rule: migrate_loop_induct) auto
  then show "\<not> fin \<Longrightarrow> has_error err'" by simp
qed

lemma migrate_priority_data:
  assumes "migrate_priority E t storage index to_part no_error d = Some (err', d')" "\<not> has_error err'"
    and "ok (world d)" "source_of t index to_part \<noteq> destination_of t index to_part"
    and "0 < fs_file_size (ts_files t) index"
  defines "src \<equiv> source_of t index to_part" and "dst \<equiv> destination_of t index to_part"
    and "sz \<equiv> fs_file_size (ts_files t) index" and "base \<equiv> fs_file_offset (ts_files t) index"
  shows "\<exists>chunk. length chunk = sz
    \<and> (chunk = take sz (drop (if to_part then 0 else base) (data (world d) src))
       \<or> chunk = replicate sz 0
         \<and> fst (br_open_file E src bridge_open_read (world (close_both E storage index to_part d))) = - ENOENT)
    \<and> data (world d') dst = (if to_part then write_at (data (world d) dst) base chunk else chunk)
    \<and> (\<forall>q. q \<noteq> dst \<and> (to_part \<longrightarrow> q \<noteq> src) \<longrightarrow> data (world d') q = data (world d) q)"
  using assms(1)
proof (cases rule: migrate_priorityE)
  case (copied s w1 w2 f w3 w4 fin err2 w5)
  let ?d0 = "close_both E storage index to_part d"
  let ?D = "(data (world d))(dst := if to_part then data (world d) dst else resize sz 0 (data (world d) dst))"
  let ?sb = "if to_part then 0 else base" and ?db = "if to_part then base else 0"
  let ?chunk = "if 0 \<le> s then take sz (drop ?sb (?D src)) else replicate sz 0"
  have ne: "src \<noteq> dst" using assms(4) by (simp add: src_def dst_def)
  have fin
    using copied(8,9) assms(2) by (auto simp: run_migration_def dest: migrate_loop_fails split: if_splits)
  note open1 = copied(2)[folded src_def] and open2 = copied(5)[folded dst_def]
  have 0: "ok (world ?d0)" "data (world ?d0) = data (world d)" using close_both_view [OF assms(3)] by auto
  have 1: "ok w1" "data w1 = data (world d)" "0 \<le> s \<Longrightarrow> on_path w1 s = Some src"
    using open_view [OF 0(1) open1] refused_view [OF 0(1) open1] 0(2) by (cases "0 \<le> s"; auto)+
  have 2: "ok w2" "on_path w2 = on_path w1" "data w2 = data (world d)" using directories_view [OF copied(4) 1(1)] 1(2) by auto
  have 3: "ok w3" "on_path w2 f = None" "on_path w3 = (on_path w2)(f \<mapsto> dst)" "data w3 = data (world d)"
    using open_view [OF 2(1) open2 copied(6)] 2(3) by auto
  have on3: "on_path w3 f = Some dst" "0 \<le> s \<Longrightarrow> on_path w3 s = Some src" using 1(3) 2(2) 3(2,3) by auto
  have 4: "ok w4" "on_path w4 = on_path w3" "data w4 = ?D"
    using copied(7) ftruncate_data [OF 3(1) on3(1)] 3
    by (auto simp: truncated_file_def sz_def fun_eq_iff split: if_splits)
  have "ok w5 \<and> on_path w5 = on_path w4 \<and> (\<forall>q. q \<noteq> dst \<longrightarrow> data w5 q = data w4 q)
      \<and> data w5 dst = write_at (?D dst) ?db ?chunk \<and> length ?chunk = sz \<and> err2 = no_error"
    by (rule migrate_loop_data [OF copied(8)[unfolded run_migration_def, folded sz_def base_def], where ps = src])
      (use 4 on3 ne \<open>fin\<close> in \<open>auto simp: default_block_size_def\<close>)
  then have 5: "ok w5" "\<forall>q. q \<noteq> dst \<longrightarrow> data w5 q = data (world d) q" "length ?chunk = sz"
    "data w5 dst = (if to_part then write_at (data (world d) dst) base ?chunk else ?chunk)"
    using 4(3) write_whole [of "resize sz 0 (data (world d) dst)" ?chunk] by auto
  have "ok (world d') \<and> (\<forall>q. q \<noteq> src \<or> \<not> to_part \<longrightarrow> data (world d') q = data w5 q)"
  proof (cases to_part)
    case True
    let ?w6 = "sys_close E f (scoped_reset E s w5)"
    obtain result w7 where rm: "br_remove E src False ?w6 = (result, w7)" by fastforce
    have w6: "ok ?w6" "data ?w6 = data w5" using close_view scoped_view [OF 5(1)] by auto
    from remove_view [OF w6(1) rm] copied(9) True \<open>fin\<close> rm w6 show ?thesis by (auto simp: src_def Let_def)
  next
    case False
    with copied(9) \<open>fin\<close> close_view scoped_view [OF 5(1)] show ?thesis by auto
  qed
  with 5 ne copied(3) open1 show ?thesis
    by (intro exI [of _ ?chunk]) auto
next
  case (truncate s w1 w2 f w3 e w4)
  then have "0 < e" using ftruncate_errno by (auto simp: truncated_file_def)
  with truncate assms(2) show ?thesis by simp
qed (use assms(2,5) in auto)

end

end
