(* ===== verification/Moves.thy ===== *)
theory Moves
  imports Copies
begin

text \<open>
  What moving a torrent does to the contents of files. Copying touches destinations only, a destination is never
  the current file of the torrent, and the sources go last: so an error loses nothing, and a move that succeeds has
  brought every file to its new path.
\<close>

section \<open>A bridge that knows sizes\<close>

text \<open>Asking for a size or validating a path changes nothing, and a size that is given is the length of the file.\<close>

locale stored_world = file_world E pending ok on_path data
  for E :: "'w env" and pending :: "'w \<Rightarrow> nat" and ok :: "'w \<Rightarrow> bool"
    and on_path :: "'w \<Rightarrow> int \<Rightarrow> string option" and data :: "'w \<Rightarrow> string \<Rightarrow> byte list" +
  assumes validate_view: "ok w \<Longrightarrow> br_validate_path E p w = (r, w') \<Longrightarrow> ok w' \<and> on_path w' = on_path w \<and> data w' = data w"
    and size_view: "ok w \<Longrightarrow> br_file_size E p w = (sz, w') \<Longrightarrow> ok w' \<and> on_path w' = on_path w \<and> data w' = data w"
    and size_data: "ok w \<Longrightarrow> br_file_size E p w = (sz, w') \<Longrightarrow> 0 \<le> sz \<Longrightarrow> sz = int (length (data w p))"

text \<open>What the bridge says of a path while the contents are \<open>D\<close>: that there is a file, or that there is none.\<close>

definition said_present :: "'w env \<Rightarrow> ('w \<Rightarrow> bool) \<Rightarrow> ('w \<Rightarrow> string \<Rightarrow> byte list) \<Rightarrow> (string \<Rightarrow> byte list) \<Rightarrow> string \<Rightarrow> bool" where
  "said_present E ok data D p \<longleftrightarrow> (\<exists>w. ok w \<and> data w = D \<and> 0 \<le> fst (br_file_size E p w))"

definition said_missing :: "'w env \<Rightarrow> ('w \<Rightarrow> bool) \<Rightarrow> ('w \<Rightarrow> string \<Rightarrow> byte list) \<Rightarrow> (string \<Rightarrow> byte list) \<Rightarrow> string \<Rightarrow> bool" where
  "said_missing E ok data D p \<longleftrightarrow> (\<exists>w. ok w \<and> data w = D \<and> fst (br_file_size E p w) = - ENOENT)"

text \<open>
  What a successful move leaves at the new path of a file whose path changes: the old bytes, unless there was no old file,
  or the new path was taken and is to be kept, or only the paths were to change.
\<close>

definition arrived ::
  "'w env \<Rightarrow> ('w \<Rightarrow> bool) \<Rightarrow> ('w \<Rightarrow> string \<Rightarrow> byte list) \<Rightarrow> move_flags \<Rightarrow> (string \<Rightarrow> byte list)
     \<Rightarrow> string \<Rightarrow> string \<Rightarrow> byte list \<Rightarrow> bool" where
  "arrived E ok data flags D old new result \<longleftrightarrow>
     (if flags = Reset_save_path \<or> flags = Reset_save_path_unchecked then result = D new
      else result = D old \<and> (flags = Dont_replace \<longrightarrow> said_missing E ok data D new)
         \<or> result = D new \<and> (said_missing E ok data D old \<or> flags = Dont_replace \<and> said_present E ok data D new))"

text \<open>An inspected operation: copying was chosen with the right size, or there was a reason not to copy.\<close>

definition inspected ::
  "'w env \<Rightarrow> ('w \<Rightarrow> bool) \<Rightarrow> ('w \<Rightarrow> string \<Rightarrow> byte list) \<Rightarrow> move_flags \<Rightarrow> (string \<Rightarrow> byte list)
     \<Rightarrow> move_operation \<Rightarrow> bool" where
  "inspected E ok data flags D oper \<longleftrightarrow>
     (if mo_copy oper then mo_source_size oper = int (length (D (mo_source oper)))
        \<and> (flags = Dont_replace \<longrightarrow> said_missing E ok data D (mo_destination oper))
      else said_missing E ok data D (mo_source oper)
        \<or> flags = Dont_replace \<and> said_present E ok data D (mo_destination oper))"

section \<open>The stages\<close>

context file_world
begin

lemma copy_loop_frame:
  assumes "copy_loop E src dst sz index c buf err w = Some (fin, err', w')"
    and "ok w" "on_path w src = Some ps" "on_path w dst = Some pd"
  shows "ok w' \<and> on_path w' = on_path w \<and> (\<forall>q. q \<noteq> pd \<longrightarrow> data w' q = data w q)"
proof -
  let ?same = "\<lambda>v. ok v \<and> on_path v = on_path w \<and> (\<forall>q. q \<noteq> pd \<longrightarrow> data v q = data w q)"
  have "?same w \<longrightarrow> (case (fin, err', w') of (fin, err', w') \<Rightarrow> ?same w')"
    using assms(1)
  proof (induction rule: copy_loop_induct [where Q = "\<lambda>c buf v r. ?same v \<longrightarrow> (case r of (fin, err', w') \<Rightarrow> ?same w')"])
    case (Read c buf v n buf1 w1)
    with pread_all_data [OF Read(2)] assms(3) show ?case by auto
  next
    case (Write c buf v n buf1 w1 m w2)
    show ?case
    proof
      assume v: "?same v"
      with pread_all_data [OF Write(2)] Write(3) assms(3) have "?same w1" "length buf1 = length buf" by auto
      with pwrite_all_data [OF Write(4), of pd] assms(4) show "case (False, make_error m (int index) Op_file_write, w2) of
          (fin, err', w') \<Rightarrow> ?same w'"
        by auto
    qed
  next
    case (Next c buf v n buf1 w1 m w2 r)
    show ?case
    proof
      assume v: "?same v"
      with pread_all_data [OF Next(2)] Next(3) assms(3) have "?same w1" "length buf1 = length buf" by auto
      with pwrite_all_data [OF Next(4), of pd] assms(4) have "?same w2" by auto
      with Next.IH show "case r of (fin, err', w') \<Rightarrow> ?same w'" by blast
    qed
  qed simp
  with assms(2) show ?thesis by simp
qed

text \<open>Whether copying succeeds or not, only the destination changes.\<close>

lemma copy_public_file_frame:
  assumes "copy_public_file E src dst sz index error w = Some (fin, err, w')" "ok w"
  shows "ok w' \<and> (\<forall>q. q \<noteq> dst \<longrightarrow> data w' q = data w q)"
proof -
  have made: "ok v \<and> on_path v = on_path w \<and> data v = data w"
    if "ensure_parent_directories E dst error (int index) w = (r, e, v)" for r e v
    using directories_view [OF that assms(2)] .
  have opened: "ok v' \<and> on_path v fd = None \<and> on_path v' = (on_path v)(fd \<mapsto> p) \<and> data v' = data v"
    if "ok v" "br_open_file E p m v = (fd, v')" "0 \<le> fd" for p m v fd v'
    using open_view [OF that] .
  from assms(1) show ?thesis
  proof (cases rule: copy_public_fileE)
    case directories
    with made show ?thesis by auto
  next
    case (source w1 fd)
    with made [OF source(3)] refused_view [OF _ source(4,5)] show ?thesis by auto
  next
    case (destination w1 fd w2 fd2 w3)
    note 1 = made [OF destination(3)]
    have 2: "ok w2" "data w2 = data w" using opened [OF _ destination(4,5)] 1 by auto
    have "ok w3" "data w3 = data w" using refused_view [OF 2(1) destination(6,7)] 2 by auto
    with close_view destination(8) show ?thesis by auto
  next
    case (truncate w1 fd w2 fd2 w3 e w4)
    note 1 = made [OF truncate(3)]
    have 2: "ok w2" "data w2 = data w" using opened [OF _ truncate(4,5)] 1 by auto
    have "ok w3" "data w3 = data w" using opened [OF 2(1) truncate(6,7)] 2 by auto
    with ftruncate_fail [OF _ truncate(8)] have "ok w4" "data w4 = data w" by auto
    with close_view truncate(9) show ?thesis by auto
  next
    case (copied w1 fd w2 fd2 w3 w4 w5)
    note 1 = made [OF copied(3)]
    have 2: "ok w2" "on_path w2 = (on_path w1)(fd \<mapsto> src)" "data w2 = data w" using opened [OF _ copied(4,5)] 1 by auto
    have 3: "ok w3" "on_path w2 fd2 = None" "on_path w3 = (on_path w2)(fd2 \<mapsto> dst)" "data w3 = data w"
      using opened [OF 2(1) copied(6,7)] 2(3) by auto
    have on3: "on_path w3 fd2 = Some dst" "on_path w3 fd = Some src" using 2(2) 3(2,3) by auto
    have 4: "ok w4" "on_path w4 = on_path w3" "\<forall>q. q \<noteq> dst \<longrightarrow> data w4 q = data w q"
      using ftruncate_data [OF 3(1) on3(1) copied(8)] 3(4) by auto
    have "ok w5 \<and> (\<forall>q. q \<noteq> dst \<longrightarrow> data w5 q = data w4 q)"
      using copy_loop_frame [OF copied(9) 4(1), of src dst] on3 4(2) by simp
    with 4 close_view copied(10) show ?thesis by auto
  qed (use assms(2) in auto)
qed

lemma copy_operations_frame:
  "copy_operations E ops st err w = Some (fin, st', err', w') \<Longrightarrow> ok w \<Longrightarrow>
     ok w' \<and> (\<forall>q. q \<notin> mo_destination ` set ops \<longrightarrow> data w' q = data w q)"
proof (induction ops arbitrary: err w)
  case (Cons oper ops)
  show ?case
  proof (cases "mo_copy oper")
    case False
    with Cons show ?thesis by auto
  next
    case True
    with Cons.prems(1) obtain fin1 e1 w1 where c: "copy_public_file E (mo_source oper) (mo_destination oper)
        (nat (mo_source_size oper)) (mo_index oper) err w = Some (fin1, e1, w1)"
      by (auto simp: bind_eq_Some_conv split: if_splits)
    note f = copy_public_file_frame [OF c Cons.prems(2)]
    from True Cons.prems(1) c f Cons.IH [of e1 w1] show ?thesis by (cases fin1) auto
  qed
qed simp

text \<open>When every copy succeeds, each destination holds what its source held at the start.\<close>

lemma copy_operations_data:
  assumes "copy_operations E ops st err w = Some (True, st', err', w')" "ok w"
    and "distinct (map mo_destination ops)" "mo_source ` set ops \<inter> mo_destination ` set ops = {}"
    and "\<And>oper. oper \<in> set ops \<Longrightarrow> mo_copy oper \<Longrightarrow> mo_source_size oper = int (length (data w (mo_source oper)))"
    and "oper \<in> set ops"
  shows "data w' (mo_destination oper) = (if mo_copy oper then data w (mo_source oper) else data w (mo_destination oper))"
  using assms
proof (induction ops arbitrary: err w)
  case (Cons o1 ops)
  obtain e1 w1 where w1: "ok w1" "\<forall>q. q \<noteq> mo_destination o1 \<longrightarrow> data w1 q = data w q"
      "data w1 (mo_destination o1) = (if mo_copy o1 then data w (mo_source o1) else data w (mo_destination o1))"
    and rest: "copy_operations E ops st e1 w1 = Some (True, st', err', w')"
  proof (cases "mo_copy o1")
    case False
    with Cons.prems(1,2) that [of w err] show thesis by simp
  next
    case True
    with Cons.prems(1) obtain fin1 e1 w1 where c: "copy_public_file E (mo_source o1) (mo_destination o1)
        (nat (mo_source_size o1)) (mo_index o1) err w = Some (fin1, e1, w1)"
      by (auto simp: bind_eq_Some_conv split: if_splits)
    with True Cons.prems(1) have fin1 and r: "copy_operations E ops st e1 w1 = Some (True, st', err', w')"
      by (auto split: if_splits)
    have ne: "mo_source o1 \<noteq> mo_destination o1" using Cons.prems(4) by auto
    have "nat (mo_source_size o1) = length (data w (mo_source o1))" using Cons.prems(5) [of o1] True by simp
    with copy_public_file_data [OF _ Cons.prems(2) ne] c \<open>fin1\<close> r True that [of w1 e1] show thesis by auto
  qed
  have src: "data w1 (mo_source o2) = data w (mo_source o2)" if "o2 \<in> set ops" for o2
  proof -
    have "mo_source o2 \<in> mo_source ` set (o1 # ops)" using that by simp
    with Cons.prems(4) have "mo_source o2 \<notin> mo_destination ` set (o1 # ops)" by blast
    with w1(2) show ?thesis by simp
  qed
  have dst: "data w1 (mo_destination o2) = data w (mo_destination o2)" if "o2 \<in> set ops" for o2
  proof -
    have "mo_destination o2 \<in> mo_destination ` set ops" using that by simp
    with Cons.prems(3) have "mo_destination o2 \<noteq> mo_destination o1" by auto
    with w1(2) show ?thesis by simp
  qed
  show ?case
  proof (cases "oper = o1")
    case True
    have "mo_destination o1 \<notin> mo_destination ` set ops" using Cons.prems(3) by auto
    with copy_operations_frame [OF rest w1(1)] w1(3) True show ?thesis by auto
  next
    case False
    then have oper: "oper \<in> set ops" using Cons.prems(6) by simp
    have "data w' (mo_destination oper) = (if mo_copy oper then data w1 (mo_source oper) else data w1 (mo_destination oper))"
      by (rule Cons.IH [OF rest w1(1)]) (use Cons.prems(3-5) src oper in auto)
    with src [OF oper] dst [OF oper] show ?thesis by simp
  qed
qed simp

lemma cleanup_frame:
  "ok w \<Longrightarrow> ok (cleanup_sources E dests ops w)
     \<and> (\<forall>q. q \<notin> mo_source ` set ops - set dests \<longrightarrow> data (cleanup_sources E dests ops w) q = data w q)"
proof (induction ops arbitrary: w)
  case (Cons oper ops)
  obtain r w1 where rm: "br_remove E (mo_source oper) False w = (r, w1)" by fastforce
  have w1: "ok w1" "\<forall>q. q \<noteq> mo_source oper \<longrightarrow> data w1 q = data w q" using remove_view [OF Cons.prems rm] by auto
  show ?case
  proof (cases "\<not> mo_cleanup oper \<or> mo_source oper \<in> set dests")
    case True
    with Cons.IH [OF Cons.prems] show ?thesis by auto
  next
    case False
    then have run: "cleanup_sources E dests (oper # ops) w = cleanup_sources E dests ops w1" using rm by simp
    have "mo_source oper \<notin> set dests" using False by blast
    with Cons.IH [OF w1(1)] w1(2) show ?thesis unfolding run by auto metis
  qed
qed simp

lemma close_storage_view:
  "ok (world d) \<Longrightarrow> ok (world (close_storage E storage d)) \<and> data (world (close_storage E storage d)) = data (world d)"
  using close_matching_view by (fastforce simp: close_storage_def split: prod.splits)

end

context stored_world
begin

lemma fail_if_exist_view:
  "fail_if_exist_loop E t dests is st err w = (fin, st', err', w') \<Longrightarrow> ok w \<Longrightarrow> ok w' \<and> data w' = data w
     \<and> (fin \<longrightarrow> (\<forall>i \<in> set is. pad_file_at (ts_files t) i \<or> said_missing E ok data (data w) (dests ! i)))"
proof (induction "is" arbitrary: w)
  case (Cons i "is")
  obtain sz w1 where sz: "br_file_size E (dests ! i) w = (sz, w1)" by fastforce
  have w1: "ok w1" "data w1 = data w" using size_view [OF Cons.prems(2) sz] by auto
  have "said_missing E ok data (data w) (dests ! i)" if "sz = - ENOENT"
    using that sz Cons.prems(2) by (auto simp: said_missing_def intro!: exI [of _ w])
  with Cons.prems Cons.IH [of w] Cons.IH [of w1] sz w1 show ?case by (auto simp: Let_def split: if_splits)
qed simp

lemma inspect_operations_view:
  "inspect_operations E flags ops st err w = (fin, ops', st', err', w') \<Longrightarrow> ok w \<Longrightarrow>
     list_all (\<lambda>oper. \<not> mo_copy oper) ops \<Longrightarrow> ok w' \<and> data w' = data w
     \<and> (fin \<longrightarrow> list_all (inspected E ok data flags (data w)) ops')"
proof (induction ops arbitrary: st w ops')
  case (Cons oper ops)
  from Cons.prems(1) show ?case
  proof (cases rule: inspect_operations_Cons)
    case (destination dsz)
    with size_view [OF Cons.prems(2)] show ?thesis by blast
  next
    case (source dsz w1 ssz)
    with size_view [OF Cons.prems(2)] size_view [of w1] show ?thesis by metis
  next
    case (inspected dsz w1 ssz w2 kept ops2)
    have 1: "ok w1" "data w1 = data w" using size_view [OF Cons.prems(2) inspected(1)] by auto
    have 2: "ok w2" "data w2 = data w" using size_view [OF 1(1) inspected(2)] 1(2) by auto
    have "said_present E ok data (data w) (mo_destination oper)" if "0 \<le> dsz"
      using that inspected(1) Cons.prems(2) by (auto simp: said_present_def intro!: exI [of _ w])
    moreover have "said_missing E ok data (data w) (mo_destination oper)" if "\<not> 0 \<le> dsz"
      using that inspected(1,3) Cons.prems(2) by (auto simp: said_missing_def intro!: exI [of _ w])
    moreover have "said_missing E ok data (data w) (mo_source oper)" if "\<not> 0 \<le> ssz"
      using that inspected(2,4) 1 by (auto simp: said_missing_def intro!: exI [of _ w1])
    moreover have "ssz = int (length (data w (mo_source oper)))" if "0 \<le> ssz"
      using size_data [OF 1(1) inspected(2) that] 1(2) by simp
    ultimately have "inspected E ok data flags (data w) (oper\<lparr>mo_destination_size := dsz, mo_source_size := ssz,
        mo_cleanup := (0 \<le> ssz), mo_copy := (if kept then mo_copy oper else 0 \<le> ssz)\<rparr>)"
      using inspected(5) Cons.prems(3) by (auto simp: inspected_def)
    with Cons.IH [OF inspected(6) 2(1)] Cons.prems(3) inspected(7) 2(2) show ?thesis by simp
  qed
qed simp

text \<open>Moving the files of a plan whose destinations are no current paths.\<close>

lemma move_files_data:
  assumes "move_files E t root dests ops flags st err w = Some (t', st', err', w')" "ok w" "\<not> has_error err"
    and "list_all (\<lambda>oper. \<not> mo_copy oper) ops" "flags \<noteq> Reset_save_path" "flags \<noteq> Reset_save_path_unchecked"
    and "mo_source ` set ops \<inter> mo_destination ` set ops = {}" "mo_destination ` set ops \<subseteq> set dests"
  shows "ok w'" and "has_error err' \<Longrightarrow> q \<notin> mo_destination ` set ops \<Longrightarrow> data w' q = data w q"
    and "q \<notin> mo_destination ` set ops \<Longrightarrow> q \<notin> mo_source ` set ops - set dests \<Longrightarrow> data w' q = data w q"
    and "\<not> has_error err' \<Longrightarrow> distinct (map mo_destination ops) \<Longrightarrow> oper \<in> set ops \<Longrightarrow>
      arrived E ok data flags (data w) (mo_source oper) (mo_destination oper) (data w' (mo_destination oper))"
    and "\<not> has_error err' \<Longrightarrow> flags = Fail_if_exist \<Longrightarrow> i < num_files (ts_files t) \<Longrightarrow> \<not> pad_file_at (ts_files t) i \<Longrightarrow>
      said_missing E ok data (data w) (dests ! i)"
proof -
  let ?fe = "if flags = Fail_if_exist then fail_if_exist_loop E t dests [0 ..< num_files (ts_files t)] st err w
        else (True, st, err, w)"
  have first: "ok w1 \<and> data w1 = data w \<and> (flags = Fail_if_exist \<longrightarrow> (\<forall>i < num_files (ts_files t).
      \<not> pad_file_at (ts_files t) i \<longrightarrow> said_missing E ok data (data w) (dests ! i)))"
    if "?fe = (True, st1, err1, w1)" for st1 err1 w1
  proof (cases "flags = Fail_if_exist")
    case True
    with that have "fail_if_exist_loop E t dests [0 ..< num_files (ts_files t)] st err w = (True, st1, err1, w1)" by simp
    from fail_if_exist_view [OF this assms(2)] show ?thesis by auto
  next
    case False
    with that assms(2) show ?thesis by simp
  qed
  have plan: "map mo_source ops2 = map mo_source ops \<and> map mo_destination ops2 = map mo_destination ops"
    if "list_all2 same_plan ops ops2" for ops2
    using that by (induction rule: list_all2_induct) (auto simp: same_plan_def)
  have sets: "mo_destination ` set ops2 = mo_destination ` set ops \<and> mo_source ` set ops2 = mo_source ` set ops"
    if "list_all2 same_plan ops ops2" for ops2
    using plan [OF that] by (metis list.set_map)
  have "ok w' \<and> (has_error err' \<longrightarrow> (\<forall>q. q \<notin> mo_destination ` set ops \<longrightarrow> data w' q = data w q))
    \<and> (\<forall>q. q \<notin> mo_destination ` set ops \<longrightarrow> q \<notin> mo_source ` set ops - set dests \<longrightarrow> data w' q = data w q)
    \<and> (\<not> has_error err' \<longrightarrow> distinct (map mo_destination ops) \<longrightarrow> (\<forall>oper \<in> set ops.
        arrived E ok data flags (data w) (mo_source oper) (mo_destination oper) (data w' (mo_destination oper))))
    \<and> (\<not> has_error err' \<longrightarrow> flags = Fail_if_exist \<longrightarrow> (\<forall>i < num_files (ts_files t). \<not> pad_file_at (ts_files t) i \<longrightarrow>
      said_missing E ok data (data w) (dests ! i)))"
    using assms(1)
  proof (cases rule: move_filesE)
    case exist
    with fail_if_exist_view [OF exist(3) assms(2)] fail_if_exist_loop_result [OF exist(3)] show ?thesis by simp
  next
    case (inspect st1 err1 w1 ops2)
    with first [OF inspect(2)] inspect_operations_view [OF inspect(3) _ assms(4)] inspect_operations_result [OF inspect(3)]
    show ?thesis by auto
  next
    case (copy st1 err1 w1 ops2 st2 err2 w2)
    have 2: "ok w2" "data w2 = data w" "list_all2 same_plan ops ops2"
      using first [OF copy(2)] inspect_operations_view [OF copy(3) _ assms(4)] inspect_operations_result [OF copy(3)] by auto
    with copy_operations_frame [OF copy(4)] sets [OF 2(3)] copy_operations_result [OF posix_io_axioms copy(4)]
    show ?thesis by auto
  next
    case (moved st1 err1 w1 ops2 st2 err2 w2 w3)
    have 2: "ok w2" "data w2 = data w" "list_all2 same_plan ops ops2" "list_all (inspected E ok data flags (data w)) ops2"
      "err' = err"
      using first [OF moved(2)] inspect_operations_view [OF moved(3) _ assms(4)] inspect_operations_result [OF moved(3)]
        copy_operations_result [OF posix_io_axioms moved(4)] moved(2)
      by (auto split: if_splits dest: fail_if_exist_loop_result)
    note p = plan [OF 2(3)] sets [OF 2(3)]
    have 3: "ok w3" "\<forall>q. q \<notin> mo_destination ` set ops \<longrightarrow> data w3 q = data w q"
      using copy_operations_frame [OF moved(4) 2(1)] 2(2) p by auto
    have 4: "ok w'" "\<forall>q. q \<notin> mo_source ` set ops - set dests \<longrightarrow> data w' q = data w3 q"
      using cleanup_frame [OF 3(1)] moved(5) p by auto
    have "arrived E ok data flags (data w) (mo_source oper) (mo_destination oper) (data w' (mo_destination oper))"
      if dist: "distinct (map mo_destination ops)" and oper: "oper \<in> set ops" for oper
    proof -
      obtain o2 where o2: "o2 \<in> set ops2" "mo_source o2 = mo_source oper" "mo_destination o2 = mo_destination oper"
        using 2(3) oper by (metis in_set_conv_nth list_all2_conv_all_nth same_plan_def)
      have ins: "inspected E ok data flags (data w) o2" using 2(4) o2(1) by (simp add: list_all_iff)
      have "data w3 (mo_destination o2) = (if mo_copy o2 then data w2 (mo_source o2) else data w2 (mo_destination o2))"
        by (rule copy_operations_data [OF moved(4) 2(1) _ _ _ o2(1)])
          (use p dist assms(7) 2(2,4) in \<open>auto simp: list_all_iff inspected_def split: if_splits\<close>)
      moreover have "data w' (mo_destination o2) = data w3 (mo_destination o2)"
        using 4(2) assms(8) oper o2(3) by auto
      ultimately show ?thesis using ins o2(2,3) 2(2) assms(5,6) by (auto simp: arrived_def inspected_def split: if_splits)
    qed
    with 2(5) 3 4 assms(3) first [OF moved(2)] show ?thesis by auto
  qed
  then show "ok w'" and "has_error err' \<Longrightarrow> q \<notin> mo_destination ` set ops \<Longrightarrow> data w' q = data w q"
    and "q \<notin> mo_destination ` set ops \<Longrightarrow> q \<notin> mo_source ` set ops - set dests \<Longrightarrow> data w' q = data w q"
    and "\<not> has_error err' \<Longrightarrow> distinct (map mo_destination ops) \<Longrightarrow> oper \<in> set ops \<Longrightarrow>
      arrived E ok data flags (data w) (mo_source oper) (mo_destination oper) (data w' (mo_destination oper))"
    and "\<not> has_error err' \<Longrightarrow> flags = Fail_if_exist \<Longrightarrow> i < num_files (ts_files t) \<Longrightarrow> \<not> pad_file_at (ts_files t) i \<Longrightarrow>
      said_missing E ok data (data w) (dests ! i)"
    by blast+
qed

end

section \<open>The whole move\<close>

text \<open>The files that are stored, and the plan in terms of them.\<close>

definition stored_files :: "torrent_storage \<Rightarrow> nat set" where
  "stored_files t = {i. i < num_files (ts_files t) \<and> \<not> pad_file_at (ts_files t) i}"

lemma plan_operation:
  "oper \<in> set (plan_operations t dests) \<longleftrightarrow>
     (\<exists>i \<in> stored_files t. ts_paths t ! i \<noteq> dests ! i \<and> oper = new_operation i (ts_paths t ! i) (dests ! i))"
  by (auto simp: plan_operations_def stored_files_def)

lemma new_operation_simps [simp]:
  "mo_index (new_operation i a b) = i" "mo_source (new_operation i a b) = a" "mo_destination (new_operation i a b) = b"
  "\<not> mo_copy (new_operation i a b)"
  by (simp_all add: new_operation_def)

lemma destination_taken_iff:
  "destination_taken t oper \<longleftrightarrow> (\<exists>j \<in> stored_files t. j \<noteq> mo_index oper \<and> mo_destination oper = ts_paths t ! j)"
  by (auto simp: destination_taken_def list_ex_iff stored_files_def)

lemma rooted_path_inj [simp]: "rooted_path root a = rooted_path root b \<longleftrightarrow> a = b"
  by (simp add: rooted_path_def)

lemma plan_distinct:
  assumes "torrent_inv t" "inj_on (\<lambda>i. ts_logical_paths t ! i) (stored_files t)"
  shows "distinct (map mo_destination (plan_operations t (move_destinations t r)))"
proof -
  have "inj_on (\<lambda>i. move_destinations t r ! i) (stored_files t)"
    using assms by (auto simp: inj_on_def move_destinations_def torrent_inv_def stored_files_def)
  then show ?thesis
    by (auto simp: plan_operations_def distinct_map comp_def stored_files_def intro: inj_on_subset)
qed

context stored_world
begin

lemma move_storage_data:
  assumes "move_storage E t storage root flags st no_error d = Some (t', st', err', d')" "ok (world d)" "torrent_inv t"
  defines "new \<equiv> move_destinations t (normalized_save_root root)"
    and "D \<equiv> data (world d)" and "D' \<equiv> data (world d')"
  shows "has_error err' \<Longrightarrow> i \<in> stored_files t \<Longrightarrow> D' (ts_paths t ! i) = D (ts_paths t ! i)"
    and "q \<notin> set new \<Longrightarrow> q \<notin> set (ts_paths t) \<Longrightarrow> D' q = D q"
    and "i \<in> stored_files t \<Longrightarrow> j \<in> stored_files t \<Longrightarrow> i \<noteq> j \<Longrightarrow> ts_paths t ! i \<noteq> new ! i \<Longrightarrow> new ! i = ts_paths t ! j \<Longrightarrow>
      has_error err'"
    and "\<not> has_error err' \<Longrightarrow> i \<in> stored_files t \<Longrightarrow> ts_paths t ! i = new ! i \<Longrightarrow> D' (new ! i) = D (new ! i)"
    and "\<not> has_error err' \<Longrightarrow> inj_on (\<lambda>i. ts_logical_paths t ! i) (stored_files t) \<Longrightarrow> i \<in> stored_files t \<Longrightarrow>
      ts_paths t ! i \<noteq> new ! i \<Longrightarrow> arrived E ok data flags D (ts_paths t ! i) (new ! i) (D' (new ! i))"
    and "\<not> has_error err' \<Longrightarrow> flags = Fail_if_exist \<Longrightarrow> i \<in> stored_files t \<Longrightarrow> said_missing E ok data D (new ! i)"
proof -
  let ?d0 = "close_storage E storage d" and ?ops = "plan_operations t new"
  have 0: "ok (world ?d0)" "data (world ?d0) = D" using close_storage_view [OF assms(2)] by (simp_all add: D_def)
  have len: "length new = num_files (ts_files t)" "length (ts_paths t) = num_files (ts_files t)"
    using assms(3) by (simp_all add: new_def move_destinations_def torrent_inv_def)
  have all: "(has_error err' \<longrightarrow> (\<forall>i \<in> stored_files t. D' (ts_paths t ! i) = D (ts_paths t ! i)))
    \<and> (\<forall>q. q \<notin> set new \<longrightarrow> q \<notin> set (ts_paths t) \<longrightarrow> D' q = D q)
    \<and> (\<forall>i \<in> stored_files t. \<forall>j \<in> stored_files t. i \<noteq> j \<longrightarrow> ts_paths t ! i \<noteq> new ! i \<longrightarrow> new ! i = ts_paths t ! j \<longrightarrow> has_error err')
    \<and> (\<not> has_error err' \<longrightarrow> (\<forall>i \<in> stored_files t. ts_paths t ! i = new ! i \<longrightarrow> D' (new ! i) = D (new ! i)))
    \<and> (\<not> has_error err' \<longrightarrow> inj_on (\<lambda>i. ts_logical_paths t ! i) (stored_files t) \<longrightarrow> (\<forall>i \<in> stored_files t.
        ts_paths t ! i \<noteq> new ! i \<longrightarrow> arrived E ok data flags D (ts_paths t ! i) (new ! i) (D' (new ! i))))
    \<and> (\<not> has_error err' \<longrightarrow> flags = Fail_if_exist \<longrightarrow> (\<forall>i \<in> stored_files t. said_missing E ok data D (new ! i)))"
    using assms(1)
  proof (cases rule: move_storageE)
    case rejected
    with 0 show ?thesis by (simp add: D'_def)
  next
    case (refused v w)
    with validate_view [OF 0(1) refused(6)] 0 show ?thesis by (simp add: D'_def)
  next
    case (validated v w)
    have w: "ok w" "data w = D" using validated(3) 0 validate_view [OF 0(1)] by (auto split: if_splits)
    have free: "new ! i \<noteq> ts_paths t ! j"
      if "i \<in> stored_files t" "j \<in> stored_files t" "i \<noteq> j" "ts_paths t ! i \<noteq> new ! i" for i j
    proof -
      have "new_operation i (ts_paths t ! i) (new ! i) \<in> set ?ops" using that by (auto simp: plan_operation)
      with validated(2) have "\<not> destination_taken t (new_operation i (ts_paths t ! i) (new ! i))" by (simp add: new_def)
      with that show ?thesis by (auto simp: destination_taken_iff)
    qed
    have outside: "ts_paths t ! i \<notin> mo_destination ` set ?ops" if "i \<in> stored_files t" for i
      using free that by (force simp: plan_operation)
    show ?thesis
    proof (cases "flags = Reset_save_path \<or> flags = Reset_save_path_unchecked")
      case True
      with validated(5) have "world d' = w" "err' = no_error" by auto
      with True w free show ?thesis by (auto simp: D'_def arrived_def)
    next
      case False
      with validated(5) have run: "move_files E t (normalized_save_root root) new ?ops flags st no_error w
          = Some (t', st', err', world d')"
        by (simp add: new_def)
      have idle: "list_all (\<lambda>oper. \<not> mo_copy oper) ?ops" by (auto simp: list_all_iff plan_operation)
      have "mo_source oper \<notin> mo_destination ` set ?ops" if oper: "oper \<in> set ?ops" for oper
      proof -
        obtain i where "i \<in> stored_files t" "mo_source oper = ts_paths t ! i" using oper by (auto simp: plan_operation)
        with outside show ?thesis by simp
      qed
      then have disj: "mo_source ` set ?ops \<inter> mo_destination ` set ?ops = {}" by blast
      have sub: "mo_destination ` set ?ops \<subseteq> set new" "mo_source ` set ?ops \<subseteq> set (ts_paths t)"
        using len by (auto simp: plan_operation stored_files_def)
      have flags: "flags \<noteq> Reset_save_path" "flags \<noteq> Reset_save_path_unchecked" using False by auto
      note m = move_files_data [OF run w(1) has_error_no_error idle flags disj sub(1), unfolded w(2), folded D'_def]
      have dist: "distinct (map mo_destination ?ops)" if "inj_on (\<lambda>i. ts_logical_paths t ! i) (stored_files t)"
        using plan_distinct [OF assms(3) that] by (simp add: new_def)
      have "arrived E ok data flags D (ts_paths t ! i) (new ! i) (D' (new ! i))"
        if "\<not> has_error err'" "inj_on (\<lambda>i. ts_logical_paths t ! i) (stored_files t)" "i \<in> stored_files t"
          "ts_paths t ! i \<noteq> new ! i" for i
        using m(4) [OF that(1) dist [OF that(2)], of "new_operation i (ts_paths t ! i) (new ! i)"] that(3,4)
        by (auto simp: plan_operation)
      moreover have "D' (new ! i) = D (new ! i)" if "i \<in> stored_files t" "ts_paths t ! i = new ! i" for i
        using m(3) [of "new ! i"] outside [OF that(1)] that len by (simp add: stored_files_def)
      moreover have "D' q = D q" if "q \<notin> set new" "q \<notin> set (ts_paths t)" for q
        using m(3) [of q] sub that by blast
      moreover have "said_missing E ok data D (new ! i)"
        if "\<not> has_error err'" "flags = Fail_if_exist" "i \<in> stored_files t" for i
        using m(5) [OF that(1,2)] that(3) by (simp add: stored_files_def)
      ultimately show ?thesis using m(2) outside free by blast
    qed
  qed
  show "has_error err' \<Longrightarrow> i \<in> stored_files t \<Longrightarrow> D' (ts_paths t ! i) = D (ts_paths t ! i)"
    "q \<notin> set new \<Longrightarrow> q \<notin> set (ts_paths t) \<Longrightarrow> D' q = D q"
    "i \<in> stored_files t \<Longrightarrow> j \<in> stored_files t \<Longrightarrow> i \<noteq> j \<Longrightarrow> ts_paths t ! i \<noteq> new ! i \<Longrightarrow> new ! i = ts_paths t ! j \<Longrightarrow>
      has_error err'"
    "\<not> has_error err' \<Longrightarrow> i \<in> stored_files t \<Longrightarrow> ts_paths t ! i = new ! i \<Longrightarrow> D' (new ! i) = D (new ! i)"
    "\<not> has_error err' \<Longrightarrow> inj_on (\<lambda>i. ts_logical_paths t ! i) (stored_files t) \<Longrightarrow> i \<in> stored_files t \<Longrightarrow>
      ts_paths t ! i \<noteq> new ! i \<Longrightarrow> arrived E ok data flags D (ts_paths t ! i) (new ! i) (D' (new ! i))"
    "\<not> has_error err' \<Longrightarrow> flags = Fail_if_exist \<Longrightarrow> i \<in> stored_files t \<Longrightarrow> said_missing E ok data D (new ! i)"
    using all by blast+
qed

end

section \<open>The audited bridge and the bridge in memory\<close>

lemma audit_calls:
  "br_create_directory (audit E) p w = (r, w') \<Longrightarrow> br_create_directory E p (fst w) = (r, fst w')"
  "clock_now (audit E) w = (r, w') \<Longrightarrow> clock_now E (fst w) = (r, fst w')"
  "br_open_file (audit E) p m w = (r, w') \<Longrightarrow> br_open_file E p m (fst w) = (r, fst w')"
  "sys_pread (audit E) fd n off w = (got, w') \<Longrightarrow> sys_pread E fd n off (fst w) = (got, fst w')"
  "sys_pwrite (audit E) fd bs off w = (put, w') \<Longrightarrow> sys_pwrite E fd bs off (fst w) = (put, fst w')"
  "sys_ftruncate (audit E) fd n w = (e, w') \<Longrightarrow> sys_ftruncate E fd n (fst w) = (e, fst w')"
  "br_remove (audit E) p rec w = (r, w') \<Longrightarrow> br_remove E p rec (fst w) = (r, fst w')"
  "br_validate_path (audit E) p w = (r, w') \<Longrightarrow> br_validate_path E p (fst w) = (r, fst w')"
  "br_file_size (audit E) p w = (r, w') \<Longrightarrow> br_file_size E p (fst w) = (r, fst w')"
  "fst (sys_close (audit E) fd w) = sys_close E fd (fst w)"
  by (auto simp: audit_def logged_eq split: prod.splits)

lemma stored_world_audit:
  assumes "stored_world E pending ok on_path data"
  shows "stored_world (audit E) (pending \<circ> fst) (ok \<circ> fst) (on_path \<circ> fst) (data \<circ> fst)"
proof -
  have f: "file_world E pending ok on_path data" using assms by (rule stored_world.axioms)
  have posix: "posix_io (audit E) (pending \<circ> fst)" by (rule posix_io_audit [OF file_world.axioms(1) [OF f]])
  have files: "file_world (audit E) (pending \<circ> fst) (ok \<circ> fst) (on_path \<circ> fst) (data \<circ> fst)"
  proof (intro file_world.intro file_world_axioms.intro posix, unfold comp_apply, goal_cases)
    case 1 then show ?case using file_world.mkdir_view [OF f] audit_calls(1) by blast
  next
    case 2 then show ?case using file_world.clock_view [OF f] audit_calls(2) by blast
  next
    case 3 then show ?case using file_world.refused_view [OF f] audit_calls(3) by blast
  next
    case 4 then show ?case using file_world.open_view [OF f] audit_calls(3) by blast
  next
    case 5 then show ?case using file_world.close_view [OF f] by (simp add: audit_calls(10))
  next
    case 6 then show ?case using file_world.pread_view [OF f] audit_calls(4) by blast
  next
    case 7 then show ?case using file_world.pread_data [OF f] audit_calls(4) by blast
  next
    case 8 then show ?case using file_world.pwrite_fail [OF f] audit_calls(5) by blast
  next
    case 9 then show ?case using file_world.pwrite_data [OF f] audit_calls(5) by blast
  next
    case 10 then show ?case using file_world.ftruncate_fail [OF f] audit_calls(6) by blast
  next
    case 11 then show ?case using file_world.ftruncate_data [OF f] audit_calls(6) by blast
  next
    case 12 then show ?case using file_world.remove_view [OF f] audit_calls(7) by blast
  qed
  show ?thesis
  proof (intro stored_world.intro files stored_world_axioms.intro, unfold comp_apply, goal_cases)
    case 1 then show ?case using stored_world.validate_view [OF assms] audit_calls(8) by blast
  next
    case 2 then show ?case using stored_world.size_view [OF assms] audit_calls(9) by blast
  next
    case 3 then show ?case using stored_world.size_data [OF assms] audit_calls(9) by blast
  qed
qed

lemma said_audit [simp]:
  "said_present (audit E) (ok \<circ> fst) (data \<circ> fst) D p = said_present E ok data D p"
  "said_missing (audit E) (ok \<circ> fst) (data \<circ> fst) D p = said_missing E ok data D p"
  by (auto simp: said_present_def said_missing_def audit_def)

lemma arrived_audit [simp]:
  "arrived (audit E) (ok \<circ> fst) (data \<circ> fst) flags D old new result = arrived E ok data flags D old new result"
  by (simp add: arrived_def)

interpretation memory_store: stored_world memory_env mb_interrupts memory_ok memory_on_path memory_data
proof (unfold_locales, goal_cases)
  case (1 w p r w')
  from 1(2)[unfolded memory_env_def, simplified] 1(1) show ?case
  proof (cases rule: failing_cases)
    case works
    then show ?thesis using 1(1) by simp
  qed simp
next
  case (2 w p sz w')
  from 2(2)[unfolded memory_env_def, simplified, unfolded memory_file_size_def] 2(1) show ?case
  proof (cases rule: failing_cases)
    case works
    then show ?thesis using 2(1) by (auto split: option.splits)
  qed simp
next
  case (3 w p sz w')
  from 3(2)[unfolded memory_env_def, simplified, unfolded memory_file_size_def] 3(1) show ?case
  proof (cases rule: failing_cases)
    case works
    then show ?thesis using 3(3) by (auto simp: memory_data_def split: option.splits)
  qed (use 3(3) in simp)
qed

end
