(* ===== verification/Storage_Properties.thy ===== *)
theory Storage_Properties
  imports Moves
begin

text \<open>
  What the components of the disk backend promise: the path checks, the torrents, the descriptor pool,
  the checks of resume data, moving a torrent and changing priorities. Each theorem has an application
  to the bridge in memory.
\<close>

definition demo_torrent :: torrent_storage where
  "demo_torrent = \<lparr>ts_files = demo_layout, ts_priorities = [4], ts_logical_paths = [''d/f''],
     ts_paths = [''t/d/f''], ts_save_root = ''t'', ts_info_hash = [], ts_part_path = ''p''\<rparr>"

definition demo_pool :: "memory disk" where
  "demo_pool = \<lparr>m_descriptors = [], m_descriptor_limit = 2, m_use_counter = 0, world = empty_memory\<rparr>"

lemma plain_letter [simp]: "c \<noteq> CHR ''.'' \<Longrightarrow> plain_component [c]"
  by (simp add: plain_component_def)

lemma demo_torrent_safe: "torrent_safe demo_torrent"
  by (simp add: demo_torrent_def demo_layout_def torrent_safe_def torrent_inv_def rooted_path_def
      safe_relative_path_iff normalized_save_root_def flow_session_root_def)

lemma demo_pool_inv: "pool_inv demo_pool" "within_limit demo_pool" "use_order demo_pool"
  by (simp_all add: demo_pool_def pool_inv_def within_limit_def use_order_def)

section \<open>Paths\<close>

text \<open>C20. The loop over separator positions of \<^verbatim>\<open>safe_relative_path\<close> decides exactly this: no component of the
  path is empty, \<^verbatim>\<open>.\<close> or \<^verbatim>\<open>..\<close>, and the path has no backslash and no NUL.\<close>

theorem safe_relative_path_decides:
  "safe_relative_path path \<longleftrightarrow>
     list_all plain_component (components path) \<and> backslash \<notin> set path \<and> NUL \<notin> set path"
  by (simp add: safe_relative_path_iff list_all_iff)

text \<open>C21. A checked path stays beneath its save root: resolving the joined path lexically, with \<^verbatim>\<open>.\<close> and \<^verbatim>\<open>..\<close>
  interpreted, never climbs, and names the components of the root followed by those of the path.\<close>

theorem rooted_path_stays_beneath:
  assumes "root = [] \<or> safe_relative_path root" and "safe_relative_path relative"
  shows "resolve [] (components (rooted_path root relative)) =
    Some ((if root = [] then [] else components root) @ components relative)"
proof -
  have "safe_relative_path (rooted_path root relative)" using assms by (simp add: safe_rooted_path)
  then show ?thesis by (simp add: resolve_safe) (simp add: rooted_path_def components_append_slash)
qed

theorem rooted_path_stays_beneath_witness:
  "resolve [] (components (rooted_path ''t'' ''d/f'')) = Some [''t'', ''d'', ''f'']"
  using rooted_path_stays_beneath [of "''t''" "''d/f''"] by (simp add: safe_relative_path_iff)

text \<open>The save root is emptied exactly for the sentinel of the session root, alone or as the last component
  of a path; every other path is kept as it is, and normalizing twice changes nothing more.\<close>

theorem normalized_save_root_sentinels:
  "normalized_save_root p = (if p = flow_session_root \<or> (\<exists>q. p = q @ slash # flow_session_root) then [] else p)
   \<and> normalized_save_root (normalized_save_root p) = normalized_save_root p"
proof -
  let ?s = "slash # flow_session_root"
  have "(length p \<ge> length ?s \<and> drop (length p - length ?s) p = ?s) \<longleftrightarrow> (\<exists>q. p = q @ ?s)"
    by (metis append_eq_conv_conj append_take_drop_id diff_add_inverse2 le_add2 length_append)
  then show ?thesis by (simp add: normalized_save_root_def Let_def)
qed

section \<open>Torrents\<close>

text \<open>C22. Building a torrent checks its save root: an unsafe root is refused without a call to the bridge, a root
  the bridge rejects is refused, and a torrent that is built has one path per file, the renamed path beneath
  the root, and one priority per file, the given one or the default.\<close>

theorem new_torrent_storage_result:
  assumes "new_torrent_storage E params w = (res, w')"
  defines "root \<equiv> normalized_save_root (sp_path params)"
  shows "case res of
      Inl exn \<Rightarrow> root \<noteq> [] \<and> (\<not> safe_relative_path root \<and> w' = w \<or> fst (br_validate_path E root w) < 0)
    | Inr t \<Rightarrow> torrent_inv t \<and> (root = [] \<or> safe_relative_path root \<and> 0 \<le> fst (br_validate_path E root w))
        \<and> ts_paths t = map (\<lambda>i. rooted_path root (sp_renamed_path params i)) [0 ..< num_files (sp_files params)]
        \<and> ts_priorities t = resize (num_files (sp_files params)) default_priority (sp_priorities params)"
proof (cases res)
  case (Inl exn)
  with assms(1) show ?thesis
    by (auto simp: new_torrent_storage_def check_save_root_def Let_def root_def split: prod.splits if_splits)
next
  case (Inr t)
  with assms(1) new_torrent_storage_inv(1) [of E params w t w'] show ?thesis
    by (auto simp: new_torrent_storage_def check_save_root_def Let_def root_def split: prod.splits if_splits)
qed

theorem new_torrent_storage_result_witness:
  "\<exists>t w'. new_torrent_storage memory_env demo_params empty_memory = (Inr t, w') \<and> ts_paths t = [''t/d/f'']"
proof -
  have root: "normalized_save_root (sp_path demo_params) = ''t''" and safe: "safe_relative_path ''t''"
    by (simp_all add: demo_params_def normalized_save_root_def flow_session_root_def safe_relative_path_iff)
  have ok: "br_validate_path memory_env ''t'' empty_memory = (0, empty_memory)"
    by (simp add: memory_env_def failing_def empty_memory_def)
  obtain res w' where r: "new_torrent_storage memory_env demo_params empty_memory = (res, w')" by (metis surj_pair)
  with new_torrent_storage_result [OF r] show ?thesis unfolding root
    by (cases res) (auto simp: safe ok demo_params_def demo_layout_def rooted_path_def)
qed

section \<open>The descriptor pool\<close>

text \<open>C19. \<^verbatim>\<open>open_file\<close> always returns. It keeps the pool distinct, its paths safe, its size within the limit and
  its use order; either it gives a descriptor of the pool, held for this storage, file and path, writable
  if that was asked for and now the most recently used, or it gives \<open>-1\<close> and an error.\<close>

theorem open_file_correct:
  assumes "pool_inv d" "within_limit d" "use_order d" "m_use_counter d \<noteq> - 1"
  shows "\<exists>r err d'. open_file E storage f path wr error oper d = Some (r, err, d')
    \<and> pool_inv d' \<and> within_limit d' \<and> use_order d'
    \<and> (if 0 \<le> r then err = error \<and> (\<exists>x. newest x d' \<and> od_descriptor x = r
          \<and> pool_key x = (storage, f, path) \<and> (wr \<longrightarrow> od_writable x))
       else r = - 1 \<and> has_error err)"
proof -
  have "1 \<le> m_descriptor_limit d" using assms(1) by (simp add: pool_inv_def)
  from open_file_returns [OF this] obtain r err d' where
    o: "open_file E storage f path wr error oper d = Some (r, err, d')" by blast
  show ?thesis
    using o open_file_pool_inv [OF o assms(1)] open_file_within_limit [OF o assms(2)]
      open_file_newest [OF o assms(3,4)] open_file_result [OF o assms(1)] by auto
qed

theorem open_file_correct_witness:
  "\<exists>d'. open_file memory_env 0 0 ''f'' True no_error Op_file_open demo_pool = Some (3, no_error, d')
     \<and> (\<exists>x. newest x d' \<and> od_descriptor x = 3)"
proof -
  have c: "m_use_counter demo_pool \<noteq> - 1" by (simp add: demo_pool_def)
  have "\<exists>e d'. open_file memory_env 0 0 ''f'' True no_error Op_file_open demo_pool = Some (3, e, d')"
    by (simp add: open_file_def demo_pool_def open_uncached_def ensure_parent_directories_def safe_relative_path_iff
        make_directories.simps find_from_def evict_to_limit.simps memory_env_def memory_open_file_def failing_def
        new_descriptor_def empty_memory_def bridge_open_read_def bridge_open_read_write_def)
  with open_file_correct [OF demo_pool_inv c, of memory_env 0 0 "''f''" True no_error Op_file_open]
  show ?thesis by auto
qed

lemma erase_at_filter:
  assumes "distinct xs" "i < length xs"
  shows "erase_at i xs = filter (\<lambda>y. y \<noteq> xs ! i) xs"
proof -
  have keep: "z \<notin> set ys \<Longrightarrow> filter (\<lambda>y. y \<noteq> z) ys = ys" for z and ys :: "'a list" by (induction ys) auto
  have split: "xs = take i xs @ xs ! i # drop (Suc i) xs" by (rule id_take_nth_drop [OF assms(2)])
  have "distinct (take i xs @ xs ! i # drop (Suc i) xs)" using assms(1) split by simp
  then have "filter (\<lambda>y. y \<noteq> xs ! i) (take i xs @ xs ! i # drop (Suc i) xs) = erase_at i xs"
    by (simp add: keep erase_at_def)
  with split show ?thesis by simp
qed

text \<open>C40. Eviction: the entry \<^verbatim>\<open>evict_one\<close> takes from a pool that is not empty is the one used least recently, its descriptor
  is closed and the others stay in order.\<close>

theorem evict_one_least_recent:
  assumes "m_descriptors d \<noteq> []" and "use_order d"
  shows "\<exists>x \<in> set (m_descriptors d). (\<forall>y \<in> set (m_descriptors d). y = x \<or> od_last_use x < od_last_use y)
    \<and> evict_one E d = d\<lparr>m_descriptors := filter (\<lambda>y. y \<noteq> x) (m_descriptors d),
                        world := sys_close E (od_descriptor x) (world d)\<rparr>"
proof -
  let ?ds = "m_descriptors d"
  let ?i = "oldest ?ds"
  let ?x = "?ds ! ?i"
  have i: "?i < length ?ds" and min: "\<forall>y \<in> set ?ds. od_last_use ?x \<le> od_last_use y"
    using oldest_minimal [OF assms(1)] by auto
  have inj: "inj_on od_last_use (set ?ds)" and dist: "distinct ?ds"
    using assms(2) by (simp_all add: use_order_def distinct_map)
  have "\<forall>y \<in> set ?ds. y = ?x \<or> od_last_use ?x < od_last_use y"
  proof
    fix y assume y: "y \<in> set ?ds"
    with min inj i show "y = ?x \<or> od_last_use ?x < od_last_use y"
      by (metis inj_onD nth_mem order_le_neq_trans)
  qed
  moreover have "erase_at ?i ?ds = filter (\<lambda>y. y \<noteq> ?x) ?ds" by (rule erase_at_filter [OF dist i])
  ultimately show ?thesis using assms(1) i by (auto simp: evict_one_def Let_def intro!: bexI [of _ ?x])
qed

definition demo_entry :: "nat \<Rightarrow> open_descriptor" where
  "demo_entry i = new_entry 0 (int i) [CHR ''f''] (int i + 3) False (of_nat (9 - i)) 0"

theorem evict_one_least_recent_witness:
  "m_descriptors (evict_one memory_env
      (demo_pool\<lparr>m_descriptors := [demo_entry 1, demo_entry 3, demo_entry 2], m_use_counter := 9\<rparr>))
    = [demo_entry 1, demo_entry 2]"
proof -
  let ?d = "demo_pool\<lparr>m_descriptors := [demo_entry 1, demo_entry 3, demo_entry 2], m_use_counter := 9\<rparr>"
  have o: "use_order ?d" "m_descriptors ?d \<noteq> []"
    by (simp_all add: use_order_def demo_entry_def new_entry_def)
  from evict_one_least_recent [OF o(2,1), of memory_env] show ?thesis
    by (auto simp: demo_entry_def new_entry_def)
qed

section \<open>Resume data\<close>

theorem validate_resume_verdict_witness:
  "\<exists>w'. validate_resume (memory_env\<lparr>br_file_size := \<lambda>p w. (5, w)\<rparr>) demo_torrent \<lparr>seed_mode = True, have_pieces = []\<rparr>
     {} no_error empty_memory = ({Need_full_check, Oversized_file}, no_error, w')"
proof -
  let ?E = "memory_env\<lparr>br_file_size := \<lambda>p w. (5, w)\<rparr>"
  let ?r = "\<lparr>seed_mode = True, have_pieces = []\<rparr>"
  obtain st err w' where v: "validate_resume ?E demo_torrent ?r {} no_error empty_memory = (st, err, w')"
    by (metis prod_cases3)
  have files: "resume_files demo_torrent ?r = {0}" "resume_full demo_torrent ?r"
    by (auto simp: resume_files_def resume_full_def demo_torrent_def demo_layout_def)
  have "verdict (\<lambda>_. 5) demo_torrent True (looked demo_torrent True {0}) st err"
    using validate_resume_verdict [OF _ _ v, of "\<lambda>_. 5"] files
    by (simp add: stable_sizes_def demo_torrent_def demo_layout_def)
  with v show ?thesis
    by (simp add: verdict_def looked_def looked_at_def size_unknown_def resume_flags_def size_mismatch_def
        size_exceeded_def demo_torrent_def demo_layout_def insert_commute)
qed

section \<open>Moving and reprioritizing\<close>

text \<open>C13. Moving a torrent is all or nothing. With an error the torrent keeps its paths, no file is removed and every
  stored file still has its bytes at its old path; an error there is, before any file is touched, when the new path of one
  file is the current path of another. Without an error the torrent has the new save root, only old paths that are
  not a new path of the torrent were removed, a file that stays in place is unchanged, and a file that moves has arrived,
  provided no two stored files have the same name; with \<^verbatim>\<open>fail_if_exist\<close> nothing was at the new paths. No other
  file changes, and the pool holds nothing of the torrent any more.\<close>

theorem move_storage_all_or_nothing:
  assumes "move_storage (audit E) t storage root flags st no_error d = Some (t', st', err', d')"
    and "stored_world E pending ok on_path data" "ok (fst (world d))" and "torrent_safe t"
    and "normalized_save_root root = [] \<or> safe_relative_path (normalized_save_root root)"
    and "clean_world (owned d) (world d)"
    and "new = move_destinations t (normalized_save_root root)"
    and "D = data (fst (world d))" "D' = data (fst (world d'))"
  shows "clean_world (owned d') (world d') \<and> (\<forall>x \<in> set (m_descriptors d'). od_storage x \<noteq> storage)
    \<and> (if has_error err'
       then t' = t \<and> removed_paths (snd (world d')) = removed_paths (snd (world d))
         \<and> (\<forall>i \<in> stored_files t. D' (ts_paths t ! i) = D (ts_paths t ! i))
       else t' = set_save_root t root
         \<and> (\<exists>ps. removed_paths (snd (world d')) = ps @ removed_paths (snd (world d)) \<and> set ps \<subseteq> set (ts_paths t) - set new)
         \<and> (\<forall>i \<in> stored_files t. ts_paths t ! i = new ! i \<longrightarrow> D' (new ! i) = D (new ! i))
         \<and> (inj_on (\<lambda>i. ts_logical_paths t ! i) (stored_files t) \<longrightarrow>
              (\<forall>i \<in> stored_files t. ts_paths t ! i \<noteq> new ! i \<longrightarrow> arrived E ok data flags D (ts_paths t ! i) (new ! i) (D' (new ! i))))
         \<and> (flags = Fail_if_exist \<longrightarrow> (\<forall>i \<in> stored_files t. said_missing E ok data D (new ! i))))
    \<and> (\<forall>q. q \<notin> set new \<longrightarrow> q \<notin> set (ts_paths t) \<longrightarrow> D' q = D q)
    \<and> (\<forall>i \<in> stored_files t. \<forall>j \<in> stored_files t.
         i \<noteq> j \<longrightarrow> ts_paths t ! i \<noteq> new ! i \<longrightarrow> new ! i = ts_paths t ! j \<longrightarrow> has_error err')"
proof -
  have posix: "posix_io E pending" using assms(2) by (simp add: stored_world_def file_world_def)
  have inv: "torrent_inv t" using assms(4) by (simp add: torrent_safe_def)
  note o = move_storage_outcome [where L = "{#}", OF assms(1) posix assms(4,5)]
  note m = stored_world.move_storage_data [OF stored_world_audit [OF assms(2)] assms(1) _ inv, unfolded comp_apply,
      OF assms(3), folded comp_def]
  note m = m [folded assms(7,8,9)]
  show ?thesis
    using o assms(6,7) m by (simp add: move_outcome_def)
qed

text \<open>Two files, the second where the first would move.\<close>

definition collision_torrent :: torrent_storage where
  "collision_torrent = \<lparr>ts_files = demo_layout\<lparr>num_files := 2\<rparr>, ts_priorities = [4, 4], ts_logical_paths = [''x'', ''n/x''],
     ts_paths = [''x'', ''n/x''], ts_save_root = [], ts_info_hash = [], ts_part_path = ''p''\<rparr>"

definition collision_memory :: memory where
  "collision_memory = empty_memory\<lparr>mb_contents := [[1], [2]], mb_files := [(''x'', 0), (''n/x'', 1)]\<rparr>"

theorem move_storage_all_or_nothing_witness:
  "\<exists>t' st' err' d'. move_storage (audit memory_env) collision_torrent 0 ''n'' Always_replace_files {} no_error
      (initial_saf 2 (collision_memory, [])) = Some (t', st', err', d')
    \<and> has_error err' \<and> memory_data (fst (world d')) ''x'' = [1] \<and> memory_data (fst (world d')) ''n/x'' = [2]"
proof -
  let ?d = "initial_saf 2 (collision_memory, [] :: trace)" and ?t = collision_torrent
  have root: "normalized_save_root ''n'' = ''n''" "safe_relative_path ''n''"
    by (simp_all add: normalized_save_root_def flow_session_root_def safe_relative_path_iff)
  obtain t' st' err' d' where m: "move_storage (audit memory_env) ?t 0 ''n'' Always_replace_files {} no_error ?d
      = Some (t', st', err', d')"
    using move_storage_returns [OF posix_io_audit [OF memory.posix_io_axioms]] by blast
  have clean: "clean_world (owned ?d) (world ?d)" using initial_clean [of 2 collision_memory] by (simp add: clean_saf_def)
  have safe: "torrent_safe ?t"
    by (simp add: collision_torrent_def demo_layout_def torrent_safe_def torrent_inv_def rooted_path_def
        safe_relative_path_iff normalized_save_root_def flow_session_root_def less_Suc_eq numeral_2_eq_2)
  have w: "world ?d = (collision_memory, [])" "memory_ok collision_memory"
    by (auto simp: initial_saf_def set_descriptor_limit_def collision_memory_def memory_ok_def empty_memory_def)
  have files: "stored_files ?t = {0, 1}" "ts_paths ?t = [''x'', ''n/x'']" "move_destinations ?t ''n'' = [''n/x'', ''n/n/x'']"
    by (auto simp: stored_files_def collision_torrent_def demo_layout_def move_destinations_def rooted_path_def)
  have "memory_data collision_memory ''x'' = [1]" "memory_data collision_memory ''n/x'' = [2]"
    by (simp_all add: memory_data_def collision_memory_def)
  with move_storage_all_or_nothing [OF m memory_store.stored_world_axioms _ safe _ clean refl refl refl] root w files
  have "has_error err' \<and> memory_data (fst (world d')) ''x'' = [1] \<and> memory_data (fst (world d')) ''n/x'' = [2]"
    by (auto split: if_splits)
  with m show ?thesis by blast
qed

text \<open>The file cannot be opened, so it keeps its priority.\<close>

definition unreadable_pool :: "memory disk" where
  "unreadable_pool = demo_pool\<lparr>world := empty_memory\<lparr>mb_failures := [(''open:t/d/f'', - 5)]\<rparr>\<rparr>"

theorem set_file_priority_prefix_witness:
  "\<exists>t' err' d'. set_file_priority memory_env 0 [0] demo_torrent no_error unreadable_pool = Some (t', err', d')
    \<and> has_error err' \<and> ts_priorities t' = [4]"
proof -
  have "case set_file_priority memory_env 0 [0] demo_torrent no_error unreadable_pool of
      None \<Rightarrow> False | Some (t', err', d') \<Rightarrow> has_error err'"
    by code_simp
  then obtain t' err' d' where m: "set_file_priority memory_env 0 [0] demo_torrent no_error unreadable_pool = Some (t', err', d')"
    and e: "has_error err'"
    by (cases "set_file_priority memory_env 0 [0] demo_torrent no_error unreadable_pool") auto
  have len: "length [0] = num_files (ts_files demo_torrent)" by (simp add: demo_torrent_def demo_layout_def)
  have inv: "torrent_inv demo_torrent" using demo_torrent_safe by (simp add: torrent_safe_def)
  have n: "num_files (ts_files demo_torrent) = 1" "ts_priorities demo_torrent = [4]"
    by (simp_all add: demo_torrent_def demo_layout_def)
  from set_file_priority_prefix [OF m inv len] e obtain k where
    "k < 1" "t' = demo_torrent\<lparr>ts_priorities := take k [0] @ drop k [4]\<rparr>"
    by (auto simp: n dont_download_def split: if_splits)
  with m e show ?thesis by auto
qed

section \<open>Contents of files\<close>

text \<open>C11. Writing a block implements the store of its slices: on success the whole block was taken and every file
  holds exactly what it held before with the slices of the block written over it, each to its own file, or
  to the part file when the file is not to be downloaded, and pad files swallowed.\<close>

theorem write_block_stores:
  assumes "file_world E pending ok on_path data" "pool_inv d" "bound ok on_path d"
    and "write_block E t storage request input no_error d = Some (n, err, d')" "\<not> has_error err"
    and "slices_size (map_block (ts_files t) (req_piece request) (req_start request) (req_length request)) = length input"
  shows "n = length input \<and> data (world d') = store_slices t input 0
    (map_block (ts_files t) (req_piece request) (req_start request) (req_length request)) (data (world d))"
  using file_world.write_slices_data [OF assms(1) assms(4)[unfolded write_block_def] assms(2,3)] assms(5,6) by simp

text \<open>C12. Reading a block implements the concatenation of its slices: on success the buffer holds what the files,
  the part file and the pad files hold in the ranges of the block, and no file has changed.\<close>

theorem read_block_loads:
  assumes "file_world E pending ok on_path data" "pool_inv d" "bound ok on_path d"
    and "read_block E t storage request output no_error d = Some (n, output', err, d')" "\<not> has_error err"
    and "slices_size (map_block (ts_files t) (req_piece request) (req_start request) (req_length request)) = length output"
  shows "n = length output \<and> data (world d') = data (world d) \<and> output' = block_data t (data (world d))
    (map_block (ts_files t) (req_piece request) (req_start request) (req_length request))"
  using file_world.read_slices_data [OF assms(1) assms(4)[unfolded read_block_def] assms(2,3)] assms(5,6) by simp

text \<open>C10. What was written is read back: a block read after it was written, both without error, is the block that
  was written, whatever the files held before and whatever the pool evicted in between, provided its slices
  do not overlap.\<close>

theorem read_after_write:
  assumes "file_world E pending ok on_path data" "pool_inv d" "bound ok on_path d"
    and "write_block E t storage request input no_error d = Some (n, err, d1)" "\<not> has_error err"
    and "read_block E t storage request output no_error d1 = Some (n2, output', err2, d2)" "\<not> has_error err2"
    and "sls = map_block (ts_files t) (req_piece request) (req_start request) (req_length request)"
    and "slices_disjoint t sls" "list_all (\<lambda>sl. \<not> pad_file_at (ts_files t) (slice_file sl)) sls"
    and "slices_size sls = length input" "length output = length input"
  shows "output' = input"
proof -
  have w: "write_slices E t storage sls input 0 no_error d = Some (n, err, d1)"
    using assms(4,8) by (simp add: write_block_def)
  have r: "read_slices E t storage sls output 0 no_error d1 = Some (n2, output', err2, d2)"
    using assms(6,8) by (simp add: read_block_def)
  from file_world.write_slices_data [OF assms(1) w assms(2,3)] assms(5,11)
  have 1: "bound ok on_path d1" "data (world d1) = store_slices t input 0 sls (data (world d))" by auto
  have 2: "pool_inv d1" by (rule write_slices_pool_inv [OF w assms(2)])
  from file_world.read_slices_data [OF assms(1) r 2 1(1)] assms(7,11,12)
  have "output' = block_data t (data (world d1)) sls" by auto
  with 1(2) store_slices_read_back [OF assms(9) _ assms(10), of 0 input] assms(11) show ?thesis by simp
qed

lemma demo_bound: "bound memory_ok memory_on_path demo_pool"
  by (simp add: bound_def demo_pool_def empty_memory_ok)

definition demo_written :: "nat \<times> storage_error \<times> memory disk" where
  "demo_written = the (write_block memory_env demo_torrent 0 demo_block [7, 8, 9, 10] no_error demo_pool)"

definition demo_read :: "nat \<times> byte list \<times> storage_error \<times> memory disk" where
  "demo_read = the (read_block memory_env demo_torrent 0 demo_block [0, 0, 0, 0] no_error (snd (snd demo_written)))"

lemma demo_transfers:
  "write_block memory_env demo_torrent 0 demo_block [7, 8, 9, 10] no_error demo_pool
     = Some (fst demo_written, fst (snd demo_written), snd (snd demo_written))"
  "\<not> has_error (fst (snd demo_written))"
  "read_block memory_env demo_torrent 0 demo_block [0, 0, 0, 0] no_error (snd (snd demo_written))
     = Some (fst demo_read, fst (snd demo_read), fst (snd (snd demo_read)), snd (snd (snd demo_read)))"
  "\<not> has_error (fst (snd (snd demo_read)))"
proof -
  have "case write_block memory_env demo_torrent 0 demo_block [7, 8, 9, 10] no_error demo_pool of
      None \<Rightarrow> False | Some (n, err, d) \<Rightarrow> \<not> has_error err"
    by code_simp
  then show w: "write_block memory_env demo_torrent 0 demo_block [7, 8, 9, 10] no_error demo_pool
     = Some (fst demo_written, fst (snd demo_written), snd (snd demo_written))"
    and "\<not> has_error (fst (snd demo_written))"
    by (auto simp: demo_written_def split: option.splits)
  have "case read_block memory_env demo_torrent 0 demo_block [0, 0, 0, 0] no_error (snd (snd demo_written)) of
      None \<Rightarrow> False | Some (n, out, err, d) \<Rightarrow> \<not> has_error err"
    by code_simp
  then show "read_block memory_env demo_torrent 0 demo_block [0, 0, 0, 0] no_error (snd (snd demo_written))
     = Some (fst demo_read, fst (snd demo_read), fst (snd (snd demo_read)), snd (snd (snd demo_read)))"
    and "\<not> has_error (fst (snd (snd demo_read)))"
    by (auto simp: demo_read_def split: option.splits)
qed

lemma demo_slices: "map_block (ts_files demo_torrent) (req_piece demo_block) (req_start demo_block) (req_length demo_block)
    = [\<lparr>slice_file = 0, slice_offset = 0, slice_size = 4\<rparr>]"
  "slices_size (map_block (ts_files demo_torrent) (req_piece demo_block) (req_start demo_block) (req_length demo_block)) = 4"
  by (simp_all add: demo_torrent_def demo_layout_def demo_block_def slices_size_def)

lemma demo_written_inv: "pool_inv (snd (snd demo_written))" "bound memory_ok memory_on_path (snd (snd demo_written))"
proof -
  have w: "write_slices memory_env demo_torrent 0 [\<lparr>slice_file = 0, slice_offset = 0, slice_size = 4\<rparr>] [7, 8, 9, 10] 0
      no_error demo_pool = Some (fst demo_written, fst (snd demo_written), snd (snd demo_written))"
    using demo_transfers(1) by (simp add: write_block_def demo_slices)
  show "pool_inv (snd (snd demo_written))" by (rule write_slices_pool_inv [OF w demo_pool_inv(1)])
  show "bound memory_ok memory_on_path (snd (snd demo_written))"
    using memory_files.write_slices_data [OF w demo_pool_inv(1) demo_bound] by simp
qed

lemma demo_slice: "slice_path demo_torrent \<lparr>slice_file = 0, slice_offset = 0, slice_size = 4\<rparr> = ''t/d/f''"
  "slice_base demo_torrent \<lparr>slice_file = 0, slice_offset = 0, slice_size = 4\<rparr> = 0"
  "\<not> pad_file_at (ts_files demo_torrent) 0"
  by (simp_all add: slice_path_def slice_base_def slice_part_def skipped_def demo_torrent_def demo_layout_def
      dont_download_def path_for_def)

lemma demo_empty: "memory_data (world demo_pool) = (\<lambda>_. [])"
  by (simp add: memory_data_def demo_pool_def empty_memory_def fun_eq_iff)

theorem write_block_stores_witness: "memory_data (world (snd (snd demo_written))) ''t/d/f'' = [7, 8, 9, 10]"
proof -
  have "slices_size (map_block (ts_files demo_torrent) (req_piece demo_block) (req_start demo_block)
      (req_length demo_block)) = length [7, 8, 9, 10 :: byte]"
    by (simp add: demo_slices)
  from write_block_stores [OF memory_files.file_world_axioms demo_pool_inv(1) demo_bound demo_transfers(1,2) this]
  show ?thesis by (simp add: demo_slices demo_slice demo_empty write_at_def overwrite_def)
qed

theorem read_block_loads_witness: "fst demo_read = 4 \<and>
  memory_data (world (snd (snd (snd demo_read)))) = memory_data (world (snd (snd demo_written)))"
proof -
  have "slices_size (map_block (ts_files demo_torrent) (req_piece demo_block) (req_start demo_block)
      (req_length demo_block)) = length [0, 0, 0, 0 :: byte]"
    by (simp add: demo_slices)
  from read_block_loads [OF memory_files.file_world_axioms demo_written_inv demo_transfers(3,4) this]
  show ?thesis by simp
qed

theorem read_after_write_witness: "fst (snd demo_read) = [7, 8, 9, 10]"
  by (rule read_after_write [OF memory_files.file_world_axioms demo_pool_inv(1) demo_bound demo_transfers refl])
    (simp_all add: demo_slices demo_slice slices_size_def)

text \<open>C14. Copying a file when a torrent moves, on success, leaves exactly the first bytes of the source, as many
  as its size, at the destination, whatever was there before, and no other file changed.\<close>

theorem copy_public_file_copies:
  assumes "file_world E pending ok on_path data" "ok w" "src \<noteq> dst"
    and "copy_public_file E src dst sz index error w = Some (True, err, w')"
  shows "err = error \<and> sz \<le> length (data w src) \<and> data w' = (data w)(dst := take sz (data w src))"
  using file_world.copy_public_file_data [OF assms(1,4,2,3)] by blast

definition demo_source :: memory where
  "demo_source = empty_memory\<lparr>mb_contents := [[1, 2, 3]], mb_files := [(''a'', 0)]\<rparr>"

lemma bind_weak_cong: "x = y \<Longrightarrow> Option.bind x f = Option.bind y f"
  by simp

theorem copy_public_file_copies_witness:
  "\<exists>w'. copy_public_file memory_env ''a'' ''b'' 2 0 no_error demo_source = Some (True, no_error, w')
    \<and> memory_data w' ''b'' = [1, 2] \<and> memory_data w' ''a'' = [1, 2, 3]"
proof -
  have ok: "memory_ok demo_source" by (simp add: demo_source_def memory_ok_def empty_memory_def)
  have "\<exists>err w'. copy_public_file memory_env ''a'' ''b'' 2 0 no_error demo_source = Some (True, err, w')"
    by (simp add: copy_public_file_def safe_relative_path_iff ensure_parent_directories_def make_directories.simps
        find_from_def copy_loop.simps memory_env_def memory_open_file_def failing_def new_descriptor_def
        demo_source_def empty_memory_def memory_ftruncate_def bridge_open_read_def bridge_open_read_write_def
        pread_all_def pread_all_loop.simps memory_pread_def pwrite_all_def pwrite_all_loop.simps memory_pwrite_def
        default_block_size_def overwrite_def Let_def cong: bind_weak_cong)
  then obtain err w' where c: "copy_public_file memory_env ''a'' ''b'' 2 0 no_error demo_source = Some (True, err, w')"
    by blast
  have "memory_data demo_source ''a'' = [1, 2, 3]" by (simp add: memory_data_def demo_source_def)
  with copy_public_file_copies [OF memory_files.file_world_axioms ok _ c] c show ?thesis by simp
qed

text \<open>C15. Migrating a file whose priority changes, on success, moves its bytes: into the part file, at the offset
  of the file in the torrent, when it is no longer wanted, and out of it, as the whole file, when it is wanted
  again. The bytes are those of the source, or zeros when there is no source, and no other file changed.\<close>

theorem migrate_priority_moves_data:
  assumes "file_world E pending ok on_path data" "ok (world d)"
    and "migrate_priority E t storage index to_part no_error d = Some (err', d')" "\<not> has_error err'"
    and "ts_part_path t \<noteq> path_for t index" "0 < fs_file_size (ts_files t) index"
    and "src = source_of t index to_part" "dst = destination_of t index to_part"
    and "sz = fs_file_size (ts_files t) index" "base = fs_file_offset (ts_files t) index"
  shows "\<exists>chunk. length chunk = sz
    \<and> (chunk = take sz (drop (if to_part then 0 else base) (data (world d) src))
       \<or> chunk = replicate sz 0
         \<and> fst (br_open_file E src bridge_open_read (world (close_both E storage index to_part d))) = - ENOENT)
    \<and> data (world d') dst = (if to_part then write_at (data (world d) dst) base chunk else chunk)
    \<and> (\<forall>q. q \<noteq> dst \<and> (to_part \<longrightarrow> q \<noteq> src) \<longrightarrow> data (world d') q = data (world d) q)"
  using file_world.migrate_priority_data [OF assms(1,3,4,2) _ assms(6)] assms(5,7-10)
  by (simp add: source_of_def destination_of_def split: if_splits)

theorem migrate_priority_moves_data_witness:
  "\<exists>err d'. migrate_priority memory_env demo_torrent 0 0 False no_error demo_pool = Some (err, d')
    \<and> memory_data (world d') ''t/d/f'' = [0, 0, 0, 0]"
proof -
  have "\<exists>d'. migrate_priority memory_env demo_torrent 0 0 False no_error demo_pool = Some (no_error, d')"
    by (simp add: migrate_priority_def close_file_def demo_pool_def demo_torrent_def demo_layout_def path_for_def
        ensure_parent_directories_def make_directories.simps find_from_def safe_relative_path_iff
        memory_env_def memory_open_file_def memory_create_directory_def memory_ftruncate_def memory_close_def failing_def
        new_descriptor_def empty_memory_def bridge_open_read_def bridge_open_read_write_def scoped_reset_def
        migrate_loop.simps overwrite_def pwrite_all_def pwrite_all_loop.simps memory_pwrite_def default_block_size_def Let_def
        cong: bind_weak_cong)
  then obtain d' where m: "migrate_priority memory_env demo_torrent 0 0 False no_error demo_pool = Some (no_error, d')" by blast
  have w: "memory_ok (world demo_pool)" "ts_part_path demo_torrent \<noteq> path_for demo_torrent 0"
    "0 < fs_file_size (ts_files demo_torrent) 0"
    by (simp_all add: demo_pool_def empty_memory_ok demo_torrent_def demo_layout_def path_for_def)
  from migrate_priority_moves_data [OF memory_files.file_world_axioms w(1) m _ w(2,3) refl refl refl refl]
  obtain chunk where "length chunk = 4" "chunk = [] \<or> chunk = replicate 4 0" "memory_data (world d') ''t/d/f'' = chunk"
    by (auto simp: demo_empty destination_of_def demo_torrent_def demo_layout_def path_for_def)
  with m show ?thesis by (auto simp: numeral_eq_Suc)
qed

section \<open>Hashes\<close>

lemma hash_blocks_append: "hash_blocks E bytes sz (xs @ [x]) hs = (hash_blocks E bytes sz xs hs)[x := hash_block E bytes sz x]"
  by (induction E bytes sz xs hs rule: hash_blocks.induct) auto

lemma hash_blocks_map:
  "n \<le> length hs \<Longrightarrow> hash_blocks E bytes sz [0 ..< n] hs = map (hash_block E bytes sz) [0 ..< n] @ drop n hs"
proof (induction n)
  case (Suc n)
  then have d: "drop n hs = hs ! n # drop (Suc n) hs" by (simp add: Cons_nth_drop_Suc)
  from Suc have "hash_blocks E bytes sz [0 ..< n] hs = map (hash_block E bytes sz) [0 ..< n] @ hs ! n # drop (Suc n) hs"
    unfolding d [symmetric] by simp
  then show ?case by (simp add: hash_blocks_append list_update_append)
qed simp

text \<open>C18. A hash job answers from the bytes of the piece in the files, whichever hashes it was asked for. Without an error
  it answers with the SHA-1 of the bytes of the piece, when that was asked for and with zeros otherwise, and with the
  SHA-256 of each block, in order, when it was given room for them. With an error it answers with zeros and the
  block hashes it was given; too little room for the blocks is an error.\<close>

theorem run_hash_of_contents:
  assumes "file_world E pending ok on_path data" "pool_inv s" "bound ok on_path s"
    and "run_hash E a storage piece block_hashes need_v1 h s = Some s'"
    and "files = ts_files (heap s ! a)"
    and "n = max (if need_v1 then piece_size files piece else 0) (if block_hashes = [] then 0 else piece_size2 files piece)"
    and "0 < n \<Longrightarrow> slices_size (map_block files piece 0 n) = nat n"
    and "bytes = (if 0 < n then block_data (heap s ! a) (data (world s)) (map_block files piece 0 n) else [])"
    and "k = nat (blocks_in_piece2 files piece)"
  shows "\<exists>result hashes err. posted s' = posted s @ [Hash_done h piece result hashes err]
    \<and> (if has_error err then result = zero_sha1 \<and> hashes = block_hashes
       else result = (if need_v1 then sha1 E (take (nat (piece_size files piece)) bytes) else zero_sha1)
         \<and> hashes = (if block_hashes = [] then [] else
             map (hash_block E bytes (piece_size2 files piece)) [0 ..< k] @ drop k block_hashes))
    \<and> (block_hashes \<noteq> [] \<longrightarrow> int (length block_hashes) < blocks_in_piece2 files piece \<longrightarrow> has_error err)"
proof -
  let ?t = "heap s ! a" and ?req = "\<lparr>req_piece = piece, req_start = 0, req_length = n\<rparr>"
  obtain now w where c: "clock_now E (world s) = (now, w)" by fastforce
  have "ok (world s)" using assms(3) by (simp add: bound_def)
  from file_world.clock_view [OF assms(1) this c] have w: "ok w" "on_path w = on_path (world s)" "data w = data (world s)" by auto
  have b: "bound ok on_path (s\<lparr>world := w\<rparr>)" by (rule file_world.bound_world [OF assms(1,3) w(1,2)])
  have pi: "pool_inv (s\<lparr>world := w\<rparr>)" using assms(2) by simp
  let ?fin = "finish_hash E ?t now piece block_hashes need_v1 h"
  have "\<exists>bytes' error s1. s' = ?fin bytes' error s1 \<and> posted s1 = posted s \<and> (\<not> has_error error \<longrightarrow> bytes' = bytes)"
  proof (cases "0 < n")
    case False
    with assms(4)[unfolded run_hash_finish [OF c] Let_def] assms(5,6,8) show ?thesis
      by (intro exI [of _ "[]"] exI [of _ no_error] exI [of _ "s\<lparr>world := w\<rparr>"]) (auto split: if_splits)
  next
    case True
    with assms(4)[unfolded run_hash_finish [OF c] Let_def] assms(5,6) obtain transferred bytes' error s1 where
      r: "read_block E ?t storage ?req (replicate (nat n) 0) no_error (s\<lparr>world := w\<rparr>) = Some (transferred, bytes', error, s1)"
      and s': "s' = ?fin bytes' error s1"
      by (auto simp: bind_eq_Some_conv split: if_splits)
    have r': "read_slices E ?t storage (map_block files piece 0 n) (replicate (nat n) 0) 0 no_error (s\<lparr>world := w\<rparr>)
        = Some (transferred, bytes', error, s1)"
      using r assms(5) by (simp add: read_block_def)
    from file_world.read_slices_data [OF assms(1) r' pi b] assms(7,8) True w(3)
    have "\<not> has_error error \<longrightarrow> bytes' = bytes" by simp
    moreover have "disk.more s1 = disk.more s" using read_slices_more [OF r'] by simp
    then have "posted s1 = posted s" by (rule saf_more(3))
    ultimately show ?thesis using s' by blast
  qed
  then obtain bytes' error s1 where f: "s' = ?fin bytes' error s1" "posted s1 = posted s" "\<not> has_error error \<longrightarrow> bytes' = bytes"
    by blast
  show ?thesis
    unfolding f(1) finish_hash_def Let_def post_def
    using f(2,3) assms(5,9) by (auto simp: hash_blocks_map not_less)
qed

definition demo_hash_start :: "memory saf" where
  "demo_hash_start = (initial_saf 2 (empty_memory\<lparr>mb_contents := [[1, 2, 3, 4]], mb_files := [(''t/d/f'', 0)]\<rparr>))
     \<lparr>heap := [demo_torrent]\<rparr>"

theorem run_hash_of_contents_witness:
  "\<exists>s' hashes err. run_hash memory_env 0 0 0 [] True 7 demo_hash_start = Some s'
    \<and> posted s' = [Hash_done 7 0 (resize 20 0 [1, 2, 3, 4]) hashes err] \<and> \<not> has_error err"
proof -
  have "case run_hash memory_env 0 0 0 [] True 7 demo_hash_start of None \<Rightarrow> False
    | Some s' \<Rightarrow> (case posted s' of [Hash_done h p r hs e] \<Rightarrow> \<not> has_error e | _ \<Rightarrow> False)"
    by code_simp
  then obtain s' where r: "run_hash memory_env 0 0 0 [] True 7 demo_hash_start = Some s'"
    and e: "case posted s' of [Hash_done h p r hs e] \<Rightarrow> \<not> has_error e | _ \<Rightarrow> False"
    by (cases "run_hash memory_env 0 0 0 [] True 7 demo_hash_start") auto
  let ?w = "empty_memory\<lparr>mb_contents := [[1, 2, 3, 4]], mb_files := [(''t/d/f'', 0)]\<rparr>"
  have s: "pool_inv demo_hash_start" "bound memory_ok memory_on_path demo_hash_start" "heap demo_hash_start ! 0 = demo_torrent"
    "posted demo_hash_start = []" "memory_data (world demo_hash_start) ''t/d/f'' = [1, 2, 3, 4]"
    by (simp_all add: demo_hash_start_def initial_saf_def set_descriptor_limit_def pool_inv_def bound_def memory_ok_def
        memory_data_def empty_memory_def)
  have l: "piece_size (ts_files demo_torrent) 0 = 4"
    "map_block (ts_files demo_torrent) 0 0 4 = [\<lparr>slice_file = 0, slice_offset = 0, slice_size = 4\<rparr>]"
    by (simp_all add: demo_torrent_def demo_layout_def)
  have b: "slice_data demo_torrent (memory_data (world demo_hash_start)) \<lparr>slice_file = 0, slice_offset = 0, slice_size = 4\<rparr>
      = [1, 2, 3, 4]"
    by (simp add: slice_data_def demo_slice s)
  have "\<exists>result hashes err. posted s' = [Hash_done 7 0 result hashes err] \<and>
      (\<not> has_error err \<longrightarrow> result = resize 20 0 [1, 2, 3, 4])"
    using run_hash_of_contents [OF memory_files.file_world_axioms s(1,2) r refl refl _ refl refl]
    by (auto simp: s l b memory_env_def slices_size_def)
  with r e show ?thesis by auto
qed

end
