(* ===== verification/Jni_Runtime.thy ===== *)
theory Jni_Runtime
  imports Prelude
begin

text \<open>
  The runtime part of the generated Java binding (\<^verbatim>\<open>libtorrent_jni.cpp\<close>): throwing Java exceptions, the
  conversion of sizes to Java integers, Java strings, the exception class of director upcalls. The
  Java virtual machine is not code of the repository: its native interface is a record of functions
  on an arbitrary state \<open>'j\<close>. \<open>audit_jvm J\<close> behaves as \<open>J\<close> and records the calls in a trace, on which
  the pending exception and the live references are defined as the interface documents them.
\<close>

section \<open>The native interface\<close>

text \<open>References and method ids are numbers; \<open>0\<close> is \<^verbatim>\<open>NULL\<close>.\<close>

type_synonym jref = nat

datatype jarg = A_ref jref | A_int int

record 'j jvm =
  FindClass :: "string \<Rightarrow> 'j \<Rightarrow> jref \<times> 'j"
  GetObjectClass :: "jref \<Rightarrow> 'j \<Rightarrow> jref \<times> 'j"
  GetMethodID :: "jref \<Rightarrow> string \<Rightarrow> string \<Rightarrow> 'j \<Rightarrow> nat \<times> 'j"
  CallObjectMethod :: "jref \<Rightarrow> nat \<Rightarrow> 'j \<Rightarrow> jref \<times> 'j"
  CallVoidMethod :: "jref \<Rightarrow> nat \<Rightarrow> 'j \<Rightarrow> unit \<times> 'j"
  CallBooleanMethod :: "jref \<Rightarrow> nat \<Rightarrow> jref \<Rightarrow> 'j \<Rightarrow> bool \<times> 'j"
  CallStaticMethod :: "jref \<Rightarrow> nat \<Rightarrow> jarg list \<Rightarrow> 'j \<Rightarrow> bool \<times> 'j"
  NewGlobalRef :: "jref \<Rightarrow> 'j \<Rightarrow> jref \<times> 'j"
  NewWeakGlobalRef :: "jref \<Rightarrow> 'j \<Rightarrow> jref \<times> 'j"
  NewLocalRef :: "jref \<Rightarrow> 'j \<Rightarrow> jref \<times> 'j"
  DeleteGlobalRef :: "jref \<Rightarrow> 'j \<Rightarrow> unit \<times> 'j"
  DeleteWeakGlobalRef :: "jref \<Rightarrow> 'j \<Rightarrow> unit \<times> 'j"
  DeleteLocalRef :: "jref \<Rightarrow> 'j \<Rightarrow> unit \<times> 'j"
  IsSameObject :: "jref \<Rightarrow> jref \<Rightarrow> 'j \<Rightarrow> bool"
  ThrowNew :: "jref \<Rightarrow> string \<Rightarrow> 'j \<Rightarrow> unit \<times> 'j"
  Throw :: "jref \<Rightarrow> 'j \<Rightarrow> unit \<times> 'j"
  ExceptionClear :: "'j \<Rightarrow> unit \<times> 'j"
  ExceptionOccurred :: "'j \<Rightarrow> jref \<times> 'j"
  ExceptionCheck :: "'j \<Rightarrow> bool"
  GetStringUTFChars :: "jref \<Rightarrow> 'j \<Rightarrow> string option \<times> 'j"
  ReleaseStringUTFChars :: "jref \<Rightarrow> 'j \<Rightarrow> unit \<times> 'j"
  NewStringUTF :: "string \<Rightarrow> 'j \<Rightarrow> jref \<times> 'j"
  GetStaticMethodID :: "jref \<Rightarrow> string \<Rightarrow> string \<Rightarrow> 'j \<Rightarrow> nat \<times> 'j"
  GetDirectBufferAddress :: "jref \<Rightarrow> 'j \<Rightarrow> int \<times> 'j"
  GetDirectBufferCapacity :: "jref \<Rightarrow> 'j \<Rightarrow> int \<times> 'j"

section \<open>Throwing Java exceptions\<close>

datatype SWIG_JavaExceptionCodes =
    SWIG_JavaOutOfMemoryError
  | SWIG_JavaIOException
  | SWIG_JavaRuntimeException
  | SWIG_JavaIndexOutOfBoundsException
  | SWIG_JavaArithmeticException
  | SWIG_JavaIllegalArgumentException
  | SWIG_JavaNullPointerException
  | SWIG_JavaDirectorPureVirtual
  | SWIG_JavaUnknownError
  | SWIG_JavaIllegalStateException

text \<open>The table of class names, and the search that stops at the entry with code \<open>0\<close>.\<close>

definition java_exceptions :: "(SWIG_JavaExceptionCodes \<times> string) list" where
  "java_exceptions = [
     (SWIG_JavaOutOfMemoryError, ''java/lang/OutOfMemoryError''),
     (SWIG_JavaIOException, ''java/io/IOException''),
     (SWIG_JavaRuntimeException, ''java/lang/RuntimeException''),
     (SWIG_JavaIndexOutOfBoundsException, ''java/lang/IndexOutOfBoundsException''),
     (SWIG_JavaArithmeticException, ''java/lang/ArithmeticException''),
     (SWIG_JavaIllegalArgumentException, ''java/lang/IllegalArgumentException''),
     (SWIG_JavaNullPointerException, ''java/lang/NullPointerException''),
     (SWIG_JavaDirectorPureVirtual, ''java/lang/RuntimeException''),
     (SWIG_JavaUnknownError, ''java/lang/UnknownError''),
     (SWIG_JavaIllegalStateException, ''java/lang/IllegalStateException'')]"

fun except_ptr :: "(SWIG_JavaExceptionCodes \<times> string) list \<Rightarrow> SWIG_JavaExceptionCodes \<Rightarrow> string" where
  "except_ptr [] code = ''java/lang/UnknownError''"
| "except_ptr ((c, name) # rest) code = (if c \<noteq> code then except_ptr rest code else name)"

definition java_exception :: "SWIG_JavaExceptionCodes \<Rightarrow> string" where
  "java_exception code = except_ptr java_exceptions code"

definition SWIG_JavaThrowException ::
  "'j jvm \<Rightarrow> SWIG_JavaExceptionCodes \<Rightarrow> string \<Rightarrow> 'j \<Rightarrow> 'j" where
  "SWIG_JavaThrowException J code msg j =
     (let j1 = snd (ExceptionClear J j);
          (excep, j2) = FindClass J (java_exception code) j1
      in if excep \<noteq> 0 then snd (ThrowNew J excep msg j2) else j2)"

text \<open>The error codes of SWIG and the exceptions they stand for.\<close>

definition swig_exception_code :: "int \<Rightarrow> SWIG_JavaExceptionCodes" where
  "swig_exception_code code =
     (if code = -12 then SWIG_JavaOutOfMemoryError
      else if code = -2 then SWIG_JavaIOException
      else if code = -10 \<or> code = -3 then SWIG_JavaRuntimeException
      else if code = -7 \<or> code = -4 then SWIG_JavaIndexOutOfBoundsException
      else if code = -6 then SWIG_JavaArithmeticException
      else if code = -8 \<or> code = -9 \<or> code = -5 then SWIG_JavaIllegalArgumentException
      else if code = -13 then SWIG_JavaNullPointerException
      else SWIG_JavaUnknownError)"

definition SWIG_JavaException :: "'j jvm \<Rightarrow> int \<Rightarrow> string \<Rightarrow> 'j \<Rightarrow> 'j" where
  "SWIG_JavaException J code msg j = SWIG_JavaThrowException J (swig_exception_code code) msg j"

section \<open>Direct buffers\<close>

text \<open>The exported methods for the memory of a buffer; the calls of the machine raise no C++ exception.\<close>

definition directBufferAddress :: "'j jvm \<Rightarrow> jref \<Rightarrow> 'j \<Rightarrow> int \<times> 'j" where
  "directBufferAddress J jbuf j = (let (p, j1) = GetDirectBufferAddress J jbuf j in (signed_take_bit 63 p, j1))"

definition directBufferCapacity :: "'j jvm \<Rightarrow> jref \<Rightarrow> 'j \<Rightarrow> int \<times> 'j" where
  "directBufferCapacity J jbuf j = (let (n, j1) = GetDirectBufferCapacity J jbuf j in (signed_take_bit 63 n, j1))"

section \<open>Sizes\<close>

text \<open>A \<^verbatim>\<open>jint\<close> is a 32-bit word read as signed; a \<^verbatim>\<open>size_t\<close> is a 64-bit word.\<close>

type_synonym jint = "32 word"
type_synonym size_t = "64 word"

definition SWIG_JavaIntFromSize_t :: "size_t \<Rightarrow> jint" where
  "SWIG_JavaIntFromSize_t n = (if n > 0x7FFFFFFF then - 1 else ucast n)"

text \<open>The C++ exceptions the helpers throw.\<close>

datatype cpp_exception = Out_of_range string | Length_error string | Std_exception string | Other_exception

definition SWIG_VectorSize :: "size_t \<Rightarrow> cpp_exception + jint" where
  "SWIG_VectorSize n =
     (let sz = SWIG_JavaIntFromSize_t n
      in if sz = - 1 then Inl (Out_of_range ''vector size is too large to fit into a Java int'') else Inr sz)"

lemma sint_small_size: "n \<le> 0x7FFFFFFF \<Longrightarrow> sint (ucast (n :: size_t) :: jint) = uint n"
proof -
  assume "n \<le> 0x7FFFFFFF"
  then have le: "uint n \<le> 0x7FFFFFFF" by (simp add: word_le_def)
  then have "uint (ucast n :: jint) = uint n"
    by (simp add: unsigned_ucast_eq take_bit_int_eq_self_iff)
  moreover have "- 2147483648 \<le> uint n" by (rule order_trans [OF _ uint_ge_0]) simp
  ultimately show "sint (ucast n :: jint) = uint n"
    using le by (simp add: sint_uint signed_take_bit_int_eq_self_iff)
qed

text \<open>The conversion is exact on sizes that fit and reports the others.\<close>

lemma SWIG_VectorSize_result:
  "SWIG_VectorSize n =
     (if n > 0x7FFFFFFF then Inl (Out_of_range ''vector size is too large to fit into a Java int'')
      else Inr (ucast n))"
proof -
  have "ucast n \<noteq> (- 1 :: jint)" if "n \<le> 0x7FFFFFFF"
  proof
    assume "ucast n = (- 1 :: jint)"
    with sint_small_size [OF that] have "uint n = - 1" by simp
    then show False using uint_ge_0 [of n] by linarith
  qed
  then show ?thesis by (auto simp: SWIG_VectorSize_def SWIG_JavaIntFromSize_t_def Let_def not_less)
qed

section \<open>The audited machine\<close>

text \<open>One event per call that creates or deletes a reference or changes the pending exception.\<close>

datatype jevent =
    J_find string jref
  | J_throw_new jref string
  | J_throw jref
  | J_clear
  | J_global jref
  | J_weak jref
  | J_local jref
  | J_del_global jref
  | J_del_weak jref
  | J_del_local jref
  | J_chars jref
  | J_release_chars jref
  | J_call

type_synonym jtrace = "jevent list"

definition noted :: "('j \<Rightarrow> 'r \<times> 'j) \<Rightarrow> ('r \<Rightarrow> jevent list) \<Rightarrow> 'j \<times> jtrace \<Rightarrow> 'r \<times> 'j \<times> jtrace" where
  "noted f ev = (\<lambda>(j, tr). let (r, j') = f j in (r, (j', ev r @ tr)))"

text \<open>\<open>0\<close> is no reference: it need not be deleted, and deleting it does nothing.\<close>

definition if_ref :: "(jref \<Rightarrow> jevent) \<Rightarrow> jref \<Rightarrow> jevent list" where
  "if_ref ev r = (if r = 0 then [] else [ev r])"

definition audit_jvm :: "'j jvm \<Rightarrow> ('j \<times> jtrace) jvm" where
  "audit_jvm J = \<lparr>
     FindClass = (\<lambda>n. noted (FindClass J n) (\<lambda>r. [J_find n r])),
     GetObjectClass = (\<lambda>r. noted (GetObjectClass J r) (if_ref J_local)),
     GetMethodID = (\<lambda>c n d. noted (GetMethodID J c n d) (\<lambda>_. [J_call])),
     CallObjectMethod = (\<lambda>r m. noted (CallObjectMethod J r m) (if_ref J_local)),
     CallVoidMethod = (\<lambda>r m. noted (CallVoidMethod J r m) (\<lambda>_. [J_call])),
     CallBooleanMethod = (\<lambda>r m a. noted (CallBooleanMethod J r m a) (\<lambda>_. [J_call])),
     CallStaticMethod = (\<lambda>c m args. noted (CallStaticMethod J c m args) (\<lambda>_. [J_call])),
     NewGlobalRef = (\<lambda>r. noted (NewGlobalRef J r) (if_ref J_global)),
     NewWeakGlobalRef = (\<lambda>r. noted (NewWeakGlobalRef J r) (if_ref J_weak)),
     NewLocalRef = (\<lambda>r. noted (NewLocalRef J r) (if_ref J_local)),
     DeleteGlobalRef = (\<lambda>r. noted (DeleteGlobalRef J r) (\<lambda>_. if_ref J_del_global r)),
     DeleteWeakGlobalRef = (\<lambda>r. noted (DeleteWeakGlobalRef J r) (\<lambda>_. if_ref J_del_weak r)),
     DeleteLocalRef = (\<lambda>r. noted (DeleteLocalRef J r) (\<lambda>_. if_ref J_del_local r)),
     IsSameObject = (\<lambda>a b (j, _). IsSameObject J a b j),
     ThrowNew = (\<lambda>c m. noted (ThrowNew J c m) (\<lambda>_. [J_throw_new c m])),
     Throw = (\<lambda>r. noted (Throw J r) (\<lambda>_. [J_throw r])),
     ExceptionClear = noted (ExceptionClear J) (\<lambda>_. [J_clear]),
     ExceptionOccurred = noted (ExceptionOccurred J) (if_ref J_local),
     ExceptionCheck = (\<lambda>(j, _). ExceptionCheck J j),
     GetStringUTFChars = (\<lambda>r. noted (GetStringUTFChars J r) (\<lambda>c. case c of None \<Rightarrow> [] | Some _ \<Rightarrow> [J_chars r])),
     ReleaseStringUTFChars = (\<lambda>r. noted (ReleaseStringUTFChars J r) (\<lambda>_. [J_release_chars r])),
     NewStringUTF = (\<lambda>s. noted (NewStringUTF J s) (if_ref J_local)),
     GetStaticMethodID = (\<lambda>c n d. noted (GetStaticMethodID J c n d) (\<lambda>_. [J_call])),
     GetDirectBufferAddress = (\<lambda>r. noted (GetDirectBufferAddress J r) (\<lambda>_. [J_call])),
     GetDirectBufferCapacity = (\<lambda>r. noted (GetDirectBufferCapacity J r) (\<lambda>_. [J_call]))\<rparr>"

text \<open>The class a reference names: the last class found under that reference.\<close>

fun class_name :: "jtrace \<Rightarrow> jref \<Rightarrow> string" where
  "class_name [] r = []"
| "class_name (J_find n c # tr) r = (if c = r then n else class_name tr r)"
| "class_name (_ # tr) r = class_name tr r"

text \<open>
  The pending exception the native code has caused: clearing removes it, \<^verbatim>\<open>ThrowNew\<close> sets it, a class
  that is not found raises \<^verbatim>\<open>NoClassDefFoundError\<close>.
\<close>

fun thrown :: "jtrace \<Rightarrow> (string \<times> string) option" where
  "thrown [] = None"
| "thrown (J_clear # tr) = None"
| "thrown (J_throw_new c m # tr) = Some (class_name tr c, m)"
| "thrown (J_find n r # tr) = (if r = 0 then Some (''java/lang/NoClassDefFoundError'', n) else thrown tr)"
| "thrown (_ # tr) = thrown tr"

text \<open>The references of each kind that are live, and the characters not yet released.\<close>

fun live_globals :: "jtrace \<Rightarrow> jref list" where
  "live_globals [] = []"
| "live_globals (J_global r # tr) = r # live_globals tr"
| "live_globals (J_del_global r # tr) = remove1 r (live_globals tr)"
| "live_globals (_ # tr) = live_globals tr"

fun live_weaks :: "jtrace \<Rightarrow> jref list" where
  "live_weaks [] = []"
| "live_weaks (J_weak r # tr) = r # live_weaks tr"
| "live_weaks (J_del_weak r # tr) = remove1 r (live_weaks tr)"
| "live_weaks (_ # tr) = live_weaks tr"

fun live_locals :: "jtrace \<Rightarrow> jref list" where
  "live_locals [] = []"
| "live_locals (J_local r # tr) = r # live_locals tr"
| "live_locals (J_find n r # tr) = (if r = 0 then live_locals tr else r # live_locals tr)"
| "live_locals (J_del_local r # tr) = remove1 r (live_locals tr)"
| "live_locals (_ # tr) = live_locals tr"

fun live_chars :: "jtrace \<Rightarrow> jref list" where
  "live_chars [] = []"
| "live_chars (J_chars r # tr) = r # live_chars tr"
| "live_chars (J_release_chars r # tr) = remove1 r (live_chars tr)"
| "live_chars (_ # tr) = live_chars tr"

text \<open>Only live references are deleted.\<close>

fun deletes_live :: "jtrace \<Rightarrow> bool" where
  "deletes_live [] = True"
| "deletes_live (e # tr) =
     ((case e of J_del_global r \<Rightarrow> r \<in> set (live_globals tr) | J_del_weak r \<Rightarrow> r \<in> set (live_weaks tr)
        | J_del_local r \<Rightarrow> r \<in> set (live_locals tr) | J_release_chars r \<Rightarrow> r \<in> set (live_chars tr)
        | _ \<Rightarrow> True) \<and> deletes_live tr)"

lemma snd_noted [simp]: "snd (snd (noted f ev j)) = ev (fst (f (fst j))) @ snd j"
  by (simp add: noted_def split_beta Let_def)

lemma fst_noted [simp]: "fst (noted f ev j) = fst (f (fst j))"
  by (simp add: noted_def split_beta Let_def)

lemma noted_eq:
  "noted f ev j = (r, j') \<longleftrightarrow> (\<exists>v. f (fst j) = (r, v) \<and> j' = (v, ev r @ snd j))"
  by (cases j) (auto simp: noted_def split_beta Let_def prod_eq_iff)

section \<open>The interface of exceptions\<close>

text \<open>
  What code that throws relies on: clearing leaves nothing pending, a class that is found leaves the
  exception state alone, throwing makes the exception pending.
\<close>

locale jvm_exceptions =
  fixes J :: "'j jvm" and pending :: "'j \<Rightarrow> (string \<times> string) option" and names :: "'j \<Rightarrow> jref \<Rightarrow> string"
  assumes clear_pending: "pending (snd (ExceptionClear J j)) = None"
    and find_pending: "FindClass J n j = (c, j') \<Longrightarrow>
      pending j' = (if c = 0 then Some (''java/lang/NoClassDefFoundError'', n) else pending j)"
    and find_names: "FindClass J n j = (c, j') \<Longrightarrow> names j' c = n"
    and throw_pending: "pending (snd (ThrowNew J c m j)) = Some (names j c, m)"
begin

text \<open>After throwing there is exactly the requested exception, or the failure to find its class.\<close>

lemma throw_exception:
  "pending (SWIG_JavaThrowException J code msg j) = Some (java_exception code, msg) \<or>
   pending (SWIG_JavaThrowException J code msg j) = Some (''java/lang/NoClassDefFoundError'', java_exception code)"
proof -
  obtain c j2 where f: "FindClass J (java_exception code) (snd (ExceptionClear J j)) = (c, j2)"
    by (metis surj_pair)
  from find_pending [OF f] find_names [OF f] throw_pending [of c msg j2] show ?thesis
    by (auto simp: SWIG_JavaThrowException_def f Let_def)
qed

lemma throw_some: "pending (SWIG_JavaThrowException J code msg j) \<noteq> None"
  using throw_exception [of code msg j] by auto

end

interpretation audited_jvm: jvm_exceptions "audit_jvm J" "\<lambda>j. thrown (snd j)" "\<lambda>j. class_name (snd j)"
  for J :: "'j jvm"
  by unfold_locales (auto simp: audit_jvm_def noted_eq)

section \<open>A machine for examples\<close>

text \<open>A machine whose references are all \<open>1\<close>, whose objects live for ever and whose strings are all \<open>''s''\<close>.\<close>

definition plain_jvm :: "unit jvm" where
  "plain_jvm = \<lparr>
     FindClass = (\<lambda>n j. (1, j)), GetObjectClass = (\<lambda>r j. (1, j)), GetMethodID = (\<lambda>c n d j. (1, j)),
     CallObjectMethod = (\<lambda>r m j. (1, j)), CallVoidMethod = (\<lambda>r m j. ((), j)),
     CallBooleanMethod = (\<lambda>r m a j. (True, j)), CallStaticMethod = (\<lambda>c m args j. (True, j)),
     NewGlobalRef = (\<lambda>r j. (1, j)), NewWeakGlobalRef = (\<lambda>r j. (1, j)), NewLocalRef = (\<lambda>r j. (1, j)),
     DeleteGlobalRef = (\<lambda>r j. ((), j)), DeleteWeakGlobalRef = (\<lambda>r j. ((), j)),
     DeleteLocalRef = (\<lambda>r j. ((), j)), IsSameObject = (\<lambda>a b j. a = b), ThrowNew = (\<lambda>c m j. ((), j)),
     Throw = (\<lambda>r j. ((), j)), ExceptionClear = (\<lambda>j. ((), j)), ExceptionOccurred = (\<lambda>j. (1, j)),
     ExceptionCheck = (\<lambda>j. True), GetStringUTFChars = (\<lambda>r j. (Some ''s'', j)),
     ReleaseStringUTFChars = (\<lambda>r j. ((), j)), NewStringUTF = (\<lambda>s j. (1, j)),
     GetStaticMethodID = (\<lambda>c n d j. (1, j)), GetDirectBufferAddress = (\<lambda>r j. (0, j)),
     GetDirectBufferCapacity = (\<lambda>r j. (0, j))\<rparr>"

end
