(* ===== verification/Vectors.thy ===== *)
theory Vectors
  imports Jni_Runtime
begin

text \<open>
  The helpers the binding generates for \<^verbatim>\<open>std::vector\<close>: the ten functions behind the Java class
  \<^verbatim>\<open>AbstractList\<close>, once as a template and once per element type. A vector is its elements and its
  capacity; \<open>grow c n\<close> is the capacity the library chooses when \<open>c\<close> is too small for \<open>n\<close> elements.
  Allocation succeeds.
\<close>

section \<open>The template\<close>

record 'e cvec =
  elems :: "'e list"
  capacity :: nat

definition vector_size :: "'e cvec \<Rightarrow> size_t" where
  "vector_size v = of_nat (length (elems v))"

text \<open>\<^verbatim>\<open>static_cast<jint>(self->size())\<close> keeps the low 32 bits.\<close>

definition jint_size :: "'e cvec \<Rightarrow> jint" where
  "jint_size v = ucast (vector_size v)"

definition ensure_capacity :: "(nat \<Rightarrow> nat \<Rightarrow> nat) \<Rightarrow> nat \<Rightarrow> 'e cvec \<Rightarrow> 'e cvec" where
  "ensure_capacity grow n v = (if n \<le> capacity v then v else v\<lparr>capacity := grow (capacity v) n\<rparr>)"

text \<open>\<^verbatim>\<open>insert\<close> before position \<open>i\<close>, and \<^verbatim>\<open>erase\<close> of the positions from \<open>a\<close> up to \<open>b\<close>.\<close>

definition insert_at :: "nat \<Rightarrow> 'e \<Rightarrow> 'e list \<Rightarrow> 'e list" where
  "insert_at i x xs = take i xs @ x # drop i xs"

definition erase_range :: "nat \<Rightarrow> nat \<Rightarrow> 'e list \<Rightarrow> 'e list" where
  "erase_range a b xs = take a xs @ drop b xs"

abbreviation index_error :: cpp_exception where
  "index_error \<equiv> Out_of_range ''vector index out of range''"

definition new_vector :: "jint \<Rightarrow> 'e \<Rightarrow> cpp_exception + 'e cvec" where
  "new_vector n value =
     (if sint n < 0 then Inl (Out_of_range ''vector count must be positive'')
      else Inr \<lparr>elems = replicate (nat (sint n)) value, capacity = nat (sint n)\<rparr>)"

definition doCapacity :: "'e cvec \<Rightarrow> cpp_exception + jint" where
  "doCapacity v = SWIG_VectorSize (of_nat (capacity v))"

definition doReserve :: "(nat \<Rightarrow> nat \<Rightarrow> nat) \<Rightarrow> jint \<Rightarrow> 'e cvec \<Rightarrow> cpp_exception + 'e cvec" where
  "doReserve grow n v =
     (if sint n < 0 then Inl (Out_of_range ''vector reserve size must be positive'')
      else Inr (ensure_capacity grow (nat (sint n)) v))"

definition doSize :: "'e cvec \<Rightarrow> cpp_exception + jint" where
  "doSize v = SWIG_VectorSize (vector_size v)"

definition doAdd_0 :: "(nat \<Rightarrow> nat \<Rightarrow> nat) \<Rightarrow> 'e \<Rightarrow> 'e cvec \<Rightarrow> 'e cvec" where
  "doAdd_0 grow x v = (ensure_capacity grow (length (elems v) + 1) v)\<lparr>elems := elems v @ [x]\<rparr>"

definition doAdd_1 :: "(nat \<Rightarrow> nat \<Rightarrow> nat) \<Rightarrow> jint \<Rightarrow> 'e \<Rightarrow> 'e cvec \<Rightarrow> cpp_exception + 'e cvec" where
  "doAdd_1 grow index x v =
     (if 0 \<le> sint index \<and> sint index \<le> sint (jint_size v) then
        Inr ((ensure_capacity grow (length (elems v) + 1) v)\<lparr>elems := insert_at (nat (sint index)) x (elems v)\<rparr>)
      else Inl index_error)"

definition doRemove :: "jint \<Rightarrow> 'e cvec \<Rightarrow> cpp_exception + 'e \<times> 'e cvec" where
  "doRemove index v =
     (if 0 \<le> sint index \<and> sint index < sint (jint_size v) then
        let old_value = elems v ! nat (sint index)
        in Inr (old_value, v\<lparr>elems := erase_at (nat (sint index)) (elems v)\<rparr>)
      else Inl index_error)"

definition doGet :: "jint \<Rightarrow> 'e cvec \<Rightarrow> cpp_exception + 'e" where
  "doGet index v =
     (if sint index \<ge> 0 \<and> sint index < sint (jint_size v) then Inr (elems v ! nat (sint index))
      else Inl index_error)"

definition doSet :: "jint \<Rightarrow> 'e \<Rightarrow> 'e cvec \<Rightarrow> cpp_exception + 'e \<times> 'e cvec" where
  "doSet index val v =
     (if sint index \<ge> 0 \<and> sint index < sint (jint_size v) then
        let old_value = elems v ! nat (sint index)
        in Inr (old_value, v\<lparr>elems := (elems v)[nat (sint index) := val]\<rparr>)
      else Inl index_error)"

definition doRemoveRange :: "jint \<Rightarrow> jint \<Rightarrow> 'e cvec \<Rightarrow> cpp_exception + 'e cvec" where
  "doRemoveRange fromIndex toIndex v =
     (if 0 \<le> sint fromIndex \<and> sint fromIndex \<le> sint toIndex \<and> sint toIndex \<le> sint (jint_size v) then
        Inr (v\<lparr>elems := erase_range (nat (sint fromIndex)) (nat (sint toIndex)) (elems v)\<rparr>)
      else Inl index_error)"

section \<open>Instances\<close>

text \<open>The ten functions of one element type, and the template's version of them.\<close>

record 'e vector_class =
  vc_new :: "jint \<Rightarrow> 'e \<Rightarrow> cpp_exception + 'e cvec"
  vc_capacity :: "'e cvec \<Rightarrow> cpp_exception + jint"
  vc_reserve :: "jint \<Rightarrow> 'e cvec \<Rightarrow> cpp_exception + 'e cvec"
  vc_size :: "'e cvec \<Rightarrow> cpp_exception + jint"
  vc_add :: "'e \<Rightarrow> 'e cvec \<Rightarrow> 'e cvec"
  vc_add_at :: "jint \<Rightarrow> 'e \<Rightarrow> 'e cvec \<Rightarrow> cpp_exception + 'e cvec"
  vc_remove :: "jint \<Rightarrow> 'e cvec \<Rightarrow> cpp_exception + 'e \<times> 'e cvec"
  vc_get :: "jint \<Rightarrow> 'e cvec \<Rightarrow> cpp_exception + 'e"
  vc_set :: "jint \<Rightarrow> 'e \<Rightarrow> 'e cvec \<Rightarrow> cpp_exception + 'e \<times> 'e cvec"
  vc_remove_range :: "jint \<Rightarrow> jint \<Rightarrow> 'e cvec \<Rightarrow> cpp_exception + 'e cvec"

definition std_vector :: "(nat \<Rightarrow> nat \<Rightarrow> nat) \<Rightarrow> 'e vector_class" where
  "std_vector grow = \<lparr>vc_new = new_vector, vc_capacity = doCapacity, vc_reserve = doReserve grow,
     vc_size = doSize, vc_add = doAdd_0 grow, vc_add_at = doAdd_1 grow, vc_remove = doRemove,
     vc_get = doGet, vc_set = doSet, vc_remove_range = doRemoveRange\<rparr>"

section \<open>Index checks are memory safe\<close>

text \<open>
  The size is cut to 32 bits before the check. It never exceeds the real size, so an accepted index
  is in range for vectors of every length.
\<close>

lemma sint_word_le_uint: "sint (w :: 32 word) \<le> uint w"
proof -
  have "take_bit 32 (uint w) \<le> uint w" by (simp add: take_bit_int_less_eq_self_iff)
  then show ?thesis by (auto simp: sint_uint signed_take_bit_eq_take_bit_minus of_bool_def)
qed

lemma jint_size_le: "sint (jint_size v) \<le> int (length (elems v))"
proof -
  have "sint (jint_size v) \<le> uint (jint_size v)" by (rule sint_word_le_uint)
  also have "\<dots> \<le> uint (vector_size v)"
    by (simp add: jint_size_def unsigned_ucast_eq take_bit_int_less_eq_self_iff)
  also have "\<dots> \<le> int (length (elems v))"
    by (simp add: vector_size_def unsigned_of_nat take_bit_nat_less_eq_self)
  finally show ?thesis .
qed

lemma jint_size_exact:
  "length (elems v) \<le> 0x7FFFFFFF \<Longrightarrow> sint (jint_size v) = int (length (elems v))"
proof -
  assume le: "length (elems v) \<le> 0x7FFFFFFF"
  have u: "uint (vector_size v) = int (length (elems v))"
    using le by (simp add: vector_size_def unsigned_of_nat take_bit_nat_eq_self_iff)
  have "vector_size v \<le> 0x7FFFFFFF" using le u by (simp add: word_le_def)
  from sint_small_size [OF this] u show ?thesis by (simp add: jint_size_def)
qed

lemma doSize_exact:
  assumes "length (elems v) < 2 ^ 64"
  shows "doSize v = (if length (elems v) > 0x7FFFFFFF
     then Inl (Out_of_range ''vector size is too large to fit into a Java int'')
     else Inr (of_nat (length (elems v))))"
proof -
  have u: "uint (vector_size v) = int (length (elems v))"
    using assms by (simp add: vector_size_def unsigned_of_nat take_bit_nat_eq_self_iff)
  then have "(vector_size v > 0x7FFFFFFF) = (length (elems v) > 0x7FFFFFFF)" by (simp add: word_less_def)
  moreover have "ucast (vector_size v) = (of_nat (length (elems v)) :: jint)"
    using assms by (simp add: vector_size_def ucast_eq unsigned_of_nat take_bit_nat_eq_self)
  ultimately show ?thesis unfolding doSize_def SWIG_VectorSize_result by simp
qed

section \<open>The vectors are Java lists\<close>

datatype 'e vec_op =
    Op_reserve jint
  | Op_size
  | Op_add 'e
  | Op_add_at jint 'e
  | Op_remove jint
  | Op_get jint
  | Op_set jint 'e
  | Op_remove_range jint jint

datatype 'e vec_result = R_error cpp_exception | R_unit | R_size jint | R_elem 'e

text \<open>A call of one of the functions of a class.\<close>

fun vec_call :: "'e vector_class \<Rightarrow> 'e vec_op \<Rightarrow> 'e cvec \<Rightarrow> 'e vec_result \<times> 'e cvec" where
  "vec_call C (Op_reserve n) v = (case vc_reserve C n v of Inl e \<Rightarrow> (R_error e, v) | Inr v' \<Rightarrow> (R_unit, v'))"
| "vec_call C Op_size v = (case vc_size C v of Inl e \<Rightarrow> (R_error e, v) | Inr n \<Rightarrow> (R_size n, v))"
| "vec_call C (Op_add x) v = (R_unit, vc_add C x v)"
| "vec_call C (Op_add_at i x) v = (case vc_add_at C i x v of Inl e \<Rightarrow> (R_error e, v) | Inr v' \<Rightarrow> (R_unit, v'))"
| "vec_call C (Op_remove i) v = (case vc_remove C i v of Inl e \<Rightarrow> (R_error e, v) | Inr (x, v') \<Rightarrow> (R_elem x, v'))"
| "vec_call C (Op_get i) v = (case vc_get C i v of Inl e \<Rightarrow> (R_error e, v) | Inr x \<Rightarrow> (R_elem x, v))"
| "vec_call C (Op_set i x) v = (case vc_set C i x v of Inl e \<Rightarrow> (R_error e, v) | Inr (y, v') \<Rightarrow> (R_elem y, v'))"
| "vec_call C (Op_remove_range a b) v =
     (case vc_remove_range C a b v of Inl e \<Rightarrow> (R_error e, v) | Inr v' \<Rightarrow> (R_unit, v'))"

text \<open>The same calls on a list, as \<^verbatim>\<open>java.util.AbstractList\<close> specifies them; indices are Java integers.\<close>

definition valid_index :: "jint \<Rightarrow> 'e list \<Rightarrow> bool" where
  "valid_index i xs \<longleftrightarrow> 0 \<le> sint i \<and> nat (sint i) < length xs"

fun list_call :: "'e vec_op \<Rightarrow> 'e list \<Rightarrow> 'e vec_result \<times> 'e list" where
  "list_call (Op_reserve n) xs =
     (if sint n < 0 then (R_error (Out_of_range ''vector reserve size must be positive''), xs) else (R_unit, xs))"
| "list_call Op_size xs = (R_size (of_nat (length xs)), xs)"
| "list_call (Op_add x) xs = (R_unit, xs @ [x])"
| "list_call (Op_add_at i x) xs =
     (if valid_index i (x # xs) then (R_unit, take (nat (sint i)) xs @ x # drop (nat (sint i)) xs)
      else (R_error index_error, xs))"
| "list_call (Op_remove i) xs =
     (if valid_index i xs then (R_elem (xs ! nat (sint i)), take (nat (sint i)) xs @ drop (Suc (nat (sint i))) xs)
      else (R_error index_error, xs))"
| "list_call (Op_get i) xs = (if valid_index i xs then R_elem (xs ! nat (sint i)) else R_error index_error, xs)"
| "list_call (Op_set i x) xs =
     (if valid_index i xs then (R_elem (xs ! nat (sint i)), xs[nat (sint i) := x]) else (R_error index_error, xs))"
| "list_call (Op_remove_range a b) xs =
     (if 0 \<le> sint a \<and> sint a \<le> sint b \<and> nat (sint b) \<le> length xs
      then (R_unit, take (nat (sint a)) xs @ drop (nat (sint b)) xs) else (R_error index_error, xs))"

text \<open>The calls of a program, with their results.\<close>

fun run_calls :: "('o \<Rightarrow> 's \<Rightarrow> 'r \<times> 's) \<Rightarrow> 'o list \<Rightarrow> 's \<Rightarrow> 'r list \<times> 's" where
  "run_calls f [] s = ([], s)"
| "run_calls f (oper # opers) s =
     (let (r, s1) = f oper s; (rs, s2) = run_calls f opers s1 in (r # rs, s2))"

text \<open>
  The interface: every call does what the specification says while there is room, and takes at most
  one unit of room.
\<close>

locale list_service =
  fixes call :: "'o \<Rightarrow> 's \<Rightarrow> 'r \<times> 's" and spec :: "'o \<Rightarrow> 'a \<Rightarrow> 'r \<times> 'a"
    and abs :: "'s \<Rightarrow> 'a" and room :: "'s \<Rightarrow> nat"
  assumes call_spec: "0 < room s \<Longrightarrow> call oper s = (r, s') \<Longrightarrow> spec oper (abs s) = (r, abs s')"
    and call_room: "call oper s = (r, s') \<Longrightarrow> room s \<le> Suc (room s')"
begin

lemma calls_spec:
  assumes "run_calls call opers s = (rs, s')" "length opers \<le> room s"
  shows "run_calls spec opers (abs s) = (rs, abs s')"
  using assms
proof (induction opers arbitrary: s rs s')
  case (Cons oper opers)
  obtain r s1 where c: "call oper s = (r, s1)" by (metis surj_pair)
  obtain rs1 s2 where d: "run_calls call opers s1 = (rs1, s2)" by (metis surj_pair)
  have "spec oper (abs s) = (r, abs s1)" using call_spec [OF _ c] Cons.prems(2) by simp
  moreover have "run_calls spec opers (abs s1) = (rs1, abs s2)"
    using Cons.IH [OF d] call_room [OF c] Cons.prems(2) by simp
  ultimately show ?case using Cons.prems(1) c d by simp
qed simp

end

definition vector_room :: "'e cvec \<Rightarrow> nat" where
  "vector_room v = 0x80000000 - length (elems v)"

lemma elems_ensure_capacity [simp]: "elems (ensure_capacity grow n v) = elems v"
  by (simp add: ensure_capacity_def)

lemmas vector_defs = std_vector_def new_vector_def doCapacity_def doReserve_def doAdd_0_def
  doAdd_1_def doRemove_def doGet_def doSet_def doRemoveRange_def insert_at_def erase_range_def
  erase_at_def valid_index_def

lemma erase_at_take_drop: "i < length xs \<Longrightarrow> erase_at i xs = take i xs @ drop (Suc i) xs"
  by (simp add: erase_at_def)

lemma nat_sint_le: "0 \<le> sint i \<Longrightarrow> (sint i \<le> int n) = (nat (sint i) \<le> n)"
  by linarith

lemma nat_sint_less: "0 \<le> sint i \<Longrightarrow> (sint i < int n) = (nat (sint i) < n)"
  by linarith

lemma vec_call_spec:
  assumes "0 < vector_room v" "vec_call (std_vector grow) oper v = (r, v')"
  shows "list_call oper (elems v) = (r, elems v')"
proof -
  have len: "length (elems v) \<le> 0x7FFFFFFF" using assms(1) by (simp add: vector_room_def)
  note exact = jint_size_exact [OF len] doSize_exact [of v]
  show ?thesis
    using assms(2) len
    by (cases oper) (auto simp: vector_defs exact Let_def nat_sint_le nat_sint_less split: if_splits)
qed

lemma vec_call_room: "vec_call (std_vector grow) oper v = (r, v') \<Longrightarrow> vector_room v \<le> Suc (vector_room v')"
  by (cases oper) (auto simp: vector_defs vector_room_def Let_def split: if_splits sum.splits prod.splits)

interpretation vectors: list_service "vec_call (std_vector grow)" list_call elems vector_room for grow
  by unfold_locales (auto intro: vec_call_spec dest: vec_call_room)

end
