(* ===== verification/Vector_Instances.thy ===== *)
theory Vector_Instances
  imports Vectors
begin

text \<open>
  The vector helpers of the binding, one group of ten functions per element type in the order of the
  generated code. They are expansions of one template, so each is the template at its element type. Types
  of libtorrent whose representation the binding never looks at are type variables.
\<close>

definition std_vector_string :: "(nat \<Rightarrow> nat \<Rightarrow> nat) \<Rightarrow> (string) vector_class" where
  "std_vector_string grow = std_vector grow"

definition std_vector_int :: "(nat \<Rightarrow> nat \<Rightarrow> nat) \<Rightarrow> (jint) vector_class" where
  "std_vector_int grow = std_vector grow"

definition std_vector_long_long :: "(nat \<Rightarrow> nat \<Rightarrow> nat) \<Rightarrow> (64 word) vector_class" where
  "std_vector_long_long grow = std_vector grow"

definition std_vector_int8 :: "(nat \<Rightarrow> nat \<Rightarrow> nat) \<Rightarrow> (byte) vector_class" where
  "std_vector_int8 grow = std_vector grow"

definition std_vector_bool :: "(nat \<Rightarrow> nat \<Rightarrow> nat) \<Rightarrow> (bool) vector_class" where
  "std_vector_bool grow = std_vector grow"

definition std_vector_int_int8_pair :: "(nat \<Rightarrow> nat \<Rightarrow> nat) \<Rightarrow> (jint \<times> byte) vector_class" where
  "std_vector_int_int8_pair grow = std_vector grow"

definition std_vector_string_int_pair :: "(nat \<Rightarrow> nat \<Rightarrow> nat) \<Rightarrow> (string \<times> jint) vector_class" where
  "std_vector_string_int_pair grow = std_vector grow"

definition std_vector_string_string_pair :: "(nat \<Rightarrow> nat \<Rightarrow> nat) \<Rightarrow> (string \<times> string) vector_class" where
  "std_vector_string_string_pair grow = std_vector grow"

definition std_vector_tcp_endpoint :: "(nat \<Rightarrow> nat \<Rightarrow> nat) \<Rightarrow> ('tcp_endpoint) vector_class" where
  "std_vector_tcp_endpoint grow = std_vector grow"

definition std_vector_udp_endpoint :: "(nat \<Rightarrow> nat \<Rightarrow> nat) \<Rightarrow> ('udp_endpoint) vector_class" where
  "std_vector_udp_endpoint grow = std_vector grow"

definition std_vector_announce_endpoint :: "(nat \<Rightarrow> nat \<Rightarrow> nat) \<Rightarrow> ('announce_endpoint) vector_class" where
  "std_vector_announce_endpoint grow = std_vector grow"

definition std_vector_announce_entry :: "(nat \<Rightarrow> nat \<Rightarrow> nat) \<Rightarrow> ('announce_entry) vector_class" where
  "std_vector_announce_entry grow = std_vector grow"

definition std_vector_web_seed_entry :: "(nat \<Rightarrow> nat \<Rightarrow> nat) \<Rightarrow> ('web_seed_entry) vector_class" where
  "std_vector_web_seed_entry grow = std_vector grow"

definition std_vector_file_slice :: "(nat \<Rightarrow> nat \<Rightarrow> nat) \<Rightarrow> ('file_slice) vector_class" where
  "std_vector_file_slice grow = std_vector grow"

definition std_vector_piece_block :: "(nat \<Rightarrow> nat \<Rightarrow> nat) \<Rightarrow> ('piece_block) vector_class" where
  "std_vector_piece_block grow = std_vector grow"

definition std_vector_torrent_status :: "(nat \<Rightarrow> nat \<Rightarrow> nat) \<Rightarrow> ('torrent_status) vector_class" where
  "std_vector_torrent_status grow = std_vector grow"

definition std_vector_dht_lookup :: "(nat \<Rightarrow> nat \<Rightarrow> nat) \<Rightarrow> ('dht_lookup) vector_class" where
  "std_vector_dht_lookup grow = std_vector grow"

definition std_vector_dht_routing_bucket :: "(nat \<Rightarrow> nat \<Rightarrow> nat) \<Rightarrow> ('dht_routing_bucket) vector_class" where
  "std_vector_dht_routing_bucket grow = std_vector grow"

definition std_vector_entry :: "(nat \<Rightarrow> nat \<Rightarrow> nat) \<Rightarrow> ('entry) vector_class" where
  "std_vector_entry grow = std_vector grow"

definition std_vector_partial_piece_info :: "(nat \<Rightarrow> nat \<Rightarrow> nat) \<Rightarrow> ('partial_piece_info) vector_class" where
  "std_vector_partial_piece_info grow = std_vector grow"

definition std_vector_peer_info :: "(nat \<Rightarrow> nat \<Rightarrow> nat) \<Rightarrow> ('peer_info) vector_class" where
  "std_vector_peer_info grow = std_vector grow"

definition std_vector_torrent_handle :: "(nat \<Rightarrow> nat \<Rightarrow> nat) \<Rightarrow> ('torrent_handle) vector_class" where
  "std_vector_torrent_handle grow = std_vector grow"

definition std_vector_alert_ptr :: "(nat \<Rightarrow> nat \<Rightarrow> nat) \<Rightarrow> ('alert_ptr) vector_class" where
  "std_vector_alert_ptr grow = std_vector grow"

definition std_vector_stats_metric :: "(nat \<Rightarrow> nat \<Rightarrow> nat) \<Rightarrow> ('stats_metric) vector_class" where
  "std_vector_stats_metric grow = std_vector grow"

definition std_vector_ip_interface :: "(nat \<Rightarrow> nat \<Rightarrow> nat) \<Rightarrow> ('ip_interface) vector_class" where
  "std_vector_ip_interface grow = std_vector grow"

definition std_vector_ip_route :: "(nat \<Rightarrow> nat \<Rightarrow> nat) \<Rightarrow> ('ip_route) vector_class" where
  "std_vector_ip_route grow = std_vector grow"

definition std_vector_create_file_entry :: "(nat \<Rightarrow> nat \<Rightarrow> nat) \<Rightarrow> ('create_file_entry) vector_class" where
  "std_vector_create_file_entry grow = std_vector grow"

definition std_vector_block_info :: "(nat \<Rightarrow> nat \<Rightarrow> nat) \<Rightarrow> ('block_info) vector_class" where
  "std_vector_block_info grow = std_vector grow"

definition std_vector_bitfield :: "(nat \<Rightarrow> nat \<Rightarrow> nat) \<Rightarrow> ('bitfield) vector_class" where
  "std_vector_bitfield grow = std_vector grow"

definition std_vector_bool_vector :: "(nat \<Rightarrow> nat \<Rightarrow> nat) \<Rightarrow> (bool cvec) vector_class" where
  "std_vector_bool_vector grow = std_vector grow"

definition std_vector_digest32_256_vector :: "(nat \<Rightarrow> nat \<Rightarrow> nat) \<Rightarrow> ('digest cvec) vector_class" where
  "std_vector_digest32_256_vector grow = std_vector grow"

definition std_vector_digest32_160_udp_endpoint_pair :: "(nat \<Rightarrow> nat \<Rightarrow> nat) \<Rightarrow> ('digest \<times> 'endpoint) vector_class" where
  "std_vector_digest32_160_udp_endpoint_pair grow = std_vector grow"

definition std_vector_address_digest32_160_pair :: "(nat \<Rightarrow> nat \<Rightarrow> nat) \<Rightarrow> ('address \<times> 'digest) vector_class" where
  "std_vector_address_digest32_160_pair grow = std_vector grow"

definition std_vector_digest32_160 :: "(nat \<Rightarrow> nat \<Rightarrow> nat) \<Rightarrow> ('digest) vector_class" where
  "std_vector_digest32_160 grow = std_vector grow"

definition std_vector_digest32_256 :: "(nat \<Rightarrow> nat \<Rightarrow> nat) \<Rightarrow> ('digest) vector_class" where
  "std_vector_digest32_256 grow = std_vector grow"

end
