(* ===== verification/String_Vector.thy ===== *)
theory String_Vector
  imports Vector_Instances
begin

text \<open>
  The native methods behind the Java class \<^verbatim>\<open>string_vector\<close>. A method gets the address of the C++
  vector as a \<^verbatim>\<open>jlong\<close>, translates its arguments, calls the helper and turns C++ exceptions into Java
  exceptions. \<open>None\<close> stands for undefined behaviour: an address at which there is no live vector.
\<close>

section \<open>Native state\<close>

text \<open>The live C++ objects by address, the next fresh address, and the Java machine.\<close>

record ('a, 'j) native =
  objects :: "nat \<rightharpoonup> 'a"
  next_address :: nat
  machine :: 'j

definition new_object :: "'a \<Rightarrow> ('a, 'j) native \<Rightarrow> nat \<times> ('a, 'j) native" where
  "new_object x s =
     (next_address s, s\<lparr>objects := (objects s)(next_address s \<mapsto> x), next_address := next_address s + 1\<rparr>)"

definition put_object :: "nat \<Rightarrow> 'a \<Rightarrow> ('a, 'j) native \<Rightarrow> ('a, 'j) native" where
  "put_object p x s = s\<lparr>objects := (objects s)(p \<mapsto> x)\<rparr>"

definition raise :: "'j jvm \<Rightarrow> SWIG_JavaExceptionCodes \<times> string \<Rightarrow> ('a, 'j) native \<Rightarrow> ('a, 'j) native" where
  "raise J e s = s\<lparr>machine := SWIG_JavaThrowException J (fst e) (snd e) (machine s)\<rparr>"

text \<open>The \<^verbatim>\<open>catch\<close> clauses: any exception, also index errors, also length errors.\<close>

fun catch_any :: "cpp_exception \<Rightarrow> SWIG_JavaExceptionCodes \<times> string" where
  "catch_any (Out_of_range m) = (SWIG_JavaRuntimeException, m)"
| "catch_any (Length_error m) = (SWIG_JavaRuntimeException, m)"
| "catch_any (Std_exception m) = (SWIG_JavaRuntimeException, m)"
| "catch_any Other_exception = (SWIG_JavaRuntimeException, ''Unknown exception type'')"

fun catch_range :: "cpp_exception \<Rightarrow> SWIG_JavaExceptionCodes \<times> string" where
  "catch_range (Out_of_range m) = (SWIG_JavaIndexOutOfBoundsException, m)"
| "catch_range e = catch_any e"

fun catch_length_range :: "cpp_exception \<Rightarrow> SWIG_JavaExceptionCodes \<times> string" where
  "catch_length_range (Length_error m) = (SWIG_JavaIndexOutOfBoundsException, m)"
| "catch_length_range e = catch_range e"

section \<open>Strings\<close>

text \<open>A C string ends before its first \<^verbatim>\<open>NUL\<close>.\<close>

definition c_string :: "string \<Rightarrow> string" where
  "c_string s = takeWhile (\<lambda>c. c \<noteq> CHR 0x00) s"

text \<open>
  Reading a string argument: a null reference raises an exception, a failed \<^verbatim>\<open>GetStringUTFChars\<close>
  returns with the exception of the machine; otherwise the characters are copied and released.
\<close>

definition read_string :: "'j jvm \<Rightarrow> jref \<Rightarrow> ('a, 'j) native \<Rightarrow> string option \<times> ('a, 'j) native" where
  "read_string J str s =
     (if str = 0 then (None, raise J (SWIG_JavaNullPointerException, ''null string'') s)
      else let (chars, j) = GetStringUTFChars J str (machine s)
        in case chars of
            None \<Rightarrow> (None, s\<lparr>machine := j\<rparr>)
          | Some cs \<Rightarrow> (Some (c_string cs), s\<lparr>machine := snd (ReleaseStringUTFChars J str j)\<rparr>))"

definition new_string :: "'j jvm \<Rightarrow> string \<Rightarrow> ('a, 'j) native \<Rightarrow> jref \<times> ('a, 'j) native" where
  "new_string J str s = (let (r, j) = NewStringUTF J (c_string str) (machine s) in (r, s\<lparr>machine := j\<rparr>))"

section \<open>The native methods\<close>

type_synonym 'j string_native = "(string cvec, 'j) native"

definition new_string_vector_0 :: "'j string_native \<Rightarrow> (nat \<times> 'j string_native) option" where
  "new_string_vector_0 s = Some (new_object \<lparr>elems = [], capacity = 0\<rparr> s)"

definition new_string_vector_1 :: "'j jvm \<Rightarrow> nat \<Rightarrow> 'j string_native \<Rightarrow> (nat \<times> 'j string_native) option" where
  "new_string_vector_1 J p s =
     (if p = 0 then
        Some (0, raise J (SWIG_JavaNullPointerException, ''std::vector< std::string > const & is null'') s)
      else do {
        v \<leftarrow> objects s p;
        Some (new_object \<lparr>elems = elems v, capacity = length (elems v)\<rparr> s)
      })"

definition string_vector_isEmpty :: "nat \<Rightarrow> 'j string_native \<Rightarrow> (bool \<times> 'j string_native) option" where
  "string_vector_isEmpty p s = do { v \<leftarrow> objects s p; Some (elems v = [], s) }"

definition string_vector_clear :: "nat \<Rightarrow> 'j string_native \<Rightarrow> 'j string_native option" where
  "string_vector_clear p s = do { v \<leftarrow> objects s p; Some (put_object p (v\<lparr>elems := []\<rparr>) s) }"

definition new_string_vector_2 ::
  "'j jvm \<Rightarrow> string vector_class \<Rightarrow> jint \<Rightarrow> jref \<Rightarrow> 'j string_native \<Rightarrow> (nat \<times> 'j string_native) option" where
  "new_string_vector_2 J C n str s =
     (let (value, s1) = read_string J str s
      in case value of
          None \<Rightarrow> Some (0, s1)
        | Some x \<Rightarrow> (case vc_new C n x of
              Inl e \<Rightarrow> Some (0, raise J (catch_range e) s1)
            | Inr v \<Rightarrow> Some (new_object v s1)))"

definition string_vector_doCapacity ::
  "'j jvm \<Rightarrow> string vector_class \<Rightarrow> nat \<Rightarrow> 'j string_native \<Rightarrow> (jint \<times> 'j string_native) option" where
  "string_vector_doCapacity J C p s = do {
     v \<leftarrow> objects s p;
     (case vc_capacity C v of
        Inl e \<Rightarrow> Some (0, raise J (catch_range e) s)
      | Inr n \<Rightarrow> Some (n, s)) }"

definition string_vector_doReserve ::
  "'j jvm \<Rightarrow> string vector_class \<Rightarrow> nat \<Rightarrow> jint \<Rightarrow> 'j string_native \<Rightarrow> 'j string_native option" where
  "string_vector_doReserve J C p n s = do {
     v \<leftarrow> objects s p;
     (case vc_reserve C n v of
        Inl e \<Rightarrow> Some (raise J (catch_length_range e) s)
      | Inr v' \<Rightarrow> Some (put_object p v' s)) }"

definition string_vector_doSize ::
  "'j jvm \<Rightarrow> string vector_class \<Rightarrow> nat \<Rightarrow> 'j string_native \<Rightarrow> (jint \<times> 'j string_native) option" where
  "string_vector_doSize J C p s = do {
     v \<leftarrow> objects s p;
     (case vc_size C v of
        Inl e \<Rightarrow> Some (0, raise J (catch_range e) s)
      | Inr n \<Rightarrow> Some (n, s)) }"

definition string_vector_doAdd_0 ::
  "'j jvm \<Rightarrow> string vector_class \<Rightarrow> nat \<Rightarrow> jref \<Rightarrow> 'j string_native \<Rightarrow> 'j string_native option" where
  "string_vector_doAdd_0 J C p str s =
     (let (value, s1) = read_string J str s
      in case value of
          None \<Rightarrow> Some s1
        | Some x \<Rightarrow> do { v \<leftarrow> objects s1 p; Some (put_object p (vc_add C x v) s1) })"

definition string_vector_doAdd_1 ::
  "'j jvm \<Rightarrow> string vector_class \<Rightarrow> nat \<Rightarrow> jint \<Rightarrow> jref \<Rightarrow> 'j string_native \<Rightarrow> 'j string_native option" where
  "string_vector_doAdd_1 J C p index str s =
     (let (value, s1) = read_string J str s
      in case value of
          None \<Rightarrow> Some s1
        | Some x \<Rightarrow> do {
            v \<leftarrow> objects s1 p;
            (case vc_add_at C index x v of
               Inl e \<Rightarrow> Some (raise J (catch_range e) s1)
             | Inr v' \<Rightarrow> Some (put_object p v' s1)) })"

definition string_vector_doRemove ::
  "'j jvm \<Rightarrow> string vector_class \<Rightarrow> nat \<Rightarrow> jint \<Rightarrow> 'j string_native \<Rightarrow> (jref \<times> 'j string_native) option" where
  "string_vector_doRemove J C p index s = do {
     v \<leftarrow> objects s p;
     (case vc_remove C index v of
        Inl e \<Rightarrow> Some (0, raise J (catch_range e) s)
      | Inr (x, v') \<Rightarrow> Some (new_string J x (put_object p v' s))) }"

definition string_vector_doGet ::
  "'j jvm \<Rightarrow> string vector_class \<Rightarrow> nat \<Rightarrow> jint \<Rightarrow> 'j string_native \<Rightarrow> (jref \<times> 'j string_native) option" where
  "string_vector_doGet J C p index s = do {
     v \<leftarrow> objects s p;
     (case vc_get C index v of
        Inl e \<Rightarrow> Some (0, raise J (catch_range e) s)
      | Inr x \<Rightarrow> Some (new_string J x s)) }"

definition string_vector_doSet ::
  "'j jvm \<Rightarrow> string vector_class \<Rightarrow> nat \<Rightarrow> jint \<Rightarrow> jref \<Rightarrow> 'j string_native \<Rightarrow> (jref \<times> 'j string_native) option" where
  "string_vector_doSet J C p index str s =
     (let (value, s1) = read_string J str s
      in case value of
          None \<Rightarrow> Some (0, s1)
        | Some x \<Rightarrow> do {
            v \<leftarrow> objects s1 p;
            (case vc_set C index x v of
               Inl e \<Rightarrow> Some (0, raise J (catch_range e) s1)
             | Inr (y, v') \<Rightarrow> Some (new_string J y (put_object p v' s1))) })"

definition string_vector_doRemoveRange ::
  "'j jvm \<Rightarrow> string vector_class \<Rightarrow> nat \<Rightarrow> jint \<Rightarrow> jint \<Rightarrow> 'j string_native \<Rightarrow> 'j string_native option" where
  "string_vector_doRemoveRange J C p fromIndex toIndex s = do {
     v \<leftarrow> objects s p;
     (case vc_remove_range C fromIndex toIndex v of
        Inl e \<Rightarrow> Some (raise J (catch_range e) s)
      | Inr v' \<Rightarrow> Some (put_object p v' s)) }"

text \<open>Deleting a null pointer does nothing.\<close>

definition delete_string_vector :: "nat \<Rightarrow> 'j string_native \<Rightarrow> 'j string_native option" where
  "delete_string_vector p s =
     (if p = 0 then Some s
      else do { v \<leftarrow> objects s p; Some (s\<lparr>objects := (objects s)(p := None)\<rparr>) })"

section \<open>The methods as calls\<close>

text \<open>The eight list methods, as one function of the list call with string references for elements.\<close>

datatype sv_result = Ret_void | Ret_int jint | Ret_ref jref

fun sv_method :: "'j jvm \<Rightarrow> string vector_class \<Rightarrow> nat \<Rightarrow> jref vec_op \<Rightarrow> 'j string_native \<Rightarrow>
    (sv_result \<times> 'j string_native) option" where
  "sv_method J C p (Op_reserve n) s = map_option (Pair Ret_void) (string_vector_doReserve J C p n s)"
| "sv_method J C p Op_size s = map_option (apfst Ret_int) (string_vector_doSize J C p s)"
| "sv_method J C p (Op_add str) s = map_option (Pair Ret_void) (string_vector_doAdd_0 J C p str s)"
| "sv_method J C p (Op_add_at i str) s = map_option (Pair Ret_void) (string_vector_doAdd_1 J C p i str s)"
| "sv_method J C p (Op_remove i) s = map_option (apfst Ret_ref) (string_vector_doRemove J C p i s)"
| "sv_method J C p (Op_get i) s = map_option (apfst Ret_ref) (string_vector_doGet J C p i s)"
| "sv_method J C p (Op_set i str) s = map_option (apfst Ret_ref) (string_vector_doSet J C p i str s)"
| "sv_method J C p (Op_remove_range a b) s = map_option (Pair Ret_void) (string_vector_doRemoveRange J C p a b s)"

section \<open>What a method does\<close>

text \<open>
  How a method answers a call of the helper: it stores the new vector, and leaves the exceptions of the
  machine alone unless the helper threw; then exactly the translated exception is pending.
\<close>

definition exception_of :: "cpp_exception \<Rightarrow> (string \<times> string) option \<Rightarrow> bool" where
  "exception_of e exn \<longleftrightarrow>
     (let (code, m) = catch_length_range e
      in exn = Some (java_exception code, m)
         \<or> exn = Some (''java/lang/NoClassDefFoundError'', java_exception code))"

definition answers ::
  "'e vec_result \<Rightarrow> (string \<times> string) option \<Rightarrow> (string \<times> string) option \<Rightarrow> bool" where
  "answers r before after \<longleftrightarrow> (case r of R_error e \<Rightarrow> exception_of e after | _ \<Rightarrow> after = before)"

text \<open>The exceptions the helpers throw are index errors.\<close>

definition range_exception :: "cpp_exception \<Rightarrow> bool" where
  "range_exception e \<longleftrightarrow> (\<exists>m. e = Out_of_range m)"

lemma catch_range_exception:
  "range_exception e \<Longrightarrow> catch_range e = catch_length_range e"
  by (auto simp: range_exception_def)

abbreviation jtrace_of :: "('a, 'j \<times> jtrace) native \<Rightarrow> jtrace" where
  "jtrace_of s \<equiv> snd (machine s)"

lemma thrown_raise:
  "range_exception e \<Longrightarrow> exception_of e (thrown (jtrace_of (raise (audit_jvm J) (catch_range e) s)))"
  using audited_jvm.throw_exception [of J "fst (catch_length_range e)" "snd (catch_length_range e)" "machine s"]
  by (simp add: exception_of_def raise_def catch_range_exception split_beta)

lemma thrown_raise_length:
  "exception_of e (thrown (jtrace_of (raise (audit_jvm J) (catch_length_range e) s)))"
  using audited_jvm.throw_exception [of J "fst (catch_length_range e)" "snd (catch_length_range e)" "machine s"]
  by (simp add: exception_of_def raise_def split_beta)

lemma answers_simps [simp]:
  "answers R_unit before after \<longleftrightarrow> after = before"
  "answers (R_size n) before after \<longleftrightarrow> after = before"
  "answers (R_elem x) before after \<longleftrightarrow> after = before"
  "answers (R_error e) before (thrown (jtrace_of (raise (audit_jvm J) (catch_length_range e) s)))"
  "range_exception e \<Longrightarrow> answers (R_error e) before (thrown (jtrace_of (raise (audit_jvm J) (catch_range e) s)))"
  by (simp_all add: answers_def thrown_raise thrown_raise_length)

lemma raise_objects [simp]: "objects (raise J e s) = objects s"
  by (simp add: raise_def)

lemma raise_chars [simp]: "live_chars (jtrace_of (raise (audit_jvm J) e s)) = live_chars (jtrace_of s)"
  by (auto simp: raise_def SWIG_JavaThrowException_def audit_jvm_def Let_def split_beta)

lemma put_object_simps [simp]:
  "objects (put_object p x s) = (objects s)(p \<mapsto> x)" "machine (put_object p x s) = machine s"
  by (simp_all add: put_object_def)

lemma new_string_audit [simp]:
  "objects (snd (new_string J str s)) = objects s"
  "thrown (jtrace_of (snd (new_string (audit_jvm J) str t))) = thrown (jtrace_of t)"
  "live_chars (jtrace_of (snd (new_string (audit_jvm J) str t))) = live_chars (jtrace_of t)"
  by (auto simp: new_string_def audit_jvm_def if_ref_def split_beta Let_def)

lemma new_string_eq: "new_string J x s = (a, b) \<longleftrightarrow> a = fst (new_string J x s) \<and> b = snd (new_string J x s)"
  by (auto simp: prod_eq_iff)

text \<open>The characters of a string, when the machine delivers them.\<close>

definition delivers :: "'j jvm \<Rightarrow> (jref \<Rightarrow> string) \<Rightarrow> bool" where
  "delivers J chars \<longleftrightarrow> (\<forall>r j. fst (GetStringUTFChars J r j) = Some (chars r))"

lemma read_string_audit:
  assumes "delivers J chars" "str \<noteq> 0"
  obtains s1 where "read_string (audit_jvm J) str s = (Some (c_string (chars str)), s1)"
    "objects s1 = objects s" "thrown (jtrace_of s1) = thrown (jtrace_of s)"
    "live_chars (jtrace_of s1) = live_chars (jtrace_of s)"
proof -
  have "fst (GetStringUTFChars J str j) = Some (chars str)" for j using assms(1) by (simp add: delivers_def)
  with assms(2) have "\<exists>s1. read_string (audit_jvm J) str s = (Some (c_string (chars str)), s1)
      \<and> objects s1 = objects s \<and> thrown (jtrace_of s1) = thrown (jtrace_of s)
      \<and> live_chars (jtrace_of s1) = live_chars (jtrace_of s)"
    by (simp add: read_string_def audit_jvm_def split_beta Let_def)
  with that show ?thesis by blast
qed

lemma helper_exceptions:
  "vec_call (std_vector grow) oper v = (R_error e, v') \<Longrightarrow> range_exception e"
  by (cases oper) (auto simp: vector_defs range_exception_def doSize_def SWIG_VectorSize_result Let_def split: if_splits)

lemma answered_call:
  assumes "objects s p = Some v" "delivers J chars" "0 \<notin> set_vec_op oper"
    and "vec_call (std_vector_string grow) (map_vec_op (c_string \<circ> chars) oper) v = (r, v')"
  shows "\<exists>out. sv_method (audit_jvm J) (std_vector_string grow) p oper s = Some out
    \<and> objects (snd out) = (objects s)(p \<mapsto> v')
    \<and> answers r (thrown (jtrace_of s)) (thrown (jtrace_of (snd out)))
    \<and> live_chars (jtrace_of (snd out)) = live_chars (jtrace_of s)"
proof -
  have range: "range_exception e" if "r = R_error e" for e
    using helper_exceptions assms(4) that by (auto simp: std_vector_string_def)
  show ?thesis
  proof (cases oper)
    case (Op_add str)
    obtain s1 where "read_string (audit_jvm J) str s = (Some (c_string (chars str)), s1)"
      "objects s1 = objects s" "thrown (jtrace_of s1) = thrown (jtrace_of s)"
      "live_chars (jtrace_of s1) = live_chars (jtrace_of s)"
      by (rule read_string_audit [OF assms(2)]) (use assms(3) Op_add in auto)
    with assms(1,4) Op_add show ?thesis by (auto simp: string_vector_doAdd_0_def std_vector_string_def)
  next
    case (Op_add_at i str)
    obtain s1 where "read_string (audit_jvm J) str s = (Some (c_string (chars str)), s1)"
      "objects s1 = objects s" "thrown (jtrace_of s1) = thrown (jtrace_of s)"
      "live_chars (jtrace_of s1) = live_chars (jtrace_of s)"
      by (rule read_string_audit [OF assms(2)]) (use assms(3) Op_add_at in auto)
    with assms(1,4) Op_add_at range show ?thesis
      by (auto simp: string_vector_doAdd_1_def std_vector_string_def split: sum.splits)
  next
    case (Op_set i str)
    obtain s1 where "read_string (audit_jvm J) str s = (Some (c_string (chars str)), s1)"
      "objects s1 = objects s" "thrown (jtrace_of s1) = thrown (jtrace_of s)"
      "live_chars (jtrace_of s1) = live_chars (jtrace_of s)"
      by (rule read_string_audit [OF assms(2)]) (use assms(3) Op_set in auto)
    with assms(1,4) Op_set range show ?thesis
      by (auto simp: string_vector_doSet_def std_vector_string_def new_string_eq split: sum.splits)
  qed (use assms(1,4) range in \<open>auto simp: string_vector_doReserve_def string_vector_doSize_def
      string_vector_doRemove_def string_vector_doGet_def string_vector_doRemoveRange_def
      std_vector_string_def new_string_eq split: sum.splits\<close>)
qed

end
