(* ===== verification/Object_Vector.thy ===== *)
theory Object_Vector
  imports String_Vector
begin

text \<open>
  The native methods behind the Java vectors of C++ objects (\<^verbatim>\<open>announce_entry_vector\<close> and its like). Elements
  travel as addresses: an argument is the address of an object to copy, \<^verbatim>\<open>doGet\<close> returns the address of the
  element inside the vector, \<^verbatim>\<open>doRemove\<close> and \<^verbatim>\<open>doSet\<close> return a new object. An address inside a vector is
  valid until the element is moved: by a reallocation, or by an insertion or removal at or before its position.
  So every position of a vector has a slot number, renewed when the language says that references become
  invalid. \<open>None\<close> stands for undefined behaviour.
\<close>

section \<open>Objects, vectors and addresses\<close>

text \<open>An address: null, an object of its own, or a slot of the vector at an address.\<close>

datatype optr = Null | Own nat | Inside nat nat

record 'e ovec =
  vec :: "'e cvec"
  slots :: "nat list"

record ('e, 'j) onative =
  ov_vectors :: "nat \<rightharpoonup> 'e ovec"
  ov_values :: "nat \<rightharpoonup> 'e"
  ov_next :: nat
  ov_machine :: 'j

definition deref :: "('e, 'j) onative \<Rightarrow> optr \<Rightarrow> 'e option" where
  "deref s p = (case p of
       Null \<Rightarrow> None
     | Own a \<Rightarrow> ov_values s a
     | Inside v k \<Rightarrow> (case ov_vectors s v of
           None \<Rightarrow> None
         | Some ov \<Rightarrow> map_of (zip (slots ov) (elems (vec ov))) k))"

text \<open>
  Storing what an operation made of a vector: when it did not reallocate, the first \<open>keep\<close> slots stay, all
  others are new.
\<close>

definition put_vector :: "nat \<Rightarrow> 'e ovec \<Rightarrow> nat \<Rightarrow> 'e cvec \<Rightarrow> ('e, 'j) onative \<Rightarrow> ('e, 'j) onative" where
  "put_vector p ov keep v' s =
     (let k = (if capacity v' = capacity (vec ov) then keep else 0);
          n = length (elems v') - k
      in s\<lparr>ov_vectors := (ov_vectors s)(p \<mapsto> \<lparr>vec = v', slots = take k (slots ov) @ [ov_next s ..< ov_next s + n]\<rparr>),
           ov_next := ov_next s + n\<rparr>)"

text \<open>\<^verbatim>\<open>new\<close> of a vector and of an object.\<close>

definition new_ovec :: "'e cvec \<Rightarrow> ('e, 'j) onative \<Rightarrow> nat \<times> ('e, 'j) onative" where
  "new_ovec v s =
     (let p = ov_next s; n = length (elems v)
      in (p, s\<lparr>ov_vectors := (ov_vectors s)(p \<mapsto> \<lparr>vec = v, slots = [Suc p ..< Suc p + n]\<rparr>), ov_next := Suc p + n\<rparr>))"

definition new_value :: "'e \<Rightarrow> ('e, 'j) onative \<Rightarrow> optr \<times> ('e, 'j) onative" where
  "new_value x s = (Own (ov_next s), s\<lparr>ov_values := (ov_values s)(ov_next s \<mapsto> x), ov_next := Suc (ov_next s)\<rparr>)"

definition oraise :: "'j jvm \<Rightarrow> SWIG_JavaExceptionCodes \<times> string \<Rightarrow> ('e, 'j) onative \<Rightarrow> ('e, 'j) onative" where
  "oraise J e s = s\<lparr>ov_machine := SWIG_JavaThrowException J (fst e) (snd e) (ov_machine s)\<rparr>"

section \<open>The native methods\<close>

text \<open>\<open>T\<close> is the name of the element type, as it appears in the messages about null references.\<close>

definition vector_name :: "string \<Rightarrow> string" where
  "vector_name T = ''std::vector< '' @ T @ '' >''"

definition null_error :: "string \<Rightarrow> SWIG_JavaExceptionCodes \<times> string" where
  "null_error name = (SWIG_JavaNullPointerException, name @ '' const & is null'')"

definition new_object_vector_0 :: "('e, 'j) onative \<Rightarrow> (nat \<times> ('e, 'j) onative) option" where
  "new_object_vector_0 s = Some (new_ovec \<lparr>elems = [], capacity = 0\<rparr> s)"

definition new_object_vector_1 :: "'j jvm \<Rightarrow> string \<Rightarrow> nat \<Rightarrow> ('e, 'j) onative \<Rightarrow> (nat \<times> ('e, 'j) onative) option" where
  "new_object_vector_1 J T p s =
     (if p = 0 then Some (0, oraise J (null_error (vector_name T)) s)
      else do {
        ov \<leftarrow> ov_vectors s p;
        Some (new_ovec \<lparr>elems = elems (vec ov), capacity = length (elems (vec ov))\<rparr> s)
      })"

definition object_vector_isEmpty :: "nat \<Rightarrow> ('e, 'j) onative \<Rightarrow> (bool \<times> ('e, 'j) onative) option" where
  "object_vector_isEmpty p s = do { ov \<leftarrow> ov_vectors s p; Some (elems (vec ov) = [], s) }"

definition object_vector_clear :: "nat \<Rightarrow> ('e, 'j) onative \<Rightarrow> ('e, 'j) onative option" where
  "object_vector_clear p s = do { ov \<leftarrow> ov_vectors s p; Some (put_vector p ov 0 ((vec ov)\<lparr>elems := []\<rparr>) s) }"

definition new_object_vector_2 ::
  "'j jvm \<Rightarrow> string \<Rightarrow> 'e vector_class \<Rightarrow> jint \<Rightarrow> optr \<Rightarrow> ('e, 'j) onative \<Rightarrow> (nat \<times> ('e, 'j) onative) option" where
  "new_object_vector_2 J T C n arg s =
     (if arg = Null then Some (0, oraise J (null_error T) s)
      else do {
        x \<leftarrow> deref s arg;
        (case vc_new C n x of
           Inl e \<Rightarrow> Some (0, oraise J (catch_range e) s)
         | Inr v \<Rightarrow> Some (new_ovec v s))
      })"

definition object_vector_doCapacity ::
  "'j jvm \<Rightarrow> 'e vector_class \<Rightarrow> nat \<Rightarrow> ('e, 'j) onative \<Rightarrow> (jint \<times> ('e, 'j) onative) option" where
  "object_vector_doCapacity J C p s = do {
     ov \<leftarrow> ov_vectors s p;
     (case vc_capacity C (vec ov) of
        Inl e \<Rightarrow> Some (0, oraise J (catch_range e) s)
      | Inr n \<Rightarrow> Some (n, s)) }"

definition object_vector_doReserve ::
  "'j jvm \<Rightarrow> 'e vector_class \<Rightarrow> nat \<Rightarrow> jint \<Rightarrow> ('e, 'j) onative \<Rightarrow> ('e, 'j) onative option" where
  "object_vector_doReserve J C p n s = do {
     ov \<leftarrow> ov_vectors s p;
     (case vc_reserve C n (vec ov) of
        Inl e \<Rightarrow> Some (oraise J (catch_length_range e) s)
      | Inr v' \<Rightarrow> Some (put_vector p ov (length (elems v')) v' s)) }"

definition object_vector_doSize ::
  "'j jvm \<Rightarrow> 'e vector_class \<Rightarrow> nat \<Rightarrow> ('e, 'j) onative \<Rightarrow> (jint \<times> ('e, 'j) onative) option" where
  "object_vector_doSize J C p s = do {
     ov \<leftarrow> ov_vectors s p;
     (case vc_size C (vec ov) of
        Inl e \<Rightarrow> Some (0, oraise J (catch_range e) s)
      | Inr n \<Rightarrow> Some (n, s)) }"

definition object_vector_doAdd_0 ::
  "'j jvm \<Rightarrow> string \<Rightarrow> 'e vector_class \<Rightarrow> nat \<Rightarrow> optr \<Rightarrow> ('e, 'j) onative \<Rightarrow> ('e, 'j) onative option" where
  "object_vector_doAdd_0 J T C p arg s =
     (if arg = Null then Some (oraise J (null_error (vector_name T @ ''::value_type'')) s)
      else do {
        ov \<leftarrow> ov_vectors s p;
        x \<leftarrow> deref s arg;
        Some (put_vector p ov (length (elems (vec ov))) (vc_add C x (vec ov)) s)
      })"

definition object_vector_doAdd_1 ::
  "'j jvm \<Rightarrow> string \<Rightarrow> 'e vector_class \<Rightarrow> nat \<Rightarrow> jint \<Rightarrow> optr \<Rightarrow> ('e, 'j) onative \<Rightarrow> ('e, 'j) onative option" where
  "object_vector_doAdd_1 J T C p index arg s =
     (if arg = Null then Some (oraise J (null_error (vector_name T @ ''::value_type'')) s)
      else do {
        ov \<leftarrow> ov_vectors s p;
        x \<leftarrow> deref s arg;
        (case vc_add_at C index x (vec ov) of
           Inl e \<Rightarrow> Some (oraise J (catch_range e) s)
         | Inr v' \<Rightarrow> Some (put_vector p ov (nat (sint index)) v' s))
      })"

definition object_vector_doRemove ::
  "'j jvm \<Rightarrow> 'e vector_class \<Rightarrow> nat \<Rightarrow> jint \<Rightarrow> ('e, 'j) onative \<Rightarrow> (optr \<times> ('e, 'j) onative) option" where
  "object_vector_doRemove J C p index s = do {
     ov \<leftarrow> ov_vectors s p;
     (case vc_remove C index (vec ov) of
        Inl e \<Rightarrow> Some (Null, oraise J (catch_range e) s)
      | Inr (x, v') \<Rightarrow> Some (new_value x (put_vector p ov (nat (sint index)) v' s))) }"

definition object_vector_doGet ::
  "'j jvm \<Rightarrow> 'e vector_class \<Rightarrow> nat \<Rightarrow> jint \<Rightarrow> ('e, 'j) onative \<Rightarrow> (optr \<times> ('e, 'j) onative) option" where
  "object_vector_doGet J C p index s = do {
     ov \<leftarrow> ov_vectors s p;
     (case vc_get C index (vec ov) of
        Inl e \<Rightarrow> Some (Null, oraise J (catch_range e) s)
      | Inr x \<Rightarrow> Some (Inside p (slots ov ! nat (sint index)), s)) }"

definition object_vector_doSet ::
  "'j jvm \<Rightarrow> string \<Rightarrow> 'e vector_class \<Rightarrow> nat \<Rightarrow> jint \<Rightarrow> optr \<Rightarrow> ('e, 'j) onative \<Rightarrow> (optr \<times> ('e, 'j) onative) option" where
  "object_vector_doSet J T C p index arg s =
     (if arg = Null then Some (Null, oraise J (null_error (vector_name T @ ''::value_type'')) s)
      else do {
        ov \<leftarrow> ov_vectors s p;
        x \<leftarrow> deref s arg;
        (case vc_set C index x (vec ov) of
           Inl e \<Rightarrow> Some (Null, oraise J (catch_range e) s)
         | Inr (y, v') \<Rightarrow> Some (new_value y (put_vector p ov (length (elems v')) v' s)))
      })"

definition object_vector_doRemoveRange ::
  "'j jvm \<Rightarrow> 'e vector_class \<Rightarrow> nat \<Rightarrow> jint \<Rightarrow> jint \<Rightarrow> ('e, 'j) onative \<Rightarrow> ('e, 'j) onative option" where
  "object_vector_doRemoveRange J C p fromIndex toIndex s = do {
     ov \<leftarrow> ov_vectors s p;
     (case vc_remove_range C fromIndex toIndex (vec ov) of
        Inl e \<Rightarrow> Some (oraise J (catch_range e) s)
      | Inr v' \<Rightarrow> Some (put_vector p ov (nat (sint fromIndex)) v' s)) }"

definition delete_object_vector :: "nat \<Rightarrow> ('e, 'j) onative \<Rightarrow> ('e, 'j) onative option" where
  "delete_object_vector p s =
     (if p = 0 then Some s
      else do { ov \<leftarrow> ov_vectors s p; Some (s\<lparr>ov_vectors := (ov_vectors s)(p := None)\<rparr>) })"

text \<open>The methods of one vector class.\<close>

record ('e, 'j) object_vector_class =
  oc_new_0 :: "('e, 'j) onative \<Rightarrow> (nat \<times> ('e, 'j) onative) option"
  oc_new_1 :: "nat \<Rightarrow> ('e, 'j) onative \<Rightarrow> (nat \<times> ('e, 'j) onative) option"
  oc_isEmpty :: "nat \<Rightarrow> ('e, 'j) onative \<Rightarrow> (bool \<times> ('e, 'j) onative) option"
  oc_clear :: "nat \<Rightarrow> ('e, 'j) onative \<Rightarrow> ('e, 'j) onative option"
  oc_new_2 :: "jint \<Rightarrow> optr \<Rightarrow> ('e, 'j) onative \<Rightarrow> (nat \<times> ('e, 'j) onative) option"
  oc_doCapacity :: "nat \<Rightarrow> ('e, 'j) onative \<Rightarrow> (jint \<times> ('e, 'j) onative) option"
  oc_doReserve :: "nat \<Rightarrow> jint \<Rightarrow> ('e, 'j) onative \<Rightarrow> ('e, 'j) onative option"
  oc_doSize :: "nat \<Rightarrow> ('e, 'j) onative \<Rightarrow> (jint \<times> ('e, 'j) onative) option"
  oc_doAdd_0 :: "nat \<Rightarrow> optr \<Rightarrow> ('e, 'j) onative \<Rightarrow> ('e, 'j) onative option"
  oc_doAdd_1 :: "nat \<Rightarrow> jint \<Rightarrow> optr \<Rightarrow> ('e, 'j) onative \<Rightarrow> ('e, 'j) onative option"
  oc_doRemove :: "nat \<Rightarrow> jint \<Rightarrow> ('e, 'j) onative \<Rightarrow> (optr \<times> ('e, 'j) onative) option"
  oc_doGet :: "nat \<Rightarrow> jint \<Rightarrow> ('e, 'j) onative \<Rightarrow> (optr \<times> ('e, 'j) onative) option"
  oc_doSet :: "nat \<Rightarrow> jint \<Rightarrow> optr \<Rightarrow> ('e, 'j) onative \<Rightarrow> (optr \<times> ('e, 'j) onative) option"
  oc_doRemoveRange :: "nat \<Rightarrow> jint \<Rightarrow> jint \<Rightarrow> ('e, 'j) onative \<Rightarrow> ('e, 'j) onative option"
  oc_delete :: "nat \<Rightarrow> ('e, 'j) onative \<Rightarrow> ('e, 'j) onative option"

definition object_vector :: "'j jvm \<Rightarrow> string \<Rightarrow> 'e vector_class \<Rightarrow> ('e, 'j) object_vector_class" where
  "object_vector J T C = \<lparr>
     oc_new_0 = new_object_vector_0, oc_new_1 = new_object_vector_1 J T, oc_isEmpty = object_vector_isEmpty,
     oc_clear = object_vector_clear, oc_new_2 = new_object_vector_2 J T C, oc_doCapacity = object_vector_doCapacity J C,
     oc_doReserve = object_vector_doReserve J C, oc_doSize = object_vector_doSize J C,
     oc_doAdd_0 = object_vector_doAdd_0 J T C, oc_doAdd_1 = object_vector_doAdd_1 J T C,
     oc_doRemove = object_vector_doRemove J C, oc_doGet = object_vector_doGet J C, oc_doSet = object_vector_doSet J T C,
     oc_doRemoveRange = object_vector_doRemoveRange J C, oc_delete = delete_object_vector\<rparr>"

section \<open>The methods as calls\<close>

datatype ov_result = Ov_void | Ov_int jint | Ov_ptr optr

fun ov_method :: "('e, 'j) object_vector_class \<Rightarrow> nat \<Rightarrow> optr vec_op \<Rightarrow> ('e, 'j) onative \<Rightarrow>
    (ov_result \<times> ('e, 'j) onative) option" where
  "ov_method M p (Op_reserve n) s = map_option (Pair Ov_void) (oc_doReserve M p n s)"
| "ov_method M p Op_size s = map_option (apfst Ov_int) (oc_doSize M p s)"
| "ov_method M p (Op_add x) s = map_option (Pair Ov_void) (oc_doAdd_0 M p x s)"
| "ov_method M p (Op_add_at i x) s = map_option (Pair Ov_void) (oc_doAdd_1 M p i x s)"
| "ov_method M p (Op_remove i) s = map_option (apfst Ov_ptr) (oc_doRemove M p i s)"
| "ov_method M p (Op_get i) s = map_option (apfst Ov_ptr) (oc_doGet M p i s)"
| "ov_method M p (Op_set i x) s = map_option (apfst Ov_ptr) (oc_doSet M p i x s)"
| "ov_method M p (Op_remove_range a b) s = map_option (Pair Ov_void) (oc_doRemoveRange M p a b s)"

text \<open>How many slots from the front an operation keeps when it does not reallocate.\<close>

fun kept :: "'x vec_op \<Rightarrow> 'e cvec \<Rightarrow> nat" where
  "kept (Op_add_at i x) v = nat (sint i)"
| "kept (Op_remove i) v = nat (sint i)"
| "kept (Op_remove_range a b) v = nat (sint a)"
| "kept oper v = length (elems v)"

text \<open>How a method answers, in terms of the helper's result \<open>r\<close> and vector \<open>v'\<close>.\<close>

fun no_result :: "'x vec_op \<Rightarrow> ov_result" where
  "no_result Op_size = Ov_int 0"
| "no_result (Op_remove i) = Ov_ptr Null"
| "no_result (Op_get i) = Ov_ptr Null"
| "no_result (Op_set i x) = Ov_ptr Null"
| "no_result oper = Ov_void"

definition answer_call ::
  "'j jvm \<Rightarrow> nat \<Rightarrow> 'x vec_op \<Rightarrow> 'e ovec \<Rightarrow> 'e vec_result \<Rightarrow> 'e cvec \<Rightarrow> ('e, 'j) onative \<Rightarrow> ov_result \<times> ('e, 'j) onative" where
  "answer_call J p oper ov r v' s = (case r of
       R_error e \<Rightarrow> (no_result oper, oraise J (case oper of Op_reserve n \<Rightarrow> catch_length_range e | _ \<Rightarrow> catch_range e) s)
     | R_unit \<Rightarrow> (Ov_void, put_vector p ov (kept oper (vec ov)) v' s)
     | R_size n \<Rightarrow> (Ov_int n, s)
     | R_elem x \<Rightarrow> (case oper of
           Op_get i \<Rightarrow> (Ov_ptr (Inside p (slots ov ! nat (sint i))), s)
         | _ \<Rightarrow> apfst Ov_ptr (new_value x (put_vector p ov (kept oper (vec ov)) v' s))))"

lemma lengths_kept:
  "doReserve grow n v = Inr v' \<Longrightarrow> length (elems v') = length (elems v)"
  "doSet i x v = Inr (y, v') \<Longrightarrow> length (elems v') = length (elems v)"
  by (auto simp: doReserve_def doSet_def Let_def split: if_splits)

lemma method_answer:
  assumes "ov_vectors s p = Some ov" and "\<forall>q \<in> set_vec_op oper. deref s q \<noteq> None"
    and "vec_call (std_vector grow) (map_vec_op (\<lambda>q. the (deref s q)) oper) (vec ov) = (r, v')"
  shows "ov_method (object_vector J T (std_vector grow)) p oper s = Some (answer_call J p oper ov r v' s)"
proof -
  have arg: "q \<noteq> Null \<and> (\<exists>x. deref s q = Some x)" if "q \<in> set_vec_op oper" for q
    using assms(2) that by (auto simp: deref_def)
  show ?thesis
    using assms(1,3) arg
    by (cases oper)
      (auto simp: object_vector_def std_vector_def answer_call_def object_vector_doReserve_def object_vector_doSize_def
        object_vector_doAdd_0_def object_vector_doAdd_1_def object_vector_doRemove_def object_vector_doGet_def
        object_vector_doSet_def object_vector_doRemoveRange_def lengths_kept new_value_def split: sum.splits)
qed

section \<open>Slots\<close>

definition ovec_ok :: "nat \<Rightarrow> 'e ovec \<Rightarrow> bool" where
  "ovec_ok n ov \<longleftrightarrow> length (slots ov) = length (elems (vec ov)) \<and> distinct (slots ov) \<and> (\<forall>k \<in> set (slots ov). k < n)"

definition onative_ok :: "('e, 'j) onative \<Rightarrow> bool" where
  "onative_ok s \<longleftrightarrow> (\<forall>p ov. ov_vectors s p = Some ov \<longrightarrow> p < ov_next s \<and> ovec_ok (ov_next s) ov)
     \<and> (\<forall>a x. ov_values s a = Some x \<longrightarrow> a < ov_next s)"

lemma onative_okD: "onative_ok s \<Longrightarrow> ov_vectors s p = Some ov \<Longrightarrow> p < ov_next s \<and> ovec_ok (ov_next s) ov"
  by (simp add: onative_ok_def)

lemma ovec_ok_mono: "ovec_ok n ov \<Longrightarrow> n \<le> m \<Longrightarrow> ovec_ok m ov"
  by (auto simp: ovec_ok_def)

lemma ovec_ok_Suc: "ovec_ok n ov \<Longrightarrow> ovec_ok (Suc n) ov"
  by (erule ovec_ok_mono) simp

lemma put_vector_simps [simp]:
  "ov_values (put_vector p ov keep v' s) = ov_values s" "ov_machine (put_vector p ov keep v' s) = ov_machine s"
  "map_option vec (ov_vectors (put_vector p ov keep v' s) p) = Some v'"
  "q \<noteq> p \<Longrightarrow> ov_vectors (put_vector p ov keep v' s) q = ov_vectors s q"
  by (simp_all add: put_vector_def Let_def)

lemma put_vector_ok:
  assumes "onative_ok s" "ov_vectors s p = Some ov" "keep \<le> length (elems v')" "keep \<le> length (elems (vec ov))"
  shows "onative_ok (put_vector p ov keep v' s)"
proof -
  let ?k = "if capacity v' = capacity (vec ov) then keep else 0"
  let ?n = "length (elems v') - ?k"
  let ?ov = "\<lparr>vec = v', slots = take ?k (slots ov) @ [ov_next s ..< ov_next s + ?n]\<rparr>"
  have ok: "p < ov_next s" "ovec_ok (ov_next s) ov" using onative_okD [OF assms(1,2)] by auto
  have below: "k < ov_next s" if "k \<in> set (take ?k (slots ov))" for k
    using ok(2) in_set_takeD [OF that] by (auto simp: ovec_ok_def)
  have "ovec_ok (ov_next s + ?n) ?ov"
    using ok(2) assms(3,4) below by (fastforce simp: ovec_ok_def)
  moreover have "put_vector p ov keep v' s = s\<lparr>ov_vectors := (ov_vectors s)(p \<mapsto> ?ov), ov_next := ov_next s + ?n\<rparr>"
    by (simp add: put_vector_def Let_def)
  moreover have "ovec_ok (ov_next s + ?n) ov'" if "ov_vectors s q = Some ov'" for q ov'
    using onative_okD [OF assms(1) that] by (auto intro: ovec_ok_mono)
  ultimately show ?thesis
    using assms(1) ok(1) by (auto simp: onative_ok_def intro: trans_less_add1)
qed

text \<open>An address of an element after the vector was stored.\<close>

lemma deref_slot:
  assumes "ovec_ok n ov" "ov_vectors s p = Some ov" "i < length (elems (vec ov))"
  shows "deref s (Inside p (slots ov ! i)) = Some (elems (vec ov) ! i)"
  using assms map_of_zip_nth [of "slots ov" "elems (vec ov)" i] by (simp add: deref_def ovec_ok_def)

lemma deref_put_vector:
  assumes "onative_ok s" "ov_vectors s p = Some ov" "keep \<le> length (elems v')" "keep \<le> length (elems (vec ov))"
    and "i < length (elems (vec ov))"
  shows "deref (put_vector p ov keep v' s) (Inside p (slots ov ! i))
    = (if capacity v' = capacity (vec ov) \<and> i < keep then Some (elems v' ! i) else None)"
proof -
  let ?s = "put_vector p ov keep v' s"
  let ?k = "if capacity v' = capacity (vec ov) then keep else 0"
  define ov' where "ov' = \<lparr>vec = v', slots = take ?k (slots ov) @ [ov_next s ..< ov_next s + (length (elems v') - ?k)]\<rparr>"
  have ov': "ov_vectors ?s p = Some ov'" "vec ov' = v'"
    "slots ov' = take ?k (slots ov) @ [ov_next s ..< ov_next s + (length (elems v') - ?k)]"
    by (simp_all add: ov'_def put_vector_def Let_def)
  have ok': "ovec_ok (ov_next ?s) ov'" using onative_okD [OF put_vector_ok [OF assms(1-4)] ov'(1)] by simp
  have ok: "ovec_ok (ov_next s) ov" using onative_okD [OF assms(1,2)] by simp
  show ?thesis
  proof (cases "i < ?k")
    case True
    then have "slots ov' ! i = slots ov ! i" using ov'(3) ok assms(4) by (simp add: nth_append ovec_ok_def split: if_splits)
    moreover have "i < length (elems (vec ov'))" using True assms(3) ov'(2) by (simp split: if_splits)
    ultimately show ?thesis using deref_slot [OF ok' ov'(1), of i] True ov'(2) by (auto split: if_splits)
  next
    case False
    have "slots ov ! i \<notin> set (take ?k (slots ov))"
      using ok False assms(5) by (auto simp: ovec_ok_def in_set_conv_nth nth_eq_iff_index_eq)
    moreover have "slots ov ! i < ov_next s" using ok assms(5) by (simp add: ovec_ok_def)
    ultimately have "slots ov ! i \<notin> set (slots ov')" using ov'(3) by simp
    then have "map_of (zip (slots ov') (elems (vec ov'))) (slots ov ! i) = None"
      by (auto simp: map_of_eq_None_iff dest: set_zip_leftD)
    then show ?thesis using False ov'(1) by (auto simp: deref_def)
  qed
qed

lemma put_vector_same:
  "ovec_ok n ov \<Longrightarrow> ov_vectors s p = Some ov \<Longrightarrow> put_vector p ov (length (elems (vec ov))) (vec ov) s = s"
  by (cases s) (auto simp: put_vector_def ovec_ok_def fun_upd_idem)

lemma new_value_simps [simp]:
  "ov_vectors (snd (new_value x s)) = ov_vectors s" "ov_machine (snd (new_value x s)) = ov_machine s"
  "deref (snd (new_value x s)) (fst (new_value x s)) = Some x"
  "deref (snd (new_value x s)) (Inside q k) = deref s (Inside q k)"
  by (simp_all add: new_value_def deref_def)

lemma new_value_ok: "onative_ok s \<Longrightarrow> onative_ok (snd (new_value x s))"
  by (auto simp: onative_ok_def new_value_def intro: ovec_ok_Suc less_SucI)

lemma oraise_simps [simp]:
  "ov_vectors (oraise J e s) = ov_vectors s" "deref (oraise J e s) q = deref s q"
  "onative_ok (oraise J e s) = onative_ok s"
  by (simp_all add: oraise_def deref_def onative_ok_def split: optr.split)

lemma kept_le:
  assumes "vec_call (std_vector grow) oper v = (r, v')" and "\<And>e. r \<noteq> R_error e"
  shows "kept oper v \<le> length (elems v') \<and> kept oper v \<le> length (elems v)"
  using assms jint_size_le [of v]
  by (cases oper) (auto simp: vector_defs Let_def split: if_splits sum.splits)

lemma vec_call_error: "vec_call (std_vector grow) oper v = (R_error e, v') \<Longrightarrow> v' = v"
  by (cases oper) (auto split: sum.splits)

end
