(* ===== verification/Director.thy ===== *)
theory Director
  imports String_Vector
begin

text \<open>
  The director runtime of the binding: C++ objects whose virtual functions are implemented in Java. The
  class \<^verbatim>\<open>JObjectWrapper\<close> holds the reference to the Java object, strongly or weakly; a virtual call goes
  up to Java when the Java class overrides it, and a Java exception comes back as \<^verbatim>\<open>DirectorException\<close>.
  Attaching a thread to the machine (\<^verbatim>\<open>JNIEnvWrapper\<close>) gives the environment the calls are made on and is
  not modelled.
\<close>

section \<open>The wrapper of a Java object\<close>

record jobject_wrapper =
  jthis :: jref
  weak_global :: bool

definition wrapper_init :: jobject_wrapper where
  "wrapper_init = \<lparr>jthis = 0, weak_global = True\<rparr>"

definition wrapper_set ::
  "'j jvm \<Rightarrow> jref \<Rightarrow> bool \<Rightarrow> bool \<Rightarrow> jobject_wrapper \<Rightarrow> 'j \<Rightarrow> bool \<times> jobject_wrapper \<times> 'j" where
  "wrapper_set J jobj mem_own weak w j =
     (if jthis w = 0 then
        let weak' = (weak \<or> \<not> mem_own);
            (r, j1) = (if jobj \<noteq> 0 then (if weak' then NewWeakGlobalRef J jobj j else NewGlobalRef J jobj j)
                       else (0, j))
        in (True, \<lparr>jthis = r, weak_global = weak'\<rparr>, j1)
      else (False, w, j))"

definition wrapper_get :: "'j jvm \<Rightarrow> jobject_wrapper \<Rightarrow> 'j \<Rightarrow> jref \<times> 'j" where
  "wrapper_get J w j = (if jthis w \<noteq> 0 then NewLocalRef J (jthis w) j else (jthis w, j))"

definition wrapper_release :: "'j jvm \<Rightarrow> jobject_wrapper \<Rightarrow> 'j \<Rightarrow> jobject_wrapper \<times> 'j" where
  "wrapper_release J w j =
     (let j1 = (if jthis w \<noteq> 0 then
                  (if weak_global w then
                     (if \<not> IsSameObject J (jthis w) 0 j then snd (DeleteWeakGlobalRef J (jthis w) j) else j)
                   else snd (DeleteGlobalRef J (jthis w) j))
                else j)
      in (\<lparr>jthis = 0, weak_global = True\<rparr>, j1))"

definition java_change_ownership ::
  "'j jvm \<Rightarrow> jref \<Rightarrow> bool \<Rightarrow> jobject_wrapper \<Rightarrow> 'j \<Rightarrow> jobject_wrapper \<times> 'j" where
  "java_change_ownership J jself take_or_release w j =
     (if take_or_release then
        (if \<not> weak_global w then
           let j1 = snd (DeleteGlobalRef J (jthis w) j); (r, j2) = NewWeakGlobalRef J jself j1
           in (\<lparr>jthis = r, weak_global = True\<rparr>, j2)
         else (w, j))
      else
        (if weak_global w then
           let j1 = snd (DeleteWeakGlobalRef J (jthis w) j); (r, j2) = NewGlobalRef J jself j1
           in (\<lparr>jthis = r, weak_global = False\<rparr>, j2)
         else (w, j)))"

text \<open>The destructor of a \<^verbatim>\<open>LocalRefGuard\<close>.\<close>

definition guard_release :: "'j jvm \<Rightarrow> jref \<Rightarrow> 'j \<Rightarrow> 'j" where
  "guard_release J r j = (if r \<noteq> 0 then snd (DeleteLocalRef J r j) else j)"

section \<open>Exceptions from Java\<close>

text \<open>\<^verbatim>\<open>JavaString\<close>: the characters of a Java string for the time of the object's life.\<close>

definition java_string_open :: "'j jvm \<Rightarrow> jref \<Rightarrow> 'j \<Rightarrow> string option \<times> 'j" where
  "java_string_open J jstr j = (if jstr \<noteq> 0 then GetStringUTFChars J jstr j else (None, j))"

definition java_string_close :: "'j jvm \<Rightarrow> jref \<Rightarrow> string option \<Rightarrow> 'j \<Rightarrow> 'j" where
  "java_string_close J jstr chars j =
     (if jstr \<noteq> 0 \<and> chars \<noteq> None then snd (ReleaseStringUTFChars J jstr j) else j)"

definition c_str :: "string \<Rightarrow> string option \<Rightarrow> string" where
  "c_str null_string chars = (case chars of None \<Rightarrow> null_string | Some cs \<Rightarrow> cs)"

definition exceptionMessageFromThrowable :: "'j jvm \<Rightarrow> jref \<Rightarrow> 'j \<Rightarrow> jref \<times> 'j" where
  "exceptionMessageFromThrowable J throwable j =
     (if throwable \<noteq> 0 then
        let j1 = snd (ExceptionClear J j);
            (throwclz, j2) = GetObjectClass J throwable j1;
            (jmsg, j4) =
              (if throwclz \<noteq> 0 then
                 let (getMessageMethodID, j3) = GetMethodID J throwclz ''getMessage'' ''()Ljava/lang/String;'' j2
                 in if getMessageMethodID \<noteq> 0 then CallObjectMethod J throwable getMessageMethodID j3 else (0, j3)
               else (0, j2))
        in (jmsg, if jmsg = 0 \<and> ExceptionCheck J j4 then snd (ExceptionClear J j4) else j4)
      else (0, j))"

definition copystr :: "string option \<Rightarrow> string option" where
  "copystr srcmsg = map_option c_string srcmsg"

definition copypath :: "string \<Rightarrow> string" where
  "copypath srcmsg = map (\<lambda>c. if c = CHR ''.'' then CHR ''/'' else c) (c_string srcmsg)"

text \<open>The exception object; \<open>de_env\<close> says whether it was made on a Java environment.\<close>

record director_exception =
  de_env :: bool
  de_throwable :: jref
  de_classname :: "string option"
  de_msg :: "string option"

text \<open>The class name of a throwable: \<^verbatim>\<open>Object.getClass().getName()\<close>, with slashes.\<close>

definition throwable_classname :: "'j jvm \<Rightarrow> jref \<Rightarrow> 'j \<Rightarrow> string option \<times> 'j" where
  "throwable_classname J throwable j =
     (let j1 = snd (ExceptionClear J j);
          (throwclz, j2) = GetObjectClass J throwable j1
      in if throwclz = 0 then (None, j2)
         else let (clzclz, j3) = GetObjectClass J throwclz j2
           in if clzclz = 0 then (None, j3)
              else let (getNameMethodID, j4) = GetMethodID J clzclz ''getName'' ''()Ljava/lang/String;'' j3
                in if getNameMethodID = 0 then (None, j4)
                   else let (jstr, j5) = CallObjectMethod J throwclz getNameMethodID j4
                     in if jstr = 0 then (None, j5)
                        else let (chars, j6) = java_string_open J jstr j5
                          in (map_option copypath chars, java_string_close J jstr chars j6))"

definition director_exception :: "'j jvm \<Rightarrow> jref \<Rightarrow> 'j \<Rightarrow> director_exception \<times> 'j" where
  "director_exception J throwable j =
     (let (classname, j1) = (if throwable \<noteq> 0 then throwable_classname J throwable j else (None, j));
          (jmsg, j2) = exceptionMessageFromThrowable J throwable j1;
          (chars, j3) = java_string_open J jmsg j2
      in (\<lparr>de_env = True, de_throwable = throwable, de_classname = classname, de_msg = copystr chars\<rparr>,
          java_string_close J jmsg chars j3))"

definition director_exception_message :: "string option \<Rightarrow> director_exception" where
  "director_exception_message msg =
     \<lparr>de_env = False, de_throwable = 0, de_classname = None, de_msg = copystr msg\<rparr>"

definition what :: "director_exception \<Rightarrow> string" where
  "what e = (case de_msg e of None \<Rightarrow> ''Unspecified DirectorException message'' | Some m \<Rightarrow> m)"

text \<open>\<open>same\<close> says whether the environment is the one the exception was made on.\<close>

definition throwException :: "'j jvm \<Rightarrow> bool \<Rightarrow> director_exception \<Rightarrow> 'j \<Rightarrow> 'j" where
  "throwException J same e j =
     (if same \<and> de_env e \<and> de_throwable e \<noteq> 0 then
        let (throwable, j1) = ExceptionOccurred J j;
            (throwable2, j2) =
              (if throwable \<noteq> 0 \<and> \<not> IsSameObject J throwable (de_throwable e) j1
               then (0, snd (ExceptionClear J j1)) else (throwable, j1))
        in if throwable2 = 0 then snd (Throw J (de_throwable e) j2) else j2
      else
        let j1 = snd (ExceptionClear J j);
            (throwableclass, ctorMethodID, j3) =
              (case de_classname e of
                 None \<Rightarrow> (0, 0, j1)
               | Some classname \<Rightarrow>
                   let (cls, j2) = FindClass J classname j1
                   in if cls \<noteq> 0 then
                        let (ctor, j3) = GetMethodID J cls ''<init>'' ''(Ljava/lang/String;)V'' j2 in (cls, ctor, j3)
                      else (0, 0, j2))
        in if ctorMethodID \<noteq> 0 then snd (ThrowNew J throwableclass (what e) j3)
           else SWIG_JavaThrowException J SWIG_JavaRuntimeException (what e) j3)"

definition ExceptionMatches :: "'j jvm \<Rightarrow> jref \<Rightarrow> string \<Rightarrow> 'j \<Rightarrow> bool \<times> 'j" where
  "ExceptionMatches J throwable classname j =
     (if throwable \<noteq> 0 then
        let j1 = snd (ExceptionClear J j);
            (clz, j2) = FindClass J classname j1
        in if clz \<noteq> 0 then
             let (classclz, j3) = GetObjectClass J clz j2;
                 (isInstanceMethodID, j4) = GetMethodID J classclz ''isInstance'' ''(Ljava/lang/Object;)Z'' j3
             in if isInstanceMethodID \<noteq> 0 then CallBooleanMethod J clz isInstanceMethodID throwable j4
                else (False, j4)
           else (False, j2)
      else (False, j))"

section \<open>Directors\<close>

record director =
  swig_self :: jobject_wrapper
  swig_override :: "bool list"

text \<open>The binding's directors override one virtual function each.\<close>

definition new_director :: director where
  "new_director = \<lparr>swig_self = wrapper_init, swig_override = [False]\<rparr>"

definition swig_disconnect_director_self :: "'j jvm \<Rightarrow> string \<Rightarrow> director \<Rightarrow> 'j \<Rightarrow> 'j" where
  "swig_disconnect_director_self J disconn_method d j =
     (let (jobj, j1) = wrapper_get J (swig_self d) j;
          j4 = (if jobj \<noteq> 0 \<and> \<not> IsSameObject J jobj 0 j1 then
                  let (cls, j2) = GetObjectClass J jobj j1;
                      (disconn_meth, j3) = GetMethodID J cls disconn_method ''()V'' j2
                  in if disconn_meth \<noteq> 0 then snd (CallVoidMethod J jobj disconn_meth j3) else j3
                else j1)
      in guard_release J jobj j4)"

text \<open>The destructor of a director: disconnect, then the base class gives up the reference.\<close>

definition delete_director :: "'j jvm \<Rightarrow> director \<Rightarrow> 'j \<Rightarrow> 'j" where
  "delete_director J d j =
     snd (wrapper_release J (swig_self d) (swig_disconnect_director_self J ''swigDirectorDisconnect'' d j))"

definition swig_new_global_ref :: "'j jvm \<Rightarrow> string \<Rightarrow> 'j \<Rightarrow> jref \<times> 'j" where
  "swig_new_global_ref J classname j =
     (let (clz, j1) = FindClass J classname j in if clz \<noteq> 0 then NewGlobalRef J clz j1 else (0, j1))"

text \<open>
  The function-local statics of \<^verbatim>\<open>swig_connect_director\<close>: the base class and the id of its method, once they
  have been initialised.
\<close>

record director_statics =
  st_baseclass :: "jref option"
  st_methid :: "nat option"

definition swig_connect_director ::
  "'j jvm \<Rightarrow> string \<Rightarrow> string \<Rightarrow> string \<Rightarrow> jref \<Rightarrow> jref \<Rightarrow> bool \<Rightarrow> bool
     \<Rightarrow> director_statics \<Rightarrow> director \<Rightarrow> 'j \<Rightarrow> director_statics \<times> director \<times> 'j" where
  "swig_connect_director J classname name desc jself jcls swig_mem_own weak st d j =
     (let (baseclass, j1) = (case st_baseclass st of
             None \<Rightarrow> swig_new_global_ref J classname j
           | Some c \<Rightarrow> (c, j));
          st1 = st\<lparr>st_baseclass := Some baseclass\<rparr>
      in if baseclass = 0 then (st1, d, j1)
         else
           let (methid0, j2) = (case st_methid st of
                  None \<Rightarrow> GetMethodID J baseclass name desc j1
                | Some m \<Rightarrow> (m, j1));
               st2 = st1\<lparr>st_methid := Some methid0\<rparr>;
               (fresh, w, j3) = wrapper_set J jself swig_mem_own weak (swig_self d) j2;
               d1 = d\<lparr>swig_self := w\<rparr>
           in if \<not> fresh then (st2, d1, j3)
              else
                let derived = (\<not> IsSameObject J baseclass jcls j3)
                in if derived then
                     let (methid, j4) = GetMethodID J jcls name desc j3
                     in (st2, d1\<lparr>swig_override := [methid0 \<noteq> 0 \<and> methid \<noteq> methid0]\<rparr>, snd (ExceptionClear J j4))
                   else (st2, d1\<lparr>swig_override := [False]\<rparr>, j3))"

text \<open>
  How an upcall ends: with a value, or with a C++ exception that leaves the frame before the local
  reference to the Java object is deleted.
\<close>

datatype 'r upcall = Upcall_returns 'r | Upcall_raises director_exception

definition on_alert ::
  "'j jvm \<Rightarrow> jref \<Rightarrow> nat \<Rightarrow> ('j \<Rightarrow> 'j) \<Rightarrow> director \<Rightarrow> 'j \<Rightarrow> unit upcall \<times> 'j" where
  "on_alert J jclass_libtorrent_jni method_id base d j =
     (if \<not> swig_override d ! 0 then (Upcall_returns (), base j)
      else
        let (swigjobj, j1) = wrapper_get J (swig_self d) j
        in if swigjobj \<noteq> 0 \<and> \<not> IsSameObject J swigjobj 0 j1 then
             let j2 = snd (CallStaticMethod J jclass_libtorrent_jni method_id [A_ref swigjobj] j1);
                 (swigerror, j3) = ExceptionOccurred J j2
             in if swigerror \<noteq> 0 then
                  let (e, j4) = director_exception J swigerror j3 in (Upcall_raises e, j4)
                else (Upcall_returns (), guard_release J swigjobj j3)
           else
             (Upcall_returns (), guard_release J swigjobj
               (SWIG_JavaThrowException J SWIG_JavaNullPointerException
                 ''null upcall object in alert_notify_callback::on_alert '' j1)))"

definition pred_listener ::
  "'j jvm \<Rightarrow> jref \<Rightarrow> nat \<Rightarrow> (string \<Rightarrow> 'j \<Rightarrow> bool \<times> 'j) \<Rightarrow> director \<Rightarrow> string \<Rightarrow> 'j \<Rightarrow> bool upcall \<times> 'j" where
  "pred_listener J jclass_libtorrent_jni method_id base d p j =
     (if \<not> swig_override d ! 0 then let (r, j1) = base p j in (Upcall_returns r, j1)
      else
        let (swigjobj, j1) = wrapper_get J (swig_self d) j
        in if swigjobj \<noteq> 0 \<and> \<not> IsSameObject J swigjobj 0 j1 then
             let (jp, j2) = NewStringUTF J (c_string p) j1;
                 (jresult, j3) = CallStaticMethod J jclass_libtorrent_jni method_id [A_ref swigjobj, A_ref jp] j2;
                 (swigerror, j4) = ExceptionOccurred J j3
             in if swigerror \<noteq> 0 then
                  let (e, j5) = director_exception J swigerror j4 in (Upcall_raises e, guard_release J jp j5)
                else (Upcall_returns jresult, guard_release J swigjobj (guard_release J jp j4))
           else
             (Upcall_returns False, guard_release J swigjobj
               (SWIG_JavaThrowException J SWIG_JavaNullPointerException
                 ''null upcall object in list_files_listener::pred '' j1)))"

definition progress_listener ::
  "'j jvm \<Rightarrow> jref \<Rightarrow> nat \<Rightarrow> (int \<Rightarrow> 'j \<Rightarrow> 'j) \<Rightarrow> director \<Rightarrow> int \<Rightarrow> 'j \<Rightarrow> unit upcall \<times> 'j" where
  "progress_listener J jclass_libtorrent_jni method_id base d i j =
     (if \<not> swig_override d ! 0 then (Upcall_returns (), base i j)
      else
        let (swigjobj, j1) = wrapper_get J (swig_self d) j
        in if swigjobj \<noteq> 0 \<and> \<not> IsSameObject J swigjobj 0 j1 then
             let j2 = snd (CallStaticMethod J jclass_libtorrent_jni method_id [A_ref swigjobj, A_int i] j1);
                 (swigerror, j3) = ExceptionOccurred J j2
             in if swigerror \<noteq> 0 then
                  let (e, j4) = director_exception J swigerror j3 in (Upcall_raises e, j4)
                else (Upcall_returns (), guard_release J swigjobj j3)
           else
             (Upcall_returns (), guard_release J swigjobj
               (SWIG_JavaThrowException J SWIG_JavaNullPointerException
                 ''null upcall object in set_piece_hashes_listener::progress '' j1)))"

text \<open>The three directors of the binding.\<close>

definition alert_notify_callback_connect where
  "alert_notify_callback_connect J =
     swig_connect_director J ''org/libtorrent4j/swig/alert_notify_callback'' ''on_alert'' ''()V''"

definition list_files_listener_connect where
  "list_files_listener_connect J =
     swig_connect_director J ''org/libtorrent4j/swig/list_files_listener'' ''pred'' ''(Ljava/lang/String;)Z''"

definition set_piece_hashes_listener_connect where
  "set_piece_hashes_listener_connect J =
     swig_connect_director J ''org/libtorrent4j/swig/set_piece_hashes_listener'' ''progress'' ''(I)V''"

section \<open>The references of a wrapper are balanced\<close>

text \<open>What a wrapper holds, as the references it would have to give back.\<close>

definition held_globals :: "jobject_wrapper \<Rightarrow> jref multiset" where
  "held_globals w = (if jthis w \<noteq> 0 \<and> \<not> weak_global w then {#jthis w#} else {#})"

definition held_weaks :: "jobject_wrapper \<Rightarrow> jref multiset" where
  "held_weaks w = (if jthis w \<noteq> 0 \<and> weak_global w then {#jthis w#} else {#})"

text \<open>
  The live references are those of the rest of the program (\<open>G\<close> and \<open>W\<close>) and those the wrapper holds,
  and only live references have been deleted.
\<close>

definition wrapper_balanced ::
  "jref multiset \<Rightarrow> jref multiset \<Rightarrow> jobject_wrapper \<Rightarrow> jtrace \<Rightarrow> bool" where
  "wrapper_balanced G W w tr \<longleftrightarrow> mset (live_globals tr) = G + held_globals w
     \<and> mset (live_weaks tr) = W + held_weaks w \<and> deletes_live tr"

datatype wrapper_op =
    W_set jref bool bool
  | W_get
  | W_release
  | W_change_ownership jref bool

fun wrapper_step :: "'j jvm \<Rightarrow> wrapper_op \<Rightarrow> jobject_wrapper \<times> 'j \<Rightarrow> jobject_wrapper \<times> 'j" where
  "wrapper_step J (W_set jobj mem_own weak) (w, j) = snd (wrapper_set J jobj mem_own weak w j)"
| "wrapper_step J W_get (w, j) = (w, snd (wrapper_get J w j))"
| "wrapper_step J W_release (w, j) = wrapper_release J w j"
| "wrapper_step J (W_change_ownership jself release) (w, j) = java_change_ownership J jself release w j"

definition wrapper_run :: "'j jvm \<Rightarrow> wrapper_op list \<Rightarrow> jobject_wrapper \<times> 'j \<Rightarrow> jobject_wrapper \<times> 'j" where
  "wrapper_run J opers s = fold (wrapper_step J) opers s"

text \<open>\<open>present J\<close>: no Java object is collected while the program runs.\<close>

definition present :: "'j jvm \<Rightarrow> bool" where
  "present J \<longleftrightarrow> (\<forall>r j. r \<noteq> 0 \<longrightarrow> \<not> IsSameObject J r 0 j)"

lemma live_mem:
  "mset xs = A + {#x#} \<Longrightarrow> x \<in> set xs" "mset xs = A + {#x#} \<Longrightarrow> mset (remove1 x xs) = A"
  by (metis union_iff multi_member_this add_mset_add_single set_mset_mset union_single_eq_member)
    (simp add: mset_remove1)

text \<open>What \<^verbatim>\<open>release\<close> leaves behind: it forgets a weak reference whose object has been collected without deleting it.\<close>

definition left_behind :: "'j jvm \<Rightarrow> jobject_wrapper \<Rightarrow> 'j \<Rightarrow> jref multiset" where
  "left_behind J w j = (if jthis w \<noteq> 0 \<and> weak_global w \<and> IsSameObject J (jthis w) 0 j then {#jthis w#} else {#})"

lemma left_behind_present: "present J \<Longrightarrow> left_behind (audit_jvm J) w j = {#}"
  by (auto simp: left_behind_def present_def audit_jvm_def split: prod.splits)

lemma wrapper_step_balanced:
  assumes "wrapper_step (audit_jvm J) oper (w, j) = (w', j')" and "wrapper_balanced G W w (snd j)"
  shows "wrapper_balanced G (W + (if oper = W_release then left_behind (audit_jvm J) w j else {#})) w' (snd j')"
  using assms
  by (cases oper)
    (auto simp: wrapper_balanced_def wrapper_set_def wrapper_get_def wrapper_release_def java_change_ownership_def
      held_globals_def held_weaks_def left_behind_def audit_jvm_def noted_eq if_ref_def Let_def live_mem
      split: if_splits prod.splits)

lemma wrapper_run_balanced:
  assumes "wrapper_run (audit_jvm J) opers (w, j) = (w', j')" and "wrapper_balanced G W w (snd j)" and "present J"
  shows "wrapper_balanced G W w' (snd j')"
  using assms(1,2)
proof (induction opers arbitrary: w j)
  case (Cons oper opers)
  obtain w1 j1 where s1: "wrapper_step (audit_jvm J) oper (w, j) = (w1, j1)" by (metis surj_pair)
  have "wrapper_balanced G W w1 (snd j1)"
    using wrapper_step_balanced [OF s1 Cons.prems(2)] left_behind_present [OF assms(3), of w j] by (simp split: if_splits)
  with Cons.IH [of w1 j1] Cons.prems(1) s1 show ?case by (simp add: wrapper_run_def)
qed (simp add: wrapper_run_def)

section \<open>Local references of an upcall\<close>

text \<open>What the calls made while building the exception object do to the local references.\<close>

lemma audited_locals [simp]:
  "live_locals (snd (snd (ExceptionClear (audit_jvm J) j))) = live_locals (snd j)"
  "live_locals (snd (snd (GetMethodID (audit_jvm J) c n d j))) = live_locals (snd j)"
  "live_locals (snd (snd (GetStringUTFChars (audit_jvm J) r j))) = live_locals (snd j)"
  "live_locals (snd (snd (ReleaseStringUTFChars (audit_jvm J) r j))) = live_locals (snd j)"
  "live_locals (snd (snd (CallStaticMethod (audit_jvm J) c m args j))) = live_locals (snd j)"
  by (auto simp: audit_jvm_def split: option.splits)

definition locals_grow :: "'j \<times> jtrace \<Rightarrow> 'j \<times> jtrace \<Rightarrow> bool" where
  "locals_grow j j' \<longleftrightarrow> mset (live_locals (snd j)) \<subseteq># mset (live_locals (snd j'))"

lemma locals_grow_refl [simp]: "locals_grow j j"
  by (simp add: locals_grow_def)

lemma locals_grow_trans: "locals_grow j j1 \<Longrightarrow> locals_grow j1 j2 \<Longrightarrow> locals_grow j j2"
  by (auto simp: locals_grow_def intro: subset_mset.order_trans)

lemma locals_grow_same [simp]:
  "locals_grow j (snd (ExceptionClear (audit_jvm J) j1)) = locals_grow j j1"
  "locals_grow j (snd (GetMethodID (audit_jvm J) c n d j1)) = locals_grow j j1"
  "locals_grow j (snd (java_string_open (audit_jvm J) r j1)) = locals_grow j j1"
  "locals_grow j (java_string_close (audit_jvm J) r chars j1) = locals_grow j j1"
  by (simp_all add: locals_grow_def java_string_open_def java_string_close_def)

lemma locals_grow_ref [simp]:
  "locals_grow j j1 \<Longrightarrow> locals_grow j (snd (GetObjectClass (audit_jvm J) r j1))"
  "locals_grow j j1 \<Longrightarrow> locals_grow j (snd (CallObjectMethod (audit_jvm J) r m j1))"
  by (auto simp: locals_grow_def audit_jvm_def if_ref_def intro: subset_mset.order_trans)

lemma locals_grow_classname: "locals_grow j (snd (throwable_classname (audit_jvm J) r j))"
  by (auto simp: throwable_classname_def Let_def split_beta)

lemma locals_grow_message [simp]: "locals_grow j j1 \<Longrightarrow> locals_grow j (snd (exceptionMessageFromThrowable (audit_jvm J) r j1))"
  by (auto simp: exceptionMessageFromThrowable_def Let_def split_beta)

text \<open>Building the exception object takes local references and gives none back.\<close>

lemma locals_grow_exception: "locals_grow j (snd (director_exception (audit_jvm J) r j))"
  using locals_grow_classname [of j J r] by (simp add: director_exception_def Let_def split_beta)

text \<open>An upcall that returns has given its references back; one that raises has not.\<close>

lemma on_alert_outcome:
  assumes "on_alert (audit_jvm J) cls m base d j = (r, j')" and "swig_override d = [True]"
    and "jthis (swig_self d) \<noteq> 0" and "NewLocalRef J (jthis (swig_self d)) (fst j) = (obj, j1)"
    and "obj \<noteq> 0" and "\<not> IsSameObject J obj 0 j1"
  shows "case r of
      Upcall_returns _ \<Rightarrow> mset (live_locals (snd j')) = mset (live_locals (snd j))
    | Upcall_raises e \<Rightarrow> add_mset obj (mset (live_locals (snd j))) \<subseteq># mset (live_locals (snd j'))"
proof -
  let ?j1 = "(j1, J_local obj # snd j)"
  have g: "wrapper_get (audit_jvm J) (swig_self d) j = (obj, ?j1)"
    using assms(3-5) by (simp add: wrapper_get_def audit_jvm_def noted_eq if_ref_def)
  have alive: "\<not> IsSameObject (audit_jvm J) obj 0 ?j1" using assms(6) by (simp add: audit_jvm_def)
  obtain b j2 where c: "CallStaticMethod (audit_jvm J) cls m [A_ref obj] ?j1 = (b, j2)" by (metis surj_pair)
  obtain err j3 where x: "ExceptionOccurred (audit_jvm J) j2 = (err, j3)" by (metis surj_pair)
  have l2: "live_locals (snd j2) = obj # live_locals (snd j)"
    using audited_locals(5) [of J cls m "[A_ref obj]" ?j1] by (simp add: c)
  have l3: "live_locals (snd j3) = (if err = 0 then obj # live_locals (snd j) else err # obj # live_locals (snd j))"
    using x l2 by (auto simp: audit_jvm_def noted_eq if_ref_def)
  show ?thesis
  proof (cases "err = 0")
    case True
    with assms(1,2,5) g alive c x have "r = Upcall_returns ()" "j' = guard_release (audit_jvm J) obj j3"
      by (simp_all add: on_alert_def Let_def split_beta)
    with True l3 assms(5) show ?thesis by (simp add: guard_release_def audit_jvm_def if_ref_def)
  next
    case False
    obtain e j4 where e: "director_exception (audit_jvm J) err j3 = (e, j4)" by (metis surj_pair)
    have "r = Upcall_raises e" "j' = j4"
      using assms(1,2,5) g alive c x e False by (simp_all add: on_alert_def Let_def split_beta)
    moreover have "mset (live_locals (snd j3)) \<subseteq># mset (live_locals (snd j4))"
      using locals_grow_exception [of j3 J err] by (simp add: e locals_grow_def)
    ultimately show ?thesis using False l3
      by (auto intro: subset_mset.order_trans [rotated])
  qed
qed

end
