(* ===== verification/Flags.thy ===== *)
theory Flags
  imports Jni_Runtime
begin

text \<open>
  The helpers the binding generates for libtorrent's flag types. A flag type is
  \<^verbatim>\<open>flags::bitfield_flag<UnderlyingType, Tag>\<close>, a class of libtorrent, so its operations are a parameter:
  a record of functions over a word type of the underlying width. What its documentation says of them is the
  locale below.
\<close>

record ('f, 'v) bitfield_flag =
  fl_bool :: "'f \<Rightarrow> bool"
  fl_equal :: "'f \<Rightarrow> 'f \<Rightarrow> bool"
  fl_differ :: "'f \<Rightarrow> 'f \<Rightarrow> bool"
  fl_or :: "'f \<Rightarrow> 'f \<Rightarrow> 'f"
  fl_and :: "'f \<Rightarrow> 'f \<Rightarrow> 'f"
  fl_xor :: "'f \<Rightarrow> 'f \<Rightarrow> 'f"
  fl_inv :: "'f \<Rightarrow> 'f"
  fl_value :: "'f \<Rightarrow> 'v"
  fl_make :: "'v \<Rightarrow> 'f"

section \<open>The generated helpers\<close>

definition flag_non_zero :: "('f, 'w::len word) bitfield_flag \<Rightarrow> 'f \<Rightarrow> bool" where
  "flag_non_zero F f = fl_bool F f"

definition flag_eq :: "('f, 'w::len word) bitfield_flag \<Rightarrow> 'f \<Rightarrow> 'f \<Rightarrow> bool" where
  "flag_eq F f g = fl_equal F f g"

definition flag_ne :: "('f, 'w::len word) bitfield_flag \<Rightarrow> 'f \<Rightarrow> 'f \<Rightarrow> bool" where
  "flag_ne F f g = fl_differ F f g"

definition flag_or :: "('f, 'w::len word) bitfield_flag \<Rightarrow> 'f \<Rightarrow> 'f \<Rightarrow> 'f" where
  "flag_or F f g = fl_or F f g"

definition flag_and :: "('f, 'w::len word) bitfield_flag \<Rightarrow> 'f \<Rightarrow> 'f \<Rightarrow> 'f" where
  "flag_and F f g = fl_and F f g"

definition flag_xor :: "('f, 'w::len word) bitfield_flag \<Rightarrow> 'f \<Rightarrow> 'f \<Rightarrow> 'f" where
  "flag_xor F f g = fl_xor F f g"

definition flag_inv :: "('f, 'w::len word) bitfield_flag \<Rightarrow> 'f \<Rightarrow> 'f" where
  "flag_inv F f = fl_inv F f"

text \<open>
  \<^verbatim>\<open>static_cast<int>\<close> of the unsigned value: narrower types are extended with zeros, the 64-bit type is
  cut. \<^verbatim>\<open>static_cast<UnderlyingType>(val)\<close> of an \<^verbatim>\<open>int\<close> keeps the low bits, and extends the sign to 64 bits.
\<close>

definition flag_to_int :: "('f, 'w::len word) bitfield_flag \<Rightarrow> 'f \<Rightarrow> jint" where
  "flag_to_int F f = ucast (fl_value F f)"

definition flag_from_int :: "('f, 'w::len word) bitfield_flag \<Rightarrow> jint \<Rightarrow> 'f" where
  "flag_from_int F val = fl_make F (scast val)"

record 'f flag_class =
  fc_non_zero :: "'f \<Rightarrow> bool"
  fc_eq :: "'f \<Rightarrow> 'f \<Rightarrow> bool"
  fc_ne :: "'f \<Rightarrow> 'f \<Rightarrow> bool"
  fc_or :: "'f \<Rightarrow> 'f \<Rightarrow> 'f"
  fc_and :: "'f \<Rightarrow> 'f \<Rightarrow> 'f"
  fc_xor :: "'f \<Rightarrow> 'f \<Rightarrow> 'f"
  fc_inv :: "'f \<Rightarrow> 'f"
  fc_to_int :: "'f \<Rightarrow> jint"
  fc_from_int :: "jint \<Rightarrow> 'f"

definition flag_class :: "('f, 'w::len word) bitfield_flag \<Rightarrow> 'f flag_class" where
  "flag_class F = \<lparr>fc_non_zero = flag_non_zero F, fc_eq = flag_eq F, fc_ne = flag_ne F,
     fc_or = flag_or F, fc_and = flag_and F, fc_xor = flag_xor F, fc_inv = flag_inv F,
     fc_to_int = flag_to_int F, fc_from_int = flag_from_int F\<rparr>"

section \<open>The flag types of the binding\<close>

definition file_flags_class :: "('f, 8 word) bitfield_flag \<Rightarrow> 'f flag_class" where
  "file_flags_class F = flag_class F"

definition torrent_flags_class :: "('f, 64 word) bitfield_flag \<Rightarrow> 'f flag_class" where
  "torrent_flags_class F = flag_class F"

definition bandwidth_state_flags_class :: "('f, 8 word) bitfield_flag \<Rightarrow> 'f flag_class" where
  "bandwidth_state_flags_class F = flag_class F"

definition connection_type_class :: "('f, 8 word) bitfield_flag \<Rightarrow> 'f flag_class" where
  "connection_type_class F = flag_class F"

definition peer_source_flags_class :: "('f, 8 word) bitfield_flag \<Rightarrow> 'f flag_class" where
  "peer_source_flags_class F = flag_class F"

definition peer_flags_class :: "('f, 32 word) bitfield_flag \<Rightarrow> 'f flag_class" where
  "peer_flags_class F = flag_class F"

definition pex_flags_class :: "('f, 8 word) bitfield_flag \<Rightarrow> 'f flag_class" where
  "pex_flags_class F = flag_class F"

definition add_piece_flags_class :: "('f, 8 word) bitfield_flag \<Rightarrow> 'f flag_class" where
  "add_piece_flags_class F = flag_class F"

definition deadline_flags_class :: "('f, 8 word) bitfield_flag \<Rightarrow> 'f flag_class" where
  "deadline_flags_class F = flag_class F"

definition file_progress_flags_class :: "('f, 8 word) bitfield_flag \<Rightarrow> 'f flag_class" where
  "file_progress_flags_class F = flag_class F"

definition pause_flags_class :: "('f, 8 word) bitfield_flag \<Rightarrow> 'f flag_class" where
  "pause_flags_class F = flag_class F"

definition resume_data_flags_class :: "('f, 8 word) bitfield_flag \<Rightarrow> 'f flag_class" where
  "resume_data_flags_class F = flag_class F"

definition reannounce_flags_class :: "('f, 8 word) bitfield_flag \<Rightarrow> 'f flag_class" where
  "reannounce_flags_class F = flag_class F"

definition status_flags_class :: "('f, 32 word) bitfield_flag \<Rightarrow> 'f flag_class" where
  "status_flags_class F = flag_class F"

definition alert_category_class :: "('f, 32 word) bitfield_flag \<Rightarrow> 'f flag_class" where
  "alert_category_class F = flag_class F"

definition picker_flags_class :: "('f, 32 word) bitfield_flag \<Rightarrow> 'f flag_class" where
  "picker_flags_class F = flag_class F"

definition remove_flags_class :: "('f, 8 word) bitfield_flag \<Rightarrow> 'f flag_class" where
  "remove_flags_class F = flag_class F"

definition save_state_flags_class :: "('f, 32 word) bitfield_flag \<Rightarrow> 'f flag_class" where
  "save_state_flags_class F = flag_class F"

definition session_flags_class :: "('f, 8 word) bitfield_flag \<Rightarrow> 'f flag_class" where
  "session_flags_class F = flag_class F"

definition reopen_network_flags_class :: "('f, 8 word) bitfield_flag \<Rightarrow> 'f flag_class" where
  "reopen_network_flags_class F = flag_class F"

definition create_flags_class :: "('f, 32 word) bitfield_flag \<Rightarrow> 'f flag_class" where
  "create_flags_class F = flag_class F"

definition write_torrent_flags_class :: "('f, 32 word) bitfield_flag \<Rightarrow> 'f flag_class" where
  "write_torrent_flags_class F = flag_class F"

section \<open>Flags as words\<close>

text \<open>The documented behaviour of the flag class: it wraps a value of the underlying type.\<close>

locale flag_type =
  fixes F :: "('f, 'w::len word) bitfield_flag"
  assumes value_make: "fl_value F (fl_make F x) = x"
    and make_value: "fl_make F (fl_value F f) = f"
    and bool_value: "fl_bool F f \<longleftrightarrow> fl_value F f \<noteq> 0"
    and equal_value: "fl_equal F f g \<longleftrightarrow> fl_value F f = fl_value F g"
    and differ_value: "fl_differ F f g \<longleftrightarrow> fl_value F f \<noteq> fl_value F g"
    and or_value: "fl_value F (fl_or F f g) = or (fl_value F f) (fl_value F g)"
    and and_value: "fl_value F (fl_and F f g) = and (fl_value F f) (fl_value F g)"
    and xor_value: "fl_value F (fl_xor F f g) = xor (fl_value F f) (fl_value F g)"
    and inv_value: "fl_value F (fl_inv F f) = not (fl_value F f)"
begin

lemma value_inject: "fl_value F f = fl_value F g \<longleftrightarrow> f = g"
  using make_value by metis

text \<open>A flag of at most 32 bits survives the way through a Java integer.\<close>

lemma from_int_to_int: "LENGTH('w) \<le> 32 \<Longrightarrow> flag_from_int F (flag_to_int F f) = f"
proof -
  assume w: "LENGTH('w) \<le> 32"
  have "(scast (ucast (fl_value F f) :: jint) :: 'w word) = fl_value F f"
  proof (rule bit_word_eqI)
    fix n assume "n < LENGTH('w)"
    with w show "bit (scast (ucast (fl_value F f) :: jint) :: 'w word) n = bit (fl_value F f) n"
      by (auto simp: bit_simps dest: bit_imp_le_length)
  qed
  then show ?thesis by (simp add: flag_from_int_def flag_to_int_def make_value)
qed

text \<open>A flag of 64 bits does exactly when its upper half repeats bit 31.\<close>

lemma from_int_to_int_wide:
  assumes "LENGTH('w) = 64"
  shows "flag_from_int F (flag_to_int F f) = f \<longleftrightarrow>
    (\<forall>n. 32 \<le> n \<longrightarrow> n < 64 \<longrightarrow> bit (fl_value F f) n = bit (fl_value F f) 31)"
proof -
  have bits: "bit (scast (ucast (fl_value F f) :: jint) :: 'w word) n = bit (fl_value F f) (if n < 32 then n else 31)"
    if "n < 64" for n
    using that assms by (auto simp: bit_simps)
  have "flag_from_int F (flag_to_int F f) = f \<longleftrightarrow> (scast (ucast (fl_value F f) :: jint) :: 'w word) = fl_value F f"
    unfolding flag_from_int_def flag_to_int_def by (metis make_value value_make)
  also have "\<dots> \<longleftrightarrow> (\<forall>n < 64. bit (fl_value F f) (if n < 32 then n else 31) = bit (fl_value F f) n)"
    using bits assms by (metis bit_word_eqI)
  also have "\<dots> \<longleftrightarrow> (\<forall>n. 32 \<le> n \<longrightarrow> n < 64 \<longrightarrow> bit (fl_value F f) n = bit (fl_value F f) 31)"
    by (auto simp: not_less split: if_splits)
  finally show ?thesis .
qed

text \<open>The helpers are the bitwise operations on the Java side.\<close>

lemma to_int_or: "flag_to_int F (flag_or F f g) = or (flag_to_int F f) (flag_to_int F g)"
  and to_int_and: "flag_to_int F (flag_and F f g) = and (flag_to_int F f) (flag_to_int F g)"
  and to_int_xor: "flag_to_int F (flag_xor F f g) = xor (flag_to_int F f) (flag_to_int F g)"
  by (simp_all add: flag_to_int_def flag_or_def flag_and_def flag_xor_def or_value and_value xor_value
      unsigned_or_eq unsigned_and_eq unsigned_xor_eq)

lemma algebra:
  "flag_non_zero F f \<longleftrightarrow> flag_ne F f (flag_xor F f f)"
  "flag_eq F f g \<longleftrightarrow> f = g" "flag_ne F f g \<longleftrightarrow> \<not> flag_eq F f g"
  "flag_inv F (flag_or F f g) = flag_and F (flag_inv F f) (flag_inv F g)"
  "flag_inv F (flag_inv F f) = f"
  "flag_xor F (flag_xor F f g) g = f"
  by (simp_all add: flag_non_zero_def flag_ne_def flag_eq_def flag_or_def flag_and_def flag_xor_def flag_inv_def
      bool_value equal_value differ_value or_value and_value xor_value inv_value xor.assoc
      flip: value_inject)

end

text \<open>A word itself, with the operators of the language, is a flag type of its width.\<close>

definition word_flag :: "('w::len word, 'w word) bitfield_flag" where
  "word_flag = \<lparr>fl_bool = (\<lambda>f. f \<noteq> 0), fl_equal = (=), fl_differ = (\<noteq>), fl_or = or, fl_and = and,
     fl_xor = xor, fl_inv = not, fl_value = id, fl_make = id\<rparr>"

interpretation word_flags: flag_type "word_flag :: ('w::len word, 'w word) bitfield_flag"
  by unfold_locales (simp_all add: word_flag_def)

end
