(* ===== verification/Containers.thy ===== *)
theory Containers
  imports Jni_Runtime "HOL-Library.List_Lexorder" "HOL-Library.Char_ord"
begin

text \<open>
  The helpers the binding generates for \<^verbatim>\<open>std::array\<close>, \<^verbatim>\<open>std::map\<close> and \<^verbatim>\<open>boost::container::map\<close>, and its
  comparison and hash functions for addresses and digests.
\<close>

section \<open>Arrays\<close>

definition SWIG_ArraySize :: "size_t \<Rightarrow> cpp_exception + jint" where
  "SWIG_ArraySize n =
     (let sz = SWIG_JavaIntFromSize_t n
      in if sz = - 1 then Inl (Out_of_range ''array size is too large to fit into a Java int'') else Inr sz)"

text \<open>An array of the binding is a list of signed bytes of its fixed length.\<close>

definition array_size :: "byte list \<Rightarrow> cpp_exception + jint" where
  "array_size xs = SWIG_ArraySize (of_nat (length xs))"

definition array_get :: "byte list \<Rightarrow> jint \<Rightarrow> cpp_exception + byte" where
  "array_get xs i =
     (let n = (ucast (of_nat (length xs) :: size_t) :: jint)
      in if sint i \<ge> 0 \<and> sint i < sint n then Inr (xs ! nat (sint i))
         else Inl (Out_of_range ''array index out of range''))"

definition array_set :: "byte list \<Rightarrow> jint \<Rightarrow> byte \<Rightarrow> cpp_exception + byte list" where
  "array_set xs i val =
     (let n = (ucast (of_nat (length xs) :: size_t) :: jint)
      in if sint i \<ge> 0 \<and> sint i < sint n then Inr (xs[nat (sint i) := val])
         else Inl (Out_of_range ''array index out of range''))"

text \<open>The two array types, by their length.\<close>

definition array_32 :: "byte list \<Rightarrow> bool" where "array_32 xs \<longleftrightarrow> length xs = 32"
definition array_64 :: "byte list \<Rightarrow> bool" where "array_64 xs \<longleftrightarrow> length xs = 64"

lemma array_bounds:
  assumes "length xs \<le> 0x7FFFFFFF"
  shows "array_get xs i = (if 0 \<le> sint i \<and> nat (sint i) < length xs then Inr (xs ! nat (sint i))
      else Inl (Out_of_range ''array index out of range''))"
    and "array_set xs i x = (if 0 \<le> sint i \<and> nat (sint i) < length xs then Inr (xs[nat (sint i) := x])
      else Inl (Out_of_range ''array index out of range''))"
    and "array_size xs = Inr (of_nat (length xs))"
proof -
  let ?n = "of_nat (length xs) :: size_t"
  have u: "uint ?n = int (length xs)" using assms by (simp add: unsigned_of_nat take_bit_nat_eq_self)
  then have le: "?n \<le> 0x7FFFFFFF" using assms by (simp add: word_le_def)
  note s = sint_small_size [OF le, unfolded u]
  show "array_get xs i = (if 0 \<le> sint i \<and> nat (sint i) < length xs then Inr (xs ! nat (sint i))
      else Inl (Out_of_range ''array index out of range''))"
    and "array_set xs i x = (if 0 \<le> sint i \<and> nat (sint i) < length xs then Inr (xs[nat (sint i) := x])
      else Inl (Out_of_range ''array index out of range''))"
    unfolding array_get_def array_set_def Let_def s by auto
  have "ucast ?n \<noteq> (- 1 :: jint)"
  proof
    assume "ucast ?n = (- 1 :: jint)"
    with s show False by simp
  qed
  moreover have "ucast ?n = (of_nat (length xs) :: jint)"
    using assms by (simp add: ucast_eq unsigned_of_nat take_bit_nat_eq_self)
  ultimately show "array_size xs = Inr (of_nat (length xs))"
    using le by (simp add: array_size_def SWIG_ArraySize_def SWIG_JavaIntFromSize_t_def Let_def not_less)
qed

section \<open>Maps\<close>

text \<open>
  A \<^verbatim>\<open>std::map\<close> is the list of its entries in ascending order of the keys; an iterator is at an entry or at
  the end. Dereferencing the end, or an iterator whose entry is gone, is undefined: \<open>None\<close>.
\<close>

type_synonym ('k, 'v) cmap = "('k \<times> 'v) list"

datatype 'k iter = At 'k | At_end

definition map_begin :: "('k, 'v) cmap \<Rightarrow> 'k iter" where
  "map_begin m = (case m of [] \<Rightarrow> At_end | (k, v) # _ \<Rightarrow> At k)"

text \<open>The entry after the one with key \<open>k\<close>.\<close>

fun next_entry :: "'k::linorder \<Rightarrow> ('k, 'v) cmap \<Rightarrow> 'k iter" where
  "next_entry k [] = At_end"
| "next_entry k ((k', v) # m) = (if k < k' then At k' else next_entry k m)"

definition iterator_getNextUnchecked :: "('k::linorder, 'v) cmap \<Rightarrow> 'k iter \<Rightarrow> 'k iter option" where
  "iterator_getNextUnchecked m it =
     (case it of At_end \<Rightarrow> None | At k \<Rightarrow> if map_of m k = None then None else Some (next_entry k m))"

definition iterator_isNot :: "'k iter \<Rightarrow> 'k iter \<Rightarrow> bool" where
  "iterator_isNot it other \<longleftrightarrow> it \<noteq> other"

definition iterator_getKey :: "('k, 'v) cmap \<Rightarrow> 'k iter \<Rightarrow> 'k option" where
  "iterator_getKey m it =
     (case it of At_end \<Rightarrow> None | At k \<Rightarrow> if map_of m k = None then None else Some k)"

definition iterator_getValue :: "('k, 'v) cmap \<Rightarrow> 'k iter \<Rightarrow> 'v option" where
  "iterator_getValue m it = (case it of At_end \<Rightarrow> None | At k \<Rightarrow> map_of m k)"

fun insert_or_assign :: "'k::linorder \<Rightarrow> 'v \<Rightarrow> ('k, 'v) cmap \<Rightarrow> ('k, 'v) cmap" where
  "insert_or_assign k v [] = [(k, v)]"
| "insert_or_assign k v ((k', v') # m) =
     (if k < k' then (k, v) # (k', v') # m
      else if k = k' then (k, v) # m
      else (k', v') # insert_or_assign k v m)"

definition iterator_setValue :: "('k::linorder, 'v) cmap \<Rightarrow> 'k iter \<Rightarrow> 'v \<Rightarrow> ('k, 'v) cmap option" where
  "iterator_setValue m it newValue =
     (case it of At_end \<Rightarrow> None
      | At k \<Rightarrow> if map_of m k = None then None else Some (insert_or_assign k newValue m))"

definition SWIG_MapSize :: "size_t \<Rightarrow> cpp_exception + jint" where
  "SWIG_MapSize n =
     (let sz = SWIG_JavaIntFromSize_t n
      in if sz = - 1 then Inl (Out_of_range ''map size is too large to fit into a Java int'') else Inr sz)"

definition map_sizeImpl :: "('k, 'v) cmap \<Rightarrow> cpp_exception + jint" where
  "map_sizeImpl m = SWIG_MapSize (of_nat (length m))"

definition map_containsImpl :: "('k, 'v) cmap \<Rightarrow> 'k \<Rightarrow> bool" where
  "map_containsImpl m key \<longleftrightarrow> length (filter (\<lambda>e. fst e = key) m) > 0"

definition map_putUnchecked :: "('k::linorder, 'v) cmap \<Rightarrow> 'k \<Rightarrow> 'v \<Rightarrow> ('k, 'v) cmap" where
  "map_putUnchecked m key val = insert_or_assign key val m"

definition map_removeUnchecked :: "('k, 'v) cmap \<Rightarrow> 'k iter \<Rightarrow> ('k, 'v) cmap option" where
  "map_removeUnchecked m itr =
     (case itr of At_end \<Rightarrow> None
      | At k \<Rightarrow> if map_of m k = None then None else Some (filter (\<lambda>e. fst e \<noteq> k) m))"

text \<open>The functions of one map type, and the map types of the binding.\<close>

record ('k, 'v) map_class =
  mc_next :: "('k, 'v) cmap \<Rightarrow> 'k iter \<Rightarrow> 'k iter option"
  mc_isNot :: "'k iter \<Rightarrow> 'k iter \<Rightarrow> bool"
  mc_key :: "('k, 'v) cmap \<Rightarrow> 'k iter \<Rightarrow> 'k option"
  mc_value :: "('k, 'v) cmap \<Rightarrow> 'k iter \<Rightarrow> 'v option"
  mc_set_value :: "('k, 'v) cmap \<Rightarrow> 'k iter \<Rightarrow> 'v \<Rightarrow> ('k, 'v) cmap option"
  mc_size :: "('k, 'v) cmap \<Rightarrow> cpp_exception + jint"
  mc_contains :: "('k, 'v) cmap \<Rightarrow> 'k \<Rightarrow> bool"
  mc_put :: "('k, 'v) cmap \<Rightarrow> 'k \<Rightarrow> 'v \<Rightarrow> ('k, 'v) cmap"
  mc_remove :: "('k, 'v) cmap \<Rightarrow> 'k iter \<Rightarrow> ('k, 'v) cmap option"

definition std_map :: "('k::linorder, 'v) map_class" where
  "std_map = \<lparr>mc_next = iterator_getNextUnchecked, mc_isNot = iterator_isNot, mc_key = iterator_getKey,
     mc_value = iterator_getValue, mc_set_value = iterator_setValue, mc_size = map_sizeImpl,
     mc_contains = map_containsImpl, mc_put = map_putUnchecked, mc_remove = map_removeUnchecked\<rparr>"

text \<open>The keys of the first and third type are signed integers.\<close>

definition int_string_map :: "(int, string) map_class" where "int_string_map = std_map"
definition string_string_map :: "(string, string) map_class" where "string_string_map = std_map"
definition int_bitfield_map :: "(int, 'bitfield) map_class" where "int_bitfield_map = std_map"
definition string_entry_map :: "(string, 'entry) map_class" where "string_entry_map = std_map"

section \<open>The map of entries\<close>

text \<open>\<^verbatim>\<open>boost::container::map<std::string, entry>\<close>: \<^verbatim>\<open>operator[]\<close> inserts a default entry for a new key.\<close>

definition entry_map_contains :: "(string, 'e) cmap \<Rightarrow> string \<Rightarrow> bool" where
  "entry_map_contains m k \<longleftrightarrow> map_of m k \<noteq> None"

definition entry_map_put :: "(string, 'e) cmap \<Rightarrow> string \<Rightarrow> 'e \<Rightarrow> (string, 'e) cmap" where
  "entry_map_put m k v = insert_or_assign k v m"

definition entry_map_get :: "'e \<Rightarrow> (string, 'e) cmap \<Rightarrow> string \<Rightarrow> 'e \<times> (string, 'e) cmap" where
  "entry_map_get default_entry m k =
     (case map_of m k of Some v \<Rightarrow> (v, m) | None \<Rightarrow> (default_entry, insert_or_assign k default_entry m))"

definition entry_map_keys :: "(string, 'e) cmap \<Rightarrow> string list" where
  "entry_map_keys m = foldl (\<lambda>r e. r @ [fst e]) [] m"

definition entry_map_remove :: "(string, 'e) cmap \<Rightarrow> string \<Rightarrow> (string, 'e) cmap" where
  "entry_map_remove m key = filter (\<lambda>e. fst e \<noteq> key) m"

section \<open>The maps are finite maps in order\<close>

text \<open>
  The interface the Java side relies on: an ordered map with a lookup, an insertion that replaces, a
  removal of an entry that is present, and a traversal of the keys.
\<close>

locale ordered_map =
  fixes valid :: "'m \<Rightarrow> bool" and look :: "'m \<Rightarrow> 'k::linorder \<Rightarrow> 'v option" and keys :: "'m \<Rightarrow> 'k list"
    and put :: "'m \<Rightarrow> 'k \<Rightarrow> 'v \<Rightarrow> 'm" and remove :: "'m \<Rightarrow> 'k \<Rightarrow> 'm"
  assumes keys_sorted: "valid m \<Longrightarrow> sorted_wrt (<) (keys m)"
    and keys_look: "valid m \<Longrightarrow> set (keys m) = dom (look m)"
    and put_valid: "valid m \<Longrightarrow> valid (put m k v)"
    and put_look: "valid m \<Longrightarrow> look (put m k v) = (look m)(k \<mapsto> v)"
    and remove_valid: "valid m \<Longrightarrow> valid (remove m k)"
    and remove_look: "valid m \<Longrightarrow> look (remove m k) = (look m)(k := None)"
begin

lemma put_remove: "valid m \<Longrightarrow> look (remove (put m k v) k) = (look m)(k := None)"
  by (simp add: put_valid remove_look put_look)

lemma keys_unique: "valid m \<Longrightarrow> valid m' \<Longrightarrow> look m = look m' \<Longrightarrow> keys m = keys m'"
  by (intro strict_sorted_equal) (simp_all add: keys_sorted keys_look)

lemma size_card: "valid m \<Longrightarrow> length (keys m) = card (dom (look m))"
  using keys_look [of m] keys_sorted [of m] by (metis distinct_card strict_sorted_iff)

end

definition map_ok :: "('k::linorder, 'v) cmap \<Rightarrow> bool" where
  "map_ok m \<longleftrightarrow> sorted_wrt (<) (map fst m)"

definition erase_key :: "('k, 'v) cmap \<Rightarrow> 'k \<Rightarrow> ('k, 'v) cmap" where
  "erase_key m k = filter (\<lambda>e. fst e \<noteq> k) m"

lemma map_ok_simps [simp]:
  "map_ok []"
  "map_ok ((k, v) # m) \<longleftrightarrow> (\<forall>k' \<in> fst ` set m. k < k') \<and> map_ok m"
  by (auto simp: map_ok_def)

lemma keys_insert: "fst ` set (insert_or_assign k v m) = insert k (fst ` set m)"
  by (induction k v m rule: insert_or_assign.induct) auto

lemma insert_ok: "map_ok m \<Longrightarrow> map_ok (insert_or_assign k v m)"
  by (induction k v m rule: insert_or_assign.induct) (auto simp: keys_insert)

lemma map_of_above: "\<forall>k' \<in> fst ` set m. k < k' \<Longrightarrow> map_of m k = None"
  for k :: "'k::linorder"
  by (auto simp: map_of_eq_None_iff)

lemma map_of_insert: "map_ok m \<Longrightarrow> map_of (insert_or_assign k v m) = (map_of m)(k \<mapsto> v)"
  by (induction k v m rule: insert_or_assign.induct) (auto simp: map_of_above fun_upd_twist)

lemma erase_ok: "map_ok m \<Longrightarrow> map_ok (erase_key m k)"
  by (induction m) (auto simp: erase_key_def)

lemma map_of_erase: "map_of (erase_key m k) = (map_of m)(k := None)"
  by (induction m) (auto simp: erase_key_def fun_eq_iff)

lemma dom_map_of: "dom (map_of m) = fst ` set m"
  by (rule dom_map_of_conv_image_fst)

interpretation cmaps: ordered_map map_ok map_of "map fst" map_putUnchecked erase_key
  by unfold_locales
    (auto simp: map_ok_def [symmetric] dom_map_of map_putUnchecked_def insert_ok map_of_insert erase_ok map_of_erase
      simp del: map_ok_simps)

interpretation entry_maps: ordered_map map_ok map_of "map fst" entry_map_put entry_map_remove
  by unfold_locales
    (auto simp: map_ok_def [symmetric] dom_map_of entry_map_put_def insert_ok map_of_insert entry_map_remove_def
      erase_key_def [symmetric] erase_ok map_of_erase simp del: map_ok_simps)

text \<open>The loop of the Java iterator: from \<open>it\<close> to the end, at most \<open>n\<close> entries.\<close>

fun traverse :: "nat \<Rightarrow> ('k::linorder, 'v) cmap \<Rightarrow> 'k iter \<Rightarrow> ('k \<times> 'v) list option" where
  "traverse 0 m it = (if iterator_isNot it At_end then None else Some [])"
| "traverse (Suc n) m it =
     (if iterator_isNot it At_end then do {
        k \<leftarrow> iterator_getKey m it;
        v \<leftarrow> iterator_getValue m it;
        it' \<leftarrow> iterator_getNextUnchecked m it;
        rest \<leftarrow> traverse n m it';
        Some ((k, v) # rest)
      } else Some [])"

lemma next_entry_split:
  "map_ok (xs @ (k, v) # ys) \<Longrightarrow> next_entry k (xs @ (k, v) # ys) = map_begin ys"
proof (induction xs)
  case Nil
  then show ?case by (cases ys) (auto simp: map_begin_def)
next
  case (Cons e xs)
  then show ?case by (cases e) auto
qed

lemma map_ok_append: "map_ok (xs @ ys) \<longleftrightarrow> map_ok xs \<and> map_ok ys \<and> (\<forall>a \<in> fst ` set xs. \<forall>b \<in> fst ` set ys. a < b)"
  by (auto simp: map_ok_def sorted_wrt_append)

lemma map_of_split: "map_ok (xs @ (k, v) # ys) \<Longrightarrow> map_of (xs @ (k, v) # ys) k = Some v"
proof -
  assume "map_ok (xs @ (k, v) # ys)"
  then have "k \<notin> fst ` set xs" by (auto simp: map_ok_append)
  then have "map_of xs k = None" by (simp add: map_of_eq_None_iff)
  then show ?thesis by (simp add: map_add_def)
qed

lemma traverse_suffix:
  assumes "map_ok (xs @ ys)" "length ys \<le> n"
  shows "traverse n (xs @ ys) (map_begin ys) = Some ys"
  using assms
proof (induction n arbitrary: xs ys)
  case (Suc n)
  show ?case
  proof (cases ys)
    case (Cons e zs)
    obtain k v where e: "e = (k, v)" by (cases e)
    have "traverse n ((xs @ [e]) @ zs) (map_begin zs) = Some zs" using Suc Cons by (intro Suc.IH) auto
    moreover have "map_ok (xs @ (k, v) # zs)" using Suc.prems(1) Cons e by simp
    moreover from this have "map_of (xs @ (k, v) # zs) k = Some v" by (rule map_of_split)
    moreover have "next_entry k (xs @ (k, v) # zs) = map_begin zs" by (rule next_entry_split) fact
    ultimately show ?thesis
      by (simp del: map_of_append add: Cons e map_begin_def [of "_ # _"] iterator_isNot_def iterator_getKey_def iterator_getValue_def
          iterator_getNextUnchecked_def)
  qed (simp add: map_begin_def iterator_isNot_def)
qed (simp add: map_begin_def iterator_isNot_def)

section \<open>Comparison and hash codes\<close>

text \<open>The operators \<^verbatim>\<open>==\<close> and \<^verbatim>\<open><\<close> of libtorrent's types are parameters.\<close>

definition address_op_lt :: "('a \<Rightarrow> 'a \<Rightarrow> bool) \<Rightarrow> 'a \<Rightarrow> 'a \<Rightarrow> bool" where
  "address_op_lt lt a1 a2 = lt a1 a2"

definition address_compare :: "('a \<Rightarrow> 'a \<Rightarrow> bool) \<Rightarrow> ('a \<Rightarrow> 'a \<Rightarrow> bool) \<Rightarrow> 'a \<Rightarrow> 'a \<Rightarrow> int" where
  "address_compare equals lt a1 a2 = (if equals a1 a2 then 0 else if lt a1 a2 then -1 else 1)"

definition digest_compare :: "('a \<Rightarrow> 'a \<Rightarrow> bool) \<Rightarrow> ('a \<Rightarrow> 'a \<Rightarrow> bool) \<Rightarrow> 'a \<Rightarrow> 'a \<Rightarrow> int" where
  "digest_compare equals lt h1 h2 = (if equals h1 h2 then 0 else if lt h1 h2 then -1 else 1)"

text \<open>
  The loop \<^verbatim>\<open>result = 31 * result + data[i]\<close> over 32-bit integers, with the overflow of two's complement
  (the language leaves signed overflow undefined). The elements of an address are unsigned.
\<close>

fun hash_loop :: "(byte \<Rightarrow> jint) \<Rightarrow> byte list \<Rightarrow> jint \<Rightarrow> jint" where
  "hash_loop promote [] result = result"
| "hash_loop promote (b # data) result = hash_loop promote data (31 * result + promote b)"

datatype ip_address = V4 "byte list" | V6 "byte list"

definition address_hash_code :: "ip_address \<Rightarrow> jint" where
  "address_hash_code a = (case a of V4 data \<Rightarrow> hash_loop ucast data 1 | V6 data \<Rightarrow> hash_loop ucast data 1)"

text \<open>The elements of a digest have type \<^verbatim>\<open>char\<close>, which is signed on some targets and unsigned on others.\<close>

definition promote_char :: "bool \<Rightarrow> byte \<Rightarrow> jint" where
  "promote_char char_is_signed b = (if char_is_signed then scast b else ucast b)"

definition digest32_160_hash_code :: "bool \<Rightarrow> byte list \<Rightarrow> jint" where
  "digest32_160_hash_code char_is_signed data = hash_loop (promote_char char_is_signed) data 1"

definition digest32_256_hash_code :: "bool \<Rightarrow> byte list \<Rightarrow> jint" where
  "digest32_256_hash_code char_is_signed data = hash_loop (promote_char char_is_signed) data 1"

text \<open>The loop is the polynomial of \<^verbatim>\<open>java.util.Arrays.hashCode\<close>.\<close>

lemma hash_loop_polynomial:
  "hash_loop promote data r = 31 ^ length data * r
     + (\<Sum>i < length data. 31 ^ (length data - Suc i) * promote (data ! i))"
proof (induction data arbitrary: r)
  case (Cons b data)
  have "(\<Sum>i < Suc (length data). 31 ^ (Suc (length data) - Suc i) * promote ((b # data) ! i))
      = 31 ^ length data * promote b + (\<Sum>i < length data. 31 ^ (length data - Suc i) * promote (data ! i))"
    by (subst sum.lessThan_Suc_shift) simp
  then show ?case by (simp add: Cons algebra_simps del: sum.lessThan_Suc)
qed simp

end
