(* ===== verification/Binding_Properties.thy ===== *)
theory Binding_Properties
  imports Object_Vector Director Flags Containers
begin

text \<open>
  What the helpers of the Java binding promise: vectors behave as Java lists and never touch memory out
  of range, exceptions arrive as the class the code names, flags are words, maps are finite maps kept
  in order, and the director runtime balances its references.
\<close>

section \<open>A concrete machine\<close>

section \<open>Exceptions\<close>

text \<open>Throwing replaces whatever exception was pending by one of the requested class with the given message;
  if the machine cannot find that class, its own exception about the missing class is pending instead.\<close>

theorem throw_replaces_pending:
  "thrown (snd (SWIG_JavaThrowException (audit_jvm J) code msg j)) = Some (java_exception code, msg)
   \<or> thrown (snd (SWIG_JavaThrowException (audit_jvm J) code msg j))
       = Some (''java/lang/NoClassDefFoundError'', java_exception code)"
  by (rule audited_jvm.throw_exception)

section \<open>Vectors\<close>

text \<open>C23. A vector of the binding refines a Java list: as long as there is room for Java's 32-bit indices, any
  sequence of calls gives the results the list operations give, index errors included, and leaves the
  elements the list would have.\<close>

theorem vector_refines_list:
  assumes "run_calls (vec_call (std_vector grow)) opers v = (rs, v')" and "length opers \<le> vector_room v"
  shows "run_calls list_call opers (elems v) = (rs, elems v')"
  by (rule vectors.calls_spec [OF assms])

theorem vector_refines_list_witness:
  "fst (run_calls (vec_call (std_vector (\<lambda>c n. n)))
      [Op_add ''a'', Op_add_at 0 ''b'', Op_get 1, Op_remove 0, Op_get 1] \<lparr>elems = [], capacity = 0\<rparr>)
    = [R_unit, R_unit, R_elem ''a'', R_elem ''b'', R_error index_error]"
proof -
  let ?ops = "[Op_add ''a'', Op_add_at 0 ''b'', Op_get 1, Op_remove 0, Op_get 1]"
  let ?v = "\<lparr>elems = [], capacity = 0\<rparr> :: string cvec"
  obtain rs v' where r: "run_calls (vec_call (std_vector (\<lambda>c n. n))) ?ops ?v = (rs, v')" by (metis surj_pair)
  have "run_calls list_call ?ops [] = (rs, elems v')" using vector_refines_list [OF r] by (simp add: vector_room_def)
  then show ?thesis unfolding r by (auto simp: valid_index_def)
qed

text \<open>C24. Memory safety of the indices: although the size is cut to 32 bits before it is compared, an access that
  is not refused is at a position the vector has, for vectors of every length.\<close>

theorem vector_access_in_bounds:
  "(\<forall>x. doGet i v = Inr x \<longrightarrow> 0 \<le> sint i \<and> nat (sint i) < length (elems v))
   \<and> (\<forall>r. doSet i x v = Inr r \<longrightarrow> 0 \<le> sint i \<and> nat (sint i) < length (elems v))
   \<and> (\<forall>r. doRemove i v = Inr r \<longrightarrow> 0 \<le> sint i \<and> nat (sint i) < length (elems v))
   \<and> (\<forall>r. doAdd_1 grow i x v = Inr r \<longrightarrow> 0 \<le> sint i \<and> nat (sint i) \<le> length (elems v))
   \<and> (\<forall>r. doRemoveRange i k v = Inr r \<longrightarrow> 0 \<le> sint i \<and> sint i \<le> sint k \<and> nat (sint k) \<le> length (elems v))"
  using jint_size_le [of v]
  by (auto simp: doGet_def doSet_def doRemove_def doAdd_1_def doRemoveRange_def Let_def split: if_splits)

theorem vector_access_in_bounds_witness:
  "doGet 1 \<lparr>elems = ''ab'', capacity = 2\<rparr> = Inr (CHR ''b'') \<and> nat (sint (1 :: jint)) < length ''ab''"
proof -
  have g: "doGet 1 \<lparr>elems = ''ab'', capacity = 2\<rparr> = Inr (CHR ''b'')"
    by (simp add: doGet_def jint_size_exact)
  with vector_access_in_bounds [of 1 "\<lparr>elems = ''ab'', capacity = 2\<rparr>" "CHR ''x''" "\<lambda>c n. n" 0]
  show ?thesis by auto
qed

text \<open>The size is given exactly or refused: it is the length when a Java integer can hold it, and an exception
  otherwise, never a wrapped value.\<close>

theorem vector_size_exact:
  assumes "length (elems v) < 2 ^ 64"
  shows "case doSize v of
      Inl e \<Rightarrow> 0x7FFFFFFF < length (elems v)
        \<and> e = Out_of_range ''vector size is too large to fit into a Java int''
    | Inr n \<Rightarrow> length (elems v) \<le> 0x7FFFFFFF \<and> sint n = int (length (elems v))"
proof (cases "length (elems v) \<le> 0x7FFFFFFF")
  case True
  have "sint (of_nat (length (elems v)) :: jint) = int (length (elems v))"
    using True by (simp add: signed_of_nat signed_take_bit_int_eq_self)
  then show ?thesis using True by (simp add: doSize_exact [OF assms])
qed (simp add: doSize_exact [OF assms])

theorem vector_size_exact_witness: "\<exists>n. doSize \<lparr>elems = ''abc'', capacity = 4\<rparr> = Inr n \<and> sint n = 3"
  using vector_size_exact [of "\<lparr>elems = ''abc'', capacity = 4\<rparr>"] by (auto split: sum.splits)

section \<open>The native methods of string vectors\<close>

text \<open>What a native method returns to Java for a result of the helper.\<close>

definition returned :: "'j jvm \<Rightarrow> string vec_result \<Rightarrow> sv_result \<Rightarrow> bool" where
  "returned J r ret \<longleftrightarrow> (case r of
       R_unit \<Rightarrow> ret = Ret_void
     | R_size n \<Rightarrow> ret = Ret_int n
     | R_elem x \<Rightarrow> \<exists>j. ret = Ret_ref (fst (NewStringUTF J (c_string x) j))
     | R_error e \<Rightarrow> ret \<in> {Ret_void, Ret_int 0, Ret_ref 0})"

lemma returned_simps [simp]:
  "returned J R_unit ret \<longleftrightarrow> ret = Ret_void"
  "returned J (R_size n) ret \<longleftrightarrow> ret = Ret_int n"
  "returned J (R_error e) ret \<longleftrightarrow> ret \<in> {Ret_void, Ret_int 0, Ret_ref 0}"
  by (auto simp: returned_def)

lemma returned_new_string [simp]:
  "new_string J x s = (a, b) \<Longrightarrow> returned J (R_elem x) (Ret_ref a)"
  by (auto simp: returned_def new_string_def split: prod.splits intro!: exI [of _ "machine s"])

lemma method_returns:
  assumes "objects s p = Some v" "delivers J chars" "0 \<notin> set_vec_op oper"
    and "vec_call (std_vector_string grow) (map_vec_op (c_string \<circ> chars) oper) v = (r, v')"
    and "sv_method (audit_jvm J) (std_vector_string grow) p oper s = Some out"
  shows "returned (audit_jvm J) r (fst out)"
proof -
  have str: "str \<noteq> 0 \<Longrightarrow> \<exists>s1. read_string (audit_jvm J) str s = (Some (c_string (chars str)), s1)
      \<and> objects s1 = objects s" for str
    by (rule read_string_audit [OF assms(2)]) auto
  show ?thesis
  proof (cases oper)
    case (Op_add a)
    with assms str [of a] show ?thesis by (auto simp: string_vector_doAdd_0_def std_vector_string_def)
  next
    case (Op_add_at i a)
    with assms str [of a] show ?thesis
      by (auto simp: string_vector_doAdd_1_def std_vector_string_def split: sum.splits)
  next
    case (Op_set i a)
    with assms str [of a] show ?thesis
      by (auto simp: string_vector_doSet_def std_vector_string_def split: sum.splits)
  qed (use assms in \<open>auto simp: string_vector_doReserve_def string_vector_doSize_def
      string_vector_doRemove_def string_vector_doGet_def string_vector_doRemoveRange_def
      std_vector_string_def split: sum.splits\<close>)
qed

text \<open>C25. A native method of \<^verbatim>\<open>string_vector\<close>, called on a live vector with strings that are not null, does not
  crash; it changes this vector as the list operation changes a list of the strings up to their first NUL, and
  no other object; it returns the operation's result, and leaves a Java exception exactly for an index error;
  the characters it borrowed from the machine are all released.\<close>

theorem string_method_correct:
  assumes "objects s p = Some v" "0 < vector_room v" "delivers J chars" "0 \<notin> set_vec_op oper"
  shows "\<exists>ret s' r v'. sv_method (audit_jvm J) (std_vector_string grow) p oper s = Some (ret, s')
    \<and> list_call (map_vec_op (c_string \<circ> chars) oper) (elems v) = (r, elems v')
    \<and> objects s' = (objects s)(p \<mapsto> v') \<and> returned (audit_jvm J) r ret
    \<and> answers r (thrown (jtrace_of s)) (thrown (jtrace_of s'))
    \<and> live_chars (jtrace_of s') = live_chars (jtrace_of s)"
proof -
  obtain r v' where c: "vec_call (std_vector_string grow) (map_vec_op (c_string \<circ> chars) oper) v = (r, v')"
    by (metis surj_pair)
  from answered_call [OF assms(1,3,4) c] obtain out where
    o: "sv_method (audit_jvm J) (std_vector_string grow) p oper s = Some out"
       "objects (snd out) = (objects s)(p \<mapsto> v')"
       "answers r (thrown (jtrace_of s)) (thrown (jtrace_of (snd out)))"
       "live_chars (jtrace_of (snd out)) = live_chars (jtrace_of s)" by blast
  have "returned (audit_jvm J) r (fst out)" by (rule method_returns [OF assms(1,3,4) c o(1)])
  moreover have "list_call (map_vec_op (c_string \<circ> chars) oper) (elems v) = (r, elems v')"
    using vec_call_spec [OF assms(2)] c unfolding std_vector_string_def by blast
  ultimately show ?thesis using o by (intro exI [of _ "fst out"] exI [of _ "snd out"]) auto
qed

theorem string_method_correct_witness:
  "\<exists>s'. sv_method (audit_jvm plain_jvm) (std_vector_string (\<lambda>c n. n)) 7 (Op_add 1)
      \<lparr>objects = [7 \<mapsto> \<lparr>elems = [''a''], capacity = 1\<rparr>], next_address = 8, machine = ((), [])\<rparr> = Some (Ret_void, s')
    \<and> map_option elems (objects s' 7) = Some [''a'', ''s'']"
proof -
  let ?v = "\<lparr>elems = [''a''], capacity = 1\<rparr>"
  let ?s = "\<lparr>objects = [7 \<mapsto> ?v], next_address = 8, machine = ((), [])\<rparr> :: (unit \<times> jtrace) string_native"
  have h: "objects ?s 7 = Some ?v" "0 < vector_room ?v" "delivers plain_jvm (\<lambda>r. ''s'')" "0 \<notin> set_vec_op (Op_add (1 :: jref))"
    by (simp_all add: vector_room_def delivers_def plain_jvm_def)
  have c: "c_string ''s'' = ''s''" by (simp add: c_string_def)
  from string_method_correct [OF h, of "\<lambda>c n. n"] c show ?thesis by fastforce
qed

section \<open>Vectors of objects\<close>

lemma thrown_oraise:
  "exception_of e (thrown (snd (ov_machine (oraise (audit_jvm J) (catch_length_range e) s))))"
  "range_exception e \<Longrightarrow> exception_of e (thrown (snd (ov_machine (oraise (audit_jvm J) (catch_range e) s))))"
  using audited_jvm.throw_exception [of J "fst (catch_length_range e)" "snd (catch_length_range e)" "ov_machine s"]
  by (simp_all add: exception_of_def oraise_def catch_range_exception split_beta)

text \<open>What a method returns to Java for a result of the helper, in the state \<open>s'\<close> it leaves.\<close>

definition object_returned :: "('e, 'j) onative \<Rightarrow> 'e vec_result \<Rightarrow> ov_result \<Rightarrow> bool" where
  "object_returned s' r ret \<longleftrightarrow> (case r of
       R_unit \<Rightarrow> ret = Ov_void
     | R_size n \<Rightarrow> ret = Ov_int n
     | R_elem x \<Rightarrow> \<exists>q. ret = Ov_ptr q \<and> deref s' q = Some x
     | R_error e \<Rightarrow> ret \<in> {Ov_void, Ov_int 0, Ov_ptr Null})"

lemma no_result_cases: "no_result oper \<in> {Ov_void, Ov_int 0, Ov_ptr Null}"
  by (cases oper) auto

lemma vec_call_get: "vec_call (std_vector grow) (Op_get i) v = (R_elem x, v') \<Longrightarrow>
    v' = v \<and> nat (sint i) < length (elems v) \<and> x = elems v ! nat (sint i)"
  using jint_size_le [of v] by (auto simp: vector_defs split: if_splits)

lemma vec_call_size: "vec_call (std_vector grow) oper v = (R_size n, v') \<Longrightarrow> v' = v"
  by (cases oper) (auto simp: vector_defs Let_def split: if_splits sum.splits)

lemma put_vector_there [simp]: "\<exists>z. ov_vectors (put_vector p ov keep v' s) p = Some z \<and> vec z = v'"
  by (simp add: put_vector_def Let_def)

text \<open>The result of a call, by the four kinds of results.\<close>

lemma answer_call_correct:
  assumes "onative_ok s" "ov_vectors s p = Some ov" "vec_call (std_vector grow) oper (vec ov) = (r, v')"
    and "answer_call (audit_jvm J) p oper ov r v' s = (ret, s')"
  shows "map_option vec (ov_vectors s' p) = Some v' \<and> (\<forall>q. q \<noteq> p \<longrightarrow> ov_vectors s' q = ov_vectors s q)
    \<and> object_returned s' r ret \<and> answers r (thrown (snd (ov_machine s))) (thrown (snd (ov_machine s'))) \<and> onative_ok s'"
proof (cases r)
  case (R_error e)
  have "range_exception e" using helper_exceptions assms(3) R_error by blast
  then have "answers r (thrown (snd (ov_machine s))) (thrown (snd (ov_machine s')))"
    using assms(4) thrown_oraise R_error by (auto simp: answers_def answer_call_def split: vec_op.splits)
  then show ?thesis
    using assms vec_call_error [OF assms(3)[unfolded R_error]] no_result_cases [of oper] R_error
    by (auto simp: answer_call_def object_returned_def)
next
  case R_unit
  then have "put_vector p ov (kept oper (vec ov)) v' s = s'" "ret = Ov_void" using assms(4) by (simp_all add: answer_call_def)
  moreover have "onative_ok (put_vector p ov (kept oper (vec ov)) v' s)"
    using kept_le [OF assms(3)] R_unit by (intro put_vector_ok [OF assms(1,2)]) auto
  ultimately show ?thesis using R_unit by (auto simp: object_returned_def)
next
  case (R_size n)
  have "v' = vec ov" by (rule vec_call_size [OF assms(3)[unfolded R_size]])
  with assms R_size show ?thesis by (auto simp: answer_call_def object_returned_def)
next
  case (R_elem x)
  let ?s = "put_vector p ov (kept oper (vec ov)) v' s"
  have put: "onative_ok ?s" using kept_le [OF assms(3)] R_elem by (intro put_vector_ok [OF assms(1,2)]) auto
  show ?thesis
  proof (cases "\<exists>i. oper = Op_get i")
    case True
    then obtain i where i: "oper = Op_get i" by blast
    note g = vec_call_get [OF assms(3)[unfolded i R_elem]]
    have "deref s (Inside p (slots ov ! nat (sint i))) = Some x"
      using onative_okD [OF assms(1,2)] deref_slot [OF _ assms(2)] g by auto
    then show ?thesis using assms i g R_elem by (auto simp: answer_call_def object_returned_def)
  next
    case False
    then have "(ret, s') = apfst Ov_ptr (new_value x ?s)"
      using assms(4) R_elem by (auto simp: answer_call_def split: vec_op.splits)
    then have "ret = Ov_ptr (fst (new_value x ?s))" "s' = snd (new_value x ?s)" by (auto simp: prod_eq_iff)
    then show ?thesis using R_elem new_value_ok [OF put] by (auto simp: object_returned_def)
  qed
qed

text \<open>C32. A native method of a vector of objects, called on a live vector with addresses of live objects, does not crash;
  it changes this vector as the list operation changes a list of copies of the objects, and no other vector; it
  returns the operation's result, an element as the address of an object that holds it; and it leaves a Java
  exception exactly for an index error.\<close>

theorem object_method_correct:
  assumes "onative_ok s" and "ov_vectors s p = Some ov" and "0 < vector_room (vec ov)"
    and "\<forall>q \<in> set_vec_op oper. deref s q \<noteq> None"
  shows "\<exists>ret s' r v'. ov_method (object_vector (audit_jvm J) T (std_vector grow)) p oper s = Some (ret, s')
    \<and> list_call (map_vec_op (\<lambda>q. the (deref s q)) oper) (elems (vec ov)) = (r, elems v')
    \<and> map_option vec (ov_vectors s' p) = Some v' \<and> (\<forall>q. q \<noteq> p \<longrightarrow> ov_vectors s' q = ov_vectors s q)
    \<and> object_returned s' r ret
    \<and> answers r (thrown (snd (ov_machine s))) (thrown (snd (ov_machine s'))) \<and> onative_ok s'"
proof -
  let ?oper = "map_vec_op (\<lambda>q. the (deref s q)) oper"
  obtain r v' where c: "vec_call (std_vector grow) ?oper (vec ov) = (r, v')" by (metis surj_pair)
  obtain ret s' where a: "answer_call (audit_jvm J) p ?oper ov r v' s = (ret, s')" by (metis surj_pair)
  have "answer_call (audit_jvm J) p oper ov r v' s = answer_call (audit_jvm J) p ?oper ov r v' s"
    by (cases oper) (auto simp: answer_call_def split: vec_result.splits)
  then have "ov_method (object_vector (audit_jvm J) T (std_vector grow)) p oper s = Some (ret, s')"
    using method_answer [OF assms(2,4) c] a by simp
  moreover have "list_call ?oper (elems (vec ov)) = (r, elems v')" by (rule vec_call_spec [OF assms(3) c])
  ultimately show ?thesis using answer_call_correct [OF assms(1,2) c a] by blast
qed

definition demo_objects :: "(string, unit \<times> jtrace) onative" where
  "demo_objects = \<lparr>ov_vectors = [7 \<mapsto> \<lparr>vec = \<lparr>elems = [''a''], capacity = 1\<rparr>, slots = [2]\<rparr>], ov_values = [3 \<mapsto> ''b''],
     ov_next = 8, ov_machine = ((), [])\<rparr>"

lemma demo_objects_ok:
  "onative_ok demo_objects" "ov_vectors demo_objects 7 = Some \<lparr>vec = \<lparr>elems = [''a''], capacity = 1\<rparr>, slots = [2]\<rparr>"
  "deref demo_objects (Own 3) = Some ''b''"
  by (auto simp: demo_objects_def onative_ok_def ovec_ok_def deref_def split: if_splits)

theorem object_method_correct_witness:
  "\<exists>s'. ov_method (object_vector (audit_jvm plain_jvm) ''std::string'' (std_vector (\<lambda>c n. 2 * n))) 7 (Op_add (Own 3)) demo_objects
      = Some (Ov_void, s') \<and> map_option (\<lambda>ov. elems (vec ov)) (ov_vectors s' 7) = Some [''a'', ''b'']"
proof -
  have room: "0 < vector_room (vec \<lparr>vec = \<lparr>elems = [''a''], capacity = 1\<rparr>, slots = [2]\<rparr>)" by (simp add: vector_room_def)
  have live: "\<forall>q \<in> set_vec_op (Op_add (Own 3)). deref demo_objects q \<noteq> None" by (simp add: demo_objects_ok)
  from object_method_correct [OF demo_objects_ok(1,2) room live, of plain_jvm "''std::string''" "\<lambda>c n. 2 * n"]
  show ?thesis by (fastforce simp: demo_objects_ok object_returned_def)
qed

text \<open>C33. How long an element's address is valid: \<^verbatim>\<open>doGet\<close> gives an address that reads the element at once; after a
  further call it reads the element now at that position if the call failed, or if it neither reallocated the
  vector nor inserted or removed at or before the position, and reading it is undefined otherwise.\<close>

theorem element_address_lifetime:
  assumes "onative_ok s" and "ov_vectors s p = Some ov" and "\<forall>q \<in> set_vec_op oper. deref s q \<noteq> None"
    and "M = object_vector (audit_jvm J) T (std_vector grow)"
    and "oc_doGet M p i s = Some (q, s)" and "q \<noteq> Null"
    and "vec_call (std_vector grow) (map_vec_op (\<lambda>q. the (deref s q)) oper) (vec ov) = (r, v')"
    and "ov_method M p oper s = Some (ret, s')"
  shows "deref s q = Some (elems (vec ov) ! nat (sint i))
    \<and> deref s' q = (if (\<exists>e. r = R_error e) \<or> capacity v' = capacity (vec ov) \<and> nat (sint i) < kept oper (vec ov)
        then Some (elems v' ! nat (sint i)) else None)"
proof -
  let ?i = "nat (sint i)"
  have q: "q = Inside p (slots ov ! ?i)" and i: "?i < length (elems (vec ov))"
    using assms(2,4,5,6) jint_size_le [of "vec ov"]
    by (auto simp: object_vector_def object_vector_doGet_def std_vector_def doGet_def split: sum.splits if_splits)
  have ok: "ovec_ok (ov_next s) ov" using onative_okD [OF assms(1,2)] by simp
  have now: "deref s q = Some (elems (vec ov) ! ?i)" unfolding q by (rule deref_slot [OF ok assms(2) i])
  have m: "answer_call (audit_jvm J) p oper ov r v' s = (ret, s')"
    using method_answer [OF assms(2,3,7)] assms(4,8) by simp
  show ?thesis
  proof (cases "\<exists>e. r = R_error e")
    case True
    then have "v' = vec ov" using vec_call_error assms(7) by blast
    then show ?thesis using True m now by (auto simp: answer_call_def)
  next
    case False
    have k: "kept oper (vec ov) \<le> length (elems v')" "kept oper (vec ov) \<le> length (elems (vec ov))"
      using kept_le [OF assms(7)] False by (cases oper; auto)+
    have put: "deref (put_vector p ov (kept oper (vec ov)) v' s) q
        = (if capacity v' = capacity (vec ov) \<and> ?i < kept oper (vec ov) then Some (elems v' ! ?i) else None)"
      unfolding q by (rule deref_put_vector [OF assms(1,2) k i])
    have same: "s = put_vector p ov (kept oper (vec ov)) v' s" if "v' = vec ov" "kept oper (vec ov) = length (elems (vec ov))"
      using that put_vector_same [OF ok assms(2)] by simp
    have "deref s' q = deref (put_vector p ov (kept oper (vec ov)) v' s) q"
    proof (cases r)
      case (R_size n)
      with assms(7) have "v' = vec ov" "kept oper (vec ov) = length (elems (vec ov))"
        by (cases oper; auto simp: vector_defs Let_def split: if_splits sum.splits)+
      with same m R_size show ?thesis by (simp add: answer_call_def)
    next
      case (R_elem x)
      show ?thesis
      proof (cases "\<exists>a. oper = Op_get a")
        case True
        then obtain a where a: "oper = Op_get a" by blast
        with assms(7) R_elem have "vec_call (std_vector grow) (Op_get a) (vec ov) = (R_elem x, v')" by (simp only: vec_op.map)
        from vec_call_get [OF this] a have "v' = vec ov" "kept oper (vec ov) = length (elems (vec ov))" by simp_all
        with same m R_elem True show ?thesis by (auto simp: answer_call_def)
      next
        case False
        then have "(ret, s') = apfst Ov_ptr (new_value x (put_vector p ov (kept oper (vec ov)) v' s))"
          using m R_elem by (auto simp: answer_call_def split: vec_op.splits)
        then show ?thesis unfolding q by (auto simp: prod_eq_iff)
      qed
    qed (use m False in \<open>auto simp: answer_call_def\<close>)
    then show ?thesis using put False now by simp
  qed
qed

theorem element_address_lifetime_witness:
  "\<exists>q s'. oc_doGet (object_vector (audit_jvm plain_jvm) ''std::string'' (std_vector (\<lambda>c n. 2 * n))) 7 0 demo_objects
      = Some (q, demo_objects) \<and> deref demo_objects q = Some ''a''
    \<and> ov_method (object_vector (audit_jvm plain_jvm) ''std::string'' (std_vector (\<lambda>c n. 2 * n))) 7 (Op_add (Own 3)) demo_objects
      = Some (Ov_void, s') \<and> deref s' q = None"
proof -
  let ?M = "object_vector (audit_jvm plain_jvm) ''std::string'' (std_vector (\<lambda>c n. 2 * n))"
  have get: "oc_doGet ?M 7 0 demo_objects = Some (Inside 7 2, demo_objects)"
    by (simp add: object_vector_def object_vector_doGet_def std_vector_def doGet_def jint_size_exact demo_objects_ok)
  have live: "\<forall>q \<in> set_vec_op (Op_add (Own 3)). deref demo_objects q \<noteq> None" by (simp add: demo_objects_ok)
  have call: "vec_call (std_vector (\<lambda>c n. 2 * n)) (map_vec_op (\<lambda>q. the (deref demo_objects q)) (Op_add (Own 3)))
      (vec \<lparr>vec = \<lparr>elems = [''a''], capacity = 1\<rparr>, slots = [2]\<rparr>) = (R_unit, \<lparr>elems = [''a'', ''b''], capacity = 4\<rparr>)"
    by (simp add: std_vector_def doAdd_0_def ensure_capacity_def demo_objects_ok)
  obtain s' where add: "ov_method ?M 7 (Op_add (Own 3)) demo_objects = Some (Ov_void, s')"
    using method_answer [OF demo_objects_ok(2) live call] by (simp add: answer_call_def)
  from element_address_lifetime [OF demo_objects_ok(1,2) live refl get _ call add] get add show ?thesis by simp
qed

section \<open>Flags\<close>

text \<open>A flag of at most 32 bits survives the way to Java and back.\<close>

theorem flag_round_trip:
  fixes F :: "('f, 'w::len word) bitfield_flag"
  assumes "flag_type F" and "LENGTH('w) \<le> 32"
  shows "fc_from_int (flag_class F) (fc_to_int (flag_class F) f) = f"
  using flag_type.from_int_to_int [OF assms] by (simp add: flag_class_def)

theorem flag_round_trip_witness:
  "fc_from_int (flag_class word_flag) (fc_to_int (flag_class word_flag) (200 :: 8 word)) = (200 :: 8 word)"
  using flag_round_trip [OF word_flags.flag_type_axioms, of "200 :: 8 word"] by simp

text \<open>C26. The flags of a torrent have 64 bits, and a Java integer 32: they survive the way to Java and back exactly
  when the upper half repeats bit 31, so a flag above bit 31 alone is lost.\<close>

theorem torrent_flags_round_trip:
  assumes "flag_type F"
  shows "fc_from_int (torrent_flags_class F) (fc_to_int (torrent_flags_class F) f) = f
    \<longleftrightarrow> (\<forall>n. 32 \<le> n \<and> n < 64 \<longrightarrow> bit (fl_value F f) n = bit (fl_value F f) 31)"
  using flag_type.from_int_to_int_wide [OF assms, of f] by (auto simp: torrent_flags_class_def flag_class_def)

theorem torrent_flags_round_trip_witness:
  "fc_from_int (torrent_flags_class word_flag) (fc_to_int (torrent_flags_class word_flag) (2 ^ 40)) \<noteq> (2 ^ 40 :: 64 word)"
proof -
  have "bit (2 ^ 40 :: 64 word) 40 \<noteq> bit (2 ^ 40 :: 64 word) 31" by (simp add: bit_exp_iff)
  then have "\<not> (\<forall>n. 32 \<le> n \<and> n < 64 \<longrightarrow> bit (2 ^ 40 :: 64 word) n = bit (2 ^ 40 :: 64 word) 31)"
    by (intro notI) (drule spec [of _ 40], simp)
  with torrent_flags_round_trip [OF word_flags.flag_type_axioms, of "2 ^ 40 :: 64 word"] show ?thesis
    by (simp add: word_flag_def)
qed

text \<open>On the Java side a flag of at most 32 bits is the integer it converts to: union, intersection, difference
  and complement are the bitwise operations on the integers, and a flag is set, equal or different exactly as
  its integer is.\<close>

theorem flags_are_integers:
  fixes F :: "('f, 'w::len word) bitfield_flag"
  assumes "flag_type F" and "LENGTH('w) \<le> 32" and "C = flag_class F"
  shows "fc_to_int C (fc_or C f g) = or (fc_to_int C f) (fc_to_int C g)
    \<and> fc_to_int C (fc_and C f g) = and (fc_to_int C f) (fc_to_int C g)
    \<and> fc_to_int C (fc_xor C f g) = xor (fc_to_int C f) (fc_to_int C g)
    \<and> fc_to_int C (fc_inv C f) = and (not (fc_to_int C f)) (mask LENGTH('w))
    \<and> fc_non_zero C f = (fc_to_int C f \<noteq> 0)
    \<and> fc_eq C f g = (fc_to_int C f = fc_to_int C g) \<and> fc_ne C f g = (fc_to_int C f \<noteq> fc_to_int C g)"
proof -
  note ops = flag_type.to_int_or [OF assms(1)] flag_type.to_int_and [OF assms(1)] flag_type.to_int_xor [OF assms(1)]
  have inj: "(ucast x :: jint) = ucast y \<longleftrightarrow> x = y" for x y :: "'w word"
  proof
    assume eq: "(ucast x :: jint) = ucast y"
    show "x = y"
    proof (rule bit_word_eqI)
      fix n assume "n < LENGTH('w)"
      with assms(2) arg_cong [OF eq, of "\<lambda>w. bit w n"] show "bit x n = bit y n" by (simp add: bit_simps)
    qed
  qed simp
  have zero: "(ucast x :: jint) = 0 \<longleftrightarrow> x = 0" for x :: "'w word" using inj [of x 0] by simp
  have inv: "(ucast (not x) :: jint) = and (not (ucast x)) (mask LENGTH('w))" for x :: "'w word"
    by (rule bit_word_eqI) (use assms(2) in \<open>auto simp: bit_simps dest: bit_imp_le_length\<close>)
  show ?thesis
    unfolding assms(3)
    by (simp add: flag_class_def ops) (simp add: flag_to_int_def flag_inv_def flag_non_zero_def flag_eq_def flag_ne_def
        inj zero inv flag_type.inv_value [OF assms(1)] flag_type.bool_value [OF assms(1)]
        flag_type.equal_value [OF assms(1)] flag_type.differ_value [OF assms(1)])
qed

theorem flags_are_integers_witness:
  "fc_to_int (flag_class word_flag) (fc_inv (flag_class word_flag) (0xF0 :: 8 word)) = 0x0F"
proof -
  have "LENGTH(8) \<le> 32" by simp
  from flags_are_integers [OF word_flags.flag_type_axioms this refl, of "0xF0 :: 8 word"] show ?thesis
    by (simp add: flag_class_def flag_to_int_def word_flag_def mask_eq_exp_minus_1)
qed

section \<open>Directors\<close>

text \<open>The references of a director's wrapper are balanced: after any sequence of connecting, reading, changing
  ownership and releasing, followed by a release, no global and no weak global reference is left, and none
  was deleted that was not live; this as long as no Java object is collected meanwhile.\<close>

theorem wrapper_leaks_nothing:
  assumes "wrapper_run (audit_jvm J) (opers @ [W_release]) (wrapper_init, (j, [])) = (w, j')" and "present J"
  shows "live_globals (snd j') = [] \<and> live_weaks (snd j') = [] \<and> deletes_live (snd j') \<and> jthis w = 0"
proof -
  have "wrapper_balanced {#} {#} wrapper_init (snd (j, []))"
    by (simp add: wrapper_balanced_def held_globals_def held_weaks_def wrapper_init_def)
  from wrapper_run_balanced [OF assms(1) this assms(2)] have b: "wrapper_balanced {#} {#} w (snd j')" .
  obtain w1 j1 where s1: "fold (wrapper_step (audit_jvm J)) opers (wrapper_init, (j, [])) = (w1, j1)" by (metis surj_pair)
  have "jthis w = 0" using assms(1) by (auto simp: wrapper_run_def wrapper_release_def Let_def s1)
  with b show ?thesis by (simp add: wrapper_balanced_def held_globals_def held_weaks_def)
qed

theorem wrapper_leaks_nothing_witness:
  "live_weaks (snd (snd (wrapper_run (audit_jvm plain_jvm)
     [W_set 1 False True, W_change_ownership 1 False, W_get, W_change_ownership 1 True, W_release]
     (wrapper_init, ((), []))))) = []"
proof -
  let ?ops = "[W_set 1 False True, W_change_ownership 1 False, W_get, W_change_ownership 1 True]"
  have p: "present plain_jvm" by (simp add: present_def plain_jvm_def)
  obtain w j' where r: "wrapper_run (audit_jvm plain_jvm) (?ops @ [W_release]) (wrapper_init, ((), [])) = (w, j')"
    by (metis surj_pair)
  from wrapper_leaks_nothing [OF r p] r show ?thesis by simp
qed

text \<open>The local references of an upcall: when the Java method returns, the upcall has given back every local
  reference it took; when it throws, the upcall ends with a C++ exception and the reference to the Java object
  stays with the thread.\<close>

theorem upcall_local_references:
  assumes "on_alert (audit_jvm J) cls m base d j = (r, j')" and "swig_override d = [True]"
    and "jthis (swig_self d) \<noteq> 0" and "NewLocalRef J (jthis (swig_self d)) (fst j) = (obj, j1)"
    and "obj \<noteq> 0" and "\<not> IsSameObject J obj 0 j1"
  shows "case r of
      Upcall_returns _ \<Rightarrow> mset (live_locals (snd j')) = mset (live_locals (snd j))
    | Upcall_raises e \<Rightarrow> add_mset obj (mset (live_locals (snd j))) \<subseteq># mset (live_locals (snd j'))"
  by (rule on_alert_outcome [OF assms])

theorem upcall_local_references_witness:
  "\<exists>e j'. on_alert (audit_jvm plain_jvm) 1 1 id \<lparr>swig_self = \<lparr>jthis = 1, weak_global = False\<rparr>, swig_override = [True]\<rparr>
      ((), []) = (Upcall_raises e, j') \<and> 1 \<in> set (live_locals (snd j'))"
proof -
  let ?d = "\<lparr>swig_self = \<lparr>jthis = 1, weak_global = False\<rparr>, swig_override = [True]\<rparr>"
  obtain r j' where r: "on_alert (audit_jvm plain_jvm) 1 1 id ?d ((), []) = (r, j')" by (metis surj_pair)
  from r have "\<exists>e. r = Upcall_raises e"
    by (auto simp: on_alert_def wrapper_get_def audit_jvm_def plain_jvm_def noted_def if_ref_def Let_def split: prod.splits)
  moreover have "case r of Upcall_returns _ \<Rightarrow> mset (live_locals (snd j')) = mset (live_locals (snd ((), [])))
    | Upcall_raises e \<Rightarrow> add_mset 1 (mset (live_locals (snd ((), [])))) \<subseteq># mset (live_locals (snd j'))"
    using upcall_local_references [OF r, of 1 "()"] by (simp add: plain_jvm_def)
  ultimately show ?thesis using r by (auto dest: mset_subset_eqD [of _ _ 1])
qed

section \<open>Arrays and maps\<close>

text \<open>An array access reads or writes the element at the index when there is one and is refused otherwise, and
  what was set is what is then got, the other elements unchanged.\<close>

theorem array_get_set:
  assumes "length xs \<le> 0x7FFFFFFF" and "0 \<le> sint i" and "0 \<le> sint k"
  shows "case array_set xs i x of
      Inl e \<Rightarrow> length xs \<le> nat (sint i) \<and> e = Out_of_range ''array index out of range'' \<and> array_get xs i = Inl e
    | Inr ys \<Rightarrow> nat (sint i) < length xs \<and> array_size ys = array_size xs
        \<and> array_get ys k = (if nat (sint k) = nat (sint i) then Inr x else array_get xs k)"
  using array_bounds [OF assms(1)] array_bounds [where xs = "xs[nat (sint i) := x]"] assms by auto

theorem array_get_set_witness: "\<exists>ys. array_set [1, 2, 3] 1 9 = Inr ys \<and> array_get ys 1 = Inr 9"
proof -
  have "length [1, 2, 3 :: byte] \<le> 0x7FFFFFFF" "0 \<le> sint (1 :: jint)" by simp_all
  from array_get_set [OF this this(2), of 9] show ?thesis by (auto split: sum.splits)
qed

text \<open>C28. The map helpers refine a finite map: on an ordered map, putting, testing and removing a key do what they do
  to the finite map the entries stand for, the order is kept, and removing is undefined exactly for a key that is
  not there.\<close>

theorem map_refines_finite_map:
  assumes "map_ok m"
  shows "map_ok (map_putUnchecked m k v) \<and> map_of (map_putUnchecked m k v) = (map_of m)(k \<mapsto> v)
    \<and> map_containsImpl m k = (k \<in> dom (map_of m))
    \<and> (case map_removeUnchecked m (At k) of
         None \<Rightarrow> k \<notin> dom (map_of m)
       | Some m' \<Rightarrow> k \<in> dom (map_of m) \<and> map_ok m' \<and> map_of m' = (map_of m)(k := None))"
proof -
  have "map_containsImpl m k = (k \<in> dom (map_of m))"
    by (auto simp: map_containsImpl_def filter_empty_conv dom_map_of image_iff)
  then show ?thesis
    using cmaps.put_valid [OF assms] cmaps.put_look [OF assms] cmaps.remove_valid [OF assms] cmaps.remove_look [OF assms]
    by (auto simp: map_removeUnchecked_def erase_key_def)
qed

theorem map_refines_finite_map_witness:
  "map_of (map_putUnchecked [(1, ''a''), (3, ''c'')] (2 :: int) ''b'') 2 = Some ''b'' \<and> map_ok (map_putUnchecked [(1, ''a''), (3, ''c'')] (2 :: int) ''b'')"
  using map_refines_finite_map [of "[(1, ''a''), (3, ''c'')]" "2 :: int" "''b''"] by simp

text \<open>The iterator visits every entry of an ordered map once, in ascending order of the keys, and reaches the end
  after as many steps as there are entries.\<close>

theorem map_iteration_complete:
  assumes "map_ok m"
  shows "traverse (length m) m (map_begin m) = Some m \<and> sorted_wrt (<) (map fst m) \<and> set (map fst m) = dom (map_of m)"
  using traverse_suffix [of "[]" m "length m"] cmaps.keys_sorted [OF assms] cmaps.keys_look [OF assms] assms by simp

theorem map_iteration_complete_witness:
  "traverse (length [(1 :: int, ''a''), (3, ''c'')]) [(1 :: int, ''a''), (3, ''c'')] (map_begin [(1, ''a''), (3, ''c'')]) = Some [(1, ''a''), (3, ''c'')]"
  using map_iteration_complete [of "[(1 :: int, ''a''), (3, ''c'')]"] by (simp del: traverse.simps)

text \<open>Reading the map of entries: \<^verbatim>\<open>get\<close> gives the entry of the key, or a default entry that it inserts; after a
  \<^verbatim>\<open>put\<close> it gives what was put and changes nothing; \<^verbatim>\<open>keys\<close> lists the keys in ascending order.\<close>

theorem entry_map_round_trip:
  assumes "map_ok m" and "entry_map_get d m k = (v, m')"
  shows "map_ok m' \<and> map_of m' = (map_of m)(k \<mapsto> v) \<and> v = (case map_of m k of None \<Rightarrow> d | Some x \<Rightarrow> x)
    \<and> entry_map_get d (entry_map_put m k x) k = (x, entry_map_put m k x)
    \<and> \<not> entry_map_contains (entry_map_remove (entry_map_put m k x) k) k
    \<and> entry_map_keys m' = sorted_list_of_set (insert k (dom (map_of m)))"
proof -
  have ok: "map_ok m'" and look: "map_of m' = (map_of m)(k \<mapsto> v)" and v: "v = (case map_of m k of None \<Rightarrow> d | Some x \<Rightarrow> x)"
    using assms by (auto simp: entry_map_get_def insert_ok map_of_insert fun_upd_idem split: option.splits)
  have "foldl (\<lambda>r e. r @ [fst e]) xs m' = xs @ map fst m'" for xs by (induction m' arbitrary: xs) auto
  then have "entry_map_keys m' = map fst m'" by (simp add: entry_map_keys_def)
  also have "\<dots> = sorted_list_of_set (set (map fst m'))"
    using entry_maps.keys_sorted [OF ok] by (metis sorted_list_of_set.idem_if_sorted_distinct strict_sorted_iff)
  also have "set (map fst m') = insert k (dom (map_of m))" using entry_maps.keys_look [OF ok] look by simp
  finally have keys: "entry_map_keys m' = sorted_list_of_set (insert k (dom (map_of m)))" .
  have "map_of (entry_map_put m k x) k = Some x" using entry_maps.put_look [OF assms(1), of k x] by simp
  then have "entry_map_get d (entry_map_put m k x) k = (x, entry_map_put m k x)" by (simp add: entry_map_get_def)
  moreover have "\<not> entry_map_contains (entry_map_remove (entry_map_put m k x) k) k"
    using entry_maps.put_remove [OF assms(1), of k x] by (simp add: entry_map_contains_def)
  ultimately show ?thesis using ok look v keys by blast
qed

theorem entry_map_round_trip_witness: "entry_map_keys (snd (entry_map_get 0 [(''b'', 5 :: int)] ''a'')) = [''a'', ''b'']"
proof -
  have g: "entry_map_get 0 [(''b'', 5 :: int)] ''a'' = (0, [(''a'', 0), (''b'', 5)])" by (simp add: entry_map_get_def)
  have "map_ok [(''b'', 5 :: int)]" by simp
  from entry_map_round_trip [OF this g] g show ?thesis by (simp add: entry_map_keys_def)
qed

section \<open>Comparison and hash codes\<close>

text \<open>The hash code of an address or digest is the polynomial of \<^verbatim>\<open>java.util.Arrays.hashCode\<close> over its bytes in
  32-bit arithmetic: the bytes of an address count as unsigned, those of a digest as the target's \<^verbatim>\<open>char\<close>.\<close>

theorem hash_code_polynomial:
  "address_hash_code (V4 data) = 31 ^ length data + (\<Sum>i < length data. 31 ^ (length data - Suc i) * ucast (data ! i))
   \<and> address_hash_code (V6 data) = address_hash_code (V4 data)
   \<and> digest32_160_hash_code c data
       = 31 ^ length data + (\<Sum>i < length data. 31 ^ (length data - Suc i) * promote_char c (data ! i))
   \<and> digest32_256_hash_code c data = digest32_160_hash_code c data"
  by (simp add: address_hash_code_def digest32_160_hash_code_def digest32_256_hash_code_def hash_loop_polynomial)

text \<open>On a linearly ordered type \<^verbatim>\<open>compare\<close> is a comparison as Java wants it: it is zero exactly on equal values,
  swapping the arguments changes the sign, and it is transitive.\<close>

theorem compare_is_order:
  fixes a b c :: "'a::linorder"
  assumes "cmp = address_compare (=) (<)"
  shows "(cmp a b = 0 \<longleftrightarrow> a = b) \<and> cmp b a = - cmp a b \<and> (cmp a b < 0 \<longleftrightarrow> address_op_lt (<) a b)
    \<and> (cmp a b \<le> 0 \<and> cmp b c \<le> 0 \<longrightarrow> cmp a c \<le> 0) \<and> digest_compare (=) (<) a b = cmp a b"
  unfolding assms by (auto simp: address_compare_def digest_compare_def address_op_lt_def)

theorem compare_is_order_witness: "address_compare (=) (<) (3 :: nat) 5 = - 1 \<and> address_compare (=) (<) (5 :: nat) 3 = 1"
  using compare_is_order [OF refl, of "3 :: nat" 5] by (simp add: address_compare_def)

end
