(* ===== verification/Native_Calls.thy ===== *)
theory Native_Calls
  imports String_Vector
begin

text \<open>
  The calling convention of the generated binding. Every native method of \<^verbatim>\<open>libtorrent_jni.cpp\<close> translates its
  Java arguments one after the other, runs one C++ expression, inside a \<^verbatim>\<open>try\<close> when the expression can
  throw, and translates the result. An \<open>export\<close> says which translations and which expression a method has, in
  terms of the C++ class the method belongs to; \<open>run_export\<close> is what the method does. The tables of the exports,
  class by class, are in the theories \<^verbatim>\<open>Exports_\<close>. \<open>None\<close> stands for undefined behaviour.
\<close>

section \<open>C++ values and addresses\<close>

text \<open>
  An address is null, that of an object of its own, or that of a member of the object at an address. An object
  is a structure of members when the binding reaches into it, a sequence when it is a vector or an array whose
  elements the binding looks at, and otherwise a value of type \<open>'x\<close>, which only
  the library knows.
\<close>

datatype cptr = Nullptr | Heap nat | Member cptr string

datatype 'x cval =
    Num int
  | Truth bool
  | Real "32 word"
  | Text string
  | Address cptr
  | Struct "string \<rightharpoonup> 'x cval"
  | Sequence "'x cval list"
  | Opaque 'x

type_synonym ('x, 'j) memory_state = "('x cval, 'j) native"

fun load :: "('x, 'j) memory_state \<Rightarrow> cptr \<Rightarrow> 'x cval option" where
  "load s Nullptr = None"
| "load s (Heap a) = objects s a"
| "load s (Member p f) = (case load s p of Some (Struct m) \<Rightarrow> m f | _ \<Rightarrow> None)"

fun store_at :: "('x, 'j) memory_state \<Rightarrow> cptr \<Rightarrow> 'x cval \<Rightarrow> ('x, 'j) memory_state option" where
  "store_at s Nullptr v = None"
| "store_at s (Heap a) v = (if objects s a = None then None else Some (put_object a v s))"
| "store_at s (Member p f) v = (case load s p of
      Some (Struct m) \<Rightarrow> (if m f = None then None else store_at s p (Struct (m(f \<mapsto> v))))
    | _ \<Rightarrow> None)"

section \<open>Numbers\<close>

text \<open>
  Integer types by signedness and width; the enumerations and type names of the library's headers, which are
  not part of the repository, are \<open>Declared\<close> by name.
\<close>

datatype int_type = Signed nat | Unsigned nat

datatype num_type = Fixed int_type | Declared string

fun wrap :: "int_type \<Rightarrow> int \<Rightarrow> int" where
  "wrap (Signed n) v = signed_take_bit (n - 1) v"
| "wrap (Unsigned n) v = take_bit n v"

abbreviation "int8 \<equiv> Fixed (Signed 8)"
abbreviation "int16 \<equiv> Fixed (Signed 16)"
abbreviation "int32 \<equiv> Fixed (Signed 32)"
abbreviation "int64 \<equiv> Fixed (Signed 64)"
abbreviation "uint8 \<equiv> Fixed (Unsigned 8)"
abbreviation "uint16 \<equiv> Fixed (Unsigned 16)"
abbreviation "uint32 \<equiv> Fixed (Unsigned 32)"
abbreviation "uint64 \<equiv> Fixed (Unsigned 64)"

section \<open>The library\<close>

datatype 'x carg = C_pointer cptr | C_value "'x cval"

text \<open>
  What the binding takes from the library: its functions and methods by name, which read and change the memory
  and may call Java, its destructors, its constants and the addresses of its static objects, the widths of
  the types it declares and of the members it declares (a bit-field is narrower than its type).
\<close>

record ('x, 'j) library =
  invoke :: "string \<Rightarrow> 'x carg list \<Rightarrow> ('x, 'j) memory_state
    \<Rightarrow> ((cpp_exception + 'x cval) \<times> ('x, 'j) memory_state) option"
  destroy :: "string \<Rightarrow> cptr \<Rightarrow> ('x, 'j) memory_state \<Rightarrow> ('x, 'j) memory_state option"
  constant_of :: "string \<Rightarrow> 'x cval"
  static_at :: "string \<Rightarrow> nat"
  declared_type :: "string \<Rightarrow> int_type"
  member_type :: "string \<Rightarrow> string \<Rightarrow> int_type"

definition convert :: "('x, 'j) library \<Rightarrow> num_type \<Rightarrow> int \<Rightarrow> int" where
  "convert L T v = wrap (case T of Fixed t \<Rightarrow> t | Declared n \<Rightarrow> declared_type L n) v"

section \<open>Arguments\<close>

datatype jvalue =
    J_void
  | J_number int
  | J_boolean "8 word"
  | J_float "32 word"
  | J_string jref
  | J_pointer cptr

text \<open>
  How a parameter is translated. References and values are checked for null and a value is copied; a pointer,
  such as the object a method is called on, is passed as it is. \<open>Moved\<close> is an rvalue reference, whose object the
  method owns from then on; \<open>Chars\<close> is a \<^verbatim>\<open>char const*\<close>, which may be null. \<open>This\<close> is a pointer to an object of the
  class at hand.
\<close>

datatype param =
    This
  | Pointer string
  | Const_reference string
  | Reference string
  | Value string
  | Const_value string
  | Moved string
  | Number num_type
  | Boolean
  | Floating
  | String
  | Chars

definition null_message :: "param \<Rightarrow> string" where
  "null_message p = (case p of
       Const_reference T \<Rightarrow> T @ '' const & is null''
     | Reference T \<Rightarrow> T @ '' & is null''
     | Value T \<Rightarrow> ''Attempt to dereference null '' @ T
     | Const_value T \<Rightarrow> ''Attempt to dereference null '' @ T @ '' const''
     | Moved T \<Rightarrow> T @ '' && is null''
     | String \<Rightarrow> ''null string''
     | _ \<Rightarrow> [])"

text \<open>The value a Java argument has; Java passes arguments of the right types only.\<close>

definition pointer_of :: "jvalue \<Rightarrow> cptr option" where
  "pointer_of a = (case a of J_pointer p \<Rightarrow> Some p | _ \<Rightarrow> None)"

definition number_of :: "jvalue \<Rightarrow> int option" where
  "number_of a = (case a of J_number n \<Rightarrow> Some n | _ \<Rightarrow> None)"

definition boolean_of :: "jvalue \<Rightarrow> 8 word option" where
  "boolean_of a = (case a of J_boolean b \<Rightarrow> Some b | _ \<Rightarrow> None)"

definition float_of :: "jvalue \<Rightarrow> 32 word option" where
  "float_of a = (case a of J_float x \<Rightarrow> Some x | _ \<Rightarrow> None)"

definition string_of :: "jvalue \<Rightarrow> jref option" where
  "string_of a = (case a of J_string r \<Rightarrow> Some r | _ \<Rightarrow> None)"

datatype 'x taken = Refused | Taken "'x carg"

definition checked ::
  "'j jvm \<Rightarrow> param \<Rightarrow> cptr \<Rightarrow> 'x carg option \<Rightarrow> ('x, 'j) memory_state
     \<Rightarrow> ('x taken \<times> ('x, 'j) memory_state) option" where
  "checked J p q c s =
     (if q = Nullptr then Some (Refused, raise J (SWIG_JavaNullPointerException, null_message p) s)
      else map_option (\<lambda>c. (Taken c, s)) c)"

definition take_string :: "'j jvm \<Rightarrow> jref \<Rightarrow> ('x, 'j) memory_state \<Rightarrow> 'x taken \<times> ('x, 'j) memory_state" where
  "take_string J r s = (case read_string J r s of
      (None, s1) \<Rightarrow> (Refused, s1)
    | (Some cs, s1) \<Rightarrow> (Taken (C_value (Text cs)), s1))"

definition take_chars :: "'j jvm \<Rightarrow> jref \<Rightarrow> ('x, 'j) memory_state \<Rightarrow> 'x taken \<times> ('x, 'j) memory_state" where
  "take_chars J r s =
     (if r = 0 then (Taken (C_pointer Nullptr), s)
      else let (chars, j) = GetStringUTFChars J r (machine s)
        in case chars of
            None \<Rightarrow> (Refused, s\<lparr>machine := j\<rparr>)
          | Some cs \<Rightarrow> (Taken (C_value (Text (c_string cs))), s\<lparr>machine := j\<rparr>))"

definition take_arg ::
  "'j jvm \<Rightarrow> ('x, 'j) library \<Rightarrow> param \<Rightarrow> jvalue \<Rightarrow> ('x, 'j) memory_state \<Rightarrow> ('x taken \<times> ('x, 'j) memory_state) option" where
  "take_arg J L p a s = (case p of
       This \<Rightarrow> do { q \<leftarrow> pointer_of a; Some (Taken (C_pointer q), s) }
     | Pointer T \<Rightarrow> do { q \<leftarrow> pointer_of a; Some (Taken (C_pointer q), s) }
     | Const_reference T \<Rightarrow> do { q \<leftarrow> pointer_of a; checked J p q (Some (C_pointer q)) s }
     | Reference T \<Rightarrow> do { q \<leftarrow> pointer_of a; checked J p q (Some (C_pointer q)) s }
     | Moved T \<Rightarrow> do { q \<leftarrow> pointer_of a; checked J p q (Some (C_pointer q)) s }
     | Value T \<Rightarrow> do { q \<leftarrow> pointer_of a; checked J p q (map_option C_value (load s q)) s }
     | Const_value T \<Rightarrow> do { q \<leftarrow> pointer_of a; checked J p q (map_option C_value (load s q)) s }
     | Number T \<Rightarrow> do { n \<leftarrow> number_of a; Some (Taken (C_value (Num (convert L T n))), s) }
     | Boolean \<Rightarrow> do { b \<leftarrow> boolean_of a; Some (Taken (C_value (Truth (b \<noteq> 0))), s) }
     | Floating \<Rightarrow> do { x \<leftarrow> float_of a; Some (Taken (C_value (Real x)), s) }
     | String \<Rightarrow> do { r \<leftarrow> string_of a; Some (take_string J r s) }
     | Chars \<Rightarrow> do { r \<leftarrow> string_of a; Some (take_chars J r s) })"

fun take_args ::
  "'j jvm \<Rightarrow> ('x, 'j) library \<Rightarrow> (param \<times> jvalue) list \<Rightarrow> ('x, 'j) memory_state
     \<Rightarrow> ('x carg list option \<times> ('x, 'j) memory_state) option" where
  "take_args J L [] s = Some (Some [], s)"
| "take_args J L ((p, a) # pas) s = do {
     (t, s1) \<leftarrow> take_arg J L p a s;
     (case t of
        Refused \<Rightarrow> Some (None, s1)
      | Taken c \<Rightarrow> do { (cs, s2) \<leftarrow> take_args J L pas s1; Some (map_option (Cons c) cs, s2) }) }"

section \<open>The expression\<close>

text \<open>
  A call of a function, of a method of the class or of its constructor; reading a member, taking its address or
  assigning a value or an address to it; a constant, also one of the class; the address of a static object, also one of the class;
  \<^verbatim>\<open>delete\<close>; a copy made by \<^verbatim>\<open>new\<close>; the address of the base of an object, which is the address of the object.
\<close>

datatype body =
    Call string
  | Method string
  | New
  | Get_field string
  | Field_address string
  | Set_field string
  | Set_pointer string
  | Constant string
  | Class_constant string
  | Static_address string
  | Class_static string
  | Delete
  | Copy
  | Upcast

definition member_name :: "string \<Rightarrow> string \<Rightarrow> string" where
  "member_name C name = C @ ''::'' @ name"

text \<open>What a member keeps of a value assigned to it.\<close>

fun kept_value :: "int_type \<Rightarrow> 'x cval \<Rightarrow> 'x cval" where
  "kept_value T (Num n) = Num (wrap T n)"
| "kept_value T v = v"

fun arg_value :: "('x, 'j) memory_state \<Rightarrow> 'x carg \<Rightarrow> 'x cval option" where
  "arg_value s (C_pointer p) = load s p"
| "arg_value s (C_value v) = Some v"

definition free :: "('x, 'j) library \<Rightarrow> string \<Rightarrow> cptr \<Rightarrow> ('x, 'j) memory_state \<Rightarrow> ('x, 'j) memory_state option" where
  "free L T p s = (case p of
      Nullptr \<Rightarrow> Some s
    | Heap a \<Rightarrow> (if objects s a = None then None
        else do { s1 \<leftarrow> destroy L T p s; Some (s1\<lparr>objects := (objects s1)(a := None)\<rparr>) })
    | Member q f \<Rightarrow> None)"

text \<open>An assignment \<^verbatim>\<open>if (arg1) (arg1)->f = arg2\<close> does not look at its right side when the object is null.\<close>

text \<open>The arguments of an expression: none, the object, the object and a value.\<close>

definition the_object :: "'x carg list \<Rightarrow> cptr option" where
  "the_object cs = (case cs of [c] \<Rightarrow> (case c of C_pointer p \<Rightarrow> Some p | _ \<Rightarrow> None) | _ \<Rightarrow> None)"

definition object_and_value :: "'x carg list \<Rightarrow> (cptr \<times> 'x carg) option" where
  "object_and_value cs = (case cs of [c, d] \<Rightarrow> (case c of C_pointer p \<Rightarrow> Some (p, d) | _ \<Rightarrow> None) | _ \<Rightarrow> None)"

definition assign ::
  "cptr \<Rightarrow> string \<Rightarrow> 'x cval option \<Rightarrow> ('x, 'j) memory_state \<Rightarrow> ((cpp_exception + 'x cval) \<times> ('x, 'j) memory_state) option" where
  "assign p f v s =
     (if p = Nullptr then Some (Inr (Address Nullptr), s)
      else do { w \<leftarrow> v; s1 \<leftarrow> store_at s (Member p f) w; Some (Inr (Address Nullptr), s1) })"

definition address_value :: "'x carg \<Rightarrow> 'x cval option" where
  "address_value c = (case c of C_pointer q \<Rightarrow> Some (Address q) | _ \<Rightarrow> None)"

definition static_value ::
  "'x carg list \<Rightarrow> 'x cval \<Rightarrow> ('x, 'j) memory_state \<Rightarrow> ((cpp_exception + 'x cval) \<times> ('x, 'j) memory_state) option" where
  "static_value cs v s = (if cs = [] then Some (Inr v, s) else None)"

definition run_body ::
  "('x, 'j) library \<Rightarrow> string \<Rightarrow> body \<Rightarrow> 'x carg list \<Rightarrow> ('x, 'j) memory_state
     \<Rightarrow> ((cpp_exception + 'x cval) \<times> ('x, 'j) memory_state) option" where
  "run_body L C b cs s = (case b of
       Call name \<Rightarrow> invoke L name cs s
     | Method name \<Rightarrow> invoke L (member_name C name) cs s
     | New \<Rightarrow> invoke L (''new '' @ C) cs s
     | Get_field f \<Rightarrow> do { p \<leftarrow> the_object cs; v \<leftarrow> load s (Member p f); Some (Inr v, s) }
     | Field_address f \<Rightarrow> do {
         p \<leftarrow> the_object cs; v \<leftarrow> load s (Member p f); Some (Inr (Address (Member p f)), s) }
     | Set_field f \<Rightarrow> do {
         (p, c) \<leftarrow> object_and_value cs;
         assign p f (map_option (kept_value (member_type L C f)) (arg_value s c)) s }
     | Set_pointer f \<Rightarrow> do { (p, c) \<leftarrow> object_and_value cs; assign p f (address_value c) s }
     | Constant name \<Rightarrow> static_value cs (constant_of L name) s
     | Class_constant name \<Rightarrow> static_value cs (constant_of L (member_name C name)) s
     | Static_address name \<Rightarrow> static_value cs (Address (Heap (static_at L name))) s
     | Class_static name \<Rightarrow> static_value cs (Address (Heap (static_at L (member_name C name)))) s
     | Delete \<Rightarrow> do { p \<leftarrow> the_object cs; s1 \<leftarrow> free L C p s; Some (Inr (Address Nullptr), s1) }
     | Copy \<Rightarrow> do {
         p \<leftarrow> the_object cs; v \<leftarrow> load s p;
         let (a, s1) = new_object v s in Some (Inr (Address (Heap a)), s1) }
     | Upcast \<Rightarrow> do { p \<leftarrow> the_object cs; Some (Inr (Address p), s) })"

text \<open>The \<^verbatim>\<open>catch\<close> clauses around the expression.\<close>

datatype catches = Catch_any | Catch_range | Catch_length_range

fun caught :: "catches \<Rightarrow> cpp_exception \<Rightarrow> SWIG_JavaExceptionCodes \<times> string" where
  "caught Catch_any e = catch_any e"
| "caught Catch_range e = catch_range e"
| "caught Catch_length_range e = catch_length_range e"

section \<open>Results\<close>

text \<open>
  \<open>Number_result T U\<close> is a value of type \<open>T\<close> returned as the Java type \<open>U\<close>, \<open>Number_at\<close> one behind a pointer; a string is returned from a
  \<^verbatim>\<open>std::string\<close>, from one behind a pointer, or from a \<^verbatim>\<open>char*\<close> that may be null; \<open>New_result\<close> copies the value to a
  new object.
\<close>

datatype result =
    Void
  | Number_result num_type num_type
  | Number_at num_type num_type
  | Boolean_result
  | Floating_result
  | String_result
  | String_at
  | Chars_result
  | New_result string
  | Pointer_result string

definition no_result :: "result \<Rightarrow> jvalue" where
  "no_result r = (case r of
       Void \<Rightarrow> J_void
     | Number_result T U \<Rightarrow> J_number 0
     | Number_at T U \<Rightarrow> J_number 0
     | Boolean_result \<Rightarrow> J_boolean 0
     | Floating_result \<Rightarrow> J_float 0
     | New_result T \<Rightarrow> J_pointer Nullptr
     | Pointer_result T \<Rightarrow> J_pointer Nullptr
     | _ \<Rightarrow> J_string 0)"

definition give_string :: "'j jvm \<Rightarrow> string \<Rightarrow> ('x, 'j) memory_state \<Rightarrow> jvalue \<times> ('x, 'j) memory_state" where
  "give_string J cs s = apfst J_string (new_string J cs s)"

definition give_number :: "('x, 'j) library \<Rightarrow> num_type \<Rightarrow> num_type \<Rightarrow> 'x cval \<Rightarrow> jvalue option" where
  "give_number L T U v = (case v of Num n \<Rightarrow> Some (J_number (convert L U (convert L T n))) | _ \<Rightarrow> None)"

definition give_text :: "'j jvm \<Rightarrow> 'x cval \<Rightarrow> ('x, 'j) memory_state \<Rightarrow> (jvalue \<times> ('x, 'j) memory_state) option" where
  "give_text J v s = (case v of Text cs \<Rightarrow> Some (give_string J cs s) | _ \<Rightarrow> None)"

definition address_of :: "'x cval \<Rightarrow> cptr option" where
  "address_of v = (case v of Address p \<Rightarrow> Some p | _ \<Rightarrow> None)"

definition give ::
  "'j jvm \<Rightarrow> ('x, 'j) library \<Rightarrow> result \<Rightarrow> 'x cval \<Rightarrow> ('x, 'j) memory_state \<Rightarrow> (jvalue \<times> ('x, 'j) memory_state) option" where
  "give J L r v s = (case r of
       Void \<Rightarrow> Some (J_void, s)
     | Number_result T U \<Rightarrow> do { x \<leftarrow> give_number L T U v; Some (x, s) }
     | Number_at T U \<Rightarrow> do { p \<leftarrow> address_of v; w \<leftarrow> load s p; x \<leftarrow> give_number L T U w; Some (x, s) }
     | Boolean_result \<Rightarrow> (case v of Truth b \<Rightarrow> Some (J_boolean (if b then 1 else 0), s) | _ \<Rightarrow> None)
     | Floating_result \<Rightarrow> (case v of Real x \<Rightarrow> Some (J_float x, s) | _ \<Rightarrow> None)
     | String_result \<Rightarrow> give_text J v s
     | String_at \<Rightarrow> do { p \<leftarrow> address_of v; w \<leftarrow> load s p; give_text J w s }
     | Chars_result \<Rightarrow> (if address_of v = Some Nullptr then Some (J_string 0, s) else give_text J v s)
     | New_result T \<Rightarrow> Some (apfst (J_pointer \<circ> Heap) (new_object v s))
     | Pointer_result T \<Rightarrow> do { p \<leftarrow> address_of v; Some (J_pointer p, s) })"

section \<open>The exports\<close>

text \<open>
  The name of a method in its class, its parameters, its expression, its \<^verbatim>\<open>catch\<close> clauses and its result. The
  Java name of a method is that of the class followed by its own, a constructor and \<^verbatim>\<open>delete\<close> have theirs before it.
\<close>

datatype export = Export string "param list" body catches result

text \<open>A class: its C++ name, empty for functions outside classes, and a part of its exports.\<close>

type_synonym class_exports = "string \<times> export list"

text \<open>
  At the end of a method the characters of a \<open>Chars\<close> argument are released, when no exception was caught, and
  the object of a \<open>Moved\<close> argument is deleted in every case.
\<close>

definition release_arg :: "'j jvm \<Rightarrow> param \<times> jvalue \<Rightarrow> ('x, 'j) memory_state \<Rightarrow> ('x, 'j) memory_state" where
  "release_arg J pa s = (case string_of (snd pa) of
       None \<Rightarrow> s
     | Some r \<Rightarrow> (if fst pa = Chars \<and> r \<noteq> 0 then s\<lparr>machine := snd (ReleaseStringUTFChars J r (machine s))\<rparr> else s))"

definition release_chars :: "'j jvm \<Rightarrow> (param \<times> jvalue) list \<Rightarrow> ('x, 'j) memory_state \<Rightarrow> ('x, 'j) memory_state" where
  "release_chars J pas s = fold (release_arg J) pas s"

fun free_moved ::
  "('x, 'j) library \<Rightarrow> (param \<times> jvalue) list \<Rightarrow> ('x, 'j) memory_state \<Rightarrow> ('x, 'j) memory_state option" where
  "free_moved L [] s = Some s"
| "free_moved L ((p, a) # pas) s = do {
     s1 \<leftarrow> (case p of Moved T \<Rightarrow> do { q \<leftarrow> pointer_of a; free L T q s } | _ \<Rightarrow> Some s);
     free_moved L pas s1 }"

definition run_export ::
  "'j jvm \<Rightarrow> ('x, 'j) library \<Rightarrow> string \<Rightarrow> export \<Rightarrow> jvalue list \<Rightarrow> ('x, 'j) memory_state
     \<Rightarrow> (jvalue \<times> ('x, 'j) memory_state) option" where
  "run_export J L C e as s = (case e of Export name ps b c r \<Rightarrow>
     if length as \<noteq> length ps then None
     else do {
       (args, s1) \<leftarrow> take_args J L (zip ps as) s;
       (case args of
          None \<Rightarrow> Some (no_result r, s1)
        | Some cs \<Rightarrow> do {
            (out, s2) \<leftarrow> run_body L C b cs s1;
            (case out of
               Inl x \<Rightarrow> do {
                 s3 \<leftarrow> free_moved L (zip ps as) (raise J (caught c x) s2);
                 Some (no_result r, s3) }
             | Inr v \<Rightarrow> do {
                 (y, s3) \<leftarrow> give J L r v s2;
                 s4 \<leftarrow> free_moved L (zip ps as) (release_chars J (zip ps as) s3);
                 Some (y, s4) })
          }) })"

end
