(* ===== verification/Call_Laws.thy ===== *)
theory Call_Laws
  imports Native_Calls
begin

text \<open>
  Laws of the calling convention: reading and writing members through addresses, the types of members, the
  refusal of null arguments and the characters of Java strings.
\<close>

section \<open>Reading and writing through addresses\<close>

text \<open>\<open>within p q\<close>: the object at \<open>q\<close> is the one at \<open>p\<close> or a part of it.\<close>

fun within :: "cptr \<Rightarrow> cptr \<Rightarrow> bool" where
  "within p (Member q f) \<longleftrightarrow> p = Member q f \<or> within p q"
| "within p q \<longleftrightarrow> p = q"

definition apart :: "cptr \<Rightarrow> cptr \<Rightarrow> bool" where
  "apart p q \<longleftrightarrow> \<not> within p q \<and> \<not> within q p"

lemma within_refl [simp]: "within p p"
  by (cases p) auto

lemma within_member [simp]: "within p (Member p f)"
  by simp

lemma within_trans: "within p q \<Longrightarrow> within q t \<Longrightarrow> within p t"
  by (induction t) auto

lemma within_parts: "within p t \<Longrightarrow> within q t \<Longrightarrow> within p q \<or> within q p"
  by (induction t) auto

lemma apart_within: "apart q p' \<Longrightarrow> within q p \<Longrightarrow> apart p p'"
  unfolding apart_def using within_trans within_parts by blast

lemma within_step: "within p q \<Longrightarrow> q \<noteq> p \<Longrightarrow> \<exists>f. within (Member p f) q"
  by (induction q) auto

lemma load_inside:
  "within p q \<Longrightarrow> load s p = load s' p \<Longrightarrow> load s q = load s' q"
proof (induction q)
  case (Member q f)
  show ?case
  proof (cases "p = Member q f")
    case False
    with Member show ?thesis by simp
  qed (use Member in simp)
qed auto

lemma load_elsewhere: "\<not> within (Heap a) q \<Longrightarrow> load (put_object a v s) q = load s q"
  by (induction q) (auto simp: put_object_def)

lemma load_stored: "store_at s p v = Some s' \<Longrightarrow> load s' p = Some v"
  by (induction p arbitrary: v s') (auto simp: put_object_def split: if_splits option.splits cval.splits)

lemma store_unfold:
  assumes "store_at s (Member p f) v = Some s'"
  obtains m where "load s p = Some (Struct m)" "m f \<noteq> None" "store_at s p (Struct (m(f \<mapsto> v))) = Some s'"
  using assms by (auto split: option.splits cval.splits if_splits)

lemma load_apart: "store_at s p v = Some s' \<Longrightarrow> apart p q \<Longrightarrow> load s' q = load s q"
proof (induction p arbitrary: v s')
  case (Heap a)
  then show ?case by (auto simp: apart_def load_elsewhere split: if_splits)
next
  case (Member p f)
  from Member.prems(1) obtain m where m: "load s p = Some (Struct m)" "m f \<noteq> None"
    and st: "store_at s p (Struct (m(f \<mapsto> v))) = Some s'" by (rule store_unfold)
  show ?case
  proof (cases "within p q")
    case True
    have "q \<noteq> p" using Member.prems(2) by (auto simp: apart_def)
    with True obtain g where g: "within (Member p g) q" using within_step by blast
    have "g \<noteq> f" using g Member.prems(2) by (auto simp: apart_def)
    with m load_stored [OF st] have "load s' (Member p g) = load s (Member p g)" by simp
    with g show ?thesis by (rule load_inside)
  next
    case False
    with Member.prems(2) have "apart p q" by (auto simp: apart_def)
    with st show ?thesis by (rule Member.IH)
  qed
qed simp

lemma store_machine [simp]: "store_at s p v = Some s' \<Longrightarrow> machine s' = machine s"
  by (induction p arbitrary: v s') (auto simp: put_object_def split: if_splits option.splits cval.splits)

lemma store_defined: "load s p \<noteq> None \<Longrightarrow> \<exists>s'. store_at s p v = Some s'"
proof (induction p arbitrary: v)
  case (Member p f)
  then obtain m where m: "load s p = Some (Struct m)" "m f \<noteq> None" by (auto split: option.splits cval.splits)
  with Member.IH [of "Struct (m(f \<mapsto> v))"] show ?case by simp
qed auto

section \<open>Types of members\<close>

text \<open>
  The declarations of the library's headers: of which classes the binding knows the members, and the type of
  each. A value has a type when it is one of the values of the type, and an object when it has exactly the
  declared members, each of its type.
\<close>

datatype ctype = C_int int_type | C_bool | C_float | C_string | C_address string | C_class string

type_synonym layout = "string \<Rightarrow> (string \<rightharpoonup> ctype) option"

inductive has_type :: "layout \<Rightarrow> 'x cval \<Rightarrow> ctype \<Rightarrow> bool" for \<Gamma> :: layout where
  has_int: "wrap t n = n \<Longrightarrow> has_type \<Gamma> (Num n) (C_int t)"
| has_bool: "has_type \<Gamma> (Truth b) C_bool"
| has_float: "has_type \<Gamma> (Real x) C_float"
| has_string: "has_type \<Gamma> (Text cs) C_string"
| has_address: "has_type \<Gamma> (Address p) (C_address T)"
| has_opaque: "\<Gamma> T = None \<Longrightarrow> has_type \<Gamma> (Opaque x) (C_class T)"
| has_members: "\<Gamma> T = Some fs \<Longrightarrow> dom m = dom fs \<Longrightarrow>
    (\<And>f v t. m f = Some v \<Longrightarrow> fs f = Some t \<Longrightarrow> has_type \<Gamma> v t) \<Longrightarrow> has_type \<Gamma> (Struct m) (C_class T)"

inductive_cases has_typeE [elim]:
  "has_type \<Gamma> v (C_int t)" "has_type \<Gamma> v C_bool" "has_type \<Gamma> v C_float" "has_type \<Gamma> v C_string"
  "has_type \<Gamma> v (C_address T)" "has_type \<Gamma> v (C_class T)"

text \<open>\<open>\<Sigma>\<close> gives the class of each live object; the type of what an address refers to follows the members.\<close>

fun target_type :: "layout \<Rightarrow> (nat \<rightharpoonup> string) \<Rightarrow> cptr \<Rightarrow> ctype option" where
  "target_type \<Gamma> \<Sigma> Nullptr = None"
| "target_type \<Gamma> \<Sigma> (Heap a) = map_option C_class (\<Sigma> a)"
| "target_type \<Gamma> \<Sigma> (Member p f) = (case target_type \<Gamma> \<Sigma> p of
      Some (C_class T) \<Rightarrow> (case \<Gamma> T of Some fs \<Rightarrow> fs f | None \<Rightarrow> None)
    | _ \<Rightarrow> None)"

definition conforms :: "layout \<Rightarrow> (nat \<rightharpoonup> string) \<Rightarrow> ('x, 'j) memory_state \<Rightarrow> bool" where
  "conforms \<Gamma> \<Sigma> s \<longleftrightarrow> (\<forall>a T. \<Sigma> a = Some T \<longrightarrow> (\<exists>v. objects s a = Some v \<and> has_type \<Gamma> v (C_class T)))
     \<and> (\<forall>a. next_address s \<le> a \<longrightarrow> \<Sigma> a = None)"

lemma has_type_simple [simp]:
  "has_type \<Gamma> (Num n) (C_int t) \<longleftrightarrow> wrap t n = n" "has_type \<Gamma> (Truth b) C_bool" "has_type \<Gamma> (Real x) C_float"
  "has_type \<Gamma> (Text cs) C_string" "has_type \<Gamma> (Address p) (C_address T)"
  by (auto intro: has_type.intros)

lemma target_loads:
  assumes "conforms \<Gamma> \<Sigma> s"
  shows "target_type \<Gamma> \<Sigma> p = Some t \<Longrightarrow> \<exists>v. load s p = Some v \<and> has_type \<Gamma> v t"
proof (induction p arbitrary: t)
  case (Heap a)
  then show ?case using assms by (auto simp: conforms_def)
next
  case (Member p f)
  then obtain T fs where T: "target_type \<Gamma> \<Sigma> p = Some (C_class T)" "\<Gamma> T = Some fs" "fs f = Some t"
    by (auto split: option.splits ctype.splits)
  from Member.IH [OF T(1)] obtain v where v: "load s p = Some v" "has_type \<Gamma> v (C_class T)" by blast
  from v(2) T(2) obtain m where m: "v = Struct m" "dom m = dom fs"
    "\<And>f v t. m f = Some v \<Longrightarrow> fs f = Some t \<Longrightarrow> has_type \<Gamma> v t"
    by cases auto
  from m(2) T(3) obtain w where "m f = Some w" by (metis domD domI)
  with m v(1) T(3) show ?case by auto
qed simp

lemma target_stores:
  assumes "conforms \<Gamma> \<Sigma> s"
  shows "target_type \<Gamma> \<Sigma> p = Some t \<Longrightarrow> has_type \<Gamma> v t \<Longrightarrow> \<exists>s'. store_at s p v = Some s' \<and> conforms \<Gamma> \<Sigma> s'"
proof (induction p arbitrary: t v)
  case (Heap a)
  then show ?case using assms by (fastforce simp: conforms_def put_object_def)
next
  case (Member p f)
  then obtain T fs where T: "target_type \<Gamma> \<Sigma> p = Some (C_class T)" "\<Gamma> T = Some fs" "fs f = Some t"
    by (auto split: option.splits ctype.splits)
  from target_loads [OF assms T(1)] obtain w where w: "load s p = Some w" "has_type \<Gamma> w (C_class T)" by blast
  from w(2) T(2) obtain m where m: "w = Struct m" "dom m = dom fs"
    "\<And>f v t. m f = Some v \<Longrightarrow> fs f = Some t \<Longrightarrow> has_type \<Gamma> v t"
    by cases auto
  from m(2) T(3) have f: "m f \<noteq> None" by (metis domIff domI)
  have "has_type \<Gamma> (Struct (m(f \<mapsto> v))) (C_class T)"
    by (rule has_members [where fs = fs]) (use m T Member.prems(2) in \<open>auto split: if_splits\<close>)
  from Member.IH [OF T(1) this] w(1) m(1) f show ?case by auto
qed simp

section \<open>Accessors\<close>

text \<open>The exports that assign to a member and read one, with the translation of the value.\<close>

definition sets :: "export \<Rightarrow> (string \<times> param) option" where
  "sets e = (case e of Export n ps b c r \<Rightarrow> (case b of
       Set_field f \<Rightarrow> (case ps of [p0, p] \<Rightarrow> (if p0 = This \<and> r = Void then Some (f, p) else None) | _ \<Rightarrow> None)
     | _ \<Rightarrow> None))"

definition gets :: "export \<Rightarrow> (string \<times> result) option" where
  "gets e = (case e of Export n ps b c r \<Rightarrow> (case b of
       Get_field f \<Rightarrow> (if ps = [This] then Some (f, r) else None)
     | Field_address f \<Rightarrow> (if ps = [This] then Some (f, r) else None)
     | _ \<Rightarrow> None))"

text \<open>The setter and the getter of a member translate values of the same type.\<close>

definition same_type :: "param \<Rightarrow> result \<Rightarrow> bool" where
  "same_type p r = (case p of
       Number T \<Rightarrow> (case r of Number_result T' U \<Rightarrow> T = T' | _ \<Rightarrow> False)
     | Boolean \<Rightarrow> r = Boolean_result
     | Floating \<Rightarrow> r = Floating_result
     | String \<Rightarrow> r = String_at
     | Pointer T \<Rightarrow> (case r of Pointer_result T' \<Rightarrow> T = T' | _ \<Rightarrow> False)
     | _ \<Rightarrow> False)"

text \<open>
  What holds of every export: an access to a member has one of the forms above and is of a kind that has a type,
  a \<^verbatim>\<open>char const*\<close> is the last parameter, of one of three methods, and an rvalue reference the only one.
\<close>

definition settable :: "param \<Rightarrow> bool" where
  "settable p = (case p of
       Number T \<Rightarrow> True | Boolean \<Rightarrow> True | Floating \<Rightarrow> True | String \<Rightarrow> True | Pointer T \<Rightarrow> True | _ \<Rightarrow> False)"

definition well_formed :: "export \<Rightarrow> bool" where
  "well_formed e = (case e of Export n ps b c r \<Rightarrow>
     (case b of
        Set_field f \<Rightarrow> (case sets e of Some (f, p) \<Rightarrow> settable p | None \<Rightarrow> False)
      | Get_field f \<Rightarrow> ps = [This] \<and>
          (case r of Number_result T U \<Rightarrow> True | Boolean_result \<Rightarrow> True | Floating_result \<Rightarrow> True | Pointer_result T \<Rightarrow> True | _ \<Rightarrow> False)
      | Field_address f \<Rightarrow> ps = [This] \<and> (case r of String_at \<Rightarrow> True | Pointer_result T \<Rightarrow> True | _ \<Rightarrow> False)
      | _ \<Rightarrow> True)
     \<and> (\<forall>p \<in> set (butlast ps). p \<noteq> Chars)
     \<and> (Chars \<in> set ps \<longrightarrow> n \<in> {''info'', ''set_comment'', ''set_creator''})
     \<and> (\<forall>p \<in> set ps. case p of Moved T \<Rightarrow> ps = [Moved T] | _ \<Rightarrow> True))"

text \<open>Next to each other in a class, the setter of a member and its getter agree on its type.\<close>

definition agrees_with_next :: "export \<Rightarrow> export list \<Rightarrow> bool" where
  "agrees_with_next e es = (case es of [] \<Rightarrow> True | e' # _ \<Rightarrow>
     (case sets e of None \<Rightarrow> True | Some (f, p) \<Rightarrow>
       (case gets e' of None \<Rightarrow> True | Some (g, r) \<Rightarrow> f = g \<longrightarrow> same_type p r)))"

fun table_ok :: "export list \<Rightarrow> bool" where
  "table_ok [] = True"
| "table_ok (e # es) = (well_formed e \<and> agrees_with_next e es \<and> table_ok es)"

lemmas table_check = well_formed_def agrees_with_next_def sets_def gets_def same_type_def settable_def

text \<open>Checking a table does not look into the names in it, except to compare them.\<close>

lemma names_weak_cong:
  "Export n ps b c r = Export n ps b c r" "Pointer T = Pointer T" "Const_reference T = Const_reference T"
  "Reference T = Reference T" "Value T = Value T" "Const_value T = Const_value T" "Call f = Call f"
  "Method f = Method f" "Get_field f = Get_field f" "Field_address f = Field_address f" "Set_field f = Set_field f"
  "Constant f = Constant f" "Class_constant f = Class_constant f" "Static_address f = Static_address f"
  "Class_static f = Class_static f" "Pointer_result T = Pointer_result T" "New_result T = New_result T"
  "Declared T = Declared T" "(C, es) = (C, es)"
  by (rule refl)+

definition tables_ok :: "class_exports list \<Rightarrow> bool" where
  "tables_ok cs = list_all (\<lambda>(C, es). table_ok es) cs"

lemma table_well_formed: "table_ok es \<Longrightarrow> e \<in> set es \<Longrightarrow> well_formed e"
  by (induction es) auto

lemma table_neighbours: "table_ok (xs @ e # e' # ys) \<Longrightarrow> agrees_with_next e (e' # ys)"
  by (induction xs) auto

section \<open>Arguments one after the other\<close>

lemma take_args_append:
  "take_args J L (xs @ ys) s = do {
     (r, s1) \<leftarrow> take_args J L xs s;
     (case r of
        None \<Rightarrow> Some (None, s1)
      | Some cs \<Rightarrow> do { (r', s2) \<leftarrow> take_args J L ys s1; Some (map_option (append cs) r', s2) }) }"
  by (induction xs arbitrary: s)
    (auto split: option.splits taken.splits Option.bind_splits simp: map_option_case comp_def)

text \<open>An argument that is null where the method checks for it.\<close>

definition is_null :: "param \<Rightarrow> jvalue \<Rightarrow> bool" where
  "is_null p a = (case p of
       Const_reference T \<Rightarrow> a = J_pointer Nullptr
     | Reference T \<Rightarrow> a = J_pointer Nullptr
     | Value T \<Rightarrow> a = J_pointer Nullptr
     | Const_value T \<Rightarrow> a = J_pointer Nullptr
     | Moved T \<Rightarrow> a = J_pointer Nullptr
     | String \<Rightarrow> a = J_string 0
     | _ \<Rightarrow> False)"

lemma take_null:
  "is_null p a \<Longrightarrow> take_arg J L p a s = Some (Refused, raise J (SWIG_JavaNullPointerException, null_message p) s)"
  by (cases p) (simp_all add: is_null_def take_arg_def pointer_of_def string_of_def checked_def take_string_def
    read_string_def null_message_def)

lemma take_null_after:
  assumes "take_args J L xs s = Some (Some cs, s1)" and "is_null p a"
  shows "take_args J L (xs @ (p, a) # ys) s
    = Some (None, raise J (SWIG_JavaNullPointerException, null_message p) s1)"
  using assms take_null [OF assms(2), of J L s1] by (simp add: take_args_append)

text \<open>Translating arguments leaves the C++ objects alone.\<close>

lemma raise_next_address [simp]: "next_address (raise J e s) = next_address s"
  by (simp add: raise_def)

lemma read_string_objects:
  "read_string J r s = (v, s1) \<Longrightarrow> objects s1 = objects s \<and> next_address s1 = next_address s"
  by (auto simp: read_string_def Let_def split: if_splits option.splits prod.splits)

lemma take_arg_objects:
  "take_arg J L p a s = Some (t, s1) \<Longrightarrow> objects s1 = objects s \<and> next_address s1 = next_address s"
  by (auto simp: take_arg_def checked_def take_string_def take_chars_def Let_def read_string_objects
    split: param.splits Option.bind_splits if_splits option.splits prod.splits)

lemma take_args_objects:
  "take_args J L pas s = Some (r, s1) \<Longrightarrow> objects s1 = objects s \<and> next_address s1 = next_address s"
proof (induction pas arbitrary: s r)
  case (Cons pa pas)
  obtain p a where pa: "pa = (p, a)" by (metis surj_pair)
  from Cons.prems pa obtain t s2 where t: "take_arg J L p a s = Some (t, s2)" by (auto split: Option.bind_splits)
  from take_arg_objects [OF t] Cons.IH Cons.prems pa t show ?case
    by (fastforce split: taken.splits Option.bind_splits)
qed simp

section \<open>The characters of Java strings\<close>

definition chars_of :: "('x, 'j \<times> jtrace) memory_state \<Rightarrow> jref list" where
  "chars_of s = live_chars (snd (machine s))"

definition keeps_chars :: "('x, 'j \<times> jtrace) library \<Rightarrow> bool" where
  "keeps_chars L \<longleftrightarrow> (\<forall>f cs s out s'. invoke L f cs s = Some (out, s') \<longrightarrow> chars_of s' = chars_of s)
     \<and> (\<forall>T p s s'. destroy L T p s = Some s' \<longrightarrow> chars_of s' = chars_of s)"

lemma raise_chars_of [simp]: "chars_of (raise (audit_jvm J) e s) = chars_of s"
  by (simp add: chars_of_def raise_def SWIG_JavaThrowException_def audit_jvm_def Let_def split_beta)

lemma read_string_chars: "read_string (audit_jvm J) r s = (v, s1) \<Longrightarrow> chars_of s1 = chars_of s"
  by (auto simp: read_string_def Let_def split_beta audit_jvm_def chars_of_def noted_eq split: if_splits option.splits)
    (auto simp: chars_of_def raise_def SWIG_JavaThrowException_def Let_def split_beta)

lemma new_string_chars: "new_string (audit_jvm J) cs s = (r, s1) \<Longrightarrow> chars_of s1 = chars_of s"
  by (auto simp: new_string_def Let_def split_beta audit_jvm_def chars_of_def if_ref_def)

lemma take_arg_chars:
  "take_arg (audit_jvm J) L p a s = Some (t, s1) \<Longrightarrow> p \<noteq> Chars \<Longrightarrow> chars_of s1 = chars_of s"
  by (auto simp: take_arg_def checked_def take_string_def Let_def read_string_chars
    split: param.splits Option.bind_splits if_splits option.splits prod.splits)

lemma take_args_chars:
  "take_args (audit_jvm J) L pas s = Some (r, s1) \<Longrightarrow> \<forall>(p, a) \<in> set pas. p \<noteq> Chars \<Longrightarrow> chars_of s1 = chars_of s"
proof (induction pas arbitrary: s r)
  case (Cons pa pas)
  obtain p a where pa: "pa = (p, a)" by (metis surj_pair)
  from Cons.prems pa obtain t s2 where t: "take_arg (audit_jvm J) L p a s = Some (t, s2)"
    by (auto split: Option.bind_splits)
  from take_arg_chars [OF t] Cons.IH Cons.prems pa t show ?case
    by (fastforce split: taken.splits Option.bind_splits)
qed simp

text \<open>The characters the method itself has to release at its end.\<close>

definition held_arg :: "param \<times> jvalue \<Rightarrow> jref list" where
  "held_arg pa = (case string_of (snd pa) of
       None \<Rightarrow> []
     | Some r \<Rightarrow> (if fst pa = Chars \<and> r \<noteq> 0 then [r] else []))"

definition held_chars :: "(param \<times> jvalue) list \<Rightarrow> jref list" where
  "held_chars pas = concat (map held_arg pas)"

definition chars_last :: "(param \<times> jvalue) list \<Rightarrow> bool" where
  "chars_last pas \<longleftrightarrow> (\<forall>(p, a) \<in> set (butlast pas). p \<noteq> Chars)"

lemma held_none: "\<forall>(p, a) \<in> set pas. p \<noteq> Chars \<Longrightarrow> held_chars pas = []"
  by (induction pas) (auto simp: held_chars_def held_arg_def split: option.splits)

lemma take_chars_held:
  "take_chars (audit_jvm J) r s = (t, s1) \<Longrightarrow>
     chars_of s1 = (if t = Refused then chars_of s else held_arg (Chars, J_string r) @ chars_of s)"
  by (auto simp: take_chars_def Let_def split_beta audit_jvm_def chars_of_def held_arg_def string_of_def
    split: if_splits option.splits)

lemma take_arg_held:
  assumes "take_arg (audit_jvm J) L p a s = Some (t, s1)"
  shows "chars_of s1 = (if t = Refused then chars_of s else held_arg (p, a) @ chars_of s)"
proof (cases "p = Chars")
  case True
  with assms obtain r where r: "string_of a = Some r" "take_chars (audit_jvm J) r s = (t, s1)"
    by (auto simp: take_arg_def split: Option.bind_splits)
  have "held_arg (p, a) = held_arg (Chars, J_string r)" using True r(1) by (simp add: held_arg_def string_of_def)
  with take_chars_held [OF r(2)] show ?thesis by simp
next
  case False
  with take_arg_chars [OF assms] show ?thesis by (simp add: held_arg_def split: option.splits)
qed

lemma take_args_held:
  assumes "take_args (audit_jvm J) L pas s = Some (r, s1)" and "chars_last pas"
  shows "chars_of s1 = (if r = None then chars_of s else held_chars pas @ chars_of s)"
proof (cases pas rule: rev_cases)
  case Nil
  with assms show ?thesis by (auto simp: held_chars_def)
next
  case (snoc xs pa)
  obtain p a where pa: "pa = (p, a)" by (metis surj_pair)
  have xs: "\<forall>(p, a) \<in> set xs. p \<noteq> Chars" using assms(2) snoc by (simp add: chars_last_def)
  from assms(1) snoc obtain r0 s0 where t0: "take_args (audit_jvm J) L xs s = Some (r0, s0)"
    by (auto simp: take_args_append split: Option.bind_splits)
  have same: "chars_of s0 = chars_of s" by (rule take_args_chars [OF t0 xs])
  show ?thesis
  proof (cases r0)
    case None
    with assms(1) snoc t0 same show ?thesis by (simp add: take_args_append)
  next
    case (Some cs)
    with assms(1) snoc t0 pa obtain t where t: "take_arg (audit_jvm J) L p a s0 = Some (t, s1)"
      and r: "(r = None) = (t = Refused)"
      by (auto simp: take_args_append split: Option.bind_splits taken.splits)
    from take_arg_held [OF t] r same snoc pa held_none [OF xs] show ?thesis by (simp add: held_chars_def)
  qed
qed

lemma release_arg_held:
  "chars_of s = held_arg pa @ cs \<Longrightarrow> chars_of (release_arg (audit_jvm J) pa s) = cs"
  by (auto simp: release_arg_def held_arg_def chars_of_def audit_jvm_def split: option.splits if_splits)

lemma release_none:
  "\<forall>(p, a) \<in> set pas. p \<noteq> Chars \<Longrightarrow> release_chars J pas s = s"
  by (induction pas arbitrary: s) (auto simp: release_chars_def release_arg_def split: option.splits)

lemma release_chars_held:
  assumes "chars_of s = held_chars pas @ cs" and "chars_last pas"
  shows "chars_of (release_chars (audit_jvm J) pas s) = cs"
proof (cases pas rule: rev_cases)
  case Nil
  with assms show ?thesis by (simp add: held_chars_def release_chars_def)
next
  case (snoc xs pa)
  have xs: "\<forall>(p, a) \<in> set xs. p \<noteq> Chars" using assms(2) snoc by (simp add: chars_last_def)
  have "release_chars (audit_jvm J) pas s = release_arg (audit_jvm J) pa s"
    using snoc release_none [OF xs, of "audit_jvm J" s] by (simp add: release_chars_def)
  moreover have "chars_of s = held_arg pa @ cs" using assms(1) snoc held_none [OF xs] by (simp add: held_chars_def)
  ultimately show ?thesis using release_arg_held by simp
qed

lemma free_chars: "free L T p s = Some s1 \<Longrightarrow> keeps_chars L \<Longrightarrow> chars_of s1 = chars_of s"
  by (fastforce simp: free_def keeps_chars_def chars_of_def split: cptr.splits if_splits Option.bind_splits)

lemma free_moved_chars: "free_moved L pas s = Some s1 \<Longrightarrow> keeps_chars L \<Longrightarrow> chars_of s1 = chars_of s"
proof (induction pas arbitrary: s)
  case (Cons pa pas)
  obtain p a where pa: "pa = (p, a)" by (metis surj_pair)
  from Cons.prems(1) pa obtain s2 where
    "(case p of Moved T \<Rightarrow> do { q \<leftarrow> pointer_of a; free L T q s } | _ \<Rightarrow> Some s) = Some s2"
    and f: "free_moved L pas s2 = Some s1" by (auto split: Option.bind_splits)
  then have "chars_of s2 = chars_of s"
    using free_chars [OF _ Cons.prems(2)] by (cases p) (auto split: Option.bind_splits)
  with Cons.IH [OF f Cons.prems(2)] show ?case by simp
qed simp

lemma store_chars: "store_at s p v = Some s1 \<Longrightarrow> chars_of s1 = chars_of s"
  by (simp add: chars_of_def)

lemma assign_chars: "assign p f v s = Some (out, s1) \<Longrightarrow> chars_of s1 = chars_of s"
  by (auto simp: assign_def store_chars simp del: store_at.simps split: Option.bind_splits if_splits)

lemma run_body_chars:
  assumes "run_body L C b cs s = Some (out, s1)" and "keeps_chars L"
  shows "chars_of s1 = chars_of s"
  using assms
  by (cases b) (auto simp: run_body_def keeps_chars_def static_value_def new_object_def Let_def chars_of_def
    dest: assign_chars [unfolded chars_of_def] free_chars [OF _ assms(2), unfolded chars_of_def]
    split: Option.bind_splits if_splits prod.splits)

lemma give_chars: "give (audit_jvm J) L r v s = Some (x, s1) \<Longrightarrow> chars_of s1 = chars_of s"
  by (auto simp: give_def give_text_def give_string_def new_object_def apfst_def map_prod_def
    split: result.splits Option.bind_splits cval.splits if_splits prod.splits dest: new_string_chars)
    (simp_all add: chars_of_def)

text \<open>The library raised an exception.\<close>

definition raises ::
  "'j jvm \<Rightarrow> ('x, 'j) library \<Rightarrow> string \<Rightarrow> export \<Rightarrow> jvalue list \<Rightarrow> ('x, 'j) memory_state \<Rightarrow> bool" where
  "raises J L C e as s = (case e of Export n ps b c r \<Rightarrow>
     case take_args J L (zip ps as) s of
       Some (Some cs, s1) \<Rightarrow> (case run_body L C b cs s1 of Some (Inl x, s2) \<Rightarrow> True | _ \<Rightarrow> False)
     | _ \<Rightarrow> False)"

lemma run_export_chars:
  assumes run: "run_export (audit_jvm J) L C (Export n ps b c r) as s = Some (x, s')"
    and "\<forall>p \<in> set (butlast ps). p \<noteq> Chars" and k: "keeps_chars L"
  shows "chars_of s' = (if raises (audit_jvm J) L C (Export n ps b c r) as s
    then held_chars (zip ps as) @ chars_of s else chars_of s)"
proof -
  let ?J = "audit_jvm J"
  from run have len: "length as = length ps" by (simp add: run_export_def split: if_splits)
  with assms(2) have last: "chars_last (zip ps as)"
    by (auto simp: chars_last_def butlast_conv_take take_zip dest: set_zip_leftD)
  from run obtain args s1 where t: "take_args ?J L (zip ps as) s = Some (args, s1)"
    by (auto simp: run_export_def split: if_splits Option.bind_splits)
  note h = take_args_held [OF t last]
  show ?thesis
  proof (cases args)
    case None
    with run t h show ?thesis by (simp add: run_export_def raises_def split: if_splits)
  next
    case (Some cs)
    with run t obtain out s2 where b: "run_body L C b cs s1 = Some (out, s2)"
      by (auto simp: run_export_def split: if_splits Option.bind_splits)
    have s2: "chars_of s2 = held_chars (zip ps as) @ chars_of s"
      using run_body_chars [OF b k] h Some by simp
    show ?thesis
    proof (cases out)
      case (Inl e)
      with run t Some b obtain s3 where "free_moved L (zip ps as) (raise ?J (caught c e) s2) = Some s'"
        by (auto simp: run_export_def split: if_splits Option.bind_splits)
      from free_moved_chars [OF this k] s2 Inl t Some b show ?thesis by (simp add: raises_def)
    next
      case (Inr v)
      with run t Some b obtain y s3 where g: "give ?J L r v s2 = Some (y, s3)"
        and f: "free_moved L (zip ps as) (release_chars ?J (zip ps as) s3) = Some s'"
        by (auto simp: run_export_def split: if_splits Option.bind_splits)
      from give_chars [OF g] s2 have "chars_of s3 = held_chars (zip ps as) @ chars_of s" by simp
      from release_chars_held [OF this last] free_moved_chars [OF f k] Inr t Some b
      show ?thesis by (simp add: raises_def)
    qed
  qed
qed

section \<open>What accessors do\<close>

lemma wrap_wrap [simp]: "wrap t (wrap t n) = wrap t n"
  by (cases t) auto

lemma sets_export:
  "sets e = Some (f, p) \<Longrightarrow> \<exists>n c. e = Export n [This, p] (Set_field f) c Void"
  by (cases e) (auto simp: sets_def split: body.splits list.splits if_splits)

text \<open>The C++ value of an argument of a setter, when its translation does not fail.\<close>

definition plain_value :: "('x, 'j) library \<Rightarrow> ('x, 'j) memory_state \<Rightarrow> param \<Rightarrow> jvalue \<Rightarrow> 'x cval option" where
  "plain_value L s p a = (case p of
       Number T \<Rightarrow> do { n \<leftarrow> number_of a; Some (Num (convert L T n)) }
     | Boolean \<Rightarrow> do { b \<leftarrow> boolean_of a; Some (Truth (b \<noteq> 0)) }
     | Floating \<Rightarrow> do { x \<leftarrow> float_of a; Some (Real x) }
     | Pointer T \<Rightarrow> do { q \<leftarrow> pointer_of a; load s q }
     | _ \<Rightarrow> None)"

lemma plain_arg:
  assumes "plain_value L s p a = Some v"
  shows "\<exists>c. take_arg J L p a s = Some (Taken c, s) \<and> arg_value s c = Some v \<and> p \<notin> range Moved \<and> p \<noteq> Chars"
  using assms by (cases p) (auto simp: plain_value_def take_arg_def split: Option.bind_splits)

lemma release_pointer [simp]: "release_arg J (p, J_pointer q) s = s"
  by (simp add: release_arg_def string_of_def)

lemma setter_stores:
  assumes e: "sets e = Some (f, p)" and v: "plain_value L s p a = Some v" and q: "q \<noteq> Nullptr"
    and st: "store_at s (Member q f) (kept_value (member_type L C f) v) = Some s1"
  shows "run_export J L C e [J_pointer q, a] s = Some (J_void, s1)"
proof -
  obtain n c where E: "e = Export n [This, p] (Set_field f) c Void" using sets_export [OF e] by blast
  obtain d where d: "take_arg J L p a s = Some (Taken d, s)" "arg_value s d = Some v" "p \<notin> range Moved" "p \<noteq> Chars"
    using plain_arg [OF v, of J] by blast
  have m: "(case p of Moved T \<Rightarrow> do { q \<leftarrow> pointer_of a; free L T q s1 } | _ \<Rightarrow> Some s1) = Some s1"
    using d(3) by (cases p) auto
  have rel: "release_arg J (p, a) s1 = s1" using d(4) by (simp add: release_arg_def split: option.splits)
  have "take_arg J L This (J_pointer q) s = Some (Taken (C_pointer q), s)"
    by (simp add: take_arg_def pointer_of_def)
  moreover have "run_body L C (Set_field f) [C_pointer q, d] s = Some (Inr (Address Nullptr), s1)"
    using q st d(2) by (simp add: run_body_def object_and_value_def assign_def del: store_at.simps)
  ultimately show ?thesis
    using d m rel by (cases p) (auto simp: run_export_def E give_def release_chars_def)
qed

lemma setter_null:
  assumes "sets e = Some (f, p)" and "plain_value L s p a = Some v"
  shows "run_export J L C e [J_pointer Nullptr, a] s = Some (J_void, s)"
proof -
  obtain n c where E: "e = Export n [This, p] (Set_field f) c Void" using sets_export [OF assms(1)] by blast
  obtain d where d: "take_arg J L p a s = Some (Taken d, s)" "arg_value s d = Some v" "p \<notin> range Moved" "p \<noteq> Chars"
    using plain_arg [OF assms(2), of J] by blast
  have rel: "release_arg J (p, a) s = s" using d(4) by (simp add: release_arg_def split: option.splits)
  have "take_arg J L This (J_pointer Nullptr) s = Some (Taken (C_pointer Nullptr), s)"
    by (simp add: take_arg_def pointer_of_def)
  moreover have "run_body L C (Set_field f) [C_pointer Nullptr, d] s = Some (Inr (Address Nullptr), s)"
    by (simp add: run_body_def object_and_value_def assign_def)
  ultimately show ?thesis
    using d rel by (cases p) (auto simp: run_export_def E give_def release_chars_def)
qed

lemma getter_reads:
  assumes "e = Export n [This] (Get_field f) c r" and "load s (Member q f) = Some v" and "give J L r v s = Some (x, s1)"
  shows "run_export J L C e [J_pointer q] s = Some (x, s1)"
  using assms
  by (simp add: run_export_def take_arg_def pointer_of_def run_body_def the_object_def release_chars_def
    release_arg_def string_of_def del: load.simps)

lemma getter_points:
  assumes "e = Export n [This] (Field_address f) c r" and "load s (Member q f) \<noteq> None"
    and "give J L r (Address (Member q f)) s = Some (x, s1)"
  shows "run_export J L C e [J_pointer q] s = Some (x, s1)"
  using assms
  by (auto simp: run_export_def take_arg_def pointer_of_def run_body_def the_object_def release_chars_def
    release_arg_def string_of_def simp del: load.simps)

lemma gets_export:
  "gets e = Some (f, r) \<Longrightarrow> \<exists>n c. e = Export n [This] (Get_field f) c r \<or> e = Export n [This] (Field_address f) c r"
  by (cases e) (auto simp: gets_def split: body.splits if_splits)

section \<open>Accessors are well typed\<close>

text \<open>The type a header has to declare for the member an accessor is about.\<close>

definition param_type :: "('x, 'j) library \<Rightarrow> string \<Rightarrow> string \<Rightarrow> param \<Rightarrow> ctype option" where
  "param_type L C f p = (case p of
       Number T \<Rightarrow> Some (C_int (member_type L C f))
     | Boolean \<Rightarrow> Some C_bool
     | Floating \<Rightarrow> Some C_float
     | String \<Rightarrow> Some C_string
     | Pointer T \<Rightarrow> Some (C_class T)
     | _ \<Rightarrow> None)"

definition expects :: "('x, 'j) library \<Rightarrow> string \<Rightarrow> export \<Rightarrow> (string \<times> ctype) option" where
  "expects L C e = (case e of Export n ps b c r \<Rightarrow> (case b of
       Set_field f \<Rightarrow> do { (f, p) \<leftarrow> sets e; t \<leftarrow> param_type L C f p; Some (f, t) }
     | Get_field f \<Rightarrow> (case r of
           Number_result T U \<Rightarrow> Some (f, C_int (member_type L C f))
         | Boolean_result \<Rightarrow> Some (f, C_bool)
         | Floating_result \<Rightarrow> Some (f, C_float)
         | Pointer_result T \<Rightarrow> Some (f, C_address T)
         | _ \<Rightarrow> None)
     | Field_address f \<Rightarrow> (case r of
           String_at \<Rightarrow> Some (f, C_string)
         | Pointer_result T \<Rightarrow> Some (f, C_class T)
         | _ \<Rightarrow> None)
     | _ \<Rightarrow> None))"

text \<open>The exports that access the member \<open>f\<close>, and the arguments a Java program may call them with.\<close>

definition accesses :: "export \<Rightarrow> string \<Rightarrow> bool" where
  "accesses e f = (case e of Export n ps b c r \<Rightarrow> b \<in> {Set_field f, Get_field f, Field_address f})"

definition parameters :: "export \<Rightarrow> param list" where
  "parameters e = (case e of Export n ps b c r \<Rightarrow> ps)"

definition fits :: "layout \<Rightarrow> (nat \<rightharpoonup> string) \<Rightarrow> string \<Rightarrow> param \<Rightarrow> jvalue \<Rightarrow> bool" where
  "fits \<Gamma> \<Sigma> C p a = (case p of
       This \<Rightarrow> \<exists>q. a = J_pointer q \<and> target_type \<Gamma> \<Sigma> q = Some (C_class C)
     | Pointer T \<Rightarrow> \<exists>q. a = J_pointer q \<and> target_type \<Gamma> \<Sigma> q = Some (C_class T)
     | Number T \<Rightarrow> \<exists>n. a = J_number n
     | Boolean \<Rightarrow> \<exists>b. a = J_boolean b
     | Floating \<Rightarrow> \<exists>x. a = J_float x
     | String \<Rightarrow> \<exists>r. a = J_string r
     | _ \<Rightarrow> False)"

lemma settable_type: "settable p \<Longrightarrow> \<exists>t. param_type L C f p = Some t"
  by (cases p) (simp_all add: settable_def param_type_def)

lemma accessor_expects:
  assumes wf: "well_formed e" and acc: "accesses e f"
  shows "\<exists>t. expects L C e = Some (f, t)"
proof -
  obtain n ps b c r where E: "e = Export n ps b c r" by (cases e)
  from acc E consider "b = Set_field f" | "b = Get_field f" | "b = Field_address f" by (auto simp: accesses_def)
  then show ?thesis
  proof cases
    case 1
    with wf E obtain g p where s: "sets e = Some (g, p)" "settable p" by (auto simp: well_formed_def split: option.splits)
    with sets_export [OF s(1)] E 1 have "g = f" by auto
    with s settable_type [OF s(2), of L C f] E 1 show ?thesis by (auto simp: expects_def)
  next
    case 2
    with wf E show ?thesis by (cases r) (simp_all add: well_formed_def expects_def)
  next
    case 3
    with wf E show ?thesis by (cases r) (simp_all add: well_formed_def expects_def)
  qed
qed

lemma conforms_same:
  "objects s' = objects s \<Longrightarrow> next_address s' = next_address s \<Longrightarrow> conforms \<Gamma> \<Sigma> s' = conforms \<Gamma> \<Sigma> s"
  by (simp add: conforms_def)

lemma target_not_null: "target_type \<Gamma> \<Sigma> q = Some t \<Longrightarrow> q \<noteq> Nullptr"
  by (cases q) auto

lemma typed_plain_value:
  assumes "fits \<Gamma> \<Sigma> C p a" "conforms \<Gamma> \<Sigma> s" "param_type L C f p = Some t" "p \<noteq> String"
  shows "\<exists>v. plain_value L s p a = Some v \<and> has_type \<Gamma> (kept_value (member_type L C f) v) t"
proof (cases p)
  case (Pointer T)
  with assms(1) obtain q where q: "a = J_pointer q" "target_type \<Gamma> \<Sigma> q = Some (C_class T)" by (auto simp: fits_def)
  from target_loads [OF assms(2) q(2)] obtain v where v: "load s q = Some v" "has_type \<Gamma> v (C_class T)" by blast
  from v(2) have "kept_value (member_type L C f) v = v" by cases auto
  with v q Pointer assms(3) show ?thesis by (simp add: plain_value_def pointer_of_def param_type_def)
qed (use assms in \<open>auto simp: fits_def param_type_def plain_value_def number_of_def boolean_of_def float_of_def\<close>)

lemma string_setter:
  assumes e: "sets e = Some (f, String)" and c: "conforms \<Gamma> \<Sigma> s" and q: "target_type \<Gamma> \<Sigma> (Member q f) = Some C_string"
  shows "\<exists>s1. run_export J L C e [J_pointer q, J_string r] s = Some (J_void, s1) \<and> conforms \<Gamma> \<Sigma> s1"
proof -
  obtain n cs where E: "e = Export n [This, String] (Set_field f) cs Void" using sets_export [OF e] by blast
  obtain v s1 where v: "read_string J r s = (v, s1)" by (metis surj_pair)
  have c1: "conforms \<Gamma> \<Sigma> s1" using read_string_objects [OF v] c conforms_same by metis
  show ?thesis
  proof (cases v)
    case None
    with v c1 show ?thesis
      by (simp add: E run_export_def take_arg_def pointer_of_def string_of_def take_string_def no_result_def)
  next
    case (Some cs)
    obtain s2 where s2: "store_at s1 (Member q f) (Text cs) = Some s2" "conforms \<Gamma> \<Sigma> s2"
      using target_stores [OF c1 q has_string] by blast
    have "q \<noteq> Nullptr" using q by auto
    with Some v s2 show ?thesis
      by (simp add: E run_export_def take_arg_def pointer_of_def string_of_def take_string_def run_body_def
        object_and_value_def assign_def give_def release_chars_def release_arg_def del: store_at.simps)
  qed
qed

text \<open>
  An accessor of a member that the headers declare with the type the accessor has, called with arguments of
  its parameters' types, neither fails nor spoils a member, and the address it returns is one of an object of the
  class it says.
\<close>

lemma accessor_type_safe:
  assumes wf: "well_formed e" and acc: "accesses e f" and t: "expects L C e = Some (f, t)"
    and decl: "\<Gamma> C = Some fs" "fs f = Some t" and c: "conforms \<Gamma> \<Sigma> s" and args: "list_all2 (fits \<Gamma> \<Sigma> C) (parameters e) as"
  shows "\<exists>x s'. run_export J L C e as s = Some (x, s') \<and> conforms \<Gamma> \<Sigma> s'
    \<and> (\<forall>T q. t = C_class T \<and> x = J_pointer q \<longrightarrow> target_type \<Gamma> \<Sigma> q = Some (C_class T))"
proof (cases "sets e")
  case (Some fp)
  obtain g p where "sets e = Some (g, p)" using Some by (cases fp) auto
  then obtain n k where E: "e = Export n [This, p] (Set_field g) k Void" and s0: "sets e = Some (g, p)"
    using sets_export by blast
  have g: "g = f" using acc E by (simp add: accesses_def)
  have p: "param_type L C f p = Some t" using t s0 E g by (auto simp: expects_def split: Option.bind_splits)
  from args E obtain q a where as: "as = [J_pointer q, a]" and q: "target_type \<Gamma> \<Sigma> q = Some (C_class C)"
    and a: "fits \<Gamma> \<Sigma> C p a"
    by (auto simp: parameters_def list_all2_Cons1 fits_def [of _ _ _ This])
  have m: "target_type \<Gamma> \<Sigma> (Member q f) = Some t" using q decl by simp
  show ?thesis
  proof (cases "p = String")
    case True
    with a obtain r where "a = J_string r" by (auto simp: fits_def)
    with string_setter [OF _ c, of e f q J L C r] s0 g True m p as show ?thesis by (auto simp: param_type_def)
  next
    case False
    from typed_plain_value [OF a c p False] obtain v where v: "plain_value L s p a = Some v"
      "has_type \<Gamma> (kept_value (member_type L C f) v) t" by blast
    from target_stores [OF c m v(2)] obtain s1 where s1:
      "store_at s (Member q f) (kept_value (member_type L C f) v) = Some s1" "conforms \<Gamma> \<Sigma> s1" by blast
    have "run_export J L C e as s = Some (J_void, s1)"
      unfolding as by (rule setter_stores [OF _ v(1) target_not_null [OF q] s1(1)]) (simp add: s0 g)
    with s1(2) show ?thesis by blast
  qed
next
  case None
  from None wf acc obtain n k r where E: "e = Export n [This] (Get_field f) k r \<or> e = Export n [This] (Field_address f) k r"
    by (cases e) (auto simp: accesses_def well_formed_def)
  from args E obtain q where as: "as = [J_pointer q]" and q: "target_type \<Gamma> \<Sigma> q = Some (C_class C)"
    by (auto simp: parameters_def list_all2_Cons1 fits_def)
  have m: "target_type \<Gamma> \<Sigma> (Member q f) = Some t" using q decl by simp
  from target_loads [OF c m] obtain v where v: "load s (Member q f) = Some v" "has_type \<Gamma> v t" by blast
  from E show ?thesis
  proof
    assume E: "e = Export n [This] (Get_field f) k r"
    from t v(2) E have "\<exists>x. give J L r v s = Some (x, s) \<and> (\<forall>T. t \<noteq> C_class T)"
      by (auto simp: expects_def give_def give_number_def address_of_def split: result.splits)
    then obtain x where x: "give J L r v s = Some (x, s)" "\<forall>T. t \<noteq> C_class T" by blast
    from getter_reads [OF E v(1) x(1)] c x(2) as show ?thesis by blast
  next
    assume E: "e = Export n [This] (Field_address f) k r"
    have "(r = String_at \<and> t = C_string) \<or> (\<exists>T. r = Pointer_result T \<and> t = C_class T)"
      using t E by (auto simp: expects_def split: result.splits)
    then show ?thesis
    proof
      assume r: "r = String_at \<and> t = C_string"
      with v obtain cs where cs: "v = Text cs" by auto
      obtain x s1 where x: "give_string J cs s = (x, s1)" by (metis surj_pair)
      have g: "give J L r (Address (Member q f)) s = Some (x, s1)"
        using r v(1) cs x by (simp add: give_def address_of_def give_text_def del: load.simps)
      have "objects s1 = objects s \<and> next_address s1 = next_address s"
        using x by (auto simp: give_string_def new_string_def Let_def split: prod.splits)
      with c have "conforms \<Gamma> \<Sigma> s1" using conforms_same by metis
      with getter_points [OF E _ g] v(1) as r show ?thesis by auto
    next
      assume "\<exists>T. r = Pointer_result T \<and> t = C_class T"
      then obtain T where r: "r = Pointer_result T" "t = C_class T" by blast
      have g: "give J L r (Address (Member q f)) s = Some (J_pointer (Member q f), s)"
        using r by (simp add: give_def address_of_def)
      from getter_points [OF E _ g] v(1) as r c m show ?thesis by auto
    qed
  qed
qed

end
