(* ===== verification/Exports_Basic.thy ===== *)
theory Exports_Basic
  imports Call_Laws
begin

text \<open>
  The exports of the binding for pairs, arrays, maps, error codes, addresses, hashes, bit sets and storage errors, class by
  class in the order of the generated code.
\<close>

definition int_byte_pair_exports :: class_exports where
  "int_byte_pair_exports = (''std::pair< int,std::int8_t >'', [
     Export ''new__SWIG_0'' [] New Catch_any (Pointer_result ''std::pair< int,std::int8_t >''),
     Export ''new__SWIG_1'' [Number int32, Number int8] New Catch_any (Pointer_result ''std::pair< int,std::int8_t >''),
     Export ''new__SWIG_2'' [Const_reference ''std::pair< int,std::int8_t >''] Copy Catch_any (Pointer_result ''std::pair< int,std::int8_t >''),
     Export ''first_set'' [This, Number int32] (Set_field ''first'') Catch_any Void,
     Export ''first_get'' [This] (Get_field ''first'') Catch_any (Number_result int32 int32),
     Export ''second_set'' [This, Number int8] (Set_field ''second'') Catch_any Void,
     Export ''second_get'' [This] (Get_field ''second'') Catch_any (Number_result int8 int8)])"

definition int_byte_pair_exports_2 :: class_exports where
  "int_byte_pair_exports_2 = (''std::pair< int,std::int8_t >'', [
     Export ''delete'' [This] Delete Catch_any Void])"

definition string_int_pair_exports :: class_exports where
  "string_int_pair_exports = (''std::pair< std::string,int >'', [
     Export ''new__SWIG_0'' [] New Catch_any (Pointer_result ''std::pair< std::string,int >''),
     Export ''new__SWIG_1'' [String, Number int32] New Catch_any (Pointer_result ''std::pair< std::string,int >''),
     Export ''new__SWIG_2'' [Const_reference ''std::pair< std::string,int >''] Copy Catch_any (Pointer_result ''std::pair< std::string,int >''),
     Export ''first_set'' [This, String] (Set_field ''first'') Catch_any Void,
     Export ''first_get'' [This] (Field_address ''first'') Catch_any String_at,
     Export ''second_set'' [This, Number int32] (Set_field ''second'') Catch_any Void,
     Export ''second_get'' [This] (Get_field ''second'') Catch_any (Number_result int32 int32)])"

definition string_int_pair_exports_2 :: class_exports where
  "string_int_pair_exports_2 = (''std::pair< std::string,int >'', [
     Export ''delete'' [This] Delete Catch_any Void])"

definition string_string_pair_exports :: class_exports where
  "string_string_pair_exports = (''std::pair< std::string,std::string >'', [
     Export ''new__SWIG_0'' [] New Catch_any (Pointer_result ''std::pair< std::string,std::string >''),
     Export ''new__SWIG_1'' [String, String] New Catch_any (Pointer_result ''std::pair< std::string,std::string >''),
     Export ''new__SWIG_2'' [Const_reference ''std::pair< std::string,std::string >''] Copy Catch_any (Pointer_result ''std::pair< std::string,std::string >''),
     Export ''first_set'' [This, String] (Set_field ''first'') Catch_any Void,
     Export ''first_get'' [This] (Field_address ''first'') Catch_any String_at,
     Export ''second_set'' [This, String] (Set_field ''second'') Catch_any Void])"

definition string_string_pair_exports_2 :: class_exports where
  "string_string_pair_exports_2 = (''std::pair< std::string,std::string >'', [
     Export ''second_get'' [This] (Field_address ''second'') Catch_any String_at,
     Export ''delete'' [This] Delete Catch_any Void])"

definition byte_vector_byte_vector_pair_exports :: class_exports where
  "byte_vector_byte_vector_pair_exports = (''std::pair< std::vector< std::int8_t >,std::vector< std::int8_t > >'', [
     Export ''new__SWIG_0'' [] New Catch_any (Pointer_result ''std::pair< std::vector< std::int8_t >,std::vector< std::int8_t > >''),
     Export ''new__SWIG_1'' [Value ''std::vector< std::int8_t >'', Value ''std::vector< std::int8_t >''] New Catch_any (Pointer_result ''std::pair< std::vector< std::int8_t >,std::vector< std::int8_t > >''),
     Export ''new__SWIG_2'' [Const_reference ''std::pair< std::vector< std::int8_t >,std::vector< std::int8_t > >''] Copy Catch_any (Pointer_result ''std::pair< std::vector< std::int8_t >,std::vector< std::int8_t > >''),
     Export ''first_set'' [This, Pointer ''std::vector< std::int8_t >''] (Set_field ''first'') Catch_any Void,
     Export ''first_get'' [This] (Field_address ''first'') Catch_any (Pointer_result ''std::vector< std::int8_t >''),
     Export ''second_set'' [This, Pointer ''std::vector< std::int8_t >''] (Set_field ''second'') Catch_any Void,
     Export ''second_get'' [This] (Field_address ''second'') Catch_any (Pointer_result ''std::vector< std::int8_t >'')])"

definition byte_vector_byte_vector_pair_exports_2 :: class_exports where
  "byte_vector_byte_vector_pair_exports_2 = (''std::pair< std::vector< std::int8_t >,std::vector< std::int8_t > >'', [
     Export ''delete'' [This] Delete Catch_any Void])"

definition sha1_hash_udp_endpoint_pair_exports :: class_exports where
  "sha1_hash_udp_endpoint_pair_exports = (''std::pair< libtorrent::digest32< 160 >,libtorrent::udp::endpoint >'', [
     Export ''new__SWIG_0'' [] New Catch_any (Pointer_result ''std::pair< libtorrent::digest32< 160 >,libtorrent::udp::endpoint >''),
     Export ''new__SWIG_1'' [Value ''libtorrent::digest32< 160 >'', Value ''libtorrent::udp::endpoint''] New Catch_any (Pointer_result ''std::pair< libtorrent::digest32< 160 >,libtorrent::udp::endpoint >''),
     Export ''new__SWIG_2'' [Const_reference ''std::pair< libtorrent::digest32< 160 >,libtorrent::udp::endpoint >''] Copy Catch_any (Pointer_result ''std::pair< libtorrent::digest32< 160 >,libtorrent::udp::endpoint >''),
     Export ''first_set'' [This, Pointer ''libtorrent::digest32< 160 >''] (Set_field ''first'') Catch_any Void,
     Export ''first_get'' [This] (Field_address ''first'') Catch_any (Pointer_result ''libtorrent::digest32< 160 >''),
     Export ''second_set'' [This, Pointer ''libtorrent::udp::endpoint''] (Set_field ''second'') Catch_any Void,
     Export ''second_get'' [This] (Field_address ''second'') Catch_any (Pointer_result ''libtorrent::udp::endpoint'')])"

definition sha1_hash_udp_endpoint_pair_exports_2 :: class_exports where
  "sha1_hash_udp_endpoint_pair_exports_2 = (''std::pair< libtorrent::digest32< 160 >,libtorrent::udp::endpoint >'', [
     Export ''delete'' [This] Delete Catch_any Void])"

definition bdecode_node_bdecode_node_pair_exports :: class_exports where
  "bdecode_node_bdecode_node_pair_exports = (''std::pair< libtorrent::bdecode_node,libtorrent::bdecode_node >'', [
     Export ''new__SWIG_0'' [] New Catch_any (Pointer_result ''std::pair< libtorrent::bdecode_node,libtorrent::bdecode_node >''),
     Export ''new__SWIG_1'' [Value ''libtorrent::bdecode_node'', Value ''libtorrent::bdecode_node''] New Catch_any (Pointer_result ''std::pair< libtorrent::bdecode_node,libtorrent::bdecode_node >''),
     Export ''new__SWIG_2'' [Const_reference ''std::pair< libtorrent::bdecode_node,libtorrent::bdecode_node >''] Copy Catch_any (Pointer_result ''std::pair< libtorrent::bdecode_node,libtorrent::bdecode_node >''),
     Export ''first_set'' [This, Pointer ''libtorrent::bdecode_node''] (Set_field ''first'') Catch_any Void,
     Export ''first_get'' [This] (Field_address ''first'') Catch_any (Pointer_result ''libtorrent::bdecode_node''),
     Export ''second_set'' [This, Pointer ''libtorrent::bdecode_node''] (Set_field ''second'') Catch_any Void,
     Export ''second_get'' [This] (Field_address ''second'') Catch_any (Pointer_result ''libtorrent::bdecode_node'')])"

definition bdecode_node_bdecode_node_pair_exports_2 :: class_exports where
  "bdecode_node_bdecode_node_pair_exports_2 = (''std::pair< libtorrent::bdecode_node,libtorrent::bdecode_node >'', [
     Export ''delete'' [This] Delete Catch_any Void])"

definition address_sha1_hash_pair_exports :: class_exports where
  "address_sha1_hash_pair_exports = (''std::pair< libtorrent::address,libtorrent::digest32< 160 > >'', [
     Export ''new__SWIG_0'' [] New Catch_any (Pointer_result ''std::pair< libtorrent::address,libtorrent::digest32< 160 > >''),
     Export ''new__SWIG_1'' [Value ''libtorrent::address'', Value ''libtorrent::digest32< 160 >''] New Catch_any (Pointer_result ''std::pair< libtorrent::address,libtorrent::digest32< 160 > >''),
     Export ''new__SWIG_2'' [Const_reference ''std::pair< libtorrent::address,libtorrent::digest32< 160 > >''] Copy Catch_any (Pointer_result ''std::pair< libtorrent::address,libtorrent::digest32< 160 > >''),
     Export ''first_set'' [This, Pointer ''libtorrent::address''] (Set_field ''first'') Catch_any Void,
     Export ''first_get'' [This] (Field_address ''first'') Catch_any (Pointer_result ''libtorrent::address''),
     Export ''second_set'' [This, Pointer ''libtorrent::digest32< 160 >''] (Set_field ''second'') Catch_any Void,
     Export ''second_get'' [This] (Field_address ''second'') Catch_any (Pointer_result ''libtorrent::digest32< 160 >'')])"

definition address_sha1_hash_pair_exports_2 :: class_exports where
  "address_sha1_hash_pair_exports_2 = (''std::pair< libtorrent::address,libtorrent::digest32< 160 > >'', [
     Export ''delete'' [This] Delete Catch_any Void])"

definition byte_array_32_exports :: class_exports where
  "byte_array_32_exports = (''std::array< std::int8_t,32 >'', [
     Export ''new__SWIG_0'' [] New Catch_any (Pointer_result ''std::array< std::int8_t,32 >''),
     Export ''new__SWIG_1'' [Const_reference ''std::array< std::int8_t,32 >''] Copy Catch_any (Pointer_result ''std::array< std::int8_t,32 >''),
     Export ''isEmpty'' [This] (Method ''empty'') Catch_any Boolean_result,
     Export ''fill'' [This, Number int8] (Method ''fill'') Catch_any Void,
     Export ''size'' [This] (Call ''std_array_Sl_std_int8_t_Sc_32_Sg__size'') Catch_range (Number_result int32 int32)])"

definition byte_array_32_exports_2 :: class_exports where
  "byte_array_32_exports_2 = (''std::array< std::int8_t,32 >'', [
     Export ''get'' [This, Number int32] (Call ''std_array_Sl_std_int8_t_Sc_32_Sg__get'') Catch_range (Number_at (Declared ''std::array< signed char,32 >::value_type'') int8),
     Export ''set'' [This, Number int32, Number (Declared ''std::array< signed char,32 >::value_type'')] (Call ''std_array_Sl_std_int8_t_Sc_32_Sg__set'') Catch_range Void,
     Export ''delete'' [This] Delete Catch_any Void])"

definition byte_array_64_exports :: class_exports where
  "byte_array_64_exports = (''std::array< std::int8_t,64 >'', [
     Export ''new__SWIG_0'' [] New Catch_any (Pointer_result ''std::array< std::int8_t,64 >''),
     Export ''new__SWIG_1'' [Const_reference ''std::array< std::int8_t,64 >''] Copy Catch_any (Pointer_result ''std::array< std::int8_t,64 >''),
     Export ''isEmpty'' [This] (Method ''empty'') Catch_any Boolean_result,
     Export ''fill'' [This, Number int8] (Method ''fill'') Catch_any Void,
     Export ''size'' [This] (Call ''std_array_Sl_std_int8_t_Sc_64_Sg__size'') Catch_range (Number_result int32 int32)])"

definition byte_array_64_exports_2 :: class_exports where
  "byte_array_64_exports_2 = (''std::array< std::int8_t,64 >'', [
     Export ''get'' [This, Number int32] (Call ''std_array_Sl_std_int8_t_Sc_64_Sg__get'') Catch_range (Number_at (Declared ''std::array< signed char,64 >::value_type'') int8),
     Export ''set'' [This, Number int32, Number (Declared ''std::array< signed char,64 >::value_type'')] (Call ''std_array_Sl_std_int8_t_Sc_64_Sg__set'') Catch_range Void,
     Export ''delete'' [This] Delete Catch_any Void])"

definition int_string_map_exports :: class_exports where
  "int_string_map_exports = (''std::map< int,std::string >'', [
     Export ''new__SWIG_0'' [] New Catch_any (Pointer_result ''std::map< int,std::string >''),
     Export ''new__SWIG_1'' [Const_reference ''std::map< int,std::string >''] Copy Catch_any (Pointer_result ''std::map< int,std::string >'')])"

definition int_string_map_Iterator_exports :: class_exports where
  "int_string_map_Iterator_exports = (''std::map< int,std::string >::iterator'', [
     Export ''getNextUnchecked'' [This] (Call ''std_map_Sl_int_Sc_std_string_Sg__iterator_getNextUnchecked'') Catch_any (New_result ''std::map< int,std::string,std::less< int > >::iterator''),
     Export ''isNot'' [This, Value ''std::map< int,std::string >::iterator''] (Call ''std_map_Sl_int_Sc_std_string_Sg__iterator_isNot'') Catch_any Boolean_result,
     Export ''getKey'' [This] (Call ''std_map_Sl_int_Sc_std_string_Sg__iterator_getKey'') Catch_any (Number_result int32 int32),
     Export ''getValue'' [This] (Call ''std_map_Sl_int_Sc_std_string_Sg__iterator_getValue'') Catch_any String_result,
     Export ''setValue'' [This, String] (Call ''std_map_Sl_int_Sc_std_string_Sg__iterator_setValue'') Catch_any Void])"

definition int_string_map_Iterator_exports_2 :: class_exports where
  "int_string_map_Iterator_exports_2 = (''std::map< int,std::string >::iterator'', [
     Export ''delete'' [This] Delete Catch_any Void])"

definition int_string_map_exports_2 :: class_exports where
  "int_string_map_exports_2 = (''std::map< int,std::string >'', [
     Export ''isEmpty'' [This] (Method ''empty'') Catch_any Boolean_result,
     Export ''clear'' [This] (Method ''clear'') Catch_any Void,
     Export ''find'' [This, Number int32] (Method ''find'') Catch_any (New_result ''std::map< int,std::string >::iterator''),
     Export ''begin'' [This] (Method ''begin'') Catch_any (New_result ''std::map< int,std::string >::iterator''),
     Export ''end'' [This] (Method ''end'') Catch_any (New_result ''std::map< int,std::string >::iterator'')])"

definition int_string_map_exports_3 :: class_exports where
  "int_string_map_exports_3 = (''std::map< int,std::string >'', [
     Export ''sizeImpl'' [This] (Call ''std_map_Sl_int_Sc_std_string_Sg__sizeImpl'') Catch_range (Number_result int32 int32),
     Export ''containsImpl'' [This, Number int32] (Call ''std_map_Sl_int_Sc_std_string_Sg__containsImpl'') Catch_any Boolean_result,
     Export ''putUnchecked'' [This, Number int32, String] (Call ''std_map_Sl_int_Sc_std_string_Sg__putUnchecked'') Catch_any Void,
     Export ''removeUnchecked'' [This, Const_value ''std::map< int,std::string,std::less< int > >::iterator''] (Call ''std_map_Sl_int_Sc_std_string_Sg__removeUnchecked'') Catch_any Void,
     Export ''delete'' [This] Delete Catch_any Void])"

definition string_string_map_exports :: class_exports where
  "string_string_map_exports = (''std::map< std::string,std::string >'', [
     Export ''new__SWIG_0'' [] New Catch_any (Pointer_result ''std::map< std::string,std::string >''),
     Export ''new__SWIG_1'' [Const_reference ''std::map< std::string,std::string >''] Copy Catch_any (Pointer_result ''std::map< std::string,std::string >'')])"

definition string_string_map_Iterator_exports :: class_exports where
  "string_string_map_Iterator_exports = (''std::map< std::string,std::string >::iterator'', [
     Export ''getNextUnchecked'' [This] (Call ''std_map_Sl_std_string_Sc_std_string_Sg__iterator_getNextUnchecked'') Catch_any (New_result ''std::map< std::string,std::string,std::less< std::string > >::iterator''),
     Export ''isNot'' [This, Value ''std::map< std::string,std::string >::iterator''] (Call ''std_map_Sl_std_string_Sc_std_string_Sg__iterator_isNot'') Catch_any Boolean_result,
     Export ''getKey'' [This] (Call ''std_map_Sl_std_string_Sc_std_string_Sg__iterator_getKey'') Catch_any String_result,
     Export ''getValue'' [This] (Call ''std_map_Sl_std_string_Sc_std_string_Sg__iterator_getValue'') Catch_any String_result,
     Export ''setValue'' [This, String] (Call ''std_map_Sl_std_string_Sc_std_string_Sg__iterator_setValue'') Catch_any Void])"

definition string_string_map_Iterator_exports_2 :: class_exports where
  "string_string_map_Iterator_exports_2 = (''std::map< std::string,std::string >::iterator'', [
     Export ''delete'' [This] Delete Catch_any Void])"

definition string_string_map_exports_2 :: class_exports where
  "string_string_map_exports_2 = (''std::map< std::string,std::string >'', [
     Export ''isEmpty'' [This] (Method ''empty'') Catch_any Boolean_result,
     Export ''clear'' [This] (Method ''clear'') Catch_any Void,
     Export ''find'' [This, String] (Method ''find'') Catch_any (New_result ''std::map< std::string,std::string >::iterator''),
     Export ''begin'' [This] (Method ''begin'') Catch_any (New_result ''std::map< std::string,std::string >::iterator''),
     Export ''end'' [This] (Method ''end'') Catch_any (New_result ''std::map< std::string,std::string >::iterator'')])"

definition string_string_map_exports_3 :: class_exports where
  "string_string_map_exports_3 = (''std::map< std::string,std::string >'', [
     Export ''sizeImpl'' [This] (Call ''std_map_Sl_std_string_Sc_std_string_Sg__sizeImpl'') Catch_range (Number_result int32 int32),
     Export ''containsImpl'' [This, String] (Call ''std_map_Sl_std_string_Sc_std_string_Sg__containsImpl'') Catch_any Boolean_result,
     Export ''putUnchecked'' [This, String, String] (Call ''std_map_Sl_std_string_Sc_std_string_Sg__putUnchecked'') Catch_any Void,
     Export ''removeUnchecked'' [This, Const_value ''std::map< std::string,std::string,std::less< std::string > >::iterator''] (Call ''std_map_Sl_std_string_Sc_std_string_Sg__removeUnchecked'') Catch_any Void])"

definition string_string_map_exports_4 :: class_exports where
  "string_string_map_exports_4 = (''std::map< std::string,std::string >'', [
     Export ''delete'' [This] Delete Catch_any Void])"

definition int_bitfield_map_exports :: class_exports where
  "int_bitfield_map_exports = (''std::map< int,libtorrent::bitfield >'', [
     Export ''new__SWIG_0'' [] New Catch_any (Pointer_result ''std::map< int,libtorrent::bitfield >''),
     Export ''new__SWIG_1'' [Const_reference ''std::map< int,libtorrent::bitfield >''] Copy Catch_any (Pointer_result ''std::map< int,libtorrent::bitfield >'')])"

definition int_bitfield_map_Iterator_exports :: class_exports where
  "int_bitfield_map_Iterator_exports = (''std::map< int,libtorrent::bitfield >::iterator'', [
     Export ''getNextUnchecked'' [This] (Call ''std_map_Sl_int_Sc_libtorrent_bitfield_Sg__iterator_getNextUnchecked'') Catch_any (New_result ''std::map< int,libtorrent::bitfield,std::less< int > >::iterator''),
     Export ''isNot'' [This, Value ''std::map< int,libtorrent::bitfield >::iterator''] (Call ''std_map_Sl_int_Sc_libtorrent_bitfield_Sg__iterator_isNot'') Catch_any Boolean_result,
     Export ''getKey'' [This] (Call ''std_map_Sl_int_Sc_libtorrent_bitfield_Sg__iterator_getKey'') Catch_any (Number_result int32 int32),
     Export ''getValue'' [This] (Call ''std_map_Sl_int_Sc_libtorrent_bitfield_Sg__iterator_getValue'') Catch_any (New_result ''libtorrent::bitfield''),
     Export ''setValue'' [This, Const_reference ''libtorrent::bitfield''] (Call ''std_map_Sl_int_Sc_libtorrent_bitfield_Sg__iterator_setValue'') Catch_any Void])"

definition int_bitfield_map_Iterator_exports_2 :: class_exports where
  "int_bitfield_map_Iterator_exports_2 = (''std::map< int,libtorrent::bitfield >::iterator'', [
     Export ''delete'' [This] Delete Catch_any Void])"

definition int_bitfield_map_exports_2 :: class_exports where
  "int_bitfield_map_exports_2 = (''std::map< int,libtorrent::bitfield >'', [
     Export ''isEmpty'' [This] (Method ''empty'') Catch_any Boolean_result,
     Export ''clear'' [This] (Method ''clear'') Catch_any Void,
     Export ''find'' [This, Number int32] (Method ''find'') Catch_any (New_result ''std::map< int,libtorrent::bitfield >::iterator''),
     Export ''begin'' [This] (Method ''begin'') Catch_any (New_result ''std::map< int,libtorrent::bitfield >::iterator''),
     Export ''end'' [This] (Method ''end'') Catch_any (New_result ''std::map< int,libtorrent::bitfield >::iterator'')])"

definition int_bitfield_map_exports_3 :: class_exports where
  "int_bitfield_map_exports_3 = (''std::map< int,libtorrent::bitfield >'', [
     Export ''sizeImpl'' [This] (Call ''std_map_Sl_int_Sc_libtorrent_bitfield_Sg__sizeImpl'') Catch_range (Number_result int32 int32),
     Export ''containsImpl'' [This, Number int32] (Call ''std_map_Sl_int_Sc_libtorrent_bitfield_Sg__containsImpl'') Catch_any Boolean_result,
     Export ''putUnchecked'' [This, Number int32, Const_reference ''libtorrent::bitfield''] (Call ''std_map_Sl_int_Sc_libtorrent_bitfield_Sg__putUnchecked'') Catch_any Void,
     Export ''removeUnchecked'' [This, Const_value ''std::map< int,libtorrent::bitfield,std::less< int > >::iterator''] (Call ''std_map_Sl_int_Sc_libtorrent_bitfield_Sg__removeUnchecked'') Catch_any Void,
     Export ''delete'' [This] Delete Catch_any Void])"

definition string_entry_map_exports :: class_exports where
  "string_entry_map_exports = (''std::map< std::string,libtorrent::entry >'', [
     Export ''new__SWIG_0'' [] New Catch_any (Pointer_result ''std::map< std::string,libtorrent::entry >''),
     Export ''new__SWIG_1'' [Const_reference ''std::map< std::string,libtorrent::entry >''] Copy Catch_any (Pointer_result ''std::map< std::string,libtorrent::entry >'')])"

definition string_entry_map_Iterator_exports :: class_exports where
  "string_entry_map_Iterator_exports = (''std::map< std::string,libtorrent::entry >::iterator'', [
     Export ''getNextUnchecked'' [This] (Call ''std_map_Sl_std_string_Sc_libtorrent_entry_Sg__iterator_getNextUnchecked'') Catch_any (New_result ''std::map< std::string,libtorrent::entry,std::less< std::string > >::iterator''),
     Export ''isNot'' [This, Value ''std::map< std::string,libtorrent::entry >::iterator''] (Call ''std_map_Sl_std_string_Sc_libtorrent_entry_Sg__iterator_isNot'') Catch_any Boolean_result,
     Export ''getKey'' [This] (Call ''std_map_Sl_std_string_Sc_libtorrent_entry_Sg__iterator_getKey'') Catch_any String_result,
     Export ''getValue'' [This] (Call ''std_map_Sl_std_string_Sc_libtorrent_entry_Sg__iterator_getValue'') Catch_any (New_result ''libtorrent::entry''),
     Export ''setValue'' [This, Const_reference ''libtorrent::entry''] (Call ''std_map_Sl_std_string_Sc_libtorrent_entry_Sg__iterator_setValue'') Catch_any Void])"

definition string_entry_map_Iterator_exports_2 :: class_exports where
  "string_entry_map_Iterator_exports_2 = (''std::map< std::string,libtorrent::entry >::iterator'', [
     Export ''delete'' [This] Delete Catch_any Void])"

definition string_entry_map_exports_2 :: class_exports where
  "string_entry_map_exports_2 = (''std::map< std::string,libtorrent::entry >'', [
     Export ''isEmpty'' [This] (Method ''empty'') Catch_any Boolean_result,
     Export ''clear'' [This] (Method ''clear'') Catch_any Void,
     Export ''find'' [This, String] (Method ''find'') Catch_any (New_result ''std::map< std::string,libtorrent::entry >::iterator''),
     Export ''begin'' [This] (Method ''begin'') Catch_any (New_result ''std::map< std::string,libtorrent::entry >::iterator''),
     Export ''end'' [This] (Method ''end'') Catch_any (New_result ''std::map< std::string,libtorrent::entry >::iterator'')])"

definition string_entry_map_exports_3 :: class_exports where
  "string_entry_map_exports_3 = (''std::map< std::string,libtorrent::entry >'', [
     Export ''sizeImpl'' [This] (Call ''std_map_Sl_std_string_Sc_libtorrent_entry_Sg__sizeImpl'') Catch_range (Number_result int32 int32),
     Export ''containsImpl'' [This, String] (Call ''std_map_Sl_std_string_Sc_libtorrent_entry_Sg__containsImpl'') Catch_any Boolean_result,
     Export ''putUnchecked'' [This, String, Const_reference ''libtorrent::entry''] (Call ''std_map_Sl_std_string_Sc_libtorrent_entry_Sg__putUnchecked'') Catch_any Void,
     Export ''removeUnchecked'' [This, Const_value ''std::map< std::string,libtorrent::entry,std::less< std::string > >::iterator''] (Call ''std_map_Sl_std_string_Sc_libtorrent_entry_Sg__removeUnchecked'') Catch_any Void])"

definition string_entry_map_exports_4 :: class_exports where
  "string_entry_map_exports_4 = (''std::map< std::string,libtorrent::entry >'', [
     Export ''delete'' [This] Delete Catch_any Void])"

definition boost_string_entry_map_exports :: class_exports where
  "boost_string_entry_map_exports = (''boost::container::map< std::string,libtorrent::entry >'', [
     Export ''empty'' [This] (Method ''empty'') Catch_any Boolean_result,
     Export ''clear'' [This] (Method ''clear'') Catch_any Void,
     Export ''size'' [This] (Method ''size'') Catch_any (Number_result int64 int64),
     Export ''contains'' [This, String] (Call ''boost_container_map_Sl_std_string_Sc_libtorrent_entry_Sg__contains'') Catch_any Boolean_result,
     Export ''put'' [This, String, Reference ''libtorrent::entry''] (Call ''boost_container_map_Sl_std_string_Sc_libtorrent_entry_Sg__put'') Catch_any Void])"

definition boost_string_entry_map_exports_2 :: class_exports where
  "boost_string_entry_map_exports_2 = (''boost::container::map< std::string,libtorrent::entry >'', [
     Export ''get'' [This, String] (Call ''boost_container_map_Sl_std_string_Sc_libtorrent_entry_Sg__get'') Catch_any (Pointer_result ''libtorrent::entry''),
     Export ''keys'' [This] (Call ''boost_container_map_Sl_std_string_Sc_libtorrent_entry_Sg__keys'') Catch_any (New_result ''std::vector< std::string >''),
     Export ''remove'' [This, String] (Call ''boost_container_map_Sl_std_string_Sc_libtorrent_entry_Sg__remove'') Catch_any Void,
     Export ''new'' [] New Catch_any (Pointer_result ''boost::container::map< std::string,libtorrent::entry >''),
     Export ''delete'' [This] Delete Catch_any Void])"

definition bitset_128_exports :: class_exports where
  "bitset_128_exports = (''std::bitset< 128 >'', [
     Export ''test'' [This, Number (Declared ''std::size_t'')] (Method ''test'') Catch_any Boolean_result,
     Export ''all'' [This] (Method ''all'') Catch_any Boolean_result,
     Export ''any'' [This] (Method ''any'') Catch_any Boolean_result,
     Export ''none'' [This] (Method ''none'') Catch_any Boolean_result,
     Export ''count'' [This] (Method ''count'') Catch_any (Number_result (Declared ''std::size_t'') int64),
     Export ''size'' [This] (Method ''size'') Catch_any (Number_result (Declared ''std::size_t'') int64)])"

definition bitset_128_exports_2 :: class_exports where
  "bitset_128_exports_2 = (''std::bitset< 128 >'', [
     Export ''get'' [This, Number (Declared ''std::size_t'')] (Call ''std_bitset_Sl_128_Sg__get'') Catch_any Boolean_result,
     Export ''new'' [] New Catch_any (Pointer_result ''std::bitset< 128 >''),
     Export ''delete'' [This] Delete Catch_any Void])"

definition error_code_exports :: class_exports where
  "error_code_exports = (''boost::system::error_code'', [
     Export ''new'' [] New Catch_any (Pointer_result ''boost::system::error_code''),
     Export ''clear'' [This] (Method ''clear'') Catch_any Void,
     Export ''value'' [This] (Method ''value'') Catch_any (Number_result int32 int32),
     Export ''message'' [This] (Method ''message'') Catch_any String_result,
     Export ''failed'' [This] (Method ''failed'') Catch_any Boolean_result,
     Export ''to_bool'' [This] (Method ''operator bool'') Catch_any Boolean_result])"

definition error_code_exports_2 :: class_exports where
  "error_code_exports_2 = (''boost::system::error_code'', [
     Export ''delete'' [This] Delete Catch_any Void])"

definition byte_span_exports :: class_exports where
  "byte_span_exports = (''libtorrent::span< std::int8_t const >'', [
     Export ''size'' [This] (Method ''size'') Catch_any (Number_result int64 int64),
     Export ''empty'' [This] (Method ''empty'') Catch_any Boolean_result,
     Export ''front'' [This] (Method ''front'') Catch_any (Number_at int8 int8),
     Export ''back'' [This] (Method ''back'') Catch_any (Number_at int8 int8),
     Export ''first'' [This, Number int64] (Method ''first'') Catch_any (New_result ''libtorrent::span< std::int8_t const >'')])"

definition byte_span_exports_2 :: class_exports where
  "byte_span_exports_2 = (''libtorrent::span< std::int8_t const >'', [
     Export ''last'' [This, Number int64] (Method ''last'') Catch_any (New_result ''libtorrent::span< std::int8_t const >''),
     Export ''subspan__SWIG_0'' [This, Number int64] (Method ''subspan'') Catch_any (New_result ''libtorrent::span< std::int8_t const >''),
     Export ''subspan__SWIG_1'' [This, Number int64, Number int64] (Method ''subspan'') Catch_any (New_result ''libtorrent::span< std::int8_t const >''),
     Export ''at'' [This, Number int64] (Method ''operator []'') Catch_any (Number_at int8 int8),
     Export ''delete'' [This] Delete Catch_any Void])"

definition address_exports :: class_exports where
  "address_exports = (''libtorrent::address'', [
     Export ''new__SWIG_0'' [] New Catch_any (Pointer_result ''libtorrent::address''),
     Export ''new__SWIG_1'' [Const_reference ''libtorrent::address''] Copy Catch_any (Pointer_result ''libtorrent::address''),
     Export ''is_v4'' [This] (Method ''is_v4'') Catch_any Boolean_result,
     Export ''is_v6'' [This] (Method ''is_v6'') Catch_any Boolean_result,
     Export ''to_string'' [This] (Method ''to_string'') Catch_any String_result,
     Export ''is_loopback'' [This] (Method ''is_loopback'') Catch_any Boolean_result])"

definition address_exports_2 :: class_exports where
  "address_exports_2 = (''libtorrent::address'', [
     Export ''is_unspecified'' [This] (Method ''is_unspecified'') Catch_any Boolean_result,
     Export ''is_multicast'' [This] (Method ''is_multicast'') Catch_any Boolean_result,
     Export ''op_lt'' [This, Const_reference ''libtorrent::address''] (Call ''libtorrent_address_op_lt'') Catch_any Boolean_result,
     Export ''compare'' [Const_reference ''libtorrent::address'', Const_reference ''libtorrent::address''] (Call ''libtorrent_address_compare'') Catch_any (Number_result int32 int32)])"

definition address_exports_3 :: class_exports where
  "address_exports_3 = (''libtorrent::address'', [
     Export ''from_string'' [String, Reference ''boost::system::error_code''] (Call ''libtorrent_address_from_string'') Catch_any (New_result ''libtorrent::address''),
     Export ''hash_code'' [This] (Call ''libtorrent_address_hash_code'') Catch_any (Number_result int32 int32),
     Export ''delete'' [This] Delete Catch_any Void])"

definition tcp_endpoint_exports :: class_exports where
  "tcp_endpoint_exports = (''libtorrent::tcp::endpoint'', [
     Export ''new__SWIG_0'' [] New Catch_any (Pointer_result ''libtorrent::tcp::endpoint''),
     Export ''new__SWIG_1'' [Value ''libtorrent::address'', Number uint16] New Catch_any (Pointer_result ''libtorrent::tcp::endpoint''),
     Export ''new__SWIG_2'' [Const_reference ''libtorrent::tcp::endpoint''] Copy Catch_any (Pointer_result ''libtorrent::tcp::endpoint''),
     Export ''port'' [This] (Method ''port'') Catch_any (Number_result uint16 int32),
     Export ''address'' [This] (Method ''address'') Catch_any (New_result ''libtorrent::address'')])"

definition tcp_endpoint_exports_2 :: class_exports where
  "tcp_endpoint_exports_2 = (''libtorrent::tcp::endpoint'', [
     Export ''delete'' [This] Delete Catch_any Void])"

definition udp_endpoint_exports :: class_exports where
  "udp_endpoint_exports = (''libtorrent::udp::endpoint'', [
     Export ''new__SWIG_0'' [] New Catch_any (Pointer_result ''libtorrent::udp::endpoint''),
     Export ''new__SWIG_1'' [Value ''libtorrent::address'', Number uint16] New Catch_any (Pointer_result ''libtorrent::udp::endpoint''),
     Export ''new__SWIG_2'' [Const_reference ''libtorrent::udp::endpoint''] Copy Catch_any (Pointer_result ''libtorrent::udp::endpoint''),
     Export ''port'' [This] (Method ''port'') Catch_any (Number_result uint16 int32),
     Export ''address'' [This] (Method ''address'') Catch_any (New_result ''libtorrent::address'')])"

definition udp_endpoint_exports_2 :: class_exports where
  "udp_endpoint_exports_2 = (''libtorrent::udp::endpoint'', [
     Export ''delete'' [This] Delete Catch_any Void])"

definition dht_state_exports :: class_exports where
  "dht_state_exports = (''libtorrent::dht::dht_state'', [
     Export ''nids_set'' [This, Pointer ''std::vector< std::pair< libtorrent::address,libtorrent::sha1_hash > >''] (Set_field ''nids'') Catch_any Void,
     Export ''nids_get'' [This] (Field_address ''nids'') Catch_any (Pointer_result ''std::vector< std::pair< libtorrent::address,libtorrent::sha1_hash > >''),
     Export ''nodes_set'' [This, Pointer ''std::vector< libtorrent::udp::endpoint >''] (Set_field ''nodes'') Catch_any Void,
     Export ''nodes_get'' [This] (Field_address ''nodes'') Catch_any (Pointer_result ''std::vector< libtorrent::udp::endpoint >''),
     Export ''nodes6_set'' [This, Pointer ''std::vector< libtorrent::udp::endpoint >''] (Set_field ''nodes6'') Catch_any Void,
     Export ''nodes6_get'' [This] (Field_address ''nodes6'') Catch_any (Pointer_result ''std::vector< libtorrent::udp::endpoint >''),
     Export ''clear'' [This] (Method ''clear'') Catch_any Void,
     Export ''new'' [] New Catch_any (Pointer_result ''libtorrent::dht::dht_state''),
     Export ''delete'' [This] Delete Catch_any Void])"

definition client_data_t_exports :: class_exports where
  "client_data_t_exports = (''libtorrent::client_data_t'', [
     Export ''new__SWIG_0'' [] New Catch_any (Pointer_result ''libtorrent::client_data_t''),
     Export ''new__SWIG_1'' [Number (Declared ''void *'')] New Catch_any (Pointer_result ''libtorrent::client_data_t''),
     Export ''get'' [This] (Call ''libtorrent_client_data_t_get'') Catch_any (Number_result (Declared ''void*'') int64),
     Export ''delete'' [This] Delete Catch_any Void])"

definition sha1_hash_exports :: class_exports where
  "sha1_hash_exports = (''libtorrent::digest32< 160 >'', [
     Export ''size'' [] (Method ''SWIGTEMPLATEDISAMBIGUATOR size'') Catch_any (Number_result (Declared ''libtorrent::digest32< 160 >::difference_type'') int64),
     Export ''new__SWIG_0'' [] New Catch_any (Pointer_result ''libtorrent::digest32< 160 >''),
     Export ''new__SWIG_1'' [Const_reference ''libtorrent::digest32< 160 >''] Copy Catch_any (Pointer_result ''libtorrent::digest32< 160 >''),
     Export ''max'' [] (Method ''SWIGTEMPLATEDISAMBIGUATOR max'') Catch_any (New_result ''libtorrent::digest32< 160 >''),
     Export ''min'' [] (Method ''SWIGTEMPLATEDISAMBIGUATOR min'') Catch_any (New_result ''libtorrent::digest32< 160 >''),
     Export ''clear'' [This] (Method ''clear'') Catch_any Void])"

definition sha1_hash_exports_2 :: class_exports where
  "sha1_hash_exports_2 = (''libtorrent::digest32< 160 >'', [
     Export ''is_all_zeros'' [This] (Method ''is_all_zeros'') Catch_any Boolean_result,
     Export ''eq'' [This, Const_reference ''libtorrent::digest32< 160 >''] (Method ''operator =='') Catch_any Boolean_result,
     Export ''ne'' [This, Const_reference ''libtorrent::digest32< 160 >''] (Method ''operator !='') Catch_any Boolean_result,
     Export ''lt'' [This, Const_reference ''libtorrent::digest32< 160 >''] (Method ''operator <'') Catch_any Boolean_result,
     Export ''count_leading_zeroes'' [This] (Method ''count_leading_zeroes'') Catch_any (Number_result int32 int32)])"

definition sha1_hash_exports_3 :: class_exports where
  "sha1_hash_exports_3 = (''libtorrent::digest32< 160 >'', [
     Export ''inv'' [This] (Method ''operator ~'') Catch_any (New_result ''libtorrent::digest32< 160 >''),
     Export ''xor_'' [This, Const_reference ''libtorrent::digest32< 160 >''] (Method ''operator ^'') Catch_any (New_result ''libtorrent::digest32< 160 >''),
     Export ''and_'' [This, Const_reference ''libtorrent::digest32< 160 >''] (Method ''operator &'') Catch_any (New_result ''libtorrent::digest32< 160 >''),
     Export ''new__SWIG_2'' [Const_reference ''std::vector< std::int8_t >''] (Call ''new_libtorrent_digest32_Sl_160_Sg___SWIG_2'') Catch_any (Pointer_result ''libtorrent::digest32< 160 >''),
     Export ''assign'' [This, Const_reference ''std::vector< std::int8_t >''] (Call ''libtorrent_digest32_Sl_160_Sg__assign'') Catch_any Void])"

definition sha1_hash_exports_4 :: class_exports where
  "sha1_hash_exports_4 = (''libtorrent::digest32< 160 >'', [
     Export ''hash_code'' [This] (Call ''libtorrent_digest32_Sl_160_Sg__hash_code'') Catch_any (Number_result int32 int32),
     Export ''to_bytes'' [This] (Call ''libtorrent_digest32_Sl_160_Sg__to_bytes'') Catch_any (New_result ''std::vector< std::int8_t >''),
     Export ''to_hex'' [This] (Call ''libtorrent_digest32_Sl_160_Sg__to_hex'') Catch_any String_result,
     Export ''from_hex'' [String] (Call ''libtorrent_digest32_Sl_160_Sg__from_hex'') Catch_any (New_result ''libtorrent::digest32< 160 >''),
     Export ''compare'' [Const_reference ''libtorrent::digest32< 160 >'', Const_reference ''libtorrent::digest32< 160 >''] (Call ''libtorrent_digest32_Sl_160_Sg__compare'') Catch_any (Number_result int32 int32)])"

definition sha1_hash_exports_5 :: class_exports where
  "sha1_hash_exports_5 = (''libtorrent::digest32< 160 >'', [
     Export ''delete'' [This] Delete Catch_any Void])"

definition sha256_hash_exports :: class_exports where
  "sha256_hash_exports = (''libtorrent::digest32< 256 >'', [
     Export ''size'' [] (Method ''SWIGTEMPLATEDISAMBIGUATOR size'') Catch_any (Number_result (Declared ''libtorrent::digest32< 256 >::difference_type'') int64),
     Export ''new__SWIG_0'' [] New Catch_any (Pointer_result ''libtorrent::digest32< 256 >''),
     Export ''new__SWIG_1'' [Const_reference ''libtorrent::digest32< 256 >''] Copy Catch_any (Pointer_result ''libtorrent::digest32< 256 >''),
     Export ''max'' [] (Method ''SWIGTEMPLATEDISAMBIGUATOR max'') Catch_any (New_result ''libtorrent::digest32< 256 >''),
     Export ''min'' [] (Method ''SWIGTEMPLATEDISAMBIGUATOR min'') Catch_any (New_result ''libtorrent::digest32< 256 >''),
     Export ''clear'' [This] (Method ''clear'') Catch_any Void])"

definition sha256_hash_exports_2 :: class_exports where
  "sha256_hash_exports_2 = (''libtorrent::digest32< 256 >'', [
     Export ''is_all_zeros'' [This] (Method ''is_all_zeros'') Catch_any Boolean_result,
     Export ''eq'' [This, Const_reference ''libtorrent::digest32< 256 >''] (Method ''operator =='') Catch_any Boolean_result,
     Export ''ne'' [This, Const_reference ''libtorrent::digest32< 256 >''] (Method ''operator !='') Catch_any Boolean_result,
     Export ''lt'' [This, Const_reference ''libtorrent::digest32< 256 >''] (Method ''operator <'') Catch_any Boolean_result,
     Export ''count_leading_zeroes'' [This] (Method ''count_leading_zeroes'') Catch_any (Number_result int32 int32)])"

definition sha256_hash_exports_3 :: class_exports where
  "sha256_hash_exports_3 = (''libtorrent::digest32< 256 >'', [
     Export ''inv'' [This] (Method ''operator ~'') Catch_any (New_result ''libtorrent::digest32< 256 >''),
     Export ''xor_'' [This, Const_reference ''libtorrent::digest32< 256 >''] (Method ''operator ^'') Catch_any (New_result ''libtorrent::digest32< 256 >''),
     Export ''and_'' [This, Const_reference ''libtorrent::digest32< 256 >''] (Method ''operator &'') Catch_any (New_result ''libtorrent::digest32< 256 >''),
     Export ''new__SWIG_2'' [Const_reference ''std::vector< std::int8_t >''] (Call ''new_libtorrent_digest32_Sl_256_Sg___SWIG_2'') Catch_any (Pointer_result ''libtorrent::digest32< 256 >''),
     Export ''assign'' [This, Const_reference ''std::vector< std::int8_t >''] (Call ''libtorrent_digest32_Sl_256_Sg__assign'') Catch_any Void])"

definition sha256_hash_exports_4 :: class_exports where
  "sha256_hash_exports_4 = (''libtorrent::digest32< 256 >'', [
     Export ''hash_code'' [This] (Call ''libtorrent_digest32_Sl_256_Sg__hash_code'') Catch_any (Number_result int32 int32),
     Export ''to_bytes'' [This] (Call ''libtorrent_digest32_Sl_256_Sg__to_bytes'') Catch_any (New_result ''std::vector< std::int8_t >''),
     Export ''to_hex'' [This] (Call ''libtorrent_digest32_Sl_256_Sg__to_hex'') Catch_any String_result,
     Export ''from_hex'' [String] (Call ''libtorrent_digest32_Sl_256_Sg__from_hex'') Catch_any (New_result ''libtorrent::digest32< 256 >''),
     Export ''compare'' [Const_reference ''libtorrent::digest32< 256 >'', Const_reference ''libtorrent::digest32< 256 >''] (Call ''libtorrent_digest32_Sl_256_Sg__compare'') Catch_any (Number_result int32 int32)])"

definition sha256_hash_exports_5 :: class_exports where
  "sha256_hash_exports_5 = (''libtorrent::digest32< 256 >'', [
     Export ''delete'' [This] Delete Catch_any Void])"

definition global_exports :: class_exports where
  "global_exports = ('''', [
     Export ''num_protocols_get'' [] (Constant ''libtorrent::num_protocols'') Catch_any (Number_result (Declared ''std::size_t'') int64)])"

definition info_hash_t_exports :: class_exports where
  "info_hash_t_exports = (''libtorrent::info_hash_t'', [
     Export ''new__SWIG_0'' [] New Catch_any (Pointer_result ''libtorrent::info_hash_t''),
     Export ''new__SWIG_1'' [Value ''libtorrent::sha1_hash''] New Catch_any (Pointer_result ''libtorrent::info_hash_t''),
     Export ''new__SWIG_2'' [Value ''libtorrent::sha256_hash''] New Catch_any (Pointer_result ''libtorrent::info_hash_t''),
     Export ''new__SWIG_3'' [Value ''libtorrent::sha1_hash'', Value ''libtorrent::sha256_hash''] New Catch_any (Pointer_result ''libtorrent::info_hash_t'')])"

definition info_hash_t_exports_2 :: class_exports where
  "info_hash_t_exports_2 = (''libtorrent::info_hash_t'', [
     Export ''new__SWIG_4'' [Const_reference ''libtorrent::info_hash_t''] Copy Catch_any (Pointer_result ''libtorrent::info_hash_t''),
     Export ''has_v1'' [This] (Method ''has_v1'') Catch_any Boolean_result,
     Export ''has_v2'' [This] (Method ''has_v2'') Catch_any Boolean_result,
     Export ''has'' [This, Number (Declared ''libtorrent::protocol_version'')] (Method ''has'') Catch_any Boolean_result,
     Export ''get'' [This, Number (Declared ''libtorrent::protocol_version'')] (Method ''get'') Catch_any (New_result ''libtorrent::sha1_hash'')])"

definition info_hash_t_exports_3 :: class_exports where
  "info_hash_t_exports_3 = (''libtorrent::info_hash_t'', [
     Export ''get_best'' [This] (Method ''get_best'') Catch_any (New_result ''libtorrent::sha1_hash'')])"

definition global_exports_2 :: class_exports where
  "global_exports_2 = ('''', [
     Export ''ne'' [Const_reference ''libtorrent::info_hash_t'', Const_reference ''libtorrent::info_hash_t''] (Call ''operator !='') Catch_any Boolean_result,
     Export ''eq'' [Const_reference ''libtorrent::info_hash_t'', Const_reference ''libtorrent::info_hash_t''] (Call ''operator =='') Catch_any Boolean_result])"

definition info_hash_t_exports_4 :: class_exports where
  "info_hash_t_exports_4 = (''libtorrent::info_hash_t'', [
     Export ''lt'' [This, Const_reference ''libtorrent::info_hash_t''] (Method ''operator <'') Catch_any Boolean_result,
     Export ''v1_set'' [This, Pointer ''libtorrent::sha1_hash''] (Set_field ''v1'') Catch_any Void,
     Export ''v1_get'' [This] (Field_address ''v1'') Catch_any (Pointer_result ''libtorrent::sha1_hash''),
     Export ''v2_set'' [This, Pointer ''libtorrent::sha256_hash''] (Set_field ''v2'') Catch_any Void,
     Export ''v2_get'' [This] (Field_address ''v2'') Catch_any (Pointer_result ''libtorrent::sha256_hash''),
     Export ''op_eq'' [This, Const_reference ''libtorrent::info_hash_t''] (Call ''libtorrent_info_hash_t_op_eq'') Catch_any Boolean_result])"

definition info_hash_t_exports_5 :: class_exports where
  "info_hash_t_exports_5 = (''libtorrent::info_hash_t'', [
     Export ''op_ne'' [This, Const_reference ''libtorrent::info_hash_t''] (Call ''libtorrent_info_hash_t_op_ne'') Catch_any Boolean_result,
     Export ''delete'' [This] Delete Catch_any Void])"

definition bitfield_exports :: class_exports where
  "bitfield_exports = (''libtorrent::bitfield'', [
     Export ''new__SWIG_0'' [] New Catch_any (Pointer_result ''libtorrent::bitfield''),
     Export ''new__SWIG_1'' [Number int32] New Catch_any (Pointer_result ''libtorrent::bitfield''),
     Export ''new__SWIG_2'' [Number int32, Boolean] New Catch_any (Pointer_result ''libtorrent::bitfield''),
     Export ''new__SWIG_3'' [Const_reference ''libtorrent::bitfield''] Copy Catch_any (Pointer_result ''libtorrent::bitfield''),
     Export ''at'' [This, Number int32] (Method ''operator []'') Catch_any Boolean_result])"

definition bitfield_exports_2 :: class_exports where
  "bitfield_exports_2 = (''libtorrent::bitfield'', [
     Export ''get_bit'' [This, Number int32] (Method ''get_bit'') Catch_any Boolean_result,
     Export ''clear_bit'' [This, Number int32] (Method ''clear_bit'') Catch_any Void,
     Export ''set_bit'' [This, Number int32] (Method ''set_bit'') Catch_any Void,
     Export ''all_set'' [This] (Method ''all_set'') Catch_any Boolean_result,
     Export ''none_set'' [This] (Method ''none_set'') Catch_any Boolean_result,
     Export ''size'' [This] (Method ''size'') Catch_any (Number_result int32 int32)])"

definition bitfield_exports_3 :: class_exports where
  "bitfield_exports_3 = (''libtorrent::bitfield'', [
     Export ''num_words'' [This] (Method ''num_words'') Catch_any (Number_result int32 int32),
     Export ''empty'' [This] (Method ''empty'') Catch_any Boolean_result,
     Export ''swap'' [This, Reference ''libtorrent::bitfield''] (Method ''swap'') Catch_any Void,
     Export ''count'' [This] (Method ''count'') Catch_any (Number_result int32 int32),
     Export ''find_first_set'' [This] (Method ''find_first_set'') Catch_any (Number_result int32 int32)])"

definition bitfield_exports_4 :: class_exports where
  "bitfield_exports_4 = (''libtorrent::bitfield'', [
     Export ''find_last_clear'' [This] (Method ''find_last_clear'') Catch_any (Number_result int32 int32),
     Export ''resize__SWIG_0'' [This, Number int32, Boolean] (Method ''resize'') Catch_any Void,
     Export ''resize__SWIG_1'' [This, Number int32] (Method ''resize'') Catch_any Void,
     Export ''set_all'' [This] (Method ''set_all'') Catch_any Void,
     Export ''clear_all'' [This] (Method ''clear_all'') Catch_any Void,
     Export ''clear'' [This] (Method ''clear'') Catch_any Void])"

definition bitfield_exports_5 :: class_exports where
  "bitfield_exports_5 = (''libtorrent::bitfield'', [
     Export ''new__SWIG_4'' [Const_reference ''std::vector< std::int8_t >''] (Call ''new_libtorrent_bitfield__SWIG_4'') Catch_any (Pointer_result ''libtorrent::bitfield''),
     Export ''assign'' [This, Const_reference ''std::vector< std::int8_t >''] (Call ''libtorrent_bitfield_assign'') Catch_any Void,
     Export ''delete'' [This] Delete Catch_any Void])"

definition global_exports_3 :: class_exports where
  "global_exports_3 = ('''', [
     Export ''operation_name'' [Number (Declared ''libtorrent::operation_t'')] (Call ''libtorrent::operation_name'') Catch_any Chars_result,
     Export ''libtorrent_no_error_get'' [] (Constant ''libtorrent::errors::no_error'') Catch_any (Number_result (Declared ''libtorrent::errors::error_code_enum'') int32),
     Export ''missing_file_sizes_get'' [] (Constant ''libtorrent::errors::missing_file_sizes'') Catch_any (Number_result (Declared ''libtorrent::errors::error_code_enum'') int32),
     Export ''http_parse_error_get'' [] (Constant ''libtorrent::errors::http_parse_error'') Catch_any (Number_result (Declared ''libtorrent::errors::error_code_enum'') int32),
     Export ''no_i2p_router_get'' [] (Constant ''libtorrent::errors::no_i2p_router'') Catch_any (Number_result (Declared ''libtorrent::errors::error_code_enum'') int32),
     Export ''no_i2p_endpoint_get'' [] (Constant ''libtorrent::errors::no_i2p_endpoint'') Catch_any (Number_result (Declared ''libtorrent::errors::error_code_enum'') int32)])"

definition global_exports_4 :: class_exports where
  "global_exports_4 = ('''', [
     Export ''scrape_not_available_get'' [] (Constant ''libtorrent::errors::scrape_not_available'') Catch_any (Number_result (Declared ''libtorrent::errors::error_code_enum'') int32),
     Export ''no_entropy_get'' [] (Constant ''libtorrent::errors::no_entropy'') Catch_any (Number_result (Declared ''libtorrent::errors::error_code_enum'') int32),
     Export ''torrent_unknown_version_get'' [] (Constant ''libtorrent::errors::torrent_unknown_version'') Catch_any (Number_result (Declared ''libtorrent::errors::error_code_enum'') int32),
     Export ''cont_get'' [] (Constant ''libtorrent::errors::cont'') Catch_any (Number_result (Declared ''libtorrent::errors::http_errors'') int32),
     Export ''ok_get'' [] (Constant ''libtorrent::errors::ok'') Catch_any (Number_result (Declared ''libtorrent::errors::http_errors'') int32),
     Export ''created_get'' [] (Constant ''libtorrent::errors::created'') Catch_any (Number_result (Declared ''libtorrent::errors::http_errors'') int32)])"

definition global_exports_5 :: class_exports where
  "global_exports_5 = ('''', [
     Export ''accepted_get'' [] (Constant ''libtorrent::errors::accepted'') Catch_any (Number_result (Declared ''libtorrent::errors::http_errors'') int32),
     Export ''no_content_get'' [] (Constant ''libtorrent::errors::no_content'') Catch_any (Number_result (Declared ''libtorrent::errors::http_errors'') int32),
     Export ''multiple_choices_get'' [] (Constant ''libtorrent::errors::multiple_choices'') Catch_any (Number_result (Declared ''libtorrent::errors::http_errors'') int32),
     Export ''moved_permanently_get'' [] (Constant ''libtorrent::errors::moved_permanently'') Catch_any (Number_result (Declared ''libtorrent::errors::http_errors'') int32),
     Export ''moved_temporarily_get'' [] (Constant ''libtorrent::errors::moved_temporarily'') Catch_any (Number_result (Declared ''libtorrent::errors::http_errors'') int32),
     Export ''not_modified_get'' [] (Constant ''libtorrent::errors::not_modified'') Catch_any (Number_result (Declared ''libtorrent::errors::http_errors'') int32)])"

definition global_exports_6 :: class_exports where
  "global_exports_6 = ('''', [
     Export ''bad_request_get'' [] (Constant ''libtorrent::errors::bad_request'') Catch_any (Number_result (Declared ''libtorrent::errors::http_errors'') int32),
     Export ''unauthorized_get'' [] (Constant ''libtorrent::errors::unauthorized'') Catch_any (Number_result (Declared ''libtorrent::errors::http_errors'') int32),
     Export ''forbidden_get'' [] (Constant ''libtorrent::errors::forbidden'') Catch_any (Number_result (Declared ''libtorrent::errors::http_errors'') int32),
     Export ''not_found_get'' [] (Constant ''libtorrent::errors::not_found'') Catch_any (Number_result (Declared ''libtorrent::errors::http_errors'') int32),
     Export ''internal_server_error_get'' [] (Constant ''libtorrent::errors::internal_server_error'') Catch_any (Number_result (Declared ''libtorrent::errors::http_errors'') int32),
     Export ''not_implemented_get'' [] (Constant ''libtorrent::errors::not_implemented'') Catch_any (Number_result (Declared ''libtorrent::errors::http_errors'') int32)])"

definition global_exports_7 :: class_exports where
  "global_exports_7 = ('''', [
     Export ''bad_gateway_get'' [] (Constant ''libtorrent::errors::bad_gateway'') Catch_any (Number_result (Declared ''libtorrent::errors::http_errors'') int32),
     Export ''service_unavailable_get'' [] (Constant ''libtorrent::errors::service_unavailable'') Catch_any (Number_result (Declared ''libtorrent::errors::http_errors'') int32)])"

definition storage_error_exports :: class_exports where
  "storage_error_exports = (''libtorrent::storage_error'', [
     Export ''new__SWIG_0'' [] New Catch_any (Pointer_result ''libtorrent::storage_error''),
     Export ''new__SWIG_1'' [Value ''libtorrent::error_code''] New Catch_any (Pointer_result ''libtorrent::storage_error''),
     Export ''new__SWIG_2'' [Value ''libtorrent::error_code'', Number (Declared ''libtorrent::operation_t'')] New Catch_any (Pointer_result ''libtorrent::storage_error''),
     Export ''new__SWIG_3'' [Value ''libtorrent::error_code'', Number int32, Number (Declared ''libtorrent::operation_t'')] New Catch_any (Pointer_result ''libtorrent::storage_error''),
     Export ''to_bool'' [This] (Method ''operator bool'') Catch_any Boolean_result])"

definition storage_error_exports_2 :: class_exports where
  "storage_error_exports_2 = (''libtorrent::storage_error'', [
     Export ''ec_set'' [This, Pointer ''libtorrent::error_code''] (Set_field ''ec'') Catch_any Void,
     Export ''ec_get'' [This] (Field_address ''ec'') Catch_any (Pointer_result ''libtorrent::error_code''),
     Export ''file__SWIG_0'' [This] (Method ''file'') Catch_any (Number_result int32 int32),
     Export ''file__SWIG_1'' [This, Number int32] (Method ''file'') Catch_any Void,
     Export ''operation_set'' [This, Number (Declared ''libtorrent::operation_t'')] (Set_field ''operation'') Catch_any Void,
     Export ''operation_get'' [This] (Get_field ''operation'') Catch_any (Number_result (Declared ''libtorrent::operation_t'') int32),
     Export ''delete'' [This] Delete Catch_any Void])"

text \<open>All of them.\<close>

definition basic_classes :: "class_exports list" where
  "basic_classes = [
    int_byte_pair_exports, int_byte_pair_exports_2, string_int_pair_exports, string_int_pair_exports_2,
    string_string_pair_exports, string_string_pair_exports_2, byte_vector_byte_vector_pair_exports,
    byte_vector_byte_vector_pair_exports_2, sha1_hash_udp_endpoint_pair_exports,
    sha1_hash_udp_endpoint_pair_exports_2, bdecode_node_bdecode_node_pair_exports,
    bdecode_node_bdecode_node_pair_exports_2, address_sha1_hash_pair_exports, address_sha1_hash_pair_exports_2,
    byte_array_32_exports, byte_array_32_exports_2, byte_array_64_exports, byte_array_64_exports_2,
    int_string_map_exports, int_string_map_Iterator_exports, int_string_map_Iterator_exports_2,
    int_string_map_exports_2, int_string_map_exports_3, string_string_map_exports,
    string_string_map_Iterator_exports, string_string_map_Iterator_exports_2, string_string_map_exports_2,
    string_string_map_exports_3, string_string_map_exports_4, int_bitfield_map_exports,
    int_bitfield_map_Iterator_exports, int_bitfield_map_Iterator_exports_2, int_bitfield_map_exports_2,
    int_bitfield_map_exports_3, string_entry_map_exports, string_entry_map_Iterator_exports,
    string_entry_map_Iterator_exports_2, string_entry_map_exports_2, string_entry_map_exports_3,
    string_entry_map_exports_4, boost_string_entry_map_exports, boost_string_entry_map_exports_2,
    bitset_128_exports, bitset_128_exports_2, error_code_exports, error_code_exports_2, byte_span_exports,
    byte_span_exports_2, address_exports, address_exports_2, address_exports_3, tcp_endpoint_exports,
    tcp_endpoint_exports_2, udp_endpoint_exports, udp_endpoint_exports_2, dht_state_exports,
    client_data_t_exports, sha1_hash_exports, sha1_hash_exports_2, sha1_hash_exports_3, sha1_hash_exports_4,
    sha1_hash_exports_5, sha256_hash_exports, sha256_hash_exports_2, sha256_hash_exports_3, sha256_hash_exports_4,
    sha256_hash_exports_5, global_exports, info_hash_t_exports, info_hash_t_exports_2, info_hash_t_exports_3,
    global_exports_2, info_hash_t_exports_4, info_hash_t_exports_5, bitfield_exports, bitfield_exports_2,
    bitfield_exports_3, bitfield_exports_4, bitfield_exports_5, global_exports_3, global_exports_4,
    global_exports_5, global_exports_6, global_exports_7, storage_error_exports, storage_error_exports_2]"

lemmas basic_classes_tables =
    int_byte_pair_exports_def int_byte_pair_exports_2_def string_int_pair_exports_def string_int_pair_exports_2_def
    string_string_pair_exports_def string_string_pair_exports_2_def byte_vector_byte_vector_pair_exports_def
    byte_vector_byte_vector_pair_exports_2_def sha1_hash_udp_endpoint_pair_exports_def
    sha1_hash_udp_endpoint_pair_exports_2_def bdecode_node_bdecode_node_pair_exports_def
    bdecode_node_bdecode_node_pair_exports_2_def address_sha1_hash_pair_exports_def address_sha1_hash_pair_exports_2_def
    byte_array_32_exports_def byte_array_32_exports_2_def byte_array_64_exports_def byte_array_64_exports_2_def
    int_string_map_exports_def int_string_map_Iterator_exports_def int_string_map_Iterator_exports_2_def
    int_string_map_exports_2_def int_string_map_exports_3_def string_string_map_exports_def
    string_string_map_Iterator_exports_def string_string_map_Iterator_exports_2_def string_string_map_exports_2_def
    string_string_map_exports_3_def string_string_map_exports_4_def int_bitfield_map_exports_def
    int_bitfield_map_Iterator_exports_def int_bitfield_map_Iterator_exports_2_def int_bitfield_map_exports_2_def
    int_bitfield_map_exports_3_def string_entry_map_exports_def string_entry_map_Iterator_exports_def
    string_entry_map_Iterator_exports_2_def string_entry_map_exports_2_def string_entry_map_exports_3_def
    string_entry_map_exports_4_def boost_string_entry_map_exports_def boost_string_entry_map_exports_2_def
    bitset_128_exports_def bitset_128_exports_2_def error_code_exports_def error_code_exports_2_def byte_span_exports_def
    byte_span_exports_2_def address_exports_def address_exports_2_def address_exports_3_def tcp_endpoint_exports_def
    tcp_endpoint_exports_2_def udp_endpoint_exports_def udp_endpoint_exports_2_def dht_state_exports_def
    client_data_t_exports_def sha1_hash_exports_def sha1_hash_exports_2_def sha1_hash_exports_3_def sha1_hash_exports_4_def
    sha1_hash_exports_5_def sha256_hash_exports_def sha256_hash_exports_2_def sha256_hash_exports_3_def sha256_hash_exports_4_def
    sha256_hash_exports_5_def global_exports_def info_hash_t_exports_def info_hash_t_exports_2_def info_hash_t_exports_3_def
    global_exports_2_def info_hash_t_exports_4_def info_hash_t_exports_5_def bitfield_exports_def bitfield_exports_2_def
    bitfield_exports_3_def bitfield_exports_4_def bitfield_exports_5_def global_exports_3_def global_exports_4_def
    global_exports_5_def global_exports_6_def global_exports_7_def storage_error_exports_def storage_error_exports_2_def

lemma basic_classes_ok: "tables_ok basic_classes"
  by (simp add: tables_ok_def basic_classes_def basic_classes_tables table_check cong: names_weak_cong)

end
