(* ===== verification/Exports_Torrents.thy ===== *)
theory Exports_Torrents
  imports Call_Laws
begin

text \<open>
  The exports of the binding for announce entries, file storages, bencoded data, torrent files, parameters of torrents, peers, torrent handles and their status, class by
  class in the order of the generated code.
\<close>

definition announce_infohash_exports :: class_exports where
  "announce_infohash_exports = (''libtorrent::announce_infohash'', [
     Export ''message_set'' [This, String] (Set_field ''message'') Catch_any Void,
     Export ''message_get'' [This] (Field_address ''message'') Catch_any String_at,
     Export ''last_error_set'' [This, Pointer ''libtorrent::error_code''] (Set_field ''last_error'') Catch_any Void,
     Export ''last_error_get'' [This] (Field_address ''last_error'') Catch_any (Pointer_result ''libtorrent::error_code''),
     Export ''scrape_incomplete_set'' [This, Number int32] (Set_field ''scrape_incomplete'') Catch_any Void,
     Export ''scrape_incomplete_get'' [This] (Get_field ''scrape_incomplete'') Catch_any (Number_result int32 int32),
     Export ''scrape_complete_set'' [This, Number int32] (Set_field ''scrape_complete'') Catch_any Void,
     Export ''scrape_complete_get'' [This] (Get_field ''scrape_complete'') Catch_any (Number_result int32 int32),
     Export ''scrape_downloaded_set'' [This, Number int32] (Set_field ''scrape_downloaded'') Catch_any Void,
     Export ''scrape_downloaded_get'' [This] (Get_field ''scrape_downloaded'') Catch_any (Number_result int32 int32)])"

definition announce_infohash_exports_2 :: class_exports where
  "announce_infohash_exports_2 = (''libtorrent::announce_infohash'', [
     Export ''fails_set'' [This, Number uint8] (Set_field ''fails'') Catch_any Void,
     Export ''fails_get'' [This] (Get_field ''fails'') Catch_any (Number_result uint8 int16),
     Export ''updating_set'' [This, Boolean] (Set_field ''updating'') Catch_any Void,
     Export ''updating_get'' [This] (Get_field ''updating'') Catch_any Boolean_result,
     Export ''start_sent_set'' [This, Boolean] (Set_field ''start_sent'') Catch_any Void,
     Export ''start_sent_get'' [This] (Get_field ''start_sent'') Catch_any Boolean_result,
     Export ''complete_sent_set'' [This, Boolean] (Set_field ''complete_sent'') Catch_any Void,
     Export ''complete_sent_get'' [This] (Get_field ''complete_sent'') Catch_any Boolean_result,
     Export ''triggered_manually_set'' [This, Boolean] (Set_field ''triggered_manually'') Catch_any Void,
     Export ''triggered_manually_get'' [This] (Get_field ''triggered_manually'') Catch_any Boolean_result])"

definition announce_infohash_exports_3 :: class_exports where
  "announce_infohash_exports_3 = (''libtorrent::announce_infohash'', [
     Export ''get_next_announce'' [This] (Call ''libtorrent_announce_infohash_get_next_announce'') Catch_any (Number_result int64 int64),
     Export ''get_min_announce'' [This] (Call ''libtorrent_announce_infohash_get_min_announce'') Catch_any (Number_result int64 int64),
     Export ''delete'' [This] Delete Catch_any Void])"

definition announce_endpoint_exports :: class_exports where
  "announce_endpoint_exports = (''libtorrent::announce_endpoint'', [
     Export ''new'' [] New Catch_any (Pointer_result ''libtorrent::announce_endpoint''),
     Export ''local_endpoint_set'' [This, Pointer ''libtorrent::tcp::endpoint''] (Set_field ''local_endpoint'') Catch_any Void,
     Export ''local_endpoint_get'' [This] (Field_address ''local_endpoint'') Catch_any (Pointer_result ''libtorrent::tcp::endpoint''),
     Export ''enabled_set'' [This, Boolean] (Set_field ''enabled'') Catch_any Void,
     Export ''enabled_get'' [This] (Get_field ''enabled'') Catch_any Boolean_result,
     Export ''get_infohash_v1'' [This] (Call ''libtorrent_announce_endpoint_get_infohash_v1'') Catch_any (New_result ''libtorrent::announce_infohash''),
     Export ''get_infohash_v2'' [This] (Call ''libtorrent_announce_endpoint_get_infohash_v2'') Catch_any (New_result ''libtorrent::announce_infohash''),
     Export ''delete'' [This] Delete Catch_any Void])"

definition announce_entry_exports :: class_exports where
  "announce_entry_exports = (''libtorrent::announce_entry'', [
     Export ''new__SWIG_0'' [] New Catch_any (Pointer_result ''libtorrent::announce_entry''),
     Export ''delete'' [This] Delete Catch_any Void,
     Export ''new__SWIG_1'' [Const_reference ''libtorrent::announce_entry''] Copy Catch_any (Pointer_result ''libtorrent::announce_entry''),
     Export ''url_set'' [This, String] (Set_field ''url'') Catch_any Void,
     Export ''url_get'' [This] (Field_address ''url'') Catch_any String_at,
     Export ''trackerid_set'' [This, String] (Set_field ''trackerid'') Catch_any Void,
     Export ''trackerid_get'' [This] (Field_address ''trackerid'') Catch_any String_at])"

definition announce_entry_exports_2 :: class_exports where
  "announce_entry_exports_2 = (''libtorrent::announce_entry'', [
     Export ''endpoints_set'' [This, Pointer ''std::vector< libtorrent::announce_endpoint >''] (Set_field ''endpoints'') Catch_any Void,
     Export ''endpoints_get'' [This] (Field_address ''endpoints'') Catch_any (Pointer_result ''std::vector< libtorrent::announce_endpoint >''),
     Export ''tier_set'' [This, Number uint8] (Set_field ''tier'') Catch_any Void,
     Export ''tier_get'' [This] (Get_field ''tier'') Catch_any (Number_result uint8 int16),
     Export ''fail_limit_set'' [This, Number uint8] (Set_field ''fail_limit'') Catch_any Void,
     Export ''fail_limit_get'' [This] (Get_field ''fail_limit'') Catch_any (Number_result uint8 int16),
     Export ''source_torrent_get'' [] (Class_constant ''source_torrent'') Catch_any (Number_result (Declared ''libtorrent::announce_entry::tracker_source'') int32),
     Export ''source_client_get'' [] (Class_constant ''source_client'') Catch_any (Number_result (Declared ''libtorrent::announce_entry::tracker_source'') int32),
     Export ''source_magnet_link_get'' [] (Class_constant ''source_magnet_link'') Catch_any (Number_result (Declared ''libtorrent::announce_entry::tracker_source'') int32),
     Export ''source_tex_get'' [] (Class_constant ''source_tex'') Catch_any (Number_result (Declared ''libtorrent::announce_entry::tracker_source'') int32),
     Export ''source_set'' [This, Number uint8] (Set_field ''source'') Catch_any Void])"

definition announce_entry_exports_3 :: class_exports where
  "announce_entry_exports_3 = (''libtorrent::announce_entry'', [
     Export ''source_get'' [This] (Get_field ''source'') Catch_any (Number_result uint8 int16),
     Export ''verified_set'' [This, Boolean] (Set_field ''verified'') Catch_any Void,
     Export ''verified_get'' [This] (Get_field ''verified'') Catch_any Boolean_result,
     Export ''new__SWIG_2'' [String] (Call ''new_libtorrent_announce_entry__SWIG_2'') Catch_any (Pointer_result ''libtorrent::announce_entry'')])"

definition file_slice_exports :: class_exports where
  "file_slice_exports = (''libtorrent::file_slice'', [
     Export ''file_index_set'' [This, Number int32] (Set_field ''file_index'') Catch_any Void,
     Export ''file_index_get'' [This] (Get_field ''file_index'') Catch_any (Number_result int32 int32),
     Export ''offset_set'' [This, Number int64] (Set_field ''offset'') Catch_any Void,
     Export ''offset_get'' [This] (Get_field ''offset'') Catch_any (Number_result int64 int64),
     Export ''size_set'' [This, Number int64] (Set_field ''size'') Catch_any Void,
     Export ''size_get'' [This] (Get_field ''size'') Catch_any (Number_result int64 int64),
     Export ''new'' [] New Catch_any (Pointer_result ''libtorrent::file_slice''),
     Export ''delete'' [This] Delete Catch_any Void])"

definition file_storage_exports :: class_exports where
  "file_storage_exports = (''libtorrent::file_storage'', [
     Export ''new__SWIG_0'' [] New Catch_any (Pointer_result ''libtorrent::file_storage''),
     Export ''delete'' [This] Delete Catch_any Void,
     Export ''new__SWIG_1'' [Const_reference ''libtorrent::file_storage''] Copy Catch_any (Pointer_result ''libtorrent::file_storage''),
     Export ''max_file_size_get'' [] (Class_constant ''max_file_size'') Catch_any (Number_result int64 int64),
     Export ''max_file_offset_get'' [] (Class_constant ''max_file_offset'') Catch_any (Number_result int64 int64),
     Export ''max_num_pieces_get'' [] (Class_constant ''max_num_pieces'') Catch_any (Number_result int32 int32),
     Export ''max_piece_size_get'' [] (Class_constant ''max_piece_size'') Catch_any (Number_result int32 int32),
     Export ''is_valid'' [This] (Method ''is_valid'') Catch_any Boolean_result])"

definition file_storage_exports_2 :: class_exports where
  "file_storage_exports_2 = (''libtorrent::file_storage'', [
     Export ''reserve'' [This, Number int32] (Method ''reserve'') Catch_any Void,
     Export ''map_block'' [This, Number int32, Number int64, Number int64] (Method ''map_block'') Catch_any (New_result ''std::vector< libtorrent::file_slice >''),
     Export ''map_file'' [This, Number int32, Number int64, Number int32] (Method ''map_file'') Catch_any (New_result ''libtorrent::peer_request''),
     Export ''num_files'' [This] (Method ''num_files'') Catch_any (Number_result int32 int32),
     Export ''end_file'' [This] (Method ''end_file'') Catch_any (Number_result int32 int32)])"

definition file_storage_exports_3 :: class_exports where
  "file_storage_exports_3 = (''libtorrent::file_storage'', [
     Export ''total_size'' [This] (Method ''total_size'') Catch_any (Number_result int64 int64),
     Export ''size_on_disk'' [This] (Method ''size_on_disk'') Catch_any (Number_result int64 int64),
     Export ''set_num_pieces'' [This, Number int32] (Method ''set_num_pieces'') Catch_any Void,
     Export ''num_pieces'' [This] (Method ''num_pieces'') Catch_any (Number_result int32 int32),
     Export ''end_piece'' [This] (Method ''end_piece'') Catch_any (Number_result int32 int32),
     Export ''last_piece'' [This] (Method ''last_piece'') Catch_any (Number_result int32 int32)])"

definition file_storage_exports_4 :: class_exports where
  "file_storage_exports_4 = (''libtorrent::file_storage'', [
     Export ''set_piece_length'' [This, Number int32] (Method ''set_piece_length'') Catch_any Void,
     Export ''piece_length'' [This] (Method ''piece_length'') Catch_any (Number_result int32 int32),
     Export ''piece_size'' [This, Number int32] (Method ''piece_size'') Catch_any (Number_result int32 int32),
     Export ''piece_size2'' [This, Number int32] (Method ''piece_size2'') Catch_any (Number_result int32 int32),
     Export ''blocks_in_piece2'' [This, Number int32] (Method ''blocks_in_piece2'') Catch_any (Number_result int32 int32)])"

definition file_storage_exports_5 :: class_exports where
  "file_storage_exports_5 = (''libtorrent::file_storage'', [
     Export ''blocks_per_piece'' [This] (Method ''blocks_per_piece'') Catch_any (Number_result int32 int32),
     Export ''set_name'' [This, String] (Method ''set_name'') Catch_any Void,
     Export ''name'' [This] (Method ''name'') Catch_any String_at,
     Export ''swap'' [This, Reference ''libtorrent::file_storage''] (Method ''swap'') Catch_any Void,
     Export ''root'' [This, Number int32] (Method ''root'') Catch_any (New_result ''libtorrent::sha256_hash'')])"

definition file_storage_exports_6 :: class_exports where
  "file_storage_exports_6 = (''libtorrent::file_storage'', [
     Export ''root_ptr'' [This, Number int32] (Method ''root_ptr'') Catch_any Chars_result,
     Export ''symlink'' [This, Number int32] (Method ''symlink'') Catch_any String_result,
     Export ''mtime'' [This, Number int32] (Method ''mtime'') Catch_any (Number_result (Declared ''std::time_t'') int64),
     Export ''file_path__SWIG_0'' [This, Number int32, String] (Method ''file_path'') Catch_any String_result])"

definition file_storage_exports_7 :: class_exports where
  "file_storage_exports_7 = (''libtorrent::file_storage'', [
     Export ''file_path__SWIG_1'' [This, Number int32] (Method ''file_path'') Catch_any String_result,
     Export ''file_size'' [This, Number int32] (Method ''file_size'') Catch_any (Number_result int64 int64),
     Export ''pad_file_at'' [This, Number int32] (Method ''pad_file_at'') Catch_any Boolean_result,
     Export ''file_offset'' [This, Number int32] (Method ''file_offset'') Catch_any (Number_result int64 int64),
     Export ''file_num_pieces'' [This, Number int32] (Method ''file_num_pieces'') Catch_any (Number_result int32 int32)])"

definition file_storage_exports_8 :: class_exports where
  "file_storage_exports_8 = (''libtorrent::file_storage'', [
     Export ''file_num_blocks'' [This, Number int32] (Method ''file_num_blocks'') Catch_any (Number_result int32 int32),
     Export ''file_first_piece_node'' [This, Number int32] (Method ''file_first_piece_node'') Catch_any (Number_result int32 int32),
     Export ''file_first_block_node'' [This, Number int32] (Method ''file_first_block_node'') Catch_any (Number_result int32 int32),
     Export ''flag_pad_file_get'' [] (Class_static ''flag_pad_file'') Catch_any (Pointer_result ''libtorrent::flags::bitfield_flag< unsigned char,libtorrent::file_flags_tag >''),
     Export ''flag_hidden_get'' [] (Class_static ''flag_hidden'') Catch_any (Pointer_result ''libtorrent::flags::bitfield_flag< unsigned char,libtorrent::file_flags_tag >''),
     Export ''flag_executable_get'' [] (Class_static ''flag_executable'') Catch_any (Pointer_result ''libtorrent::flags::bitfield_flag< unsigned char,libtorrent::file_flags_tag >''),
     Export ''flag_symlink_get'' [] (Class_static ''flag_symlink'') Catch_any (Pointer_result ''libtorrent::flags::bitfield_flag< unsigned char,libtorrent::file_flags_tag >'')])"

definition file_storage_exports_9 :: class_exports where
  "file_storage_exports_9 = (''libtorrent::file_storage'', [
     Export ''file_flags'' [This, Number int32] (Method ''file_flags'') Catch_any (New_result ''libtorrent::file_flags_t''),
     Export ''file_absolute_path'' [This, Number int32] (Method ''file_absolute_path'') Catch_any Boolean_result,
     Export ''file_index_at_offset'' [This, Number int64] (Method ''file_index_at_offset'') Catch_any (Number_result int32 int32),
     Export ''file_index_at_piece'' [This, Number int32] (Method ''file_index_at_piece'') Catch_any (Number_result int32 int32),
     Export ''last_file_index_at_piece'' [This, Number int32] (Method ''last_file_index_at_piece'') Catch_any (Number_result int32 int32)])"

definition file_storage_exports_10 :: class_exports where
  "file_storage_exports_10 = (''libtorrent::file_storage'', [
     Export ''file_index_for_root'' [This, Const_reference ''libtorrent::sha256_hash''] (Method ''file_index_for_root'') Catch_any (Number_result int32 int32),
     Export ''piece_index_at_file'' [This, Number int32] (Method ''piece_index_at_file'') Catch_any (Number_result int32 int32),
     Export ''last_piece_index_at_file'' [This, Number int32] (Method ''last_piece_index_at_file'') Catch_any (Number_result int32 int32),
     Export ''sanitize_symlinks'' [This] (Method ''sanitize_symlinks'') Catch_any Void,
     Export ''v2'' [This] (Method ''v2'') Catch_any Boolean_result])"

definition file_storage_exports_11 :: class_exports where
  "file_storage_exports_11 = (''libtorrent::file_storage'', [
     Export ''add_file_ex__SWIG_0'' [This, Reference ''libtorrent::error_code'', String, Number int64, Value ''libtorrent::file_flags_t'', Number (Declared ''std::time_t''), String] (Call ''libtorrent_file_storage_add_file_ex__SWIG_0'') Catch_any Void,
     Export ''add_file_ex__SWIG_1'' [This, Reference ''libtorrent::error_code'', String, Number int64, Value ''libtorrent::file_flags_t'', Number (Declared ''std::time_t'')] (Call ''libtorrent_file_storage_add_file_ex__SWIG_0'') Catch_any Void])"

definition file_storage_exports_12 :: class_exports where
  "file_storage_exports_12 = (''libtorrent::file_storage'', [
     Export ''add_file_ex__SWIG_2'' [This, Reference ''libtorrent::error_code'', String, Number int64, Value ''libtorrent::file_flags_t''] (Call ''libtorrent_file_storage_add_file_ex__SWIG_0'') Catch_any Void,
     Export ''add_file_ex__SWIG_3'' [This, Reference ''libtorrent::error_code'', String, Number int64] (Call ''libtorrent_file_storage_add_file_ex__SWIG_0'') Catch_any Void,
     Export ''file_name_ex'' [This, Number int32] (Call ''libtorrent_file_storage_file_name_ex'') Catch_any String_result])"

definition renamed_files_exports :: class_exports where
  "renamed_files_exports = (''libtorrent::renamed_files'', [
     Export ''file_path__SWIG_0'' [This, Const_reference ''libtorrent::file_storage'', Number int32, String] (Method ''file_path'') Catch_any String_result,
     Export ''file_path__SWIG_1'' [This, Const_reference ''libtorrent::file_storage'', Number int32] (Method ''file_path'') Catch_any String_result,
     Export ''file_absolute_path'' [This, Const_reference ''libtorrent::file_storage'', Number int32] (Method ''file_absolute_path'') Catch_any Boolean_result])"

definition renamed_files_exports_2 :: class_exports where
  "renamed_files_exports_2 = (''libtorrent::renamed_files'', [
     Export ''rename_file'' [This, Const_reference ''libtorrent::file_storage'', Number int32, String] (Method ''rename_file'') Catch_any Void,
     Export ''file_name_ex'' [This, Const_reference ''libtorrent::file_storage'', Number int32] (Call ''libtorrent_renamed_files_file_name_ex'') Catch_any String_result,
     Export ''import_filenames_ex'' [This, Const_reference ''libtorrent::file_storage'', Reference ''std::map< int,std::string,std::less< int > >''] (Call ''libtorrent_renamed_files_import_filenames_ex'') Catch_any Void,
     Export ''export_filenames_ex'' [This] (Call ''libtorrent_renamed_files_export_filenames_ex'') Catch_any (New_result ''std::map< int,std::string,std::less< int > >'')])"

definition renamed_files_exports_3 :: class_exports where
  "renamed_files_exports_3 = (''libtorrent::renamed_files'', [
     Export ''new'' [] New Catch_any (Pointer_result ''libtorrent::renamed_files''),
     Export ''delete'' [This] Delete Catch_any Void])"

definition filenames_exports :: class_exports where
  "filenames_exports = (''libtorrent::filenames'', [
     Export ''new'' [Const_reference ''libtorrent::file_storage'', Const_reference ''libtorrent::renamed_files''] New Catch_any (Pointer_result ''libtorrent::filenames''),
     Export ''file_flags'' [This, Number int32] (Method ''file_flags'') Catch_any (New_result ''libtorrent::file_flags_t''),
     Export ''end_file'' [This] (Method ''end_file'') Catch_any (Number_result int32 int32),
     Export ''pad_file_at'' [This, Number int32] (Method ''pad_file_at'') Catch_any Boolean_result,
     Export ''file_size'' [This, Number int32] (Method ''file_size'') Catch_any (Number_result int64 int64)])"

definition filenames_exports_2 :: class_exports where
  "filenames_exports_2 = (''libtorrent::filenames'', [
     Export ''file_offset'' [This, Number int32] (Method ''file_offset'') Catch_any (Number_result int64 int64),
     Export ''file_path__SWIG_0'' [This, Number int32, String] (Method ''file_path'') Catch_any String_result,
     Export ''file_path__SWIG_1'' [This, Number int32] (Method ''file_path'') Catch_any String_result,
     Export ''file_absolute_path'' [This, Number int32] (Method ''file_absolute_path'') Catch_any Boolean_result])"

definition filenames_exports_3 :: class_exports where
  "filenames_exports_3 = (''libtorrent::filenames'', [
     Export ''symlink'' [This, Number int32] (Method ''symlink'') Catch_any String_result,
     Export ''num_files'' [This] (Method ''num_files'') Catch_any (Number_result int32 int32),
     Export ''num_pieces'' [This] (Method ''num_pieces'') Catch_any (Number_result int32 int32),
     Export ''end_piece'' [This] (Method ''end_piece'') Catch_any (Number_result int32 int32),
     Export ''map_block'' [This, Number int32, Number int64, Number int64] (Method ''map_block'') Catch_any (New_result ''std::vector< libtorrent::file_slice >'')])"

definition filenames_exports_4 :: class_exports where
  "filenames_exports_4 = (''libtorrent::filenames'', [
     Export ''map_file'' [This, Number int32, Number int64, Number int32] (Method ''map_file'') Catch_any (New_result ''libtorrent::peer_request''),
     Export ''root'' [This, Number int32] (Method ''root'') Catch_any (New_result ''libtorrent::sha256_hash''),
     Export ''piece_length'' [This] (Method ''piece_length'') Catch_any (Number_result int32 int32),
     Export ''delete'' [This] Delete Catch_any Void])"

definition peer_request_exports :: class_exports where
  "peer_request_exports = (''libtorrent::peer_request'', [
     Export ''piece_set'' [This, Number int32] (Set_field ''piece'') Catch_any Void,
     Export ''piece_get'' [This] (Get_field ''piece'') Catch_any (Number_result int32 int32),
     Export ''start_set'' [This, Number int32] (Set_field ''start'') Catch_any Void,
     Export ''start_get'' [This] (Get_field ''start'') Catch_any (Number_result int32 int32),
     Export ''length_set'' [This, Number int32] (Set_field ''length'') Catch_any Void,
     Export ''length_get'' [This] (Get_field ''length'') Catch_any (Number_result int32 int32),
     Export ''eq'' [This, Const_reference ''libtorrent::peer_request''] (Method ''operator =='') Catch_any Boolean_result,
     Export ''new'' [] New Catch_any (Pointer_result ''libtorrent::peer_request'')])"

definition peer_request_exports_2 :: class_exports where
  "peer_request_exports_2 = (''libtorrent::peer_request'', [
     Export ''delete'' [This] Delete Catch_any Void])"

definition global_exports_8 :: class_exports where
  "global_exports_8 = ('''', [
     Export ''bdecode_no_error_get'' [] (Constant ''libtorrent::bdecode_errors::no_error'') Catch_any (Number_result (Declared ''libtorrent::bdecode_errors::error_code_enum'') int32)])"

definition bdecode_node_exports :: class_exports where
  "bdecode_node_exports = (''libtorrent::bdecode_node'', [
     Export ''new__SWIG_0'' [] New Catch_any (Pointer_result ''libtorrent::bdecode_node''),
     Export ''new__SWIG_1'' [Const_reference ''libtorrent::bdecode_node''] Copy Catch_any (Pointer_result ''libtorrent::bdecode_node''),
     Export ''type'' [This] (Method ''type'') Catch_any (Number_result (Declared ''libtorrent::bdecode_node::type_t'') int32),
     Export ''to_bool'' [This] (Method ''operator bool'') Catch_any Boolean_result,
     Export ''data_offset'' [This] (Method ''data_offset'') Catch_any (Number_result (Declared ''std::ptrdiff_t'') int64)])"

definition bdecode_node_exports_2 :: class_exports where
  "bdecode_node_exports_2 = (''libtorrent::bdecode_node'', [
     Export ''list_at'' [This, Number int32] (Method ''list_at'') Catch_any (New_result ''libtorrent::bdecode_node''),
     Export ''list_int_value_at__SWIG_0'' [This, Number int32, Number int64] (Method ''list_int_value_at'') Catch_any (Number_result int64 int64),
     Export ''list_int_value_at__SWIG_1'' [This, Number int32] (Method ''list_int_value_at'') Catch_any (Number_result int64 int64),
     Export ''list_size'' [This] (Method ''list_size'') Catch_any (Number_result int32 int32),
     Export ''dict_at_node'' [This, Number int32] (Method ''dict_at_node'') Catch_any (New_result ''std::pair< libtorrent::bdecode_node,libtorrent::bdecode_node >'')])"

definition bdecode_node_exports_3 :: class_exports where
  "bdecode_node_exports_3 = (''libtorrent::bdecode_node'', [
     Export ''dict_size'' [This] (Method ''dict_size'') Catch_any (Number_result int32 int32),
     Export ''int_value'' [This] (Method ''int_value'') Catch_any (Number_result int64 int64),
     Export ''string_length'' [This] (Method ''string_length'') Catch_any (Number_result int32 int32),
     Export ''string_offset'' [This] (Method ''string_offset'') Catch_any (Number_result (Declared ''std::ptrdiff_t'') int64),
     Export ''clear'' [This] (Method ''clear'') Catch_any Void])"

definition bdecode_node_exports_4 :: class_exports where
  "bdecode_node_exports_4 = (''libtorrent::bdecode_node'', [
     Export ''list_string_value_at_ex__SWIG_0'' [This, Number int32, String] (Call ''libtorrent_bdecode_node_list_string_value_at_ex__SWIG_0'') Catch_any String_result,
     Export ''list_string_value_at_ex__SWIG_1'' [This, Number int32] (Call ''libtorrent_bdecode_node_list_string_value_at_ex__SWIG_0'') Catch_any String_result,
     Export ''dict_find_ex'' [This, String] (Call ''libtorrent_bdecode_node_dict_find_ex'') Catch_any (New_result ''libtorrent::bdecode_node''),
     Export ''dict_find_dict_ex'' [This, String] (Call ''libtorrent_bdecode_node_dict_find_dict_ex'') Catch_any (New_result ''libtorrent::bdecode_node'')])"

definition bdecode_node_exports_5 :: class_exports where
  "bdecode_node_exports_5 = (''libtorrent::bdecode_node'', [
     Export ''dict_find_list_ex'' [This, String] (Call ''libtorrent_bdecode_node_dict_find_list_ex'') Catch_any (New_result ''libtorrent::bdecode_node''),
     Export ''dict_find_string_ex'' [This, String] (Call ''libtorrent_bdecode_node_dict_find_string_ex'') Catch_any (New_result ''libtorrent::bdecode_node''),
     Export ''dict_find_int_ex'' [This, String] (Call ''libtorrent_bdecode_node_dict_find_int_ex'') Catch_any (New_result ''libtorrent::bdecode_node''),
     Export ''dict_find_string_value_ex__SWIG_0'' [This, String, String] (Call ''libtorrent_bdecode_node_dict_find_string_value_ex__SWIG_0'') Catch_any String_result])"

definition bdecode_node_exports_6 :: class_exports where
  "bdecode_node_exports_6 = (''libtorrent::bdecode_node'', [
     Export ''dict_find_string_value_ex__SWIG_1'' [This, String] (Call ''libtorrent_bdecode_node_dict_find_string_value_ex__SWIG_0'') Catch_any String_result,
     Export ''dict_find_int_value_ex__SWIG_0'' [This, String, Number int64] (Call ''libtorrent_bdecode_node_dict_find_int_value_ex__SWIG_0'') Catch_any (Number_result int64 int64),
     Export ''dict_find_int_value_ex__SWIG_1'' [This, String] (Call ''libtorrent_bdecode_node_dict_find_int_value_ex__SWIG_0'') Catch_any (Number_result int64 int64),
     Export ''string_value_ex'' [This] (Call ''libtorrent_bdecode_node_string_value_ex'') Catch_any String_result])"

definition bdecode_node_exports_7 :: class_exports where
  "bdecode_node_exports_7 = (''libtorrent::bdecode_node'', [
     Export ''to_string'' [Const_reference ''libtorrent::bdecode_node'', Boolean, Number int32] (Call ''libtorrent_bdecode_node_to_string'') Catch_any String_result,
     Export ''bdecode__SWIG_0'' [Reference ''std::vector< std::int8_t >'', Reference ''libtorrent::bdecode_node'', Reference ''libtorrent::error_code''] (Call ''libtorrent_bdecode_node_bdecode__SWIG_0'') Catch_any (Number_result int32 int32),
     Export ''bdecode__SWIG_1'' [Number int64, Number int32, Reference ''libtorrent::bdecode_node'', Reference ''libtorrent::error_code''] (Call ''libtorrent_bdecode_node_bdecode__SWIG_1'') Catch_any (Number_result int32 int32),
     Export ''delete'' [This] Delete Catch_any Void])"

definition global_exports_9 :: class_exports where
  "global_exports_9 = ('''', [
     Export ''print_entry__SWIG_0'' [Const_reference ''libtorrent::bdecode_node'', Boolean, Number int32] (Call ''libtorrent::print_entry'') Catch_any String_result,
     Export ''print_entry__SWIG_1'' [Const_reference ''libtorrent::bdecode_node'', Boolean] (Call ''libtorrent::print_entry'') Catch_any String_result,
     Export ''print_entry__SWIG_2'' [Const_reference ''libtorrent::bdecode_node''] (Call ''libtorrent::print_entry'') Catch_any String_result])"

definition load_torrent_limits_exports :: class_exports where
  "load_torrent_limits_exports = (''libtorrent::load_torrent_limits'', [
     Export ''max_buffer_size_set'' [This, Number int32] (Set_field ''max_buffer_size'') Catch_any Void,
     Export ''max_buffer_size_get'' [This] (Get_field ''max_buffer_size'') Catch_any (Number_result int32 int32),
     Export ''max_pieces_set'' [This, Number int32] (Set_field ''max_pieces'') Catch_any Void,
     Export ''max_pieces_get'' [This] (Get_field ''max_pieces'') Catch_any (Number_result int32 int32),
     Export ''max_decode_depth_set'' [This, Number int32] (Set_field ''max_decode_depth'') Catch_any Void,
     Export ''max_decode_depth_get'' [This] (Get_field ''max_decode_depth'') Catch_any (Number_result int32 int32),
     Export ''max_decode_tokens_set'' [This, Number int32] (Set_field ''max_decode_tokens'') Catch_any Void,
     Export ''max_decode_tokens_get'' [This] (Get_field ''max_decode_tokens'') Catch_any (Number_result int32 int32),
     Export ''max_duplicate_filenames_set'' [This, Number int32] (Set_field ''max_duplicate_filenames'') Catch_any Void,
     Export ''max_duplicate_filenames_get'' [This] (Get_field ''max_duplicate_filenames'') Catch_any (Number_result int32 int32)])"

definition load_torrent_limits_exports_2 :: class_exports where
  "load_torrent_limits_exports_2 = (''libtorrent::load_torrent_limits'', [
     Export ''new'' [] New Catch_any (Pointer_result ''libtorrent::load_torrent_limits''),
     Export ''delete'' [This] Delete Catch_any Void])"

definition torrent_info_exports :: class_exports where
  "torrent_info_exports = (''libtorrent::torrent_info'', [
     Export ''new__SWIG_0'' [Const_reference ''libtorrent::info_hash_t''] New Catch_any (Pointer_result ''libtorrent::torrent_info''),
     Export ''new__SWIG_1'' [Const_reference ''libtorrent::torrent_info''] Copy Catch_any (Pointer_result ''libtorrent::torrent_info''),
     Export ''delete'' [This] Delete Catch_any Void,
     Export ''layout'' [This] (Method ''layout'') Catch_any (Pointer_result ''libtorrent::file_storage''),
     Export ''files_impl'' [This] (Method ''files_impl'') Catch_any (Pointer_result ''libtorrent::file_storage'')])"

definition torrent_info_exports_2 :: class_exports where
  "torrent_info_exports_2 = (''libtorrent::torrent_info'', [
     Export ''similar_torrents'' [This] (Method ''similar_torrents'') Catch_any (New_result ''std::vector< libtorrent::sha1_hash >''),
     Export ''collections'' [This] (Method ''collections'') Catch_any (New_result ''std::vector< std::string >''),
     Export ''total_size'' [This] (Method ''total_size'') Catch_any (Number_result int64 int64),
     Export ''size_on_disk'' [This] (Method ''size_on_disk'') Catch_any (Number_result int64 int64),
     Export ''piece_length'' [This] (Method ''piece_length'') Catch_any (Number_result int32 int32),
     Export ''num_pieces'' [This] (Method ''num_pieces'') Catch_any (Number_result int32 int32)])"

definition torrent_info_exports_3 :: class_exports where
  "torrent_info_exports_3 = (''libtorrent::torrent_info'', [
     Export ''blocks_per_piece'' [This] (Method ''blocks_per_piece'') Catch_any (Number_result int32 int32),
     Export ''last_piece'' [This] (Method ''last_piece'') Catch_any (Number_result int32 int32),
     Export ''end_piece'' [This] (Method ''end_piece'') Catch_any (Number_result int32 int32),
     Export ''info_hash'' [This] (Method ''info_hash'') Catch_any (New_result ''libtorrent::sha1_hash''),
     Export ''info_hashes'' [This] (Method ''info_hashes'') Catch_any (Pointer_result ''libtorrent::info_hash_t'')])"

definition torrent_info_exports_4 :: class_exports where
  "torrent_info_exports_4 = (''libtorrent::torrent_info'', [
     Export ''v1'' [This] (Method ''v1'') Catch_any Boolean_result,
     Export ''v2'' [This] (Method ''v2'') Catch_any Boolean_result,
     Export ''num_files'' [This] (Method ''num_files'') Catch_any (Number_result int32 int32),
     Export ''map_block'' [This, Number int32, Number int64, Number int32] (Method ''map_block'') Catch_any (New_result ''std::vector< libtorrent::file_slice >''),
     Export ''map_file'' [This, Number int32, Number int64, Number int32] (Method ''map_file'') Catch_any (New_result ''libtorrent::peer_request'')])"

definition torrent_info_exports_5 :: class_exports where
  "torrent_info_exports_5 = (''libtorrent::torrent_info'', [
     Export ''is_valid'' [This] (Method ''is_valid'') Catch_any Boolean_result,
     Export ''priv'' [This] (Method ''priv'') Catch_any Boolean_result,
     Export ''is_i2p'' [This] (Method ''is_i2p'') Catch_any Boolean_result,
     Export ''piece_size'' [This, Number int32] (Method ''piece_size'') Catch_any (Number_result int32 int32),
     Export ''hash_for_piece'' [This, Number int32] (Method ''hash_for_piece'') Catch_any (New_result ''libtorrent::sha1_hash'')])"

definition torrent_info_exports_6 :: class_exports where
  "torrent_info_exports_6 = (''libtorrent::torrent_info'', [
     Export ''is_loaded'' [This] (Method ''is_loaded'') Catch_any Boolean_result,
     Export ''name'' [This] (Method ''name'') Catch_any String_at,
     Export ''info'' [This, Chars] (Method ''info'') Catch_any (New_result ''libtorrent::bdecode_node''),
     Export ''internal_set_collections'' [This, Value ''std::vector< std::string >''] (Method ''internal_set_collections'') Catch_any Void,
     Export ''internal_set_similar'' [This, Value ''std::vector< libtorrent::sha1_hash >''] (Method ''internal_set_similar'') Catch_any Void])"

definition torrent_info_exports_7 :: class_exports where
  "torrent_info_exports_7 = (''libtorrent::torrent_info'', [
     Export ''get_info_section'' [This] (Call ''libtorrent_torrent_info_get_info_section'') Catch_any (New_result ''libtorrent::span< std::int8_t const >''),
     Export ''create_torrent_info__SWIG_0'' [Const_reference ''libtorrent::bdecode_node'', Reference ''libtorrent::error_code'', Const_reference ''libtorrent::load_torrent_limits''] (Call ''libtorrent_torrent_info_create_torrent_info__SWIG_0'') Catch_any (New_result ''libtorrent::torrent_info''),
     Export ''create_torrent_info__SWIG_1'' [Const_reference ''libtorrent::bdecode_node'', Reference ''libtorrent::error_code''] (Call ''libtorrent_torrent_info_create_torrent_info__SWIG_1'') Catch_any (New_result ''libtorrent::torrent_info'')])"

definition global_exports_10 :: class_exports where
  "global_exports_10 = ('''', [
     Export ''seed_mode_get'' [] (Static_address ''libtorrent::torrent_flags::seed_mode'') Catch_any (Pointer_result ''libtorrent::torrent_flags_t''),
     Export ''upload_mode_get'' [] (Static_address ''libtorrent::torrent_flags::upload_mode'') Catch_any (Pointer_result ''libtorrent::torrent_flags_t''),
     Export ''share_mode_get'' [] (Static_address ''libtorrent::torrent_flags::share_mode'') Catch_any (Pointer_result ''libtorrent::torrent_flags_t''),
     Export ''apply_ip_filter_get'' [] (Static_address ''libtorrent::torrent_flags::apply_ip_filter'') Catch_any (Pointer_result ''libtorrent::torrent_flags_t''),
     Export ''paused_get'' [] (Static_address ''libtorrent::torrent_flags::paused'') Catch_any (Pointer_result ''libtorrent::torrent_flags_t''),
     Export ''auto_managed_get'' [] (Static_address ''libtorrent::torrent_flags::auto_managed'') Catch_any (Pointer_result ''libtorrent::torrent_flags_t''),
     Export ''duplicate_is_error_get'' [] (Static_address ''libtorrent::torrent_flags::duplicate_is_error'') Catch_any (Pointer_result ''libtorrent::torrent_flags_t''),
     Export ''update_subscribe_get'' [] (Static_address ''libtorrent::torrent_flags::update_subscribe'') Catch_any (Pointer_result ''libtorrent::torrent_flags_t''),
     Export ''super_seeding_get'' [] (Static_address ''libtorrent::torrent_flags::super_seeding'') Catch_any (Pointer_result ''libtorrent::torrent_flags_t''),
     Export ''sequential_download_get'' [] (Static_address ''libtorrent::torrent_flags::sequential_download'') Catch_any (Pointer_result ''libtorrent::torrent_flags_t''),
     Export ''stop_when_ready_get'' [] (Static_address ''libtorrent::torrent_flags::stop_when_ready'') Catch_any (Pointer_result ''libtorrent::torrent_flags_t''),
     Export ''need_save_resume_get'' [] (Static_address ''libtorrent::torrent_flags::need_save_resume'') Catch_any (Pointer_result ''libtorrent::torrent_flags_t'')])"

definition global_exports_11 :: class_exports where
  "global_exports_11 = ('''', [
     Export ''disable_dht_get'' [] (Static_address ''libtorrent::torrent_flags::disable_dht'') Catch_any (Pointer_result ''libtorrent::torrent_flags_t''),
     Export ''disable_lsd_get'' [] (Static_address ''libtorrent::torrent_flags::disable_lsd'') Catch_any (Pointer_result ''libtorrent::torrent_flags_t''),
     Export ''disable_pex_get'' [] (Static_address ''libtorrent::torrent_flags::disable_pex'') Catch_any (Pointer_result ''libtorrent::torrent_flags_t''),
     Export ''no_verify_files_get'' [] (Static_address ''libtorrent::torrent_flags::no_verify_files'') Catch_any (Pointer_result ''libtorrent::torrent_flags_t''),
     Export ''default_dont_download_get'' [] (Static_address ''libtorrent::torrent_flags::default_dont_download'') Catch_any (Pointer_result ''libtorrent::torrent_flags_t''),
     Export ''i2p_torrent_get'' [] (Static_address ''libtorrent::torrent_flags::i2p_torrent'') Catch_any (Pointer_result ''libtorrent::torrent_flags_t''),
     Export ''all_get'' [] (Static_address ''libtorrent::torrent_flags::all'') Catch_any (Pointer_result ''libtorrent::torrent_flags_t''),
     Export ''default_flags_get'' [] (Static_address ''libtorrent::torrent_flags::default_flags'') Catch_any (Pointer_result ''libtorrent::torrent_flags_t'')])"

definition add_torrent_params_exports :: class_exports where
  "add_torrent_params_exports = (''libtorrent::add_torrent_params'', [
     Export ''new__SWIG_0'' [] New Catch_any (Pointer_result ''libtorrent::add_torrent_params''),
     Export ''delete'' [This] Delete Catch_any Void,
     Export ''new__SWIG_1'' [Moved ''libtorrent::add_torrent_params''] New Catch_any (Pointer_result ''libtorrent::add_torrent_params''),
     Export ''version_set'' [This, Number int32] (Set_field ''version'') Catch_any Void,
     Export ''version_get'' [This] (Get_field ''version'') Catch_any (Number_result int32 int32),
     Export ''trackers_set'' [This, Pointer ''std::vector< std::string >''] (Set_field ''trackers'') Catch_any Void,
     Export ''trackers_get'' [This] (Field_address ''trackers'') Catch_any (Pointer_result ''std::vector< std::string >''),
     Export ''tracker_tiers_set'' [This, Pointer ''std::vector< int >''] (Set_field ''tracker_tiers'') Catch_any Void])"

definition add_torrent_params_exports_2 :: class_exports where
  "add_torrent_params_exports_2 = (''libtorrent::add_torrent_params'', [
     Export ''tracker_tiers_get'' [This] (Field_address ''tracker_tiers'') Catch_any (Pointer_result ''std::vector< int >''),
     Export ''dht_nodes_set'' [This, Pointer ''std::vector< std::pair< std::string,int > >''] (Set_field ''dht_nodes'') Catch_any Void,
     Export ''dht_nodes_get'' [This] (Field_address ''dht_nodes'') Catch_any (Pointer_result ''std::vector< std::pair< std::string,int > >''),
     Export ''name_set'' [This, String] (Set_field ''name'') Catch_any Void,
     Export ''name_get'' [This] (Field_address ''name'') Catch_any String_at,
     Export ''save_path_set'' [This, String] (Set_field ''save_path'') Catch_any Void,
     Export ''save_path_get'' [This] (Field_address ''save_path'') Catch_any String_at,
     Export ''part_file_dir_set'' [This, String] (Set_field ''part_file_dir'') Catch_any Void,
     Export ''part_file_dir_get'' [This] (Field_address ''part_file_dir'') Catch_any String_at])"

definition add_torrent_params_exports_3 :: class_exports where
  "add_torrent_params_exports_3 = (''libtorrent::add_torrent_params'', [
     Export ''storage_mode_set'' [This, Number (Declared ''libtorrent::storage_mode_t'')] (Set_field ''storage_mode'') Catch_any Void,
     Export ''storage_mode_get'' [This] (Get_field ''storage_mode'') Catch_any (Number_result (Declared ''libtorrent::storage_mode_t'') int32),
     Export ''userdata_set'' [This, Pointer ''libtorrent::client_data_t''] (Set_field ''userdata'') Catch_any Void,
     Export ''userdata_get'' [This] (Field_address ''userdata'') Catch_any (Pointer_result ''libtorrent::client_data_t''),
     Export ''trackerid_set'' [This, String] (Set_field ''trackerid'') Catch_any Void,
     Export ''trackerid_get'' [This] (Field_address ''trackerid'') Catch_any String_at,
     Export ''flags_set'' [This, Pointer ''libtorrent::torrent_flags_t''] (Set_field ''flags'') Catch_any Void,
     Export ''flags_get'' [This] (Field_address ''flags'') Catch_any (Pointer_result ''libtorrent::torrent_flags_t''),
     Export ''info_hashes_set'' [This, Pointer ''libtorrent::info_hash_t''] (Set_field ''info_hashes'') Catch_any Void,
     Export ''info_hashes_get'' [This] (Field_address ''info_hashes'') Catch_any (Pointer_result ''libtorrent::info_hash_t'')])"

definition add_torrent_params_exports_4 :: class_exports where
  "add_torrent_params_exports_4 = (''libtorrent::add_torrent_params'', [
     Export ''max_uploads_set'' [This, Number int32] (Set_field ''max_uploads'') Catch_any Void,
     Export ''max_uploads_get'' [This] (Get_field ''max_uploads'') Catch_any (Number_result int32 int32),
     Export ''max_connections_set'' [This, Number int32] (Set_field ''max_connections'') Catch_any Void,
     Export ''max_connections_get'' [This] (Get_field ''max_connections'') Catch_any (Number_result int32 int32),
     Export ''upload_limit_set'' [This, Number int32] (Set_field ''upload_limit'') Catch_any Void,
     Export ''upload_limit_get'' [This] (Get_field ''upload_limit'') Catch_any (Number_result int32 int32),
     Export ''download_limit_set'' [This, Number int32] (Set_field ''download_limit'') Catch_any Void,
     Export ''download_limit_get'' [This] (Get_field ''download_limit'') Catch_any (Number_result int32 int32),
     Export ''total_uploaded_set'' [This, Number int64] (Set_field ''total_uploaded'') Catch_any Void,
     Export ''total_uploaded_get'' [This] (Get_field ''total_uploaded'') Catch_any (Number_result int64 int64)])"

definition add_torrent_params_exports_5 :: class_exports where
  "add_torrent_params_exports_5 = (''libtorrent::add_torrent_params'', [
     Export ''total_downloaded_set'' [This, Number int64] (Set_field ''total_downloaded'') Catch_any Void,
     Export ''total_downloaded_get'' [This] (Get_field ''total_downloaded'') Catch_any (Number_result int64 int64),
     Export ''active_time_set'' [This, Number int32] (Set_field ''active_time'') Catch_any Void,
     Export ''active_time_get'' [This] (Get_field ''active_time'') Catch_any (Number_result int32 int32),
     Export ''finished_time_set'' [This, Number int32] (Set_field ''finished_time'') Catch_any Void,
     Export ''finished_time_get'' [This] (Get_field ''finished_time'') Catch_any (Number_result int32 int32),
     Export ''seeding_time_set'' [This, Number int32] (Set_field ''seeding_time'') Catch_any Void,
     Export ''seeding_time_get'' [This] (Get_field ''seeding_time'') Catch_any (Number_result int32 int32),
     Export ''added_time_set'' [This, Number (Declared ''std::time_t'')] (Set_field ''added_time'') Catch_any Void,
     Export ''added_time_get'' [This] (Get_field ''added_time'') Catch_any (Number_result (Declared ''std::time_t'') int64)])"

definition add_torrent_params_exports_6 :: class_exports where
  "add_torrent_params_exports_6 = (''libtorrent::add_torrent_params'', [
     Export ''completed_time_set'' [This, Number (Declared ''std::time_t'')] (Set_field ''completed_time'') Catch_any Void,
     Export ''completed_time_get'' [This] (Get_field ''completed_time'') Catch_any (Number_result (Declared ''std::time_t'') int64),
     Export ''last_seen_complete_set'' [This, Number (Declared ''std::time_t'')] (Set_field ''last_seen_complete'') Catch_any Void,
     Export ''last_seen_complete_get'' [This] (Get_field ''last_seen_complete'') Catch_any (Number_result (Declared ''std::time_t'') int64),
     Export ''num_complete_set'' [This, Number int32] (Set_field ''num_complete'') Catch_any Void,
     Export ''num_complete_get'' [This] (Get_field ''num_complete'') Catch_any (Number_result int32 int32),
     Export ''num_incomplete_set'' [This, Number int32] (Set_field ''num_incomplete'') Catch_any Void,
     Export ''num_incomplete_get'' [This] (Get_field ''num_incomplete'') Catch_any (Number_result int32 int32),
     Export ''num_downloaded_set'' [This, Number int32] (Set_field ''num_downloaded'') Catch_any Void,
     Export ''num_downloaded_get'' [This] (Get_field ''num_downloaded'') Catch_any (Number_result int32 int32)])"

definition add_torrent_params_exports_7 :: class_exports where
  "add_torrent_params_exports_7 = (''libtorrent::add_torrent_params'', [
     Export ''url_seeds_set'' [This, Pointer ''std::vector< std::string >''] (Set_field ''url_seeds'') Catch_any Void,
     Export ''url_seeds_get'' [This] (Field_address ''url_seeds'') Catch_any (Pointer_result ''std::vector< std::string >''),
     Export ''peers_set'' [This, Pointer ''std::vector< libtorrent::tcp::endpoint >''] (Set_field ''peers'') Catch_any Void,
     Export ''peers_get'' [This] (Field_address ''peers'') Catch_any (Pointer_result ''std::vector< libtorrent::tcp::endpoint >''),
     Export ''banned_peers_set'' [This, Pointer ''std::vector< libtorrent::tcp::endpoint >''] (Set_field ''banned_peers'') Catch_any Void,
     Export ''banned_peers_get'' [This] (Field_address ''banned_peers'') Catch_any (Pointer_result ''std::vector< libtorrent::tcp::endpoint >''),
     Export ''last_download_set'' [This, Number (Declared ''std::time_t'')] (Set_field ''last_download'') Catch_any Void,
     Export ''last_download_get'' [This] (Get_field ''last_download'') Catch_any (Number_result (Declared ''std::time_t'') int64),
     Export ''last_upload_set'' [This, Number (Declared ''std::time_t'')] (Set_field ''last_upload'') Catch_any Void,
     Export ''last_upload_get'' [This] (Get_field ''last_upload'') Catch_any (Number_result (Declared ''std::time_t'') int64)])"

definition add_torrent_params_exports_8 :: class_exports where
  "add_torrent_params_exports_8 = (''libtorrent::add_torrent_params'', [
     Export ''comment_set'' [This, String] (Set_field ''comment'') Catch_any Void,
     Export ''comment_get'' [This] (Field_address ''comment'') Catch_any String_at,
     Export ''created_by_set'' [This, String] (Set_field ''created_by'') Catch_any Void,
     Export ''created_by_get'' [This] (Field_address ''created_by'') Catch_any String_at,
     Export ''creation_date_set'' [This, Number (Declared ''std::time_t'')] (Set_field ''creation_date'') Catch_any Void,
     Export ''creation_date_get'' [This] (Get_field ''creation_date'') Catch_any (Number_result (Declared ''std::time_t'') int64),
     Export ''ti_ptr'' [This] (Call ''libtorrent_add_torrent_params_ti_ptr'') Catch_any (Pointer_result ''libtorrent::torrent_info'')])"

definition add_torrent_params_exports_9 :: class_exports where
  "add_torrent_params_exports_9 = (''libtorrent::add_torrent_params'', [
     Export ''set_ti'' [This, Const_reference ''libtorrent::torrent_info''] (Call ''libtorrent_add_torrent_params_set_ti'') Catch_any Void,
     Export ''get_file_priorities'' [This] (Call ''libtorrent_add_torrent_params_get_file_priorities'') Catch_any (New_result ''std::vector< std::int8_t >''),
     Export ''set_file_priorities'' [This, Reference ''std::vector< std::int8_t >''] (Call ''libtorrent_add_torrent_params_set_file_priorities'') Catch_any Void,
     Export ''get_piece_priorities'' [This] (Call ''libtorrent_add_torrent_params_get_piece_priorities'') Catch_any (New_result ''std::vector< std::int8_t >''),
     Export ''set_piece_priorities'' [This, Reference ''std::vector< std::int8_t >''] (Call ''libtorrent_add_torrent_params_set_piece_priorities'') Catch_any Void])"

definition add_torrent_params_exports_10 :: class_exports where
  "add_torrent_params_exports_10 = (''libtorrent::add_torrent_params'', [
     Export ''get_merkle_trees'' [This] (Call ''libtorrent_add_torrent_params_get_merkle_trees'') Catch_any (New_result ''std::vector< std::vector< libtorrent::sha256_hash > >''),
     Export ''set_merkle_trees'' [This, Reference ''std::vector< std::vector< libtorrent::sha256_hash > >''] (Call ''libtorrent_add_torrent_params_set_merkle_trees'') Catch_any Void,
     Export ''get_merkle_tree_mask'' [This] (Call ''libtorrent_add_torrent_params_get_merkle_tree_mask'') Catch_any (New_result ''std::vector< libtorrent::bitfield >''),
     Export ''set_merkle_tree_mask'' [This, Reference ''std::vector< libtorrent::bitfield >''] (Call ''libtorrent_add_torrent_params_set_merkle_tree_mask'') Catch_any Void,
     Export ''get_verified_leaf_hashes'' [This] (Call ''libtorrent_add_torrent_params_get_verified_leaf_hashes'') Catch_any (New_result ''std::vector< libtorrent::bitfield >'')])"

definition add_torrent_params_exports_11 :: class_exports where
  "add_torrent_params_exports_11 = (''libtorrent::add_torrent_params'', [
     Export ''set_verified_leaf_hashes'' [This, Reference ''std::vector< libtorrent::bitfield >''] (Call ''libtorrent_add_torrent_params_set_verified_leaf_hashes'') Catch_any Void,
     Export ''get_unfinished_pieces'' [This] (Call ''libtorrent_add_torrent_params_get_unfinished_pieces'') Catch_any (New_result ''std::map< int,libtorrent::bitfield,std::less< int > >''),
     Export ''set_unfinished_pieces'' [This, Reference ''std::map< int,libtorrent::bitfield,std::less< int > >''] (Call ''libtorrent_add_torrent_params_set_unfinished_pieces'') Catch_any Void,
     Export ''get_renamed_files'' [This] (Call ''libtorrent_add_torrent_params_get_renamed_files'') Catch_any (New_result ''std::map< int,std::string,std::less< int > >''),
     Export ''set_renamed_files'' [This, Reference ''std::map< int,std::string,std::less< int > >''] (Call ''libtorrent_add_torrent_params_set_renamed_files'') Catch_any Void])"

definition add_torrent_params_exports_12 :: class_exports where
  "add_torrent_params_exports_12 = (''libtorrent::add_torrent_params'', [
     Export ''get_have_pieces'' [This] (Call ''libtorrent_add_torrent_params_get_have_pieces'') Catch_any (New_result ''libtorrent::bitfield''),
     Export ''set_have_pieces'' [This, Reference ''libtorrent::bitfield''] (Call ''libtorrent_add_torrent_params_set_have_pieces'') Catch_any Void,
     Export ''get_verified_pieces'' [This] (Call ''libtorrent_add_torrent_params_get_verified_pieces'') Catch_any (New_result ''libtorrent::bitfield''),
     Export ''set_verified_pieces'' [This, Reference ''libtorrent::bitfield''] (Call ''libtorrent_add_torrent_params_set_verified_pieces'') Catch_any Void,
     Export ''load_torrent_file__SWIG_0'' [String, Reference ''libtorrent::error_code'', Const_reference ''libtorrent::load_torrent_limits''] (Call ''libtorrent_add_torrent_params_load_torrent_file__SWIG_0'') Catch_any (New_result ''libtorrent::add_torrent_params'')])"

definition add_torrent_params_exports_13 :: class_exports where
  "add_torrent_params_exports_13 = (''libtorrent::add_torrent_params'', [
     Export ''load_torrent_file__SWIG_1'' [String, Reference ''libtorrent::error_code''] (Call ''libtorrent_add_torrent_params_load_torrent_file__SWIG_1'') Catch_any (New_result ''libtorrent::add_torrent_params''),
     Export ''load_torrent_buffer__SWIG_0'' [Reference ''std::vector< std::int8_t >'', Reference ''libtorrent::error_code'', Const_reference ''libtorrent::load_torrent_limits''] (Call ''libtorrent_add_torrent_params_load_torrent_buffer__SWIG_0'') Catch_any (New_result ''libtorrent::add_torrent_params''),
     Export ''load_torrent_buffer__SWIG_1'' [Reference ''std::vector< std::int8_t >'', Reference ''libtorrent::error_code''] (Call ''libtorrent_add_torrent_params_load_torrent_buffer__SWIG_1'') Catch_any (New_result ''libtorrent::add_torrent_params'')])"

definition add_torrent_params_exports_14 :: class_exports where
  "add_torrent_params_exports_14 = (''libtorrent::add_torrent_params'', [
     Export ''load_torrent_native_buffer__SWIG_0'' [Number int64, Number int32, Reference ''libtorrent::error_code'', Const_reference ''libtorrent::load_torrent_limits''] (Call ''libtorrent_add_torrent_params_load_torrent_native_buffer__SWIG_0'') Catch_any (New_result ''libtorrent::add_torrent_params''),
     Export ''load_torrent_native_buffer__SWIG_1'' [Number int64, Number int32, Reference ''libtorrent::error_code''] (Call ''libtorrent_add_torrent_params_load_torrent_native_buffer__SWIG_1'') Catch_any (New_result ''libtorrent::add_torrent_params''),
     Export ''load_torrent_parsed__SWIG_0'' [Const_reference ''libtorrent::bdecode_node'', Reference ''libtorrent::error_code'', Const_reference ''libtorrent::load_torrent_limits''] (Call ''libtorrent_add_torrent_params_load_torrent_parsed__SWIG_0'') Catch_any (New_result ''libtorrent::add_torrent_params''),
     Export ''load_torrent_parsed__SWIG_1'' [Const_reference ''libtorrent::bdecode_node'', Reference ''libtorrent::error_code''] (Call ''libtorrent_add_torrent_params_load_torrent_parsed__SWIG_1'') Catch_any (New_result ''libtorrent::add_torrent_params'')])"

definition global_exports_12 :: class_exports where
  "global_exports_12 = ('''', [
     Export ''close_reason_t_none_get'' [] (Constant ''libtorrent::close_reason_t::none'') Catch_any (Number_result (Declared ''libtorrent::close_reason_t'') int32),
     Export ''close_reason_t_encryption_error_get'' [] (Constant ''libtorrent::close_reason_t::encryption_error'') Catch_any (Number_result (Declared ''libtorrent::close_reason_t'') int32)])"

definition peer_info_exports :: class_exports where
  "peer_info_exports = (''libtorrent::peer_info'', [
     Export ''new__SWIG_0'' [] New Catch_any (Pointer_result ''libtorrent::peer_info''),
     Export ''delete'' [This] Delete Catch_any Void,
     Export ''new__SWIG_1'' [Const_reference ''libtorrent::peer_info''] Copy Catch_any (Pointer_result ''libtorrent::peer_info''),
     Export ''total_download_set'' [This, Number int64] (Set_field ''total_download'') Catch_any Void,
     Export ''total_download_get'' [This] (Get_field ''total_download'') Catch_any (Number_result int64 int64),
     Export ''total_upload_set'' [This, Number int64] (Set_field ''total_upload'') Catch_any Void,
     Export ''total_upload_get'' [This] (Get_field ''total_upload'') Catch_any (Number_result int64 int64),
     Export ''interesting_get'' [] (Class_static ''interesting'') Catch_any (Pointer_result ''libtorrent::flags::bitfield_flag< unsigned int,libtorrent::peer_flags_tag >''),
     Export ''choked_get'' [] (Class_static ''choked'') Catch_any (Pointer_result ''libtorrent::flags::bitfield_flag< unsigned int,libtorrent::peer_flags_tag >'')])"

definition peer_info_exports_2 :: class_exports where
  "peer_info_exports_2 = (''libtorrent::peer_info'', [
     Export ''remote_interested_get'' [] (Class_static ''remote_interested'') Catch_any (Pointer_result ''libtorrent::flags::bitfield_flag< unsigned int,libtorrent::peer_flags_tag >''),
     Export ''remote_choked_get'' [] (Class_static ''remote_choked'') Catch_any (Pointer_result ''libtorrent::flags::bitfield_flag< unsigned int,libtorrent::peer_flags_tag >''),
     Export ''supports_extensions_get'' [] (Class_static ''supports_extensions'') Catch_any (Pointer_result ''libtorrent::flags::bitfield_flag< unsigned int,libtorrent::peer_flags_tag >''),
     Export ''outgoing_connection_get'' [] (Class_static ''outgoing_connection'') Catch_any (Pointer_result ''libtorrent::flags::bitfield_flag< unsigned int,libtorrent::peer_flags_tag >''),
     Export ''local_connection_get'' [] (Class_static ''local_connection'') Catch_any (Pointer_result ''libtorrent::flags::bitfield_flag< unsigned int,libtorrent::peer_flags_tag >''),
     Export ''handshake_get'' [] (Class_static ''handshake'') Catch_any (Pointer_result ''libtorrent::flags::bitfield_flag< unsigned int,libtorrent::peer_flags_tag >''),
     Export ''connecting_get'' [] (Class_static ''connecting'') Catch_any (Pointer_result ''libtorrent::flags::bitfield_flag< unsigned int,libtorrent::peer_flags_tag >''),
     Export ''on_parole_get'' [] (Class_static ''on_parole'') Catch_any (Pointer_result ''libtorrent::flags::bitfield_flag< unsigned int,libtorrent::peer_flags_tag >''),
     Export ''seed_get'' [] (Class_static ''seed'') Catch_any (Pointer_result ''libtorrent::flags::bitfield_flag< unsigned int,libtorrent::peer_flags_tag >''),
     Export ''optimistic_unchoke_get'' [] (Class_static ''optimistic_unchoke'') Catch_any (Pointer_result ''libtorrent::flags::bitfield_flag< unsigned int,libtorrent::peer_flags_tag >''),
     Export ''snubbed_get'' [] (Class_static ''snubbed'') Catch_any (Pointer_result ''libtorrent::flags::bitfield_flag< unsigned int,libtorrent::peer_flags_tag >''),
     Export ''upload_only_get'' [] (Class_static ''upload_only'') Catch_any (Pointer_result ''libtorrent::flags::bitfield_flag< unsigned int,libtorrent::peer_flags_tag >'')])"

definition peer_info_exports_3 :: class_exports where
  "peer_info_exports_3 = (''libtorrent::peer_info'', [
     Export ''endgame_mode_get'' [] (Class_static ''endgame_mode'') Catch_any (Pointer_result ''libtorrent::flags::bitfield_flag< unsigned int,libtorrent::peer_flags_tag >''),
     Export ''holepunched_get'' [] (Class_static ''holepunched'') Catch_any (Pointer_result ''libtorrent::flags::bitfield_flag< unsigned int,libtorrent::peer_flags_tag >''),
     Export ''i2p_socket_get'' [] (Class_static ''i2p_socket'') Catch_any (Pointer_result ''libtorrent::flags::bitfield_flag< unsigned int,libtorrent::peer_flags_tag >''),
     Export ''utp_socket_get'' [] (Class_static ''utp_socket'') Catch_any (Pointer_result ''libtorrent::flags::bitfield_flag< unsigned int,libtorrent::peer_flags_tag >''),
     Export ''ssl_socket_get'' [] (Class_static ''ssl_socket'') Catch_any (Pointer_result ''libtorrent::flags::bitfield_flag< unsigned int,libtorrent::peer_flags_tag >''),
     Export ''rc4_encrypted_get'' [] (Class_static ''rc4_encrypted'') Catch_any (Pointer_result ''libtorrent::flags::bitfield_flag< unsigned int,libtorrent::peer_flags_tag >''),
     Export ''plaintext_encrypted_get'' [] (Class_static ''plaintext_encrypted'') Catch_any (Pointer_result ''libtorrent::flags::bitfield_flag< unsigned int,libtorrent::peer_flags_tag >''),
     Export ''flags_set'' [This, Pointer ''libtorrent::peer_flags_t''] (Set_field ''flags'') Catch_any Void,
     Export ''flags_get'' [This] (Field_address ''flags'') Catch_any (Pointer_result ''libtorrent::peer_flags_t''),
     Export ''tracker_get'' [] (Class_static ''tracker'') Catch_any (Pointer_result ''libtorrent::flags::bitfield_flag< unsigned char,libtorrent::peer_source_flags_tag >''),
     Export ''dht_get'' [] (Class_static ''dht'') Catch_any (Pointer_result ''libtorrent::flags::bitfield_flag< unsigned char,libtorrent::peer_source_flags_tag >''),
     Export ''pex_get'' [] (Class_static ''pex'') Catch_any (Pointer_result ''libtorrent::flags::bitfield_flag< unsigned char,libtorrent::peer_source_flags_tag >'')])"

definition peer_info_exports_4 :: class_exports where
  "peer_info_exports_4 = (''libtorrent::peer_info'', [
     Export ''lsd_get'' [] (Class_static ''lsd'') Catch_any (Pointer_result ''libtorrent::flags::bitfield_flag< unsigned char,libtorrent::peer_source_flags_tag >''),
     Export ''resume_data_get'' [] (Class_static ''resume_data'') Catch_any (Pointer_result ''libtorrent::flags::bitfield_flag< unsigned char,libtorrent::peer_source_flags_tag >''),
     Export ''incoming_get'' [] (Class_static ''incoming'') Catch_any (Pointer_result ''libtorrent::flags::bitfield_flag< unsigned char,libtorrent::peer_source_flags_tag >''),
     Export ''source_set'' [This, Pointer ''libtorrent::peer_source_flags_t''] (Set_field ''source'') Catch_any Void,
     Export ''source_get'' [This] (Field_address ''source'') Catch_any (Pointer_result ''libtorrent::peer_source_flags_t''),
     Export ''up_speed_set'' [This, Number int32] (Set_field ''up_speed'') Catch_any Void,
     Export ''up_speed_get'' [This] (Get_field ''up_speed'') Catch_any (Number_result int32 int32),
     Export ''down_speed_set'' [This, Number int32] (Set_field ''down_speed'') Catch_any Void,
     Export ''down_speed_get'' [This] (Get_field ''down_speed'') Catch_any (Number_result int32 int32),
     Export ''payload_up_speed_set'' [This, Number int32] (Set_field ''payload_up_speed'') Catch_any Void,
     Export ''payload_up_speed_get'' [This] (Get_field ''payload_up_speed'') Catch_any (Number_result int32 int32)])"

definition peer_info_exports_5 :: class_exports where
  "peer_info_exports_5 = (''libtorrent::peer_info'', [
     Export ''payload_down_speed_set'' [This, Number int32] (Set_field ''payload_down_speed'') Catch_any Void,
     Export ''payload_down_speed_get'' [This] (Get_field ''payload_down_speed'') Catch_any (Number_result int32 int32),
     Export ''pid_set'' [This, Pointer ''libtorrent::peer_id''] (Set_field ''pid'') Catch_any Void,
     Export ''pid_get'' [This] (Field_address ''pid'') Catch_any (Pointer_result ''libtorrent::peer_id''),
     Export ''queue_bytes_set'' [This, Number int32] (Set_field ''queue_bytes'') Catch_any Void,
     Export ''queue_bytes_get'' [This] (Get_field ''queue_bytes'') Catch_any (Number_result int32 int32),
     Export ''request_timeout_set'' [This, Number int32] (Set_field ''request_timeout'') Catch_any Void,
     Export ''request_timeout_get'' [This] (Get_field ''request_timeout'') Catch_any (Number_result int32 int32),
     Export ''send_buffer_size_set'' [This, Number int32] (Set_field ''send_buffer_size'') Catch_any Void,
     Export ''send_buffer_size_get'' [This] (Get_field ''send_buffer_size'') Catch_any (Number_result int32 int32)])"

definition peer_info_exports_6 :: class_exports where
  "peer_info_exports_6 = (''libtorrent::peer_info'', [
     Export ''used_send_buffer_set'' [This, Number int32] (Set_field ''used_send_buffer'') Catch_any Void,
     Export ''used_send_buffer_get'' [This] (Get_field ''used_send_buffer'') Catch_any (Number_result int32 int32),
     Export ''receive_buffer_size_set'' [This, Number int32] (Set_field ''receive_buffer_size'') Catch_any Void,
     Export ''receive_buffer_size_get'' [This] (Get_field ''receive_buffer_size'') Catch_any (Number_result int32 int32),
     Export ''used_receive_buffer_set'' [This, Number int32] (Set_field ''used_receive_buffer'') Catch_any Void,
     Export ''used_receive_buffer_get'' [This] (Get_field ''used_receive_buffer'') Catch_any (Number_result int32 int32),
     Export ''receive_buffer_watermark_set'' [This, Number int32] (Set_field ''receive_buffer_watermark'') Catch_any Void,
     Export ''receive_buffer_watermark_get'' [This] (Get_field ''receive_buffer_watermark'') Catch_any (Number_result int32 int32),
     Export ''num_hashfails_set'' [This, Number int32] (Set_field ''num_hashfails'') Catch_any Void,
     Export ''num_hashfails_get'' [This] (Get_field ''num_hashfails'') Catch_any (Number_result int32 int32)])"

definition peer_info_exports_7 :: class_exports where
  "peer_info_exports_7 = (''libtorrent::peer_info'', [
     Export ''download_queue_length_set'' [This, Number int32] (Set_field ''download_queue_length'') Catch_any Void,
     Export ''download_queue_length_get'' [This] (Get_field ''download_queue_length'') Catch_any (Number_result int32 int32),
     Export ''timed_out_requests_set'' [This, Number int32] (Set_field ''timed_out_requests'') Catch_any Void,
     Export ''timed_out_requests_get'' [This] (Get_field ''timed_out_requests'') Catch_any (Number_result int32 int32),
     Export ''busy_requests_set'' [This, Number int32] (Set_field ''busy_requests'') Catch_any Void,
     Export ''busy_requests_get'' [This] (Get_field ''busy_requests'') Catch_any (Number_result int32 int32),
     Export ''requests_in_buffer_set'' [This, Number int32] (Set_field ''requests_in_buffer'') Catch_any Void,
     Export ''requests_in_buffer_get'' [This] (Get_field ''requests_in_buffer'') Catch_any (Number_result int32 int32),
     Export ''target_dl_queue_length_set'' [This, Number int32] (Set_field ''target_dl_queue_length'') Catch_any Void,
     Export ''target_dl_queue_length_get'' [This] (Get_field ''target_dl_queue_length'') Catch_any (Number_result int32 int32)])"

definition peer_info_exports_8 :: class_exports where
  "peer_info_exports_8 = (''libtorrent::peer_info'', [
     Export ''upload_queue_length_set'' [This, Number int32] (Set_field ''upload_queue_length'') Catch_any Void,
     Export ''upload_queue_length_get'' [This] (Get_field ''upload_queue_length'') Catch_any (Number_result int32 int32),
     Export ''failcount_set'' [This, Number int32] (Set_field ''failcount'') Catch_any Void,
     Export ''failcount_get'' [This] (Get_field ''failcount'') Catch_any (Number_result int32 int32),
     Export ''downloading_piece_index_set'' [This, Number int32] (Set_field ''downloading_piece_index'') Catch_any Void,
     Export ''downloading_piece_index_get'' [This] (Get_field ''downloading_piece_index'') Catch_any (Number_result int32 int32),
     Export ''downloading_block_index_set'' [This, Number int32] (Set_field ''downloading_block_index'') Catch_any Void,
     Export ''downloading_block_index_get'' [This] (Get_field ''downloading_block_index'') Catch_any (Number_result int32 int32),
     Export ''downloading_progress_set'' [This, Number int32] (Set_field ''downloading_progress'') Catch_any Void,
     Export ''downloading_progress_get'' [This] (Get_field ''downloading_progress'') Catch_any (Number_result int32 int32)])"

definition peer_info_exports_9 :: class_exports where
  "peer_info_exports_9 = (''libtorrent::peer_info'', [
     Export ''downloading_total_set'' [This, Number int32] (Set_field ''downloading_total'') Catch_any Void,
     Export ''downloading_total_get'' [This] (Get_field ''downloading_total'') Catch_any (Number_result int32 int32),
     Export ''standard_bittorrent_get'' [] (Class_static ''standard_bittorrent'') Catch_any (Pointer_result ''libtorrent::flags::bitfield_flag< unsigned char,libtorrent::connection_type_tag >''),
     Export ''web_seed_get'' [] (Class_static ''web_seed'') Catch_any (Pointer_result ''libtorrent::flags::bitfield_flag< unsigned char,libtorrent::connection_type_tag >''),
     Export ''http_seed_get'' [] (Class_static ''http_seed'') Catch_any (Pointer_result ''libtorrent::flags::bitfield_flag< unsigned char,libtorrent::connection_type_tag >''),
     Export ''connection_type_set'' [This, Pointer ''libtorrent::connection_type_t''] (Set_field ''connection_type'') Catch_any Void,
     Export ''connection_type_get'' [This] (Field_address ''connection_type'') Catch_any (Pointer_result ''libtorrent::connection_type_t''),
     Export ''pending_disk_bytes_set'' [This, Number int32] (Set_field ''pending_disk_bytes'') Catch_any Void,
     Export ''pending_disk_bytes_get'' [This] (Get_field ''pending_disk_bytes'') Catch_any (Number_result int32 int32),
     Export ''pending_disk_read_bytes_set'' [This, Number int32] (Set_field ''pending_disk_read_bytes'') Catch_any Void,
     Export ''pending_disk_read_bytes_get'' [This] (Get_field ''pending_disk_read_bytes'') Catch_any (Number_result int32 int32)])"

definition peer_info_exports_10 :: class_exports where
  "peer_info_exports_10 = (''libtorrent::peer_info'', [
     Export ''send_quota_set'' [This, Number int32] (Set_field ''send_quota'') Catch_any Void,
     Export ''send_quota_get'' [This] (Get_field ''send_quota'') Catch_any (Number_result int32 int32),
     Export ''receive_quota_set'' [This, Number int32] (Set_field ''receive_quota'') Catch_any Void,
     Export ''receive_quota_get'' [This] (Get_field ''receive_quota'') Catch_any (Number_result int32 int32),
     Export ''rtt_set'' [This, Number int32] (Set_field ''rtt'') Catch_any Void,
     Export ''rtt_get'' [This] (Get_field ''rtt'') Catch_any (Number_result int32 int32),
     Export ''num_pieces_set'' [This, Number int32] (Set_field ''num_pieces'') Catch_any Void,
     Export ''num_pieces_get'' [This] (Get_field ''num_pieces'') Catch_any (Number_result int32 int32),
     Export ''download_rate_peak_set'' [This, Number int32] (Set_field ''download_rate_peak'') Catch_any Void,
     Export ''download_rate_peak_get'' [This] (Get_field ''download_rate_peak'') Catch_any (Number_result int32 int32)])"

definition peer_info_exports_11 :: class_exports where
  "peer_info_exports_11 = (''libtorrent::peer_info'', [
     Export ''upload_rate_peak_set'' [This, Number int32] (Set_field ''upload_rate_peak'') Catch_any Void,
     Export ''upload_rate_peak_get'' [This] (Get_field ''upload_rate_peak'') Catch_any (Number_result int32 int32),
     Export ''progress_set'' [This, Floating] (Set_field ''progress'') Catch_any Void,
     Export ''progress_get'' [This] (Get_field ''progress'') Catch_any Floating_result,
     Export ''progress_ppm_set'' [This, Number int32] (Set_field ''progress_ppm'') Catch_any Void,
     Export ''progress_ppm_get'' [This] (Get_field ''progress_ppm'') Catch_any (Number_result int32 int32),
     Export ''remote_endpoint'' [This] (Method ''remote_endpoint'') Catch_any (New_result ''libtorrent::tcp::endpoint''),
     Export ''local_endpoint'' [This] (Method ''local_endpoint'') Catch_any (New_result ''libtorrent::tcp::endpoint''),
     Export ''bw_idle_get'' [] (Class_static ''bw_idle'') Catch_any (Pointer_result ''libtorrent::flags::bitfield_flag< unsigned char,libtorrent::bandwidth_state_flags_tag >'')])"

definition peer_info_exports_12 :: class_exports where
  "peer_info_exports_12 = (''libtorrent::peer_info'', [
     Export ''bw_limit_get'' [] (Class_static ''bw_limit'') Catch_any (Pointer_result ''libtorrent::flags::bitfield_flag< unsigned char,libtorrent::bandwidth_state_flags_tag >''),
     Export ''bw_network_get'' [] (Class_static ''bw_network'') Catch_any (Pointer_result ''libtorrent::flags::bitfield_flag< unsigned char,libtorrent::bandwidth_state_flags_tag >''),
     Export ''bw_disk_get'' [] (Class_static ''bw_disk'') Catch_any (Pointer_result ''libtorrent::flags::bitfield_flag< unsigned char,libtorrent::bandwidth_state_flags_tag >''),
     Export ''read_state_set'' [This, Pointer ''libtorrent::bandwidth_state_flags_t''] (Set_field ''read_state'') Catch_any Void,
     Export ''read_state_get'' [This] (Field_address ''read_state'') Catch_any (Pointer_result ''libtorrent::bandwidth_state_flags_t''),
     Export ''write_state_set'' [This, Pointer ''libtorrent::bandwidth_state_flags_t''] (Set_field ''write_state'') Catch_any Void,
     Export ''write_state_get'' [This] (Field_address ''write_state'') Catch_any (Pointer_result ''libtorrent::bandwidth_state_flags_t''),
     Export ''set_endpoints'' [This, Const_reference ''libtorrent::tcp::endpoint'', Const_reference ''libtorrent::tcp::endpoint''] (Method ''set_endpoints'') Catch_any Void])"

definition peer_info_exports_13 :: class_exports where
  "peer_info_exports_13 = (''libtorrent::peer_info'', [
     Export ''get_client'' [This] (Call ''libtorrent_peer_info_get_client'') Catch_any (New_result ''std::vector< int8_t >''),
     Export ''get_last_request'' [This] (Call ''libtorrent_peer_info_get_last_request'') Catch_any (Number_result int64 int64),
     Export ''get_last_active'' [This] (Call ''libtorrent_peer_info_get_last_active'') Catch_any (Number_result int64 int64),
     Export ''get_download_queue_time'' [This] (Call ''libtorrent_peer_info_get_download_queue_time'') Catch_any (Number_result int64 int64),
     Export ''get_flags'' [This] (Call ''libtorrent_peer_info_get_flags'') Catch_any (Number_result int32 int32),
     Export ''get_source'' [This] (Call ''libtorrent_peer_info_get_source'') Catch_any (Number_result int8 int8)])"

definition peer_info_exports_14 :: class_exports where
  "peer_info_exports_14 = (''libtorrent::peer_info'', [
     Export ''get_read_state'' [This] (Call ''libtorrent_peer_info_get_read_state'') Catch_any (Number_result int8 int8),
     Export ''get_write_state'' [This] (Call ''libtorrent_peer_info_get_write_state'') Catch_any (Number_result int8 int8),
     Export ''get_pieces'' [This] (Call ''libtorrent_peer_info_get_pieces'') Catch_any (New_result ''lt::bitfield'')])"

definition global_exports_13 :: class_exports where
  "global_exports_13 = ('''', [
     Export ''pex_encryption_get'' [] (Static_address ''libtorrent::pex_encryption'') Catch_any (Pointer_result ''libtorrent::pex_flags_t''),
     Export ''pex_seed_get'' [] (Static_address ''libtorrent::pex_seed'') Catch_any (Pointer_result ''libtorrent::pex_flags_t''),
     Export ''pex_utp_get'' [] (Static_address ''libtorrent::pex_utp'') Catch_any (Pointer_result ''libtorrent::pex_flags_t''),
     Export ''pex_holepunch_get'' [] (Static_address ''libtorrent::pex_holepunch'') Catch_any (Pointer_result ''libtorrent::pex_flags_t''),
     Export ''pex_lt_v2_get'' [] (Static_address ''libtorrent::pex_lt_v2'') Catch_any (Pointer_result ''libtorrent::pex_flags_t'')])"

definition block_info_exports :: class_exports where
  "block_info_exports = (''libtorrent::block_info'', [
     Export ''set_peer'' [This, Const_reference ''libtorrent::tcp::endpoint''] (Method ''set_peer'') Catch_any Void,
     Export ''peer'' [This] (Method ''peer'') Catch_any (New_result ''libtorrent::tcp::endpoint''),
     Export ''bytes_progress_set'' [This, Number uint32] (Set_field ''bytes_progress'') Catch_any Void,
     Export ''bytes_progress_get'' [This] (Get_field ''bytes_progress'') Catch_any (Number_result uint32 int64),
     Export ''block_size_set'' [This, Number uint32] (Set_field ''block_size'') Catch_any Void,
     Export ''block_size_get'' [This] (Get_field ''block_size'') Catch_any (Number_result uint32 int64),
     Export ''state_set'' [This, Number uint32] (Set_field ''state'') Catch_any Void,
     Export ''state_get'' [This] (Get_field ''state'') Catch_any (Number_result uint32 int64),
     Export ''num_peers_set'' [This, Number uint32] (Set_field ''num_peers'') Catch_any Void])"

definition block_info_exports_2 :: class_exports where
  "block_info_exports_2 = (''libtorrent::block_info'', [
     Export ''num_peers_get'' [This] (Get_field ''num_peers'') Catch_any (Number_result uint32 int64),
     Export ''new'' [] New Catch_any (Pointer_result ''libtorrent::block_info''),
     Export ''delete'' [This] Delete Catch_any Void])"

definition partial_piece_info_exports :: class_exports where
  "partial_piece_info_exports = (''libtorrent::partial_piece_info'', [
     Export ''piece_index_set'' [This, Number int32] (Set_field ''piece_index'') Catch_any Void,
     Export ''piece_index_get'' [This] (Get_field ''piece_index'') Catch_any (Number_result int32 int32),
     Export ''blocks_in_piece_set'' [This, Number int32] (Set_field ''blocks_in_piece'') Catch_any Void,
     Export ''blocks_in_piece_get'' [This] (Get_field ''blocks_in_piece'') Catch_any (Number_result int32 int32),
     Export ''finished_set'' [This, Number int32] (Set_field ''finished'') Catch_any Void,
     Export ''finished_get'' [This] (Get_field ''finished'') Catch_any (Number_result int32 int32),
     Export ''writing_set'' [This, Number int32] (Set_field ''writing'') Catch_any Void,
     Export ''writing_get'' [This] (Get_field ''writing'') Catch_any (Number_result int32 int32),
     Export ''requested_set'' [This, Number int32] (Set_field ''requested'') Catch_any Void,
     Export ''requested_get'' [This] (Get_field ''requested'') Catch_any (Number_result int32 int32)])"

definition partial_piece_info_exports_2 :: class_exports where
  "partial_piece_info_exports_2 = (''libtorrent::partial_piece_info'', [
     Export ''blocks_set'' [This, Pointer ''libtorrent::block_info''] (Set_pointer ''blocks'') Catch_any Void,
     Export ''blocks_get'' [This] (Get_field ''blocks'') Catch_any (Pointer_result ''libtorrent::block_info''),
     Export ''new'' [] New Catch_any (Pointer_result ''libtorrent::partial_piece_info''),
     Export ''delete'' [This] Delete Catch_any Void])"

definition torrent_handle_exports :: class_exports where
  "torrent_handle_exports = (''libtorrent::torrent_handle'', [
     Export ''overwrite_existing_get'' [] (Class_static ''overwrite_existing'') Catch_any (Pointer_result ''libtorrent::flags::bitfield_flag< unsigned char,libtorrent::add_piece_flags_tag >''),
     Export ''read_piece'' [This, Number int32] (Method ''read_piece'') Catch_any Void,
     Export ''set_sequential_range__SWIG_0'' [This, Number int32, Number int32] (Method ''set_sequential_range'') Catch_any Void,
     Export ''set_sequential_range__SWIG_1'' [This, Number int32] (Method ''set_sequential_range'') Catch_any Void,
     Export ''have_piece'' [This, Number int32] (Method ''have_piece'') Catch_any Boolean_result,
     Export ''post_peer_info'' [This] (Method ''post_peer_info'') Catch_any Void])"

definition torrent_handle_exports_2 :: class_exports where
  "torrent_handle_exports_2 = (''libtorrent::torrent_handle'', [
     Export ''get_peer_info'' [This, Reference ''std::vector< libtorrent::peer_info >''] (Method ''get_peer_info'') Catch_any Void,
     Export ''query_distributed_copies_get'' [] (Class_static ''query_distributed_copies'') Catch_any (Pointer_result ''libtorrent::flags::bitfield_flag< unsigned int,libtorrent::status_flags_tag >''),
     Export ''query_accurate_download_counters_get'' [] (Class_static ''query_accurate_download_counters'') Catch_any (Pointer_result ''libtorrent::flags::bitfield_flag< unsigned int,libtorrent::status_flags_tag >''),
     Export ''query_last_seen_complete_get'' [] (Class_static ''query_last_seen_complete'') Catch_any (Pointer_result ''libtorrent::flags::bitfield_flag< unsigned int,libtorrent::status_flags_tag >''),
     Export ''query_pieces_get'' [] (Class_static ''query_pieces'') Catch_any (Pointer_result ''libtorrent::flags::bitfield_flag< unsigned int,libtorrent::status_flags_tag >''),
     Export ''query_verified_pieces_get'' [] (Class_static ''query_verified_pieces'') Catch_any (Pointer_result ''libtorrent::flags::bitfield_flag< unsigned int,libtorrent::status_flags_tag >''),
     Export ''query_torrent_file_get'' [] (Class_static ''query_torrent_file'') Catch_any (Pointer_result ''libtorrent::flags::bitfield_flag< unsigned int,libtorrent::status_flags_tag >''),
     Export ''query_name_get'' [] (Class_static ''query_name'') Catch_any (Pointer_result ''libtorrent::flags::bitfield_flag< unsigned int,libtorrent::status_flags_tag >''),
     Export ''query_save_path_get'' [] (Class_static ''query_save_path'') Catch_any (Pointer_result ''libtorrent::flags::bitfield_flag< unsigned int,libtorrent::status_flags_tag >'')])"

definition torrent_handle_exports_3 :: class_exports where
  "torrent_handle_exports_3 = (''libtorrent::torrent_handle'', [
     Export ''status__SWIG_0'' [This, Value ''libtorrent::status_flags_t''] (Method ''status'') Catch_any (New_result ''libtorrent::torrent_status''),
     Export ''status__SWIG_1'' [This] (Method ''status'') Catch_any (New_result ''libtorrent::torrent_status''),
     Export ''post_status__SWIG_0'' [This, Value ''libtorrent::status_flags_t''] (Method ''post_status'') Catch_any Void,
     Export ''post_status__SWIG_1'' [This] (Method ''post_status'') Catch_any Void,
     Export ''post_download_queue'' [This] (Method ''post_download_queue'') Catch_any Void])"

definition torrent_handle_exports_4 :: class_exports where
  "torrent_handle_exports_4 = (''libtorrent::torrent_handle'', [
     Export ''get_download_queue__SWIG_0'' [This] (Method ''get_download_queue'') Catch_any (New_result ''std::vector< libtorrent::partial_piece_info >''),
     Export ''get_download_queue__SWIG_1'' [This, Reference ''std::vector< libtorrent::partial_piece_info >''] (Method ''get_download_queue'') Catch_any Void,
     Export ''alert_when_available_get'' [] (Class_static ''alert_when_available'') Catch_any (Pointer_result ''libtorrent::flags::bitfield_flag< unsigned char,libtorrent::deadline_flags_tag >''),
     Export ''set_piece_deadline__SWIG_0'' [This, Number int32, Number int32, Value ''libtorrent::deadline_flags_t''] (Method ''set_piece_deadline'') Catch_any Void,
     Export ''set_piece_deadline__SWIG_1'' [This, Number int32, Number int32] (Method ''set_piece_deadline'') Catch_any Void])"

definition torrent_handle_exports_5 :: class_exports where
  "torrent_handle_exports_5 = (''libtorrent::torrent_handle'', [
     Export ''reset_piece_deadline'' [This, Number int32] (Method ''reset_piece_deadline'') Catch_any Void,
     Export ''clear_piece_deadlines'' [This] (Method ''clear_piece_deadlines'') Catch_any Void,
     Export ''piece_granularity_get'' [] (Class_static ''piece_granularity'') Catch_any (Pointer_result ''libtorrent::flags::bitfield_flag< unsigned char,libtorrent::file_progress_flags_tag >''),
     Export ''file_progress__SWIG_0'' [This, Reference ''std::vector< std::int64_t >'', Value ''libtorrent::file_progress_flags_t''] (Method ''file_progress'') Catch_any Void,
     Export ''file_progress__SWIG_1'' [This, Reference ''std::vector< std::int64_t >''] (Method ''file_progress'') Catch_any Void])"

definition torrent_handle_exports_6 :: class_exports where
  "torrent_handle_exports_6 = (''libtorrent::torrent_handle'', [
     Export ''file_progress__SWIG_2'' [This, Value ''libtorrent::file_progress_flags_t''] (Method ''file_progress'') Catch_any (New_result ''std::vector< std::int64_t >''),
     Export ''file_progress__SWIG_3'' [This] (Method ''file_progress'') Catch_any (New_result ''std::vector< std::int64_t >''),
     Export ''post_file_progress'' [This, Value ''libtorrent::file_progress_flags_t''] (Method ''post_file_progress'') Catch_any Void,
     Export ''clear_error'' [This] (Method ''clear_error'') Catch_any Void,
     Export ''trackers'' [This] (Method ''trackers'') Catch_any (New_result ''std::vector< libtorrent::announce_entry >'')])"

definition torrent_handle_exports_7 :: class_exports where
  "torrent_handle_exports_7 = (''libtorrent::torrent_handle'', [
     Export ''replace_trackers'' [This, Const_reference ''std::vector< libtorrent::announce_entry >''] (Method ''replace_trackers'') Catch_any Void,
     Export ''add_tracker'' [This, Const_reference ''libtorrent::announce_entry''] (Method ''add_tracker'') Catch_any Void,
     Export ''post_trackers'' [This] (Method ''post_trackers'') Catch_any Void,
     Export ''add_url_seed'' [This, String] (Method ''add_url_seed'') Catch_any Void,
     Export ''remove_url_seed'' [This, String] (Method ''remove_url_seed'') Catch_any Void])"

definition torrent_handle_exports_8 :: class_exports where
  "torrent_handle_exports_8 = (''libtorrent::torrent_handle'', [
     Export ''is_valid'' [This] (Method ''is_valid'') Catch_any Boolean_result,
     Export ''graceful_pause_get'' [] (Class_static ''graceful_pause'') Catch_any (Pointer_result ''libtorrent::flags::bitfield_flag< unsigned char,libtorrent::pause_flags_tag >''),
     Export ''pause__SWIG_0'' [This, Value ''libtorrent::pause_flags_t''] (Method ''pause'') Catch_any Void,
     Export ''pause__SWIG_1'' [This] (Method ''pause'') Catch_any Void,
     Export ''resume'' [This] (Method ''resume'') Catch_any Void,
     Export ''flags'' [This] (Method ''flags'') Catch_any (New_result ''libtorrent::torrent_flags_t'')])"

definition torrent_handle_exports_9 :: class_exports where
  "torrent_handle_exports_9 = (''libtorrent::torrent_handle'', [
     Export ''set_flags__SWIG_0'' [This, Value ''libtorrent::torrent_flags_t'', Value ''libtorrent::torrent_flags_t''] (Method ''set_flags'') Catch_any Void,
     Export ''set_flags__SWIG_1'' [This, Value ''libtorrent::torrent_flags_t''] (Method ''set_flags'') Catch_any Void,
     Export ''unset_flags'' [This, Value ''libtorrent::torrent_flags_t''] (Method ''unset_flags'') Catch_any Void,
     Export ''flush_cache'' [This] (Method ''flush_cache'') Catch_any Void,
     Export ''force_recheck'' [This] (Method ''force_recheck'') Catch_any Void])"

definition torrent_handle_exports_10 :: class_exports where
  "torrent_handle_exports_10 = (''libtorrent::torrent_handle'', [
     Export ''flush_disk_cache_get'' [] (Class_static ''flush_disk_cache'') Catch_any (Pointer_result ''libtorrent::flags::bitfield_flag< unsigned char,libtorrent::resume_data_flags_tag >''),
     Export ''save_info_dict_get'' [] (Class_static ''save_info_dict'') Catch_any (Pointer_result ''libtorrent::flags::bitfield_flag< unsigned char,libtorrent::resume_data_flags_tag >''),
     Export ''if_counters_changed_get'' [] (Class_static ''if_counters_changed'') Catch_any (Pointer_result ''libtorrent::flags::bitfield_flag< unsigned char,libtorrent::resume_data_flags_tag >''),
     Export ''if_download_progress_get'' [] (Class_static ''if_download_progress'') Catch_any (Pointer_result ''libtorrent::flags::bitfield_flag< unsigned char,libtorrent::resume_data_flags_tag >''),
     Export ''if_config_changed_get'' [] (Class_static ''if_config_changed'') Catch_any (Pointer_result ''libtorrent::flags::bitfield_flag< unsigned char,libtorrent::resume_data_flags_tag >''),
     Export ''if_state_changed_get'' [] (Class_static ''if_state_changed'') Catch_any (Pointer_result ''libtorrent::flags::bitfield_flag< unsigned char,libtorrent::resume_data_flags_tag >''),
     Export ''if_metadata_changed_get'' [] (Class_static ''if_metadata_changed'') Catch_any (Pointer_result ''libtorrent::flags::bitfield_flag< unsigned char,libtorrent::resume_data_flags_tag >''),
     Export ''only_if_modified_get'' [] (Class_static ''only_if_modified'') Catch_any (Pointer_result ''libtorrent::flags::bitfield_flag< unsigned char,libtorrent::resume_data_flags_tag >''),
     Export ''save_resume_data__SWIG_0'' [This, Value ''libtorrent::resume_data_flags_t''] (Method ''save_resume_data'') Catch_any Void,
     Export ''save_resume_data__SWIG_1'' [This] (Method ''save_resume_data'') Catch_any Void])"

definition torrent_handle_exports_11 :: class_exports where
  "torrent_handle_exports_11 = (''libtorrent::torrent_handle'', [
     Export ''get_resume_data__SWIG_0'' [This, Value ''libtorrent::resume_data_flags_t''] (Method ''get_resume_data'') Catch_any (New_result ''libtorrent::add_torrent_params''),
     Export ''get_resume_data__SWIG_1'' [This] (Method ''get_resume_data'') Catch_any (New_result ''libtorrent::add_torrent_params''),
     Export ''need_save_resume_data__SWIG_0'' [This] (Method ''need_save_resume_data'') Catch_any Boolean_result,
     Export ''need_save_resume_data__SWIG_1'' [This, Value ''libtorrent::resume_data_flags_t''] (Method ''need_save_resume_data'') Catch_any Boolean_result,
     Export ''queue_position_up'' [This] (Method ''queue_position_up'') Catch_any Void])"

definition torrent_handle_exports_12 :: class_exports where
  "torrent_handle_exports_12 = (''libtorrent::torrent_handle'', [
     Export ''queue_position_down'' [This] (Method ''queue_position_down'') Catch_any Void,
     Export ''queue_position_top'' [This] (Method ''queue_position_top'') Catch_any Void,
     Export ''queue_position_bottom'' [This] (Method ''queue_position_bottom'') Catch_any Void,
     Export ''set_ssl_certificate__SWIG_0'' [This, String, String, String, String] (Method ''set_ssl_certificate'') Catch_any Void])"

definition torrent_handle_exports_13 :: class_exports where
  "torrent_handle_exports_13 = (''libtorrent::torrent_handle'', [
     Export ''set_ssl_certificate__SWIG_1'' [This, String, String, String] (Method ''set_ssl_certificate'') Catch_any Void,
     Export ''piece_layers'' [This] (Method ''piece_layers'') Catch_any (New_result ''std::vector< std::vector< libtorrent::sha256_hash > >''),
     Export ''post_piece_availability'' [This] (Method ''post_piece_availability'') Catch_any Void,
     Export ''piece_availability'' [This, Reference ''std::vector< int >''] (Method ''piece_availability'') Catch_any Void,
     Export ''ignore_min_interval_get'' [] (Class_static ''ignore_min_interval'') Catch_any (Pointer_result ''libtorrent::flags::bitfield_flag< unsigned char,libtorrent::reannounce_flags_tag >''),
     Export ''high_priority_get'' [] (Class_static ''high_priority'') Catch_any (Pointer_result ''libtorrent::flags::bitfield_flag< unsigned char,libtorrent::reannounce_flags_tag >'')])"

definition torrent_handle_exports_14 :: class_exports where
  "torrent_handle_exports_14 = (''libtorrent::torrent_handle'', [
     Export ''force_reannounce__SWIG_0'' [This, Number int32, Number int32, Value ''libtorrent::reannounce_flags_t''] (Method ''force_reannounce'') Catch_any Void,
     Export ''force_reannounce__SWIG_1'' [This, Number int32, Number int32] (Method ''force_reannounce'') Catch_any Void,
     Export ''force_reannounce__SWIG_2'' [This, Number int32, String, Value ''libtorrent::reannounce_flags_t''] (Method ''force_reannounce'') Catch_any Void,
     Export ''force_reannounce__SWIG_3'' [This, Number int32, String] (Method ''force_reannounce'') Catch_any Void])"

definition torrent_handle_exports_15 :: class_exports where
  "torrent_handle_exports_15 = (''libtorrent::torrent_handle'', [
     Export ''force_reannounce__SWIG_4'' [This, Number int32, Value ''libtorrent::reannounce_flags_t''] (Method ''force_reannounce'') Catch_any Void,
     Export ''force_reannounce__SWIG_5'' [This, Number int32] (Method ''force_reannounce'') Catch_any Void,
     Export ''force_reannounce__SWIG_6'' [This] (Method ''force_reannounce'') Catch_any Void,
     Export ''force_dht_announce'' [This] (Method ''force_dht_announce'') Catch_any Void,
     Export ''force_lsd_announce'' [This] (Method ''force_lsd_announce'') Catch_any Void,
     Export ''scrape_tracker__SWIG_0'' [This, Number int32] (Method ''scrape_tracker'') Catch_any Void])"

definition torrent_handle_exports_16 :: class_exports where
  "torrent_handle_exports_16 = (''libtorrent::torrent_handle'', [
     Export ''scrape_tracker__SWIG_1'' [This] (Method ''scrape_tracker'') Catch_any Void,
     Export ''scrape_tracker__SWIG_2'' [This, String] (Method ''scrape_tracker'') Catch_any Void,
     Export ''set_upload_limit'' [This, Number int32] (Method ''set_upload_limit'') Catch_any Void,
     Export ''upload_limit'' [This] (Method ''upload_limit'') Catch_any (Number_result int32 int32),
     Export ''set_download_limit'' [This, Number int32] (Method ''set_download_limit'') Catch_any Void,
     Export ''download_limit'' [This] (Method ''download_limit'') Catch_any (Number_result int32 int32)])"

definition torrent_handle_exports_17 :: class_exports where
  "torrent_handle_exports_17 = (''libtorrent::torrent_handle'', [
     Export ''connect_peer__SWIG_0'' [This, Const_reference ''libtorrent::tcp::endpoint'', Value ''libtorrent::peer_source_flags_t'', Value ''libtorrent::pex_flags_t''] (Method ''connect_peer'') Catch_any Void,
     Export ''connect_peer__SWIG_1'' [This, Const_reference ''libtorrent::tcp::endpoint'', Value ''libtorrent::peer_source_flags_t''] (Method ''connect_peer'') Catch_any Void,
     Export ''connect_peer__SWIG_2'' [This, Const_reference ''libtorrent::tcp::endpoint''] (Method ''connect_peer'') Catch_any Void,
     Export ''clear_peers'' [This] (Method ''clear_peers'') Catch_any Void])"

definition torrent_handle_exports_18 :: class_exports where
  "torrent_handle_exports_18 = (''libtorrent::torrent_handle'', [
     Export ''set_max_uploads'' [This, Number int32] (Method ''set_max_uploads'') Catch_any Void,
     Export ''max_uploads'' [This] (Method ''max_uploads'') Catch_any (Number_result int32 int32),
     Export ''set_max_connections'' [This, Number int32] (Method ''set_max_connections'') Catch_any Void,
     Export ''max_connections'' [This] (Method ''max_connections'') Catch_any (Number_result int32 int32),
     Export ''move_storage__SWIG_0'' [This, String, Number (Declared ''libtorrent::move_flags_t'')] (Method ''move_storage'') Catch_any Void])"

definition torrent_handle_exports_19 :: class_exports where
  "torrent_handle_exports_19 = (''libtorrent::torrent_handle'', [
     Export ''move_storage__SWIG_1'' [This, String] (Method ''move_storage'') Catch_any Void,
     Export ''rename_file'' [This, Number int32, String] (Method ''rename_file'') Catch_any Void,
     Export ''info_hash'' [This] (Method ''info_hash'') Catch_any (New_result ''libtorrent::sha1_hash''),
     Export ''info_hashes'' [This] (Method ''info_hashes'') Catch_any (New_result ''libtorrent::info_hash_t''),
     Export ''eq'' [This, Const_reference ''libtorrent::torrent_handle''] (Method ''operator =='') Catch_any Boolean_result])"

definition torrent_handle_exports_20 :: class_exports where
  "torrent_handle_exports_20 = (''libtorrent::torrent_handle'', [
     Export ''ne'' [This, Const_reference ''libtorrent::torrent_handle''] (Method ''operator !='') Catch_any Boolean_result,
     Export ''lt'' [This, Const_reference ''libtorrent::torrent_handle''] (Method ''operator <'') Catch_any Boolean_result,
     Export ''id'' [This] (Method ''id'') Catch_any (Number_result uint32 int64),
     Export ''userdata'' [This] (Method ''userdata'') Catch_any (New_result ''libtorrent::client_data_t''),
     Export ''in_session'' [This] (Method ''in_session'') Catch_any Boolean_result])"

definition torrent_handle_exports_21 :: class_exports where
  "torrent_handle_exports_21 = (''libtorrent::torrent_handle'', [
     Export ''add_piece_bytes__SWIG_0'' [This, Number int32, Const_reference ''std::vector< int8_t >'', Value ''libtorrent::add_piece_flags_t''] (Call ''libtorrent_torrent_handle_add_piece_bytes__SWIG_0'') Catch_any Void,
     Export ''add_piece_bytes__SWIG_1'' [This, Number int32, Const_reference ''std::vector< int8_t >''] (Call ''libtorrent_torrent_handle_add_piece_bytes__SWIG_0'') Catch_any Void,
     Export ''torrent_file_ptr'' [This] (Call ''libtorrent_torrent_handle_torrent_file_ptr'') Catch_any (Pointer_result ''libtorrent::torrent_info''),
     Export ''get_url_seeds'' [This] (Call ''libtorrent_torrent_handle_get_url_seeds'') Catch_any (New_result ''std::vector< std::string >'')])"

definition torrent_handle_exports_22 :: class_exports where
  "torrent_handle_exports_22 = (''libtorrent::torrent_handle'', [
     Export ''set_ssl_certificate_buffer_ex'' [This, Const_reference ''std::vector< int8_t >'', Const_reference ''std::vector< int8_t >'', Const_reference ''std::vector< int8_t >''] (Call ''libtorrent_torrent_handle_set_ssl_certificate_buffer_ex'') Catch_any Void,
     Export ''queue_position_ex'' [This] (Call ''libtorrent_torrent_handle_queue_position_ex'') Catch_any (Number_result int32 int32),
     Export ''queue_position_set_ex'' [This, Number int32] (Call ''libtorrent_torrent_handle_queue_position_set_ex'') Catch_any Void,
     Export ''piece_priority_ex__SWIG_0'' [This, Number int32] (Call ''libtorrent_torrent_handle_piece_priority_ex__SWIG_0'') Catch_any (Number_result int8 int8),
     Export ''piece_priority_ex__SWIG_1'' [This, Number int32, Number int8] (Call ''libtorrent_torrent_handle_piece_priority_ex__SWIG_1'') Catch_any Void])"

definition torrent_handle_exports_23 :: class_exports where
  "torrent_handle_exports_23 = (''libtorrent::torrent_handle'', [
     Export ''prioritize_pieces_ex__SWIG_0'' [This, Const_reference ''std::vector< std::int8_t >''] (Call ''libtorrent_torrent_handle_prioritize_pieces_ex__SWIG_0'') Catch_any Void,
     Export ''prioritize_pieces_ex__SWIG_1'' [This, Const_reference ''std::vector< std::pair< int,std::int8_t > >''] (Call ''libtorrent_torrent_handle_prioritize_pieces_ex__SWIG_1'') Catch_any Void,
     Export ''get_piece_priorities_ex'' [This] (Call ''libtorrent_torrent_handle_get_piece_priorities_ex'') Catch_any (New_result ''std::vector< std::int8_t >''),
     Export ''file_priority_ex__SWIG_0'' [This, Number int32] (Call ''libtorrent_torrent_handle_file_priority_ex__SWIG_0'') Catch_any (Number_result int8 int8),
     Export ''file_priority_ex__SWIG_1'' [This, Number int32, Number int8] (Call ''libtorrent_torrent_handle_file_priority_ex__SWIG_1'') Catch_any Void])"

definition torrent_handle_exports_24 :: class_exports where
  "torrent_handle_exports_24 = (''libtorrent::torrent_handle'', [
     Export ''prioritize_files_ex'' [This, Const_reference ''std::vector< std::int8_t >''] (Call ''libtorrent_torrent_handle_prioritize_files_ex'') Catch_any Void,
     Export ''get_file_priorities_ex'' [This] (Call ''libtorrent_torrent_handle_get_file_priorities_ex'') Catch_any (New_result ''std::vector< std::int8_t >''),
     Export ''delete'' [This] Delete Catch_any Void])"

definition torrent_status_exports :: class_exports where
  "torrent_status_exports = (''libtorrent::torrent_status'', [
     Export ''new__SWIG_0'' [] New Catch_any (Pointer_result ''libtorrent::torrent_status''),
     Export ''delete'' [This] Delete Catch_any Void,
     Export ''new__SWIG_1'' [Const_reference ''libtorrent::torrent_status''] Copy Catch_any (Pointer_result ''libtorrent::torrent_status''),
     Export ''eq'' [This, Const_reference ''libtorrent::torrent_status''] (Method ''operator =='') Catch_any Boolean_result,
     Export ''handle_set'' [This, Pointer ''libtorrent::torrent_handle''] (Set_field ''handle'') Catch_any Void,
     Export ''handle_get'' [This] (Field_address ''handle'') Catch_any (Pointer_result ''libtorrent::torrent_handle''),
     Export ''checking_files_get'' [] (Class_constant ''checking_files'') Catch_any (Number_result (Declared ''libtorrent::torrent_status::state_t'') int32)])"

definition torrent_status_exports_2 :: class_exports where
  "torrent_status_exports_2 = (''libtorrent::torrent_status'', [
     Export ''downloading_metadata_get'' [] (Class_constant ''downloading_metadata'') Catch_any (Number_result (Declared ''libtorrent::torrent_status::state_t'') int32),
     Export ''downloading_get'' [] (Class_constant ''downloading'') Catch_any (Number_result (Declared ''libtorrent::torrent_status::state_t'') int32),
     Export ''finished_get'' [] (Class_constant ''finished'') Catch_any (Number_result (Declared ''libtorrent::torrent_status::state_t'') int32),
     Export ''seeding_get'' [] (Class_constant ''seeding'') Catch_any (Number_result (Declared ''libtorrent::torrent_status::state_t'') int32),
     Export ''checking_resume_data_get'' [] (Class_constant ''checking_resume_data'') Catch_any (Number_result (Declared ''libtorrent::torrent_status::state_t'') int32),
     Export ''errc_set'' [This, Pointer ''libtorrent::error_code''] (Set_field ''errc'') Catch_any Void,
     Export ''errc_get'' [This] (Field_address ''errc'') Catch_any (Pointer_result ''libtorrent::error_code''),
     Export ''error_file_set'' [This, Number int32] (Set_field ''error_file'') Catch_any Void,
     Export ''error_file_get'' [This] (Get_field ''error_file'') Catch_any (Number_result int32 int32),
     Export ''error_file_none_get'' [] (Class_constant ''error_file_none'') Catch_any (Number_result int32 int32),
     Export ''error_file_ssl_ctx_get'' [] (Class_constant ''error_file_ssl_ctx'') Catch_any (Number_result int32 int32)])"

definition torrent_status_exports_3 :: class_exports where
  "torrent_status_exports_3 = (''libtorrent::torrent_status'', [
     Export ''error_file_metadata_get'' [] (Class_constant ''error_file_metadata'') Catch_any (Number_result int32 int32),
     Export ''error_file_exception_get'' [] (Class_constant ''error_file_exception'') Catch_any (Number_result int32 int32),
     Export ''error_file_partfile_get'' [] (Class_constant ''error_file_partfile'') Catch_any (Number_result int32 int32),
     Export ''save_path_set'' [This, String] (Set_field ''save_path'') Catch_any Void,
     Export ''save_path_get'' [This] (Field_address ''save_path'') Catch_any String_at,
     Export ''name_set'' [This, String] (Set_field ''name'') Catch_any Void,
     Export ''name_get'' [This] (Field_address ''name'') Catch_any String_at,
     Export ''current_tracker_set'' [This, String] (Set_field ''current_tracker'') Catch_any Void,
     Export ''current_tracker_get'' [This] (Field_address ''current_tracker'') Catch_any String_at])"

definition torrent_status_exports_4 :: class_exports where
  "torrent_status_exports_4 = (''libtorrent::torrent_status'', [
     Export ''total_download_set'' [This, Number int64] (Set_field ''total_download'') Catch_any Void,
     Export ''total_download_get'' [This] (Get_field ''total_download'') Catch_any (Number_result int64 int64),
     Export ''total_upload_set'' [This, Number int64] (Set_field ''total_upload'') Catch_any Void,
     Export ''total_upload_get'' [This] (Get_field ''total_upload'') Catch_any (Number_result int64 int64),
     Export ''total_payload_download_set'' [This, Number int64] (Set_field ''total_payload_download'') Catch_any Void,
     Export ''total_payload_download_get'' [This] (Get_field ''total_payload_download'') Catch_any (Number_result int64 int64),
     Export ''total_payload_upload_set'' [This, Number int64] (Set_field ''total_payload_upload'') Catch_any Void,
     Export ''total_payload_upload_get'' [This] (Get_field ''total_payload_upload'') Catch_any (Number_result int64 int64),
     Export ''total_failed_bytes_set'' [This, Number int64] (Set_field ''total_failed_bytes'') Catch_any Void,
     Export ''total_failed_bytes_get'' [This] (Get_field ''total_failed_bytes'') Catch_any (Number_result int64 int64)])"

definition torrent_status_exports_5 :: class_exports where
  "torrent_status_exports_5 = (''libtorrent::torrent_status'', [
     Export ''total_redundant_bytes_set'' [This, Number int64] (Set_field ''total_redundant_bytes'') Catch_any Void,
     Export ''total_redundant_bytes_get'' [This] (Get_field ''total_redundant_bytes'') Catch_any (Number_result int64 int64),
     Export ''total_done_set'' [This, Number int64] (Set_field ''total_done'') Catch_any Void,
     Export ''total_done_get'' [This] (Get_field ''total_done'') Catch_any (Number_result int64 int64),
     Export ''total_set'' [This, Number int64] (Set_field ''total'') Catch_any Void,
     Export ''total_get'' [This] (Get_field ''total'') Catch_any (Number_result int64 int64),
     Export ''total_wanted_done_set'' [This, Number int64] (Set_field ''total_wanted_done'') Catch_any Void,
     Export ''total_wanted_done_get'' [This] (Get_field ''total_wanted_done'') Catch_any (Number_result int64 int64),
     Export ''total_wanted_set'' [This, Number int64] (Set_field ''total_wanted'') Catch_any Void,
     Export ''total_wanted_get'' [This] (Get_field ''total_wanted'') Catch_any (Number_result int64 int64)])"

definition torrent_status_exports_6 :: class_exports where
  "torrent_status_exports_6 = (''libtorrent::torrent_status'', [
     Export ''all_time_upload_set'' [This, Number int64] (Set_field ''all_time_upload'') Catch_any Void,
     Export ''all_time_upload_get'' [This] (Get_field ''all_time_upload'') Catch_any (Number_result int64 int64),
     Export ''all_time_download_set'' [This, Number int64] (Set_field ''all_time_download'') Catch_any Void,
     Export ''all_time_download_get'' [This] (Get_field ''all_time_download'') Catch_any (Number_result int64 int64),
     Export ''added_time_set'' [This, Number (Declared ''std::time_t'')] (Set_field ''added_time'') Catch_any Void,
     Export ''added_time_get'' [This] (Get_field ''added_time'') Catch_any (Number_result (Declared ''std::time_t'') int64),
     Export ''completed_time_set'' [This, Number (Declared ''std::time_t'')] (Set_field ''completed_time'') Catch_any Void,
     Export ''completed_time_get'' [This] (Get_field ''completed_time'') Catch_any (Number_result (Declared ''std::time_t'') int64),
     Export ''last_seen_complete_set'' [This, Number (Declared ''std::time_t'')] (Set_field ''last_seen_complete'') Catch_any Void,
     Export ''last_seen_complete_get'' [This] (Get_field ''last_seen_complete'') Catch_any (Number_result (Declared ''std::time_t'') int64)])"

definition torrent_status_exports_7 :: class_exports where
  "torrent_status_exports_7 = (''libtorrent::torrent_status'', [
     Export ''storage_mode_set'' [This, Number (Declared ''libtorrent::storage_mode_t'')] (Set_field ''storage_mode'') Catch_any Void,
     Export ''storage_mode_get'' [This] (Get_field ''storage_mode'') Catch_any (Number_result (Declared ''libtorrent::storage_mode_t'') int32),
     Export ''progress_set'' [This, Floating] (Set_field ''progress'') Catch_any Void,
     Export ''progress_get'' [This] (Get_field ''progress'') Catch_any Floating_result,
     Export ''progress_ppm_set'' [This, Number int32] (Set_field ''progress_ppm'') Catch_any Void,
     Export ''progress_ppm_get'' [This] (Get_field ''progress_ppm'') Catch_any (Number_result int32 int32),
     Export ''download_rate_set'' [This, Number int32] (Set_field ''download_rate'') Catch_any Void,
     Export ''download_rate_get'' [This] (Get_field ''download_rate'') Catch_any (Number_result int32 int32),
     Export ''upload_rate_set'' [This, Number int32] (Set_field ''upload_rate'') Catch_any Void,
     Export ''upload_rate_get'' [This] (Get_field ''upload_rate'') Catch_any (Number_result int32 int32)])"

definition torrent_status_exports_8 :: class_exports where
  "torrent_status_exports_8 = (''libtorrent::torrent_status'', [
     Export ''download_payload_rate_set'' [This, Number int32] (Set_field ''download_payload_rate'') Catch_any Void,
     Export ''download_payload_rate_get'' [This] (Get_field ''download_payload_rate'') Catch_any (Number_result int32 int32),
     Export ''upload_payload_rate_set'' [This, Number int32] (Set_field ''upload_payload_rate'') Catch_any Void,
     Export ''upload_payload_rate_get'' [This] (Get_field ''upload_payload_rate'') Catch_any (Number_result int32 int32),
     Export ''num_seeds_set'' [This, Number int32] (Set_field ''num_seeds'') Catch_any Void,
     Export ''num_seeds_get'' [This] (Get_field ''num_seeds'') Catch_any (Number_result int32 int32),
     Export ''num_peers_set'' [This, Number int32] (Set_field ''num_peers'') Catch_any Void,
     Export ''num_peers_get'' [This] (Get_field ''num_peers'') Catch_any (Number_result int32 int32),
     Export ''num_complete_set'' [This, Number int32] (Set_field ''num_complete'') Catch_any Void,
     Export ''num_complete_get'' [This] (Get_field ''num_complete'') Catch_any (Number_result int32 int32)])"

definition torrent_status_exports_9 :: class_exports where
  "torrent_status_exports_9 = (''libtorrent::torrent_status'', [
     Export ''num_incomplete_set'' [This, Number int32] (Set_field ''num_incomplete'') Catch_any Void,
     Export ''num_incomplete_get'' [This] (Get_field ''num_incomplete'') Catch_any (Number_result int32 int32),
     Export ''list_seeds_set'' [This, Number int32] (Set_field ''list_seeds'') Catch_any Void,
     Export ''list_seeds_get'' [This] (Get_field ''list_seeds'') Catch_any (Number_result int32 int32),
     Export ''list_peers_set'' [This, Number int32] (Set_field ''list_peers'') Catch_any Void,
     Export ''list_peers_get'' [This] (Get_field ''list_peers'') Catch_any (Number_result int32 int32),
     Export ''connect_candidates_set'' [This, Number int32] (Set_field ''connect_candidates'') Catch_any Void,
     Export ''connect_candidates_get'' [This] (Get_field ''connect_candidates'') Catch_any (Number_result int32 int32),
     Export ''num_pieces_set'' [This, Number int32] (Set_field ''num_pieces'') Catch_any Void,
     Export ''num_pieces_get'' [This] (Get_field ''num_pieces'') Catch_any (Number_result int32 int32)])"

definition torrent_status_exports_10 :: class_exports where
  "torrent_status_exports_10 = (''libtorrent::torrent_status'', [
     Export ''distributed_full_copies_set'' [This, Number int32] (Set_field ''distributed_full_copies'') Catch_any Void,
     Export ''distributed_full_copies_get'' [This] (Get_field ''distributed_full_copies'') Catch_any (Number_result int32 int32),
     Export ''distributed_fraction_set'' [This, Number int32] (Set_field ''distributed_fraction'') Catch_any Void,
     Export ''distributed_fraction_get'' [This] (Get_field ''distributed_fraction'') Catch_any (Number_result int32 int32),
     Export ''distributed_copies_set'' [This, Floating] (Set_field ''distributed_copies'') Catch_any Void,
     Export ''distributed_copies_get'' [This] (Get_field ''distributed_copies'') Catch_any Floating_result,
     Export ''block_size_set'' [This, Number int32] (Set_field ''block_size'') Catch_any Void,
     Export ''block_size_get'' [This] (Get_field ''block_size'') Catch_any (Number_result int32 int32),
     Export ''num_uploads_set'' [This, Number int32] (Set_field ''num_uploads'') Catch_any Void,
     Export ''num_uploads_get'' [This] (Get_field ''num_uploads'') Catch_any (Number_result int32 int32)])"

definition torrent_status_exports_11 :: class_exports where
  "torrent_status_exports_11 = (''libtorrent::torrent_status'', [
     Export ''num_connections_set'' [This, Number int32] (Set_field ''num_connections'') Catch_any Void,
     Export ''num_connections_get'' [This] (Get_field ''num_connections'') Catch_any (Number_result int32 int32),
     Export ''uploads_limit_set'' [This, Number int32] (Set_field ''uploads_limit'') Catch_any Void,
     Export ''uploads_limit_get'' [This] (Get_field ''uploads_limit'') Catch_any (Number_result int32 int32),
     Export ''connections_limit_set'' [This, Number int32] (Set_field ''connections_limit'') Catch_any Void,
     Export ''connections_limit_get'' [This] (Get_field ''connections_limit'') Catch_any (Number_result int32 int32),
     Export ''up_bandwidth_queue_set'' [This, Number int32] (Set_field ''up_bandwidth_queue'') Catch_any Void,
     Export ''up_bandwidth_queue_get'' [This] (Get_field ''up_bandwidth_queue'') Catch_any (Number_result int32 int32),
     Export ''down_bandwidth_queue_set'' [This, Number int32] (Set_field ''down_bandwidth_queue'') Catch_any Void,
     Export ''down_bandwidth_queue_get'' [This] (Get_field ''down_bandwidth_queue'') Catch_any (Number_result int32 int32)])"

definition torrent_status_exports_12 :: class_exports where
  "torrent_status_exports_12 = (''libtorrent::torrent_status'', [
     Export ''seed_rank_set'' [This, Number int32] (Set_field ''seed_rank'') Catch_any Void,
     Export ''seed_rank_get'' [This] (Get_field ''seed_rank'') Catch_any (Number_result int32 int32),
     Export ''state_set'' [This, Number (Declared ''libtorrent::torrent_status::state_t'')] (Set_field ''state'') Catch_any Void,
     Export ''state_get'' [This] (Get_field ''state'') Catch_any (Number_result (Declared ''libtorrent::torrent_status::state_t'') int32),
     Export ''need_save_resume_data_set'' [This, Pointer ''libtorrent::resume_data_flags_t''] (Set_field ''need_save_resume_data'') Catch_any Void,
     Export ''need_save_resume_data_get'' [This] (Field_address ''need_save_resume_data'') Catch_any (Pointer_result ''libtorrent::resume_data_flags_t''),
     Export ''is_seeding_set'' [This, Boolean] (Set_field ''is_seeding'') Catch_any Void,
     Export ''is_seeding_get'' [This] (Get_field ''is_seeding'') Catch_any Boolean_result,
     Export ''is_finished_set'' [This, Boolean] (Set_field ''is_finished'') Catch_any Void,
     Export ''is_finished_get'' [This] (Get_field ''is_finished'') Catch_any Boolean_result])"

definition torrent_status_exports_13 :: class_exports where
  "torrent_status_exports_13 = (''libtorrent::torrent_status'', [
     Export ''has_metadata_set'' [This, Boolean] (Set_field ''has_metadata'') Catch_any Void,
     Export ''has_metadata_get'' [This] (Get_field ''has_metadata'') Catch_any Boolean_result,
     Export ''has_incoming_set'' [This, Boolean] (Set_field ''has_incoming'') Catch_any Void,
     Export ''has_incoming_get'' [This] (Get_field ''has_incoming'') Catch_any Boolean_result,
     Export ''moving_storage_set'' [This, Boolean] (Set_field ''moving_storage'') Catch_any Void,
     Export ''moving_storage_get'' [This] (Get_field ''moving_storage'') Catch_any Boolean_result,
     Export ''announcing_to_trackers_set'' [This, Boolean] (Set_field ''announcing_to_trackers'') Catch_any Void,
     Export ''announcing_to_trackers_get'' [This] (Get_field ''announcing_to_trackers'') Catch_any Boolean_result,
     Export ''announcing_to_lsd_set'' [This, Boolean] (Set_field ''announcing_to_lsd'') Catch_any Void,
     Export ''announcing_to_lsd_get'' [This] (Get_field ''announcing_to_lsd'') Catch_any Boolean_result])"

definition torrent_status_exports_14 :: class_exports where
  "torrent_status_exports_14 = (''libtorrent::torrent_status'', [
     Export ''announcing_to_dht_set'' [This, Boolean] (Set_field ''announcing_to_dht'') Catch_any Void,
     Export ''announcing_to_dht_get'' [This] (Get_field ''announcing_to_dht'') Catch_any Boolean_result,
     Export ''info_hashes_set'' [This, Pointer ''libtorrent::info_hash_t''] (Set_field ''info_hashes'') Catch_any Void,
     Export ''info_hashes_get'' [This] (Field_address ''info_hashes'') Catch_any (Pointer_result ''libtorrent::info_hash_t''),
     Export ''flags_set'' [This, Pointer ''libtorrent::torrent_flags_t''] (Set_field ''flags'') Catch_any Void,
     Export ''flags_get'' [This] (Field_address ''flags'') Catch_any (Pointer_result ''libtorrent::torrent_flags_t''),
     Export ''torrent_file_ptr'' [This] (Call ''libtorrent_torrent_status_torrent_file_ptr'') Catch_any (Pointer_result ''libtorrent::torrent_info''),
     Export ''get_next_announce'' [This] (Call ''libtorrent_torrent_status_get_next_announce'') Catch_any (Number_result int64 int64)])"

definition torrent_status_exports_15 :: class_exports where
  "torrent_status_exports_15 = (''libtorrent::torrent_status'', [
     Export ''get_last_upload'' [This] (Call ''libtorrent_torrent_status_get_last_upload'') Catch_any (Number_result int64 int64),
     Export ''get_last_download'' [This] (Call ''libtorrent_torrent_status_get_last_download'') Catch_any (Number_result int64 int64),
     Export ''get_active_duration'' [This] (Call ''libtorrent_torrent_status_get_active_duration'') Catch_any (Number_result int64 int64),
     Export ''get_finished_duration'' [This] (Call ''libtorrent_torrent_status_get_finished_duration'') Catch_any (Number_result int64 int64),
     Export ''get_seeding_duration'' [This] (Call ''libtorrent_torrent_status_get_seeding_duration'') Catch_any (Number_result int64 int64),
     Export ''get_queue_position'' [This] (Call ''libtorrent_torrent_status_get_queue_position'') Catch_any (Number_result int32 int32)])"

definition torrent_status_exports_16 :: class_exports where
  "torrent_status_exports_16 = (''libtorrent::torrent_status'', [
     Export ''get_pieces'' [This] (Call ''libtorrent_torrent_status_get_pieces'') Catch_any (New_result ''libtorrent::bitfield''),
     Export ''get_verified_pieces'' [This] (Call ''libtorrent_torrent_status_get_verified_pieces'') Catch_any (New_result ''libtorrent::bitfield'')])"

definition counters_exports :: class_exports where
  "counters_exports = (''libtorrent::counters'', [
     Export ''num_checking_torrents_get'' [] (Class_constant ''num_checking_torrents'') Catch_any (Number_result (Declared ''libtorrent::counters::stats_gauge_t'') int32),
     Export ''num_gauges_counters_get'' [] (Class_constant ''num_gauges_counters'') Catch_any (Number_result (Declared ''libtorrent::counters::stats_gauge_t'') int32),
     Export ''new__SWIG_0'' [] New Catch_any (Pointer_result ''libtorrent::counters''),
     Export ''new__SWIG_1'' [Const_reference ''libtorrent::counters''] Copy Catch_any (Pointer_result ''libtorrent::counters''),
     Export ''inc_stats_counter__SWIG_0'' [This, Number int32, Number int64] (Method ''inc_stats_counter'') Catch_any (Number_result int64 int64),
     Export ''inc_stats_counter__SWIG_1'' [This, Number int32] (Method ''inc_stats_counter'') Catch_any (Number_result int64 int64)])"

definition counters_exports_2 :: class_exports where
  "counters_exports_2 = (''libtorrent::counters'', [
     Export ''at'' [This, Number int32] (Method ''operator []'') Catch_any (Number_result int64 int64),
     Export ''set_value'' [This, Number int32, Number int64] (Method ''set_value'') Catch_any Void,
     Export ''blend_stats_counter'' [This, Number int32, Number int64, Number int32] (Method ''blend_stats_counter'') Catch_any Void,
     Export ''delete'' [This] Delete Catch_any Void])"

definition piece_block_exports :: class_exports where
  "piece_block_exports = (''libtorrent::piece_block'', [
     Export ''invalid_get'' [] (Class_static ''invalid'') Catch_any (Pointer_result ''libtorrent::piece_block''),
     Export ''new__SWIG_0'' [] New Catch_any (Pointer_result ''libtorrent::piece_block''),
     Export ''new__SWIG_1'' [Number int32, Number int32] New Catch_any (Pointer_result ''libtorrent::piece_block''),
     Export ''piece_index_set'' [This, Number int32] (Set_field ''piece_index'') Catch_any Void,
     Export ''piece_index_get'' [This] (Get_field ''piece_index'') Catch_any (Number_result int32 int32),
     Export ''block_index_set'' [This, Number int32] (Set_field ''block_index'') Catch_any Void,
     Export ''block_index_get'' [This] (Get_field ''block_index'') Catch_any (Number_result int32 int32)])"

definition piece_block_exports_2 :: class_exports where
  "piece_block_exports_2 = (''libtorrent::piece_block'', [
     Export ''lt'' [This, Const_reference ''libtorrent::piece_block''] (Method ''operator <'') Catch_any Boolean_result,
     Export ''eq'' [This, Const_reference ''libtorrent::piece_block''] (Method ''operator =='') Catch_any Boolean_result,
     Export ''ne'' [This, Const_reference ''libtorrent::piece_block''] (Method ''operator !='') Catch_any Boolean_result,
     Export ''delete'' [This] Delete Catch_any Void])"

definition entry_exports :: class_exports where
  "entry_exports = (''libtorrent::entry'', [
     Export ''type'' [This] (Method ''type'') Catch_any (Number_result (Declared ''libtorrent::entry::data_type'') int32),
     Export ''new__SWIG_0'' [Value ''libtorrent::entry::dictionary_type''] New Catch_any (Pointer_result ''libtorrent::entry''),
     Export ''new__SWIG_1'' [String] New Catch_any (Pointer_result ''libtorrent::entry''),
     Export ''new__SWIG_2'' [Value ''libtorrent::entry::list_type''] New Catch_any (Pointer_result ''libtorrent::entry''),
     Export ''new__SWIG_3'' [Number (Declared ''libtorrent::entry::integer_type'')] New Catch_any (Pointer_result ''libtorrent::entry'')])"

definition entry_exports_2 :: class_exports where
  "entry_exports_2 = (''libtorrent::entry'', [
     Export ''new__SWIG_4'' [Number (Declared ''libtorrent::entry::data_type'')] New Catch_any (Pointer_result ''libtorrent::entry''),
     Export ''new__SWIG_5'' [Const_reference ''libtorrent::entry''] Copy Catch_any (Pointer_result ''libtorrent::entry''),
     Export ''new__SWIG_6'' [] New Catch_any (Pointer_result ''libtorrent::entry''),
     Export ''integer'' [This] (Method ''integer'') Catch_any (Number_at (Declared ''libtorrent::entry::integer_type'') int64),
     Export ''string'' [This] (Method ''string'') Catch_any String_at,
     Export ''list'' [This] (Method ''list'') Catch_any (Pointer_result ''libtorrent::entry::list_type'')])"

text \<open>All of them.\<close>

definition torrent_classes :: "class_exports list" where
  "torrent_classes = [
    announce_infohash_exports, announce_infohash_exports_2, announce_infohash_exports_3,
    announce_endpoint_exports, announce_entry_exports, announce_entry_exports_2, announce_entry_exports_3,
    file_slice_exports, file_storage_exports, file_storage_exports_2, file_storage_exports_3,
    file_storage_exports_4, file_storage_exports_5, file_storage_exports_6, file_storage_exports_7,
    file_storage_exports_8, file_storage_exports_9, file_storage_exports_10, file_storage_exports_11,
    file_storage_exports_12, renamed_files_exports, renamed_files_exports_2, renamed_files_exports_3,
    filenames_exports, filenames_exports_2, filenames_exports_3, filenames_exports_4, peer_request_exports,
    peer_request_exports_2, global_exports_8, bdecode_node_exports, bdecode_node_exports_2,
    bdecode_node_exports_3, bdecode_node_exports_4, bdecode_node_exports_5, bdecode_node_exports_6,
    bdecode_node_exports_7, global_exports_9, load_torrent_limits_exports, load_torrent_limits_exports_2,
    torrent_info_exports, torrent_info_exports_2, torrent_info_exports_3, torrent_info_exports_4,
    torrent_info_exports_5, torrent_info_exports_6, torrent_info_exports_7, global_exports_10, global_exports_11,
    add_torrent_params_exports, add_torrent_params_exports_2, add_torrent_params_exports_3,
    add_torrent_params_exports_4, add_torrent_params_exports_5, add_torrent_params_exports_6,
    add_torrent_params_exports_7, add_torrent_params_exports_8, add_torrent_params_exports_9,
    add_torrent_params_exports_10, add_torrent_params_exports_11, add_torrent_params_exports_12,
    add_torrent_params_exports_13, add_torrent_params_exports_14, global_exports_12, peer_info_exports,
    peer_info_exports_2, peer_info_exports_3, peer_info_exports_4, peer_info_exports_5, peer_info_exports_6,
    peer_info_exports_7, peer_info_exports_8, peer_info_exports_9, peer_info_exports_10, peer_info_exports_11,
    peer_info_exports_12, peer_info_exports_13, peer_info_exports_14, global_exports_13, block_info_exports,
    block_info_exports_2, partial_piece_info_exports, partial_piece_info_exports_2, torrent_handle_exports,
    torrent_handle_exports_2, torrent_handle_exports_3, torrent_handle_exports_4, torrent_handle_exports_5,
    torrent_handle_exports_6, torrent_handle_exports_7, torrent_handle_exports_8, torrent_handle_exports_9,
    torrent_handle_exports_10, torrent_handle_exports_11, torrent_handle_exports_12, torrent_handle_exports_13,
    torrent_handle_exports_14, torrent_handle_exports_15, torrent_handle_exports_16, torrent_handle_exports_17,
    torrent_handle_exports_18, torrent_handle_exports_19, torrent_handle_exports_20, torrent_handle_exports_21,
    torrent_handle_exports_22, torrent_handle_exports_23, torrent_handle_exports_24, torrent_status_exports,
    torrent_status_exports_2, torrent_status_exports_3, torrent_status_exports_4, torrent_status_exports_5,
    torrent_status_exports_6, torrent_status_exports_7, torrent_status_exports_8, torrent_status_exports_9,
    torrent_status_exports_10, torrent_status_exports_11, torrent_status_exports_12, torrent_status_exports_13,
    torrent_status_exports_14, torrent_status_exports_15, torrent_status_exports_16, counters_exports,
    counters_exports_2, piece_block_exports, piece_block_exports_2, entry_exports, entry_exports_2]"

lemmas torrent_classes_tables =
    announce_infohash_exports_def announce_infohash_exports_2_def announce_infohash_exports_3_def
    announce_endpoint_exports_def announce_entry_exports_def announce_entry_exports_2_def announce_entry_exports_3_def
    file_slice_exports_def file_storage_exports_def file_storage_exports_2_def file_storage_exports_3_def
    file_storage_exports_4_def file_storage_exports_5_def file_storage_exports_6_def file_storage_exports_7_def
    file_storage_exports_8_def file_storage_exports_9_def file_storage_exports_10_def file_storage_exports_11_def
    file_storage_exports_12_def renamed_files_exports_def renamed_files_exports_2_def renamed_files_exports_3_def
    filenames_exports_def filenames_exports_2_def filenames_exports_3_def filenames_exports_4_def peer_request_exports_def
    peer_request_exports_2_def global_exports_8_def bdecode_node_exports_def bdecode_node_exports_2_def
    bdecode_node_exports_3_def bdecode_node_exports_4_def bdecode_node_exports_5_def bdecode_node_exports_6_def
    bdecode_node_exports_7_def global_exports_9_def load_torrent_limits_exports_def load_torrent_limits_exports_2_def
    torrent_info_exports_def torrent_info_exports_2_def torrent_info_exports_3_def torrent_info_exports_4_def
    torrent_info_exports_5_def torrent_info_exports_6_def torrent_info_exports_7_def global_exports_10_def global_exports_11_def
    add_torrent_params_exports_def add_torrent_params_exports_2_def add_torrent_params_exports_3_def
    add_torrent_params_exports_4_def add_torrent_params_exports_5_def add_torrent_params_exports_6_def
    add_torrent_params_exports_7_def add_torrent_params_exports_8_def add_torrent_params_exports_9_def
    add_torrent_params_exports_10_def add_torrent_params_exports_11_def add_torrent_params_exports_12_def
    add_torrent_params_exports_13_def add_torrent_params_exports_14_def global_exports_12_def peer_info_exports_def
    peer_info_exports_2_def peer_info_exports_3_def peer_info_exports_4_def peer_info_exports_5_def peer_info_exports_6_def
    peer_info_exports_7_def peer_info_exports_8_def peer_info_exports_9_def peer_info_exports_10_def peer_info_exports_11_def
    peer_info_exports_12_def peer_info_exports_13_def peer_info_exports_14_def global_exports_13_def block_info_exports_def
    block_info_exports_2_def partial_piece_info_exports_def partial_piece_info_exports_2_def torrent_handle_exports_def
    torrent_handle_exports_2_def torrent_handle_exports_3_def torrent_handle_exports_4_def torrent_handle_exports_5_def
    torrent_handle_exports_6_def torrent_handle_exports_7_def torrent_handle_exports_8_def torrent_handle_exports_9_def
    torrent_handle_exports_10_def torrent_handle_exports_11_def torrent_handle_exports_12_def torrent_handle_exports_13_def
    torrent_handle_exports_14_def torrent_handle_exports_15_def torrent_handle_exports_16_def torrent_handle_exports_17_def
    torrent_handle_exports_18_def torrent_handle_exports_19_def torrent_handle_exports_20_def torrent_handle_exports_21_def
    torrent_handle_exports_22_def torrent_handle_exports_23_def torrent_handle_exports_24_def torrent_status_exports_def
    torrent_status_exports_2_def torrent_status_exports_3_def torrent_status_exports_4_def torrent_status_exports_5_def
    torrent_status_exports_6_def torrent_status_exports_7_def torrent_status_exports_8_def torrent_status_exports_9_def
    torrent_status_exports_10_def torrent_status_exports_11_def torrent_status_exports_12_def torrent_status_exports_13_def
    torrent_status_exports_14_def torrent_status_exports_15_def torrent_status_exports_16_def counters_exports_def
    counters_exports_2_def piece_block_exports_def piece_block_exports_2_def entry_exports_def entry_exports_2_def

lemma torrent_classes_ok: "tables_ok torrent_classes"
  by (simp add: tables_ok_def torrent_classes_def torrent_classes_tables table_check cong: names_weak_cong)

end
