(* ===== verification/Exports_Alerts.thy ===== *)
theory Exports_Alerts
  imports Call_Laws
begin

text \<open>
  The exports of the binding for entries and the alerts of a session, class by
  class in the order of the generated code.
\<close>

definition entry_exports_3 :: class_exports where
  "entry_exports_3 = (''libtorrent::entry'', [
     Export ''dict'' [This] (Method ''dict'') Catch_any (Pointer_result ''libtorrent::entry::dictionary_type''),
     Export ''to_string'' [This] (Method ''to_string'') Catch_any String_result,
     Export ''get'' [This, String] (Call ''libtorrent_entry_get'') Catch_any (Pointer_result ''libtorrent::entry''),
     Export ''set__SWIG_0'' [This, String, String] (Call ''libtorrent_entry_set__SWIG_0'') Catch_any Void])"

definition entry_exports_4 :: class_exports where
  "entry_exports_4 = (''libtorrent::entry'', [
     Export ''set__SWIG_1'' [This, String, Const_reference ''std::vector< int8_t >''] (Call ''libtorrent_entry_set__SWIG_1'') Catch_any Void,
     Export ''set__SWIG_2'' [This, String, Number int64] (Call ''libtorrent_entry_set__SWIG_2'') Catch_any Void,
     Export ''set__SWIG_3'' [This, String, Const_reference ''libtorrent::entry''] (Call ''libtorrent_entry_set__SWIG_3'') Catch_any Void,
     Export ''string_bytes'' [This] (Call ''libtorrent_entry_string_bytes'') Catch_any (New_result ''std::vector< int8_t >'')])"

definition entry_exports_5 :: class_exports where
  "entry_exports_5 = (''libtorrent::entry'', [
     Export ''preformatted_bytes'' [This] (Call ''libtorrent_entry_preformatted_bytes'') Catch_any (New_result ''std::vector< int8_t >''),
     Export ''bencode'' [This] (Call ''libtorrent_entry_bencode'') Catch_any (New_result ''std::vector< int8_t >''),
     Export ''from_string_bytes'' [Const_reference ''std::vector< int8_t >''] (Call ''libtorrent_entry_from_string_bytes'') Catch_any (New_result ''libtorrent::entry''),
     Export ''from_preformatted_bytes'' [Const_reference ''std::vector< int8_t >''] (Call ''libtorrent_entry_from_preformatted_bytes'') Catch_any (New_result ''libtorrent::entry''),
     Export ''bdecode'' [Reference ''std::vector< int8_t >''] (Call ''libtorrent_entry_bdecode'') Catch_any (New_result ''libtorrent::entry'')])"

definition entry_exports_6 :: class_exports where
  "entry_exports_6 = (''libtorrent::entry'', [
     Export ''delete'' [This] Delete Catch_any Void])"

definition global_exports_14 :: class_exports where
  "global_exports_14 = ('''', [
     Export ''error_get'' [] (Static_address ''libtorrent::alert_category::error'') Catch_any (Pointer_result ''libtorrent::alert_category_t''),
     Export ''peer_get'' [] (Static_address ''libtorrent::alert_category::peer'') Catch_any (Pointer_result ''libtorrent::alert_category_t''),
     Export ''port_mapping_get'' [] (Static_address ''libtorrent::alert_category::port_mapping'') Catch_any (Pointer_result ''libtorrent::alert_category_t''),
     Export ''storage_get'' [] (Static_address ''libtorrent::alert_category::storage'') Catch_any (Pointer_result ''libtorrent::alert_category_t''),
     Export ''tracker_get'' [] (Static_address ''libtorrent::alert_category::tracker'') Catch_any (Pointer_result ''libtorrent::alert_category_t''),
     Export ''connect_get'' [] (Static_address ''libtorrent::alert_category::connect'') Catch_any (Pointer_result ''libtorrent::alert_category_t''),
     Export ''status_get'' [] (Static_address ''libtorrent::alert_category::status'') Catch_any (Pointer_result ''libtorrent::alert_category_t''),
     Export ''ip_block_get'' [] (Static_address ''libtorrent::alert_category::ip_block'') Catch_any (Pointer_result ''libtorrent::alert_category_t''),
     Export ''performance_warning_get'' [] (Static_address ''libtorrent::alert_category::performance_warning'') Catch_any (Pointer_result ''libtorrent::alert_category_t''),
     Export ''dht_get'' [] (Static_address ''libtorrent::alert_category::dht'') Catch_any (Pointer_result ''libtorrent::alert_category_t''),
     Export ''stats_get'' [] (Static_address ''libtorrent::alert_category::stats'') Catch_any (Pointer_result ''libtorrent::alert_category_t''),
     Export ''session_log_get'' [] (Static_address ''libtorrent::alert_category::session_log'') Catch_any (Pointer_result ''libtorrent::alert_category_t'')])"

definition global_exports_15 :: class_exports where
  "global_exports_15 = ('''', [
     Export ''torrent_log_get'' [] (Static_address ''libtorrent::alert_category::torrent_log'') Catch_any (Pointer_result ''libtorrent::alert_category_t''),
     Export ''peer_log_get'' [] (Static_address ''libtorrent::alert_category::peer_log'') Catch_any (Pointer_result ''libtorrent::alert_category_t''),
     Export ''incoming_request_get'' [] (Static_address ''libtorrent::alert_category::incoming_request'') Catch_any (Pointer_result ''libtorrent::alert_category_t''),
     Export ''dht_log_get'' [] (Static_address ''libtorrent::alert_category::dht_log'') Catch_any (Pointer_result ''libtorrent::alert_category_t''),
     Export ''dht_operation_get'' [] (Static_address ''libtorrent::alert_category::dht_operation'') Catch_any (Pointer_result ''libtorrent::alert_category_t''),
     Export ''port_mapping_log_get'' [] (Static_address ''libtorrent::alert_category::port_mapping_log'') Catch_any (Pointer_result ''libtorrent::alert_category_t''),
     Export ''picker_log_get'' [] (Static_address ''libtorrent::alert_category::picker_log'') Catch_any (Pointer_result ''libtorrent::alert_category_t''),
     Export ''file_progress_get'' [] (Static_address ''libtorrent::alert_category::file_progress'') Catch_any (Pointer_result ''libtorrent::alert_category_t''),
     Export ''piece_progress_get'' [] (Static_address ''libtorrent::alert_category::piece_progress'') Catch_any (Pointer_result ''libtorrent::alert_category_t''),
     Export ''upload_get'' [] (Static_address ''libtorrent::alert_category::upload'') Catch_any (Pointer_result ''libtorrent::alert_category_t''),
     Export ''block_progress_get'' [] (Static_address ''libtorrent::alert_category::block_progress'') Catch_any (Pointer_result ''libtorrent::alert_category_t'')])"

definition alert_exports :: class_exports where
  "alert_exports = (''libtorrent::alert'', [
     Export ''error_notification_get'' [] (Class_static ''error_notification'') Catch_any (Pointer_result ''libtorrent::flags::bitfield_flag< unsigned int,libtorrent::alert_category_tag >''),
     Export ''peer_notification_get'' [] (Class_static ''peer_notification'') Catch_any (Pointer_result ''libtorrent::flags::bitfield_flag< unsigned int,libtorrent::alert_category_tag >''),
     Export ''port_mapping_notification_get'' [] (Class_static ''port_mapping_notification'') Catch_any (Pointer_result ''libtorrent::flags::bitfield_flag< unsigned int,libtorrent::alert_category_tag >''),
     Export ''storage_notification_get'' [] (Class_static ''storage_notification'') Catch_any (Pointer_result ''libtorrent::flags::bitfield_flag< unsigned int,libtorrent::alert_category_tag >''),
     Export ''tracker_notification_get'' [] (Class_static ''tracker_notification'') Catch_any (Pointer_result ''libtorrent::flags::bitfield_flag< unsigned int,libtorrent::alert_category_tag >''),
     Export ''connect_notification_get'' [] (Class_static ''connect_notification'') Catch_any (Pointer_result ''libtorrent::flags::bitfield_flag< unsigned int,libtorrent::alert_category_tag >''),
     Export ''status_notification_get'' [] (Class_static ''status_notification'') Catch_any (Pointer_result ''libtorrent::flags::bitfield_flag< unsigned int,libtorrent::alert_category_tag >''),
     Export ''ip_block_notification_get'' [] (Class_static ''ip_block_notification'') Catch_any (Pointer_result ''libtorrent::flags::bitfield_flag< unsigned int,libtorrent::alert_category_tag >''),
     Export ''performance_warning_get'' [] (Class_static ''performance_warning'') Catch_any (Pointer_result ''libtorrent::flags::bitfield_flag< unsigned int,libtorrent::alert_category_tag >''),
     Export ''dht_notification_get'' [] (Class_static ''dht_notification'') Catch_any (Pointer_result ''libtorrent::flags::bitfield_flag< unsigned int,libtorrent::alert_category_tag >''),
     Export ''session_log_notification_get'' [] (Class_static ''session_log_notification'') Catch_any (Pointer_result ''libtorrent::flags::bitfield_flag< unsigned int,libtorrent::alert_category_tag >''),
     Export ''torrent_log_notification_get'' [] (Class_static ''torrent_log_notification'') Catch_any (Pointer_result ''libtorrent::flags::bitfield_flag< unsigned int,libtorrent::alert_category_tag >'')])"

definition alert_exports_2 :: class_exports where
  "alert_exports_2 = (''libtorrent::alert'', [
     Export ''peer_log_notification_get'' [] (Class_static ''peer_log_notification'') Catch_any (Pointer_result ''libtorrent::flags::bitfield_flag< unsigned int,libtorrent::alert_category_tag >''),
     Export ''incoming_request_notification_get'' [] (Class_static ''incoming_request_notification'') Catch_any (Pointer_result ''libtorrent::flags::bitfield_flag< unsigned int,libtorrent::alert_category_tag >''),
     Export ''dht_log_notification_get'' [] (Class_static ''dht_log_notification'') Catch_any (Pointer_result ''libtorrent::flags::bitfield_flag< unsigned int,libtorrent::alert_category_tag >''),
     Export ''dht_operation_notification_get'' [] (Class_static ''dht_operation_notification'') Catch_any (Pointer_result ''libtorrent::flags::bitfield_flag< unsigned int,libtorrent::alert_category_tag >''),
     Export ''port_mapping_log_notification_get'' [] (Class_static ''port_mapping_log_notification'') Catch_any (Pointer_result ''libtorrent::flags::bitfield_flag< unsigned int,libtorrent::alert_category_tag >''),
     Export ''picker_log_notification_get'' [] (Class_static ''picker_log_notification'') Catch_any (Pointer_result ''libtorrent::flags::bitfield_flag< unsigned int,libtorrent::alert_category_tag >''),
     Export ''file_progress_notification_get'' [] (Class_static ''file_progress_notification'') Catch_any (Pointer_result ''libtorrent::flags::bitfield_flag< unsigned int,libtorrent::alert_category_tag >''),
     Export ''piece_progress_notification_get'' [] (Class_static ''piece_progress_notification'') Catch_any (Pointer_result ''libtorrent::flags::bitfield_flag< unsigned int,libtorrent::alert_category_tag >''),
     Export ''upload_notification_get'' [] (Class_static ''upload_notification'') Catch_any (Pointer_result ''libtorrent::flags::bitfield_flag< unsigned int,libtorrent::alert_category_tag >''),
     Export ''block_progress_notification_get'' [] (Class_static ''block_progress_notification'') Catch_any (Pointer_result ''libtorrent::flags::bitfield_flag< unsigned int,libtorrent::alert_category_tag >''),
     Export ''all_categories_get'' [] (Class_static ''all_categories'') Catch_any (Pointer_result ''libtorrent::flags::bitfield_flag< unsigned int,libtorrent::alert_category_tag >''),
     Export ''delete'' [This] Delete Catch_any Void])"

definition alert_exports_3 :: class_exports where
  "alert_exports_3 = (''libtorrent::alert'', [
     Export ''type'' [This] (Method ''type'') Catch_any (Number_result int32 int32),
     Export ''what'' [This] (Method ''what'') Catch_any Chars_result,
     Export ''message'' [This] (Method ''message'') Catch_any String_result,
     Export ''category'' [This] (Method ''category'') Catch_any (New_result ''libtorrent::alert_category_t''),
     Export ''get_timestamp'' [This] (Call ''libtorrent_alert_get_timestamp'') Catch_any (Number_result int64 int64),
     Export ''cast_to_torrent_removed_alert'' [This] (Call ''libtorrent_alert_cast_to_torrent_removed_alert'') Catch_any (Pointer_result ''libtorrent::torrent_removed_alert'')])"

definition alert_exports_4 :: class_exports where
  "alert_exports_4 = (''libtorrent::alert'', [
     Export ''cast_to_read_piece_alert'' [This] (Call ''libtorrent_alert_cast_to_read_piece_alert'') Catch_any (Pointer_result ''libtorrent::read_piece_alert''),
     Export ''cast_to_file_completed_alert'' [This] (Call ''libtorrent_alert_cast_to_file_completed_alert'') Catch_any (Pointer_result ''libtorrent::file_completed_alert''),
     Export ''cast_to_file_renamed_alert'' [This] (Call ''libtorrent_alert_cast_to_file_renamed_alert'') Catch_any (Pointer_result ''libtorrent::file_renamed_alert''),
     Export ''cast_to_file_rename_failed_alert'' [This] (Call ''libtorrent_alert_cast_to_file_rename_failed_alert'') Catch_any (Pointer_result ''libtorrent::file_rename_failed_alert''),
     Export ''cast_to_performance_alert'' [This] (Call ''libtorrent_alert_cast_to_performance_alert'') Catch_any (Pointer_result ''libtorrent::performance_alert''),
     Export ''cast_to_state_changed_alert'' [This] (Call ''libtorrent_alert_cast_to_state_changed_alert'') Catch_any (Pointer_result ''libtorrent::state_changed_alert'')])"

definition alert_exports_5 :: class_exports where
  "alert_exports_5 = (''libtorrent::alert'', [
     Export ''cast_to_tracker_error_alert'' [This] (Call ''libtorrent_alert_cast_to_tracker_error_alert'') Catch_any (Pointer_result ''libtorrent::tracker_error_alert''),
     Export ''cast_to_tracker_warning_alert'' [This] (Call ''libtorrent_alert_cast_to_tracker_warning_alert'') Catch_any (Pointer_result ''libtorrent::tracker_warning_alert''),
     Export ''cast_to_scrape_reply_alert'' [This] (Call ''libtorrent_alert_cast_to_scrape_reply_alert'') Catch_any (Pointer_result ''libtorrent::scrape_reply_alert''),
     Export ''cast_to_scrape_failed_alert'' [This] (Call ''libtorrent_alert_cast_to_scrape_failed_alert'') Catch_any (Pointer_result ''libtorrent::scrape_failed_alert''),
     Export ''cast_to_tracker_reply_alert'' [This] (Call ''libtorrent_alert_cast_to_tracker_reply_alert'') Catch_any (Pointer_result ''libtorrent::tracker_reply_alert''),
     Export ''cast_to_dht_reply_alert'' [This] (Call ''libtorrent_alert_cast_to_dht_reply_alert'') Catch_any (Pointer_result ''libtorrent::dht_reply_alert'')])"

definition alert_exports_6 :: class_exports where
  "alert_exports_6 = (''libtorrent::alert'', [
     Export ''cast_to_tracker_announce_alert'' [This] (Call ''libtorrent_alert_cast_to_tracker_announce_alert'') Catch_any (Pointer_result ''libtorrent::tracker_announce_alert''),
     Export ''cast_to_hash_failed_alert'' [This] (Call ''libtorrent_alert_cast_to_hash_failed_alert'') Catch_any (Pointer_result ''libtorrent::hash_failed_alert''),
     Export ''cast_to_peer_ban_alert'' [This] (Call ''libtorrent_alert_cast_to_peer_ban_alert'') Catch_any (Pointer_result ''libtorrent::peer_ban_alert''),
     Export ''cast_to_peer_unsnubbed_alert'' [This] (Call ''libtorrent_alert_cast_to_peer_unsnubbed_alert'') Catch_any (Pointer_result ''libtorrent::peer_unsnubbed_alert''),
     Export ''cast_to_peer_snubbed_alert'' [This] (Call ''libtorrent_alert_cast_to_peer_snubbed_alert'') Catch_any (Pointer_result ''libtorrent::peer_snubbed_alert''),
     Export ''cast_to_peer_error_alert'' [This] (Call ''libtorrent_alert_cast_to_peer_error_alert'') Catch_any (Pointer_result ''libtorrent::peer_error_alert'')])"

definition alert_exports_7 :: class_exports where
  "alert_exports_7 = (''libtorrent::alert'', [
     Export ''cast_to_peer_connect_alert'' [This] (Call ''libtorrent_alert_cast_to_peer_connect_alert'') Catch_any (Pointer_result ''libtorrent::peer_connect_alert''),
     Export ''cast_to_peer_disconnected_alert'' [This] (Call ''libtorrent_alert_cast_to_peer_disconnected_alert'') Catch_any (Pointer_result ''libtorrent::peer_disconnected_alert''),
     Export ''cast_to_invalid_request_alert'' [This] (Call ''libtorrent_alert_cast_to_invalid_request_alert'') Catch_any (Pointer_result ''libtorrent::invalid_request_alert''),
     Export ''cast_to_torrent_finished_alert'' [This] (Call ''libtorrent_alert_cast_to_torrent_finished_alert'') Catch_any (Pointer_result ''libtorrent::torrent_finished_alert''),
     Export ''cast_to_piece_finished_alert'' [This] (Call ''libtorrent_alert_cast_to_piece_finished_alert'') Catch_any (Pointer_result ''libtorrent::piece_finished_alert''),
     Export ''cast_to_request_dropped_alert'' [This] (Call ''libtorrent_alert_cast_to_request_dropped_alert'') Catch_any (Pointer_result ''libtorrent::request_dropped_alert'')])"

definition alert_exports_8 :: class_exports where
  "alert_exports_8 = (''libtorrent::alert'', [
     Export ''cast_to_block_timeout_alert'' [This] (Call ''libtorrent_alert_cast_to_block_timeout_alert'') Catch_any (Pointer_result ''libtorrent::block_timeout_alert''),
     Export ''cast_to_block_finished_alert'' [This] (Call ''libtorrent_alert_cast_to_block_finished_alert'') Catch_any (Pointer_result ''libtorrent::block_finished_alert''),
     Export ''cast_to_block_downloading_alert'' [This] (Call ''libtorrent_alert_cast_to_block_downloading_alert'') Catch_any (Pointer_result ''libtorrent::block_downloading_alert''),
     Export ''cast_to_unwanted_block_alert'' [This] (Call ''libtorrent_alert_cast_to_unwanted_block_alert'') Catch_any (Pointer_result ''libtorrent::unwanted_block_alert''),
     Export ''cast_to_storage_moved_alert'' [This] (Call ''libtorrent_alert_cast_to_storage_moved_alert'') Catch_any (Pointer_result ''libtorrent::storage_moved_alert''),
     Export ''cast_to_storage_moved_failed_alert'' [This] (Call ''libtorrent_alert_cast_to_storage_moved_failed_alert'') Catch_any (Pointer_result ''libtorrent::storage_moved_failed_alert'')])"

definition alert_exports_9 :: class_exports where
  "alert_exports_9 = (''libtorrent::alert'', [
     Export ''cast_to_torrent_deleted_alert'' [This] (Call ''libtorrent_alert_cast_to_torrent_deleted_alert'') Catch_any (Pointer_result ''libtorrent::torrent_deleted_alert''),
     Export ''cast_to_torrent_delete_failed_alert'' [This] (Call ''libtorrent_alert_cast_to_torrent_delete_failed_alert'') Catch_any (Pointer_result ''libtorrent::torrent_delete_failed_alert''),
     Export ''cast_to_save_resume_data_alert'' [This] (Call ''libtorrent_alert_cast_to_save_resume_data_alert'') Catch_any (Pointer_result ''libtorrent::save_resume_data_alert''),
     Export ''cast_to_save_resume_data_failed_alert'' [This] (Call ''libtorrent_alert_cast_to_save_resume_data_failed_alert'') Catch_any (Pointer_result ''libtorrent::save_resume_data_failed_alert''),
     Export ''cast_to_torrent_paused_alert'' [This] (Call ''libtorrent_alert_cast_to_torrent_paused_alert'') Catch_any (Pointer_result ''libtorrent::torrent_paused_alert''),
     Export ''cast_to_torrent_resumed_alert'' [This] (Call ''libtorrent_alert_cast_to_torrent_resumed_alert'') Catch_any (Pointer_result ''libtorrent::torrent_resumed_alert'')])"

definition alert_exports_10 :: class_exports where
  "alert_exports_10 = (''libtorrent::alert'', [
     Export ''cast_to_torrent_checked_alert'' [This] (Call ''libtorrent_alert_cast_to_torrent_checked_alert'') Catch_any (Pointer_result ''libtorrent::torrent_checked_alert''),
     Export ''cast_to_url_seed_alert'' [This] (Call ''libtorrent_alert_cast_to_url_seed_alert'') Catch_any (Pointer_result ''libtorrent::url_seed_alert''),
     Export ''cast_to_file_error_alert'' [This] (Call ''libtorrent_alert_cast_to_file_error_alert'') Catch_any (Pointer_result ''libtorrent::file_error_alert''),
     Export ''cast_to_metadata_failed_alert'' [This] (Call ''libtorrent_alert_cast_to_metadata_failed_alert'') Catch_any (Pointer_result ''libtorrent::metadata_failed_alert''),
     Export ''cast_to_metadata_received_alert'' [This] (Call ''libtorrent_alert_cast_to_metadata_received_alert'') Catch_any (Pointer_result ''libtorrent::metadata_received_alert''),
     Export ''cast_to_udp_error_alert'' [This] (Call ''libtorrent_alert_cast_to_udp_error_alert'') Catch_any (Pointer_result ''libtorrent::udp_error_alert'')])"

definition alert_exports_11 :: class_exports where
  "alert_exports_11 = (''libtorrent::alert'', [
     Export ''cast_to_external_ip_alert'' [This] (Call ''libtorrent_alert_cast_to_external_ip_alert'') Catch_any (Pointer_result ''libtorrent::external_ip_alert''),
     Export ''cast_to_listen_failed_alert'' [This] (Call ''libtorrent_alert_cast_to_listen_failed_alert'') Catch_any (Pointer_result ''libtorrent::listen_failed_alert''),
     Export ''cast_to_listen_succeeded_alert'' [This] (Call ''libtorrent_alert_cast_to_listen_succeeded_alert'') Catch_any (Pointer_result ''libtorrent::listen_succeeded_alert''),
     Export ''cast_to_portmap_error_alert'' [This] (Call ''libtorrent_alert_cast_to_portmap_error_alert'') Catch_any (Pointer_result ''libtorrent::portmap_error_alert''),
     Export ''cast_to_portmap_alert'' [This] (Call ''libtorrent_alert_cast_to_portmap_alert'') Catch_any (Pointer_result ''libtorrent::portmap_alert''),
     Export ''cast_to_portmap_log_alert'' [This] (Call ''libtorrent_alert_cast_to_portmap_log_alert'') Catch_any (Pointer_result ''libtorrent::portmap_log_alert'')])"

definition alert_exports_12 :: class_exports where
  "alert_exports_12 = (''libtorrent::alert'', [
     Export ''cast_to_fastresume_rejected_alert'' [This] (Call ''libtorrent_alert_cast_to_fastresume_rejected_alert'') Catch_any (Pointer_result ''libtorrent::fastresume_rejected_alert''),
     Export ''cast_to_peer_blocked_alert'' [This] (Call ''libtorrent_alert_cast_to_peer_blocked_alert'') Catch_any (Pointer_result ''libtorrent::peer_blocked_alert''),
     Export ''cast_to_dht_announce_alert'' [This] (Call ''libtorrent_alert_cast_to_dht_announce_alert'') Catch_any (Pointer_result ''libtorrent::dht_announce_alert''),
     Export ''cast_to_dht_get_peers_alert'' [This] (Call ''libtorrent_alert_cast_to_dht_get_peers_alert'') Catch_any (Pointer_result ''libtorrent::dht_get_peers_alert''),
     Export ''cast_to_cache_flushed_alert'' [This] (Call ''libtorrent_alert_cast_to_cache_flushed_alert'') Catch_any (Pointer_result ''libtorrent::cache_flushed_alert''),
     Export ''cast_to_lsd_peer_alert'' [This] (Call ''libtorrent_alert_cast_to_lsd_peer_alert'') Catch_any (Pointer_result ''libtorrent::lsd_peer_alert'')])"

definition alert_exports_13 :: class_exports where
  "alert_exports_13 = (''libtorrent::alert'', [
     Export ''cast_to_trackerid_alert'' [This] (Call ''libtorrent_alert_cast_to_trackerid_alert'') Catch_any (Pointer_result ''libtorrent::trackerid_alert''),
     Export ''cast_to_dht_bootstrap_alert'' [This] (Call ''libtorrent_alert_cast_to_dht_bootstrap_alert'') Catch_any (Pointer_result ''libtorrent::dht_bootstrap_alert''),
     Export ''cast_to_torrent_error_alert'' [This] (Call ''libtorrent_alert_cast_to_torrent_error_alert'') Catch_any (Pointer_result ''libtorrent::torrent_error_alert''),
     Export ''cast_to_torrent_need_cert_alert'' [This] (Call ''libtorrent_alert_cast_to_torrent_need_cert_alert'') Catch_any (Pointer_result ''libtorrent::torrent_need_cert_alert''),
     Export ''cast_to_incoming_connection_alert'' [This] (Call ''libtorrent_alert_cast_to_incoming_connection_alert'') Catch_any (Pointer_result ''libtorrent::incoming_connection_alert''),
     Export ''cast_to_add_torrent_alert'' [This] (Call ''libtorrent_alert_cast_to_add_torrent_alert'') Catch_any (Pointer_result ''libtorrent::add_torrent_alert'')])"

definition alert_exports_14 :: class_exports where
  "alert_exports_14 = (''libtorrent::alert'', [
     Export ''cast_to_state_update_alert'' [This] (Call ''libtorrent_alert_cast_to_state_update_alert'') Catch_any (Pointer_result ''libtorrent::state_update_alert''),
     Export ''cast_to_session_stats_alert'' [This] (Call ''libtorrent_alert_cast_to_session_stats_alert'') Catch_any (Pointer_result ''libtorrent::session_stats_alert''),
     Export ''cast_to_dht_error_alert'' [This] (Call ''libtorrent_alert_cast_to_dht_error_alert'') Catch_any (Pointer_result ''libtorrent::dht_error_alert''),
     Export ''cast_to_dht_immutable_item_alert'' [This] (Call ''libtorrent_alert_cast_to_dht_immutable_item_alert'') Catch_any (Pointer_result ''libtorrent::dht_immutable_item_alert''),
     Export ''cast_to_dht_mutable_item_alert'' [This] (Call ''libtorrent_alert_cast_to_dht_mutable_item_alert'') Catch_any (Pointer_result ''libtorrent::dht_mutable_item_alert''),
     Export ''cast_to_dht_put_alert'' [This] (Call ''libtorrent_alert_cast_to_dht_put_alert'') Catch_any (Pointer_result ''libtorrent::dht_put_alert'')])"

definition alert_exports_15 :: class_exports where
  "alert_exports_15 = (''libtorrent::alert'', [
     Export ''cast_to_i2p_alert'' [This] (Call ''libtorrent_alert_cast_to_i2p_alert'') Catch_any (Pointer_result ''libtorrent::i2p_alert''),
     Export ''cast_to_dht_outgoing_get_peers_alert'' [This] (Call ''libtorrent_alert_cast_to_dht_outgoing_get_peers_alert'') Catch_any (Pointer_result ''libtorrent::dht_outgoing_get_peers_alert''),
     Export ''cast_to_log_alert'' [This] (Call ''libtorrent_alert_cast_to_log_alert'') Catch_any (Pointer_result ''libtorrent::log_alert''),
     Export ''cast_to_torrent_log_alert'' [This] (Call ''libtorrent_alert_cast_to_torrent_log_alert'') Catch_any (Pointer_result ''libtorrent::torrent_log_alert''),
     Export ''cast_to_peer_log_alert'' [This] (Call ''libtorrent_alert_cast_to_peer_log_alert'') Catch_any (Pointer_result ''libtorrent::peer_log_alert''),
     Export ''cast_to_lsd_error_alert'' [This] (Call ''libtorrent_alert_cast_to_lsd_error_alert'') Catch_any (Pointer_result ''libtorrent::lsd_error_alert'')])"

definition alert_exports_16 :: class_exports where
  "alert_exports_16 = (''libtorrent::alert'', [
     Export ''cast_to_dht_stats_alert'' [This] (Call ''libtorrent_alert_cast_to_dht_stats_alert'') Catch_any (Pointer_result ''libtorrent::dht_stats_alert''),
     Export ''cast_to_incoming_request_alert'' [This] (Call ''libtorrent_alert_cast_to_incoming_request_alert'') Catch_any (Pointer_result ''libtorrent::incoming_request_alert''),
     Export ''cast_to_dht_log_alert'' [This] (Call ''libtorrent_alert_cast_to_dht_log_alert'') Catch_any (Pointer_result ''libtorrent::dht_log_alert''),
     Export ''cast_to_dht_pkt_alert'' [This] (Call ''libtorrent_alert_cast_to_dht_pkt_alert'') Catch_any (Pointer_result ''libtorrent::dht_pkt_alert''),
     Export ''cast_to_dht_get_peers_reply_alert'' [This] (Call ''libtorrent_alert_cast_to_dht_get_peers_reply_alert'') Catch_any (Pointer_result ''libtorrent::dht_get_peers_reply_alert''),
     Export ''cast_to_dht_direct_response_alert'' [This] (Call ''libtorrent_alert_cast_to_dht_direct_response_alert'') Catch_any (Pointer_result ''libtorrent::dht_direct_response_alert'')])"

definition alert_exports_17 :: class_exports where
  "alert_exports_17 = (''libtorrent::alert'', [
     Export ''cast_to_picker_log_alert'' [This] (Call ''libtorrent_alert_cast_to_picker_log_alert'') Catch_any (Pointer_result ''libtorrent::picker_log_alert''),
     Export ''cast_to_session_error_alert'' [This] (Call ''libtorrent_alert_cast_to_session_error_alert'') Catch_any (Pointer_result ''libtorrent::session_error_alert''),
     Export ''cast_to_dht_live_nodes_alert'' [This] (Call ''libtorrent_alert_cast_to_dht_live_nodes_alert'') Catch_any (Pointer_result ''libtorrent::dht_live_nodes_alert''),
     Export ''cast_to_session_stats_header_alert'' [This] (Call ''libtorrent_alert_cast_to_session_stats_header_alert'') Catch_any (Pointer_result ''libtorrent::session_stats_header_alert''),
     Export ''cast_to_dht_sample_infohashes_alert'' [This] (Call ''libtorrent_alert_cast_to_dht_sample_infohashes_alert'') Catch_any (Pointer_result ''libtorrent::dht_sample_infohashes_alert''),
     Export ''cast_to_block_uploaded_alert'' [This] (Call ''libtorrent_alert_cast_to_block_uploaded_alert'') Catch_any (Pointer_result ''libtorrent::block_uploaded_alert'')])"

definition alert_exports_18 :: class_exports where
  "alert_exports_18 = (''libtorrent::alert'', [
     Export ''cast_to_alerts_dropped_alert'' [This] (Call ''libtorrent_alert_cast_to_alerts_dropped_alert'') Catch_any (Pointer_result ''libtorrent::alerts_dropped_alert''),
     Export ''cast_to_socks5_alert'' [This] (Call ''libtorrent_alert_cast_to_socks5_alert'') Catch_any (Pointer_result ''libtorrent::socks5_alert''),
     Export ''cast_to_file_prio_alert'' [This] (Call ''libtorrent_alert_cast_to_file_prio_alert'') Catch_any (Pointer_result ''libtorrent::file_prio_alert''),
     Export ''cast_to_oversized_file_alert'' [This] (Call ''libtorrent_alert_cast_to_oversized_file_alert'') Catch_any (Pointer_result ''libtorrent::oversized_file_alert''),
     Export ''cast_to_torrent_conflict_alert'' [This] (Call ''libtorrent_alert_cast_to_torrent_conflict_alert'') Catch_any (Pointer_result ''libtorrent::torrent_conflict_alert''),
     Export ''cast_to_peer_info_alert'' [This] (Call ''libtorrent_alert_cast_to_peer_info_alert'') Catch_any (Pointer_result ''libtorrent::peer_info_alert'')])"

definition alert_exports_19 :: class_exports where
  "alert_exports_19 = (''libtorrent::alert'', [
     Export ''cast_to_file_progress_alert'' [This] (Call ''libtorrent_alert_cast_to_file_progress_alert'') Catch_any (Pointer_result ''libtorrent::file_progress_alert''),
     Export ''cast_to_piece_info_alert'' [This] (Call ''libtorrent_alert_cast_to_piece_info_alert'') Catch_any (Pointer_result ''libtorrent::piece_info_alert''),
     Export ''cast_to_piece_availability_alert'' [This] (Call ''libtorrent_alert_cast_to_piece_availability_alert'') Catch_any (Pointer_result ''libtorrent::piece_availability_alert''),
     Export ''cast_to_tracker_list_alert'' [This] (Call ''libtorrent_alert_cast_to_tracker_list_alert'') Catch_any (Pointer_result ''libtorrent::tracker_list_alert'')])"

definition alert_exports_20 :: class_exports where
  "alert_exports_20 = (''libtorrent::alert'', [
     Export ''name'' [Number int32] (Call ''libtorrent::alert_name'') Catch_any Chars_result])"

definition global_exports_16 :: class_exports where
  "global_exports_16 = ('''', [
     Export ''user_alert_id_get'' [] (Constant ''libtorrent::user_alert_id'') Catch_any (Number_result int32 int32),
     Export ''num_alert_types_get'' [] (Constant ''libtorrent::num_alert_types'') Catch_any (Number_result int32 int32),
     Export ''abi_alert_count_get'' [] (Constant ''libtorrent::abi_alert_count'') Catch_any (Number_result int32 int32),
     Export ''alert_priority_normal_get'' [] (Constant ''libtorrent::alert_priority::normal'') Catch_any (Number_result (Declared ''libtorrent::alert_priority'') int32)])"

definition dht_routing_bucket_exports :: class_exports where
  "dht_routing_bucket_exports = (''libtorrent::dht_routing_bucket'', [
     Export ''num_nodes_set'' [This, Number int32] (Set_field ''num_nodes'') Catch_any Void,
     Export ''num_nodes_get'' [This] (Get_field ''num_nodes'') Catch_any (Number_result int32 int32),
     Export ''num_replacements_set'' [This, Number int32] (Set_field ''num_replacements'') Catch_any Void,
     Export ''num_replacements_get'' [This] (Get_field ''num_replacements'') Catch_any (Number_result int32 int32),
     Export ''last_active_set'' [This, Number int32] (Set_field ''last_active'') Catch_any Void,
     Export ''last_active_get'' [This] (Get_field ''last_active'') Catch_any (Number_result int32 int32),
     Export ''new'' [] New Catch_any (Pointer_result ''libtorrent::dht_routing_bucket''),
     Export ''delete'' [This] Delete Catch_any Void])"

definition torrent_alert_exports :: class_exports where
  "torrent_alert_exports = (''libtorrent::torrent_alert'', [
     Export ''message'' [This] (Method ''message'') Catch_any String_result,
     Export ''handle_set'' [This, Pointer ''libtorrent::torrent_handle''] (Set_field ''handle'') Catch_any Void,
     Export ''handle_get'' [This] (Field_address ''handle'') Catch_any (Pointer_result ''libtorrent::torrent_handle''),
     Export ''delete'' [This] Delete Catch_any Void])"

definition peer_alert_exports :: class_exports where
  "peer_alert_exports = (''libtorrent::peer_alert'', [
     Export ''message'' [This] (Method ''message'') Catch_any String_result,
     Export ''pid_set'' [This, Pointer ''libtorrent::peer_id''] (Set_field ''pid'') Catch_any Void,
     Export ''pid_get'' [This] (Field_address ''pid'') Catch_any (Pointer_result ''libtorrent::peer_id''),
     Export ''get_endpoint'' [This] (Call ''libtorrent_peer_alert_get_endpoint'') Catch_any (New_result ''libtorrent::tcp::endpoint''),
     Export ''delete'' [This] Delete Catch_any Void])"

definition tracker_alert_exports :: class_exports where
  "tracker_alert_exports = (''libtorrent::tracker_alert'', [
     Export ''message'' [This] (Method ''message'') Catch_any String_result,
     Export ''tracker_url'' [This] (Method ''tracker_url'') Catch_any Chars_result,
     Export ''version_set'' [This, Number (Declared ''libtorrent::protocol_version'')] (Set_field ''version'') Catch_any Void,
     Export ''version_get'' [This] (Get_field ''version'') Catch_any (Number_result (Declared ''libtorrent::protocol_version'') int32),
     Export ''get_local_endpoint'' [This] (Call ''libtorrent_tracker_alert_get_local_endpoint'') Catch_any (New_result ''libtorrent::tcp::endpoint''),
     Export ''delete'' [This] Delete Catch_any Void])"

definition torrent_removed_alert_exports :: class_exports where
  "torrent_removed_alert_exports = (''libtorrent::torrent_removed_alert'', [
     Export ''priority_get'' [] (Class_constant ''priority'') Catch_any (Number_result (Declared ''libtorrent::alert_priority'') int32),
     Export ''alert_type_get'' [] (Class_constant ''alert_type'') Catch_any (Number_result int32 int32),
     Export ''type'' [This] (Method ''type'') Catch_any (Number_result int32 int32),
     Export ''category'' [This] (Method ''category'') Catch_any (New_result ''libtorrent::alert_category_t''),
     Export ''what'' [This] (Method ''what'') Catch_any Chars_result,
     Export ''static_category_get'' [] (Class_static ''static_category'') Catch_any (Pointer_result ''libtorrent::flags::bitfield_flag< unsigned int,libtorrent::alert_category_tag >''),
     Export ''message'' [This] (Method ''message'') Catch_any String_result,
     Export ''info_hashes_set'' [This, Pointer ''libtorrent::info_hash_t''] (Set_field ''info_hashes'') Catch_any Void])"

definition torrent_removed_alert_exports_2 :: class_exports where
  "torrent_removed_alert_exports_2 = (''libtorrent::torrent_removed_alert'', [
     Export ''info_hashes_get'' [This] (Field_address ''info_hashes'') Catch_any (Pointer_result ''libtorrent::info_hash_t''),
     Export ''userdata_set'' [This, Pointer ''libtorrent::client_data_t''] (Set_field ''userdata'') Catch_any Void,
     Export ''userdata_get'' [This] (Field_address ''userdata'') Catch_any (Pointer_result ''libtorrent::client_data_t''),
     Export ''delete'' [This] Delete Catch_any Void])"

definition read_piece_alert_exports :: class_exports where
  "read_piece_alert_exports = (''libtorrent::read_piece_alert'', [
     Export ''priority_get'' [] (Class_constant ''priority'') Catch_any (Number_result (Declared ''libtorrent::alert_priority'') int32),
     Export ''alert_type_get'' [] (Class_constant ''alert_type'') Catch_any (Number_result int32 int32),
     Export ''type'' [This] (Method ''type'') Catch_any (Number_result int32 int32),
     Export ''category'' [This] (Method ''category'') Catch_any (New_result ''libtorrent::alert_category_t''),
     Export ''what'' [This] (Method ''what'') Catch_any Chars_result,
     Export ''static_category_get'' [] (Class_static ''static_category'') Catch_any (Pointer_result ''libtorrent::flags::bitfield_flag< unsigned int,libtorrent::alert_category_tag >''),
     Export ''message'' [This] (Method ''message'') Catch_any String_result,
     Export ''error_get'' [This] (Field_address ''error'') Catch_any (Pointer_result ''libtorrent::error_code'')])"

definition read_piece_alert_exports_2 :: class_exports where
  "read_piece_alert_exports_2 = (''libtorrent::read_piece_alert'', [
     Export ''piece_get'' [This] (Get_field ''piece'') Catch_any (Number_result int32 int32),
     Export ''size_get'' [This] (Get_field ''size'') Catch_any (Number_result int32 int32),
     Export ''buffer_ptr'' [This] (Call ''libtorrent_read_piece_alert_buffer_ptr'') Catch_any (Number_result int64 int64),
     Export ''delete'' [This] Delete Catch_any Void])"

definition file_completed_alert_exports :: class_exports where
  "file_completed_alert_exports = (''libtorrent::file_completed_alert'', [
     Export ''priority_get'' [] (Class_constant ''priority'') Catch_any (Number_result (Declared ''libtorrent::alert_priority'') int32),
     Export ''alert_type_get'' [] (Class_constant ''alert_type'') Catch_any (Number_result int32 int32),
     Export ''type'' [This] (Method ''type'') Catch_any (Number_result int32 int32),
     Export ''category'' [This] (Method ''category'') Catch_any (New_result ''libtorrent::alert_category_t''),
     Export ''what'' [This] (Method ''what'') Catch_any Chars_result,
     Export ''static_category_get'' [] (Class_static ''static_category'') Catch_any (Pointer_result ''libtorrent::flags::bitfield_flag< unsigned int,libtorrent::alert_category_tag >''),
     Export ''message'' [This] (Method ''message'') Catch_any String_result])"

definition file_completed_alert_exports_2 :: class_exports where
  "file_completed_alert_exports_2 = (''libtorrent::file_completed_alert'', [
     Export ''index_get'' [This] (Get_field ''index'') Catch_any (Number_result int32 int32),
     Export ''delete'' [This] Delete Catch_any Void])"

definition file_renamed_alert_exports :: class_exports where
  "file_renamed_alert_exports = (''libtorrent::file_renamed_alert'', [
     Export ''priority_get'' [] (Class_constant ''priority'') Catch_any (Number_result (Declared ''libtorrent::alert_priority'') int32),
     Export ''alert_type_get'' [] (Class_constant ''alert_type'') Catch_any (Number_result int32 int32),
     Export ''type'' [This] (Method ''type'') Catch_any (Number_result int32 int32),
     Export ''category'' [This] (Method ''category'') Catch_any (New_result ''libtorrent::alert_category_t''),
     Export ''what'' [This] (Method ''what'') Catch_any Chars_result,
     Export ''static_category_get'' [] (Class_static ''static_category'') Catch_any (Pointer_result ''libtorrent::flags::bitfield_flag< unsigned int,libtorrent::alert_category_tag >''),
     Export ''message'' [This] (Method ''message'') Catch_any String_result])"

definition file_renamed_alert_exports_2 :: class_exports where
  "file_renamed_alert_exports_2 = (''libtorrent::file_renamed_alert'', [
     Export ''new_name'' [This] (Method ''new_name'') Catch_any Chars_result,
     Export ''old_name'' [This] (Method ''old_name'') Catch_any Chars_result,
     Export ''index_get'' [This] (Get_field ''index'') Catch_any (Number_result int32 int32),
     Export ''delete'' [This] Delete Catch_any Void])"

definition file_rename_failed_alert_exports :: class_exports where
  "file_rename_failed_alert_exports = (''libtorrent::file_rename_failed_alert'', [
     Export ''priority_get'' [] (Class_constant ''priority'') Catch_any (Number_result (Declared ''libtorrent::alert_priority'') int32),
     Export ''alert_type_get'' [] (Class_constant ''alert_type'') Catch_any (Number_result int32 int32),
     Export ''type'' [This] (Method ''type'') Catch_any (Number_result int32 int32),
     Export ''category'' [This] (Method ''category'') Catch_any (New_result ''libtorrent::alert_category_t''),
     Export ''what'' [This] (Method ''what'') Catch_any Chars_result,
     Export ''static_category_get'' [] (Class_static ''static_category'') Catch_any (Pointer_result ''libtorrent::flags::bitfield_flag< unsigned int,libtorrent::alert_category_tag >''),
     Export ''message'' [This] (Method ''message'') Catch_any String_result])"

definition file_rename_failed_alert_exports_2 :: class_exports where
  "file_rename_failed_alert_exports_2 = (''libtorrent::file_rename_failed_alert'', [
     Export ''index_get'' [This] (Get_field ''index'') Catch_any (Number_result int32 int32),
     Export ''error_get'' [This] (Field_address ''error'') Catch_any (Pointer_result ''libtorrent::error_code''),
     Export ''delete'' [This] Delete Catch_any Void])"

definition performance_alert_exports :: class_exports where
  "performance_alert_exports = (''libtorrent::performance_alert'', [
     Export ''too_few_outgoing_ports_get'' [] (Class_constant ''too_few_outgoing_ports'') Catch_any (Number_result (Declared ''libtorrent::performance_alert::performance_warning_t'') int32),
     Export ''priority_get'' [] (Class_constant ''priority'') Catch_any (Number_result (Declared ''libtorrent::alert_priority'') int32),
     Export ''alert_type_get'' [] (Class_constant ''alert_type'') Catch_any (Number_result int32 int32),
     Export ''type'' [This] (Method ''type'') Catch_any (Number_result int32 int32),
     Export ''category'' [This] (Method ''category'') Catch_any (New_result ''libtorrent::alert_category_t''),
     Export ''what'' [This] (Method ''what'') Catch_any Chars_result,
     Export ''static_category_get'' [] (Class_static ''static_category'') Catch_any (Pointer_result ''libtorrent::flags::bitfield_flag< unsigned int,libtorrent::alert_category_tag >''),
     Export ''message'' [This] (Method ''message'') Catch_any String_result])"

definition performance_alert_exports_2 :: class_exports where
  "performance_alert_exports_2 = (''libtorrent::performance_alert'', [
     Export ''warning_code_get'' [This] (Get_field ''warning_code'') Catch_any (Number_result (Declared ''libtorrent::performance_alert::performance_warning_t'') int32),
     Export ''delete'' [This] Delete Catch_any Void])"

definition state_changed_alert_exports :: class_exports where
  "state_changed_alert_exports = (''libtorrent::state_changed_alert'', [
     Export ''priority_get'' [] (Class_constant ''priority'') Catch_any (Number_result (Declared ''libtorrent::alert_priority'') int32),
     Export ''alert_type_get'' [] (Class_constant ''alert_type'') Catch_any (Number_result int32 int32),
     Export ''type'' [This] (Method ''type'') Catch_any (Number_result int32 int32),
     Export ''category'' [This] (Method ''category'') Catch_any (New_result ''libtorrent::alert_category_t''),
     Export ''what'' [This] (Method ''what'') Catch_any Chars_result,
     Export ''static_category_get'' [] (Class_static ''static_category'') Catch_any (Pointer_result ''libtorrent::flags::bitfield_flag< unsigned int,libtorrent::alert_category_tag >''),
     Export ''message'' [This] (Method ''message'') Catch_any String_result,
     Export ''state_get'' [This] (Get_field ''state'') Catch_any (Number_result (Declared ''libtorrent::torrent_status::state_t'') int32)])"

definition state_changed_alert_exports_2 :: class_exports where
  "state_changed_alert_exports_2 = (''libtorrent::state_changed_alert'', [
     Export ''prev_state_get'' [This] (Get_field ''prev_state'') Catch_any (Number_result (Declared ''libtorrent::torrent_status::state_t'') int32),
     Export ''delete'' [This] Delete Catch_any Void])"

definition tracker_error_alert_exports :: class_exports where
  "tracker_error_alert_exports = (''libtorrent::tracker_error_alert'', [
     Export ''priority_get'' [] (Class_constant ''priority'') Catch_any (Number_result (Declared ''libtorrent::alert_priority'') int32),
     Export ''alert_type_get'' [] (Class_constant ''alert_type'') Catch_any (Number_result int32 int32),
     Export ''type'' [This] (Method ''type'') Catch_any (Number_result int32 int32),
     Export ''category'' [This] (Method ''category'') Catch_any (New_result ''libtorrent::alert_category_t''),
     Export ''what'' [This] (Method ''what'') Catch_any Chars_result,
     Export ''static_category_get'' [] (Class_static ''static_category'') Catch_any (Pointer_result ''libtorrent::flags::bitfield_flag< unsigned int,libtorrent::alert_category_tag >''),
     Export ''message'' [This] (Method ''message'') Catch_any String_result,
     Export ''times_in_row_get'' [This] (Get_field ''times_in_row'') Catch_any (Number_result int32 int32)])"

definition tracker_error_alert_exports_2 :: class_exports where
  "tracker_error_alert_exports_2 = (''libtorrent::tracker_error_alert'', [
     Export ''error_get'' [This] (Field_address ''error'') Catch_any (Pointer_result ''libtorrent::error_code''),
     Export ''op_set'' [This, Number (Declared ''libtorrent::operation_t'')] (Set_field ''op'') Catch_any Void,
     Export ''op_get'' [This] (Get_field ''op'') Catch_any (Number_result (Declared ''libtorrent::operation_t'') int32),
     Export ''failure_reason'' [This] (Method ''failure_reason'') Catch_any Chars_result,
     Export ''error_message'' [This] (Method ''error_message'') Catch_any Chars_result,
     Export ''delete'' [This] Delete Catch_any Void])"

definition tracker_warning_alert_exports :: class_exports where
  "tracker_warning_alert_exports = (''libtorrent::tracker_warning_alert'', [
     Export ''priority_get'' [] (Class_constant ''priority'') Catch_any (Number_result (Declared ''libtorrent::alert_priority'') int32),
     Export ''alert_type_get'' [] (Class_constant ''alert_type'') Catch_any (Number_result int32 int32),
     Export ''type'' [This] (Method ''type'') Catch_any (Number_result int32 int32),
     Export ''category'' [This] (Method ''category'') Catch_any (New_result ''libtorrent::alert_category_t''),
     Export ''what'' [This] (Method ''what'') Catch_any Chars_result,
     Export ''static_category_get'' [] (Class_static ''static_category'') Catch_any (Pointer_result ''libtorrent::flags::bitfield_flag< unsigned int,libtorrent::alert_category_tag >''),
     Export ''message'' [This] (Method ''message'') Catch_any String_result])"

definition tracker_warning_alert_exports_2 :: class_exports where
  "tracker_warning_alert_exports_2 = (''libtorrent::tracker_warning_alert'', [
     Export ''warning_message'' [This] (Method ''warning_message'') Catch_any Chars_result,
     Export ''delete'' [This] Delete Catch_any Void])"

definition scrape_reply_alert_exports :: class_exports where
  "scrape_reply_alert_exports = (''libtorrent::scrape_reply_alert'', [
     Export ''priority_get'' [] (Class_constant ''priority'') Catch_any (Number_result (Declared ''libtorrent::alert_priority'') int32),
     Export ''alert_type_get'' [] (Class_constant ''alert_type'') Catch_any (Number_result int32 int32),
     Export ''type'' [This] (Method ''type'') Catch_any (Number_result int32 int32),
     Export ''category'' [This] (Method ''category'') Catch_any (New_result ''libtorrent::alert_category_t''),
     Export ''what'' [This] (Method ''what'') Catch_any Chars_result,
     Export ''static_category_get'' [] (Class_static ''static_category'') Catch_any (Pointer_result ''libtorrent::flags::bitfield_flag< unsigned int,libtorrent::alert_category_tag >''),
     Export ''message'' [This] (Method ''message'') Catch_any String_result,
     Export ''incomplete_get'' [This] (Get_field ''incomplete'') Catch_any (Number_result int32 int32)])"

definition scrape_reply_alert_exports_2 :: class_exports where
  "scrape_reply_alert_exports_2 = (''libtorrent::scrape_reply_alert'', [
     Export ''complete_get'' [This] (Get_field ''complete'') Catch_any (Number_result int32 int32),
     Export ''delete'' [This] Delete Catch_any Void])"

definition scrape_failed_alert_exports :: class_exports where
  "scrape_failed_alert_exports = (''libtorrent::scrape_failed_alert'', [
     Export ''priority_get'' [] (Class_constant ''priority'') Catch_any (Number_result (Declared ''libtorrent::alert_priority'') int32),
     Export ''alert_type_get'' [] (Class_constant ''alert_type'') Catch_any (Number_result int32 int32),
     Export ''type'' [This] (Method ''type'') Catch_any (Number_result int32 int32),
     Export ''category'' [This] (Method ''category'') Catch_any (New_result ''libtorrent::alert_category_t''),
     Export ''what'' [This] (Method ''what'') Catch_any Chars_result,
     Export ''static_category_get'' [] (Class_static ''static_category'') Catch_any (Pointer_result ''libtorrent::flags::bitfield_flag< unsigned int,libtorrent::alert_category_tag >''),
     Export ''message'' [This] (Method ''message'') Catch_any String_result,
     Export ''error_get'' [This] (Field_address ''error'') Catch_any (Pointer_result ''libtorrent::error_code'')])"

definition scrape_failed_alert_exports_2 :: class_exports where
  "scrape_failed_alert_exports_2 = (''libtorrent::scrape_failed_alert'', [
     Export ''error_message'' [This] (Method ''error_message'') Catch_any Chars_result,
     Export ''delete'' [This] Delete Catch_any Void])"

definition tracker_reply_alert_exports :: class_exports where
  "tracker_reply_alert_exports = (''libtorrent::tracker_reply_alert'', [
     Export ''priority_get'' [] (Class_constant ''priority'') Catch_any (Number_result (Declared ''libtorrent::alert_priority'') int32),
     Export ''alert_type_get'' [] (Class_constant ''alert_type'') Catch_any (Number_result int32 int32),
     Export ''type'' [This] (Method ''type'') Catch_any (Number_result int32 int32),
     Export ''category'' [This] (Method ''category'') Catch_any (New_result ''libtorrent::alert_category_t''),
     Export ''what'' [This] (Method ''what'') Catch_any Chars_result,
     Export ''static_category_get'' [] (Class_static ''static_category'') Catch_any (Pointer_result ''libtorrent::flags::bitfield_flag< unsigned int,libtorrent::alert_category_tag >''),
     Export ''message'' [This] (Method ''message'') Catch_any String_result,
     Export ''num_peers_get'' [This] (Get_field ''num_peers'') Catch_any (Number_result int32 int32)])"

definition tracker_reply_alert_exports_2 :: class_exports where
  "tracker_reply_alert_exports_2 = (''libtorrent::tracker_reply_alert'', [
     Export ''delete'' [This] Delete Catch_any Void])"

definition dht_reply_alert_exports :: class_exports where
  "dht_reply_alert_exports = (''libtorrent::dht_reply_alert'', [
     Export ''priority_get'' [] (Class_constant ''priority'') Catch_any (Number_result (Declared ''libtorrent::alert_priority'') int32),
     Export ''alert_type_get'' [] (Class_constant ''alert_type'') Catch_any (Number_result int32 int32),
     Export ''type'' [This] (Method ''type'') Catch_any (Number_result int32 int32),
     Export ''category'' [This] (Method ''category'') Catch_any (New_result ''libtorrent::alert_category_t''),
     Export ''what'' [This] (Method ''what'') Catch_any Chars_result,
     Export ''static_category_get'' [] (Class_static ''static_category'') Catch_any (Pointer_result ''libtorrent::flags::bitfield_flag< unsigned int,libtorrent::alert_category_tag >''),
     Export ''message'' [This] (Method ''message'') Catch_any String_result,
     Export ''num_peers_get'' [This] (Get_field ''num_peers'') Catch_any (Number_result int32 int32)])"

definition dht_reply_alert_exports_2 :: class_exports where
  "dht_reply_alert_exports_2 = (''libtorrent::dht_reply_alert'', [
     Export ''delete'' [This] Delete Catch_any Void])"

definition tracker_announce_alert_exports :: class_exports where
  "tracker_announce_alert_exports = (''libtorrent::tracker_announce_alert'', [
     Export ''priority_get'' [] (Class_constant ''priority'') Catch_any (Number_result (Declared ''libtorrent::alert_priority'') int32),
     Export ''alert_type_get'' [] (Class_constant ''alert_type'') Catch_any (Number_result int32 int32),
     Export ''type'' [This] (Method ''type'') Catch_any (Number_result int32 int32),
     Export ''category'' [This] (Method ''category'') Catch_any (New_result ''libtorrent::alert_category_t''),
     Export ''what'' [This] (Method ''what'') Catch_any Chars_result,
     Export ''static_category_get'' [] (Class_static ''static_category'') Catch_any (Pointer_result ''libtorrent::flags::bitfield_flag< unsigned int,libtorrent::alert_category_tag >''),
     Export ''message'' [This] (Method ''message'') Catch_any String_result,
     Export ''event_get'' [This] (Get_field ''event'') Catch_any (Number_result (Declared ''libtorrent::event_t'') int32)])"

definition tracker_announce_alert_exports_2 :: class_exports where
  "tracker_announce_alert_exports_2 = (''libtorrent::tracker_announce_alert'', [
     Export ''delete'' [This] Delete Catch_any Void])"

definition hash_failed_alert_exports :: class_exports where
  "hash_failed_alert_exports = (''libtorrent::hash_failed_alert'', [
     Export ''priority_get'' [] (Class_constant ''priority'') Catch_any (Number_result (Declared ''libtorrent::alert_priority'') int32),
     Export ''alert_type_get'' [] (Class_constant ''alert_type'') Catch_any (Number_result int32 int32),
     Export ''type'' [This] (Method ''type'') Catch_any (Number_result int32 int32),
     Export ''category'' [This] (Method ''category'') Catch_any (New_result ''libtorrent::alert_category_t''),
     Export ''what'' [This] (Method ''what'') Catch_any Chars_result,
     Export ''static_category_get'' [] (Class_static ''static_category'') Catch_any (Pointer_result ''libtorrent::flags::bitfield_flag< unsigned int,libtorrent::alert_category_tag >''),
     Export ''message'' [This] (Method ''message'') Catch_any String_result])"

definition hash_failed_alert_exports_2 :: class_exports where
  "hash_failed_alert_exports_2 = (''libtorrent::hash_failed_alert'', [
     Export ''piece_index_get'' [This] (Get_field ''piece_index'') Catch_any (Number_result int32 int32),
     Export ''delete'' [This] Delete Catch_any Void])"

definition peer_ban_alert_exports :: class_exports where
  "peer_ban_alert_exports = (''libtorrent::peer_ban_alert'', [
     Export ''priority_get'' [] (Class_constant ''priority'') Catch_any (Number_result (Declared ''libtorrent::alert_priority'') int32),
     Export ''alert_type_get'' [] (Class_constant ''alert_type'') Catch_any (Number_result int32 int32),
     Export ''type'' [This] (Method ''type'') Catch_any (Number_result int32 int32),
     Export ''category'' [This] (Method ''category'') Catch_any (New_result ''libtorrent::alert_category_t''),
     Export ''what'' [This] (Method ''what'') Catch_any Chars_result,
     Export ''static_category_get'' [] (Class_static ''static_category'') Catch_any (Pointer_result ''libtorrent::flags::bitfield_flag< unsigned int,libtorrent::alert_category_tag >''),
     Export ''message'' [This] (Method ''message'') Catch_any String_result])"

definition peer_ban_alert_exports_2 :: class_exports where
  "peer_ban_alert_exports_2 = (''libtorrent::peer_ban_alert'', [
     Export ''delete'' [This] Delete Catch_any Void])"

definition peer_unsnubbed_alert_exports :: class_exports where
  "peer_unsnubbed_alert_exports = (''libtorrent::peer_unsnubbed_alert'', [
     Export ''priority_get'' [] (Class_constant ''priority'') Catch_any (Number_result (Declared ''libtorrent::alert_priority'') int32),
     Export ''alert_type_get'' [] (Class_constant ''alert_type'') Catch_any (Number_result int32 int32),
     Export ''type'' [This] (Method ''type'') Catch_any (Number_result int32 int32),
     Export ''category'' [This] (Method ''category'') Catch_any (New_result ''libtorrent::alert_category_t''),
     Export ''what'' [This] (Method ''what'') Catch_any Chars_result,
     Export ''static_category_get'' [] (Class_static ''static_category'') Catch_any (Pointer_result ''libtorrent::flags::bitfield_flag< unsigned int,libtorrent::alert_category_tag >''),
     Export ''message'' [This] (Method ''message'') Catch_any String_result])"

definition peer_unsnubbed_alert_exports_2 :: class_exports where
  "peer_unsnubbed_alert_exports_2 = (''libtorrent::peer_unsnubbed_alert'', [
     Export ''delete'' [This] Delete Catch_any Void])"

definition peer_snubbed_alert_exports :: class_exports where
  "peer_snubbed_alert_exports = (''libtorrent::peer_snubbed_alert'', [
     Export ''priority_get'' [] (Class_constant ''priority'') Catch_any (Number_result (Declared ''libtorrent::alert_priority'') int32),
     Export ''alert_type_get'' [] (Class_constant ''alert_type'') Catch_any (Number_result int32 int32),
     Export ''type'' [This] (Method ''type'') Catch_any (Number_result int32 int32),
     Export ''category'' [This] (Method ''category'') Catch_any (New_result ''libtorrent::alert_category_t''),
     Export ''what'' [This] (Method ''what'') Catch_any Chars_result,
     Export ''static_category_get'' [] (Class_static ''static_category'') Catch_any (Pointer_result ''libtorrent::flags::bitfield_flag< unsigned int,libtorrent::alert_category_tag >''),
     Export ''message'' [This] (Method ''message'') Catch_any String_result])"

definition peer_snubbed_alert_exports_2 :: class_exports where
  "peer_snubbed_alert_exports_2 = (''libtorrent::peer_snubbed_alert'', [
     Export ''delete'' [This] Delete Catch_any Void])"

definition peer_error_alert_exports :: class_exports where
  "peer_error_alert_exports = (''libtorrent::peer_error_alert'', [
     Export ''priority_get'' [] (Class_constant ''priority'') Catch_any (Number_result (Declared ''libtorrent::alert_priority'') int32),
     Export ''alert_type_get'' [] (Class_constant ''alert_type'') Catch_any (Number_result int32 int32),
     Export ''type'' [This] (Method ''type'') Catch_any (Number_result int32 int32),
     Export ''category'' [This] (Method ''category'') Catch_any (New_result ''libtorrent::alert_category_t''),
     Export ''what'' [This] (Method ''what'') Catch_any Chars_result,
     Export ''static_category_get'' [] (Class_static ''static_category'') Catch_any (Pointer_result ''libtorrent::flags::bitfield_flag< unsigned int,libtorrent::alert_category_tag >''),
     Export ''message'' [This] (Method ''message'') Catch_any String_result,
     Export ''op_set'' [This, Number (Declared ''libtorrent::operation_t'')] (Set_field ''op'') Catch_any Void])"

definition peer_error_alert_exports_2 :: class_exports where
  "peer_error_alert_exports_2 = (''libtorrent::peer_error_alert'', [
     Export ''op_get'' [This] (Get_field ''op'') Catch_any (Number_result (Declared ''libtorrent::operation_t'') int32),
     Export ''error_get'' [This] (Field_address ''error'') Catch_any (Pointer_result ''libtorrent::error_code''),
     Export ''delete'' [This] Delete Catch_any Void])"

definition peer_connect_alert_exports :: class_exports where
  "peer_connect_alert_exports = (''libtorrent::peer_connect_alert'', [
     Export ''priority_get'' [] (Class_constant ''priority'') Catch_any (Number_result (Declared ''libtorrent::alert_priority'') int32),
     Export ''alert_type_get'' [] (Class_constant ''alert_type'') Catch_any (Number_result int32 int32),
     Export ''type'' [This] (Method ''type'') Catch_any (Number_result int32 int32),
     Export ''category'' [This] (Method ''category'') Catch_any (New_result ''libtorrent::alert_category_t''),
     Export ''what'' [This] (Method ''what'') Catch_any Chars_result,
     Export ''static_category_get'' [] (Class_static ''static_category'') Catch_any (Pointer_result ''libtorrent::flags::bitfield_flag< unsigned int,libtorrent::alert_category_tag >''),
     Export ''message'' [This] (Method ''message'') Catch_any String_result,
     Export ''direction_set'' [This, Number (Declared ''libtorrent::peer_connect_alert::direction_t'')] (Set_field ''direction'') Catch_any Void])"

definition peer_connect_alert_exports_2 :: class_exports where
  "peer_connect_alert_exports_2 = (''libtorrent::peer_connect_alert'', [
     Export ''direction_get'' [This] (Get_field ''direction'') Catch_any (Number_result (Declared ''libtorrent::peer_connect_alert::direction_t'') int32),
     Export ''socket_type_set'' [This, Number (Declared ''libtorrent::socket_type_t'')] (Set_field ''socket_type'') Catch_any Void,
     Export ''socket_type_get'' [This] (Get_field ''socket_type'') Catch_any (Number_result (Declared ''libtorrent::socket_type_t'') int32),
     Export ''delete'' [This] Delete Catch_any Void])"

definition peer_disconnected_alert_exports :: class_exports where
  "peer_disconnected_alert_exports = (''libtorrent::peer_disconnected_alert'', [
     Export ''priority_get'' [] (Class_constant ''priority'') Catch_any (Number_result (Declared ''libtorrent::alert_priority'') int32),
     Export ''alert_type_get'' [] (Class_constant ''alert_type'') Catch_any (Number_result int32 int32),
     Export ''type'' [This] (Method ''type'') Catch_any (Number_result int32 int32),
     Export ''category'' [This] (Method ''category'') Catch_any (New_result ''libtorrent::alert_category_t''),
     Export ''what'' [This] (Method ''what'') Catch_any Chars_result,
     Export ''static_category_get'' [] (Class_static ''static_category'') Catch_any (Pointer_result ''libtorrent::flags::bitfield_flag< unsigned int,libtorrent::alert_category_tag >''),
     Export ''message'' [This] (Method ''message'') Catch_any String_result,
     Export ''socket_type_get'' [This] (Get_field ''socket_type'') Catch_any (Number_result (Declared ''libtorrent::socket_type_t'') int32)])"

definition peer_disconnected_alert_exports_2 :: class_exports where
  "peer_disconnected_alert_exports_2 = (''libtorrent::peer_disconnected_alert'', [
     Export ''op_get'' [This] (Get_field ''op'') Catch_any (Number_result (Declared ''libtorrent::operation_t'') int32),
     Export ''error_get'' [This] (Field_address ''error'') Catch_any (Pointer_result ''libtorrent::error_code''),
     Export ''reason_get'' [This] (Get_field ''reason'') Catch_any (Number_result (Declared ''libtorrent::close_reason_t'') int32),
     Export ''delete'' [This] Delete Catch_any Void])"

definition invalid_request_alert_exports :: class_exports where
  "invalid_request_alert_exports = (''libtorrent::invalid_request_alert'', [
     Export ''priority_get'' [] (Class_constant ''priority'') Catch_any (Number_result (Declared ''libtorrent::alert_priority'') int32),
     Export ''alert_type_get'' [] (Class_constant ''alert_type'') Catch_any (Number_result int32 int32),
     Export ''type'' [This] (Method ''type'') Catch_any (Number_result int32 int32),
     Export ''category'' [This] (Method ''category'') Catch_any (New_result ''libtorrent::alert_category_t''),
     Export ''what'' [This] (Method ''what'') Catch_any Chars_result,
     Export ''static_category_get'' [] (Class_static ''static_category'') Catch_any (Pointer_result ''libtorrent::flags::bitfield_flag< unsigned int,libtorrent::alert_category_tag >''),
     Export ''message'' [This] (Method ''message'') Catch_any String_result,
     Export ''request_get'' [This] (Field_address ''request'') Catch_any (Pointer_result ''libtorrent::peer_request'')])"

definition invalid_request_alert_exports_2 :: class_exports where
  "invalid_request_alert_exports_2 = (''libtorrent::invalid_request_alert'', [
     Export ''we_have_get'' [This] (Get_field ''we_have'') Catch_any Boolean_result,
     Export ''peer_interested_get'' [This] (Get_field ''peer_interested'') Catch_any Boolean_result,
     Export ''withheld_get'' [This] (Get_field ''withheld'') Catch_any Boolean_result,
     Export ''delete'' [This] Delete Catch_any Void])"

definition torrent_finished_alert_exports :: class_exports where
  "torrent_finished_alert_exports = (''libtorrent::torrent_finished_alert'', [
     Export ''priority_get'' [] (Class_constant ''priority'') Catch_any (Number_result (Declared ''libtorrent::alert_priority'') int32),
     Export ''alert_type_get'' [] (Class_constant ''alert_type'') Catch_any (Number_result int32 int32),
     Export ''type'' [This] (Method ''type'') Catch_any (Number_result int32 int32),
     Export ''category'' [This] (Method ''category'') Catch_any (New_result ''libtorrent::alert_category_t''),
     Export ''what'' [This] (Method ''what'') Catch_any Chars_result,
     Export ''static_category_get'' [] (Class_static ''static_category'') Catch_any (Pointer_result ''libtorrent::flags::bitfield_flag< unsigned int,libtorrent::alert_category_tag >''),
     Export ''message'' [This] (Method ''message'') Catch_any String_result])"

definition torrent_finished_alert_exports_2 :: class_exports where
  "torrent_finished_alert_exports_2 = (''libtorrent::torrent_finished_alert'', [
     Export ''delete'' [This] Delete Catch_any Void])"

definition piece_finished_alert_exports :: class_exports where
  "piece_finished_alert_exports = (''libtorrent::piece_finished_alert'', [
     Export ''priority_get'' [] (Class_constant ''priority'') Catch_any (Number_result (Declared ''libtorrent::alert_priority'') int32),
     Export ''alert_type_get'' [] (Class_constant ''alert_type'') Catch_any (Number_result int32 int32),
     Export ''type'' [This] (Method ''type'') Catch_any (Number_result int32 int32),
     Export ''category'' [This] (Method ''category'') Catch_any (New_result ''libtorrent::alert_category_t''),
     Export ''what'' [This] (Method ''what'') Catch_any Chars_result,
     Export ''static_category_get'' [] (Class_static ''static_category'') Catch_any (Pointer_result ''libtorrent::flags::bitfield_flag< unsigned int,libtorrent::alert_category_tag >''),
     Export ''message'' [This] (Method ''message'') Catch_any String_result])"

definition piece_finished_alert_exports_2 :: class_exports where
  "piece_finished_alert_exports_2 = (''libtorrent::piece_finished_alert'', [
     Export ''piece_index_get'' [This] (Get_field ''piece_index'') Catch_any (Number_result int32 int32),
     Export ''delete'' [This] Delete Catch_any Void])"

definition request_dropped_alert_exports :: class_exports where
  "request_dropped_alert_exports = (''libtorrent::request_dropped_alert'', [
     Export ''priority_get'' [] (Class_constant ''priority'') Catch_any (Number_result (Declared ''libtorrent::alert_priority'') int32),
     Export ''alert_type_get'' [] (Class_constant ''alert_type'') Catch_any (Number_result int32 int32),
     Export ''type'' [This] (Method ''type'') Catch_any (Number_result int32 int32),
     Export ''category'' [This] (Method ''category'') Catch_any (New_result ''libtorrent::alert_category_t''),
     Export ''what'' [This] (Method ''what'') Catch_any Chars_result,
     Export ''static_category_get'' [] (Class_static ''static_category'') Catch_any (Pointer_result ''libtorrent::flags::bitfield_flag< unsigned int,libtorrent::alert_category_tag >''),
     Export ''message'' [This] (Method ''message'') Catch_any String_result,
     Export ''block_index_get'' [This] (Get_field ''block_index'') Catch_any (Number_result int32 int32)])"

definition request_dropped_alert_exports_2 :: class_exports where
  "request_dropped_alert_exports_2 = (''libtorrent::request_dropped_alert'', [
     Export ''piece_index_get'' [This] (Get_field ''piece_index'') Catch_any (Number_result int32 int32),
     Export ''delete'' [This] Delete Catch_any Void])"

definition block_timeout_alert_exports :: class_exports where
  "block_timeout_alert_exports = (''libtorrent::block_timeout_alert'', [
     Export ''priority_get'' [] (Class_constant ''priority'') Catch_any (Number_result (Declared ''libtorrent::alert_priority'') int32),
     Export ''alert_type_get'' [] (Class_constant ''alert_type'') Catch_any (Number_result int32 int32),
     Export ''type'' [This] (Method ''type'') Catch_any (Number_result int32 int32),
     Export ''category'' [This] (Method ''category'') Catch_any (New_result ''libtorrent::alert_category_t''),
     Export ''what'' [This] (Method ''what'') Catch_any Chars_result,
     Export ''static_category_get'' [] (Class_static ''static_category'') Catch_any (Pointer_result ''libtorrent::flags::bitfield_flag< unsigned int,libtorrent::alert_category_tag >''),
     Export ''message'' [This] (Method ''message'') Catch_any String_result,
     Export ''block_index_get'' [This] (Get_field ''block_index'') Catch_any (Number_result int32 int32)])"

definition block_timeout_alert_exports_2 :: class_exports where
  "block_timeout_alert_exports_2 = (''libtorrent::block_timeout_alert'', [
     Export ''piece_index_get'' [This] (Get_field ''piece_index'') Catch_any (Number_result int32 int32),
     Export ''delete'' [This] Delete Catch_any Void])"

definition block_finished_alert_exports :: class_exports where
  "block_finished_alert_exports = (''libtorrent::block_finished_alert'', [
     Export ''priority_get'' [] (Class_constant ''priority'') Catch_any (Number_result (Declared ''libtorrent::alert_priority'') int32),
     Export ''alert_type_get'' [] (Class_constant ''alert_type'') Catch_any (Number_result int32 int32),
     Export ''type'' [This] (Method ''type'') Catch_any (Number_result int32 int32),
     Export ''category'' [This] (Method ''category'') Catch_any (New_result ''libtorrent::alert_category_t''),
     Export ''what'' [This] (Method ''what'') Catch_any Chars_result,
     Export ''static_category_get'' [] (Class_static ''static_category'') Catch_any (Pointer_result ''libtorrent::flags::bitfield_flag< unsigned int,libtorrent::alert_category_tag >''),
     Export ''message'' [This] (Method ''message'') Catch_any String_result,
     Export ''block_index_get'' [This] (Get_field ''block_index'') Catch_any (Number_result int32 int32)])"

definition block_finished_alert_exports_2 :: class_exports where
  "block_finished_alert_exports_2 = (''libtorrent::block_finished_alert'', [
     Export ''piece_index_get'' [This] (Get_field ''piece_index'') Catch_any (Number_result int32 int32),
     Export ''delete'' [This] Delete Catch_any Void])"

definition block_downloading_alert_exports :: class_exports where
  "block_downloading_alert_exports = (''libtorrent::block_downloading_alert'', [
     Export ''priority_get'' [] (Class_constant ''priority'') Catch_any (Number_result (Declared ''libtorrent::alert_priority'') int32),
     Export ''alert_type_get'' [] (Class_constant ''alert_type'') Catch_any (Number_result int32 int32),
     Export ''type'' [This] (Method ''type'') Catch_any (Number_result int32 int32),
     Export ''category'' [This] (Method ''category'') Catch_any (New_result ''libtorrent::alert_category_t''),
     Export ''what'' [This] (Method ''what'') Catch_any Chars_result,
     Export ''static_category_get'' [] (Class_static ''static_category'') Catch_any (Pointer_result ''libtorrent::flags::bitfield_flag< unsigned int,libtorrent::alert_category_tag >''),
     Export ''message'' [This] (Method ''message'') Catch_any String_result,
     Export ''block_index_get'' [This] (Get_field ''block_index'') Catch_any (Number_result int32 int32)])"

definition block_downloading_alert_exports_2 :: class_exports where
  "block_downloading_alert_exports_2 = (''libtorrent::block_downloading_alert'', [
     Export ''piece_index_get'' [This] (Get_field ''piece_index'') Catch_any (Number_result int32 int32),
     Export ''delete'' [This] Delete Catch_any Void])"

definition unwanted_block_alert_exports :: class_exports where
  "unwanted_block_alert_exports = (''libtorrent::unwanted_block_alert'', [
     Export ''priority_get'' [] (Class_constant ''priority'') Catch_any (Number_result (Declared ''libtorrent::alert_priority'') int32),
     Export ''alert_type_get'' [] (Class_constant ''alert_type'') Catch_any (Number_result int32 int32),
     Export ''type'' [This] (Method ''type'') Catch_any (Number_result int32 int32),
     Export ''category'' [This] (Method ''category'') Catch_any (New_result ''libtorrent::alert_category_t''),
     Export ''what'' [This] (Method ''what'') Catch_any Chars_result,
     Export ''static_category_get'' [] (Class_static ''static_category'') Catch_any (Pointer_result ''libtorrent::flags::bitfield_flag< unsigned int,libtorrent::alert_category_tag >''),
     Export ''message'' [This] (Method ''message'') Catch_any String_result,
     Export ''block_index_get'' [This] (Get_field ''block_index'') Catch_any (Number_result int32 int32)])"

definition unwanted_block_alert_exports_2 :: class_exports where
  "unwanted_block_alert_exports_2 = (''libtorrent::unwanted_block_alert'', [
     Export ''piece_index_get'' [This] (Get_field ''piece_index'') Catch_any (Number_result int32 int32),
     Export ''delete'' [This] Delete Catch_any Void])"

definition storage_moved_alert_exports :: class_exports where
  "storage_moved_alert_exports = (''libtorrent::storage_moved_alert'', [
     Export ''priority_get'' [] (Class_constant ''priority'') Catch_any (Number_result (Declared ''libtorrent::alert_priority'') int32),
     Export ''alert_type_get'' [] (Class_constant ''alert_type'') Catch_any (Number_result int32 int32),
     Export ''type'' [This] (Method ''type'') Catch_any (Number_result int32 int32),
     Export ''category'' [This] (Method ''category'') Catch_any (New_result ''libtorrent::alert_category_t''),
     Export ''what'' [This] (Method ''what'') Catch_any Chars_result,
     Export ''static_category_get'' [] (Class_static ''static_category'') Catch_any (Pointer_result ''libtorrent::flags::bitfield_flag< unsigned int,libtorrent::alert_category_tag >''),
     Export ''message'' [This] (Method ''message'') Catch_any String_result])"

definition storage_moved_alert_exports_2 :: class_exports where
  "storage_moved_alert_exports_2 = (''libtorrent::storage_moved_alert'', [
     Export ''storage_path'' [This] (Method ''storage_path'') Catch_any Chars_result,
     Export ''old_path'' [This] (Method ''old_path'') Catch_any Chars_result,
     Export ''delete'' [This] Delete Catch_any Void])"

definition storage_moved_failed_alert_exports :: class_exports where
  "storage_moved_failed_alert_exports = (''libtorrent::storage_moved_failed_alert'', [
     Export ''priority_get'' [] (Class_constant ''priority'') Catch_any (Number_result (Declared ''libtorrent::alert_priority'') int32),
     Export ''alert_type_get'' [] (Class_constant ''alert_type'') Catch_any (Number_result int32 int32),
     Export ''type'' [This] (Method ''type'') Catch_any (Number_result int32 int32),
     Export ''category'' [This] (Method ''category'') Catch_any (New_result ''libtorrent::alert_category_t''),
     Export ''what'' [This] (Method ''what'') Catch_any Chars_result,
     Export ''static_category_get'' [] (Class_static ''static_category'') Catch_any (Pointer_result ''libtorrent::flags::bitfield_flag< unsigned int,libtorrent::alert_category_tag >''),
     Export ''message'' [This] (Method ''message'') Catch_any String_result,
     Export ''error_get'' [This] (Field_address ''error'') Catch_any (Pointer_result ''libtorrent::error_code'')])"

definition storage_moved_failed_alert_exports_2 :: class_exports where
  "storage_moved_failed_alert_exports_2 = (''libtorrent::storage_moved_failed_alert'', [
     Export ''file_path'' [This] (Method ''file_path'') Catch_any Chars_result,
     Export ''op_set'' [This, Number (Declared ''libtorrent::operation_t'')] (Set_field ''op'') Catch_any Void,
     Export ''op_get'' [This] (Get_field ''op'') Catch_any (Number_result (Declared ''libtorrent::operation_t'') int32),
     Export ''delete'' [This] Delete Catch_any Void])"

definition torrent_deleted_alert_exports :: class_exports where
  "torrent_deleted_alert_exports = (''libtorrent::torrent_deleted_alert'', [
     Export ''priority_get'' [] (Class_constant ''priority'') Catch_any (Number_result (Declared ''libtorrent::alert_priority'') int32),
     Export ''alert_type_get'' [] (Class_constant ''alert_type'') Catch_any (Number_result int32 int32),
     Export ''type'' [This] (Method ''type'') Catch_any (Number_result int32 int32),
     Export ''category'' [This] (Method ''category'') Catch_any (New_result ''libtorrent::alert_category_t''),
     Export ''what'' [This] (Method ''what'') Catch_any Chars_result,
     Export ''static_category_get'' [] (Class_static ''static_category'') Catch_any (Pointer_result ''libtorrent::flags::bitfield_flag< unsigned int,libtorrent::alert_category_tag >''),
     Export ''message'' [This] (Method ''message'') Catch_any String_result,
     Export ''info_hashes_set'' [This, Pointer ''libtorrent::info_hash_t''] (Set_field ''info_hashes'') Catch_any Void])"

definition torrent_deleted_alert_exports_2 :: class_exports where
  "torrent_deleted_alert_exports_2 = (''libtorrent::torrent_deleted_alert'', [
     Export ''info_hashes_get'' [This] (Field_address ''info_hashes'') Catch_any (Pointer_result ''libtorrent::info_hash_t''),
     Export ''delete'' [This] Delete Catch_any Void])"

definition torrent_delete_failed_alert_exports :: class_exports where
  "torrent_delete_failed_alert_exports = (''libtorrent::torrent_delete_failed_alert'', [
     Export ''priority_get'' [] (Class_constant ''priority'') Catch_any (Number_result (Declared ''libtorrent::alert_priority'') int32),
     Export ''alert_type_get'' [] (Class_constant ''alert_type'') Catch_any (Number_result int32 int32),
     Export ''type'' [This] (Method ''type'') Catch_any (Number_result int32 int32),
     Export ''category'' [This] (Method ''category'') Catch_any (New_result ''libtorrent::alert_category_t''),
     Export ''what'' [This] (Method ''what'') Catch_any Chars_result,
     Export ''static_category_get'' [] (Class_static ''static_category'') Catch_any (Pointer_result ''libtorrent::flags::bitfield_flag< unsigned int,libtorrent::alert_category_tag >''),
     Export ''message'' [This] (Method ''message'') Catch_any String_result,
     Export ''error_get'' [This] (Field_address ''error'') Catch_any (Pointer_result ''libtorrent::error_code'')])"

definition torrent_delete_failed_alert_exports_2 :: class_exports where
  "torrent_delete_failed_alert_exports_2 = (''libtorrent::torrent_delete_failed_alert'', [
     Export ''info_hashes_set'' [This, Pointer ''libtorrent::info_hash_t''] (Set_field ''info_hashes'') Catch_any Void,
     Export ''info_hashes_get'' [This] (Field_address ''info_hashes'') Catch_any (Pointer_result ''libtorrent::info_hash_t''),
     Export ''delete'' [This] Delete Catch_any Void])"

definition save_resume_data_alert_exports :: class_exports where
  "save_resume_data_alert_exports = (''libtorrent::save_resume_data_alert'', [
     Export ''priority_get'' [] (Class_constant ''priority'') Catch_any (Number_result (Declared ''libtorrent::alert_priority'') int32),
     Export ''alert_type_get'' [] (Class_constant ''alert_type'') Catch_any (Number_result int32 int32),
     Export ''type'' [This] (Method ''type'') Catch_any (Number_result int32 int32),
     Export ''category'' [This] (Method ''category'') Catch_any (New_result ''libtorrent::alert_category_t''),
     Export ''what'' [This] (Method ''what'') Catch_any Chars_result,
     Export ''static_category_get'' [] (Class_static ''static_category'') Catch_any (Pointer_result ''libtorrent::flags::bitfield_flag< unsigned int,libtorrent::alert_category_tag >''),
     Export ''message'' [This] (Method ''message'') Catch_any String_result,
     Export ''params_set'' [This, Pointer ''libtorrent::add_torrent_params''] (Set_field ''params'') Catch_any Void])"

definition save_resume_data_alert_exports_2 :: class_exports where
  "save_resume_data_alert_exports_2 = (''libtorrent::save_resume_data_alert'', [
     Export ''params_get'' [This] (Field_address ''params'') Catch_any (Pointer_result ''libtorrent::add_torrent_params''),
     Export ''delete'' [This] Delete Catch_any Void])"

definition save_resume_data_failed_alert_exports :: class_exports where
  "save_resume_data_failed_alert_exports = (''libtorrent::save_resume_data_failed_alert'', [
     Export ''priority_get'' [] (Class_constant ''priority'') Catch_any (Number_result (Declared ''libtorrent::alert_priority'') int32),
     Export ''alert_type_get'' [] (Class_constant ''alert_type'') Catch_any (Number_result int32 int32),
     Export ''type'' [This] (Method ''type'') Catch_any (Number_result int32 int32),
     Export ''category'' [This] (Method ''category'') Catch_any (New_result ''libtorrent::alert_category_t''),
     Export ''what'' [This] (Method ''what'') Catch_any Chars_result,
     Export ''static_category_get'' [] (Class_static ''static_category'') Catch_any (Pointer_result ''libtorrent::flags::bitfield_flag< unsigned int,libtorrent::alert_category_tag >''),
     Export ''message'' [This] (Method ''message'') Catch_any String_result,
     Export ''error_get'' [This] (Field_address ''error'') Catch_any (Pointer_result ''libtorrent::error_code'')])"

definition save_resume_data_failed_alert_exports_2 :: class_exports where
  "save_resume_data_failed_alert_exports_2 = (''libtorrent::save_resume_data_failed_alert'', [
     Export ''delete'' [This] Delete Catch_any Void])"

definition torrent_paused_alert_exports :: class_exports where
  "torrent_paused_alert_exports = (''libtorrent::torrent_paused_alert'', [
     Export ''priority_get'' [] (Class_constant ''priority'') Catch_any (Number_result (Declared ''libtorrent::alert_priority'') int32),
     Export ''alert_type_get'' [] (Class_constant ''alert_type'') Catch_any (Number_result int32 int32),
     Export ''type'' [This] (Method ''type'') Catch_any (Number_result int32 int32),
     Export ''category'' [This] (Method ''category'') Catch_any (New_result ''libtorrent::alert_category_t''),
     Export ''what'' [This] (Method ''what'') Catch_any Chars_result,
     Export ''static_category_get'' [] (Class_static ''static_category'') Catch_any (Pointer_result ''libtorrent::flags::bitfield_flag< unsigned int,libtorrent::alert_category_tag >''),
     Export ''message'' [This] (Method ''message'') Catch_any String_result])"

definition torrent_paused_alert_exports_2 :: class_exports where
  "torrent_paused_alert_exports_2 = (''libtorrent::torrent_paused_alert'', [
     Export ''delete'' [This] Delete Catch_any Void])"

definition torrent_resumed_alert_exports :: class_exports where
  "torrent_resumed_alert_exports = (''libtorrent::torrent_resumed_alert'', [
     Export ''priority_get'' [] (Class_constant ''priority'') Catch_any (Number_result (Declared ''libtorrent::alert_priority'') int32),
     Export ''alert_type_get'' [] (Class_constant ''alert_type'') Catch_any (Number_result int32 int32),
     Export ''type'' [This] (Method ''type'') Catch_any (Number_result int32 int32),
     Export ''category'' [This] (Method ''category'') Catch_any (New_result ''libtorrent::alert_category_t''),
     Export ''what'' [This] (Method ''what'') Catch_any Chars_result,
     Export ''static_category_get'' [] (Class_static ''static_category'') Catch_any (Pointer_result ''libtorrent::flags::bitfield_flag< unsigned int,libtorrent::alert_category_tag >''),
     Export ''message'' [This] (Method ''message'') Catch_any String_result])"

definition torrent_resumed_alert_exports_2 :: class_exports where
  "torrent_resumed_alert_exports_2 = (''libtorrent::torrent_resumed_alert'', [
     Export ''delete'' [This] Delete Catch_any Void])"

definition torrent_checked_alert_exports :: class_exports where
  "torrent_checked_alert_exports = (''libtorrent::torrent_checked_alert'', [
     Export ''priority_get'' [] (Class_constant ''priority'') Catch_any (Number_result (Declared ''libtorrent::alert_priority'') int32),
     Export ''alert_type_get'' [] (Class_constant ''alert_type'') Catch_any (Number_result int32 int32),
     Export ''type'' [This] (Method ''type'') Catch_any (Number_result int32 int32),
     Export ''category'' [This] (Method ''category'') Catch_any (New_result ''libtorrent::alert_category_t''),
     Export ''what'' [This] (Method ''what'') Catch_any Chars_result,
     Export ''static_category_get'' [] (Class_static ''static_category'') Catch_any (Pointer_result ''libtorrent::flags::bitfield_flag< unsigned int,libtorrent::alert_category_tag >''),
     Export ''message'' [This] (Method ''message'') Catch_any String_result])"

definition torrent_checked_alert_exports_2 :: class_exports where
  "torrent_checked_alert_exports_2 = (''libtorrent::torrent_checked_alert'', [
     Export ''delete'' [This] Delete Catch_any Void])"

definition url_seed_alert_exports :: class_exports where
  "url_seed_alert_exports = (''libtorrent::url_seed_alert'', [
     Export ''priority_get'' [] (Class_constant ''priority'') Catch_any (Number_result (Declared ''libtorrent::alert_priority'') int32),
     Export ''alert_type_get'' [] (Class_constant ''alert_type'') Catch_any (Number_result int32 int32),
     Export ''type'' [This] (Method ''type'') Catch_any (Number_result int32 int32),
     Export ''category'' [This] (Method ''category'') Catch_any (New_result ''libtorrent::alert_category_t''),
     Export ''what'' [This] (Method ''what'') Catch_any Chars_result,
     Export ''static_category_get'' [] (Class_static ''static_category'') Catch_any (Pointer_result ''libtorrent::flags::bitfield_flag< unsigned int,libtorrent::alert_category_tag >''),
     Export ''message'' [This] (Method ''message'') Catch_any String_result,
     Export ''error_get'' [This] (Field_address ''error'') Catch_any (Pointer_result ''libtorrent::error_code'')])"

definition url_seed_alert_exports_2 :: class_exports where
  "url_seed_alert_exports_2 = (''libtorrent::url_seed_alert'', [
     Export ''server_url'' [This] (Method ''server_url'') Catch_any Chars_result,
     Export ''error_message'' [This] (Method ''error_message'') Catch_any Chars_result,
     Export ''delete'' [This] Delete Catch_any Void])"

definition file_error_alert_exports :: class_exports where
  "file_error_alert_exports = (''libtorrent::file_error_alert'', [
     Export ''priority_get'' [] (Class_constant ''priority'') Catch_any (Number_result (Declared ''libtorrent::alert_priority'') int32),
     Export ''alert_type_get'' [] (Class_constant ''alert_type'') Catch_any (Number_result int32 int32),
     Export ''type'' [This] (Method ''type'') Catch_any (Number_result int32 int32),
     Export ''category'' [This] (Method ''category'') Catch_any (New_result ''libtorrent::alert_category_t''),
     Export ''what'' [This] (Method ''what'') Catch_any Chars_result,
     Export ''static_category_get'' [] (Class_static ''static_category'') Catch_any (Pointer_result ''libtorrent::flags::bitfield_flag< unsigned int,libtorrent::alert_category_tag >''),
     Export ''message'' [This] (Method ''message'') Catch_any String_result,
     Export ''error_get'' [This] (Field_address ''error'') Catch_any (Pointer_result ''libtorrent::error_code'')])"

definition file_error_alert_exports_2 :: class_exports where
  "file_error_alert_exports_2 = (''libtorrent::file_error_alert'', [
     Export ''op_set'' [This, Number (Declared ''libtorrent::operation_t'')] (Set_field ''op'') Catch_any Void,
     Export ''op_get'' [This] (Get_field ''op'') Catch_any (Number_result (Declared ''libtorrent::operation_t'') int32),
     Export ''filename'' [This] (Method ''filename'') Catch_any Chars_result,
     Export ''delete'' [This] Delete Catch_any Void])"

definition metadata_failed_alert_exports :: class_exports where
  "metadata_failed_alert_exports = (''libtorrent::metadata_failed_alert'', [
     Export ''priority_get'' [] (Class_constant ''priority'') Catch_any (Number_result (Declared ''libtorrent::alert_priority'') int32),
     Export ''alert_type_get'' [] (Class_constant ''alert_type'') Catch_any (Number_result int32 int32),
     Export ''type'' [This] (Method ''type'') Catch_any (Number_result int32 int32),
     Export ''category'' [This] (Method ''category'') Catch_any (New_result ''libtorrent::alert_category_t''),
     Export ''what'' [This] (Method ''what'') Catch_any Chars_result,
     Export ''static_category_get'' [] (Class_static ''static_category'') Catch_any (Pointer_result ''libtorrent::flags::bitfield_flag< unsigned int,libtorrent::alert_category_tag >''),
     Export ''message'' [This] (Method ''message'') Catch_any String_result,
     Export ''error_get'' [This] (Field_address ''error'') Catch_any (Pointer_result ''libtorrent::error_code'')])"

definition metadata_failed_alert_exports_2 :: class_exports where
  "metadata_failed_alert_exports_2 = (''libtorrent::metadata_failed_alert'', [
     Export ''delete'' [This] Delete Catch_any Void])"

definition metadata_received_alert_exports :: class_exports where
  "metadata_received_alert_exports = (''libtorrent::metadata_received_alert'', [
     Export ''priority_get'' [] (Class_constant ''priority'') Catch_any (Number_result (Declared ''libtorrent::alert_priority'') int32),
     Export ''alert_type_get'' [] (Class_constant ''alert_type'') Catch_any (Number_result int32 int32),
     Export ''type'' [This] (Method ''type'') Catch_any (Number_result int32 int32),
     Export ''category'' [This] (Method ''category'') Catch_any (New_result ''libtorrent::alert_category_t''),
     Export ''what'' [This] (Method ''what'') Catch_any Chars_result,
     Export ''static_category_get'' [] (Class_static ''static_category'') Catch_any (Pointer_result ''libtorrent::flags::bitfield_flag< unsigned int,libtorrent::alert_category_tag >''),
     Export ''message'' [This] (Method ''message'') Catch_any String_result])"

definition metadata_received_alert_exports_2 :: class_exports where
  "metadata_received_alert_exports_2 = (''libtorrent::metadata_received_alert'', [
     Export ''delete'' [This] Delete Catch_any Void])"

definition udp_error_alert_exports :: class_exports where
  "udp_error_alert_exports = (''libtorrent::udp_error_alert'', [
     Export ''priority_get'' [] (Class_constant ''priority'') Catch_any (Number_result (Declared ''libtorrent::alert_priority'') int32),
     Export ''alert_type_get'' [] (Class_constant ''alert_type'') Catch_any (Number_result int32 int32),
     Export ''type'' [This] (Method ''type'') Catch_any (Number_result int32 int32),
     Export ''category'' [This] (Method ''category'') Catch_any (New_result ''libtorrent::alert_category_t''),
     Export ''what'' [This] (Method ''what'') Catch_any Chars_result,
     Export ''static_category_get'' [] (Class_static ''static_category'') Catch_any (Pointer_result ''libtorrent::flags::bitfield_flag< unsigned int,libtorrent::alert_category_tag >''),
     Export ''message'' [This] (Method ''message'') Catch_any String_result,
     Export ''operation_set'' [This, Number (Declared ''libtorrent::operation_t'')] (Set_field ''operation'') Catch_any Void])"

definition udp_error_alert_exports_2 :: class_exports where
  "udp_error_alert_exports_2 = (''libtorrent::udp_error_alert'', [
     Export ''operation_get'' [This] (Get_field ''operation'') Catch_any (Number_result (Declared ''libtorrent::operation_t'') int32),
     Export ''error_get'' [This] (Field_address ''error'') Catch_any (Pointer_result ''libtorrent::error_code''),
     Export ''get_endpoint'' [This] (Call ''libtorrent_udp_error_alert_get_endpoint'') Catch_any (New_result ''libtorrent::udp::endpoint''),
     Export ''delete'' [This] Delete Catch_any Void])"

definition external_ip_alert_exports :: class_exports where
  "external_ip_alert_exports = (''libtorrent::external_ip_alert'', [
     Export ''priority_get'' [] (Class_constant ''priority'') Catch_any (Number_result (Declared ''libtorrent::alert_priority'') int32),
     Export ''alert_type_get'' [] (Class_constant ''alert_type'') Catch_any (Number_result int32 int32),
     Export ''type'' [This] (Method ''type'') Catch_any (Number_result int32 int32),
     Export ''category'' [This] (Method ''category'') Catch_any (New_result ''libtorrent::alert_category_t''),
     Export ''what'' [This] (Method ''what'') Catch_any Chars_result,
     Export ''static_category_get'' [] (Class_static ''static_category'') Catch_any (Pointer_result ''libtorrent::flags::bitfield_flag< unsigned int,libtorrent::alert_category_tag >''),
     Export ''message'' [This] (Method ''message'') Catch_any String_result])"

definition external_ip_alert_exports_2 :: class_exports where
  "external_ip_alert_exports_2 = (''libtorrent::external_ip_alert'', [
     Export ''get_external_address'' [This] (Call ''libtorrent_external_ip_alert_get_external_address'') Catch_any (New_result ''libtorrent::address''),
     Export ''delete'' [This] Delete Catch_any Void])"

definition listen_failed_alert_exports :: class_exports where
  "listen_failed_alert_exports = (''libtorrent::listen_failed_alert'', [
     Export ''priority_get'' [] (Class_constant ''priority'') Catch_any (Number_result (Declared ''libtorrent::alert_priority'') int32),
     Export ''alert_type_get'' [] (Class_constant ''alert_type'') Catch_any (Number_result int32 int32),
     Export ''type'' [This] (Method ''type'') Catch_any (Number_result int32 int32),
     Export ''category'' [This] (Method ''category'') Catch_any (New_result ''libtorrent::alert_category_t''),
     Export ''what'' [This] (Method ''what'') Catch_any Chars_result,
     Export ''static_category_get'' [] (Class_static ''static_category'') Catch_any (Pointer_result ''libtorrent::flags::bitfield_flag< unsigned int,libtorrent::alert_category_tag >''),
     Export ''message'' [This] (Method ''message'') Catch_any String_result])"

definition listen_failed_alert_exports_2 :: class_exports where
  "listen_failed_alert_exports_2 = (''libtorrent::listen_failed_alert'', [
     Export ''listen_interface'' [This] (Method ''listen_interface'') Catch_any Chars_result,
     Export ''error_get'' [This] (Field_address ''error'') Catch_any (Pointer_result ''libtorrent::error_code''),
     Export ''op_set'' [This, Number (Declared ''libtorrent::operation_t'')] (Set_field ''op'') Catch_any Void,
     Export ''op_get'' [This] (Get_field ''op'') Catch_any (Number_result (Declared ''libtorrent::operation_t'') int32),
     Export ''port_get'' [This] (Get_field ''port'') Catch_any (Number_result int32 int32),
     Export ''get_address'' [This] (Call ''libtorrent_listen_failed_alert_get_address'') Catch_any (New_result ''libtorrent::address''),
     Export ''get_socket_type'' [This] (Call ''libtorrent_listen_failed_alert_get_socket_type'') Catch_any (Number_result int32 int32)])"

definition listen_failed_alert_exports_3 :: class_exports where
  "listen_failed_alert_exports_3 = (''libtorrent::listen_failed_alert'', [
     Export ''delete'' [This] Delete Catch_any Void])"

definition listen_succeeded_alert_exports :: class_exports where
  "listen_succeeded_alert_exports = (''libtorrent::listen_succeeded_alert'', [
     Export ''priority_get'' [] (Class_constant ''priority'') Catch_any (Number_result (Declared ''libtorrent::alert_priority'') int32),
     Export ''alert_type_get'' [] (Class_constant ''alert_type'') Catch_any (Number_result int32 int32),
     Export ''type'' [This] (Method ''type'') Catch_any (Number_result int32 int32),
     Export ''category'' [This] (Method ''category'') Catch_any (New_result ''libtorrent::alert_category_t''),
     Export ''what'' [This] (Method ''what'') Catch_any Chars_result,
     Export ''static_category_get'' [] (Class_static ''static_category'') Catch_any (Pointer_result ''libtorrent::flags::bitfield_flag< unsigned int,libtorrent::alert_category_tag >''),
     Export ''message'' [This] (Method ''message'') Catch_any String_result,
     Export ''port_get'' [This] (Get_field ''port'') Catch_any (Number_result int32 int32)])"

definition listen_succeeded_alert_exports_2 :: class_exports where
  "listen_succeeded_alert_exports_2 = (''libtorrent::listen_succeeded_alert'', [
     Export ''get_address'' [This] (Call ''libtorrent_listen_succeeded_alert_get_address'') Catch_any (New_result ''libtorrent::address''),
     Export ''get_socket_type'' [This] (Call ''libtorrent_listen_succeeded_alert_get_socket_type'') Catch_any (Number_result int32 int32),
     Export ''delete'' [This] Delete Catch_any Void])"

definition portmap_error_alert_exports :: class_exports where
  "portmap_error_alert_exports = (''libtorrent::portmap_error_alert'', [
     Export ''priority_get'' [] (Class_constant ''priority'') Catch_any (Number_result (Declared ''libtorrent::alert_priority'') int32),
     Export ''alert_type_get'' [] (Class_constant ''alert_type'') Catch_any (Number_result int32 int32),
     Export ''type'' [This] (Method ''type'') Catch_any (Number_result int32 int32),
     Export ''category'' [This] (Method ''category'') Catch_any (New_result ''libtorrent::alert_category_t''),
     Export ''what'' [This] (Method ''what'') Catch_any Chars_result,
     Export ''static_category_get'' [] (Class_static ''static_category'') Catch_any (Pointer_result ''libtorrent::flags::bitfield_flag< unsigned int,libtorrent::alert_category_tag >''),
     Export ''message'' [This] (Method ''message'') Catch_any String_result,
     Export ''map_transport_set'' [This, Number (Declared ''libtorrent::portmap_transport'')] (Set_field ''map_transport'') Catch_any Void])"

definition portmap_error_alert_exports_2 :: class_exports where
  "portmap_error_alert_exports_2 = (''libtorrent::portmap_error_alert'', [
     Export ''map_transport_get'' [This] (Get_field ''map_transport'') Catch_any (Number_result (Declared ''libtorrent::portmap_transport'') int32),
     Export ''error_get'' [This] (Field_address ''error'') Catch_any (Pointer_result ''libtorrent::error_code''),
     Export ''get_mapping'' [This] (Call ''libtorrent_portmap_error_alert_get_mapping'') Catch_any (Number_result int32 int32),
     Export ''delete'' [This] Delete Catch_any Void])"

definition portmap_alert_exports :: class_exports where
  "portmap_alert_exports = (''libtorrent::portmap_alert'', [
     Export ''priority_get'' [] (Class_constant ''priority'') Catch_any (Number_result (Declared ''libtorrent::alert_priority'') int32),
     Export ''alert_type_get'' [] (Class_constant ''alert_type'') Catch_any (Number_result int32 int32),
     Export ''type'' [This] (Method ''type'') Catch_any (Number_result int32 int32),
     Export ''category'' [This] (Method ''category'') Catch_any (New_result ''libtorrent::alert_category_t''),
     Export ''what'' [This] (Method ''what'') Catch_any Chars_result,
     Export ''static_category_get'' [] (Class_static ''static_category'') Catch_any (Pointer_result ''libtorrent::flags::bitfield_flag< unsigned int,libtorrent::alert_category_tag >''),
     Export ''message'' [This] (Method ''message'') Catch_any String_result,
     Export ''external_port_get'' [This] (Get_field ''external_port'') Catch_any (Number_result int32 int32)])"

definition portmap_alert_exports_2 :: class_exports where
  "portmap_alert_exports_2 = (''libtorrent::portmap_alert'', [
     Export ''map_protocol_get'' [This] (Get_field ''map_protocol'') Catch_any (Number_result (Declared ''libtorrent::portmap_protocol'') int32),
     Export ''map_transport_get'' [This] (Get_field ''map_transport'') Catch_any (Number_result (Declared ''libtorrent::portmap_transport'') int32),
     Export ''get_mapping'' [This] (Call ''libtorrent_portmap_alert_get_mapping'') Catch_any (Number_result int32 int32),
     Export ''delete'' [This] Delete Catch_any Void])"

definition portmap_log_alert_exports :: class_exports where
  "portmap_log_alert_exports = (''libtorrent::portmap_log_alert'', [
     Export ''priority_get'' [] (Class_constant ''priority'') Catch_any (Number_result (Declared ''libtorrent::alert_priority'') int32),
     Export ''alert_type_get'' [] (Class_constant ''alert_type'') Catch_any (Number_result int32 int32),
     Export ''type'' [This] (Method ''type'') Catch_any (Number_result int32 int32),
     Export ''category'' [This] (Method ''category'') Catch_any (New_result ''libtorrent::alert_category_t''),
     Export ''what'' [This] (Method ''what'') Catch_any Chars_result,
     Export ''static_category_get'' [] (Class_static ''static_category'') Catch_any (Pointer_result ''libtorrent::flags::bitfield_flag< unsigned int,libtorrent::alert_category_tag >''),
     Export ''message'' [This] (Method ''message'') Catch_any String_result,
     Export ''map_transport_get'' [This] (Get_field ''map_transport'') Catch_any (Number_result (Declared ''libtorrent::portmap_transport'') int32)])"

definition portmap_log_alert_exports_2 :: class_exports where
  "portmap_log_alert_exports_2 = (''libtorrent::portmap_log_alert'', [
     Export ''log_message'' [This] (Method ''log_message'') Catch_any Chars_result,
     Export ''delete'' [This] Delete Catch_any Void])"

definition fastresume_rejected_alert_exports :: class_exports where
  "fastresume_rejected_alert_exports = (''libtorrent::fastresume_rejected_alert'', [
     Export ''priority_get'' [] (Class_constant ''priority'') Catch_any (Number_result (Declared ''libtorrent::alert_priority'') int32),
     Export ''alert_type_get'' [] (Class_constant ''alert_type'') Catch_any (Number_result int32 int32),
     Export ''type'' [This] (Method ''type'') Catch_any (Number_result int32 int32),
     Export ''category'' [This] (Method ''category'') Catch_any (New_result ''libtorrent::alert_category_t''),
     Export ''what'' [This] (Method ''what'') Catch_any Chars_result,
     Export ''static_category_get'' [] (Class_static ''static_category'') Catch_any (Pointer_result ''libtorrent::flags::bitfield_flag< unsigned int,libtorrent::alert_category_tag >''),
     Export ''message'' [This] (Method ''message'') Catch_any String_result,
     Export ''error_set'' [This, Pointer ''libtorrent::error_code''] (Set_field ''error'') Catch_any Void])"

definition fastresume_rejected_alert_exports_2 :: class_exports where
  "fastresume_rejected_alert_exports_2 = (''libtorrent::fastresume_rejected_alert'', [
     Export ''error_get'' [This] (Field_address ''error'') Catch_any (Pointer_result ''libtorrent::error_code''),
     Export ''file_path'' [This] (Method ''file_path'') Catch_any Chars_result,
     Export ''op_set'' [This, Number (Declared ''libtorrent::operation_t'')] (Set_field ''op'') Catch_any Void,
     Export ''op_get'' [This] (Get_field ''op'') Catch_any (Number_result (Declared ''libtorrent::operation_t'') int32),
     Export ''delete'' [This] Delete Catch_any Void])"

definition peer_blocked_alert_exports :: class_exports where
  "peer_blocked_alert_exports = (''libtorrent::peer_blocked_alert'', [
     Export ''priority_get'' [] (Class_constant ''priority'') Catch_any (Number_result (Declared ''libtorrent::alert_priority'') int32),
     Export ''alert_type_get'' [] (Class_constant ''alert_type'') Catch_any (Number_result int32 int32),
     Export ''type'' [This] (Method ''type'') Catch_any (Number_result int32 int32),
     Export ''category'' [This] (Method ''category'') Catch_any (New_result ''libtorrent::alert_category_t''),
     Export ''what'' [This] (Method ''what'') Catch_any Chars_result,
     Export ''static_category_get'' [] (Class_static ''static_category'') Catch_any (Pointer_result ''libtorrent::flags::bitfield_flag< unsigned int,libtorrent::alert_category_tag >''),
     Export ''message'' [This] (Method ''message'') Catch_any String_result,
     Export ''reason_get'' [This] (Get_field ''reason'') Catch_any (Number_result int32 int32)])"

definition peer_blocked_alert_exports_2 :: class_exports where
  "peer_blocked_alert_exports_2 = (''libtorrent::peer_blocked_alert'', [
     Export ''delete'' [This] Delete Catch_any Void])"

definition dht_announce_alert_exports :: class_exports where
  "dht_announce_alert_exports = (''libtorrent::dht_announce_alert'', [
     Export ''priority_get'' [] (Class_constant ''priority'') Catch_any (Number_result (Declared ''libtorrent::alert_priority'') int32),
     Export ''alert_type_get'' [] (Class_constant ''alert_type'') Catch_any (Number_result int32 int32),
     Export ''type'' [This] (Method ''type'') Catch_any (Number_result int32 int32),
     Export ''category'' [This] (Method ''category'') Catch_any (New_result ''libtorrent::alert_category_t''),
     Export ''what'' [This] (Method ''what'') Catch_any Chars_result,
     Export ''static_category_get'' [] (Class_static ''static_category'') Catch_any (Pointer_result ''libtorrent::flags::bitfield_flag< unsigned int,libtorrent::alert_category_tag >''),
     Export ''message'' [This] (Method ''message'') Catch_any String_result,
     Export ''port_set'' [This, Number int32] (Set_field ''port'') Catch_any Void])"

definition dht_announce_alert_exports_2 :: class_exports where
  "dht_announce_alert_exports_2 = (''libtorrent::dht_announce_alert'', [
     Export ''port_get'' [This] (Get_field ''port'') Catch_any (Number_result int32 int32),
     Export ''info_hash_set'' [This, Pointer ''libtorrent::sha1_hash''] (Set_field ''info_hash'') Catch_any Void,
     Export ''info_hash_get'' [This] (Field_address ''info_hash'') Catch_any (Pointer_result ''libtorrent::sha1_hash''),
     Export ''get_ip'' [This] (Call ''libtorrent_dht_announce_alert_get_ip'') Catch_any (New_result ''libtorrent::address''),
     Export ''delete'' [This] Delete Catch_any Void])"

definition dht_get_peers_alert_exports :: class_exports where
  "dht_get_peers_alert_exports = (''libtorrent::dht_get_peers_alert'', [
     Export ''priority_get'' [] (Class_constant ''priority'') Catch_any (Number_result (Declared ''libtorrent::alert_priority'') int32),
     Export ''alert_type_get'' [] (Class_constant ''alert_type'') Catch_any (Number_result int32 int32),
     Export ''type'' [This] (Method ''type'') Catch_any (Number_result int32 int32),
     Export ''category'' [This] (Method ''category'') Catch_any (New_result ''libtorrent::alert_category_t''),
     Export ''what'' [This] (Method ''what'') Catch_any Chars_result,
     Export ''static_category_get'' [] (Class_static ''static_category'') Catch_any (Pointer_result ''libtorrent::flags::bitfield_flag< unsigned int,libtorrent::alert_category_tag >''),
     Export ''message'' [This] (Method ''message'') Catch_any String_result,
     Export ''info_hash_set'' [This, Pointer ''libtorrent::sha1_hash''] (Set_field ''info_hash'') Catch_any Void])"

definition dht_get_peers_alert_exports_2 :: class_exports where
  "dht_get_peers_alert_exports_2 = (''libtorrent::dht_get_peers_alert'', [
     Export ''info_hash_get'' [This] (Field_address ''info_hash'') Catch_any (Pointer_result ''libtorrent::sha1_hash''),
     Export ''delete'' [This] Delete Catch_any Void])"

definition cache_flushed_alert_exports :: class_exports where
  "cache_flushed_alert_exports = (''libtorrent::cache_flushed_alert'', [
     Export ''priority_get'' [] (Class_constant ''priority'') Catch_any (Number_result (Declared ''libtorrent::alert_priority'') int32),
     Export ''alert_type_get'' [] (Class_constant ''alert_type'') Catch_any (Number_result int32 int32),
     Export ''type'' [This] (Method ''type'') Catch_any (Number_result int32 int32),
     Export ''category'' [This] (Method ''category'') Catch_any (New_result ''libtorrent::alert_category_t''),
     Export ''what'' [This] (Method ''what'') Catch_any Chars_result,
     Export ''static_category_get'' [] (Class_static ''static_category'') Catch_any (Pointer_result ''libtorrent::flags::bitfield_flag< unsigned int,libtorrent::alert_category_tag >''),
     Export ''delete'' [This] Delete Catch_any Void])"

definition lsd_peer_alert_exports :: class_exports where
  "lsd_peer_alert_exports = (''libtorrent::lsd_peer_alert'', [
     Export ''priority_get'' [] (Class_constant ''priority'') Catch_any (Number_result (Declared ''libtorrent::alert_priority'') int32),
     Export ''alert_type_get'' [] (Class_constant ''alert_type'') Catch_any (Number_result int32 int32),
     Export ''type'' [This] (Method ''type'') Catch_any (Number_result int32 int32),
     Export ''category'' [This] (Method ''category'') Catch_any (New_result ''libtorrent::alert_category_t''),
     Export ''what'' [This] (Method ''what'') Catch_any Chars_result,
     Export ''static_category_get'' [] (Class_static ''static_category'') Catch_any (Pointer_result ''libtorrent::flags::bitfield_flag< unsigned int,libtorrent::alert_category_tag >''),
     Export ''message'' [This] (Method ''message'') Catch_any String_result])"

definition lsd_peer_alert_exports_2 :: class_exports where
  "lsd_peer_alert_exports_2 = (''libtorrent::lsd_peer_alert'', [
     Export ''delete'' [This] Delete Catch_any Void])"

definition trackerid_alert_exports :: class_exports where
  "trackerid_alert_exports = (''libtorrent::trackerid_alert'', [
     Export ''priority_get'' [] (Class_constant ''priority'') Catch_any (Number_result (Declared ''libtorrent::alert_priority'') int32),
     Export ''alert_type_get'' [] (Class_constant ''alert_type'') Catch_any (Number_result int32 int32),
     Export ''type'' [This] (Method ''type'') Catch_any (Number_result int32 int32),
     Export ''category'' [This] (Method ''category'') Catch_any (New_result ''libtorrent::alert_category_t''),
     Export ''what'' [This] (Method ''what'') Catch_any Chars_result,
     Export ''static_category_get'' [] (Class_static ''static_category'') Catch_any (Pointer_result ''libtorrent::flags::bitfield_flag< unsigned int,libtorrent::alert_category_tag >''),
     Export ''message'' [This] (Method ''message'') Catch_any String_result])"

definition trackerid_alert_exports_2 :: class_exports where
  "trackerid_alert_exports_2 = (''libtorrent::trackerid_alert'', [
     Export ''tracker_id'' [This] (Method ''tracker_id'') Catch_any Chars_result,
     Export ''delete'' [This] Delete Catch_any Void])"

definition dht_bootstrap_alert_exports :: class_exports where
  "dht_bootstrap_alert_exports = (''libtorrent::dht_bootstrap_alert'', [
     Export ''priority_get'' [] (Class_constant ''priority'') Catch_any (Number_result (Declared ''libtorrent::alert_priority'') int32),
     Export ''alert_type_get'' [] (Class_constant ''alert_type'') Catch_any (Number_result int32 int32),
     Export ''type'' [This] (Method ''type'') Catch_any (Number_result int32 int32),
     Export ''category'' [This] (Method ''category'') Catch_any (New_result ''libtorrent::alert_category_t''),
     Export ''what'' [This] (Method ''what'') Catch_any Chars_result,
     Export ''static_category_get'' [] (Class_static ''static_category'') Catch_any (Pointer_result ''libtorrent::flags::bitfield_flag< unsigned int,libtorrent::alert_category_tag >''),
     Export ''message'' [This] (Method ''message'') Catch_any String_result])"

definition dht_bootstrap_alert_exports_2 :: class_exports where
  "dht_bootstrap_alert_exports_2 = (''libtorrent::dht_bootstrap_alert'', [
     Export ''delete'' [This] Delete Catch_any Void])"

definition torrent_error_alert_exports :: class_exports where
  "torrent_error_alert_exports = (''libtorrent::torrent_error_alert'', [
     Export ''priority_get'' [] (Class_constant ''priority'') Catch_any (Number_result (Declared ''libtorrent::alert_priority'') int32),
     Export ''alert_type_get'' [] (Class_constant ''alert_type'') Catch_any (Number_result int32 int32),
     Export ''type'' [This] (Method ''type'') Catch_any (Number_result int32 int32),
     Export ''category'' [This] (Method ''category'') Catch_any (New_result ''libtorrent::alert_category_t''),
     Export ''what'' [This] (Method ''what'') Catch_any Chars_result,
     Export ''static_category_get'' [] (Class_static ''static_category'') Catch_any (Pointer_result ''libtorrent::flags::bitfield_flag< unsigned int,libtorrent::alert_category_tag >''),
     Export ''message'' [This] (Method ''message'') Catch_any String_result,
     Export ''error_get'' [This] (Field_address ''error'') Catch_any (Pointer_result ''libtorrent::error_code'')])"

definition torrent_error_alert_exports_2 :: class_exports where
  "torrent_error_alert_exports_2 = (''libtorrent::torrent_error_alert'', [
     Export ''filename'' [This] (Method ''filename'') Catch_any Chars_result,
     Export ''delete'' [This] Delete Catch_any Void])"

definition torrent_need_cert_alert_exports :: class_exports where
  "torrent_need_cert_alert_exports = (''libtorrent::torrent_need_cert_alert'', [
     Export ''priority_get'' [] (Class_constant ''priority'') Catch_any (Number_result (Declared ''libtorrent::alert_priority'') int32),
     Export ''alert_type_get'' [] (Class_constant ''alert_type'') Catch_any (Number_result int32 int32),
     Export ''type'' [This] (Method ''type'') Catch_any (Number_result int32 int32),
     Export ''category'' [This] (Method ''category'') Catch_any (New_result ''libtorrent::alert_category_t''),
     Export ''what'' [This] (Method ''what'') Catch_any Chars_result,
     Export ''static_category_get'' [] (Class_static ''static_category'') Catch_any (Pointer_result ''libtorrent::flags::bitfield_flag< unsigned int,libtorrent::alert_category_tag >''),
     Export ''message'' [This] (Method ''message'') Catch_any String_result])"

definition torrent_need_cert_alert_exports_2 :: class_exports where
  "torrent_need_cert_alert_exports_2 = (''libtorrent::torrent_need_cert_alert'', [
     Export ''delete'' [This] Delete Catch_any Void])"

definition incoming_connection_alert_exports :: class_exports where
  "incoming_connection_alert_exports = (''libtorrent::incoming_connection_alert'', [
     Export ''priority_get'' [] (Class_constant ''priority'') Catch_any (Number_result (Declared ''libtorrent::alert_priority'') int32),
     Export ''alert_type_get'' [] (Class_constant ''alert_type'') Catch_any (Number_result int32 int32),
     Export ''type'' [This] (Method ''type'') Catch_any (Number_result int32 int32),
     Export ''category'' [This] (Method ''category'') Catch_any (New_result ''libtorrent::alert_category_t''),
     Export ''what'' [This] (Method ''what'') Catch_any Chars_result,
     Export ''static_category_get'' [] (Class_static ''static_category'') Catch_any (Pointer_result ''libtorrent::flags::bitfield_flag< unsigned int,libtorrent::alert_category_tag >''),
     Export ''message'' [This] (Method ''message'') Catch_any String_result,
     Export ''socket_type_set'' [This, Number (Declared ''libtorrent::socket_type_t'')] (Set_field ''socket_type'') Catch_any Void])"

definition incoming_connection_alert_exports_2 :: class_exports where
  "incoming_connection_alert_exports_2 = (''libtorrent::incoming_connection_alert'', [
     Export ''socket_type_get'' [This] (Get_field ''socket_type'') Catch_any (Number_result (Declared ''libtorrent::socket_type_t'') int32),
     Export ''get_endpoint'' [This] (Call ''libtorrent_incoming_connection_alert_get_endpoint'') Catch_any (New_result ''libtorrent::tcp::endpoint''),
     Export ''delete'' [This] Delete Catch_any Void])"

definition add_torrent_alert_exports :: class_exports where
  "add_torrent_alert_exports = (''libtorrent::add_torrent_alert'', [
     Export ''priority_get'' [] (Class_constant ''priority'') Catch_any (Number_result (Declared ''libtorrent::alert_priority'') int32),
     Export ''alert_type_get'' [] (Class_constant ''alert_type'') Catch_any (Number_result int32 int32),
     Export ''type'' [This] (Method ''type'') Catch_any (Number_result int32 int32),
     Export ''category'' [This] (Method ''category'') Catch_any (New_result ''libtorrent::alert_category_t''),
     Export ''what'' [This] (Method ''what'') Catch_any Chars_result,
     Export ''static_category_get'' [] (Class_static ''static_category'') Catch_any (Pointer_result ''libtorrent::flags::bitfield_flag< unsigned int,libtorrent::alert_category_tag >''),
     Export ''message'' [This] (Method ''message'') Catch_any String_result,
     Export ''params_set'' [This, Pointer ''libtorrent::add_torrent_params''] (Set_field ''params'') Catch_any Void])"

definition add_torrent_alert_exports_2 :: class_exports where
  "add_torrent_alert_exports_2 = (''libtorrent::add_torrent_alert'', [
     Export ''params_get'' [This] (Field_address ''params'') Catch_any (Pointer_result ''libtorrent::add_torrent_params''),
     Export ''error_set'' [This, Pointer ''libtorrent::error_code''] (Set_field ''error'') Catch_any Void,
     Export ''error_get'' [This] (Field_address ''error'') Catch_any (Pointer_result ''libtorrent::error_code''),
     Export ''delete'' [This] Delete Catch_any Void])"

definition state_update_alert_exports :: class_exports where
  "state_update_alert_exports = (''libtorrent::state_update_alert'', [
     Export ''priority_get'' [] (Class_constant ''priority'') Catch_any (Number_result (Declared ''libtorrent::alert_priority'') int32),
     Export ''alert_type_get'' [] (Class_constant ''alert_type'') Catch_any (Number_result int32 int32),
     Export ''type'' [This] (Method ''type'') Catch_any (Number_result int32 int32),
     Export ''category'' [This] (Method ''category'') Catch_any (New_result ''libtorrent::alert_category_t''),
     Export ''what'' [This] (Method ''what'') Catch_any Chars_result,
     Export ''static_category_get'' [] (Class_static ''static_category'') Catch_any (Pointer_result ''libtorrent::flags::bitfield_flag< unsigned int,libtorrent::alert_category_tag >''),
     Export ''message'' [This] (Method ''message'') Catch_any String_result,
     Export ''status_set'' [This, Pointer ''std::vector< libtorrent::torrent_status >''] (Set_field ''status'') Catch_any Void])"

definition state_update_alert_exports_2 :: class_exports where
  "state_update_alert_exports_2 = (''libtorrent::state_update_alert'', [
     Export ''status_get'' [This] (Field_address ''status'') Catch_any (Pointer_result ''std::vector< libtorrent::torrent_status >''),
     Export ''delete'' [This] Delete Catch_any Void])"

definition session_stats_alert_exports :: class_exports where
  "session_stats_alert_exports = (''libtorrent::session_stats_alert'', [
     Export ''priority_get'' [] (Class_constant ''priority'') Catch_any (Number_result (Declared ''libtorrent::alert_priority'') int32),
     Export ''alert_type_get'' [] (Class_constant ''alert_type'') Catch_any (Number_result int32 int32),
     Export ''type'' [This] (Method ''type'') Catch_any (Number_result int32 int32),
     Export ''category'' [This] (Method ''category'') Catch_any (New_result ''libtorrent::alert_category_t''),
     Export ''what'' [This] (Method ''what'') Catch_any Chars_result,
     Export ''static_category_get'' [] (Class_static ''static_category'') Catch_any (Pointer_result ''libtorrent::flags::bitfield_flag< unsigned int,libtorrent::alert_category_tag >''),
     Export ''message'' [This] (Method ''message'') Catch_any String_result])"

definition session_stats_alert_exports_2 :: class_exports where
  "session_stats_alert_exports_2 = (''libtorrent::session_stats_alert'', [
     Export ''get_value'' [This, Number int32] (Call ''libtorrent_session_stats_alert_get_value'') Catch_any (Number_result int64 int64),
     Export ''delete'' [This] Delete Catch_any Void])"

definition dht_error_alert_exports :: class_exports where
  "dht_error_alert_exports = (''libtorrent::dht_error_alert'', [
     Export ''priority_get'' [] (Class_constant ''priority'') Catch_any (Number_result (Declared ''libtorrent::alert_priority'') int32),
     Export ''alert_type_get'' [] (Class_constant ''alert_type'') Catch_any (Number_result int32 int32),
     Export ''type'' [This] (Method ''type'') Catch_any (Number_result int32 int32),
     Export ''category'' [This] (Method ''category'') Catch_any (New_result ''libtorrent::alert_category_t''),
     Export ''what'' [This] (Method ''what'') Catch_any Chars_result,
     Export ''static_category_get'' [] (Class_static ''static_category'') Catch_any (Pointer_result ''libtorrent::flags::bitfield_flag< unsigned int,libtorrent::alert_category_tag >''),
     Export ''message'' [This] (Method ''message'') Catch_any String_result,
     Export ''error_set'' [This, Pointer ''libtorrent::error_code''] (Set_field ''error'') Catch_any Void])"

definition dht_error_alert_exports_2 :: class_exports where
  "dht_error_alert_exports_2 = (''libtorrent::dht_error_alert'', [
     Export ''error_get'' [This] (Field_address ''error'') Catch_any (Pointer_result ''libtorrent::error_code''),
     Export ''op_set'' [This, Number (Declared ''libtorrent::operation_t'')] (Set_field ''op'') Catch_any Void,
     Export ''op_get'' [This] (Get_field ''op'') Catch_any (Number_result (Declared ''libtorrent::operation_t'') int32),
     Export ''delete'' [This] Delete Catch_any Void])"

definition dht_immutable_item_alert_exports :: class_exports where
  "dht_immutable_item_alert_exports = (''libtorrent::dht_immutable_item_alert'', [
     Export ''priority_get'' [] (Class_constant ''priority'') Catch_any (Number_result (Declared ''libtorrent::alert_priority'') int32),
     Export ''alert_type_get'' [] (Class_constant ''alert_type'') Catch_any (Number_result int32 int32),
     Export ''type'' [This] (Method ''type'') Catch_any (Number_result int32 int32),
     Export ''category'' [This] (Method ''category'') Catch_any (New_result ''libtorrent::alert_category_t''),
     Export ''what'' [This] (Method ''what'') Catch_any Chars_result,
     Export ''static_category_get'' [] (Class_static ''static_category'') Catch_any (Pointer_result ''libtorrent::flags::bitfield_flag< unsigned int,libtorrent::alert_category_tag >''),
     Export ''message'' [This] (Method ''message'') Catch_any String_result,
     Export ''target_set'' [This, Pointer ''libtorrent::sha1_hash''] (Set_field ''target'') Catch_any Void])"

definition dht_immutable_item_alert_exports_2 :: class_exports where
  "dht_immutable_item_alert_exports_2 = (''libtorrent::dht_immutable_item_alert'', [
     Export ''target_get'' [This] (Field_address ''target'') Catch_any (Pointer_result ''libtorrent::sha1_hash''),
     Export ''item_set'' [This, Pointer ''libtorrent::entry''] (Set_field ''item'') Catch_any Void,
     Export ''item_get'' [This] (Field_address ''item'') Catch_any (Pointer_result ''libtorrent::entry''),
     Export ''delete'' [This] Delete Catch_any Void])"

definition dht_mutable_item_alert_exports :: class_exports where
  "dht_mutable_item_alert_exports = (''libtorrent::dht_mutable_item_alert'', [
     Export ''priority_get'' [] (Class_constant ''priority'') Catch_any (Number_result (Declared ''libtorrent::alert_priority'') int32),
     Export ''alert_type_get'' [] (Class_constant ''alert_type'') Catch_any (Number_result int32 int32),
     Export ''type'' [This] (Method ''type'') Catch_any (Number_result int32 int32),
     Export ''category'' [This] (Method ''category'') Catch_any (New_result ''libtorrent::alert_category_t''),
     Export ''what'' [This] (Method ''what'') Catch_any Chars_result,
     Export ''static_category_get'' [] (Class_static ''static_category'') Catch_any (Pointer_result ''libtorrent::flags::bitfield_flag< unsigned int,libtorrent::alert_category_tag >''),
     Export ''message'' [This] (Method ''message'') Catch_any String_result,
     Export ''seq_set'' [This, Number int64] (Set_field ''seq'') Catch_any Void])"

definition dht_mutable_item_alert_exports_2 :: class_exports where
  "dht_mutable_item_alert_exports_2 = (''libtorrent::dht_mutable_item_alert'', [
     Export ''seq_get'' [This] (Get_field ''seq'') Catch_any (Number_result int64 int64),
     Export ''salt_set'' [This, String] (Set_field ''salt'') Catch_any Void,
     Export ''salt_get'' [This] (Field_address ''salt'') Catch_any String_at,
     Export ''item_set'' [This, Pointer ''libtorrent::entry''] (Set_field ''item'') Catch_any Void,
     Export ''item_get'' [This] (Field_address ''item'') Catch_any (Pointer_result ''libtorrent::entry''),
     Export ''authoritative_set'' [This, Boolean] (Set_field ''authoritative'') Catch_any Void,
     Export ''authoritative_get'' [This] (Get_field ''authoritative'') Catch_any Boolean_result,
     Export ''get_key'' [This] (Call ''libtorrent_dht_mutable_item_alert_get_key'') Catch_any (New_result ''std::array< std::int8_t,32 >'')])"

definition dht_mutable_item_alert_exports_3 :: class_exports where
  "dht_mutable_item_alert_exports_3 = (''libtorrent::dht_mutable_item_alert'', [
     Export ''get_signature'' [This] (Call ''libtorrent_dht_mutable_item_alert_get_signature'') Catch_any (New_result ''std::array< std::int8_t,64 >''),
     Export ''get_seq'' [This] (Call ''libtorrent_dht_mutable_item_alert_get_seq'') Catch_any (Number_result int64 int64),
     Export ''get_salt'' [This] (Call ''libtorrent_dht_mutable_item_alert_get_salt'') Catch_any (New_result ''std::vector< std::int8_t >''),
     Export ''delete'' [This] Delete Catch_any Void])"

definition dht_put_alert_exports :: class_exports where
  "dht_put_alert_exports = (''libtorrent::dht_put_alert'', [
     Export ''priority_get'' [] (Class_constant ''priority'') Catch_any (Number_result (Declared ''libtorrent::alert_priority'') int32),
     Export ''alert_type_get'' [] (Class_constant ''alert_type'') Catch_any (Number_result int32 int32),
     Export ''type'' [This] (Method ''type'') Catch_any (Number_result int32 int32),
     Export ''category'' [This] (Method ''category'') Catch_any (New_result ''libtorrent::alert_category_t''),
     Export ''what'' [This] (Method ''what'') Catch_any Chars_result,
     Export ''static_category_get'' [] (Class_static ''static_category'') Catch_any (Pointer_result ''libtorrent::flags::bitfield_flag< unsigned int,libtorrent::alert_category_tag >''),
     Export ''message'' [This] (Method ''message'') Catch_any String_result,
     Export ''target_set'' [This, Pointer ''libtorrent::sha1_hash''] (Set_field ''target'') Catch_any Void])"

definition dht_put_alert_exports_2 :: class_exports where
  "dht_put_alert_exports_2 = (''libtorrent::dht_put_alert'', [
     Export ''target_get'' [This] (Field_address ''target'') Catch_any (Pointer_result ''libtorrent::sha1_hash''),
     Export ''salt_set'' [This, String] (Set_field ''salt'') Catch_any Void,
     Export ''salt_get'' [This] (Field_address ''salt'') Catch_any String_at,
     Export ''seq_set'' [This, Number int64] (Set_field ''seq'') Catch_any Void,
     Export ''seq_get'' [This] (Get_field ''seq'') Catch_any (Number_result int64 int64),
     Export ''num_success_set'' [This, Number int32] (Set_field ''num_success'') Catch_any Void,
     Export ''num_success_get'' [This] (Get_field ''num_success'') Catch_any (Number_result int32 int32),
     Export ''get_public_key'' [This] (Call ''libtorrent_dht_put_alert_get_public_key'') Catch_any (New_result ''std::array< std::int8_t,32 >'')])"

definition dht_put_alert_exports_3 :: class_exports where
  "dht_put_alert_exports_3 = (''libtorrent::dht_put_alert'', [
     Export ''get_signature'' [This] (Call ''libtorrent_dht_put_alert_get_signature'') Catch_any (New_result ''std::array< std::int8_t,64 >''),
     Export ''get_salt'' [This] (Call ''libtorrent_dht_put_alert_get_salt'') Catch_any (New_result ''std::vector< std::int8_t >''),
     Export ''get_seq'' [This] (Call ''libtorrent_dht_put_alert_get_seq'') Catch_any (Number_result int64 int64),
     Export ''delete'' [This] Delete Catch_any Void])"

definition i2p_alert_exports :: class_exports where
  "i2p_alert_exports = (''libtorrent::i2p_alert'', [
     Export ''priority_get'' [] (Class_constant ''priority'') Catch_any (Number_result (Declared ''libtorrent::alert_priority'') int32),
     Export ''alert_type_get'' [] (Class_constant ''alert_type'') Catch_any (Number_result int32 int32),
     Export ''type'' [This] (Method ''type'') Catch_any (Number_result int32 int32),
     Export ''category'' [This] (Method ''category'') Catch_any (New_result ''libtorrent::alert_category_t''),
     Export ''what'' [This] (Method ''what'') Catch_any Chars_result,
     Export ''static_category_get'' [] (Class_static ''static_category'') Catch_any (Pointer_result ''libtorrent::flags::bitfield_flag< unsigned int,libtorrent::alert_category_tag >''),
     Export ''message'' [This] (Method ''message'') Catch_any String_result,
     Export ''error_set'' [This, Pointer ''libtorrent::error_code''] (Set_field ''error'') Catch_any Void])"

definition i2p_alert_exports_2 :: class_exports where
  "i2p_alert_exports_2 = (''libtorrent::i2p_alert'', [
     Export ''error_get'' [This] (Field_address ''error'') Catch_any (Pointer_result ''libtorrent::error_code''),
     Export ''delete'' [This] Delete Catch_any Void])"

definition dht_outgoing_get_peers_alert_exports :: class_exports where
  "dht_outgoing_get_peers_alert_exports = (''libtorrent::dht_outgoing_get_peers_alert'', [
     Export ''priority_get'' [] (Class_constant ''priority'') Catch_any (Number_result (Declared ''libtorrent::alert_priority'') int32),
     Export ''alert_type_get'' [] (Class_constant ''alert_type'') Catch_any (Number_result int32 int32),
     Export ''type'' [This] (Method ''type'') Catch_any (Number_result int32 int32),
     Export ''category'' [This] (Method ''category'') Catch_any (New_result ''libtorrent::alert_category_t''),
     Export ''what'' [This] (Method ''what'') Catch_any Chars_result,
     Export ''static_category_get'' [] (Class_static ''static_category'') Catch_any (Pointer_result ''libtorrent::flags::bitfield_flag< unsigned int,libtorrent::alert_category_tag >''),
     Export ''message'' [This] (Method ''message'') Catch_any String_result,
     Export ''info_hash_set'' [This, Pointer ''libtorrent::sha1_hash''] (Set_field ''info_hash'') Catch_any Void])"

definition dht_outgoing_get_peers_alert_exports_2 :: class_exports where
  "dht_outgoing_get_peers_alert_exports_2 = (''libtorrent::dht_outgoing_get_peers_alert'', [
     Export ''info_hash_get'' [This] (Field_address ''info_hash'') Catch_any (Pointer_result ''libtorrent::sha1_hash''),
     Export ''obfuscated_info_hash_set'' [This, Pointer ''libtorrent::sha1_hash''] (Set_field ''obfuscated_info_hash'') Catch_any Void,
     Export ''obfuscated_info_hash_get'' [This] (Field_address ''obfuscated_info_hash'') Catch_any (Pointer_result ''libtorrent::sha1_hash''),
     Export ''get_endpoint'' [This] (Call ''libtorrent_dht_outgoing_get_peers_alert_get_endpoint'') Catch_any (New_result ''libtorrent::udp::endpoint''),
     Export ''delete'' [This] Delete Catch_any Void])"

definition log_alert_exports :: class_exports where
  "log_alert_exports = (''libtorrent::log_alert'', [
     Export ''priority_get'' [] (Class_constant ''priority'') Catch_any (Number_result (Declared ''libtorrent::alert_priority'') int32),
     Export ''alert_type_get'' [] (Class_constant ''alert_type'') Catch_any (Number_result int32 int32),
     Export ''type'' [This] (Method ''type'') Catch_any (Number_result int32 int32),
     Export ''category'' [This] (Method ''category'') Catch_any (New_result ''libtorrent::alert_category_t''),
     Export ''what'' [This] (Method ''what'') Catch_any Chars_result,
     Export ''static_category_get'' [] (Class_static ''static_category'') Catch_any (Pointer_result ''libtorrent::flags::bitfield_flag< unsigned int,libtorrent::alert_category_tag >''),
     Export ''message'' [This] (Method ''message'') Catch_any String_result])"

definition log_alert_exports_2 :: class_exports where
  "log_alert_exports_2 = (''libtorrent::log_alert'', [
     Export ''log_message'' [This] (Method ''log_message'') Catch_any Chars_result,
     Export ''delete'' [This] Delete Catch_any Void])"

definition torrent_log_alert_exports :: class_exports where
  "torrent_log_alert_exports = (''libtorrent::torrent_log_alert'', [
     Export ''priority_get'' [] (Class_constant ''priority'') Catch_any (Number_result (Declared ''libtorrent::alert_priority'') int32),
     Export ''alert_type_get'' [] (Class_constant ''alert_type'') Catch_any (Number_result int32 int32),
     Export ''type'' [This] (Method ''type'') Catch_any (Number_result int32 int32),
     Export ''category'' [This] (Method ''category'') Catch_any (New_result ''libtorrent::alert_category_t''),
     Export ''what'' [This] (Method ''what'') Catch_any Chars_result,
     Export ''static_category_get'' [] (Class_static ''static_category'') Catch_any (Pointer_result ''libtorrent::flags::bitfield_flag< unsigned int,libtorrent::alert_category_tag >''),
     Export ''message'' [This] (Method ''message'') Catch_any String_result])"

definition torrent_log_alert_exports_2 :: class_exports where
  "torrent_log_alert_exports_2 = (''libtorrent::torrent_log_alert'', [
     Export ''log_message'' [This] (Method ''log_message'') Catch_any Chars_result,
     Export ''delete'' [This] Delete Catch_any Void])"

definition peer_log_alert_exports :: class_exports where
  "peer_log_alert_exports = (''libtorrent::peer_log_alert'', [
     Export ''priority_get'' [] (Class_constant ''priority'') Catch_any (Number_result (Declared ''libtorrent::alert_priority'') int32),
     Export ''alert_type_get'' [] (Class_constant ''alert_type'') Catch_any (Number_result int32 int32),
     Export ''type'' [This] (Method ''type'') Catch_any (Number_result int32 int32),
     Export ''category'' [This] (Method ''category'') Catch_any (New_result ''libtorrent::alert_category_t''),
     Export ''what'' [This] (Method ''what'') Catch_any Chars_result,
     Export ''static_category_get'' [] (Class_static ''static_category'') Catch_any (Pointer_result ''libtorrent::flags::bitfield_flag< unsigned int,libtorrent::alert_category_tag >''),
     Export ''message'' [This] (Method ''message'') Catch_any String_result,
     Export ''event_type_set'' [This, Number (Declared ''libtorrent::peer_log_alert::event_t'')] (Set_field ''event_type'') Catch_any Void])"

definition peer_log_alert_exports_2 :: class_exports where
  "peer_log_alert_exports_2 = (''libtorrent::peer_log_alert'', [
     Export ''event_type_get'' [This] (Get_field ''event_type'') Catch_any (Number_result (Declared ''libtorrent::peer_log_alert::event_t'') int32),
     Export ''direction_set'' [This, Number (Declared ''libtorrent::peer_log_alert::direction_t'')] (Set_field ''direction'') Catch_any Void,
     Export ''direction_get'' [This] (Get_field ''direction'') Catch_any (Number_result (Declared ''libtorrent::peer_log_alert::direction_t'') int32),
     Export ''log_message'' [This] (Method ''log_message'') Catch_any Chars_result,
     Export ''delete'' [This] Delete Catch_any Void])"

definition lsd_error_alert_exports :: class_exports where
  "lsd_error_alert_exports = (''libtorrent::lsd_error_alert'', [
     Export ''priority_get'' [] (Class_constant ''priority'') Catch_any (Number_result (Declared ''libtorrent::alert_priority'') int32),
     Export ''alert_type_get'' [] (Class_constant ''alert_type'') Catch_any (Number_result int32 int32),
     Export ''type'' [This] (Method ''type'') Catch_any (Number_result int32 int32),
     Export ''category'' [This] (Method ''category'') Catch_any (New_result ''libtorrent::alert_category_t''),
     Export ''what'' [This] (Method ''what'') Catch_any Chars_result,
     Export ''static_category_get'' [] (Class_static ''static_category'') Catch_any (Pointer_result ''libtorrent::flags::bitfield_flag< unsigned int,libtorrent::alert_category_tag >''),
     Export ''message'' [This] (Method ''message'') Catch_any String_result,
     Export ''error_set'' [This, Pointer ''libtorrent::error_code''] (Set_field ''error'') Catch_any Void])"

definition lsd_error_alert_exports_2 :: class_exports where
  "lsd_error_alert_exports_2 = (''libtorrent::lsd_error_alert'', [
     Export ''error_get'' [This] (Field_address ''error'') Catch_any (Pointer_result ''libtorrent::error_code''),
     Export ''delete'' [This] Delete Catch_any Void])"

definition dht_lookup_exports :: class_exports where
  "dht_lookup_exports = (''libtorrent::dht_lookup'', [
     Export ''outstanding_requests_set'' [This, Number int32] (Set_field ''outstanding_requests'') Catch_any Void,
     Export ''outstanding_requests_get'' [This] (Get_field ''outstanding_requests'') Catch_any (Number_result int32 int32),
     Export ''timeouts_set'' [This, Number int32] (Set_field ''timeouts'') Catch_any Void,
     Export ''timeouts_get'' [This] (Get_field ''timeouts'') Catch_any (Number_result int32 int32),
     Export ''responses_set'' [This, Number int32] (Set_field ''responses'') Catch_any Void,
     Export ''responses_get'' [This] (Get_field ''responses'') Catch_any (Number_result int32 int32),
     Export ''branch_factor_set'' [This, Number int32] (Set_field ''branch_factor'') Catch_any Void,
     Export ''branch_factor_get'' [This] (Get_field ''branch_factor'') Catch_any (Number_result int32 int32),
     Export ''nodes_left_set'' [This, Number int32] (Set_field ''nodes_left'') Catch_any Void,
     Export ''nodes_left_get'' [This] (Get_field ''nodes_left'') Catch_any (Number_result int32 int32)])"

definition dht_lookup_exports_2 :: class_exports where
  "dht_lookup_exports_2 = (''libtorrent::dht_lookup'', [
     Export ''last_sent_set'' [This, Number int32] (Set_field ''last_sent'') Catch_any Void,
     Export ''last_sent_get'' [This] (Get_field ''last_sent'') Catch_any (Number_result int32 int32),
     Export ''first_timeout_set'' [This, Number int32] (Set_field ''first_timeout'') Catch_any Void,
     Export ''first_timeout_get'' [This] (Get_field ''first_timeout'') Catch_any (Number_result int32 int32),
     Export ''target_set'' [This, Pointer ''libtorrent::sha1_hash''] (Set_field ''target'') Catch_any Void,
     Export ''target_get'' [This] (Field_address ''target'') Catch_any (Pointer_result ''libtorrent::sha1_hash''),
     Export ''get_type'' [This] (Call ''libtorrent_dht_lookup_get_type'') Catch_any String_result,
     Export ''new'' [] New Catch_any (Pointer_result ''libtorrent::dht_lookup''),
     Export ''delete'' [This] Delete Catch_any Void])"

definition dht_stats_alert_exports :: class_exports where
  "dht_stats_alert_exports = (''libtorrent::dht_stats_alert'', [
     Export ''priority_get'' [] (Class_constant ''priority'') Catch_any (Number_result (Declared ''libtorrent::alert_priority'') int32),
     Export ''alert_type_get'' [] (Class_constant ''alert_type'') Catch_any (Number_result int32 int32),
     Export ''type'' [This] (Method ''type'') Catch_any (Number_result int32 int32),
     Export ''category'' [This] (Method ''category'') Catch_any (New_result ''libtorrent::alert_category_t''),
     Export ''what'' [This] (Method ''what'') Catch_any Chars_result,
     Export ''static_category_get'' [] (Class_static ''static_category'') Catch_any (Pointer_result ''libtorrent::flags::bitfield_flag< unsigned int,libtorrent::alert_category_tag >''),
     Export ''message'' [This] (Method ''message'') Catch_any String_result,
     Export ''active_requests_set'' [This, Pointer ''std::vector< libtorrent::dht_lookup >''] (Set_field ''active_requests'') Catch_any Void])"

definition dht_stats_alert_exports_2 :: class_exports where
  "dht_stats_alert_exports_2 = (''libtorrent::dht_stats_alert'', [
     Export ''active_requests_get'' [This] (Field_address ''active_requests'') Catch_any (Pointer_result ''std::vector< libtorrent::dht_lookup >''),
     Export ''routing_table_set'' [This, Pointer ''std::vector< libtorrent::dht_routing_bucket >''] (Set_field ''routing_table'') Catch_any Void,
     Export ''routing_table_get'' [This] (Field_address ''routing_table'') Catch_any (Pointer_result ''std::vector< libtorrent::dht_routing_bucket >''),
     Export ''nid_set'' [This, Pointer ''libtorrent::sha1_hash''] (Set_field ''nid'') Catch_any Void,
     Export ''nid_get'' [This] (Field_address ''nid'') Catch_any (Pointer_result ''libtorrent::sha1_hash''),
     Export ''get_local_endpoint'' [This] (Call ''libtorrent_dht_stats_alert_get_local_endpoint'') Catch_any (New_result ''libtorrent::udp::endpoint''),
     Export ''delete'' [This] Delete Catch_any Void])"

definition incoming_request_alert_exports :: class_exports where
  "incoming_request_alert_exports = (''libtorrent::incoming_request_alert'', [
     Export ''static_category_get'' [] (Class_static ''static_category'') Catch_any (Pointer_result ''libtorrent::flags::bitfield_flag< unsigned int,libtorrent::alert_category_tag >''),
     Export ''priority_get'' [] (Class_constant ''priority'') Catch_any (Number_result (Declared ''libtorrent::alert_priority'') int32),
     Export ''alert_type_get'' [] (Class_constant ''alert_type'') Catch_any (Number_result int32 int32),
     Export ''type'' [This] (Method ''type'') Catch_any (Number_result int32 int32),
     Export ''category'' [This] (Method ''category'') Catch_any (New_result ''libtorrent::alert_category_t''),
     Export ''what'' [This] (Method ''what'') Catch_any Chars_result,
     Export ''message'' [This] (Method ''message'') Catch_any String_result,
     Export ''req_set'' [This, Pointer ''libtorrent::peer_request''] (Set_field ''req'') Catch_any Void])"

definition incoming_request_alert_exports_2 :: class_exports where
  "incoming_request_alert_exports_2 = (''libtorrent::incoming_request_alert'', [
     Export ''req_get'' [This] (Field_address ''req'') Catch_any (Pointer_result ''libtorrent::peer_request''),
     Export ''delete'' [This] Delete Catch_any Void])"

definition dht_log_alert_exports :: class_exports where
  "dht_log_alert_exports = (''libtorrent::dht_log_alert'', [
     Export ''static_category_get'' [] (Class_static ''static_category'') Catch_any (Pointer_result ''libtorrent::flags::bitfield_flag< unsigned int,libtorrent::alert_category_tag >''),
     Export ''priority_get'' [] (Class_constant ''priority'') Catch_any (Number_result (Declared ''libtorrent::alert_priority'') int32),
     Export ''alert_type_get'' [] (Class_constant ''alert_type'') Catch_any (Number_result int32 int32),
     Export ''type'' [This] (Method ''type'') Catch_any (Number_result int32 int32),
     Export ''category'' [This] (Method ''category'') Catch_any (New_result ''libtorrent::alert_category_t''),
     Export ''what'' [This] (Method ''what'') Catch_any Chars_result,
     Export ''message'' [This] (Method ''message'') Catch_any String_result])"

definition dht_log_alert_exports_2 :: class_exports where
  "dht_log_alert_exports_2 = (''libtorrent::dht_log_alert'', [
     Export ''log_message'' [This] (Method ''log_message'') Catch_any Chars_result,
     Export ''module_set'' [This, Number (Declared ''libtorrent::dht_log_alert::dht_module_t'')] (Set_field ''module'') Catch_any Void,
     Export ''module_get'' [This] (Get_field ''module'') Catch_any (Number_result (Declared ''libtorrent::dht_log_alert::dht_module_t'') int32),
     Export ''delete'' [This] Delete Catch_any Void])"

definition dht_pkt_alert_exports :: class_exports where
  "dht_pkt_alert_exports = (''libtorrent::dht_pkt_alert'', [
     Export ''static_category_get'' [] (Class_static ''static_category'') Catch_any (Pointer_result ''libtorrent::flags::bitfield_flag< unsigned int,libtorrent::alert_category_tag >''),
     Export ''priority_get'' [] (Class_constant ''priority'') Catch_any (Number_result (Declared ''libtorrent::alert_priority'') int32),
     Export ''alert_type_get'' [] (Class_constant ''alert_type'') Catch_any (Number_result int32 int32),
     Export ''type'' [This] (Method ''type'') Catch_any (Number_result int32 int32),
     Export ''category'' [This] (Method ''category'') Catch_any (New_result ''libtorrent::alert_category_t''),
     Export ''what'' [This] (Method ''what'') Catch_any Chars_result,
     Export ''message'' [This] (Method ''message'') Catch_any String_result,
     Export ''direction_set'' [This, Number (Declared ''libtorrent::dht_pkt_alert::direction_t'')] (Set_field ''direction'') Catch_any Void])"

definition dht_pkt_alert_exports_2 :: class_exports where
  "dht_pkt_alert_exports_2 = (''libtorrent::dht_pkt_alert'', [
     Export ''direction_get'' [This] (Get_field ''direction'') Catch_any (Number_result (Declared ''libtorrent::dht_pkt_alert::direction_t'') int32),
     Export ''get_node'' [This] (Call ''libtorrent_dht_pkt_alert_get_node'') Catch_any (New_result ''libtorrent::udp::endpoint''),
     Export ''get_pkt_buf'' [This] (Call ''libtorrent_dht_pkt_alert_get_pkt_buf'') Catch_any (New_result ''std::vector< std::int8_t >''),
     Export ''delete'' [This] Delete Catch_any Void])"

definition dht_get_peers_reply_alert_exports :: class_exports where
  "dht_get_peers_reply_alert_exports = (''libtorrent::dht_get_peers_reply_alert'', [
     Export ''static_category_get'' [] (Class_static ''static_category'') Catch_any (Pointer_result ''libtorrent::flags::bitfield_flag< unsigned int,libtorrent::alert_category_tag >''),
     Export ''priority_get'' [] (Class_constant ''priority'') Catch_any (Number_result (Declared ''libtorrent::alert_priority'') int32),
     Export ''alert_type_get'' [] (Class_constant ''alert_type'') Catch_any (Number_result int32 int32),
     Export ''type'' [This] (Method ''type'') Catch_any (Number_result int32 int32),
     Export ''category'' [This] (Method ''category'') Catch_any (New_result ''libtorrent::alert_category_t''),
     Export ''what'' [This] (Method ''what'') Catch_any Chars_result,
     Export ''message'' [This] (Method ''message'') Catch_any String_result,
     Export ''info_hash_set'' [This, Pointer ''libtorrent::sha1_hash''] (Set_field ''info_hash'') Catch_any Void])"

definition dht_get_peers_reply_alert_exports_2 :: class_exports where
  "dht_get_peers_reply_alert_exports_2 = (''libtorrent::dht_get_peers_reply_alert'', [
     Export ''info_hash_get'' [This] (Field_address ''info_hash'') Catch_any (Pointer_result ''libtorrent::sha1_hash''),
     Export ''num_peers'' [This] (Method ''num_peers'') Catch_any (Number_result int32 int32),
     Export ''peers'' [This] (Method ''peers'') Catch_any (New_result ''std::vector< libtorrent::tcp::endpoint >''),
     Export ''delete'' [This] Delete Catch_any Void])"

definition dht_direct_response_alert_exports :: class_exports where
  "dht_direct_response_alert_exports = (''libtorrent::dht_direct_response_alert'', [
     Export ''priority_get'' [] (Class_constant ''priority'') Catch_any (Number_result (Declared ''libtorrent::alert_priority'') int32),
     Export ''alert_type_get'' [] (Class_constant ''alert_type'') Catch_any (Number_result int32 int32),
     Export ''type'' [This] (Method ''type'') Catch_any (Number_result int32 int32),
     Export ''category'' [This] (Method ''category'') Catch_any (New_result ''libtorrent::alert_category_t''),
     Export ''what'' [This] (Method ''what'') Catch_any Chars_result,
     Export ''static_category_get'' [] (Class_static ''static_category'') Catch_any (Pointer_result ''libtorrent::flags::bitfield_flag< unsigned int,libtorrent::alert_category_tag >''),
     Export ''message'' [This] (Method ''message'') Catch_any String_result,
     Export ''userdata_set'' [This, Pointer ''libtorrent::client_data_t''] (Set_field ''userdata'') Catch_any Void])"

definition dht_direct_response_alert_exports_2 :: class_exports where
  "dht_direct_response_alert_exports_2 = (''libtorrent::dht_direct_response_alert'', [
     Export ''userdata_get'' [This] (Field_address ''userdata'') Catch_any (Pointer_result ''libtorrent::client_data_t''),
     Export ''response'' [This] (Method ''response'') Catch_any (New_result ''libtorrent::bdecode_node''),
     Export ''get_endpoint'' [This] (Call ''libtorrent_dht_direct_response_alert_get_endpoint'') Catch_any (New_result ''libtorrent::udp::endpoint''),
     Export ''delete'' [This] Delete Catch_any Void])"

definition picker_log_alert_exports :: class_exports where
  "picker_log_alert_exports = (''libtorrent::picker_log_alert'', [
     Export ''priority_get'' [] (Class_constant ''priority'') Catch_any (Number_result (Declared ''libtorrent::alert_priority'') int32),
     Export ''alert_type_get'' [] (Class_constant ''alert_type'') Catch_any (Number_result int32 int32),
     Export ''type'' [This] (Method ''type'') Catch_any (Number_result int32 int32),
     Export ''category'' [This] (Method ''category'') Catch_any (New_result ''libtorrent::alert_category_t''),
     Export ''what'' [This] (Method ''what'') Catch_any Chars_result,
     Export ''static_category_get'' [] (Class_static ''static_category'') Catch_any (Pointer_result ''libtorrent::flags::bitfield_flag< unsigned int,libtorrent::alert_category_tag >''),
     Export ''message'' [This] (Method ''message'') Catch_any String_result,
     Export ''partial_ratio_get'' [] (Class_static ''partial_ratio'') Catch_any (Pointer_result ''libtorrent::flags::bitfield_flag< unsigned int,libtorrent::picker_flags_tag >'')])"

definition picker_log_alert_exports_2 :: class_exports where
  "picker_log_alert_exports_2 = (''libtorrent::picker_log_alert'', [
     Export ''prioritize_partials_get'' [] (Class_static ''prioritize_partials'') Catch_any (Pointer_result ''libtorrent::flags::bitfield_flag< unsigned int,libtorrent::picker_flags_tag >''),
     Export ''rarest_first_partials_get'' [] (Class_static ''rarest_first_partials'') Catch_any (Pointer_result ''libtorrent::flags::bitfield_flag< unsigned int,libtorrent::picker_flags_tag >''),
     Export ''rarest_first_get'' [] (Class_static ''rarest_first'') Catch_any (Pointer_result ''libtorrent::flags::bitfield_flag< unsigned int,libtorrent::picker_flags_tag >''),
     Export ''reverse_rarest_first_get'' [] (Class_static ''reverse_rarest_first'') Catch_any (Pointer_result ''libtorrent::flags::bitfield_flag< unsigned int,libtorrent::picker_flags_tag >''),
     Export ''suggested_pieces_get'' [] (Class_static ''suggested_pieces'') Catch_any (Pointer_result ''libtorrent::flags::bitfield_flag< unsigned int,libtorrent::picker_flags_tag >''),
     Export ''prio_sequential_pieces_get'' [] (Class_static ''prio_sequential_pieces'') Catch_any (Pointer_result ''libtorrent::flags::bitfield_flag< unsigned int,libtorrent::picker_flags_tag >''),
     Export ''sequential_pieces_get'' [] (Class_static ''sequential_pieces'') Catch_any (Pointer_result ''libtorrent::flags::bitfield_flag< unsigned int,libtorrent::picker_flags_tag >''),
     Export ''reverse_pieces_get'' [] (Class_static ''reverse_pieces'') Catch_any (Pointer_result ''libtorrent::flags::bitfield_flag< unsigned int,libtorrent::picker_flags_tag >''),
     Export ''time_critical_get'' [] (Class_static ''time_critical'') Catch_any (Pointer_result ''libtorrent::flags::bitfield_flag< unsigned int,libtorrent::picker_flags_tag >''),
     Export ''random_pieces_get'' [] (Class_static ''random_pieces'') Catch_any (Pointer_result ''libtorrent::flags::bitfield_flag< unsigned int,libtorrent::picker_flags_tag >''),
     Export ''prefer_contiguous_get'' [] (Class_static ''prefer_contiguous'') Catch_any (Pointer_result ''libtorrent::flags::bitfield_flag< unsigned int,libtorrent::picker_flags_tag >''),
     Export ''reverse_sequential_get'' [] (Class_static ''reverse_sequential'') Catch_any (Pointer_result ''libtorrent::flags::bitfield_flag< unsigned int,libtorrent::picker_flags_tag >'')])"

definition picker_log_alert_exports_3 :: class_exports where
  "picker_log_alert_exports_3 = (''libtorrent::picker_log_alert'', [
     Export ''backup1_get'' [] (Class_static ''backup1'') Catch_any (Pointer_result ''libtorrent::flags::bitfield_flag< unsigned int,libtorrent::picker_flags_tag >''),
     Export ''backup2_get'' [] (Class_static ''backup2'') Catch_any (Pointer_result ''libtorrent::flags::bitfield_flag< unsigned int,libtorrent::picker_flags_tag >''),
     Export ''end_game_get'' [] (Class_static ''end_game'') Catch_any (Pointer_result ''libtorrent::flags::bitfield_flag< unsigned int,libtorrent::picker_flags_tag >''),
     Export ''extent_affinity_get'' [] (Class_static ''extent_affinity'') Catch_any (Pointer_result ''libtorrent::flags::bitfield_flag< unsigned int,libtorrent::picker_flags_tag >''),
     Export ''picker_flags_set'' [This, Pointer ''libtorrent::picker_flags_t''] (Set_field ''picker_flags'') Catch_any Void,
     Export ''picker_flags_get'' [This] (Field_address ''picker_flags'') Catch_any (Pointer_result ''libtorrent::picker_flags_t''),
     Export ''blocks'' [This] (Method ''blocks'') Catch_any (New_result ''std::vector< libtorrent::piece_block >''),
     Export ''delete'' [This] Delete Catch_any Void])"

definition session_error_alert_exports :: class_exports where
  "session_error_alert_exports = (''libtorrent::session_error_alert'', [
     Export ''priority_get'' [] (Class_constant ''priority'') Catch_any (Number_result (Declared ''libtorrent::alert_priority'') int32),
     Export ''alert_type_get'' [] (Class_constant ''alert_type'') Catch_any (Number_result int32 int32),
     Export ''type'' [This] (Method ''type'') Catch_any (Number_result int32 int32),
     Export ''category'' [This] (Method ''category'') Catch_any (New_result ''libtorrent::alert_category_t''),
     Export ''what'' [This] (Method ''what'') Catch_any Chars_result,
     Export ''static_category_get'' [] (Class_static ''static_category'') Catch_any (Pointer_result ''libtorrent::flags::bitfield_flag< unsigned int,libtorrent::alert_category_tag >''),
     Export ''message'' [This] (Method ''message'') Catch_any String_result,
     Export ''error_get'' [This] (Field_address ''error'') Catch_any (Pointer_result ''libtorrent::error_code'')])"

definition session_error_alert_exports_2 :: class_exports where
  "session_error_alert_exports_2 = (''libtorrent::session_error_alert'', [
     Export ''delete'' [This] Delete Catch_any Void])"

definition dht_live_nodes_alert_exports :: class_exports where
  "dht_live_nodes_alert_exports = (''libtorrent::dht_live_nodes_alert'', [
     Export ''priority_get'' [] (Class_constant ''priority'') Catch_any (Number_result (Declared ''libtorrent::alert_priority'') int32),
     Export ''alert_type_get'' [] (Class_constant ''alert_type'') Catch_any (Number_result int32 int32),
     Export ''type'' [This] (Method ''type'') Catch_any (Number_result int32 int32),
     Export ''category'' [This] (Method ''category'') Catch_any (New_result ''libtorrent::alert_category_t''),
     Export ''what'' [This] (Method ''what'') Catch_any Chars_result,
     Export ''static_category_get'' [] (Class_static ''static_category'') Catch_any (Pointer_result ''libtorrent::flags::bitfield_flag< unsigned int,libtorrent::alert_category_tag >''),
     Export ''message'' [This] (Method ''message'') Catch_any String_result,
     Export ''node_id_set'' [This, Pointer ''libtorrent::sha1_hash''] (Set_field ''node_id'') Catch_any Void])"

definition dht_live_nodes_alert_exports_2 :: class_exports where
  "dht_live_nodes_alert_exports_2 = (''libtorrent::dht_live_nodes_alert'', [
     Export ''node_id_get'' [This] (Field_address ''node_id'') Catch_any (Pointer_result ''libtorrent::sha1_hash''),
     Export ''num_nodes'' [This] (Method ''num_nodes'') Catch_any (Number_result int32 int32),
     Export ''nodes'' [This] (Method ''nodes'') Catch_any (New_result ''std::vector< std::pair< libtorrent::sha1_hash,libtorrent::udp::endpoint > >''),
     Export ''delete'' [This] Delete Catch_any Void])"

definition session_stats_header_alert_exports :: class_exports where
  "session_stats_header_alert_exports = (''libtorrent::session_stats_header_alert'', [
     Export ''priority_get'' [] (Class_constant ''priority'') Catch_any (Number_result (Declared ''libtorrent::alert_priority'') int32),
     Export ''alert_type_get'' [] (Class_constant ''alert_type'') Catch_any (Number_result int32 int32),
     Export ''type'' [This] (Method ''type'') Catch_any (Number_result int32 int32),
     Export ''category'' [This] (Method ''category'') Catch_any (New_result ''libtorrent::alert_category_t''),
     Export ''what'' [This] (Method ''what'') Catch_any Chars_result,
     Export ''static_category_get'' [] (Class_static ''static_category'') Catch_any (Pointer_result ''libtorrent::flags::bitfield_flag< unsigned int,libtorrent::alert_category_tag >''),
     Export ''message'' [This] (Method ''message'') Catch_any String_result])"

definition session_stats_header_alert_exports_2 :: class_exports where
  "session_stats_header_alert_exports_2 = (''libtorrent::session_stats_header_alert'', [
     Export ''delete'' [This] Delete Catch_any Void])"

definition dht_sample_infohashes_alert_exports :: class_exports where
  "dht_sample_infohashes_alert_exports = (''libtorrent::dht_sample_infohashes_alert'', [
     Export ''static_category_get'' [] (Class_static ''static_category'') Catch_any (Pointer_result ''libtorrent::flags::bitfield_flag< unsigned int,libtorrent::alert_category_tag >''),
     Export ''priority_get'' [] (Class_constant ''priority'') Catch_any (Number_result (Declared ''libtorrent::alert_priority'') int32),
     Export ''alert_type_get'' [] (Class_constant ''alert_type'') Catch_any (Number_result int32 int32),
     Export ''type'' [This] (Method ''type'') Catch_any (Number_result int32 int32),
     Export ''category'' [This] (Method ''category'') Catch_any (New_result ''libtorrent::alert_category_t''),
     Export ''what'' [This] (Method ''what'') Catch_any Chars_result,
     Export ''message'' [This] (Method ''message'') Catch_any String_result,
     Export ''node_id_set'' [This, Pointer ''libtorrent::sha1_hash''] (Set_field ''node_id'') Catch_any Void])"

definition dht_sample_infohashes_alert_exports_2 :: class_exports where
  "dht_sample_infohashes_alert_exports_2 = (''libtorrent::dht_sample_infohashes_alert'', [
     Export ''node_id_get'' [This] (Field_address ''node_id'') Catch_any (Pointer_result ''libtorrent::sha1_hash''),
     Export ''num_infohashes_get'' [This] (Get_field ''num_infohashes'') Catch_any (Number_result int32 int32),
     Export ''num_samples'' [This] (Method ''num_samples'') Catch_any (Number_result int32 int32),
     Export ''samples'' [This] (Method ''samples'') Catch_any (New_result ''std::vector< libtorrent::sha1_hash >''),
     Export ''num_nodes'' [This] (Method ''num_nodes'') Catch_any (Number_result int32 int32),
     Export ''nodes'' [This] (Method ''nodes'') Catch_any (New_result ''std::vector< std::pair< libtorrent::sha1_hash,libtorrent::udp::endpoint > >'')])"

definition dht_sample_infohashes_alert_exports_3 :: class_exports where
  "dht_sample_infohashes_alert_exports_3 = (''libtorrent::dht_sample_infohashes_alert'', [
     Export ''get_endpoint'' [This] (Call ''libtorrent_dht_sample_infohashes_alert_get_endpoint'') Catch_any (New_result ''libtorrent::udp::endpoint''),
     Export ''get_interval'' [This] (Call ''libtorrent_dht_sample_infohashes_alert_get_interval'') Catch_any (Number_result int64 int64),
     Export ''delete'' [This] Delete Catch_any Void])"

definition block_uploaded_alert_exports :: class_exports where
  "block_uploaded_alert_exports = (''libtorrent::block_uploaded_alert'', [
     Export ''priority_get'' [] (Class_constant ''priority'') Catch_any (Number_result (Declared ''libtorrent::alert_priority'') int32),
     Export ''alert_type_get'' [] (Class_constant ''alert_type'') Catch_any (Number_result int32 int32),
     Export ''type'' [This] (Method ''type'') Catch_any (Number_result int32 int32),
     Export ''category'' [This] (Method ''category'') Catch_any (New_result ''libtorrent::alert_category_t''),
     Export ''what'' [This] (Method ''what'') Catch_any Chars_result,
     Export ''static_category_get'' [] (Class_static ''static_category'') Catch_any (Pointer_result ''libtorrent::flags::bitfield_flag< unsigned int,libtorrent::alert_category_tag >''),
     Export ''message'' [This] (Method ''message'') Catch_any String_result,
     Export ''block_index_get'' [This] (Get_field ''block_index'') Catch_any (Number_result int32 int32)])"

definition block_uploaded_alert_exports_2 :: class_exports where
  "block_uploaded_alert_exports_2 = (''libtorrent::block_uploaded_alert'', [
     Export ''piece_index_get'' [This] (Get_field ''piece_index'') Catch_any (Number_result int32 int32),
     Export ''delete'' [This] Delete Catch_any Void])"

definition alerts_dropped_alert_exports :: class_exports where
  "alerts_dropped_alert_exports = (''libtorrent::alerts_dropped_alert'', [
     Export ''priority_get'' [] (Class_constant ''priority'') Catch_any (Number_result (Declared ''libtorrent::alert_priority'') int32),
     Export ''alert_type_get'' [] (Class_constant ''alert_type'') Catch_any (Number_result int32 int32),
     Export ''type'' [This] (Method ''type'') Catch_any (Number_result int32 int32),
     Export ''category'' [This] (Method ''category'') Catch_any (New_result ''libtorrent::alert_category_t''),
     Export ''what'' [This] (Method ''what'') Catch_any Chars_result,
     Export ''static_category_get'' [] (Class_static ''static_category'') Catch_any (Pointer_result ''libtorrent::flags::bitfield_flag< unsigned int,libtorrent::alert_category_tag >''),
     Export ''message'' [This] (Method ''message'') Catch_any String_result,
     Export ''dropped_alerts_set'' [This, Pointer ''std::bitset< 128 >''] (Set_field ''dropped_alerts'') Catch_any Void])"

definition alerts_dropped_alert_exports_2 :: class_exports where
  "alerts_dropped_alert_exports_2 = (''libtorrent::alerts_dropped_alert'', [
     Export ''dropped_alerts_get'' [This] (Field_address ''dropped_alerts'') Catch_any (Pointer_result ''std::bitset< 128 >''),
     Export ''delete'' [This] Delete Catch_any Void])"

definition socks5_alert_exports :: class_exports where
  "socks5_alert_exports = (''libtorrent::socks5_alert'', [
     Export ''priority_get'' [] (Class_constant ''priority'') Catch_any (Number_result (Declared ''libtorrent::alert_priority'') int32),
     Export ''alert_type_get'' [] (Class_constant ''alert_type'') Catch_any (Number_result int32 int32),
     Export ''type'' [This] (Method ''type'') Catch_any (Number_result int32 int32),
     Export ''category'' [This] (Method ''category'') Catch_any (New_result ''libtorrent::alert_category_t''),
     Export ''what'' [This] (Method ''what'') Catch_any Chars_result,
     Export ''static_category_get'' [] (Class_static ''static_category'') Catch_any (Pointer_result ''libtorrent::flags::bitfield_flag< unsigned int,libtorrent::alert_category_tag >''),
     Export ''message'' [This] (Method ''message'') Catch_any String_result,
     Export ''error_set'' [This, Pointer ''libtorrent::error_code''] (Set_field ''error'') Catch_any Void])"

definition socks5_alert_exports_2 :: class_exports where
  "socks5_alert_exports_2 = (''libtorrent::socks5_alert'', [
     Export ''error_get'' [This] (Field_address ''error'') Catch_any (Pointer_result ''libtorrent::error_code''),
     Export ''op_set'' [This, Number (Declared ''libtorrent::operation_t'')] (Set_field ''op'') Catch_any Void,
     Export ''op_get'' [This] (Get_field ''op'') Catch_any (Number_result (Declared ''libtorrent::operation_t'') int32),
     Export ''delete'' [This] Delete Catch_any Void])"

definition file_prio_alert_exports :: class_exports where
  "file_prio_alert_exports = (''libtorrent::file_prio_alert'', [
     Export ''priority_get'' [] (Class_constant ''priority'') Catch_any (Number_result (Declared ''libtorrent::alert_priority'') int32),
     Export ''alert_type_get'' [] (Class_constant ''alert_type'') Catch_any (Number_result int32 int32),
     Export ''type'' [This] (Method ''type'') Catch_any (Number_result int32 int32),
     Export ''category'' [This] (Method ''category'') Catch_any (New_result ''libtorrent::alert_category_t''),
     Export ''what'' [This] (Method ''what'') Catch_any Chars_result,
     Export ''static_category_get'' [] (Class_static ''static_category'') Catch_any (Pointer_result ''libtorrent::flags::bitfield_flag< unsigned int,libtorrent::alert_category_tag >''),
     Export ''message'' [This] (Method ''message'') Catch_any String_result,
     Export ''error_set'' [This, Pointer ''libtorrent::error_code''] (Set_field ''error'') Catch_any Void])"

definition file_prio_alert_exports_2 :: class_exports where
  "file_prio_alert_exports_2 = (''libtorrent::file_prio_alert'', [
     Export ''error_get'' [This] (Field_address ''error'') Catch_any (Pointer_result ''libtorrent::error_code''),
     Export ''op_set'' [This, Number (Declared ''libtorrent::operation_t'')] (Set_field ''op'') Catch_any Void,
     Export ''op_get'' [This] (Get_field ''op'') Catch_any (Number_result (Declared ''libtorrent::operation_t'') int32),
     Export ''delete'' [This] Delete Catch_any Void])"

definition oversized_file_alert_exports :: class_exports where
  "oversized_file_alert_exports = (''libtorrent::oversized_file_alert'', [
     Export ''priority_get'' [] (Class_constant ''priority'') Catch_any (Number_result (Declared ''libtorrent::alert_priority'') int32),
     Export ''alert_type_get'' [] (Class_constant ''alert_type'') Catch_any (Number_result int32 int32),
     Export ''type'' [This] (Method ''type'') Catch_any (Number_result int32 int32),
     Export ''category'' [This] (Method ''category'') Catch_any (New_result ''libtorrent::alert_category_t''),
     Export ''what'' [This] (Method ''what'') Catch_any Chars_result,
     Export ''static_category_get'' [] (Class_static ''static_category'') Catch_any (Pointer_result ''libtorrent::flags::bitfield_flag< unsigned int,libtorrent::alert_category_tag >''),
     Export ''message'' [This] (Method ''message'') Catch_any String_result])"

definition oversized_file_alert_exports_2 :: class_exports where
  "oversized_file_alert_exports_2 = (''libtorrent::oversized_file_alert'', [
     Export ''delete'' [This] Delete Catch_any Void])"

definition torrent_conflict_alert_exports :: class_exports where
  "torrent_conflict_alert_exports = (''libtorrent::torrent_conflict_alert'', [
     Export ''priority_get'' [] (Class_constant ''priority'') Catch_any (Number_result (Declared ''libtorrent::alert_priority'') int32),
     Export ''alert_type_get'' [] (Class_constant ''alert_type'') Catch_any (Number_result int32 int32),
     Export ''type'' [This] (Method ''type'') Catch_any (Number_result int32 int32),
     Export ''category'' [This] (Method ''category'') Catch_any (New_result ''libtorrent::alert_category_t''),
     Export ''what'' [This] (Method ''what'') Catch_any Chars_result,
     Export ''static_category_get'' [] (Class_static ''static_category'') Catch_any (Pointer_result ''libtorrent::flags::bitfield_flag< unsigned int,libtorrent::alert_category_tag >''),
     Export ''message'' [This] (Method ''message'') Catch_any String_result,
     Export ''conflicting_torrent_set'' [This, Pointer ''libtorrent::torrent_handle''] (Set_field ''conflicting_torrent'') Catch_any Void])"

definition torrent_conflict_alert_exports_2 :: class_exports where
  "torrent_conflict_alert_exports_2 = (''libtorrent::torrent_conflict_alert'', [
     Export ''conflicting_torrent_get'' [This] (Field_address ''conflicting_torrent'') Catch_any (Pointer_result ''libtorrent::torrent_handle''),
     Export ''get_metadata'' [This] (Call ''libtorrent_torrent_conflict_alert_get_metadata'') Catch_any (New_result ''libtorrent::torrent_info''),
     Export ''delete'' [This] Delete Catch_any Void])"

definition peer_info_alert_exports :: class_exports where
  "peer_info_alert_exports = (''libtorrent::peer_info_alert'', [
     Export ''priority_get'' [] (Class_constant ''priority'') Catch_any (Number_result (Declared ''libtorrent::alert_priority'') int32),
     Export ''alert_type_get'' [] (Class_constant ''alert_type'') Catch_any (Number_result int32 int32),
     Export ''type'' [This] (Method ''type'') Catch_any (Number_result int32 int32),
     Export ''category'' [This] (Method ''category'') Catch_any (New_result ''libtorrent::alert_category_t''),
     Export ''what'' [This] (Method ''what'') Catch_any Chars_result,
     Export ''static_category_get'' [] (Class_static ''static_category'') Catch_any (Pointer_result ''libtorrent::flags::bitfield_flag< unsigned int,libtorrent::alert_category_tag >''),
     Export ''message'' [This] (Method ''message'') Catch_any String_result,
     Export ''peer_info_set'' [This, Pointer ''std::vector< libtorrent::peer_info >''] (Set_field ''peer_info'') Catch_any Void])"

definition peer_info_alert_exports_2 :: class_exports where
  "peer_info_alert_exports_2 = (''libtorrent::peer_info_alert'', [
     Export ''peer_info_get'' [This] (Field_address ''peer_info'') Catch_any (Pointer_result ''std::vector< libtorrent::peer_info >''),
     Export ''delete'' [This] Delete Catch_any Void])"

definition file_progress_alert_exports :: class_exports where
  "file_progress_alert_exports = (''libtorrent::file_progress_alert'', [
     Export ''priority_get'' [] (Class_constant ''priority'') Catch_any (Number_result (Declared ''libtorrent::alert_priority'') int32),
     Export ''alert_type_get'' [] (Class_constant ''alert_type'') Catch_any (Number_result int32 int32),
     Export ''type'' [This] (Method ''type'') Catch_any (Number_result int32 int32),
     Export ''category'' [This] (Method ''category'') Catch_any (New_result ''libtorrent::alert_category_t''),
     Export ''what'' [This] (Method ''what'') Catch_any Chars_result,
     Export ''static_category_get'' [] (Class_static ''static_category'') Catch_any (Pointer_result ''libtorrent::flags::bitfield_flag< unsigned int,libtorrent::alert_category_tag >''),
     Export ''message'' [This] (Method ''message'') Catch_any String_result])"

definition file_progress_alert_exports_2 :: class_exports where
  "file_progress_alert_exports_2 = (''libtorrent::file_progress_alert'', [
     Export ''get_files'' [This] (Call ''libtorrent_file_progress_alert_get_files'') Catch_any (New_result ''std::vector< std::int64_t >''),
     Export ''delete'' [This] Delete Catch_any Void])"

definition piece_info_alert_exports :: class_exports where
  "piece_info_alert_exports = (''libtorrent::piece_info_alert'', [
     Export ''priority_get'' [] (Class_constant ''priority'') Catch_any (Number_result (Declared ''libtorrent::alert_priority'') int32),
     Export ''alert_type_get'' [] (Class_constant ''alert_type'') Catch_any (Number_result int32 int32),
     Export ''type'' [This] (Method ''type'') Catch_any (Number_result int32 int32),
     Export ''category'' [This] (Method ''category'') Catch_any (New_result ''libtorrent::alert_category_t''),
     Export ''what'' [This] (Method ''what'') Catch_any Chars_result,
     Export ''static_category_get'' [] (Class_static ''static_category'') Catch_any (Pointer_result ''libtorrent::flags::bitfield_flag< unsigned int,libtorrent::alert_category_tag >''),
     Export ''message'' [This] (Method ''message'') Catch_any String_result,
     Export ''piece_info_set'' [This, Pointer ''std::vector< libtorrent::partial_piece_info >''] (Set_field ''piece_info'') Catch_any Void])"

definition piece_info_alert_exports_2 :: class_exports where
  "piece_info_alert_exports_2 = (''libtorrent::piece_info_alert'', [
     Export ''piece_info_get'' [This] (Field_address ''piece_info'') Catch_any (Pointer_result ''std::vector< libtorrent::partial_piece_info >''),
     Export ''block_data_set'' [This, Pointer ''std::vector< libtorrent::block_info >''] (Set_field ''block_data'') Catch_any Void,
     Export ''block_data_get'' [This] (Field_address ''block_data'') Catch_any (Pointer_result ''std::vector< libtorrent::block_info >''),
     Export ''delete'' [This] Delete Catch_any Void])"

definition piece_availability_alert_exports :: class_exports where
  "piece_availability_alert_exports = (''libtorrent::piece_availability_alert'', [
     Export ''priority_get'' [] (Class_constant ''priority'') Catch_any (Number_result (Declared ''libtorrent::alert_priority'') int32),
     Export ''alert_type_get'' [] (Class_constant ''alert_type'') Catch_any (Number_result int32 int32),
     Export ''type'' [This] (Method ''type'') Catch_any (Number_result int32 int32),
     Export ''category'' [This] (Method ''category'') Catch_any (New_result ''libtorrent::alert_category_t''),
     Export ''what'' [This] (Method ''what'') Catch_any Chars_result,
     Export ''static_category_get'' [] (Class_static ''static_category'') Catch_any (Pointer_result ''libtorrent::flags::bitfield_flag< unsigned int,libtorrent::alert_category_tag >''),
     Export ''message'' [This] (Method ''message'') Catch_any String_result,
     Export ''piece_availability_set'' [This, Pointer ''std::vector< int >''] (Set_field ''piece_availability'') Catch_any Void])"

definition piece_availability_alert_exports_2 :: class_exports where
  "piece_availability_alert_exports_2 = (''libtorrent::piece_availability_alert'', [
     Export ''piece_availability_get'' [This] (Field_address ''piece_availability'') Catch_any (Pointer_result ''std::vector< int >''),
     Export ''delete'' [This] Delete Catch_any Void])"

definition tracker_list_alert_exports :: class_exports where
  "tracker_list_alert_exports = (''libtorrent::tracker_list_alert'', [
     Export ''priority_get'' [] (Class_constant ''priority'') Catch_any (Number_result (Declared ''libtorrent::alert_priority'') int32),
     Export ''alert_type_get'' [] (Class_constant ''alert_type'') Catch_any (Number_result int32 int32),
     Export ''type'' [This] (Method ''type'') Catch_any (Number_result int32 int32),
     Export ''category'' [This] (Method ''category'') Catch_any (New_result ''libtorrent::alert_category_t''),
     Export ''what'' [This] (Method ''what'') Catch_any Chars_result,
     Export ''static_category_get'' [] (Class_static ''static_category'') Catch_any (Pointer_result ''libtorrent::flags::bitfield_flag< unsigned int,libtorrent::alert_category_tag >''),
     Export ''message'' [This] (Method ''message'') Catch_any String_result,
     Export ''trackers_set'' [This, Pointer ''std::vector< libtorrent::announce_entry >''] (Set_field ''trackers'') Catch_any Void])"

definition tracker_list_alert_exports_2 :: class_exports where
  "tracker_list_alert_exports_2 = (''libtorrent::tracker_list_alert'', [
     Export ''trackers_get'' [This] (Field_address ''trackers'') Catch_any (Pointer_result ''std::vector< libtorrent::announce_entry >''),
     Export ''delete'' [This] Delete Catch_any Void])"

text \<open>All of them.\<close>

definition alert_classes :: "class_exports list" where
  "alert_classes = [
    entry_exports_3, entry_exports_4, entry_exports_5, entry_exports_6, global_exports_14, global_exports_15,
    alert_exports, alert_exports_2, alert_exports_3, alert_exports_4, alert_exports_5, alert_exports_6,
    alert_exports_7, alert_exports_8, alert_exports_9, alert_exports_10, alert_exports_11, alert_exports_12,
    alert_exports_13, alert_exports_14, alert_exports_15, alert_exports_16, alert_exports_17, alert_exports_18,
    alert_exports_19, alert_exports_20, global_exports_16, dht_routing_bucket_exports, torrent_alert_exports,
    peer_alert_exports, tracker_alert_exports, torrent_removed_alert_exports, torrent_removed_alert_exports_2,
    read_piece_alert_exports, read_piece_alert_exports_2, file_completed_alert_exports,
    file_completed_alert_exports_2, file_renamed_alert_exports, file_renamed_alert_exports_2,
    file_rename_failed_alert_exports, file_rename_failed_alert_exports_2, performance_alert_exports,
    performance_alert_exports_2, state_changed_alert_exports, state_changed_alert_exports_2,
    tracker_error_alert_exports, tracker_error_alert_exports_2, tracker_warning_alert_exports,
    tracker_warning_alert_exports_2, scrape_reply_alert_exports, scrape_reply_alert_exports_2,
    scrape_failed_alert_exports, scrape_failed_alert_exports_2, tracker_reply_alert_exports,
    tracker_reply_alert_exports_2, dht_reply_alert_exports, dht_reply_alert_exports_2,
    tracker_announce_alert_exports, tracker_announce_alert_exports_2, hash_failed_alert_exports,
    hash_failed_alert_exports_2, peer_ban_alert_exports, peer_ban_alert_exports_2, peer_unsnubbed_alert_exports,
    peer_unsnubbed_alert_exports_2, peer_snubbed_alert_exports, peer_snubbed_alert_exports_2,
    peer_error_alert_exports, peer_error_alert_exports_2, peer_connect_alert_exports,
    peer_connect_alert_exports_2, peer_disconnected_alert_exports, peer_disconnected_alert_exports_2,
    invalid_request_alert_exports, invalid_request_alert_exports_2, torrent_finished_alert_exports,
    torrent_finished_alert_exports_2, piece_finished_alert_exports, piece_finished_alert_exports_2,
    request_dropped_alert_exports, request_dropped_alert_exports_2, block_timeout_alert_exports,
    block_timeout_alert_exports_2, block_finished_alert_exports, block_finished_alert_exports_2,
    block_downloading_alert_exports, block_downloading_alert_exports_2, unwanted_block_alert_exports,
    unwanted_block_alert_exports_2, storage_moved_alert_exports, storage_moved_alert_exports_2,
    storage_moved_failed_alert_exports, storage_moved_failed_alert_exports_2, torrent_deleted_alert_exports,
    torrent_deleted_alert_exports_2, torrent_delete_failed_alert_exports, torrent_delete_failed_alert_exports_2,
    save_resume_data_alert_exports, save_resume_data_alert_exports_2, save_resume_data_failed_alert_exports,
    save_resume_data_failed_alert_exports_2, torrent_paused_alert_exports, torrent_paused_alert_exports_2,
    torrent_resumed_alert_exports, torrent_resumed_alert_exports_2, torrent_checked_alert_exports,
    torrent_checked_alert_exports_2, url_seed_alert_exports, url_seed_alert_exports_2, file_error_alert_exports,
    file_error_alert_exports_2, metadata_failed_alert_exports, metadata_failed_alert_exports_2,
    metadata_received_alert_exports, metadata_received_alert_exports_2, udp_error_alert_exports,
    udp_error_alert_exports_2, external_ip_alert_exports, external_ip_alert_exports_2,
    listen_failed_alert_exports, listen_failed_alert_exports_2, listen_failed_alert_exports_3,
    listen_succeeded_alert_exports, listen_succeeded_alert_exports_2, portmap_error_alert_exports,
    portmap_error_alert_exports_2, portmap_alert_exports, portmap_alert_exports_2, portmap_log_alert_exports,
    portmap_log_alert_exports_2, fastresume_rejected_alert_exports, fastresume_rejected_alert_exports_2,
    peer_blocked_alert_exports, peer_blocked_alert_exports_2, dht_announce_alert_exports,
    dht_announce_alert_exports_2, dht_get_peers_alert_exports, dht_get_peers_alert_exports_2,
    cache_flushed_alert_exports, lsd_peer_alert_exports, lsd_peer_alert_exports_2, trackerid_alert_exports,
    trackerid_alert_exports_2, dht_bootstrap_alert_exports, dht_bootstrap_alert_exports_2,
    torrent_error_alert_exports, torrent_error_alert_exports_2, torrent_need_cert_alert_exports,
    torrent_need_cert_alert_exports_2, incoming_connection_alert_exports, incoming_connection_alert_exports_2,
    add_torrent_alert_exports, add_torrent_alert_exports_2, state_update_alert_exports,
    state_update_alert_exports_2, session_stats_alert_exports, session_stats_alert_exports_2,
    dht_error_alert_exports, dht_error_alert_exports_2, dht_immutable_item_alert_exports,
    dht_immutable_item_alert_exports_2, dht_mutable_item_alert_exports, dht_mutable_item_alert_exports_2,
    dht_mutable_item_alert_exports_3, dht_put_alert_exports, dht_put_alert_exports_2, dht_put_alert_exports_3,
    i2p_alert_exports, i2p_alert_exports_2, dht_outgoing_get_peers_alert_exports,
    dht_outgoing_get_peers_alert_exports_2, log_alert_exports, log_alert_exports_2, torrent_log_alert_exports,
    torrent_log_alert_exports_2, peer_log_alert_exports, peer_log_alert_exports_2, lsd_error_alert_exports,
    lsd_error_alert_exports_2, dht_lookup_exports, dht_lookup_exports_2, dht_stats_alert_exports,
    dht_stats_alert_exports_2, incoming_request_alert_exports, incoming_request_alert_exports_2,
    dht_log_alert_exports, dht_log_alert_exports_2, dht_pkt_alert_exports, dht_pkt_alert_exports_2,
    dht_get_peers_reply_alert_exports, dht_get_peers_reply_alert_exports_2, dht_direct_response_alert_exports,
    dht_direct_response_alert_exports_2, picker_log_alert_exports, picker_log_alert_exports_2,
    picker_log_alert_exports_3, session_error_alert_exports, session_error_alert_exports_2,
    dht_live_nodes_alert_exports, dht_live_nodes_alert_exports_2, session_stats_header_alert_exports,
    session_stats_header_alert_exports_2, dht_sample_infohashes_alert_exports,
    dht_sample_infohashes_alert_exports_2, dht_sample_infohashes_alert_exports_3, block_uploaded_alert_exports,
    block_uploaded_alert_exports_2, alerts_dropped_alert_exports, alerts_dropped_alert_exports_2,
    socks5_alert_exports, socks5_alert_exports_2, file_prio_alert_exports, file_prio_alert_exports_2,
    oversized_file_alert_exports, oversized_file_alert_exports_2, torrent_conflict_alert_exports,
    torrent_conflict_alert_exports_2, peer_info_alert_exports, peer_info_alert_exports_2,
    file_progress_alert_exports, file_progress_alert_exports_2, piece_info_alert_exports,
    piece_info_alert_exports_2, piece_availability_alert_exports, piece_availability_alert_exports_2,
    tracker_list_alert_exports, tracker_list_alert_exports_2]"

lemmas alert_classes_tables =
    entry_exports_3_def entry_exports_4_def entry_exports_5_def entry_exports_6_def global_exports_14_def global_exports_15_def
    alert_exports_def alert_exports_2_def alert_exports_3_def alert_exports_4_def alert_exports_5_def alert_exports_6_def
    alert_exports_7_def alert_exports_8_def alert_exports_9_def alert_exports_10_def alert_exports_11_def alert_exports_12_def
    alert_exports_13_def alert_exports_14_def alert_exports_15_def alert_exports_16_def alert_exports_17_def alert_exports_18_def
    alert_exports_19_def alert_exports_20_def global_exports_16_def dht_routing_bucket_exports_def torrent_alert_exports_def
    peer_alert_exports_def tracker_alert_exports_def torrent_removed_alert_exports_def torrent_removed_alert_exports_2_def
    read_piece_alert_exports_def read_piece_alert_exports_2_def file_completed_alert_exports_def
    file_completed_alert_exports_2_def file_renamed_alert_exports_def file_renamed_alert_exports_2_def
    file_rename_failed_alert_exports_def file_rename_failed_alert_exports_2_def performance_alert_exports_def
    performance_alert_exports_2_def state_changed_alert_exports_def state_changed_alert_exports_2_def
    tracker_error_alert_exports_def tracker_error_alert_exports_2_def tracker_warning_alert_exports_def
    tracker_warning_alert_exports_2_def scrape_reply_alert_exports_def scrape_reply_alert_exports_2_def
    scrape_failed_alert_exports_def scrape_failed_alert_exports_2_def tracker_reply_alert_exports_def
    tracker_reply_alert_exports_2_def dht_reply_alert_exports_def dht_reply_alert_exports_2_def
    tracker_announce_alert_exports_def tracker_announce_alert_exports_2_def hash_failed_alert_exports_def
    hash_failed_alert_exports_2_def peer_ban_alert_exports_def peer_ban_alert_exports_2_def peer_unsnubbed_alert_exports_def
    peer_unsnubbed_alert_exports_2_def peer_snubbed_alert_exports_def peer_snubbed_alert_exports_2_def
    peer_error_alert_exports_def peer_error_alert_exports_2_def peer_connect_alert_exports_def
    peer_connect_alert_exports_2_def peer_disconnected_alert_exports_def peer_disconnected_alert_exports_2_def
    invalid_request_alert_exports_def invalid_request_alert_exports_2_def torrent_finished_alert_exports_def
    torrent_finished_alert_exports_2_def piece_finished_alert_exports_def piece_finished_alert_exports_2_def
    request_dropped_alert_exports_def request_dropped_alert_exports_2_def block_timeout_alert_exports_def
    block_timeout_alert_exports_2_def block_finished_alert_exports_def block_finished_alert_exports_2_def
    block_downloading_alert_exports_def block_downloading_alert_exports_2_def unwanted_block_alert_exports_def
    unwanted_block_alert_exports_2_def storage_moved_alert_exports_def storage_moved_alert_exports_2_def
    storage_moved_failed_alert_exports_def storage_moved_failed_alert_exports_2_def torrent_deleted_alert_exports_def
    torrent_deleted_alert_exports_2_def torrent_delete_failed_alert_exports_def torrent_delete_failed_alert_exports_2_def
    save_resume_data_alert_exports_def save_resume_data_alert_exports_2_def save_resume_data_failed_alert_exports_def
    save_resume_data_failed_alert_exports_2_def torrent_paused_alert_exports_def torrent_paused_alert_exports_2_def
    torrent_resumed_alert_exports_def torrent_resumed_alert_exports_2_def torrent_checked_alert_exports_def
    torrent_checked_alert_exports_2_def url_seed_alert_exports_def url_seed_alert_exports_2_def file_error_alert_exports_def
    file_error_alert_exports_2_def metadata_failed_alert_exports_def metadata_failed_alert_exports_2_def
    metadata_received_alert_exports_def metadata_received_alert_exports_2_def udp_error_alert_exports_def
    udp_error_alert_exports_2_def external_ip_alert_exports_def external_ip_alert_exports_2_def
    listen_failed_alert_exports_def listen_failed_alert_exports_2_def listen_failed_alert_exports_3_def
    listen_succeeded_alert_exports_def listen_succeeded_alert_exports_2_def portmap_error_alert_exports_def
    portmap_error_alert_exports_2_def portmap_alert_exports_def portmap_alert_exports_2_def portmap_log_alert_exports_def
    portmap_log_alert_exports_2_def fastresume_rejected_alert_exports_def fastresume_rejected_alert_exports_2_def
    peer_blocked_alert_exports_def peer_blocked_alert_exports_2_def dht_announce_alert_exports_def
    dht_announce_alert_exports_2_def dht_get_peers_alert_exports_def dht_get_peers_alert_exports_2_def
    cache_flushed_alert_exports_def lsd_peer_alert_exports_def lsd_peer_alert_exports_2_def trackerid_alert_exports_def
    trackerid_alert_exports_2_def dht_bootstrap_alert_exports_def dht_bootstrap_alert_exports_2_def
    torrent_error_alert_exports_def torrent_error_alert_exports_2_def torrent_need_cert_alert_exports_def
    torrent_need_cert_alert_exports_2_def incoming_connection_alert_exports_def incoming_connection_alert_exports_2_def
    add_torrent_alert_exports_def add_torrent_alert_exports_2_def state_update_alert_exports_def
    state_update_alert_exports_2_def session_stats_alert_exports_def session_stats_alert_exports_2_def
    dht_error_alert_exports_def dht_error_alert_exports_2_def dht_immutable_item_alert_exports_def
    dht_immutable_item_alert_exports_2_def dht_mutable_item_alert_exports_def dht_mutable_item_alert_exports_2_def
    dht_mutable_item_alert_exports_3_def dht_put_alert_exports_def dht_put_alert_exports_2_def dht_put_alert_exports_3_def
    i2p_alert_exports_def i2p_alert_exports_2_def dht_outgoing_get_peers_alert_exports_def
    dht_outgoing_get_peers_alert_exports_2_def log_alert_exports_def log_alert_exports_2_def torrent_log_alert_exports_def
    torrent_log_alert_exports_2_def peer_log_alert_exports_def peer_log_alert_exports_2_def lsd_error_alert_exports_def
    lsd_error_alert_exports_2_def dht_lookup_exports_def dht_lookup_exports_2_def dht_stats_alert_exports_def
    dht_stats_alert_exports_2_def incoming_request_alert_exports_def incoming_request_alert_exports_2_def
    dht_log_alert_exports_def dht_log_alert_exports_2_def dht_pkt_alert_exports_def dht_pkt_alert_exports_2_def
    dht_get_peers_reply_alert_exports_def dht_get_peers_reply_alert_exports_2_def dht_direct_response_alert_exports_def
    dht_direct_response_alert_exports_2_def picker_log_alert_exports_def picker_log_alert_exports_2_def
    picker_log_alert_exports_3_def session_error_alert_exports_def session_error_alert_exports_2_def
    dht_live_nodes_alert_exports_def dht_live_nodes_alert_exports_2_def session_stats_header_alert_exports_def
    session_stats_header_alert_exports_2_def dht_sample_infohashes_alert_exports_def
    dht_sample_infohashes_alert_exports_2_def dht_sample_infohashes_alert_exports_3_def block_uploaded_alert_exports_def
    block_uploaded_alert_exports_2_def alerts_dropped_alert_exports_def alerts_dropped_alert_exports_2_def
    socks5_alert_exports_def socks5_alert_exports_2_def file_prio_alert_exports_def file_prio_alert_exports_2_def
    oversized_file_alert_exports_def oversized_file_alert_exports_2_def torrent_conflict_alert_exports_def
    torrent_conflict_alert_exports_2_def peer_info_alert_exports_def peer_info_alert_exports_2_def
    file_progress_alert_exports_def file_progress_alert_exports_2_def piece_info_alert_exports_def
    piece_info_alert_exports_2_def piece_availability_alert_exports_def piece_availability_alert_exports_2_def
    tracker_list_alert_exports_def tracker_list_alert_exports_2_def

lemma alert_classes_ok: "tables_ok alert_classes"
  by (simp add: tables_ok_def alert_classes_def alert_classes_tables table_check cong: names_weak_cong)

end
