(* ===== verification/Exports_Session.thy ===== *)
theory Exports_Session
  imports Call_Laws
begin

text \<open>
  The exports of the binding for settings, sessions, the creation of torrents, the functions of the extension and the casts to base classes, class by
  class in the order of the generated code.
\<close>

definition global_exports_17 :: class_exports where
  "global_exports_17 = ('''', [
     Export ''name_for_setting'' [Number int32] (Call ''libtorrent::name_for_setting'') Catch_any Chars_result,
     Export ''default_settings'' [] (Call ''libtorrent::default_settings'') Catch_any (New_result ''libtorrent::settings_pack''),
     Export ''settings_interface_set_str'' [Pointer ''libtorrent::settings_interface'', Number int32, String] (Call ''libtorrent::settings_interface::set_str'') Catch_any Void,
     Export ''settings_interface_set_int'' [Pointer ''libtorrent::settings_interface'', Number int32, Number int32] (Call ''libtorrent::settings_interface::set_int'') Catch_any Void,
     Export ''settings_interface_set_bool'' [Pointer ''libtorrent::settings_interface'', Number int32, Boolean] (Call ''libtorrent::settings_interface::set_bool'') Catch_any Void])"

definition global_exports_18 :: class_exports where
  "global_exports_18 = ('''', [
     Export ''settings_interface_has_val'' [Pointer ''libtorrent::settings_interface'', Number int32] (Call ''libtorrent::settings_interface::has_val'') Catch_any Boolean_result,
     Export ''settings_interface_get_str'' [Pointer ''libtorrent::settings_interface'', Number int32] (Call ''libtorrent::settings_interface::get_str'') Catch_any String_at,
     Export ''settings_interface_get_int'' [Pointer ''libtorrent::settings_interface'', Number int32] (Call ''libtorrent::settings_interface::get_int'') Catch_any (Number_result int32 int32),
     Export ''settings_interface_get_bool'' [Pointer ''libtorrent::settings_interface'', Number int32] (Call ''libtorrent::settings_interface::get_bool'') Catch_any Boolean_result])"

definition settings_pack_exports :: class_exports where
  "settings_pack_exports = (''libtorrent::settings_pack'', [
     Export ''new__SWIG_0'' [] New Catch_any (Pointer_result ''libtorrent::settings_pack''),
     Export ''new__SWIG_1'' [Const_reference ''libtorrent::settings_pack''] Copy Catch_any (Pointer_result ''libtorrent::settings_pack''),
     Export ''set_str'' [This, Number int32, String] (Method ''set_str'') Catch_any Void,
     Export ''set_int'' [This, Number int32, Number int32] (Method ''set_int'') Catch_any Void,
     Export ''set_bool'' [This, Number int32, Boolean] (Method ''set_bool'') Catch_any Void])"

definition settings_pack_exports_2 :: class_exports where
  "settings_pack_exports_2 = (''libtorrent::settings_pack'', [
     Export ''has_val'' [This, Number int32] (Method ''has_val'') Catch_any Boolean_result,
     Export ''clear__SWIG_0'' [This] (Method ''clear'') Catch_any Void,
     Export ''clear__SWIG_1'' [This, Number int32] (Method ''clear'') Catch_any Void,
     Export ''get_str'' [This, Number int32] (Method ''get_str'') Catch_any String_at,
     Export ''get_int'' [This, Number int32] (Method ''get_int'') Catch_any (Number_result int32 int32),
     Export ''get_bool'' [This, Number int32] (Method ''get_bool'') Catch_any Boolean_result])"

definition settings_pack_exports_3 :: class_exports where
  "settings_pack_exports_3 = (''libtorrent::settings_pack'', [
     Export ''string_type_base_get'' [] (Class_constant ''string_type_base'') Catch_any (Number_result (Declared ''libtorrent::settings_pack::type_bases'') int32),
     Export ''int_type_base_get'' [] (Class_constant ''int_type_base'') Catch_any (Number_result (Declared ''libtorrent::settings_pack::type_bases'') int32),
     Export ''bool_type_base_get'' [] (Class_constant ''bool_type_base'') Catch_any (Number_result (Declared ''libtorrent::settings_pack::type_bases'') int32),
     Export ''type_mask_get'' [] (Class_constant ''type_mask'') Catch_any (Number_result (Declared ''libtorrent::settings_pack::type_bases'') int32),
     Export ''index_mask_get'' [] (Class_constant ''index_mask'') Catch_any (Number_result (Declared ''libtorrent::settings_pack::type_bases'') int32),
     Export ''user_agent_get'' [] (Class_constant ''user_agent'') Catch_any (Number_result (Declared ''libtorrent::settings_pack::string_types'') int32),
     Export ''handshake_client_version_get'' [] (Class_constant ''handshake_client_version'') Catch_any (Number_result (Declared ''libtorrent::settings_pack::string_types'') int32),
     Export ''allow_multiple_connections_per_ip_get'' [] (Class_constant ''allow_multiple_connections_per_ip'') Catch_any (Number_result (Declared ''libtorrent::settings_pack::bool_types'') int32),
     Export ''send_redundant_have_get'' [] (Class_constant ''send_redundant_have'') Catch_any (Number_result (Declared ''libtorrent::settings_pack::bool_types'') int32),
     Export ''use_dht_as_fallback_get'' [] (Class_constant ''use_dht_as_fallback'') Catch_any (Number_result (Declared ''libtorrent::settings_pack::bool_types'') int32),
     Export ''auto_manage_prefer_seeds_get'' [] (Class_constant ''auto_manage_prefer_seeds'') Catch_any (Number_result (Declared ''libtorrent::settings_pack::bool_types'') int32),
     Export ''disable_hash_checks_get'' [] (Class_constant ''disable_hash_checks'') Catch_any (Number_result (Declared ''libtorrent::settings_pack::bool_types'') int32)])"

definition settings_pack_exports_4 :: class_exports where
  "settings_pack_exports_4 = (''libtorrent::settings_pack'', [
     Export ''no_atime_storage_get'' [] (Class_constant ''no_atime_storage'') Catch_any (Number_result (Declared ''libtorrent::settings_pack::bool_types'') int32),
     Export ''enable_outgoing_utp_get'' [] (Class_constant ''enable_outgoing_utp'') Catch_any (Number_result (Declared ''libtorrent::settings_pack::bool_types'') int32),
     Export ''no_recheck_incomplete_resume_get'' [] (Class_constant ''no_recheck_incomplete_resume'') Catch_any (Number_result (Declared ''libtorrent::settings_pack::bool_types'') int32),
     Export ''seeding_outgoing_connections_get'' [] (Class_constant ''seeding_outgoing_connections'') Catch_any (Number_result (Declared ''libtorrent::settings_pack::bool_types'') int32),
     Export ''ban_web_seeds_get'' [] (Class_constant ''ban_web_seeds'') Catch_any (Number_result (Declared ''libtorrent::settings_pack::bool_types'') int32),
     Export ''support_share_mode_get'' [] (Class_constant ''support_share_mode'') Catch_any (Number_result (Declared ''libtorrent::settings_pack::bool_types'') int32),
     Export ''report_redundant_bytes_get'' [] (Class_constant ''report_redundant_bytes'') Catch_any (Number_result (Declared ''libtorrent::settings_pack::bool_types'') int32),
     Export ''announce_crypto_support_get'' [] (Class_constant ''announce_crypto_support'') Catch_any (Number_result (Declared ''libtorrent::settings_pack::bool_types'') int32),
     Export ''tracker_completion_timeout_get'' [] (Class_constant ''tracker_completion_timeout'') Catch_any (Number_result (Declared ''libtorrent::settings_pack::int_types'') int32),
     Export ''disk_io_write_mode_get'' [] (Class_constant ''disk_io_write_mode'') Catch_any (Number_result (Declared ''libtorrent::settings_pack::int_types'') int32),
     Export ''active_downloads_get'' [] (Class_constant ''active_downloads'') Catch_any (Number_result (Declared ''libtorrent::settings_pack::int_types'') int32),
     Export ''auto_manage_interval_get'' [] (Class_constant ''auto_manage_interval'') Catch_any (Number_result (Declared ''libtorrent::settings_pack::int_types'') int32)])"

definition settings_pack_exports_5 :: class_exports where
  "settings_pack_exports_5 = (''libtorrent::settings_pack'', [
     Export ''optimistic_disk_retry_get'' [] (Class_constant ''optimistic_disk_retry'') Catch_any (Number_result (Declared ''libtorrent::settings_pack::int_types'') int32),
     Export ''num_optimistic_unchoke_slots_get'' [] (Class_constant ''num_optimistic_unchoke_slots'') Catch_any (Number_result (Declared ''libtorrent::settings_pack::int_types'') int32),
     Export ''max_pex_peers_get'' [] (Class_constant ''max_pex_peers'') Catch_any (Number_result (Declared ''libtorrent::settings_pack::int_types'') int32),
     Export ''dht_upload_rate_limit_get'' [] (Class_constant ''dht_upload_rate_limit'') Catch_any (Number_result (Declared ''libtorrent::settings_pack::int_types'') int32),
     Export ''connections_limit_get'' [] (Class_constant ''connections_limit'') Catch_any (Number_result (Declared ''libtorrent::settings_pack::int_types'') int32),
     Export ''utp_loss_multiplier_get'' [] (Class_constant ''utp_loss_multiplier'') Catch_any (Number_result (Declared ''libtorrent::settings_pack::int_types'') int32),
     Export ''tracker_backoff_get'' [] (Class_constant ''tracker_backoff'') Catch_any (Number_result (Declared ''libtorrent::settings_pack::int_types'') int32),
     Export ''urlseed_max_request_bytes_get'' [] (Class_constant ''urlseed_max_request_bytes'') Catch_any (Number_result (Declared ''libtorrent::settings_pack::int_types'') int32),
     Export ''num_string_settings_get'' [] (Class_constant ''num_string_settings'') Catch_any (Number_result int32 int32),
     Export ''num_bool_settings_get'' [] (Class_constant ''num_bool_settings'') Catch_any (Number_result int32 int32),
     Export ''num_int_settings_get'' [] (Class_constant ''num_int_settings'') Catch_any (Number_result int32 int32),
     Export ''always_pwrite_get'' [] (Class_constant ''always_pwrite'') Catch_any (Number_result (Declared ''libtorrent::settings_pack::mmap_write_mode_t'') int32)])"

definition settings_pack_exports_6 :: class_exports where
  "settings_pack_exports_6 = (''libtorrent::settings_pack'', [
     Export ''no_piece_suggestions_get'' [] (Class_constant ''no_piece_suggestions'') Catch_any (Number_result (Declared ''libtorrent::settings_pack::suggest_mode_t'') int32),
     Export ''suggest_read_cache_get'' [] (Class_constant ''suggest_read_cache'') Catch_any (Number_result (Declared ''libtorrent::settings_pack::suggest_mode_t'') int32),
     Export ''fixed_slots_choker_get'' [] (Class_constant ''fixed_slots_choker'') Catch_any (Number_result (Declared ''libtorrent::settings_pack::choking_algorithm_t'') int32),
     Export ''rate_based_choker_get'' [] (Class_constant ''rate_based_choker'') Catch_any (Number_result (Declared ''libtorrent::settings_pack::choking_algorithm_t'') int32),
     Export ''enable_os_cache_get'' [] (Class_constant ''enable_os_cache'') Catch_any (Number_result (Declared ''libtorrent::settings_pack::io_buffer_mode_t'') int32),
     Export ''disable_os_cache_get'' [] (Class_constant ''disable_os_cache'') Catch_any (Number_result (Declared ''libtorrent::settings_pack::io_buffer_mode_t'') int32),
     Export ''write_through_get'' [] (Class_constant ''write_through'') Catch_any (Number_result (Declared ''libtorrent::settings_pack::io_buffer_mode_t'') int32),
     Export ''prefer_tcp_get'' [] (Class_constant ''prefer_tcp'') Catch_any (Number_result (Declared ''libtorrent::settings_pack::bandwidth_mixed_algo_t'') int32),
     Export ''peer_proportional_get'' [] (Class_constant ''peer_proportional'') Catch_any (Number_result (Declared ''libtorrent::settings_pack::bandwidth_mixed_algo_t'') int32),
     Export ''pe_plaintext_get'' [] (Class_constant ''pe_plaintext'') Catch_any (Number_result (Declared ''libtorrent::settings_pack::enc_level'') int32),
     Export ''pe_rc4_get'' [] (Class_constant ''pe_rc4'') Catch_any (Number_result (Declared ''libtorrent::settings_pack::enc_level'') int32),
     Export ''pe_both_get'' [] (Class_constant ''pe_both'') Catch_any (Number_result (Declared ''libtorrent::settings_pack::enc_level'') int32)])"

definition settings_pack_exports_7 :: class_exports where
  "settings_pack_exports_7 = (''libtorrent::settings_pack'', [
     Export ''get_bytes'' [This, Number int32] (Call ''libtorrent_settings_pack_get_bytes'') Catch_any (New_result ''std::vector< std::int8_t >''),
     Export ''set_bytes'' [This, Number int32, Value ''std::vector< std::int8_t >''] (Call ''libtorrent_settings_pack_set_bytes'') Catch_any Void,
     Export ''delete'' [This] Delete Catch_any Void])"

definition peer_class_info_exports :: class_exports where
  "peer_class_info_exports = (''libtorrent::peer_class_info'', [
     Export ''ignore_unchoke_slots_set'' [This, Boolean] (Set_field ''ignore_unchoke_slots'') Catch_any Void,
     Export ''ignore_unchoke_slots_get'' [This] (Get_field ''ignore_unchoke_slots'') Catch_any Boolean_result,
     Export ''connection_limit_factor_set'' [This, Number int32] (Set_field ''connection_limit_factor'') Catch_any Void,
     Export ''connection_limit_factor_get'' [This] (Get_field ''connection_limit_factor'') Catch_any (Number_result int32 int32),
     Export ''label_set'' [This, String] (Set_field ''label'') Catch_any Void,
     Export ''label_get'' [This] (Field_address ''label'') Catch_any String_at,
     Export ''upload_limit_set'' [This, Number int32] (Set_field ''upload_limit'') Catch_any Void,
     Export ''upload_limit_get'' [This] (Get_field ''upload_limit'') Catch_any (Number_result int32 int32),
     Export ''download_limit_set'' [This, Number int32] (Set_field ''download_limit'') Catch_any Void,
     Export ''download_limit_get'' [This] (Get_field ''download_limit'') Catch_any (Number_result int32 int32)])"

definition peer_class_info_exports_2 :: class_exports where
  "peer_class_info_exports_2 = (''libtorrent::peer_class_info'', [
     Export ''upload_priority_set'' [This, Number int32] (Set_field ''upload_priority'') Catch_any Void,
     Export ''upload_priority_get'' [This] (Get_field ''upload_priority'') Catch_any (Number_result int32 int32),
     Export ''download_priority_set'' [This, Number int32] (Set_field ''download_priority'') Catch_any Void,
     Export ''download_priority_get'' [This] (Get_field ''download_priority'') Catch_any (Number_result int32 int32),
     Export ''new'' [] New Catch_any (Pointer_result ''libtorrent::peer_class_info''),
     Export ''delete'' [This] Delete Catch_any Void])"

definition peer_class_type_filter_exports :: class_exports where
  "peer_class_type_filter_exports = (''libtorrent::peer_class_type_filter'', [
     Export ''new'' [] New Catch_any (Pointer_result ''libtorrent::peer_class_type_filter''),
     Export ''tcp_socket_get'' [] (Class_constant ''tcp_socket'') Catch_any (Number_result (Declared ''libtorrent::peer_class_type_filter::socket_type_t'') int32),
     Export ''apply'' [This, Number (Declared ''libtorrent::peer_class_type_filter::socket_type_t''), Number uint32] (Method ''apply'') Catch_any (Number_result uint32 int64),
     Export ''delete'' [This] Delete Catch_any Void])"

definition ip_filter_exports :: class_exports where
  "ip_filter_exports = (''libtorrent::ip_filter'', [
     Export ''new__SWIG_0'' [] New Catch_any (Pointer_result ''libtorrent::ip_filter''),
     Export ''new__SWIG_1'' [Const_reference ''libtorrent::ip_filter''] Copy Catch_any (Pointer_result ''libtorrent::ip_filter''),
     Export ''blocked_get'' [] (Class_constant ''blocked'') Catch_any (Number_result (Declared ''libtorrent::ip_filter::access_flags'') int32),
     Export ''empty'' [This] (Method ''empty'') Catch_any Boolean_result,
     Export ''add_rule'' [This, Const_reference ''libtorrent::address'', Const_reference ''libtorrent::address'', Number uint32] (Method ''add_rule'') Catch_any Void])"

definition ip_filter_exports_2 :: class_exports where
  "ip_filter_exports_2 = (''libtorrent::ip_filter'', [
     Export ''access'' [This, Const_reference ''libtorrent::address''] (Method ''access'') Catch_any (Number_result uint32 int64),
     Export ''delete'' [This] Delete Catch_any Void])"

definition port_filter_exports :: class_exports where
  "port_filter_exports = (''libtorrent::port_filter'', [
     Export ''new__SWIG_0'' [] New Catch_any (Pointer_result ''libtorrent::port_filter''),
     Export ''new__SWIG_1'' [Const_reference ''libtorrent::port_filter''] Copy Catch_any (Pointer_result ''libtorrent::port_filter''),
     Export ''delete'' [This] Delete Catch_any Void,
     Export ''blocked_get'' [] (Class_constant ''blocked'') Catch_any (Number_result (Declared ''libtorrent::port_filter::access_flags'') int32),
     Export ''add_rule'' [This, Number uint16, Number uint16, Number uint32] (Method ''add_rule'') Catch_any Void,
     Export ''access'' [This, Number uint16] (Method ''access'') Catch_any (Number_result uint32 int64)])"

definition session_params_exports :: class_exports where
  "session_params_exports = (''libtorrent::session_params'', [
     Export ''new__SWIG_0'' [Const_reference ''libtorrent::settings_pack''] New Catch_any (Pointer_result ''libtorrent::session_params''),
     Export ''new__SWIG_1'' [] New Catch_any (Pointer_result ''libtorrent::session_params''),
     Export ''delete'' [This] Delete Catch_any Void,
     Export ''new__SWIG_2'' [Const_reference ''libtorrent::session_params''] Copy Catch_any (Pointer_result ''libtorrent::session_params''),
     Export ''settings_set'' [This, Pointer ''libtorrent::settings_pack''] (Set_field ''settings'') Catch_any Void,
     Export ''settings_get'' [This] (Field_address ''settings'') Catch_any (Pointer_result ''libtorrent::settings_pack''),
     Export ''flags_set'' [This, Pointer ''libtorrent::session_flags_t''] (Set_field ''flags'') Catch_any Void])"

definition session_params_exports_2 :: class_exports where
  "session_params_exports_2 = (''libtorrent::session_params'', [
     Export ''flags_get'' [This] (Field_address ''flags'') Catch_any (Pointer_result ''libtorrent::session_flags_t''),
     Export ''dht_state_set'' [This, Pointer ''libtorrent::dht::dht_state''] (Set_field ''dht_state'') Catch_any Void,
     Export ''dht_state_get'' [This] (Field_address ''dht_state'') Catch_any (Pointer_result ''libtorrent::dht::dht_state''),
     Export ''ext_state_set'' [This, Pointer ''std::map< std::string,std::string,std::less< std::string > >''] (Set_field ''ext_state'') Catch_any Void,
     Export ''ext_state_get'' [This] (Field_address ''ext_state'') Catch_any (Pointer_result ''std::map< std::string,std::string,std::less< std::string > >''),
     Export ''ip_filter_set'' [This, Pointer ''libtorrent::ip_filter''] (Set_field ''ip_filter'') Catch_any Void,
     Export ''ip_filter_get'' [This] (Field_address ''ip_filter'') Catch_any (Pointer_result ''libtorrent::ip_filter''),
     Export ''read_session_params__SWIG_0'' [Const_reference ''lt::bdecode_node'', Value ''lt::save_state_flags_t''] (Call ''libtorrent_session_params_read_session_params__SWIG_0'') Catch_any (New_result ''lt::session_params'')])"

definition session_params_exports_3 :: class_exports where
  "session_params_exports_3 = (''libtorrent::session_params'', [
     Export ''read_session_params__SWIG_1'' [Const_reference ''lt::bdecode_node''] (Call ''libtorrent_session_params_read_session_params__SWIG_0'') Catch_any (New_result ''lt::session_params''),
     Export ''write_session_params__SWIG_0'' [Const_reference ''lt::session_params'', Value ''lt::save_state_flags_t''] (Call ''libtorrent_session_params_write_session_params__SWIG_0'') Catch_any (New_result ''lt::entry''),
     Export ''write_session_params__SWIG_1'' [Const_reference ''lt::session_params''] (Call ''libtorrent_session_params_write_session_params__SWIG_0'') Catch_any (New_result ''lt::entry''),
     Export ''write_session_params_buf__SWIG_0'' [Const_reference ''lt::session_params'', Value ''lt::save_state_flags_t''] (Call ''libtorrent_session_params_write_session_params_buf__SWIG_0'') Catch_any (New_result ''std::vector< std::int8_t >'')])"

definition session_params_exports_4 :: class_exports where
  "session_params_exports_4 = (''libtorrent::session_params'', [
     Export ''write_session_params_buf__SWIG_1'' [Const_reference ''lt::session_params''] (Call ''libtorrent_session_params_write_session_params_buf__SWIG_0'') Catch_any (New_result ''std::vector< std::int8_t >''),
     Export ''set_posix_disk_io_constructor'' [This] (Call ''libtorrent_session_params_set_posix_disk_io_constructor'') Catch_any Void,
     Export ''set_default_disk_io_constructor'' [This] (Call ''libtorrent_session_params_set_default_disk_io_constructor'') Catch_any Void])"

definition session_handle_exports :: class_exports where
  "session_handle_exports = (''libtorrent::session_handle'', [
     Export ''new__SWIG_0'' [] New Catch_any (Pointer_result ''libtorrent::session_handle''),
     Export ''new__SWIG_1'' [Const_reference ''libtorrent::session_handle''] Copy Catch_any (Pointer_result ''libtorrent::session_handle''),
     Export ''is_valid'' [This] (Method ''is_valid'') Catch_any Boolean_result,
     Export ''save_settings_get'' [] (Class_static ''save_settings'') Catch_any (Pointer_result ''libtorrent::flags::bitfield_flag< unsigned int,libtorrent::save_state_flags_tag >''),
     Export ''save_dht_state_get'' [] (Class_static ''save_dht_state'') Catch_any (Pointer_result ''libtorrent::flags::bitfield_flag< unsigned int,libtorrent::save_state_flags_tag >''),
     Export ''save_extension_state_get'' [] (Class_static ''save_extension_state'') Catch_any (Pointer_result ''libtorrent::flags::bitfield_flag< unsigned int,libtorrent::save_state_flags_tag >''),
     Export ''save_ip_filter_get'' [] (Class_static ''save_ip_filter'') Catch_any (Pointer_result ''libtorrent::flags::bitfield_flag< unsigned int,libtorrent::save_state_flags_tag >'')])"

definition session_handle_exports_2 :: class_exports where
  "session_handle_exports_2 = (''libtorrent::session_handle'', [
     Export ''session_state__SWIG_0'' [This, Value ''libtorrent::save_state_flags_t''] (Method ''session_state'') Catch_any (New_result ''libtorrent::session_params''),
     Export ''session_state__SWIG_1'' [This] (Method ''session_state'') Catch_any (New_result ''libtorrent::session_params''),
     Export ''refresh_torrent_status__SWIG_0'' [This, Pointer ''std::vector< libtorrent::torrent_status >'', Value ''libtorrent::status_flags_t''] (Method ''refresh_torrent_status'') Catch_any Void,
     Export ''refresh_torrent_status__SWIG_1'' [This, Pointer ''std::vector< libtorrent::torrent_status >''] (Method ''refresh_torrent_status'') Catch_any Void,
     Export ''post_torrent_updates__SWIG_0'' [This, Value ''libtorrent::status_flags_t''] (Method ''post_torrent_updates'') Catch_any Void])"

definition session_handle_exports_3 :: class_exports where
  "session_handle_exports_3 = (''libtorrent::session_handle'', [
     Export ''post_torrent_updates__SWIG_1'' [This] (Method ''post_torrent_updates'') Catch_any Void,
     Export ''post_session_stats'' [This] (Method ''post_session_stats'') Catch_any Void,
     Export ''post_dht_stats'' [This] (Method ''post_dht_stats'') Catch_any Void,
     Export ''set_dht_state__SWIG_0'' [This, Const_reference ''libtorrent::dht::dht_state''] (Method ''set_dht_state'') Catch_any Void,
     Export ''find_torrent__SWIG_0'' [This, Const_reference ''libtorrent::sha1_hash''] (Method ''find_torrent'') Catch_any (New_result ''libtorrent::torrent_handle'')])"

definition session_handle_exports_4 :: class_exports where
  "session_handle_exports_4 = (''libtorrent::session_handle'', [
     Export ''find_torrent__SWIG_1'' [This, Const_reference ''libtorrent::sha256_hash''] (Method ''find_torrent'') Catch_any (New_result ''libtorrent::torrent_handle''),
     Export ''get_torrents'' [This] (Method ''get_torrents'') Catch_any (New_result ''std::vector< libtorrent::torrent_handle >''),
     Export ''add_torrent'' [This, Const_reference ''libtorrent::add_torrent_params'', Reference ''libtorrent::error_code''] (Method ''add_torrent'') Catch_any (New_result ''libtorrent::torrent_handle''),
     Export ''async_add_torrent'' [This, Const_reference ''libtorrent::add_torrent_params''] (Method ''async_add_torrent'') Catch_any Void,
     Export ''pause'' [This] (Method ''pause'') Catch_any Void])"

definition session_handle_exports_5 :: class_exports where
  "session_handle_exports_5 = (''libtorrent::session_handle'', [
     Export ''resume'' [This] (Method ''resume'') Catch_any Void,
     Export ''is_paused'' [This] (Method ''is_paused'') Catch_any Boolean_result,
     Export ''is_dht_running'' [This] (Method ''is_dht_running'') Catch_any Boolean_result,
     Export ''add_dht_node'' [This, Const_reference ''std::pair< std::string,int >''] (Method ''add_dht_node'') Catch_any Void,
     Export ''dht_get_item__SWIG_0'' [This, Const_reference ''libtorrent::sha1_hash''] (Method ''dht_get_item'') Catch_any Void])"

definition session_handle_exports_6 :: class_exports where
  "session_handle_exports_6 = (''libtorrent::session_handle'', [
     Export ''dht_put_item__SWIG_0'' [This, Value ''libtorrent::entry''] (Method ''dht_put_item'') Catch_any (New_result ''libtorrent::sha1_hash''),
     Export ''dht_get_peers'' [This, Const_reference ''libtorrent::sha1_hash''] (Method ''dht_get_peers'') Catch_any Void,
     Export ''dht_live_nodes'' [This, Const_reference ''libtorrent::sha1_hash''] (Method ''dht_live_nodes'') Catch_any Void,
     Export ''dht_sample_infohashes'' [This, Const_reference ''libtorrent::udp::endpoint'', Const_reference ''libtorrent::sha1_hash''] (Method ''dht_sample_infohashes'') Catch_any Void])"

definition session_handle_exports_7 :: class_exports where
  "session_handle_exports_7 = (''libtorrent::session_handle'', [
     Export ''dht_direct_request__SWIG_0'' [This, Const_reference ''libtorrent::udp::endpoint'', Const_reference ''libtorrent::entry'', Value ''libtorrent::client_data_t''] (Method ''dht_direct_request'') Catch_any Void,
     Export ''dht_direct_request__SWIG_1'' [This, Const_reference ''libtorrent::udp::endpoint'', Const_reference ''libtorrent::entry''] (Method ''dht_direct_request'') Catch_any Void,
     Export ''set_ip_filter'' [This, Value ''libtorrent::ip_filter''] (Method ''set_ip_filter'') Catch_any Void,
     Export ''get_ip_filter'' [This] (Method ''get_ip_filter'') Catch_any (New_result ''libtorrent::ip_filter'')])"

definition session_handle_exports_8 :: class_exports where
  "session_handle_exports_8 = (''libtorrent::session_handle'', [
     Export ''set_port_filter'' [This, Const_reference ''libtorrent::port_filter''] (Method ''set_port_filter'') Catch_any Void,
     Export ''listen_port'' [This] (Method ''listen_port'') Catch_any (Number_result uint16 int32),
     Export ''ssl_listen_port'' [This] (Method ''ssl_listen_port'') Catch_any (Number_result uint16 int32),
     Export ''is_listening'' [This] (Method ''is_listening'') Catch_any Boolean_result,
     Export ''set_peer_class_filter'' [This, Const_reference ''libtorrent::ip_filter''] (Method ''set_peer_class_filter'') Catch_any Void])"

definition session_handle_exports_9 :: class_exports where
  "session_handle_exports_9 = (''libtorrent::session_handle'', [
     Export ''get_peer_class_filter'' [This] (Method ''get_peer_class_filter'') Catch_any (New_result ''libtorrent::ip_filter''),
     Export ''set_peer_class_type_filter'' [This, Const_reference ''libtorrent::peer_class_type_filter''] (Method ''set_peer_class_type_filter'') Catch_any Void,
     Export ''get_peer_class_type_filter'' [This] (Method ''get_peer_class_type_filter'') Catch_any (New_result ''libtorrent::peer_class_type_filter''),
     Export ''delete_files_get'' [] (Class_static ''delete_files'') Catch_any (Pointer_result ''libtorrent::flags::bitfield_flag< unsigned char,libtorrent::remove_flags_tag >''),
     Export ''delete_partfile_get'' [] (Class_static ''delete_partfile'') Catch_any (Pointer_result ''libtorrent::flags::bitfield_flag< unsigned char,libtorrent::remove_flags_tag >''),
     Export ''paused_get'' [] (Class_static ''paused'') Catch_any (Pointer_result ''libtorrent::flags::bitfield_flag< unsigned char,libtorrent::session_flags_tag >''),
     Export ''remove_torrent__SWIG_0'' [This, Const_reference ''libtorrent::torrent_handle'', Value ''libtorrent::remove_flags_t''] (Method ''remove_torrent'') Catch_any Void])"

definition session_handle_exports_10 :: class_exports where
  "session_handle_exports_10 = (''libtorrent::session_handle'', [
     Export ''remove_torrent__SWIG_1'' [This, Const_reference ''libtorrent::torrent_handle''] (Method ''remove_torrent'') Catch_any Void,
     Export ''apply_settings'' [This, Const_reference ''libtorrent::settings_pack''] (Method ''apply_settings'') Catch_any Void,
     Export ''get_settings'' [This] (Method ''get_settings'') Catch_any (New_result ''libtorrent::settings_pack''),
     Export ''pop_alerts'' [This, Pointer ''std::vector< libtorrent::alert * >''] (Method ''pop_alerts'') Catch_any Void,
     Export ''udp_get'' [] (Class_constant ''udp'') Catch_any (Number_result (Declared ''libtorrent::portmap_protocol'') int32),
     Export ''tcp_get'' [] (Class_constant ''tcp'') Catch_any (Number_result (Declared ''libtorrent::portmap_protocol'') int32),
     Export ''reopen_map_ports_get'' [] (Class_static ''reopen_map_ports'') Catch_any (Pointer_result ''libtorrent::flags::bitfield_flag< unsigned char,libtorrent::reopen_network_flags_tag >'')])"

definition session_handle_exports_11 :: class_exports where
  "session_handle_exports_11 = (''libtorrent::session_handle'', [
     Export ''reopen_network_sockets__SWIG_0'' [This, Value ''libtorrent::reopen_network_flags_t''] (Method ''reopen_network_sockets'') Catch_any Void,
     Export ''reopen_network_sockets__SWIG_1'' [This] (Method ''reopen_network_sockets'') Catch_any Void,
     Export ''dht_get_item__SWIG_1'' [This, Reference ''std::array< std::int8_t,32 >'', Reference ''std::vector< std::int8_t >''] (Call ''libtorrent_session_handle_dht_get_item__SWIG_1'') Catch_any Void,
     Export ''dht_put_item__SWIG_1'' [This, Reference ''std::array< std::int8_t,32 >'', Reference ''std::array< std::int8_t,64 >'', Reference ''libtorrent::entry'', Reference ''std::vector< int8_t >''] (Call ''libtorrent_session_handle_dht_put_item__SWIG_1'') Catch_any Void])"

definition session_handle_exports_12 :: class_exports where
  "session_handle_exports_12 = (''libtorrent::session_handle'', [
     Export ''dht_direct_request__SWIG_2'' [This, Const_reference ''libtorrent::udp::endpoint'', Const_reference ''libtorrent::entry'', Number int64] (Call ''libtorrent_session_handle_dht_direct_request__SWIG_2'') Catch_any Void,
     Export ''wait_for_alert_ms'' [This, Number int64] (Call ''libtorrent_session_handle_wait_for_alert_ms'') Catch_any (Pointer_result ''libtorrent::alert''),
     Export ''set_alert_notify_callback'' [This, Pointer ''alert_notify_callback''] (Call ''libtorrent_session_handle_set_alert_notify_callback'') Catch_any Void,
     Export ''dht_announce_ex__SWIG_0'' [This, Const_reference ''libtorrent::sha1_hash'', Number int32, Number int8] (Call ''libtorrent_session_handle_dht_announce_ex__SWIG_0'') Catch_any Void,
     Export ''dht_announce_ex__SWIG_1'' [This, Const_reference ''libtorrent::sha1_hash'', Number int32] (Call ''libtorrent_session_handle_dht_announce_ex__SWIG_0'') Catch_any Void])"

definition session_handle_exports_13 :: class_exports where
  "session_handle_exports_13 = (''libtorrent::session_handle'', [
     Export ''dht_announce_ex__SWIG_2'' [This, Const_reference ''libtorrent::sha1_hash''] (Call ''libtorrent_session_handle_dht_announce_ex__SWIG_0'') Catch_any Void,
     Export ''add_port_mapping_ex'' [This, Number (Declared ''libtorrent::portmap_protocol''), Number int32, Number int32] (Call ''libtorrent_session_handle_add_port_mapping_ex'') Catch_any (New_result ''std::vector< int >''),
     Export ''delete_port_mapping_ex'' [This, Number int32] (Call ''libtorrent_session_handle_delete_port_mapping_ex'') Catch_any Void,
     Export ''delete'' [This] Delete Catch_any Void])"

definition global_exports_19 :: class_exports where
  "global_exports_19 = ('''', [
     Export ''min_memory_usage'' [] (Call ''libtorrent::min_memory_usage'') Catch_any (New_result ''libtorrent::settings_pack''),
     Export ''high_performance_seed'' [] (Call ''libtorrent::high_performance_seed'') Catch_any (New_result ''libtorrent::settings_pack'')])"

definition session_proxy_exports :: class_exports where
  "session_proxy_exports = (''libtorrent::session_proxy'', [
     Export ''new__SWIG_0'' [] New Catch_any (Pointer_result ''libtorrent::session_proxy''),
     Export ''delete'' [This] Delete Catch_any Void,
     Export ''new__SWIG_1'' [Const_reference ''libtorrent::session_proxy''] Copy Catch_any (Pointer_result ''libtorrent::session_proxy'')])"

definition session_exports :: class_exports where
  "session_exports = (''libtorrent::session'', [
     Export ''new__SWIG_0'' [Const_reference ''libtorrent::session_params''] New Catch_any (Pointer_result ''libtorrent::session''),
     Export ''new__SWIG_1'' [] New Catch_any (Pointer_result ''libtorrent::session''),
     Export ''new__SWIG_2'' [Moved ''libtorrent::session''] New Catch_any (Pointer_result ''libtorrent::session''),
     Export ''delete'' [This] Delete Catch_any Void,
     Export ''abort'' [This] (Method ''abort'') Catch_any (New_result ''libtorrent::session_proxy'')])"

definition create_file_entry_exports :: class_exports where
  "create_file_entry_exports = (''libtorrent::create_file_entry'', [
     Export ''new__SWIG_0'' [String, Number int64, Const_value ''libtorrent::file_flags_t'', Number (Declared ''std::time_t''), String] New Catch_any (Pointer_result ''libtorrent::create_file_entry''),
     Export ''new__SWIG_1'' [String, Number int64, Const_value ''libtorrent::file_flags_t'', Number (Declared ''std::time_t'')] New Catch_any (Pointer_result ''libtorrent::create_file_entry''),
     Export ''new__SWIG_2'' [String, Number int64, Const_value ''libtorrent::file_flags_t''] New Catch_any (Pointer_result ''libtorrent::create_file_entry'')])"

definition create_file_entry_exports_2 :: class_exports where
  "create_file_entry_exports_2 = (''libtorrent::create_file_entry'', [
     Export ''new__SWIG_3'' [String, Number int64] New Catch_any (Pointer_result ''libtorrent::create_file_entry''),
     Export ''filename_set'' [This, String] (Set_field ''filename'') Catch_any Void,
     Export ''filename_get'' [This] (Field_address ''filename'') Catch_any String_at,
     Export ''size_set'' [This, Number int64] (Set_field ''size'') Catch_any Void,
     Export ''size_get'' [This] (Get_field ''size'') Catch_any (Number_result int64 int64),
     Export ''flags_set'' [This, Pointer ''libtorrent::file_flags_t''] (Set_field ''flags'') Catch_any Void,
     Export ''flags_get'' [This] (Field_address ''flags'') Catch_any (Pointer_result ''libtorrent::file_flags_t''),
     Export ''mtime_set'' [This, Number (Declared ''std::time_t'')] (Set_field ''mtime'') Catch_any Void])"

definition create_file_entry_exports_3 :: class_exports where
  "create_file_entry_exports_3 = (''libtorrent::create_file_entry'', [
     Export ''mtime_get'' [This] (Get_field ''mtime'') Catch_any (Number_result (Declared ''std::time_t'') int64),
     Export ''symlink_set'' [This, String] (Set_field ''symlink'') Catch_any Void,
     Export ''symlink_get'' [This] (Field_address ''symlink'') Catch_any String_at,
     Export ''delete'' [This] Delete Catch_any Void])"

definition create_torrent_exports :: class_exports where
  "create_torrent_exports = (''libtorrent::create_torrent'', [
     Export ''modification_time_get'' [] (Class_static ''modification_time'') Catch_any (Pointer_result ''libtorrent::flags::bitfield_flag< unsigned int,libtorrent::create_flags_tag >''),
     Export ''symlinks_get'' [] (Class_static ''symlinks'') Catch_any (Pointer_result ''libtorrent::flags::bitfield_flag< unsigned int,libtorrent::create_flags_tag >''),
     Export ''v2_only_get'' [] (Class_static ''v2_only'') Catch_any (Pointer_result ''libtorrent::flags::bitfield_flag< unsigned int,libtorrent::create_flags_tag >''),
     Export ''v1_only_get'' [] (Class_static ''v1_only'') Catch_any (Pointer_result ''libtorrent::flags::bitfield_flag< unsigned int,libtorrent::create_flags_tag >''),
     Export ''canonical_files_get'' [] (Class_static ''canonical_files'') Catch_any (Pointer_result ''libtorrent::flags::bitfield_flag< unsigned int,libtorrent::create_flags_tag >''),
     Export ''no_attributes_get'' [] (Class_static ''no_attributes'') Catch_any (Pointer_result ''libtorrent::flags::bitfield_flag< unsigned int,libtorrent::create_flags_tag >''),
     Export ''canonical_files_no_tail_padding_get'' [] (Class_static ''canonical_files_no_tail_padding'') Catch_any (Pointer_result ''libtorrent::flags::bitfield_flag< unsigned int,libtorrent::create_flags_tag >''),
     Export ''allow_odd_piece_size_get'' [] (Class_static ''allow_odd_piece_size'') Catch_any (Pointer_result ''libtorrent::flags::bitfield_flag< unsigned int,libtorrent::create_flags_tag >''),
     Export ''new__SWIG_0'' [Value ''std::vector< libtorrent::create_file_entry >'', Number int32, Value ''libtorrent::create_flags_t''] New Catch_any (Pointer_result ''libtorrent::create_torrent'')])"

definition create_torrent_exports_2 :: class_exports where
  "create_torrent_exports_2 = (''libtorrent::create_torrent'', [
     Export ''new__SWIG_1'' [Value ''std::vector< libtorrent::create_file_entry >'', Number int32] New Catch_any (Pointer_result ''libtorrent::create_torrent''),
     Export ''new__SWIG_2'' [Value ''std::vector< libtorrent::create_file_entry >''] New Catch_any (Pointer_result ''libtorrent::create_torrent''),
     Export ''delete'' [This] Delete Catch_any Void,
     Export ''generate'' [This] (Method ''generate'') Catch_any (New_result ''libtorrent::entry''),
     Export ''set_comment'' [This, Chars] (Method ''set_comment'') Catch_any Void])"

definition create_torrent_exports_3 :: class_exports where
  "create_torrent_exports_3 = (''libtorrent::create_torrent'', [
     Export ''set_creator'' [This, Chars] (Method ''set_creator'') Catch_any Void,
     Export ''set_creation_date'' [This, Number (Declared ''std::time_t'')] (Method ''set_creation_date'') Catch_any Void,
     Export ''set_hash'' [This, Number int32, Const_reference ''libtorrent::sha1_hash''] (Method ''set_hash'') Catch_any Void,
     Export ''add_node'' [This, Value ''std::pair< std::string,int >''] (Method ''add_node'') Catch_any Void,
     Export ''set_priv'' [This, Boolean] (Method ''set_priv'') Catch_any Void])"

definition create_torrent_exports_4 :: class_exports where
  "create_torrent_exports_4 = (''libtorrent::create_torrent'', [
     Export ''priv'' [This] (Method ''priv'') Catch_any Boolean_result,
     Export ''is_v2_only'' [This] (Method ''is_v2_only'') Catch_any Boolean_result,
     Export ''is_v1_only'' [This] (Method ''is_v1_only'') Catch_any Boolean_result,
     Export ''num_pieces'' [This] (Method ''num_pieces'') Catch_any (Number_result int32 int32),
     Export ''end_piece'' [This] (Method ''end_piece'') Catch_any (Number_result int32 int32)])"

definition create_torrent_exports_5 :: class_exports where
  "create_torrent_exports_5 = (''libtorrent::create_torrent'', [
     Export ''end_file'' [This] (Method ''end_file'') Catch_any (Number_result int32 int32),
     Export ''file_at'' [This, Number int32] (Method ''file_at'') Catch_any (Pointer_result ''libtorrent::create_file_entry''),
     Export ''total_size'' [This] (Method ''total_size'') Catch_any (Number_result int64 int64),
     Export ''piece_length'' [This] (Method ''piece_length'') Catch_any (Number_result int32 int32),
     Export ''piece_size'' [This, Number int32] (Method ''piece_size'') Catch_any (Number_result int32 int32)])"

definition create_torrent_exports_6 :: class_exports where
  "create_torrent_exports_6 = (''libtorrent::create_torrent'', [
     Export ''add_similar_torrent'' [This, Value ''libtorrent::sha1_hash''] (Method ''add_similar_torrent'') Catch_any Void,
     Export ''add_url_seed'' [This, String] (Call ''libtorrent_create_torrent_add_url_seed'') Catch_any Void,
     Export ''add_tracker__SWIG_0'' [This, String] (Call ''libtorrent_create_torrent_add_tracker__SWIG_0'') Catch_any Void,
     Export ''add_tracker__SWIG_1'' [This, String, Number int32] (Call ''libtorrent_create_torrent_add_tracker__SWIG_1'') Catch_any Void])"

definition create_torrent_exports_7 :: class_exports where
  "create_torrent_exports_7 = (''libtorrent::create_torrent'', [
     Export ''add_collection'' [This, String] (Call ''libtorrent_create_torrent_add_collection'') Catch_any Void,
     Export ''set_root_cert'' [This, Const_reference ''std::vector< std::int8_t >''] (Call ''libtorrent_create_torrent_set_root_cert'') Catch_any Void,
     Export ''set_hash2'' [This, Number int32, Number int32, Const_reference ''libtorrent::sha256_hash''] (Call ''libtorrent_create_torrent_set_hash2'') Catch_any Void])"

definition stats_metric_exports :: class_exports where
  "stats_metric_exports = (''libtorrent::stats_metric'', [
     Export ''value_index_set'' [This, Number int32] (Set_field ''value_index'') Catch_any Void,
     Export ''value_index_get'' [This] (Get_field ''value_index'') Catch_any (Number_result int32 int32),
     Export ''type_set'' [This, Number (Declared ''libtorrent::metric_type_t'')] (Set_field ''type'') Catch_any Void,
     Export ''type_get'' [This] (Get_field ''type'') Catch_any (Number_result (Declared ''libtorrent::metric_type_t'') int32),
     Export ''get_name'' [This] (Call ''libtorrent_stats_metric_get_name'') Catch_any String_result,
     Export ''new'' [] New Catch_any (Pointer_result ''libtorrent::stats_metric''),
     Export ''delete'' [This] Delete Catch_any Void])"

definition session_exports_2 :: class_exports where
  "session_exports_2 = (''libtorrent::session'', [
     Export ''stats_metrics'' [] (Call ''libtorrent::session_stats_metrics'') Catch_any (New_result ''std::vector< libtorrent::stats_metric >'')])"

definition global_exports_20 :: class_exports where
  "global_exports_20 = ('''', [
     Export ''version'' [] (Call ''libtorrent::version'') Catch_any Chars_result,
     Export ''make_magnet_uri'' [Const_reference ''libtorrent::add_torrent_params''] (Call ''libtorrent::make_magnet_uri'') Catch_any String_result,
     Export ''generate_fingerprint__SWIG_0'' [String, Number int32, Number int32, Number int32, Number int32] (Call ''libtorrent::generate_fingerprint'') Catch_any String_result,
     Export ''generate_fingerprint__SWIG_1'' [String, Number int32, Number int32, Number int32] (Call ''libtorrent::generate_fingerprint'') Catch_any String_result])"

definition global_exports_21 :: class_exports where
  "global_exports_21 = ('''', [
     Export ''generate_fingerprint__SWIG_2'' [String, Number int32, Number int32] (Call ''libtorrent::generate_fingerprint'') Catch_any String_result,
     Export ''generate_fingerprint__SWIG_3'' [String, Number int32] (Call ''libtorrent::generate_fingerprint'') Catch_any String_result,
     Export ''read_resume_data__SWIG_0'' [Const_reference ''libtorrent::bdecode_node'', Reference ''libtorrent::error_code'', Number int32] (Call ''libtorrent::read_resume_data'') Catch_any (New_result ''libtorrent::add_torrent_params''),
     Export ''read_resume_data__SWIG_1'' [Const_reference ''libtorrent::bdecode_node'', Reference ''libtorrent::error_code''] (Call ''libtorrent::read_resume_data'') Catch_any (New_result ''libtorrent::add_torrent_params'')])"

definition global_exports_22 :: class_exports where
  "global_exports_22 = ('''', [
     Export ''write_resume_data'' [Const_reference ''libtorrent::add_torrent_params''] (Call ''libtorrent::write_resume_data'') Catch_any (New_result ''libtorrent::entry''),
     Export ''allow_missing_piece_layer_get'' [] (Static_address ''libtorrent::write_flags::allow_missing_piece_layer'') Catch_any (Pointer_result ''libtorrent::write_torrent_flags_t''),
     Export ''no_http_seeds_get'' [] (Static_address ''libtorrent::write_flags::no_http_seeds'') Catch_any (Pointer_result ''libtorrent::write_torrent_flags_t''),
     Export ''include_dht_nodes_get'' [] (Static_address ''libtorrent::write_flags::include_dht_nodes'') Catch_any (Pointer_result ''libtorrent::write_torrent_flags_t''),
     Export ''write_torrent_file__SWIG_0'' [Const_reference ''libtorrent::add_torrent_params''] (Call ''libtorrent::write_torrent_file'') Catch_any (New_result ''libtorrent::entry''),
     Export ''write_torrent_file__SWIG_1'' [Const_reference ''libtorrent::add_torrent_params'', Value ''libtorrent::write_torrent_flags_t''] (Call ''libtorrent::write_torrent_file'') Catch_any (New_result ''libtorrent::entry'')])"

definition web_seed_entry_exports :: class_exports where
  "web_seed_entry_exports = (''libtorrent::web_seed_entry'', [
     Export ''new__SWIG_0'' [String, String, Value ''libtorrent::web_seed_entry::headers_t''] New Catch_any (Pointer_result ''libtorrent::web_seed_entry''),
     Export ''new__SWIG_1'' [String, String] New Catch_any (Pointer_result ''libtorrent::web_seed_entry''),
     Export ''new__SWIG_2'' [String] New Catch_any (Pointer_result ''libtorrent::web_seed_entry''),
     Export ''new__SWIG_3'' [Const_reference ''libtorrent::web_seed_entry''] Copy Catch_any (Pointer_result ''libtorrent::web_seed_entry'')])"

definition web_seed_entry_exports_2 :: class_exports where
  "web_seed_entry_exports_2 = (''libtorrent::web_seed_entry'', [
     Export ''eq'' [This, Const_reference ''libtorrent::web_seed_entry''] (Method ''operator =='') Catch_any Boolean_result,
     Export ''lt'' [This, Const_reference ''libtorrent::web_seed_entry''] (Method ''operator <'') Catch_any Boolean_result,
     Export ''url_set'' [This, String] (Set_field ''url'') Catch_any Void,
     Export ''url_get'' [This] (Field_address ''url'') Catch_any String_at,
     Export ''auth_set'' [This, String] (Set_field ''auth'') Catch_any Void,
     Export ''auth_get'' [This] (Field_address ''auth'') Catch_any String_at,
     Export ''extra_headers_set'' [This, Pointer ''libtorrent::web_seed_entry::headers_t''] (Set_field ''extra_headers'') Catch_any Void])"

definition web_seed_entry_exports_3 :: class_exports where
  "web_seed_entry_exports_3 = (''libtorrent::web_seed_entry'', [
     Export ''extra_headers_get'' [This] (Field_address ''extra_headers'') Catch_any (Pointer_result ''libtorrent::web_seed_entry::headers_t''),
     Export ''delete'' [This] Delete Catch_any Void])"

definition global_exports_23 :: class_exports where
  "global_exports_23 = ('''', [
     Export ''load_torrent_file__SWIG_0'' [String, Reference ''libtorrent::error_code'', Const_reference ''libtorrent::load_torrent_limits''] (Call ''libtorrent::load_torrent_file'') Catch_any (New_result ''libtorrent::add_torrent_params''),
     Export ''load_torrent_file__SWIG_1'' [String, Const_reference ''libtorrent::load_torrent_limits''] (Call ''libtorrent::load_torrent_file'') Catch_any (New_result ''libtorrent::add_torrent_params''),
     Export ''load_torrent_file__SWIG_2'' [String] (Call ''libtorrent::load_torrent_file'') Catch_any (New_result ''libtorrent::add_torrent_params'')])"

definition global_exports_24 :: class_exports where
  "global_exports_24 = ('''', [
     Export ''load_torrent_parsed__SWIG_0'' [Const_reference ''libtorrent::bdecode_node'', Reference ''libtorrent::error_code'', Const_reference ''libtorrent::load_torrent_limits''] (Call ''libtorrent::load_torrent_parsed'') Catch_any (New_result ''libtorrent::add_torrent_params''),
     Export ''load_torrent_parsed__SWIG_1'' [Const_reference ''libtorrent::bdecode_node'', Const_reference ''libtorrent::load_torrent_limits''] (Call ''libtorrent::load_torrent_parsed'') Catch_any (New_result ''libtorrent::add_torrent_params''),
     Export ''load_torrent_parsed__SWIG_2'' [Const_reference ''libtorrent::bdecode_node''] (Call ''libtorrent::load_torrent_parsed'') Catch_any (New_result ''libtorrent::add_torrent_params'')])"

definition global_exports_25 :: class_exports where
  "global_exports_25 = ('''', [
     Export ''find_metric_idx_ex'' [String] (Call ''find_metric_idx_ex'') Catch_any (Number_result int32 int32),
     Export ''boost_lib_version'' [] (Call ''boost_lib_version'') Catch_any Chars_result,
     Export ''openssl_version_text'' [] (Call ''openssl_version_text'') Catch_any Chars_result,
     Export ''arm_neon_support'' [] (Call ''arm_neon_support'') Catch_any Boolean_result,
     Export ''ed25519_create_seed'' [] (Call ''ed25519_create_seed'') Catch_any (New_result ''std::array< std::int8_t,32 >''),
     Export ''ed25519_create_keypair'' [Reference ''std::vector< int8_t >''] (Call ''ed25519_create_keypair'') Catch_any (New_result ''std::pair< std::vector< int8_t >,std::vector< int8_t > >'')])"

definition global_exports_26 :: class_exports where
  "global_exports_26 = ('''', [
     Export ''ed25519_sign'' [Reference ''std::vector< int8_t >'', Reference ''std::vector< int8_t >'', Reference ''std::vector< int8_t >''] (Call ''ed25519_sign'') Catch_any (New_result ''std::vector< int8_t >''),
     Export ''ed25519_verify'' [Reference ''std::vector< int8_t >'', Reference ''std::vector< int8_t >'', Reference ''std::vector< int8_t >''] (Call ''ed25519_verify'') Catch_any Boolean_result,
     Export ''ed25519_add_scalar_public'' [Reference ''std::vector< int8_t >'', Reference ''std::vector< int8_t >''] (Call ''ed25519_add_scalar_public'') Catch_any (New_result ''std::vector< int8_t >'')])"

definition global_exports_27 :: class_exports where
  "global_exports_27 = ('''', [
     Export ''ed25519_add_scalar_secret'' [Reference ''std::vector< int8_t >'', Reference ''std::vector< int8_t >''] (Call ''ed25519_add_scalar_secret'') Catch_any (New_result ''std::vector< int8_t >''),
     Export ''ed25519_key_exchange'' [Reference ''std::vector< int8_t >'', Reference ''std::vector< int8_t >''] (Call ''ed25519_key_exchange'') Catch_any (New_result ''std::vector< int8_t >'')])"

definition ip_interface_exports :: class_exports where
  "ip_interface_exports = (''ip_interface'', [
     Export ''interface_address_set'' [This, Pointer ''libtorrent::address''] (Set_field ''interface_address'') Catch_any Void,
     Export ''interface_address_get'' [This] (Field_address ''interface_address'') Catch_any (Pointer_result ''libtorrent::address''),
     Export ''netmask_set'' [This, Pointer ''libtorrent::address''] (Set_field ''netmask'') Catch_any Void,
     Export ''netmask_get'' [This] (Field_address ''netmask'') Catch_any (Pointer_result ''libtorrent::address''),
     Export ''name_set'' [This, Pointer ''std::vector< std::int8_t >''] (Set_field ''name'') Catch_any Void,
     Export ''name_get'' [This] (Field_address ''name'') Catch_any (Pointer_result ''std::vector< std::int8_t >''),
     Export ''friendly_name_set'' [This, Pointer ''std::vector< std::int8_t >''] (Set_field ''friendly_name'') Catch_any Void,
     Export ''friendly_name_get'' [This] (Field_address ''friendly_name'') Catch_any (Pointer_result ''std::vector< std::int8_t >''),
     Export ''description_set'' [This, Pointer ''std::vector< std::int8_t >''] (Set_field ''description'') Catch_any Void,
     Export ''description_get'' [This] (Field_address ''description'') Catch_any (Pointer_result ''std::vector< std::int8_t >'')])"

definition ip_interface_exports_2 :: class_exports where
  "ip_interface_exports_2 = (''ip_interface'', [
     Export ''preferred_set'' [This, Boolean] (Set_field ''preferred'') Catch_any Void,
     Export ''preferred_get'' [This] (Get_field ''preferred'') Catch_any Boolean_result,
     Export ''new'' [] New Catch_any (Pointer_result ''ip_interface''),
     Export ''delete'' [This] Delete Catch_any Void])"

definition ip_route_exports :: class_exports where
  "ip_route_exports = (''ip_route'', [
     Export ''destination_set'' [This, Pointer ''libtorrent::address''] (Set_field ''destination'') Catch_any Void,
     Export ''destination_get'' [This] (Field_address ''destination'') Catch_any (Pointer_result ''libtorrent::address''),
     Export ''netmask_set'' [This, Pointer ''libtorrent::address''] (Set_field ''netmask'') Catch_any Void,
     Export ''netmask_get'' [This] (Field_address ''netmask'') Catch_any (Pointer_result ''libtorrent::address''),
     Export ''gateway_set'' [This, Pointer ''libtorrent::address''] (Set_field ''gateway'') Catch_any Void,
     Export ''gateway_get'' [This] (Field_address ''gateway'') Catch_any (Pointer_result ''libtorrent::address''),
     Export ''source_hint_set'' [This, Pointer ''libtorrent::address''] (Set_field ''source_hint'') Catch_any Void,
     Export ''source_hint_get'' [This] (Field_address ''source_hint'') Catch_any (Pointer_result ''libtorrent::address''),
     Export ''name_set'' [This, Pointer ''std::vector< std::int8_t >''] (Set_field ''name'') Catch_any Void,
     Export ''name_get'' [This] (Field_address ''name'') Catch_any (Pointer_result ''std::vector< std::int8_t >'')])"

definition ip_route_exports_2 :: class_exports where
  "ip_route_exports_2 = (''ip_route'', [
     Export ''mtu_set'' [This, Number int32] (Set_field ''mtu'') Catch_any Void,
     Export ''mtu_get'' [This] (Get_field ''mtu'') Catch_any (Number_result int32 int32),
     Export ''new'' [] New Catch_any (Pointer_result ''ip_route''),
     Export ''delete'' [This] Delete Catch_any Void])"

definition global_exports_28 :: class_exports where
  "global_exports_28 = ('''', [
     Export ''enum_net_interfaces'' [Pointer ''libtorrent::session''] (Call ''enum_net_interfaces'') Catch_any (New_result ''std::vector< ip_interface >''),
     Export ''enum_routes'' [Pointer ''libtorrent::session''] (Call ''enum_routes'') Catch_any (New_result ''std::vector< ip_route >''),
     Export ''get_gateway'' [Const_reference ''ip_interface'', Reference ''std::vector< ip_route >''] (Call ''get_gateway'') Catch_any (New_result ''libtorrent::address''),
     Export ''device_for_address'' [Pointer ''libtorrent::session'', Value ''libtorrent::address'', Reference ''boost::system::error_code''] (Call ''device_for_address'') Catch_any String_result])"

definition global_exports_29 :: class_exports where
  "global_exports_29 = ('''', [
     Export ''list_files_ex'' [String, Pointer ''list_files_listener'', Value ''libtorrent::create_flags_t''] (Call ''list_files_ex'') Catch_any (New_result ''std::vector< libtorrent::create_file_entry >'')])"

definition global_exports_30 :: class_exports where
  "global_exports_30 = ('''', [
     Export ''set_piece_hashes_ex'' [Reference ''libtorrent::create_torrent'', String, Pointer ''set_piece_hashes_listener'', Reference ''libtorrent::error_code''] (Call ''set_piece_hashes_ex'') Catch_any Void,
     Export ''read_resume_data_ex__SWIG_0'' [Const_reference ''std::vector< std::int8_t >'', Reference ''libtorrent::error_code'', Const_reference ''libtorrent::load_torrent_limits''] (Call ''read_resume_data_ex'') Catch_any (New_result ''libtorrent::add_torrent_params''),
     Export ''read_resume_data_ex__SWIG_1'' [Const_reference ''std::vector< std::int8_t >'', Reference ''libtorrent::error_code''] (Call ''read_resume_data_ex'') Catch_any (New_result ''libtorrent::add_torrent_params'')])"

definition global_exports_31 :: class_exports where
  "global_exports_31 = ('''', [
     Export ''write_resume_data_buf_ex'' [Const_reference ''libtorrent::add_torrent_params''] (Call ''write_resume_data_buf_ex'') Catch_any (New_result ''std::vector< std::int8_t >''),
     Export ''write_torrent_file_buf_ex'' [Const_reference ''libtorrent::add_torrent_params''] (Call ''write_torrent_file_buf_ex'') Catch_any (New_result ''std::vector< std::int8_t >''),
     Export ''parse_magnet_uri'' [String, Reference ''libtorrent::error_code''] (Call ''parse_magnet_uri'') Catch_any (New_result ''libtorrent::add_torrent_params''),
     Export ''make_magnet_uri_from_torrent_handle'' [Const_reference ''libtorrent::torrent_handle''] (Call ''make_magnet_uri_from_torrent_handle'') Catch_any String_result,
     Export ''torrent_alert_SWIGUpcast'' [Pointer ''libtorrent::torrent_alert''] Upcast Catch_any (Pointer_result ''libtorrent::alert''),
     Export ''peer_alert_SWIGUpcast'' [Pointer ''libtorrent::peer_alert''] Upcast Catch_any (Pointer_result ''libtorrent::torrent_alert''),
     Export ''tracker_alert_SWIGUpcast'' [Pointer ''libtorrent::tracker_alert''] Upcast Catch_any (Pointer_result ''libtorrent::torrent_alert'')])"

definition upcasts_exports :: class_exports where
  "upcasts_exports = ('''', [
     Export ''torrent_removed_alert_SWIGUpcast'' [Pointer ''libtorrent::torrent_removed_alert''] Upcast Catch_any (Pointer_result ''libtorrent::torrent_alert''),
     Export ''read_piece_alert_SWIGUpcast'' [Pointer ''libtorrent::read_piece_alert''] Upcast Catch_any (Pointer_result ''libtorrent::torrent_alert''),
     Export ''file_completed_alert_SWIGUpcast'' [Pointer ''libtorrent::file_completed_alert''] Upcast Catch_any (Pointer_result ''libtorrent::torrent_alert''),
     Export ''file_renamed_alert_SWIGUpcast'' [Pointer ''libtorrent::file_renamed_alert''] Upcast Catch_any (Pointer_result ''libtorrent::torrent_alert''),
     Export ''file_rename_failed_alert_SWIGUpcast'' [Pointer ''libtorrent::file_rename_failed_alert''] Upcast Catch_any (Pointer_result ''libtorrent::torrent_alert''),
     Export ''performance_alert_SWIGUpcast'' [Pointer ''libtorrent::performance_alert''] Upcast Catch_any (Pointer_result ''libtorrent::torrent_alert''),
     Export ''state_changed_alert_SWIGUpcast'' [Pointer ''libtorrent::state_changed_alert''] Upcast Catch_any (Pointer_result ''libtorrent::torrent_alert''),
     Export ''tracker_error_alert_SWIGUpcast'' [Pointer ''libtorrent::tracker_error_alert''] Upcast Catch_any (Pointer_result ''libtorrent::tracker_alert''),
     Export ''tracker_warning_alert_SWIGUpcast'' [Pointer ''libtorrent::tracker_warning_alert''] Upcast Catch_any (Pointer_result ''libtorrent::tracker_alert''),
     Export ''scrape_reply_alert_SWIGUpcast'' [Pointer ''libtorrent::scrape_reply_alert''] Upcast Catch_any (Pointer_result ''libtorrent::tracker_alert''),
     Export ''scrape_failed_alert_SWIGUpcast'' [Pointer ''libtorrent::scrape_failed_alert''] Upcast Catch_any (Pointer_result ''libtorrent::tracker_alert''),
     Export ''tracker_reply_alert_SWIGUpcast'' [Pointer ''libtorrent::tracker_reply_alert''] Upcast Catch_any (Pointer_result ''libtorrent::tracker_alert''),
     Export ''dht_reply_alert_SWIGUpcast'' [Pointer ''libtorrent::dht_reply_alert''] Upcast Catch_any (Pointer_result ''libtorrent::tracker_alert''),
     Export ''tracker_announce_alert_SWIGUpcast'' [Pointer ''libtorrent::tracker_announce_alert''] Upcast Catch_any (Pointer_result ''libtorrent::tracker_alert''),
     Export ''hash_failed_alert_SWIGUpcast'' [Pointer ''libtorrent::hash_failed_alert''] Upcast Catch_any (Pointer_result ''libtorrent::torrent_alert''),
     Export ''peer_ban_alert_SWIGUpcast'' [Pointer ''libtorrent::peer_ban_alert''] Upcast Catch_any (Pointer_result ''libtorrent::peer_alert''),
     Export ''peer_unsnubbed_alert_SWIGUpcast'' [Pointer ''libtorrent::peer_unsnubbed_alert''] Upcast Catch_any (Pointer_result ''libtorrent::peer_alert''),
     Export ''peer_snubbed_alert_SWIGUpcast'' [Pointer ''libtorrent::peer_snubbed_alert''] Upcast Catch_any (Pointer_result ''libtorrent::peer_alert'')])"

definition upcasts_exports_2 :: class_exports where
  "upcasts_exports_2 = ('''', [
     Export ''peer_error_alert_SWIGUpcast'' [Pointer ''libtorrent::peer_error_alert''] Upcast Catch_any (Pointer_result ''libtorrent::peer_alert''),
     Export ''peer_connect_alert_SWIGUpcast'' [Pointer ''libtorrent::peer_connect_alert''] Upcast Catch_any (Pointer_result ''libtorrent::peer_alert''),
     Export ''peer_disconnected_alert_SWIGUpcast'' [Pointer ''libtorrent::peer_disconnected_alert''] Upcast Catch_any (Pointer_result ''libtorrent::peer_alert''),
     Export ''invalid_request_alert_SWIGUpcast'' [Pointer ''libtorrent::invalid_request_alert''] Upcast Catch_any (Pointer_result ''libtorrent::peer_alert''),
     Export ''torrent_finished_alert_SWIGUpcast'' [Pointer ''libtorrent::torrent_finished_alert''] Upcast Catch_any (Pointer_result ''libtorrent::torrent_alert''),
     Export ''piece_finished_alert_SWIGUpcast'' [Pointer ''libtorrent::piece_finished_alert''] Upcast Catch_any (Pointer_result ''libtorrent::torrent_alert''),
     Export ''request_dropped_alert_SWIGUpcast'' [Pointer ''libtorrent::request_dropped_alert''] Upcast Catch_any (Pointer_result ''libtorrent::peer_alert''),
     Export ''block_timeout_alert_SWIGUpcast'' [Pointer ''libtorrent::block_timeout_alert''] Upcast Catch_any (Pointer_result ''libtorrent::peer_alert''),
     Export ''block_finished_alert_SWIGUpcast'' [Pointer ''libtorrent::block_finished_alert''] Upcast Catch_any (Pointer_result ''libtorrent::peer_alert''),
     Export ''block_downloading_alert_SWIGUpcast'' [Pointer ''libtorrent::block_downloading_alert''] Upcast Catch_any (Pointer_result ''libtorrent::peer_alert''),
     Export ''unwanted_block_alert_SWIGUpcast'' [Pointer ''libtorrent::unwanted_block_alert''] Upcast Catch_any (Pointer_result ''libtorrent::peer_alert''),
     Export ''storage_moved_alert_SWIGUpcast'' [Pointer ''libtorrent::storage_moved_alert''] Upcast Catch_any (Pointer_result ''libtorrent::torrent_alert''),
     Export ''storage_moved_failed_alert_SWIGUpcast'' [Pointer ''libtorrent::storage_moved_failed_alert''] Upcast Catch_any (Pointer_result ''libtorrent::torrent_alert''),
     Export ''torrent_deleted_alert_SWIGUpcast'' [Pointer ''libtorrent::torrent_deleted_alert''] Upcast Catch_any (Pointer_result ''libtorrent::torrent_alert''),
     Export ''torrent_delete_failed_alert_SWIGUpcast'' [Pointer ''libtorrent::torrent_delete_failed_alert''] Upcast Catch_any (Pointer_result ''libtorrent::torrent_alert''),
     Export ''save_resume_data_alert_SWIGUpcast'' [Pointer ''libtorrent::save_resume_data_alert''] Upcast Catch_any (Pointer_result ''libtorrent::torrent_alert''),
     Export ''save_resume_data_failed_alert_SWIGUpcast'' [Pointer ''libtorrent::save_resume_data_failed_alert''] Upcast Catch_any (Pointer_result ''libtorrent::torrent_alert''),
     Export ''torrent_paused_alert_SWIGUpcast'' [Pointer ''libtorrent::torrent_paused_alert''] Upcast Catch_any (Pointer_result ''libtorrent::torrent_alert'')])"

definition upcasts_exports_3 :: class_exports where
  "upcasts_exports_3 = ('''', [
     Export ''torrent_resumed_alert_SWIGUpcast'' [Pointer ''libtorrent::torrent_resumed_alert''] Upcast Catch_any (Pointer_result ''libtorrent::torrent_alert''),
     Export ''torrent_checked_alert_SWIGUpcast'' [Pointer ''libtorrent::torrent_checked_alert''] Upcast Catch_any (Pointer_result ''libtorrent::torrent_alert''),
     Export ''url_seed_alert_SWIGUpcast'' [Pointer ''libtorrent::url_seed_alert''] Upcast Catch_any (Pointer_result ''libtorrent::torrent_alert''),
     Export ''file_error_alert_SWIGUpcast'' [Pointer ''libtorrent::file_error_alert''] Upcast Catch_any (Pointer_result ''libtorrent::torrent_alert''),
     Export ''metadata_failed_alert_SWIGUpcast'' [Pointer ''libtorrent::metadata_failed_alert''] Upcast Catch_any (Pointer_result ''libtorrent::torrent_alert''),
     Export ''metadata_received_alert_SWIGUpcast'' [Pointer ''libtorrent::metadata_received_alert''] Upcast Catch_any (Pointer_result ''libtorrent::torrent_alert''),
     Export ''udp_error_alert_SWIGUpcast'' [Pointer ''libtorrent::udp_error_alert''] Upcast Catch_any (Pointer_result ''libtorrent::alert''),
     Export ''external_ip_alert_SWIGUpcast'' [Pointer ''libtorrent::external_ip_alert''] Upcast Catch_any (Pointer_result ''libtorrent::alert''),
     Export ''listen_failed_alert_SWIGUpcast'' [Pointer ''libtorrent::listen_failed_alert''] Upcast Catch_any (Pointer_result ''libtorrent::alert''),
     Export ''listen_succeeded_alert_SWIGUpcast'' [Pointer ''libtorrent::listen_succeeded_alert''] Upcast Catch_any (Pointer_result ''libtorrent::alert''),
     Export ''portmap_error_alert_SWIGUpcast'' [Pointer ''libtorrent::portmap_error_alert''] Upcast Catch_any (Pointer_result ''libtorrent::alert''),
     Export ''portmap_alert_SWIGUpcast'' [Pointer ''libtorrent::portmap_alert''] Upcast Catch_any (Pointer_result ''libtorrent::alert''),
     Export ''portmap_log_alert_SWIGUpcast'' [Pointer ''libtorrent::portmap_log_alert''] Upcast Catch_any (Pointer_result ''libtorrent::alert''),
     Export ''fastresume_rejected_alert_SWIGUpcast'' [Pointer ''libtorrent::fastresume_rejected_alert''] Upcast Catch_any (Pointer_result ''libtorrent::torrent_alert''),
     Export ''peer_blocked_alert_SWIGUpcast'' [Pointer ''libtorrent::peer_blocked_alert''] Upcast Catch_any (Pointer_result ''libtorrent::peer_alert''),
     Export ''dht_announce_alert_SWIGUpcast'' [Pointer ''libtorrent::dht_announce_alert''] Upcast Catch_any (Pointer_result ''libtorrent::alert''),
     Export ''dht_get_peers_alert_SWIGUpcast'' [Pointer ''libtorrent::dht_get_peers_alert''] Upcast Catch_any (Pointer_result ''libtorrent::alert''),
     Export ''cache_flushed_alert_SWIGUpcast'' [Pointer ''libtorrent::cache_flushed_alert''] Upcast Catch_any (Pointer_result ''libtorrent::torrent_alert'')])"

definition upcasts_exports_4 :: class_exports where
  "upcasts_exports_4 = ('''', [
     Export ''lsd_peer_alert_SWIGUpcast'' [Pointer ''libtorrent::lsd_peer_alert''] Upcast Catch_any (Pointer_result ''libtorrent::peer_alert''),
     Export ''trackerid_alert_SWIGUpcast'' [Pointer ''libtorrent::trackerid_alert''] Upcast Catch_any (Pointer_result ''libtorrent::tracker_alert''),
     Export ''dht_bootstrap_alert_SWIGUpcast'' [Pointer ''libtorrent::dht_bootstrap_alert''] Upcast Catch_any (Pointer_result ''libtorrent::alert''),
     Export ''torrent_error_alert_SWIGUpcast'' [Pointer ''libtorrent::torrent_error_alert''] Upcast Catch_any (Pointer_result ''libtorrent::torrent_alert''),
     Export ''torrent_need_cert_alert_SWIGUpcast'' [Pointer ''libtorrent::torrent_need_cert_alert''] Upcast Catch_any (Pointer_result ''libtorrent::torrent_alert''),
     Export ''incoming_connection_alert_SWIGUpcast'' [Pointer ''libtorrent::incoming_connection_alert''] Upcast Catch_any (Pointer_result ''libtorrent::alert''),
     Export ''add_torrent_alert_SWIGUpcast'' [Pointer ''libtorrent::add_torrent_alert''] Upcast Catch_any (Pointer_result ''libtorrent::torrent_alert''),
     Export ''state_update_alert_SWIGUpcast'' [Pointer ''libtorrent::state_update_alert''] Upcast Catch_any (Pointer_result ''libtorrent::alert''),
     Export ''session_stats_alert_SWIGUpcast'' [Pointer ''libtorrent::session_stats_alert''] Upcast Catch_any (Pointer_result ''libtorrent::alert''),
     Export ''dht_error_alert_SWIGUpcast'' [Pointer ''libtorrent::dht_error_alert''] Upcast Catch_any (Pointer_result ''libtorrent::alert''),
     Export ''dht_immutable_item_alert_SWIGUpcast'' [Pointer ''libtorrent::dht_immutable_item_alert''] Upcast Catch_any (Pointer_result ''libtorrent::alert''),
     Export ''dht_mutable_item_alert_SWIGUpcast'' [Pointer ''libtorrent::dht_mutable_item_alert''] Upcast Catch_any (Pointer_result ''libtorrent::alert''),
     Export ''dht_put_alert_SWIGUpcast'' [Pointer ''libtorrent::dht_put_alert''] Upcast Catch_any (Pointer_result ''libtorrent::alert''),
     Export ''i2p_alert_SWIGUpcast'' [Pointer ''libtorrent::i2p_alert''] Upcast Catch_any (Pointer_result ''libtorrent::alert''),
     Export ''dht_outgoing_get_peers_alert_SWIGUpcast'' [Pointer ''libtorrent::dht_outgoing_get_peers_alert''] Upcast Catch_any (Pointer_result ''libtorrent::alert''),
     Export ''log_alert_SWIGUpcast'' [Pointer ''libtorrent::log_alert''] Upcast Catch_any (Pointer_result ''libtorrent::alert''),
     Export ''torrent_log_alert_SWIGUpcast'' [Pointer ''libtorrent::torrent_log_alert''] Upcast Catch_any (Pointer_result ''libtorrent::torrent_alert''),
     Export ''peer_log_alert_SWIGUpcast'' [Pointer ''libtorrent::peer_log_alert''] Upcast Catch_any (Pointer_result ''libtorrent::peer_alert'')])"

definition upcasts_exports_5 :: class_exports where
  "upcasts_exports_5 = ('''', [
     Export ''lsd_error_alert_SWIGUpcast'' [Pointer ''libtorrent::lsd_error_alert''] Upcast Catch_any (Pointer_result ''libtorrent::alert''),
     Export ''dht_stats_alert_SWIGUpcast'' [Pointer ''libtorrent::dht_stats_alert''] Upcast Catch_any (Pointer_result ''libtorrent::alert''),
     Export ''incoming_request_alert_SWIGUpcast'' [Pointer ''libtorrent::incoming_request_alert''] Upcast Catch_any (Pointer_result ''libtorrent::peer_alert''),
     Export ''dht_log_alert_SWIGUpcast'' [Pointer ''libtorrent::dht_log_alert''] Upcast Catch_any (Pointer_result ''libtorrent::alert''),
     Export ''dht_pkt_alert_SWIGUpcast'' [Pointer ''libtorrent::dht_pkt_alert''] Upcast Catch_any (Pointer_result ''libtorrent::alert''),
     Export ''dht_get_peers_reply_alert_SWIGUpcast'' [Pointer ''libtorrent::dht_get_peers_reply_alert''] Upcast Catch_any (Pointer_result ''libtorrent::alert''),
     Export ''dht_direct_response_alert_SWIGUpcast'' [Pointer ''libtorrent::dht_direct_response_alert''] Upcast Catch_any (Pointer_result ''libtorrent::alert''),
     Export ''picker_log_alert_SWIGUpcast'' [Pointer ''libtorrent::picker_log_alert''] Upcast Catch_any (Pointer_result ''libtorrent::peer_alert''),
     Export ''session_error_alert_SWIGUpcast'' [Pointer ''libtorrent::session_error_alert''] Upcast Catch_any (Pointer_result ''libtorrent::alert''),
     Export ''dht_live_nodes_alert_SWIGUpcast'' [Pointer ''libtorrent::dht_live_nodes_alert''] Upcast Catch_any (Pointer_result ''libtorrent::alert''),
     Export ''session_stats_header_alert_SWIGUpcast'' [Pointer ''libtorrent::session_stats_header_alert''] Upcast Catch_any (Pointer_result ''libtorrent::alert''),
     Export ''dht_sample_infohashes_alert_SWIGUpcast'' [Pointer ''libtorrent::dht_sample_infohashes_alert''] Upcast Catch_any (Pointer_result ''libtorrent::alert''),
     Export ''block_uploaded_alert_SWIGUpcast'' [Pointer ''libtorrent::block_uploaded_alert''] Upcast Catch_any (Pointer_result ''libtorrent::peer_alert''),
     Export ''alerts_dropped_alert_SWIGUpcast'' [Pointer ''libtorrent::alerts_dropped_alert''] Upcast Catch_any (Pointer_result ''libtorrent::alert''),
     Export ''socks5_alert_SWIGUpcast'' [Pointer ''libtorrent::socks5_alert''] Upcast Catch_any (Pointer_result ''libtorrent::alert''),
     Export ''file_prio_alert_SWIGUpcast'' [Pointer ''libtorrent::file_prio_alert''] Upcast Catch_any (Pointer_result ''libtorrent::torrent_alert''),
     Export ''oversized_file_alert_SWIGUpcast'' [Pointer ''libtorrent::oversized_file_alert''] Upcast Catch_any (Pointer_result ''libtorrent::torrent_alert''),
     Export ''torrent_conflict_alert_SWIGUpcast'' [Pointer ''libtorrent::torrent_conflict_alert''] Upcast Catch_any (Pointer_result ''libtorrent::torrent_alert'')])"

definition upcasts_exports_6 :: class_exports where
  "upcasts_exports_6 = ('''', [
     Export ''peer_info_alert_SWIGUpcast'' [Pointer ''libtorrent::peer_info_alert''] Upcast Catch_any (Pointer_result ''libtorrent::torrent_alert''),
     Export ''file_progress_alert_SWIGUpcast'' [Pointer ''libtorrent::file_progress_alert''] Upcast Catch_any (Pointer_result ''libtorrent::torrent_alert''),
     Export ''piece_info_alert_SWIGUpcast'' [Pointer ''libtorrent::piece_info_alert''] Upcast Catch_any (Pointer_result ''libtorrent::torrent_alert''),
     Export ''piece_availability_alert_SWIGUpcast'' [Pointer ''libtorrent::piece_availability_alert''] Upcast Catch_any (Pointer_result ''libtorrent::torrent_alert''),
     Export ''tracker_list_alert_SWIGUpcast'' [Pointer ''libtorrent::tracker_list_alert''] Upcast Catch_any (Pointer_result ''libtorrent::torrent_alert''),
     Export ''settings_pack_SWIGUpcast'' [Pointer ''libtorrent::settings_pack''] Upcast Catch_any (Pointer_result ''libtorrent::settings_interface''),
     Export ''session_SWIGUpcast'' [Pointer ''libtorrent::session''] Upcast Catch_any (Pointer_result ''libtorrent::session_handle'')])"

text \<open>All of them.\<close>

definition session_classes :: "class_exports list" where
  "session_classes = [
    global_exports_17, global_exports_18, settings_pack_exports, settings_pack_exports_2, settings_pack_exports_3,
    settings_pack_exports_4, settings_pack_exports_5, settings_pack_exports_6, settings_pack_exports_7,
    peer_class_info_exports, peer_class_info_exports_2, peer_class_type_filter_exports, ip_filter_exports,
    ip_filter_exports_2, port_filter_exports, session_params_exports, session_params_exports_2,
    session_params_exports_3, session_params_exports_4, session_handle_exports, session_handle_exports_2,
    session_handle_exports_3, session_handle_exports_4, session_handle_exports_5, session_handle_exports_6,
    session_handle_exports_7, session_handle_exports_8, session_handle_exports_9, session_handle_exports_10,
    session_handle_exports_11, session_handle_exports_12, session_handle_exports_13, global_exports_19,
    session_proxy_exports, session_exports, create_file_entry_exports, create_file_entry_exports_2,
    create_file_entry_exports_3, create_torrent_exports, create_torrent_exports_2, create_torrent_exports_3,
    create_torrent_exports_4, create_torrent_exports_5, create_torrent_exports_6, create_torrent_exports_7,
    stats_metric_exports, session_exports_2, global_exports_20, global_exports_21, global_exports_22,
    web_seed_entry_exports, web_seed_entry_exports_2, web_seed_entry_exports_3, global_exports_23,
    global_exports_24, global_exports_25, global_exports_26, global_exports_27, ip_interface_exports,
    ip_interface_exports_2, ip_route_exports, ip_route_exports_2, global_exports_28, global_exports_29,
    global_exports_30, global_exports_31, upcasts_exports, upcasts_exports_2, upcasts_exports_3,
    upcasts_exports_4, upcasts_exports_5, upcasts_exports_6]"

lemmas session_classes_tables =
    global_exports_17_def global_exports_18_def settings_pack_exports_def settings_pack_exports_2_def settings_pack_exports_3_def
    settings_pack_exports_4_def settings_pack_exports_5_def settings_pack_exports_6_def settings_pack_exports_7_def
    peer_class_info_exports_def peer_class_info_exports_2_def peer_class_type_filter_exports_def ip_filter_exports_def
    ip_filter_exports_2_def port_filter_exports_def session_params_exports_def session_params_exports_2_def
    session_params_exports_3_def session_params_exports_4_def session_handle_exports_def session_handle_exports_2_def
    session_handle_exports_3_def session_handle_exports_4_def session_handle_exports_5_def session_handle_exports_6_def
    session_handle_exports_7_def session_handle_exports_8_def session_handle_exports_9_def session_handle_exports_10_def
    session_handle_exports_11_def session_handle_exports_12_def session_handle_exports_13_def global_exports_19_def
    session_proxy_exports_def session_exports_def create_file_entry_exports_def create_file_entry_exports_2_def
    create_file_entry_exports_3_def create_torrent_exports_def create_torrent_exports_2_def create_torrent_exports_3_def
    create_torrent_exports_4_def create_torrent_exports_5_def create_torrent_exports_6_def create_torrent_exports_7_def
    stats_metric_exports_def session_exports_2_def global_exports_20_def global_exports_21_def global_exports_22_def
    web_seed_entry_exports_def web_seed_entry_exports_2_def web_seed_entry_exports_3_def global_exports_23_def
    global_exports_24_def global_exports_25_def global_exports_26_def global_exports_27_def ip_interface_exports_def
    ip_interface_exports_2_def ip_route_exports_def ip_route_exports_2_def global_exports_28_def global_exports_29_def
    global_exports_30_def global_exports_31_def upcasts_exports_def upcasts_exports_2_def upcasts_exports_3_def
    upcasts_exports_4_def upcasts_exports_5_def upcasts_exports_6_def

lemma session_classes_ok: "tables_ok session_classes"
  by (simp add: tables_ok_def session_classes_def session_classes_tables table_check cong: names_weak_cong)

end
