(* ===== verification/Binding_Calls.thy ===== *)
theory Binding_Calls
  imports Exports_Basic Exports_Torrents Exports_Alerts Exports_Session
begin

text \<open>
  The properties of the exports of the binding: null arguments, the characters of Java strings, the types of
  members, and what a setter and the getter after it do. They hold of every export in the tables.
\<close>

definition native_classes :: "class_exports list" where
  "native_classes = basic_classes @ torrent_classes @ alert_classes @ session_classes"

lemma native_tables_ok: "tables_ok native_classes"
  using basic_classes_ok torrent_classes_ok alert_classes_ok session_classes_ok
  by (simp add: native_classes_def tables_ok_def)

lemma native_table_ok: "(C, es) \<in> set native_classes \<Longrightarrow> table_ok es"
  using native_tables_ok by (auto simp: tables_ok_def list_all_iff)

lemma native_well_formed: "(C, es) \<in> set native_classes \<Longrightarrow> e \<in> set es \<Longrightarrow> well_formed e"
  by (rule table_well_formed [OF native_table_ok])

text \<open>Two tables, for the examples.\<close>

lemma block_info_table: "block_info_exports \<in> set native_classes"
  by (simp add: native_classes_def torrent_classes_def)

section \<open>A library for examples\<close>

text \<open>A library whose functions return a given answer and leave the memory as it is.\<close>

definition plain_library :: "cpp_exception + unit cval \<Rightarrow> (unit, unit \<times> jtrace) library" where
  "plain_library out = \<lparr>
     invoke = (\<lambda>name cs s. Some (out, s)), destroy = (\<lambda>T p s. Some s), constant_of = (\<lambda>name. Num 0),
     static_at = (\<lambda>name. 0), declared_type = (\<lambda>name. Signed 32), member_type = (\<lambda>C f. Unsigned 2)\<rparr>"

lemma plain_library_keeps: "keeps_chars (plain_library out)"
  by (simp add: keeps_chars_def plain_library_def)

lemma create_torrent_table: "create_torrent_exports_2 \<in> set native_classes"
  by (simp add: native_classes_def session_classes_def)

definition set_comment :: export where
  "set_comment = Export ''set_comment'' [This, Chars] (Method ''set_comment'') Catch_any Void"

lemma set_comment_exported: "set_comment \<in> set (snd create_torrent_exports_2)"
  by (simp add: create_torrent_exports_2_def set_comment_def)

text \<open>A block of a piece, with the members the binding reaches.\<close>

definition a_block :: "unit cval" where
  "a_block = Struct [''bytes_progress'' \<mapsto> Num 0, ''block_size'' \<mapsto> Num 1, ''state'' \<mapsto> Num 0, ''num_peers'' \<mapsto> Num 3]"

definition block_memory :: "(unit, unit \<times> jtrace) memory_state" where
  "block_memory = \<lparr>objects = [7 \<mapsto> a_block], next_address = 8, machine = ((), [])\<rparr>"

section \<open>Null arguments\<close>

text \<open>C34. A method whose arguments before the i-th are fine and whose i-th argument is null, where C++ takes a reference, a value
  or a string, returns the null result at once with a \<^verbatim>\<open>NullPointerException\<close> that names the parameter; no C++ object has
  changed and nothing of the library has been called.\<close>

theorem null_argument_refused:
  assumes "length as = length ps" "i < length ps" "is_null (ps ! i) (as ! i)"
    and "take_args (audit_jvm J) L (take i (zip ps as)) s = Some (Some cs, s1)"
  shows "\<exists>s'. run_export (audit_jvm J) L C (Export name ps b c r) as s = Some (no_result r, s')
    \<and> objects s' = objects s \<and> next_address s' = next_address s
    \<and> s' = raise (audit_jvm J) (SWIG_JavaNullPointerException, null_message (ps ! i)) s1
    \<and> (thrown (snd (machine s')) = Some (''java/lang/NullPointerException'', null_message (ps ! i))
       \<or> thrown (snd (machine s')) = Some (''java/lang/NoClassDefFoundError'', ''java/lang/NullPointerException''))"
proof -
  let ?s = "raise (audit_jvm J) (SWIG_JavaNullPointerException, null_message (ps ! i)) s1"
  have "zip ps as = take i (zip ps as) @ (ps ! i, as ! i) # drop (Suc i) (zip ps as)"
    using assms(1,2) by (metis id_take_nth_drop length_zip min.idem nth_zip)
  then have "take_args (audit_jvm J) L (zip ps as) s = Some (None, ?s)"
    using take_null_after [OF assms(4,3)] by metis
  then have "run_export (audit_jvm J) L C (Export name ps b c r) as s = Some (no_result r, ?s)"
    using assms(1) by (simp add: run_export_def)
  moreover have "thrown (snd (machine ?s)) = Some (''java/lang/NullPointerException'', null_message (ps ! i))
       \<or> thrown (snd (machine ?s)) = Some (''java/lang/NoClassDefFoundError'', ''java/lang/NullPointerException'')"
    using audited_jvm.throw_exception [of J SWIG_JavaNullPointerException "null_message (ps ! i)" "machine s1"]
    by (simp add: raise_def java_exception_def java_exceptions_def)
  ultimately show ?thesis using take_args_objects [OF assms(4)] by simp
qed

theorem null_argument_refused_witness:
  "\<exists>s'. run_export (audit_jvm plain_jvm) (plain_library (Inr (Num 0))) ''libtorrent::block_info''
      (Export ''set_peer'' [This, Const_reference ''libtorrent::tcp::endpoint''] (Method ''set_peer'') Catch_any Void)
      [J_pointer (Heap 7), J_pointer Nullptr] block_memory = Some (J_void, s')
    \<and> objects s' = objects block_memory
    \<and> thrown (snd (machine s')) \<in> {
        Some (''java/lang/NullPointerException'', ''libtorrent::tcp::endpoint const & is null''),
        Some (''java/lang/NoClassDefFoundError'', ''java/lang/NullPointerException'')}"
proof -
  let ?ps = "[This, Const_reference ''libtorrent::tcp::endpoint'']"
  let ?as = "[J_pointer (Heap 7), J_pointer Nullptr]"
  have t: "take_args (audit_jvm plain_jvm) (plain_library (Inr (Num 0))) (take (Suc 0) (zip ?ps ?as)) block_memory
      = Some (Some [C_pointer (Heap 7)], block_memory)"
    by (simp add: take_arg_def pointer_of_def)
  have "null_message (?ps ! Suc 0) = ''libtorrent::tcp::endpoint const & is null''"
    by (simp add: null_message_def)
  with null_argument_refused [OF _ _ _ t, of "''libtorrent::block_info''" "''set_peer''" "Method ''set_peer''" Catch_any Void]
  show ?thesis by (simp add: is_null_def no_result_def)
qed

section \<open>Characters of strings\<close>

text \<open>C35. Whatever a library does that itself keeps no characters of Java strings: a method has given back all the characters it
  took when it ends, except that a method that passes a \<^verbatim>\<open>char const*\<close> keeps those of that argument when the library
  raises an exception. Only \<^verbatim>\<open>info\<close>, \<^verbatim>\<open>set_comment\<close> and \<^verbatim>\<open>set_creator\<close> have such an argument.\<close>

theorem string_characters_released:
  assumes "(C, es) \<in> set native_classes" "Export name ps b c r \<in> set es" "keeps_chars L"
    and "run_export (audit_jvm J) L C (Export name ps b c r) as s = Some (x, s')"
  shows "chars_of s' = (if raises (audit_jvm J) L C (Export name ps b c r) as s
      then held_chars (zip ps as) @ chars_of s else chars_of s)
    \<and> (held_chars (zip ps as) \<noteq> [] \<longrightarrow> name \<in> {''info'', ''set_comment'', ''set_creator''})"
proof -
  from native_well_formed [OF assms(1,2)] have wf: "\<forall>p \<in> set (butlast ps). p \<noteq> Chars"
    "Chars \<in> set ps \<longrightarrow> name \<in> {''info'', ''set_comment'', ''set_creator''}"
    by (simp_all add: well_formed_def)
  have "held_chars (zip ps as) = []" if "Chars \<notin> set ps"
    using that held_none [of "zip ps as"] by (auto dest: set_zip_leftD)
  with wf(2) run_export_chars [OF assms(4) wf(1) assms(3)] show ?thesis by blast
qed

theorem string_characters_released_witness:
  "\<exists>s'. run_export (audit_jvm plain_jvm) (plain_library (Inl Other_exception)) ''libtorrent::create_torrent''
      set_comment [J_pointer (Heap 7), J_string 5] block_memory = Some (J_void, s') \<and> chars_of s' = [5]"
proof -
  let ?J = "audit_jvm plain_jvm" and ?L = "plain_library (Inl Other_exception)"
  let ?as = "[J_pointer (Heap 7), J_string 5]"
  have chars: "GetStringUTFChars ?J 5 (machine block_memory) = (Some ''s'', ((), [J_chars 5]))"
    by (simp add: audit_jvm_def plain_jvm_def noted_def block_memory_def)
  have lib: "invoke ?L name cs s = Some (Inl Other_exception, s)" for name cs s by (simp add: plain_library_def)
  have "\<exists>s'. run_export ?J ?L ''libtorrent::create_torrent'' set_comment ?as block_memory = Some (J_void, s')"
    by (simp add: run_export_def set_comment_def take_arg_def pointer_of_def string_of_def take_chars_def chars
      lib run_body_def no_result_def)
  then obtain s' where run: "run_export ?J ?L ''libtorrent::create_torrent'' set_comment ?as block_memory = Some (J_void, s')"
    by blast
  have raised: "raises ?J ?L ''libtorrent::create_torrent'' set_comment ?as block_memory"
    by (simp add: raises_def set_comment_def take_arg_def pointer_of_def string_of_def take_chars_def chars
      lib run_body_def)
  have "(''libtorrent::create_torrent'', snd create_torrent_exports_2) \<in> set native_classes"
    using create_torrent_table by (simp add: create_torrent_exports_2_def)
  from string_characters_released [OF this set_comment_exported [unfolded set_comment_def] plain_library_keeps
      run [unfolded set_comment_def]] raised [unfolded set_comment_def]
  have "chars_of s' = [5]"
    by (simp add: held_chars_def held_arg_def string_of_def chars_of_def block_memory_def)
  with run show ?thesis by blast
qed

section \<open>Types\<close>

text \<open>C36. An accessor of a member that the library's headers declare with the type the accessor has, called on live objects of the
  right classes, is defined; afterwards every live object still has exactly its declared members, each with a value of its type, and an
  address the accessor returns is that of an object of the class it says. The accessors of the tables are all of a form that has a type.\<close>

theorem accessors_type_safe:
  assumes "(C, es) \<in> set native_classes" "e \<in> set es" "accesses e f"
    and "\<And>t. expects L C e = Some (f, t) \<Longrightarrow> \<exists>fs. \<Gamma> C = Some fs \<and> fs f = Some t"
    and "conforms \<Gamma> \<Sigma> s" "list_all2 (fits \<Gamma> \<Sigma> C) (parameters e) as"
  shows "\<exists>t x s'. expects L C e = Some (f, t) \<and> run_export J L C e as s = Some (x, s') \<and> conforms \<Gamma> \<Sigma> s'
    \<and> (\<forall>T q. t = C_class T \<and> x = J_pointer q \<longrightarrow> target_type \<Gamma> \<Sigma> q = Some (C_class T))"
proof -
  have wf: "well_formed e" by (rule native_well_formed [OF assms(1,2)])
  obtain t where t: "expects L C e = Some (f, t)" using accessor_expects [OF wf assms(3)] by blast
  from assms(4) [OF t] obtain fs where "\<Gamma> C = Some fs" "fs f = Some t" by blast
  from accessor_type_safe [where \<Gamma> = \<Gamma>, OF wf assms(3) t this assms(5,6)] t show ?thesis by blast
qed

text \<open>The setter of a member of a block, and the layout of a block, whose state has two bits.\<close>

definition state_set :: export where
  "state_set = Export ''state_set'' [This, Number uint32] (Set_field ''state'') Catch_any Void"

definition state_get :: export where
  "state_get = Export ''state_get'' [This] (Get_field ''state'') Catch_any (Number_result uint32 int64)"

lemma state_exported: "\<exists>xs ys. snd block_info_exports = xs @ state_set # state_get # ys"
  by (rule exI [where x = "take 6 (snd block_info_exports)"], rule exI [where x = "drop 8 (snd block_info_exports)"])
    (simp add: block_info_exports_def state_set_def state_get_def)

lemma block_info_class: "(''libtorrent::block_info'', snd block_info_exports) \<in> set native_classes"
  using block_info_table by (simp add: block_info_exports_def)

definition block_layout :: layout where
  "block_layout = [''libtorrent::block_info'' \<mapsto>
     [''bytes_progress'' \<mapsto> C_int (Unsigned 2), ''block_size'' \<mapsto> C_int (Unsigned 2), ''state'' \<mapsto> C_int (Unsigned 2),
      ''num_peers'' \<mapsto> C_int (Unsigned 2)]]"

lemma a_block_typed: "has_type block_layout a_block (C_class ''libtorrent::block_info'')"
  unfolding a_block_def
  by (rule has_members [where fs = "the (block_layout ''libtorrent::block_info'')"])
    (auto simp: block_layout_def take_bit_eq_mod split: if_splits)

lemma block_memory_conforms: "conforms block_layout [7 \<mapsto> ''libtorrent::block_info''] block_memory"
  using a_block_typed by (auto simp: conforms_def block_memory_def)

theorem accessors_type_safe_witness:
  "\<exists>x s'. run_export (audit_jvm plain_jvm) (plain_library (Inr (Num 0))) ''libtorrent::block_info'' state_set
      [J_pointer (Heap 7), J_number 6] block_memory = Some (x, s')
    \<and> conforms block_layout [7 \<mapsto> ''libtorrent::block_info''] s'"
proof -
  let ?L = "plain_library (Inr (Num 0))"
  have e: "state_set \<in> set (snd block_info_exports)" using state_exported by auto
  have a: "accesses state_set ''state''" by (simp add: accesses_def state_set_def)
  have d: "\<exists>fs. block_layout ''libtorrent::block_info'' = Some fs \<and> fs ''state'' = Some t"
    if "expects ?L ''libtorrent::block_info'' state_set = Some (''state'', t)" for t
    using that by (simp add: expects_def state_set_def sets_def param_type_def plain_library_def block_layout_def)
  have "list_all2 (fits block_layout [7 \<mapsto> ''libtorrent::block_info''] ''libtorrent::block_info'') (parameters state_set)
      [J_pointer (Heap 7), J_number 6]"
    by (simp add: parameters_def state_set_def fits_def)
  from accessors_type_safe [where \<Gamma> = block_layout, OF block_info_class e a d block_memory_conforms this] show ?thesis by blast
qed

section \<open>Setters and getters\<close>

lemma live_member:
  assumes "load s (Member q f) \<noteq> None"
  shows "q \<noteq> Nullptr" "\<exists>s1. store_at s (Member q f) v = Some s1"
  using assms store_defined [OF assms, of v] by auto

text \<open>The getter after a setter in a table.\<close>

lemma next_getter:
  assumes "(C, es) \<in> set native_classes" "es = xs @ e1 # e2 # ys" "sets e1 = Some (f, p)" "gets e2 = Some (f, r)"
  shows "same_type p r" "well_formed e2"
proof -
  have ok: "table_ok es" by (rule native_table_ok [OF assms(1)])
  from table_neighbours [OF ok [unfolded assms(2)]] assms(3,4) show "same_type p r" by (simp add: agrees_with_next_def)
  from table_well_formed [OF ok] assms(2) show "well_formed e2" by simp
qed

text \<open>C37. After the setter of a numeric member the getter next to it returns the value as the wrapper's cast and the member's
  width leave it: the value itself when it fits both and the Java type of the result. Nothing apart from the member has
  changed. On a null object the setter does nothing.\<close>

theorem number_member_round_trip:
  assumes "(C, es) \<in> set native_classes" "es = xs @ e1 # e2 # ys" "sets e1 = Some (f, Number T)" "gets e2 = Some (f, r)"
    and "load s (Member q f) \<noteq> None"
  shows "\<exists>U s1. r = Number_result T U \<and> run_export J L C e1 [J_pointer q, J_number n] s = Some (J_void, s1)
    \<and> run_export J L C e2 [J_pointer q] s1
        = Some (J_number (convert L U (convert L T (wrap (member_type L C f) (convert L T n)))), s1)
    \<and> (convert L T n = n \<and> wrap (member_type L C f) n = n \<and> convert L U n = n \<longrightarrow>
         run_export J L C e2 [J_pointer q] s1 = Some (J_number n, s1))
    \<and> (\<forall>p. apart (Member q f) p \<longrightarrow> load s1 p = load s p) \<and> machine s1 = machine s
    \<and> run_export J L C e1 [J_pointer Nullptr, J_number n] s = Some (J_void, s)"
proof -
  note getter = next_getter [OF assms(1-4)]
  from getter(1) obtain U where r: "r = Number_result T U" by (cases r) (auto simp: same_type_def)
  from gets_export [OF assms(4)] getter(2) r obtain m c where e2: "e2 = Export m [This] (Get_field f) c r"
    by (auto simp: well_formed_def)
  let ?v = "Num (wrap (member_type L C f) (convert L T n))"
  obtain s1 where s1: "store_at s (Member q f) ?v = Some s1" using live_member(2) [OF assms(5)] by blast
  have v: "plain_value L s (Number T) (J_number n) = Some (Num (convert L T n))"
    by (simp add: plain_value_def number_of_def)
  have "run_export J L C e1 [J_pointer q, J_number n] s = Some (J_void, s1)"
    by (rule setter_stores [OF assms(3) v live_member(1) [OF assms(5)]]) (simp add: s1 del: store_at.simps)
  moreover have "run_export J L C e2 [J_pointer q] s1
      = Some (J_number (convert L U (convert L T (wrap (member_type L C f) (convert L T n)))), s1)"
    by (rule getter_reads [OF e2 load_stored [OF s1]]) (simp add: r give_def give_number_def)
  moreover have "run_export J L C e1 [J_pointer Nullptr, J_number n] s = Some (J_void, s)"
    by (rule setter_null [OF assms(3) v])
  ultimately show ?thesis using r load_apart [OF s1] store_machine [OF s1] by auto
qed

theorem number_member_round_trip_witness:
  "\<exists>s1. run_export (audit_jvm plain_jvm) (plain_library (Inr (Num 0))) ''libtorrent::block_info'' state_set
      [J_pointer (Heap 7), J_number 6] block_memory = Some (J_void, s1)
    \<and> run_export (audit_jvm plain_jvm) (plain_library (Inr (Num 0))) ''libtorrent::block_info'' state_get
      [J_pointer (Heap 7)] s1 = Some (J_number 2, s1)"
proof -
  let ?J = "audit_jvm plain_jvm" and ?L = "plain_library (Inr (Num 0))"
  obtain xs ys where es: "snd block_info_exports = xs @ state_set # state_get # ys" using state_exported by blast
  have e: "sets state_set = Some (''state'', Number uint32)" "gets state_get = Some (''state'', Number_result uint32 int64)"
    by (simp_all add: sets_def gets_def state_set_def state_get_def)
  have l: "load block_memory (Member (Heap 7) ''state'') \<noteq> None" by (simp add: block_memory_def a_block_def)
  have k: "convert ?L int64 (convert ?L uint32 (wrap (member_type ?L ''libtorrent::block_info'' ''state'') (convert ?L uint32 6))) = 2"
    by (simp add: convert_def plain_library_def take_bit_eq_mod signed_take_bit_eq_if_positive)
  from number_member_round_trip [OF block_info_class es e l, of ?J ?L 6] k show ?thesis by auto
qed

text \<open>C38. Assigning to a member that is an object copies the value: storing to the source afterwards does not change the member.
  Getting it gives the address of the member itself: storing through that address, also to a part of the member, changes the
  object it belongs to, and nothing apart from it.\<close>

theorem object_member_copied_and_shared:
  assumes "(C, es) \<in> set native_classes" "es = xs @ e1 # e2 # ys" "sets e1 = Some (f, Pointer T)" "gets e2 = Some (f, r)"
    and "load s (Member q f) \<noteq> None" "load s src = Some v" "\<nexists>n. v = Num n" "e2 = Export name ps (Field_address f) c r"
  shows "\<exists>s1. run_export J L C e1 [J_pointer q, J_pointer src] s = Some (J_void, s1)
    \<and> run_export J L C e2 [J_pointer q] s1 = Some (J_pointer (Member q f), s1) \<and> r = Pointer_result T
    \<and> load s1 (Member q f) = Some v \<and> (\<forall>p. apart (Member q f) p \<longrightarrow> load s1 p = load s p)
    \<and> (\<forall>p w s2. store_at s1 p w = Some s2 \<and> apart p (Member q f) \<longrightarrow> load s2 (Member q f) = Some v)
    \<and> (\<forall>p w s2. store_at s1 p w = Some s2 \<and> within (Member q f) p \<longrightarrow>
         load s2 p = Some w \<and> (\<forall>p'. apart (Member q f) p' \<longrightarrow> load s2 p' = load s p'))"
proof -
  note getter = next_getter [OF assms(1-4)]
  from getter(1) have r: "r = Pointer_result T" by (cases r) (auto simp: same_type_def)
  from assms(4,8) have e2: "e2 = Export name [This] (Field_address f) c r" by (auto simp: gets_def split: if_splits)
  have kept: "kept_value (member_type L C f) v = v" using assms(7) by (cases v) auto
  obtain s1 where s1: "store_at s (Member q f) v = Some s1" using live_member(2) [OF assms(5)] by blast
  have v: "plain_value L s (Pointer T) (J_pointer src) = Some v"
    using assms(6) by (simp add: plain_value_def pointer_of_def)
  have set: "run_export J L C e1 [J_pointer q, J_pointer src] s = Some (J_void, s1)"
    by (rule setter_stores [OF assms(3) v live_member(1) [OF assms(5)]]) (simp add: s1 kept del: store_at.simps)
  have stored: "load s1 (Member q f) = Some v" by (rule load_stored [OF s1])
  have get: "run_export J L C e2 [J_pointer q] s1 = Some (J_pointer (Member q f), s1)"
    by (rule getter_points [OF e2]) (simp_all add: stored r give_def address_of_def del: load.simps)
  have away: "load s2 (Member q f) = Some v" if "store_at s1 p w = Some s2" "apart p (Member q f)" for p w s2
    using load_apart [OF that] stored by simp
  have through: "load s2 p = Some w \<and> (\<forall>p'. apart (Member q f) p' \<longrightarrow> load s2 p' = load s p')"
    if "store_at s1 p w = Some s2" "within (Member q f) p" for p w s2
    using load_stored [OF that(1)] load_apart [OF that(1)] load_apart [OF s1] apart_within [OF _ that(2)] by simp
  from set get r stored load_apart [OF s1] away through show ?thesis by blast
qed

text \<open>An announce entry of an info-hash, and an error to assign to it.\<close>

definition last_error_set :: export where
  "last_error_set = Export ''last_error_set'' [This, Pointer ''libtorrent::error_code''] (Set_field ''last_error'') Catch_any Void"

definition last_error_get :: export where
  "last_error_get = Export ''last_error_get'' [This] (Field_address ''last_error'') Catch_any (Pointer_result ''libtorrent::error_code'')"

lemma last_error_exported: "\<exists>xs ys. snd announce_infohash_exports = xs @ last_error_set # last_error_get # ys"
  by (rule exI [where x = "take 2 (snd announce_infohash_exports)"], rule exI [where x = "drop 4 (snd announce_infohash_exports)"])
    (simp add: announce_infohash_exports_def last_error_set_def last_error_get_def)

lemma announce_infohash_class: "(''libtorrent::announce_infohash'', snd announce_infohash_exports) \<in> set native_classes"
  by (simp add: native_classes_def torrent_classes_def announce_infohash_exports_def)

definition error_memory :: "(unit, unit \<times> jtrace) memory_state" where
  "error_memory = \<lparr>objects = [7 \<mapsto> Struct [''last_error'' \<mapsto> Struct [''value'' \<mapsto> Num 0]], 8 \<mapsto> Struct [''value'' \<mapsto> Num 9]],
     next_address = 9, machine = ((), [])\<rparr>"

theorem object_member_copied_and_shared_witness:
  "\<exists>s1. run_export (audit_jvm plain_jvm) (plain_library (Inr (Num 0))) ''libtorrent::announce_infohash'' last_error_set
      [J_pointer (Heap 7), J_pointer (Heap 8)] error_memory = Some (J_void, s1)
    \<and> run_export (audit_jvm plain_jvm) (plain_library (Inr (Num 0))) ''libtorrent::announce_infohash'' last_error_get
      [J_pointer (Heap 7)] s1 = Some (J_pointer (Member (Heap 7) ''last_error''), s1)
    \<and> load s1 (Member (Heap 7) ''last_error'') = Some (Struct [''value'' \<mapsto> Num 9])"
proof -
  let ?J = "audit_jvm plain_jvm" and ?L = "plain_library (Inr (Num 0))"
  obtain xs ys where es: "snd announce_infohash_exports = xs @ last_error_set # last_error_get # ys"
    using last_error_exported by blast
  have e: "sets last_error_set = Some (''last_error'', Pointer ''libtorrent::error_code'')"
    "gets last_error_get = Some (''last_error'', Pointer_result ''libtorrent::error_code'')"
    by (simp_all add: sets_def gets_def last_error_set_def last_error_get_def)
  have l: "load error_memory (Member (Heap 7) ''last_error'') \<noteq> None"
    "load error_memory (Heap 8) = Some (Struct [''value'' \<mapsto> Num 9])" by (simp_all add: error_memory_def)
  from object_member_copied_and_shared [OF announce_infohash_class es e l _ last_error_get_def, of ?J ?L] show ?thesis by blast
qed

end
