(* ===== verification/Extension_Helpers.thy ===== *)
theory Extension_Helpers
  imports Native_Calls
begin

text \<open>
  The helper functions that \<^verbatim>\<open>libtorrent_jni.cpp\<close> defines for the exported methods: members read and written through a
  cast, byte vectors turned into strings and back, numbers turned into the library's index and flag types, arguments
  with defaults. A body is an expression over the arguments; \<open>run_helper\<close> evaluates it, and \<open>linked L\<close> is the library
  in which the helpers are these bodies and all the rest is \<open>L\<close>. Values of index and flag types are numbers. A
  \<^verbatim>\<open>reinterpret_cast\<close> between containers reads the value that is there, so a byte written as a signed number is the same
  number when it is read through the cast back; what the library sees in an unsigned element type is its 8 bits.
\<close>

section \<open>Bodies\<close>

text \<open>
  \<open>Arg i\<close> is an argument as it was passed, an address or a value; \<open>Arg_or i e\<close> one with the default \<open>e\<close>. \<open>Field\<close> is the
  address of a member, \<open>Read\<close> the value at an address. \<open>Chars\<close> is the string of a byte vector, \<open>Some_chars\<close> the one
  from \<^verbatim>\<open>&v[0]\<close>, which needs an element; \<open>Pointed\<close> is \<^verbatim>\<open>v.data()\<close> passed without a length: the bytes that can be read
  from there, of which the callee takes as many as it likes; \<open>First n\<close> are the \<open>n\<close> bytes that \<^verbatim>\<open>copy_n\<close> copies; \<open>Bytes\<close> is the
  byte vector of a string. \<open>Element\<close> is an access without a check. \<open>Casts\<close> casts every element.
\<close>

datatype expr =
    Arg nat
  | Arg_or nat expr
  | Int_lit int
  | Text_lit string
  | Global string
  | Field expr string
  | Read expr
  | Library string "expr list"
  | Cast num_type expr
  | Casts num_type expr
  | Chars expr
  | Some_chars expr
  | Pointed expr
  | First nat expr
  | Bytes expr
  | Element expr expr
  | Assign expr expr

type_synonym ('x, 'j) outcome = "((cpp_exception + 'x carg) \<times> ('x, 'j) memory_state) option"

text \<open>An address and a value as arguments, and back.\<close>

definition as_arg :: "'x cval \<Rightarrow> 'x carg" where
  "as_arg v = (case v of Address p \<Rightarrow> C_pointer p | _ \<Rightarrow> C_value v)"

definition as_value :: "'x carg \<Rightarrow> 'x cval" where
  "as_value c = (case c of C_pointer p \<Rightarrow> Address p | C_value v \<Rightarrow> v)"

text \<open>Evaluate a part, and go on with its value unless it raised an exception.\<close>

definition and_then ::
  "('x, 'j) outcome \<Rightarrow> ('x carg \<Rightarrow> ('x, 'j) memory_state \<Rightarrow> ('x, 'j) outcome) \<Rightarrow> ('x, 'j) outcome" where
  "and_then m k = (case m of
       None \<Rightarrow> None
     | Some (Inl x, s) \<Rightarrow> Some (Inl x, s)
     | Some (Inr c, s) \<Rightarrow> k c s)"

definition with_value ::
  "('x, 'j) outcome \<Rightarrow> ('x cval \<Rightarrow> 'x cval option) \<Rightarrow> ('x, 'j) outcome" where
  "with_value m f = and_then m (\<lambda>c s. do { v \<leftarrow> f (as_value c); Some (Inr (as_arg v), s) })"

definition address_in :: "'x carg \<Rightarrow> cptr option" where
  "address_in c = address_of (as_value c)"

section \<open>Bytes and strings\<close>

definition number_in :: "'x cval \<Rightarrow> int option" where
  "number_in v = (case v of Num n \<Rightarrow> Some n | _ \<Rightarrow> None)"

definition numbers_in :: "'x cval \<Rightarrow> int list option" where
  "numbers_in v = (case v of Sequence vs \<Rightarrow> those (map number_in vs) | _ \<Rightarrow> None)"

definition chars_of_bytes :: "int list \<Rightarrow> string" where
  "chars_of_bytes ns = map char_of ns"

definition bytes_of_chars :: "string \<Rightarrow> int list" where
  "bytes_of_chars cs = map (\<lambda>c. signed_take_bit 7 (of_char c)) cs"

definition bytes_text :: "'x cval \<Rightarrow> 'x cval option" where
  "bytes_text v = map_option (Text \<circ> chars_of_bytes) (numbers_in v)"

definition some_bytes_text :: "'x cval \<Rightarrow> 'x cval option" where
  "some_bytes_text v = do { ns \<leftarrow> numbers_in v; if ns = [] then None else Some (Text (chars_of_bytes ns)) }"

definition first_bytes_text :: "nat \<Rightarrow> 'x cval \<Rightarrow> 'x cval option" where
  "first_bytes_text n v = do { ns \<leftarrow> numbers_in v; if length ns < n then None else Some (Text (chars_of_bytes (take n ns))) }"

definition text_bytes :: "'x cval \<Rightarrow> 'x cval option" where
  "text_bytes v = (case v of Text cs \<Rightarrow> Some (Sequence (map Num (bytes_of_chars cs))) | _ \<Rightarrow> None)"

definition cast_value :: "('x, 'j) library \<Rightarrow> num_type \<Rightarrow> 'x cval \<Rightarrow> 'x cval option" where
  "cast_value L T v = map_option (\<lambda>n. Num (convert L T n)) (number_in v)"

definition cast_values :: "('x, 'j) library \<Rightarrow> num_type \<Rightarrow> 'x cval \<Rightarrow> 'x cval option" where
  "cast_values L T v = map_option (\<lambda>ns. Sequence (map (\<lambda>n. Num (convert L T n)) ns)) (numbers_in v)"

definition element :: "'x cval \<Rightarrow> 'x cval \<Rightarrow> 'x cval option" where
  "element v i = (case v of
       Sequence vs \<Rightarrow> do { n \<leftarrow> number_in i; if 0 \<le> n \<and> n < int (length vs) then Some (vs ! nat n) else None }
     | _ \<Rightarrow> None)"

section \<open>Evaluation\<close>

definition read_value :: "('x, 'j) outcome \<Rightarrow> ('x, 'j) outcome" where
  "read_value m = and_then m (\<lambda>c s. do { p \<leftarrow> address_in c; v \<leftarrow> load s p; Some (Inr (as_arg v), s) })"

definition member_address :: "('x, 'j) outcome \<Rightarrow> string \<Rightarrow> ('x, 'j) outcome" where
  "member_address m f = and_then m (\<lambda>c s. do {
     p \<leftarrow> address_in c; v \<leftarrow> load s (Member p f); Some (Inr (C_pointer (Member p f)), s) })"

definition assign_to :: "'x carg \<Rightarrow> 'x carg \<Rightarrow> ('x, 'j) memory_state \<Rightarrow> ('x, 'j) outcome" where
  "assign_to c d s = do { p \<leftarrow> address_in c; s1 \<leftarrow> store_at s p (as_value d); Some (Inr c, s1) }"

fun eval :: "('x, 'j) library \<Rightarrow> expr \<Rightarrow> 'x carg list \<Rightarrow> ('x, 'j) memory_state \<Rightarrow> ('x, 'j) outcome"
  and evals :: "('x, 'j) library \<Rightarrow> expr list \<Rightarrow> 'x carg list \<Rightarrow> ('x, 'j) memory_state
    \<Rightarrow> ((cpp_exception + 'x carg list) \<times> ('x, 'j) memory_state) option" where
  "eval L (Arg i) cs s = (if i < length cs then Some (Inr (cs ! i), s) else None)"
| "eval L (Arg_or i e) cs s = (if i < length cs then Some (Inr (cs ! i), s) else eval L e cs s)"
| "eval L (Int_lit n) cs s = Some (Inr (C_value (Num n)), s)"
| "eval L (Text_lit t) cs s = Some (Inr (C_value (Text t)), s)"
| "eval L (Global name) cs s = Some (Inr (as_arg (constant_of L name)), s)"
| "eval L (Field e f) cs s = member_address (eval L e cs s) f"
| "eval L (Read e) cs s = read_value (eval L e cs s)"
| "eval L (Library name es) cs s = (case evals L es cs s of
      None \<Rightarrow> None
    | Some (Inl x, s1) \<Rightarrow> Some (Inl x, s1)
    | Some (Inr ds, s1) \<Rightarrow> map_option (apfst (map_sum id as_arg)) (invoke L name ds s1))"
| "eval L (Cast T e) cs s = with_value (eval L e cs s) (cast_value L T)"
| "eval L (Casts T e) cs s = with_value (eval L e cs s) (cast_values L T)"
| "eval L (Chars e) cs s = with_value (eval L e cs s) bytes_text"
| "eval L (Some_chars e) cs s = with_value (eval L e cs s) some_bytes_text"
| "eval L (Pointed e) cs s = with_value (eval L e cs s) bytes_text"
| "eval L (First n e) cs s = with_value (eval L e cs s) (first_bytes_text n)"
| "eval L (Bytes e) cs s = with_value (eval L e cs s) text_bytes"
| "eval L (Element e i) cs s = and_then (eval L e cs s) (\<lambda>v s1. with_value (eval L i cs s1) (element (as_value v)))"
| "eval L (Assign a e) cs s = and_then (eval L e cs s) (\<lambda>d s1. and_then (eval L a cs s1) (\<lambda>c s2. assign_to c d s2))"
| "evals L [] cs s = Some (Inr [], s)"
| "evals L (e # es) cs s = (case eval L e cs s of
      None \<Rightarrow> None
    | Some (Inl x, s1) \<Rightarrow> Some (Inl x, s1)
    | Some (Inr d, s1) \<Rightarrow> map_option (apfst (map_sum id (Cons d))) (evals L es cs s1))"

definition run_helper ::
  "('x, 'j) library \<Rightarrow> expr \<Rightarrow> 'x carg list \<Rightarrow> ('x, 'j) memory_state
     \<Rightarrow> ((cpp_exception + 'x cval) \<times> ('x, 'j) memory_state) option" where
  "run_helper L e cs s = map_option (apfst (map_sum id as_value)) (eval L e cs s)"

definition linked_with :: "(string \<times> expr) list \<Rightarrow> ('x, 'j) library \<Rightarrow> ('x, 'j) library" where
  "linked_with H L = L\<lparr>invoke := (\<lambda>name cs s. case map_of H name of
       Some e \<Rightarrow> run_helper L e cs s
     | None \<Rightarrow> invoke L name cs s)\<rparr>"

section \<open>The helpers\<close>

definition bitset_128_helpers :: "(string \<times> expr) list" where
  "bitset_128_helpers = [
     (''std_bitset_Sl_128_Sg__get'', Element (Read (Arg 0)) (Arg 1))]"

definition address_helpers :: "(string \<times> expr) list" where
  "address_helpers = [
     (''libtorrent_address_from_string'', Library ''boost::asio::ip::make_address'' [Arg 0, Arg 1])]"

definition digest32_160_helpers :: "(string \<times> expr) list" where
  "digest32_160_helpers = [
     (''new_libtorrent_digest32_Sl_160_Sg___SWIG_2'', Library ''new lt::digest32<160>'' [Chars (Read (Arg 0))]),
     (''libtorrent_digest32_Sl_160_Sg__assign'', Library ''libtorrent::digest32< 160 >::assign'' [Arg 0, Pointed (Read (Arg 1))])]"

definition digest32_160_helpers_2 :: "(string \<times> expr) list" where
  "digest32_160_helpers_2 = [
     (''libtorrent_digest32_Sl_160_Sg__to_bytes'', Bytes (Library ''libtorrent::digest32< 160 >::to_string'' [Arg 0])),
     (''libtorrent_digest32_Sl_160_Sg__to_hex'', Library ''libtorrent::aux::to_hex'' [Arg 0])]"

definition digest32_256_helpers :: "(string \<times> expr) list" where
  "digest32_256_helpers = [
     (''new_libtorrent_digest32_Sl_256_Sg___SWIG_2'', Library ''new lt::digest32<256>'' [Chars (Read (Arg 0))]),
     (''libtorrent_digest32_Sl_256_Sg__assign'', Library ''libtorrent::digest32< 256 >::assign'' [Arg 0, Pointed (Read (Arg 1))])]"

definition digest32_256_helpers_2 :: "(string \<times> expr) list" where
  "digest32_256_helpers_2 = [
     (''libtorrent_digest32_Sl_256_Sg__to_bytes'', Bytes (Library ''libtorrent::digest32< 256 >::to_string'' [Arg 0])),
     (''libtorrent_digest32_Sl_256_Sg__to_hex'', Library ''libtorrent::aux::to_hex'' [Arg 0])]"

definition info_hash_t_helpers :: "(string \<times> expr) list" where
  "info_hash_t_helpers = [
     (''libtorrent_info_hash_t_op_eq'', Library ''libtorrent::info_hash_t::operator=='' [Arg 0, Arg 1]),
     (''libtorrent_info_hash_t_op_ne'', Library ''libtorrent::info_hash_t::operator!='' [Arg 0, Arg 1])]"

definition bitfield_helpers :: "(string \<times> expr) list" where
  "bitfield_helpers = [
     (''new_libtorrent_bitfield__SWIG_4'', Library ''new libtorrent::bitfield'' [Chars (Read (Arg 0))]),
     (''libtorrent_bitfield_assign'', Library ''libtorrent::bitfield::assign'' [Arg 0, Chars (Read (Arg 1))])]"

definition announce_infohash_helpers :: "(string \<times> expr) list" where
  "announce_infohash_helpers = [
     (''libtorrent_announce_infohash_get_next_announce'', Library ''lt::total_milliseconds'' [Library ''time_since_epoch'' [Field (Arg 0) ''next_announce'']]),
     (''libtorrent_announce_infohash_get_min_announce'', Library ''lt::total_milliseconds'' [Library ''time_since_epoch'' [Field (Arg 0) ''min_announce'']])]"

definition announce_endpoint_helpers :: "(string \<times> expr) list" where
  "announce_endpoint_helpers = [
     (''libtorrent_announce_endpoint_get_infohash_v1'', Read (Library ''operator[]'' [Field (Arg 0) ''info_hashes'', Global ''lt::protocol_version::V1''])),
     (''libtorrent_announce_endpoint_get_infohash_v2'', Read (Library ''operator[]'' [Field (Arg 0) ''info_hashes'', Global ''lt::protocol_version::V2'']))]"

definition announce_entry_helpers :: "(string \<times> expr) list" where
  "announce_entry_helpers = [
     (''new_libtorrent_announce_entry__SWIG_2'', Library ''new lt::announce_entry'' [Arg 0])]"

definition file_storage_helpers :: "(string \<times> expr) list" where
  "file_storage_helpers = [
     (''libtorrent_file_storage_add_file_ex__SWIG_0'', Library ''libtorrent::file_storage::add_file'' [Arg 0, Arg 1, Arg 2, Arg 3, Arg_or 4 (Global ''libtorrent::file_flags_t{}''), Arg_or 5 (Int_lit 0), Arg_or 6 (Text_lit [])]),
     (''libtorrent_file_storage_file_name_ex'', Library ''libtorrent::file_storage::file_name'' [Arg 0, Cast (Declared ''lt::file_index_t'') (Arg 1)])]"

definition renamed_files_helpers :: "(string \<times> expr) list" where
  "renamed_files_helpers = [
     (''libtorrent_renamed_files_file_name_ex'', Library ''libtorrent::renamed_files::file_name'' [Arg 0, Arg 1, Cast (Declared ''lt::file_index_t'') (Arg 2)]),
     (''libtorrent_renamed_files_import_filenames_ex'', Library ''libtorrent::renamed_files::import_filenames'' [Arg 0, Arg 1, Arg 2]),
     (''libtorrent_renamed_files_export_filenames_ex'', Library ''libtorrent::renamed_files::export_filenames'' [Arg 0])]"

definition bdecode_node_helpers :: "(string \<times> expr) list" where
  "bdecode_node_helpers = [
     (''libtorrent_bdecode_node_list_string_value_at_ex__SWIG_0'', Library ''libtorrent::bdecode_node::list_string_value_at'' [Arg 0, Arg 1, Arg_or 2 (Text_lit [])]),
     (''libtorrent_bdecode_node_dict_find_ex'', Library ''libtorrent::bdecode_node::dict_find'' [Arg 0, Arg 1]),
     (''libtorrent_bdecode_node_dict_find_dict_ex'', Library ''libtorrent::bdecode_node::dict_find_dict'' [Arg 0, Arg 1]),
     (''libtorrent_bdecode_node_dict_find_list_ex'', Library ''libtorrent::bdecode_node::dict_find_list'' [Arg 0, Arg 1]),
     (''libtorrent_bdecode_node_dict_find_string_ex'', Library ''libtorrent::bdecode_node::dict_find_string'' [Arg 0, Arg 1]),
     (''libtorrent_bdecode_node_dict_find_int_ex'', Library ''libtorrent::bdecode_node::dict_find_int'' [Arg 0, Arg 1]),
     (''libtorrent_bdecode_node_dict_find_string_value_ex__SWIG_0'', Library ''libtorrent::bdecode_node::dict_find_string_value'' [Arg 0, Arg 1, Arg_or 2 (Text_lit [])]),
     (''libtorrent_bdecode_node_dict_find_int_value_ex__SWIG_0'', Library ''libtorrent::bdecode_node::dict_find_int_value'' [Arg 0, Arg 1, Arg_or 2 (Int_lit 0)]),
     (''libtorrent_bdecode_node_string_value_ex'', Library ''libtorrent::bdecode_node::string_value'' [Arg 0]),
     (''libtorrent_bdecode_node_to_string'', Library ''libtorrent::print_entry'' [Arg 0, Arg 1, Arg 2]),
     (''libtorrent_bdecode_node_bdecode__SWIG_0'', Library ''libtorrent::bdecode'' [Some_chars (Read (Arg 0)), Arg 1, Arg 2])]"

definition torrent_info_helpers :: "(string \<times> expr) list" where
  "torrent_info_helpers = [
     (''libtorrent_torrent_info_create_torrent_info__SWIG_0'', Library ''libtorrent::torrent_info'' [Arg 0, Arg 1, Arg 2, Global ''libtorrent::from_info_section'']),
     (''libtorrent_torrent_info_create_torrent_info__SWIG_1'', Library ''libtorrent::torrent_info'' [Arg 0, Arg 1, Global ''libtorrent::load_torrent_limits{}'', Global ''libtorrent::from_info_section''])]"

definition add_torrent_params_helpers :: "(string \<times> expr) list" where
  "add_torrent_params_helpers = [
     (''libtorrent_add_torrent_params_ti_ptr'', Read (Field (Arg 0) ''ti''))]"

definition add_torrent_params_helpers_2 :: "(string \<times> expr) list" where
  "add_torrent_params_helpers_2 = [
     (''libtorrent_add_torrent_params_get_file_priorities'', Read (Field (Arg 0) ''file_priorities'')),
     (''libtorrent_add_torrent_params_set_file_priorities'', Assign (Field (Arg 0) ''file_priorities'') (Read (Arg 1))),
     (''libtorrent_add_torrent_params_get_piece_priorities'', Read (Field (Arg 0) ''piece_priorities'')),
     (''libtorrent_add_torrent_params_set_piece_priorities'', Assign (Field (Arg 0) ''piece_priorities'') (Read (Arg 1))),
     (''libtorrent_add_torrent_params_get_merkle_trees'', Read (Field (Arg 0) ''merkle_trees'')),
     (''libtorrent_add_torrent_params_set_merkle_trees'', Assign (Field (Arg 0) ''merkle_trees'') (Read (Arg 1))),
     (''libtorrent_add_torrent_params_get_merkle_tree_mask'', Read (Field (Arg 0) ''merkle_tree_mask'')),
     (''libtorrent_add_torrent_params_set_merkle_tree_mask'', Assign (Field (Arg 0) ''merkle_tree_mask'') (Read (Arg 1))),
     (''libtorrent_add_torrent_params_get_verified_leaf_hashes'', Read (Field (Arg 0) ''verified_leaf_hashes'')),
     (''libtorrent_add_torrent_params_set_verified_leaf_hashes'', Assign (Field (Arg 0) ''verified_leaf_hashes'') (Read (Arg 1))),
     (''libtorrent_add_torrent_params_get_unfinished_pieces'', Read (Field (Arg 0) ''unfinished_pieces'')),
     (''libtorrent_add_torrent_params_set_unfinished_pieces'', Assign (Field (Arg 0) ''unfinished_pieces'') (Read (Arg 1))),
     (''libtorrent_add_torrent_params_get_renamed_files'', Read (Field (Arg 0) ''renamed_files'')),
     (''libtorrent_add_torrent_params_set_renamed_files'', Assign (Field (Arg 0) ''renamed_files'') (Read (Arg 1))),
     (''libtorrent_add_torrent_params_get_have_pieces'', Read (Field (Arg 0) ''have_pieces'')),
     (''libtorrent_add_torrent_params_set_have_pieces'', Assign (Field (Arg 0) ''have_pieces'') (Read (Arg 1))),
     (''libtorrent_add_torrent_params_get_verified_pieces'', Read (Field (Arg 0) ''verified_pieces'')),
     (''libtorrent_add_torrent_params_set_verified_pieces'', Assign (Field (Arg 0) ''verified_pieces'') (Read (Arg 1))),
     (''libtorrent_add_torrent_params_load_torrent_file__SWIG_0'', Library ''libtorrent::load_torrent_file'' [Arg 0, Arg 1, Arg 2]),
     (''libtorrent_add_torrent_params_load_torrent_file__SWIG_1'', Library ''libtorrent::load_torrent_file'' [Arg 0, Arg 1, Global ''libtorrent::load_torrent_limits{}'']),
     (''libtorrent_add_torrent_params_load_torrent_buffer__SWIG_0'', Library ''libtorrent::load_torrent_buffer'' [Some_chars (Read (Arg 0)), Arg 1, Arg 2]),
     (''libtorrent_add_torrent_params_load_torrent_buffer__SWIG_1'', Library ''libtorrent::load_torrent_buffer'' [Some_chars (Read (Arg 0)), Arg 1, Global ''libtorrent::load_torrent_limits{}''])]"

definition add_torrent_params_helpers_3 :: "(string \<times> expr) list" where
  "add_torrent_params_helpers_3 = [
     (''libtorrent_add_torrent_params_load_torrent_parsed__SWIG_0'', Library ''libtorrent::load_torrent_parsed'' [Arg 0, Arg 1, Arg 2]),
     (''libtorrent_add_torrent_params_load_torrent_parsed__SWIG_1'', Library ''libtorrent::load_torrent_parsed'' [Arg 0, Arg 1, Global ''libtorrent::load_torrent_limits{}''])]"

definition peer_info_helpers :: "(string \<times> expr) list" where
  "peer_info_helpers = [
     (''libtorrent_peer_info_get_client'', Bytes (Read (Field (Arg 0) ''client''))),
     (''libtorrent_peer_info_get_last_request'', Library ''libtorrent::total_milliseconds'' [Read (Field (Arg 0) ''last_request'')]),
     (''libtorrent_peer_info_get_last_active'', Library ''libtorrent::total_milliseconds'' [Read (Field (Arg 0) ''last_active'')]),
     (''libtorrent_peer_info_get_download_queue_time'', Library ''libtorrent::total_milliseconds'' [Read (Field (Arg 0) ''download_queue_time'')]),
     (''libtorrent_peer_info_get_flags'', Cast int32 (Cast uint32 (Read (Field (Arg 0) ''flags'')))),
     (''libtorrent_peer_info_get_source'', Cast int8 (Cast uint8 (Read (Field (Arg 0) ''source'')))),
     (''libtorrent_peer_info_get_read_state'', Cast int8 (Cast uint8 (Read (Field (Arg 0) ''read_state'')))),
     (''libtorrent_peer_info_get_write_state'', Cast int8 (Cast uint8 (Read (Field (Arg 0) ''write_state'')))),
     (''libtorrent_peer_info_get_pieces'', Read (Field (Arg 0) ''pieces''))]"

definition torrent_handle_helpers :: "(string \<times> expr) list" where
  "torrent_handle_helpers = [
     (''libtorrent_torrent_handle_add_piece_bytes__SWIG_0'', Library ''libtorrent::torrent_handle::add_piece'' [Arg 0, Cast (Declared ''piece_index_t'') (Arg 1), Some_chars (Read (Arg 2)), Arg_or 3 (Global ''libtorrent::add_piece_flags_t{}'')]),
     (''libtorrent_torrent_handle_torrent_file_ptr'', Library ''libtorrent::torrent_handle::torrent_file'' [Arg 0]),
     (''libtorrent_torrent_handle_get_url_seeds'', Library ''libtorrent::torrent_handle::url_seeds'' [Arg 0]),
     (''libtorrent_torrent_handle_set_ssl_certificate_buffer_ex'', Library ''libtorrent::torrent_handle::set_ssl_certificate_buffer'' [Arg 0, Chars (Read (Arg 1)), Chars (Read (Arg 2)), Chars (Read (Arg 3))]),
     (''libtorrent_torrent_handle_queue_position_ex'', Cast int32 (Library ''libtorrent::torrent_handle::queue_position'' [Arg 0])),
     (''libtorrent_torrent_handle_queue_position_set_ex'', Library ''libtorrent::torrent_handle::queue_position_set'' [Arg 0, Cast (Declared ''queue_position_t'') (Arg 1)]),
     (''libtorrent_torrent_handle_piece_priority_ex__SWIG_0'', Cast int8 (Cast uint8 (Library ''libtorrent::torrent_handle::piece_priority'' [Arg 0, Arg 1]))),
     (''libtorrent_torrent_handle_piece_priority_ex__SWIG_1'', Library ''libtorrent::torrent_handle::piece_priority'' [Arg 0, Arg 1, Cast (Declared ''libtorrent::download_priority_t'') (Cast uint8 (Arg 2))]),
     (''libtorrent_torrent_handle_prioritize_pieces_ex__SWIG_0'', Library ''libtorrent::torrent_handle::prioritize_pieces'' [Arg 0, Casts uint8 (Read (Arg 1))])]"

definition torrent_handle_helpers_2 :: "(string \<times> expr) list" where
  "torrent_handle_helpers_2 = [
     (''libtorrent_torrent_handle_get_piece_priorities_ex'', Casts int8 (Casts uint8 (Library ''libtorrent::torrent_handle::get_piece_priorities'' [Arg 0]))),
     (''libtorrent_torrent_handle_file_priority_ex__SWIG_0'', Cast int8 (Cast uint8 (Library ''libtorrent::torrent_handle::file_priority'' [Arg 0, Arg 1]))),
     (''libtorrent_torrent_handle_file_priority_ex__SWIG_1'', Library ''libtorrent::torrent_handle::file_priority'' [Arg 0, Arg 1, Cast (Declared ''libtorrent::download_priority_t'') (Cast uint8 (Arg 2))]),
     (''libtorrent_torrent_handle_prioritize_files_ex'', Library ''libtorrent::torrent_handle::prioritize_files'' [Arg 0, Casts uint8 (Read (Arg 1))]),
     (''libtorrent_torrent_handle_get_file_priorities_ex'', Casts int8 (Casts uint8 (Library ''libtorrent::torrent_handle::get_file_priorities'' [Arg 0])))]"

definition torrent_status_helpers :: "(string \<times> expr) list" where
  "torrent_status_helpers = [
     (''libtorrent_torrent_status_torrent_file_ptr'', Library ''lock'' [Field (Arg 0) ''torrent_file'']),
     (''libtorrent_torrent_status_get_next_announce'', Library ''libtorrent::total_milliseconds'' [Read (Field (Arg 0) ''next_announce'')]),
     (''libtorrent_torrent_status_get_last_upload'', Library ''libtorrent::total_milliseconds'' [Library ''time_since_epoch'' [Field (Arg 0) ''last_upload'']]),
     (''libtorrent_torrent_status_get_last_download'', Library ''libtorrent::total_milliseconds'' [Library ''time_since_epoch'' [Field (Arg 0) ''last_download'']]),
     (''libtorrent_torrent_status_get_active_duration'', Library ''libtorrent::total_milliseconds'' [Read (Field (Arg 0) ''active_duration'')]),
     (''libtorrent_torrent_status_get_finished_duration'', Library ''libtorrent::total_milliseconds'' [Read (Field (Arg 0) ''finished_duration'')]),
     (''libtorrent_torrent_status_get_seeding_duration'', Library ''libtorrent::total_milliseconds'' [Read (Field (Arg 0) ''seeding_duration'')]),
     (''libtorrent_torrent_status_get_queue_position'', Cast int32 (Read (Field (Arg 0) ''queue_position''))),
     (''libtorrent_torrent_status_get_pieces'', Read (Field (Arg 0) ''pieces'')),
     (''libtorrent_torrent_status_get_verified_pieces'', Read (Field (Arg 0) ''verified_pieces''))]"

definition entry_helpers :: "(string \<times> expr) list" where
  "entry_helpers = [
     (''libtorrent_entry_get'', Library ''libtorrent::entry::operator[]'' [Arg 0, Arg 1]),
     (''libtorrent_entry_set__SWIG_0'', Library ''libtorrent::entry::operator='' [Library ''libtorrent::entry::operator[]'' [Arg 0, Arg 1], Arg 2]),
     (''libtorrent_entry_set__SWIG_1'', Library ''libtorrent::entry::operator='' [Library ''libtorrent::entry::operator[]'' [Arg 0, Arg 1], Chars (Read (Arg 2))]),
     (''libtorrent_entry_set__SWIG_2'', Library ''libtorrent::entry::operator='' [Library ''libtorrent::entry::operator[]'' [Arg 0, Arg 1], Arg 2]),
     (''libtorrent_entry_set__SWIG_3'', Library ''libtorrent::entry::operator='' [Library ''libtorrent::entry::operator[]'' [Arg 0, Arg 1], Arg 2]),
     (''libtorrent_entry_string_bytes'', Bytes (Library ''libtorrent::entry::string'' [Arg 0])),
     (''libtorrent_entry_preformatted_bytes'', Bytes (Library ''libtorrent::entry::preformatted'' [Arg 0])),
     (''libtorrent_entry_bencode'', Bytes (Library ''libtorrent::bencode'' [Arg 0])),
     (''libtorrent_entry_from_string_bytes'', Library ''libtorrent::entry(std::string)'' [Chars (Read (Arg 0))]),
     (''libtorrent_entry_from_preformatted_bytes'', Library ''libtorrent::entry(std::vector<char>)'' [Chars (Read (Arg 0))]),
     (''libtorrent_entry_bdecode'', Library ''libtorrent::bdecode'' [Chars (Read (Arg 0))])]"

definition alert_helpers :: "(string \<times> expr) list" where
  "alert_helpers = [
     (''libtorrent_alert_get_timestamp'', Library ''libtorrent::total_milliseconds'' [Library ''time_since_epoch'' [Library ''libtorrent::alert::timestamp'' [Arg 0]]])]"

definition alert_cast_helpers :: "(string \<times> expr) list" where
  "alert_cast_helpers = [
     (''libtorrent_alert_cast_to_torrent_removed_alert'', Library ''libtorrent::alert_cast<libtorrent::torrent_removed_alert>'' [Arg 0]),
     (''libtorrent_alert_cast_to_read_piece_alert'', Library ''libtorrent::alert_cast<libtorrent::read_piece_alert>'' [Arg 0]),
     (''libtorrent_alert_cast_to_file_completed_alert'', Library ''libtorrent::alert_cast<libtorrent::file_completed_alert>'' [Arg 0]),
     (''libtorrent_alert_cast_to_file_renamed_alert'', Library ''libtorrent::alert_cast<libtorrent::file_renamed_alert>'' [Arg 0]),
     (''libtorrent_alert_cast_to_file_rename_failed_alert'', Library ''libtorrent::alert_cast<libtorrent::file_rename_failed_alert>'' [Arg 0]),
     (''libtorrent_alert_cast_to_performance_alert'', Library ''libtorrent::alert_cast<libtorrent::performance_alert>'' [Arg 0]),
     (''libtorrent_alert_cast_to_state_changed_alert'', Library ''libtorrent::alert_cast<libtorrent::state_changed_alert>'' [Arg 0]),
     (''libtorrent_alert_cast_to_tracker_error_alert'', Library ''libtorrent::alert_cast<libtorrent::tracker_error_alert>'' [Arg 0]),
     (''libtorrent_alert_cast_to_tracker_warning_alert'', Library ''libtorrent::alert_cast<libtorrent::tracker_warning_alert>'' [Arg 0]),
     (''libtorrent_alert_cast_to_scrape_reply_alert'', Library ''libtorrent::alert_cast<libtorrent::scrape_reply_alert>'' [Arg 0]),
     (''libtorrent_alert_cast_to_scrape_failed_alert'', Library ''libtorrent::alert_cast<libtorrent::scrape_failed_alert>'' [Arg 0]),
     (''libtorrent_alert_cast_to_tracker_reply_alert'', Library ''libtorrent::alert_cast<libtorrent::tracker_reply_alert>'' [Arg 0]),
     (''libtorrent_alert_cast_to_dht_reply_alert'', Library ''libtorrent::alert_cast<libtorrent::dht_reply_alert>'' [Arg 0]),
     (''libtorrent_alert_cast_to_tracker_announce_alert'', Library ''libtorrent::alert_cast<libtorrent::tracker_announce_alert>'' [Arg 0]),
     (''libtorrent_alert_cast_to_hash_failed_alert'', Library ''libtorrent::alert_cast<libtorrent::hash_failed_alert>'' [Arg 0]),
     (''libtorrent_alert_cast_to_peer_ban_alert'', Library ''libtorrent::alert_cast<libtorrent::peer_ban_alert>'' [Arg 0]),
     (''libtorrent_alert_cast_to_peer_unsnubbed_alert'', Library ''libtorrent::alert_cast<libtorrent::peer_unsnubbed_alert>'' [Arg 0]),
     (''libtorrent_alert_cast_to_peer_snubbed_alert'', Library ''libtorrent::alert_cast<libtorrent::peer_snubbed_alert>'' [Arg 0]),
     (''libtorrent_alert_cast_to_peer_error_alert'', Library ''libtorrent::alert_cast<libtorrent::peer_error_alert>'' [Arg 0]),
     (''libtorrent_alert_cast_to_peer_connect_alert'', Library ''libtorrent::alert_cast<libtorrent::peer_connect_alert>'' [Arg 0]),
     (''libtorrent_alert_cast_to_peer_disconnected_alert'', Library ''libtorrent::alert_cast<libtorrent::peer_disconnected_alert>'' [Arg 0]),
     (''libtorrent_alert_cast_to_invalid_request_alert'', Library ''libtorrent::alert_cast<libtorrent::invalid_request_alert>'' [Arg 0]),
     (''libtorrent_alert_cast_to_torrent_finished_alert'', Library ''libtorrent::alert_cast<libtorrent::torrent_finished_alert>'' [Arg 0]),
     (''libtorrent_alert_cast_to_piece_finished_alert'', Library ''libtorrent::alert_cast<libtorrent::piece_finished_alert>'' [Arg 0]),
     (''libtorrent_alert_cast_to_request_dropped_alert'', Library ''libtorrent::alert_cast<libtorrent::request_dropped_alert>'' [Arg 0]),
     (''libtorrent_alert_cast_to_block_timeout_alert'', Library ''libtorrent::alert_cast<libtorrent::block_timeout_alert>'' [Arg 0]),
     (''libtorrent_alert_cast_to_block_finished_alert'', Library ''libtorrent::alert_cast<libtorrent::block_finished_alert>'' [Arg 0]),
     (''libtorrent_alert_cast_to_block_downloading_alert'', Library ''libtorrent::alert_cast<libtorrent::block_downloading_alert>'' [Arg 0]),
     (''libtorrent_alert_cast_to_unwanted_block_alert'', Library ''libtorrent::alert_cast<libtorrent::unwanted_block_alert>'' [Arg 0]),
     (''libtorrent_alert_cast_to_storage_moved_alert'', Library ''libtorrent::alert_cast<libtorrent::storage_moved_alert>'' [Arg 0]),
     (''libtorrent_alert_cast_to_storage_moved_failed_alert'', Library ''libtorrent::alert_cast<libtorrent::storage_moved_failed_alert>'' [Arg 0]),
     (''libtorrent_alert_cast_to_torrent_deleted_alert'', Library ''libtorrent::alert_cast<libtorrent::torrent_deleted_alert>'' [Arg 0]),
     (''libtorrent_alert_cast_to_torrent_delete_failed_alert'', Library ''libtorrent::alert_cast<libtorrent::torrent_delete_failed_alert>'' [Arg 0]),
     (''libtorrent_alert_cast_to_save_resume_data_alert'', Library ''libtorrent::alert_cast<libtorrent::save_resume_data_alert>'' [Arg 0]),
     (''libtorrent_alert_cast_to_save_resume_data_failed_alert'', Library ''libtorrent::alert_cast<libtorrent::save_resume_data_failed_alert>'' [Arg 0]),
     (''libtorrent_alert_cast_to_torrent_paused_alert'', Library ''libtorrent::alert_cast<libtorrent::torrent_paused_alert>'' [Arg 0]),
     (''libtorrent_alert_cast_to_torrent_resumed_alert'', Library ''libtorrent::alert_cast<libtorrent::torrent_resumed_alert>'' [Arg 0]),
     (''libtorrent_alert_cast_to_torrent_checked_alert'', Library ''libtorrent::alert_cast<libtorrent::torrent_checked_alert>'' [Arg 0]),
     (''libtorrent_alert_cast_to_url_seed_alert'', Library ''libtorrent::alert_cast<libtorrent::url_seed_alert>'' [Arg 0]),
     (''libtorrent_alert_cast_to_file_error_alert'', Library ''libtorrent::alert_cast<libtorrent::file_error_alert>'' [Arg 0]),
     (''libtorrent_alert_cast_to_metadata_failed_alert'', Library ''libtorrent::alert_cast<libtorrent::metadata_failed_alert>'' [Arg 0]),
     (''libtorrent_alert_cast_to_metadata_received_alert'', Library ''libtorrent::alert_cast<libtorrent::metadata_received_alert>'' [Arg 0]),
     (''libtorrent_alert_cast_to_udp_error_alert'', Library ''libtorrent::alert_cast<libtorrent::udp_error_alert>'' [Arg 0]),
     (''libtorrent_alert_cast_to_external_ip_alert'', Library ''libtorrent::alert_cast<libtorrent::external_ip_alert>'' [Arg 0]),
     (''libtorrent_alert_cast_to_listen_failed_alert'', Library ''libtorrent::alert_cast<libtorrent::listen_failed_alert>'' [Arg 0]),
     (''libtorrent_alert_cast_to_listen_succeeded_alert'', Library ''libtorrent::alert_cast<libtorrent::listen_succeeded_alert>'' [Arg 0]),
     (''libtorrent_alert_cast_to_portmap_error_alert'', Library ''libtorrent::alert_cast<libtorrent::portmap_error_alert>'' [Arg 0]),
     (''libtorrent_alert_cast_to_portmap_alert'', Library ''libtorrent::alert_cast<libtorrent::portmap_alert>'' [Arg 0]),
     (''libtorrent_alert_cast_to_portmap_log_alert'', Library ''libtorrent::alert_cast<libtorrent::portmap_log_alert>'' [Arg 0]),
     (''libtorrent_alert_cast_to_fastresume_rejected_alert'', Library ''libtorrent::alert_cast<libtorrent::fastresume_rejected_alert>'' [Arg 0]),
     (''libtorrent_alert_cast_to_peer_blocked_alert'', Library ''libtorrent::alert_cast<libtorrent::peer_blocked_alert>'' [Arg 0]),
     (''libtorrent_alert_cast_to_dht_announce_alert'', Library ''libtorrent::alert_cast<libtorrent::dht_announce_alert>'' [Arg 0]),
     (''libtorrent_alert_cast_to_dht_get_peers_alert'', Library ''libtorrent::alert_cast<libtorrent::dht_get_peers_alert>'' [Arg 0]),
     (''libtorrent_alert_cast_to_cache_flushed_alert'', Library ''libtorrent::alert_cast<libtorrent::cache_flushed_alert>'' [Arg 0]),
     (''libtorrent_alert_cast_to_lsd_peer_alert'', Library ''libtorrent::alert_cast<libtorrent::lsd_peer_alert>'' [Arg 0]),
     (''libtorrent_alert_cast_to_trackerid_alert'', Library ''libtorrent::alert_cast<libtorrent::trackerid_alert>'' [Arg 0]),
     (''libtorrent_alert_cast_to_dht_bootstrap_alert'', Library ''libtorrent::alert_cast<libtorrent::dht_bootstrap_alert>'' [Arg 0]),
     (''libtorrent_alert_cast_to_torrent_error_alert'', Library ''libtorrent::alert_cast<libtorrent::torrent_error_alert>'' [Arg 0]),
     (''libtorrent_alert_cast_to_torrent_need_cert_alert'', Library ''libtorrent::alert_cast<libtorrent::torrent_need_cert_alert>'' [Arg 0]),
     (''libtorrent_alert_cast_to_incoming_connection_alert'', Library ''libtorrent::alert_cast<libtorrent::incoming_connection_alert>'' [Arg 0]),
     (''libtorrent_alert_cast_to_add_torrent_alert'', Library ''libtorrent::alert_cast<libtorrent::add_torrent_alert>'' [Arg 0]),
     (''libtorrent_alert_cast_to_state_update_alert'', Library ''libtorrent::alert_cast<libtorrent::state_update_alert>'' [Arg 0]),
     (''libtorrent_alert_cast_to_session_stats_alert'', Library ''libtorrent::alert_cast<libtorrent::session_stats_alert>'' [Arg 0]),
     (''libtorrent_alert_cast_to_dht_error_alert'', Library ''libtorrent::alert_cast<libtorrent::dht_error_alert>'' [Arg 0]),
     (''libtorrent_alert_cast_to_dht_immutable_item_alert'', Library ''libtorrent::alert_cast<libtorrent::dht_immutable_item_alert>'' [Arg 0]),
     (''libtorrent_alert_cast_to_dht_mutable_item_alert'', Library ''libtorrent::alert_cast<libtorrent::dht_mutable_item_alert>'' [Arg 0]),
     (''libtorrent_alert_cast_to_dht_put_alert'', Library ''libtorrent::alert_cast<libtorrent::dht_put_alert>'' [Arg 0]),
     (''libtorrent_alert_cast_to_i2p_alert'', Library ''libtorrent::alert_cast<libtorrent::i2p_alert>'' [Arg 0]),
     (''libtorrent_alert_cast_to_dht_outgoing_get_peers_alert'', Library ''libtorrent::alert_cast<libtorrent::dht_outgoing_get_peers_alert>'' [Arg 0]),
     (''libtorrent_alert_cast_to_log_alert'', Library ''libtorrent::alert_cast<libtorrent::log_alert>'' [Arg 0]),
     (''libtorrent_alert_cast_to_torrent_log_alert'', Library ''libtorrent::alert_cast<libtorrent::torrent_log_alert>'' [Arg 0]),
     (''libtorrent_alert_cast_to_peer_log_alert'', Library ''libtorrent::alert_cast<libtorrent::peer_log_alert>'' [Arg 0]),
     (''libtorrent_alert_cast_to_lsd_error_alert'', Library ''libtorrent::alert_cast<libtorrent::lsd_error_alert>'' [Arg 0]),
     (''libtorrent_alert_cast_to_dht_stats_alert'', Library ''libtorrent::alert_cast<libtorrent::dht_stats_alert>'' [Arg 0]),
     (''libtorrent_alert_cast_to_incoming_request_alert'', Library ''libtorrent::alert_cast<libtorrent::incoming_request_alert>'' [Arg 0]),
     (''libtorrent_alert_cast_to_dht_log_alert'', Library ''libtorrent::alert_cast<libtorrent::dht_log_alert>'' [Arg 0]),
     (''libtorrent_alert_cast_to_dht_pkt_alert'', Library ''libtorrent::alert_cast<libtorrent::dht_pkt_alert>'' [Arg 0]),
     (''libtorrent_alert_cast_to_dht_get_peers_reply_alert'', Library ''libtorrent::alert_cast<libtorrent::dht_get_peers_reply_alert>'' [Arg 0]),
     (''libtorrent_alert_cast_to_dht_direct_response_alert'', Library ''libtorrent::alert_cast<libtorrent::dht_direct_response_alert>'' [Arg 0]),
     (''libtorrent_alert_cast_to_picker_log_alert'', Library ''libtorrent::alert_cast<libtorrent::picker_log_alert>'' [Arg 0]),
     (''libtorrent_alert_cast_to_session_error_alert'', Library ''libtorrent::alert_cast<libtorrent::session_error_alert>'' [Arg 0]),
     (''libtorrent_alert_cast_to_dht_live_nodes_alert'', Library ''libtorrent::alert_cast<libtorrent::dht_live_nodes_alert>'' [Arg 0]),
     (''libtorrent_alert_cast_to_session_stats_header_alert'', Library ''libtorrent::alert_cast<libtorrent::session_stats_header_alert>'' [Arg 0]),
     (''libtorrent_alert_cast_to_dht_sample_infohashes_alert'', Library ''libtorrent::alert_cast<libtorrent::dht_sample_infohashes_alert>'' [Arg 0]),
     (''libtorrent_alert_cast_to_block_uploaded_alert'', Library ''libtorrent::alert_cast<libtorrent::block_uploaded_alert>'' [Arg 0]),
     (''libtorrent_alert_cast_to_alerts_dropped_alert'', Library ''libtorrent::alert_cast<libtorrent::alerts_dropped_alert>'' [Arg 0]),
     (''libtorrent_alert_cast_to_socks5_alert'', Library ''libtorrent::alert_cast<libtorrent::socks5_alert>'' [Arg 0]),
     (''libtorrent_alert_cast_to_file_prio_alert'', Library ''libtorrent::alert_cast<libtorrent::file_prio_alert>'' [Arg 0]),
     (''libtorrent_alert_cast_to_oversized_file_alert'', Library ''libtorrent::alert_cast<libtorrent::oversized_file_alert>'' [Arg 0]),
     (''libtorrent_alert_cast_to_torrent_conflict_alert'', Library ''libtorrent::alert_cast<libtorrent::torrent_conflict_alert>'' [Arg 0]),
     (''libtorrent_alert_cast_to_peer_info_alert'', Library ''libtorrent::alert_cast<libtorrent::peer_info_alert>'' [Arg 0]),
     (''libtorrent_alert_cast_to_file_progress_alert'', Library ''libtorrent::alert_cast<libtorrent::file_progress_alert>'' [Arg 0]),
     (''libtorrent_alert_cast_to_piece_info_alert'', Library ''libtorrent::alert_cast<libtorrent::piece_info_alert>'' [Arg 0]),
     (''libtorrent_alert_cast_to_piece_availability_alert'', Library ''libtorrent::alert_cast<libtorrent::piece_availability_alert>'' [Arg 0]),
     (''libtorrent_alert_cast_to_tracker_list_alert'', Library ''libtorrent::alert_cast<libtorrent::tracker_list_alert>'' [Arg 0])]"

definition tracker_alert_helpers :: "(string \<times> expr) list" where
  "tracker_alert_helpers = [
     (''libtorrent_tracker_alert_get_local_endpoint'', Read (Field (Arg 0) ''local_endpoint''))]"

definition udp_error_alert_helpers :: "(string \<times> expr) list" where
  "udp_error_alert_helpers = [
     (''libtorrent_udp_error_alert_get_endpoint'', Read (Field (Arg 0) ''endpoint''))]"

definition external_ip_alert_helpers :: "(string \<times> expr) list" where
  "external_ip_alert_helpers = [
     (''libtorrent_external_ip_alert_get_external_address'', Read (Field (Arg 0) ''external_address''))]"

definition listen_failed_alert_helpers :: "(string \<times> expr) list" where
  "listen_failed_alert_helpers = [
     (''libtorrent_listen_failed_alert_get_address'', Read (Field (Arg 0) ''address'')),
     (''libtorrent_listen_failed_alert_get_socket_type'', Cast int32 (Read (Field (Arg 0) ''socket_type'')))]"

definition listen_succeeded_alert_helpers :: "(string \<times> expr) list" where
  "listen_succeeded_alert_helpers = [
     (''libtorrent_listen_succeeded_alert_get_address'', Read (Field (Arg 0) ''address'')),
     (''libtorrent_listen_succeeded_alert_get_socket_type'', Cast int32 (Read (Field (Arg 0) ''socket_type'')))]"

definition portmap_error_alert_helpers :: "(string \<times> expr) list" where
  "portmap_error_alert_helpers = [
     (''libtorrent_portmap_error_alert_get_mapping'', Cast int32 (Read (Field (Arg 0) ''mapping'')))]"

definition portmap_alert_helpers :: "(string \<times> expr) list" where
  "portmap_alert_helpers = [
     (''libtorrent_portmap_alert_get_mapping'', Cast int32 (Read (Field (Arg 0) ''mapping'')))]"

definition dht_announce_alert_helpers :: "(string \<times> expr) list" where
  "dht_announce_alert_helpers = [
     (''libtorrent_dht_announce_alert_get_ip'', Read (Field (Arg 0) ''ip''))]"

definition incoming_connection_alert_helpers :: "(string \<times> expr) list" where
  "incoming_connection_alert_helpers = [
     (''libtorrent_incoming_connection_alert_get_endpoint'', Read (Field (Arg 0) ''endpoint''))]"

definition session_stats_alert_helpers :: "(string \<times> expr) list" where
  "session_stats_alert_helpers = [
     (''libtorrent_session_stats_alert_get_value'', Element (Library ''libtorrent::session_stats_alert::counters'' [Arg 0]) (Arg 1))]"

definition dht_mutable_item_alert_helpers :: "(string \<times> expr) list" where
  "dht_mutable_item_alert_helpers = [
     (''libtorrent_dht_mutable_item_alert_get_key'', Bytes (Read (Field (Arg 0) ''key''))),
     (''libtorrent_dht_mutable_item_alert_get_signature'', Bytes (Read (Field (Arg 0) ''signature''))),
     (''libtorrent_dht_mutable_item_alert_get_seq'', Cast int64 (Read (Field (Arg 0) ''seq''))),
     (''libtorrent_dht_mutable_item_alert_get_salt'', Bytes (Read (Field (Arg 0) ''salt'')))]"

definition dht_put_alert_helpers :: "(string \<times> expr) list" where
  "dht_put_alert_helpers = [
     (''libtorrent_dht_put_alert_get_public_key'', Bytes (Read (Field (Arg 0) ''public_key''))),
     (''libtorrent_dht_put_alert_get_signature'', Bytes (Read (Field (Arg 0) ''signature''))),
     (''libtorrent_dht_put_alert_get_salt'', Bytes (Read (Field (Arg 0) ''salt''))),
     (''libtorrent_dht_put_alert_get_seq'', Cast int64 (Read (Field (Arg 0) ''seq'')))]"

definition dht_outgoing_get_peers_alert_helpers :: "(string \<times> expr) list" where
  "dht_outgoing_get_peers_alert_helpers = [
     (''libtorrent_dht_outgoing_get_peers_alert_get_endpoint'', Read (Field (Arg 0) ''endpoint''))]"

definition dht_lookup_helpers :: "(string \<times> expr) list" where
  "dht_lookup_helpers = [
     (''libtorrent_dht_lookup_get_type'', Read (Field (Arg 0) ''type''))]"

definition dht_stats_alert_helpers :: "(string \<times> expr) list" where
  "dht_stats_alert_helpers = [
     (''libtorrent_dht_stats_alert_get_local_endpoint'', Read (Field (Arg 0) ''local_endpoint''))]"

definition dht_pkt_alert_helpers :: "(string \<times> expr) list" where
  "dht_pkt_alert_helpers = [
     (''libtorrent_dht_pkt_alert_get_node'', Read (Field (Arg 0) ''node'')),
     (''libtorrent_dht_pkt_alert_get_pkt_buf'', Bytes (Library ''libtorrent::dht_pkt_alert::pkt_buf'' [Arg 0]))]"

definition dht_direct_response_alert_helpers :: "(string \<times> expr) list" where
  "dht_direct_response_alert_helpers = [
     (''libtorrent_dht_direct_response_alert_get_endpoint'', Read (Field (Arg 0) ''endpoint''))]"

definition dht_sample_infohashes_alert_helpers :: "(string \<times> expr) list" where
  "dht_sample_infohashes_alert_helpers = [
     (''libtorrent_dht_sample_infohashes_alert_get_endpoint'', Read (Field (Arg 0) ''endpoint'')),
     (''libtorrent_dht_sample_infohashes_alert_get_interval'', Library ''libtorrent::total_milliseconds'' [Read (Field (Arg 0) ''interval'')])]"

definition torrent_conflict_alert_helpers :: "(string \<times> expr) list" where
  "torrent_conflict_alert_helpers = [
     (''libtorrent_torrent_conflict_alert_get_metadata'', Read (Read (Field (Arg 0) ''metadata'')))]"

definition file_progress_alert_helpers :: "(string \<times> expr) list" where
  "file_progress_alert_helpers = [
     (''libtorrent_file_progress_alert_get_files'', Read (Field (Arg 0) ''files''))]"

definition settings_pack_helpers :: "(string \<times> expr) list" where
  "settings_pack_helpers = [
     (''libtorrent_settings_pack_get_bytes'', Bytes (Library ''libtorrent::settings_pack::get_str'' [Arg 0, Arg 1])),
     (''libtorrent_settings_pack_set_bytes'', Library ''libtorrent::settings_pack::set_str'' [Arg 0, Arg 1, Chars (Arg 2)])]"

definition session_params_helpers :: "(string \<times> expr) list" where
  "session_params_helpers = [
     (''libtorrent_session_params_read_session_params__SWIG_0'', Library ''lt::read_session_params'' [Arg 0, Arg_or 1 (Global ''lt::save_state_flags_t::all()'')]),
     (''libtorrent_session_params_write_session_params__SWIG_0'', Library ''lt::write_session_params'' [Arg 0, Arg_or 1 (Global ''lt::save_state_flags_t::all()'')]),
     (''libtorrent_session_params_write_session_params_buf__SWIG_0'', Bytes (Library ''lt::write_session_params_buf'' [Arg 0, Arg_or 1 (Global ''lt::save_state_flags_t::all()'')])),
     (''libtorrent_session_params_set_posix_disk_io_constructor'', Assign (Field (Arg 0) ''disk_io_constructor'') (Global ''lt::posix_disk_io_constructor'')),
     (''libtorrent_session_params_set_default_disk_io_constructor'', Assign (Field (Arg 0) ''disk_io_constructor'') (Global ''lt::default_disk_io_constructor''))]"

definition session_handle_helpers :: "(string \<times> expr) list" where
  "session_handle_helpers = [
     (''libtorrent_session_handle_dht_get_item__SWIG_1'', Library ''libtorrent::session_handle::dht_get_item'' [Arg 0, First 32 (Read (Arg 1)), Chars (Read (Arg 2))])]"

definition session_handle_helpers_2 :: "(string \<times> expr) list" where
  "session_handle_helpers_2 = [
     (''libtorrent_session_handle_wait_for_alert_ms'', Library ''libtorrent::session_handle::wait_for_alert'' [Arg 0, Library ''libtorrent::milliseconds'' [Arg 1]])]"

definition session_handle_helpers_3 :: "(string \<times> expr) list" where
  "session_handle_helpers_3 = [
     (''libtorrent_session_handle_dht_announce_ex__SWIG_0'', Library ''libtorrent::session_handle::dht_announce'' [Arg 0, Arg 1, Arg_or 2 (Int_lit 0), Cast (Declared ''libtorrent::dht::announce_flags_t'') (Cast uint8 (Arg_or 3 (Int_lit 0)))]),
     (''libtorrent_session_handle_add_port_mapping_ex'', Casts int32 (Library ''libtorrent::session_handle::add_port_mapping'' [Arg 0, Arg 1, Arg 2, Arg 3])),
     (''libtorrent_session_handle_delete_port_mapping_ex'', Library ''libtorrent::session_handle::delete_port_mapping'' [Arg 0, Cast (Declared ''libtorrent::port_mapping_t'') (Arg 1)])]"

definition create_torrent_helpers :: "(string \<times> expr) list" where
  "create_torrent_helpers = [
     (''libtorrent_create_torrent_add_url_seed'', Library ''libtorrent::create_torrent::add_url_seed'' [Arg 0, Arg 1]),
     (''libtorrent_create_torrent_add_tracker__SWIG_0'', Library ''libtorrent::create_torrent::add_tracker'' [Arg 0, Arg 1]),
     (''libtorrent_create_torrent_add_tracker__SWIG_1'', Library ''libtorrent::create_torrent::add_tracker'' [Arg 0, Arg 1, Arg 2]),
     (''libtorrent_create_torrent_add_collection'', Library ''libtorrent::create_torrent::add_collection'' [Arg 0, Arg 1]),
     (''libtorrent_create_torrent_set_root_cert'', Library ''libtorrent::create_torrent::set_root_cert'' [Arg 0, Chars (Read (Arg 1))]),
     (''libtorrent_create_torrent_set_hash2'', Library ''libtorrent::create_torrent::set_hash2'' [Arg 0, Arg 1, Cast (Declared ''lt::piece_index_t::diff_type'') (Arg 2), Arg 3])]"

definition stats_metric_helpers :: "(string \<times> expr) list" where
  "stats_metric_helpers = [
     (''libtorrent_stats_metric_get_name'', Read (Field (Arg 0) ''name''))]"

definition helper_bodies :: "(string \<times> expr) list" where
  "helper_bodies =
    add_torrent_params_helpers_2 @ digest32_160_helpers @ digest32_256_helpers @ bitset_128_helpers @ address_helpers @
    digest32_160_helpers_2 @ digest32_256_helpers_2 @ info_hash_t_helpers @ bitfield_helpers @
    announce_infohash_helpers @ announce_endpoint_helpers @ announce_entry_helpers @ file_storage_helpers @
    renamed_files_helpers @ bdecode_node_helpers @ torrent_info_helpers @ add_torrent_params_helpers @
    add_torrent_params_helpers_3 @ peer_info_helpers @ torrent_handle_helpers @ torrent_handle_helpers_2 @
    torrent_status_helpers @ entry_helpers @ alert_helpers @ alert_cast_helpers @ tracker_alert_helpers @
    udp_error_alert_helpers @ external_ip_alert_helpers @ listen_failed_alert_helpers @
    listen_succeeded_alert_helpers @ portmap_error_alert_helpers @ portmap_alert_helpers @ dht_announce_alert_helpers @
    incoming_connection_alert_helpers @ session_stats_alert_helpers @ dht_mutable_item_alert_helpers @
    dht_put_alert_helpers @ dht_outgoing_get_peers_alert_helpers @ dht_lookup_helpers @ dht_stats_alert_helpers @
    dht_pkt_alert_helpers @ dht_direct_response_alert_helpers @ dht_sample_infohashes_alert_helpers @
    torrent_conflict_alert_helpers @ file_progress_alert_helpers @ settings_pack_helpers @ session_params_helpers @
    session_handle_helpers @ session_handle_helpers_2 @ session_handle_helpers_3 @ create_torrent_helpers @
    stats_metric_helpers"

lemmas helper_tables =
    helper_bodies_def
    add_torrent_params_helpers_2_def digest32_160_helpers_def digest32_256_helpers_def bitset_128_helpers_def
    address_helpers_def digest32_160_helpers_2_def digest32_256_helpers_2_def info_hash_t_helpers_def
    bitfield_helpers_def announce_infohash_helpers_def announce_endpoint_helpers_def announce_entry_helpers_def
    file_storage_helpers_def renamed_files_helpers_def bdecode_node_helpers_def torrent_info_helpers_def
    add_torrent_params_helpers_def add_torrent_params_helpers_3_def peer_info_helpers_def torrent_handle_helpers_def
    torrent_handle_helpers_2_def torrent_status_helpers_def entry_helpers_def alert_helpers_def alert_cast_helpers_def
    tracker_alert_helpers_def udp_error_alert_helpers_def external_ip_alert_helpers_def listen_failed_alert_helpers_def
    listen_succeeded_alert_helpers_def portmap_error_alert_helpers_def portmap_alert_helpers_def
    dht_announce_alert_helpers_def incoming_connection_alert_helpers_def session_stats_alert_helpers_def
    dht_mutable_item_alert_helpers_def dht_put_alert_helpers_def dht_outgoing_get_peers_alert_helpers_def
    dht_lookup_helpers_def dht_stats_alert_helpers_def dht_pkt_alert_helpers_def dht_direct_response_alert_helpers_def
    dht_sample_infohashes_alert_helpers_def torrent_conflict_alert_helpers_def file_progress_alert_helpers_def
    settings_pack_helpers_def session_params_helpers_def session_handle_helpers_def session_handle_helpers_2_def
    session_handle_helpers_3_def create_torrent_helpers_def stats_metric_helpers_def

end
