(* ===== verification/Helper_Calls.thy ===== *)
theory Helper_Calls
  imports Binding_Calls Extension_Helpers
begin

text \<open>
  The exported methods together with the helpers they call: members of \<^verbatim>\<open>add_torrent_params\<close> that are set and read
  through a cast.
\<close>

definition linked :: "('x, 'j) library \<Rightarrow> ('x, 'j) library" where
  "linked L = linked_with helper_bodies L"

lemma linked_helper: "map_of helper_bodies name = Some e \<Longrightarrow> invoke (linked L) name cs s = run_helper L e cs s"
  by (simp add: linked_def linked_with_def)

lemma as_value_arg [simp]: "as_value (as_arg v) = v" "as_value (C_pointer p) = Address p"
  by (simp_all add: as_value_def as_arg_def split: cval.splits)

lemma address_in_pointer [simp]: "address_in (C_pointer p) = Some p"
  by (simp add: address_in_def address_of_def)

lemma and_then_simps [simp]:
  "and_then None k = None" "and_then (Some (Inl x, s)) k = Some (Inl x, s)" "and_then (Some (Inr c, s)) k = k c s"
  by (simp_all add: and_then_def)

section \<open>Running a method that calls a helper\<close>

lemma take_this_and_reference:
  assumes "p = Reference T \<or> p = Const_reference T" "src \<noteq> Nullptr"
  shows "take_args J L (zip [This, p] [J_pointer q, J_pointer src]) s = Some (Some [C_pointer q, C_pointer src], s)"
  using assms by (auto simp: take_arg_def pointer_of_def checked_def)

lemma run_call_reference:
  assumes "map_of helper_bodies name = Some e" "p = Reference T \<or> p = Const_reference T" "src \<noteq> Nullptr"
  shows "run_export J (linked L) C (Export n [This, p] (Call name) c Void) [J_pointer q, J_pointer src] s
    = (case run_helper L e [C_pointer q, C_pointer src] s of
        None \<Rightarrow> None
      | Some (Inl x, s1) \<Rightarrow> Some (J_void, raise J (caught c x) s1)
      | Some (Inr v, s1) \<Rightarrow> Some (J_void, s1))"
  using assms take_this_and_reference [OF assms(2,3), of J "linked L" q s]
  by (auto simp: run_export_def run_body_def linked_helper give_def no_result_def release_chars_def
    split: option.splits sum.splits)

lemma run_call_new:
  assumes "map_of helper_bodies name = Some e" "run_helper L e [C_pointer q] s = Some (Inr v, s1)"
  shows "run_export J (linked L) C (Export n [This] (Call name) c (New_result T)) [J_pointer q] s
    = Some (J_pointer (Heap (next_address s1)), snd (new_object v s1))"
  using assms
  by (auto simp: run_export_def run_body_def linked_helper give_def take_arg_def pointer_of_def release_chars_def
    release_arg_def string_of_def new_object_def)

section \<open>Members behind a cast\<close>

text \<open>
  The members of \<^verbatim>\<open>add_torrent_params\<close> that Java reads and writes as vectors, maps and bit fields of plain types.
\<close>

definition copied_members :: "string list" where
  "copied_members = [''file_priorities'', ''piece_priorities'', ''merkle_trees'', ''merkle_tree_mask'', ''verified_leaf_hashes'',
     ''unfinished_pieces'', ''renamed_files'', ''have_pieces'', ''verified_pieces'']"

definition member_helper :: "string \<Rightarrow> string \<Rightarrow> string" where
  "member_helper how f = ''libtorrent_add_torrent_params_'' @ how @ ''_'' @ f"

lemma first_table:
  "map_of add_torrent_params_helpers_2 name = Some e \<Longrightarrow> map_of helper_bodies name = Some e"
  by (simp add: helper_bodies_def)

lemma copied_member_helpers:
  assumes "f \<in> set copied_members"
  shows "map_of helper_bodies (member_helper ''set'' f) = Some (Assign (Field (Arg 0) f) (Read (Arg 1)))"
    "map_of helper_bodies (member_helper ''get'' f) = Some (Read (Field (Arg 0) f))"
proof -
  have "map_of add_torrent_params_helpers_2 (member_helper ''set'' f) = Some (Assign (Field (Arg 0) f) (Read (Arg 1)))
    \<and> map_of add_torrent_params_helpers_2 (member_helper ''get'' f) = Some (Read (Field (Arg 0) f))"
    using assms
    by (simp add: copied_members_def member_helper_def add_torrent_params_helpers_2_def)
      (elim disjE; simp)
  then show "map_of helper_bodies (member_helper ''set'' f) = Some (Assign (Field (Arg 0) f) (Read (Arg 1)))"
    "map_of helper_bodies (member_helper ''get'' f) = Some (Read (Field (Arg 0) f))"
    by (simp_all add: first_table)
qed

lemma run_set_member:
  assumes "load s (Member q f) \<noteq> None" "load s src = Some v" "store_at s (Member q f) v = Some s1"
  shows "run_helper L (Assign (Field (Arg 0) f) (Read (Arg 1))) [C_pointer q, C_pointer src] s = Some (Inr (Address (Member q f)), s1)"
  using assms by (auto simp: run_helper_def read_value_def member_address_def assign_to_def simp del: load.simps store_at.simps)

lemma run_get_member:
  assumes "load s (Member q f) = Some v"
  shows "run_helper L (Read (Field (Arg 0) f)) [C_pointer q] s = Some (Inr v, s)"
  using assms by (simp add: run_helper_def read_value_def member_address_def del: load.simps)

text \<open>C39. Setting one of these members copies the Java object's C++ value into the member and changes nothing apart from it; the
  getter, whatever has been done meanwhile to other objects, also to the one the value came from, returns a new object with exactly
  that value.\<close>

theorem copied_member_round_trip:
  assumes "f \<in> set copied_members" "load s (Member q f) \<noteq> None" "load s src = Some v"
  shows "\<exists>s1. run_export J (linked L) C (Export n1 [This, Reference T] (Call (member_helper ''set'' f)) c1 Void)
        [J_pointer q, J_pointer src] s = Some (J_void, s1)
    \<and> (\<forall>p. apart (Member q f) p \<longrightarrow> load s1 p = load s p)
    \<and> (\<forall>s2. load s2 (Member q f) = load s1 (Member q f) \<longrightarrow>
         (\<exists>s3. run_export J (linked L) C (Export n2 [This] (Call (member_helper ''get'' f)) c2 (New_result T)) [J_pointer q] s2
             = Some (J_pointer (Heap (next_address s2)), s3)
           \<and> load s3 (Heap (next_address s2)) = Some v \<and> (\<forall>a. a \<noteq> next_address s2 \<longrightarrow> objects s3 a = objects s2 a)))"
proof -
  note h = copied_member_helpers [OF assms(1)]
  obtain s1 where s1: "store_at s (Member q f) v = Some s1" using live_member(2) [OF assms(2)] by blast
  have "src \<noteq> Nullptr" using assms(3) by auto
  then have "run_export J (linked L) C (Export n1 [This, Reference T] (Call (member_helper ''set'' f)) c1 Void)
      [J_pointer q, J_pointer src] s = Some (J_void, s1)"
    by (simp add: run_call_reference [OF h(1)] run_set_member [OF assms(2,3) s1, unfolded One_nat_def])
  moreover have "\<exists>s3. run_export J (linked L) C (Export n2 [This] (Call (member_helper ''get'' f)) c2 (New_result T)) [J_pointer q] s2
        = Some (J_pointer (Heap (next_address s2)), s3)
      \<and> load s3 (Heap (next_address s2)) = Some v \<and> (\<forall>a. a \<noteq> next_address s2 \<longrightarrow> objects s3 a = objects s2 a)"
    if "load s2 (Member q f) = load s1 (Member q f)" for s2
  proof -
    from that load_stored [OF s1] have "load s2 (Member q f) = Some v" by simp
    from run_call_new [OF h(2) run_get_member [OF this]] show ?thesis by (simp add: new_object_def)
  qed
  ultimately show ?thesis using load_apart [OF s1] by blast
qed

text \<open>Parameters of a torrent with priorities of two files, and three new ones.\<close>

definition params_memory :: "(unit, unit \<times> jtrace) memory_state" where
  "params_memory = \<lparr>objects = [7 \<mapsto> Struct [''file_priorities'' \<mapsto> Sequence [Num 4, Num 4]], 8 \<mapsto> Sequence [Num 0, Num 7, Num 1]],
     next_address = 9, machine = ((), [])\<rparr>"

definition set_file_priorities :: export where
  "set_file_priorities = Export ''set_file_priorities'' [This, Reference ''std::vector< std::int8_t >'']
     (Call (member_helper ''set'' ''file_priorities'')) Catch_any Void"

definition get_file_priorities :: export where
  "get_file_priorities = Export ''get_file_priorities'' [This]
     (Call (member_helper ''get'' ''file_priorities'')) Catch_any (New_result ''std::vector< std::int8_t >'')"

lemma file_priorities_exported:
  "set_file_priorities \<in> (\<Union>t \<in> set torrent_classes. set (snd t))" "get_file_priorities \<in> (\<Union>t \<in> set torrent_classes. set (snd t))"
  by (rule UN_I [of add_torrent_params_exports_9];
    simp add: torrent_classes_def add_torrent_params_exports_9_def set_file_priorities_def get_file_priorities_def member_helper_def)+

theorem copied_member_round_trip_witness:
  "\<exists>s1 s3. run_export (audit_jvm plain_jvm) (linked (plain_library (Inr (Num 0)))) ''libtorrent::add_torrent_params'' set_file_priorities
      [J_pointer (Heap 7), J_pointer (Heap 8)] params_memory = Some (J_void, s1)
    \<and> run_export (audit_jvm plain_jvm) (linked (plain_library (Inr (Num 0)))) ''libtorrent::add_torrent_params'' get_file_priorities
      [J_pointer (Heap 7)] s1 = Some (J_pointer (Heap (next_address s1)), s3)
    \<and> load s3 (Heap (next_address s1)) = Some (Sequence [Num 0, Num 7, Num 1])"
proof -
  have m: "''file_priorities'' \<in> set copied_members" by (simp add: copied_members_def)
  have l: "load params_memory (Member (Heap 7) ''file_priorities'') \<noteq> None"
    "load params_memory (Heap 8) = Some (Sequence [Num 0, Num 7, Num 1])" by (simp_all add: params_memory_def)
  show ?thesis unfolding set_file_priorities_def get_file_priorities_def
    using copied_member_round_trip [OF m l] by blast
qed

end
