(* ===== verification/Director_Exports.thy ===== *)
theory Director_Exports
  imports Director
begin

text \<open>
  The exported methods of the three director classes: making and deleting a director, connecting it to its Java
  object, changing who owns it, calling its virtual method, and the initialisation of the module. The state holds
  the directors of all classes, the function-local statics of the classes, the class of the module and the ids of
  the static methods that upcalls use. \<open>None\<close> stands for undefined behaviour.
\<close>

section \<open>State\<close>

datatype director_kind = Alert_notify_callback | List_files_listener | Set_piece_hashes_listener

record 'j directors =
  d_native :: "(director_kind \<times> director, 'j) native"
  d_statics :: "director_kind \<Rightarrow> director_statics"
  jclass_libtorrent_jni :: jref
  director_method_ids :: "nat list"

text \<open>An address from Java, null or that of an object.\<close>

type_synonym address = "nat option"

definition director_at :: "director_kind \<Rightarrow> nat \<Rightarrow> 'j directors \<Rightarrow> director option" where
  "director_at K a s = (case objects (d_native s) a of
      Some (K', d) \<Rightarrow> (if K' = K then Some d else None)
    | None \<Rightarrow> None)"

definition with_machine :: "'j \<Rightarrow> 'j directors \<Rightarrow> 'j directors" where
  "with_machine j s = s\<lparr>d_native := (d_native s)\<lparr>machine := j\<rparr>\<rparr>"

section \<open>The initialisation of the module\<close>

definition upcall_methods :: "(string \<times> string) list" where
  "upcall_methods = [
     (''SwigDirector_alert_notify_callback_on_alert'', ''(Lorg/libtorrent4j/swig/alert_notify_callback;)V''),
     (''SwigDirector_list_files_listener_pred'', ''(Lorg/libtorrent4j/swig/list_files_listener;Ljava/lang/String;)Z''),
     (''SwigDirector_set_piece_hashes_listener_progress'', ''(Lorg/libtorrent4j/swig/set_piece_hashes_listener;I)V'')]"

text \<open>The loop that looks the methods up ends at the first that is not found.\<close>

fun find_methods :: "'j jvm \<Rightarrow> jref \<Rightarrow> (string \<times> string) list \<Rightarrow> nat \<Rightarrow> nat list \<Rightarrow> 'j \<Rightarrow> nat list \<times> 'j" where
  "find_methods J jcls [] i ids j = (ids, j)"
| "find_methods J jcls ((name, sig) # ms) i ids j =
     (let (m, j1) = GetStaticMethodID J jcls name sig j; ids1 = ids[i := m]
      in if m = 0 then (ids1, j1) else find_methods J jcls ms (Suc i) ids1 j1)"

definition swig_module_init :: "'j jvm \<Rightarrow> jref \<Rightarrow> 'j directors \<Rightarrow> 'j directors" where
  "swig_module_init J jcls s =
     (let (r, j1) = NewGlobalRef J jcls (machine (d_native s)); s1 = s\<lparr>jclass_libtorrent_jni := r\<rparr>
      in if r = 0 then with_machine j1 s1
         else let (ids, j2) = find_methods J jcls upcall_methods 0 (director_method_ids s) j1
           in with_machine j2 (s1\<lparr>director_method_ids := ids\<rparr>))"

text \<open>The state when the library is loaded.\<close>

definition loaded :: "'j \<Rightarrow> 'j directors" where
  "loaded j = \<lparr>d_native = \<lparr>objects = (\<lambda>_. None), next_address = 1, machine = j\<rparr>,
     d_statics = (\<lambda>_. \<lparr>st_baseclass = None, st_methid = None\<rparr>), jclass_libtorrent_jni = 0, director_method_ids = [0, 0, 0]\<rparr>"

section \<open>Making, connecting and deleting\<close>

definition new_director_object :: "director_kind \<Rightarrow> 'j directors \<Rightarrow> nat \<times> 'j directors" where
  "new_director_object K s =
     (let (a, n) = new_object (K, new_director) (d_native s) in (a, s\<lparr>d_native := n\<rparr>))"

definition connect_director where
  "connect_director J K = (case K of
      Alert_notify_callback \<Rightarrow> alert_notify_callback_connect J
    | List_files_listener \<Rightarrow> list_files_listener_connect J
    | Set_piece_hashes_listener \<Rightarrow> set_piece_hashes_listener_connect J)"

definition director_connect ::
  "'j jvm \<Rightarrow> director_kind \<Rightarrow> jref \<Rightarrow> address \<Rightarrow> bool \<Rightarrow> bool \<Rightarrow> 'j directors \<Rightarrow> 'j directors option" where
  "director_connect J K jself objarg mem_own weak s = do {
     a \<leftarrow> objarg;
     d \<leftarrow> director_at K a s;
     let (jcls, j1) = GetObjectClass J jself (machine (d_native s));
         (st, d', j2) = connect_director J K jself jcls mem_own weak (d_statics s K) d j1
     in Some (s\<lparr>d_native := put_object a (K, d') ((d_native s)\<lparr>machine := j2\<rparr>), d_statics := (d_statics s)(K := st)\<rparr>) }"

text \<open>The cast of a null pointer is null, and nothing happens.\<close>

definition change_ownership ::
  "'j jvm \<Rightarrow> director_kind \<Rightarrow> jref \<Rightarrow> address \<Rightarrow> bool \<Rightarrow> 'j directors \<Rightarrow> 'j directors option" where
  "change_ownership J K jself objarg take_or_release s = (case objarg of
      None \<Rightarrow> Some s
    | Some a \<Rightarrow> do {
        d \<leftarrow> director_at K a s;
        let (w, j1) = java_change_ownership J jself take_or_release (swig_self d) (machine (d_native s))
        in Some (s\<lparr>d_native := put_object a (K, d\<lparr>swig_self := w\<rparr>) ((d_native s)\<lparr>machine := j1\<rparr>)\<rparr>) })"

definition delete_director_object :: "'j jvm \<Rightarrow> director_kind \<Rightarrow> address \<Rightarrow> 'j directors \<Rightarrow> 'j directors option" where
  "delete_director_object J K arg1 s = (case arg1 of
      None \<Rightarrow> Some s
    | Some a \<Rightarrow> do {
        d \<leftarrow> director_at K a s;
        let n = d_native s; j1 = delete_director J d (machine n)
        in Some (s\<lparr>d_native := n\<lparr>objects := (objects n)(a := None), machine := j1\<rparr>\<rparr>) })"

section \<open>Calling the virtual methods\<close>

text \<open>The base classes of the binding, from \<^verbatim>\<open>libtorrent.hpp\<close>.\<close>

definition base_on_alert :: "'j \<Rightarrow> 'j" where
  "base_on_alert j = j"

definition base_pred :: "string \<Rightarrow> 'j \<Rightarrow> bool \<times> 'j" where
  "base_pred p j = (True, j)"

definition base_progress :: "int \<Rightarrow> 'j \<Rightarrow> 'j" where
  "base_progress i j = j"

text \<open>A C++ exception that leaves the upcall becomes a Java exception with its message.\<close>

definition end_upcall :: "'j jvm \<Rightarrow> 'r \<Rightarrow> 'r upcall \<times> 'j \<Rightarrow> 'j directors \<Rightarrow> 'r \<times> 'j directors" where
  "end_upcall J none r s = (case fst r of
      Upcall_returns x \<Rightarrow> (x, with_machine (snd r) s)
    | Upcall_raises e \<Rightarrow> (none, with_machine (SWIG_JavaThrowException J SWIG_JavaRuntimeException (what e) (snd r)) s))"

definition alert_notify_callback_on_alert :: "'j jvm \<Rightarrow> address \<Rightarrow> 'j directors \<Rightarrow> 'j directors option" where
  "alert_notify_callback_on_alert J arg1 s = do {
     a \<leftarrow> arg1;
     d \<leftarrow> director_at Alert_notify_callback a s;
     Some (snd (end_upcall J ()
       (on_alert J (jclass_libtorrent_jni s) (director_method_ids s ! 0) base_on_alert d (machine (d_native s))) s)) }"

definition alert_notify_callback_on_alert_explicit :: "address \<Rightarrow> 'j directors \<Rightarrow> 'j directors option" where
  "alert_notify_callback_on_alert_explicit arg1 s = do {
     a \<leftarrow> arg1;
     d \<leftarrow> director_at Alert_notify_callback a s;
     Some (with_machine (base_on_alert (machine (d_native s))) s) }"

definition list_files_listener_pred :: "'j jvm \<Rightarrow> address \<Rightarrow> jref \<Rightarrow> 'j directors \<Rightarrow> (bool \<times> 'j directors) option" where
  "list_files_listener_pred J arg1 jarg2 s =
     (let (str, n) = read_string J jarg2 (d_native s); s1 = s\<lparr>d_native := n\<rparr>
      in case str of
          None \<Rightarrow> Some (False, s1)
        | Some p \<Rightarrow> do {
            a \<leftarrow> arg1;
            d \<leftarrow> director_at List_files_listener a s1;
            Some (end_upcall J False
              (pred_listener J (jclass_libtorrent_jni s1) (director_method_ids s1 ! 1) base_pred d p (machine n)) s1) })"

definition list_files_listener_pred_explicit ::
  "'j jvm \<Rightarrow> address \<Rightarrow> jref \<Rightarrow> 'j directors \<Rightarrow> (bool \<times> 'j directors) option" where
  "list_files_listener_pred_explicit J arg1 jarg2 s =
     (let (str, n) = read_string J jarg2 (d_native s); s1 = s\<lparr>d_native := n\<rparr>
      in case str of
          None \<Rightarrow> Some (False, s1)
        | Some p \<Rightarrow> do {
            a \<leftarrow> arg1;
            d \<leftarrow> director_at List_files_listener a s1;
            let (r, j1) = base_pred p (machine n) in Some (r, with_machine j1 s1) })"

definition set_piece_hashes_listener_progress :: "'j jvm \<Rightarrow> address \<Rightarrow> int \<Rightarrow> 'j directors \<Rightarrow> 'j directors option" where
  "set_piece_hashes_listener_progress J arg1 arg2 s = do {
     a \<leftarrow> arg1;
     d \<leftarrow> director_at Set_piece_hashes_listener a s;
     Some (snd (end_upcall J ()
       (progress_listener J (jclass_libtorrent_jni s) (director_method_ids s ! 2) base_progress d arg2 (machine (d_native s))) s)) }"

definition set_piece_hashes_listener_progress_explicit :: "address \<Rightarrow> int \<Rightarrow> 'j directors \<Rightarrow> 'j directors option" where
  "set_piece_hashes_listener_progress_explicit arg1 arg2 s = do {
     a \<leftarrow> arg1;
     d \<leftarrow> director_at Set_piece_hashes_listener a s;
     Some (with_machine (base_progress arg2 (machine (d_native s))) s) }"

section \<open>Sequences of calls\<close>

datatype director_call =
    Make director_kind
  | Connect director_kind jref address bool bool
  | Change_ownership director_kind jref address bool
  | On_alert address
  | On_alert_explicit address
  | Pred address jref
  | Pred_explicit address jref
  | Progress address int
  | Progress_explicit address int
  | Delete_director director_kind address

definition director_step :: "'j jvm \<Rightarrow> director_call \<Rightarrow> 'j directors \<Rightarrow> 'j directors option" where
  "director_step J c s = (case c of
      Make K \<Rightarrow> Some (snd (new_director_object K s))
    | Connect K jself p mem_own weak \<Rightarrow> director_connect J K jself p mem_own weak s
    | Change_ownership K jself p take_or_release \<Rightarrow> change_ownership J K jself p take_or_release s
    | On_alert p \<Rightarrow> alert_notify_callback_on_alert J p s
    | On_alert_explicit p \<Rightarrow> alert_notify_callback_on_alert_explicit p s
    | Pred p r \<Rightarrow> map_option snd (list_files_listener_pred J p r s)
    | Pred_explicit p r \<Rightarrow> map_option snd (list_files_listener_pred_explicit J p r s)
    | Progress p n \<Rightarrow> set_piece_hashes_listener_progress J p n s
    | Progress_explicit p n \<Rightarrow> set_piece_hashes_listener_progress_explicit p n s
    | Delete_director K p \<Rightarrow> delete_director_object J K p s)"

fun run_directors :: "'j jvm \<Rightarrow> director_call list \<Rightarrow> 'j directors \<Rightarrow> 'j directors option" where
  "run_directors J [] s = Some s"
| "run_directors J (c # cs) s = do { s1 \<leftarrow> director_step J c s; run_directors J cs s1 }"

section \<open>Code that keeps the global references\<close>

text \<open>
  \<open>calm j j'\<close>: between the two states no global reference was made or given back, nothing was deleted that was not
  live, and every local reference and string live before is live after.
\<close>

definition calm :: "'j \<times> jtrace \<Rightarrow> 'j \<times> jtrace \<Rightarrow> bool" where
  "calm j j' \<longleftrightarrow> live_globals (snd j') = live_globals (snd j) \<and> live_weaks (snd j') = live_weaks (snd j)
     \<and> (deletes_live (snd j) \<longrightarrow> deletes_live (snd j'))
     \<and> mset (live_locals (snd j)) \<subseteq># mset (live_locals (snd j')) \<and> mset (live_chars (snd j)) \<subseteq># mset (live_chars (snd j'))"

lemma calm_refl [simp]: "calm j j"
  by (simp add: calm_def)

lemma calm_trans: "calm j j1 \<Longrightarrow> calm j1 j2 \<Longrightarrow> calm j j2"
  unfolding calm_def by (metis subset_mset.order_trans)

lemma calm_calls [simp]:
  assumes "calm j j1"
  shows "calm j (snd (ExceptionClear (audit_jvm J) j1))" "calm j (snd (ExceptionOccurred (audit_jvm J) j1))"
    "calm j (snd (FindClass (audit_jvm J) n j1))" "calm j (snd (ThrowNew (audit_jvm J) r m j1))"
    "calm j (snd (GetMethodID (audit_jvm J) r n m j1))" "calm j (snd (GetObjectClass (audit_jvm J) r j1))"
    "calm j (snd (CallObjectMethod (audit_jvm J) r i j1))" "calm j (snd (CallVoidMethod (audit_jvm J) r i j1))"
    "calm j (snd (CallStaticMethod (audit_jvm J) r i args j1))" "calm j (snd (NewLocalRef (audit_jvm J) r j1))"
    "calm j (snd (NewStringUTF (audit_jvm J) n j1))" "calm j (snd (GetStaticMethodID (audit_jvm J) r n m j1))"
  using assms
  by (auto simp: calm_def audit_jvm_def if_ref_def intro: subset_mset.order_trans)

lemma calm_throw [simp]: "calm j j1 \<Longrightarrow> calm j (SWIG_JavaThrowException (audit_jvm J) code msg j1)"
  by (simp add: SWIG_JavaThrowException_def Let_def split_beta)

lemma calm_found:
  "GetMethodID (audit_jvm J) c n sig j = (m, j') \<Longrightarrow> calm j j'" "GetObjectClass (audit_jvm J) r j = (c, j') \<Longrightarrow> calm j j'"
  by (metis calm_calls(5) calm_refl snd_conv, metis calm_calls(6) calm_refl snd_conv)

text \<open>A reference or a string that is given back after it was taken.\<close>

lemma mset_mem: "add_mset x A \<subseteq># mset xs \<Longrightarrow> x \<in> set xs \<and> A \<subseteq># mset (remove1 x xs)"
  by (metis insert_subset_eq_iff mset_remove1 set_mset_mset)

lemma calm_given_back:
  assumes "calm (v, if_ref J_local r @ snd j) j2"
  shows "calm j (guard_release (audit_jvm J) r j2)"
  using assms mset_mem [of r "mset (live_locals (snd j))" "live_locals (snd j2)"]
  by (auto simp: calm_def guard_release_def audit_jvm_def if_ref_def)

lemma noted_locals:
  "\<exists>r v. NewLocalRef (audit_jvm J) x j = (r, (v, if_ref J_local r @ snd j))"
  "\<exists>r v. NewStringUTF (audit_jvm J) n j = (r, (v, if_ref J_local r @ snd j))"
  by (auto simp: audit_jvm_def noted_def split_beta)

lemma calm_given_back_there:
  "calm (snd (wrapper_get (audit_jvm J) w j)) j2 \<Longrightarrow> calm j (guard_release (audit_jvm J) (fst (wrapper_get (audit_jvm J) w j)) j2)"
  "calm (snd (NewStringUTF (audit_jvm J) n j)) j2 \<Longrightarrow> calm j (guard_release (audit_jvm J) (fst (NewStringUTF (audit_jvm J) n j)) j2)"
proof -
  obtain r v where r: "NewLocalRef (audit_jvm J) (jthis w) j = (r, (v, if_ref J_local r @ snd j))"
    by (metis noted_locals(1))
  assume "calm (snd (wrapper_get (audit_jvm J) w j)) j2"
  then show "calm j (guard_release (audit_jvm J) (fst (wrapper_get (audit_jvm J) w j)) j2)"
    using calm_given_back [of v r j j2] by (auto simp: wrapper_get_def r guard_release_def [of _ 0] split: if_splits)
next
  obtain r v where r: "NewStringUTF (audit_jvm J) n j = (r, (v, if_ref J_local r @ snd j))"
    by (metis noted_locals(2))
  assume "calm (snd (NewStringUTF (audit_jvm J) n j)) j2"
  then show "calm j (guard_release (audit_jvm J) (fst (NewStringUTF (audit_jvm J) n j)) j2)"
    using calm_given_back [of v r j j2] by (simp add: r)
qed

lemma calm_guards [simp]:
  "calm j0 j \<Longrightarrow> calm (snd (wrapper_get (audit_jvm J) w j)) j2 \<Longrightarrow>
    calm j0 (guard_release (audit_jvm J) (fst (wrapper_get (audit_jvm J) w j)) j2)"
  "calm j0 j \<Longrightarrow> calm (snd (NewStringUTF (audit_jvm J) n j)) j2 \<Longrightarrow>
    calm j0 (guard_release (audit_jvm J) (fst (NewStringUTF (audit_jvm J) n j)) j2)"
  by (blast intro: calm_trans calm_given_back_there)+

lemma calm_wrapper_get [simp]: "calm j j1 \<Longrightarrow> calm j (snd (wrapper_get (audit_jvm J) w j1))"
  by (simp add: wrapper_get_def)

lemma calm_string [simp]:
  "calm j j1 \<Longrightarrow> calm j (java_string_close (audit_jvm J) r (fst (java_string_open (audit_jvm J) r j1)) (snd (java_string_open (audit_jvm J) r j1)))"
  by (cases "fst (java_string_open (audit_jvm J) r j1)")
    (auto simp: calm_def java_string_open_def java_string_close_def audit_jvm_def split: if_splits)

lemma calm_classname [simp]: "calm j j1 \<Longrightarrow> calm j (snd (throwable_classname (audit_jvm J) r j1))"
  by (simp add: throwable_classname_def Let_def split_beta)

lemma calm_message [simp]: "calm j j1 \<Longrightarrow> calm j (snd (exceptionMessageFromThrowable (audit_jvm J) r j1))"
  by (simp add: exceptionMessageFromThrowable_def Let_def split_beta)

lemma calm_exception [simp]: "calm j j1 \<Longrightarrow> calm j (snd (director_exception (audit_jvm J) r j1))"
  by (simp add: director_exception_def Let_def split_beta)

lemma calm_base [simp]: "calm j (base_on_alert j)" "calm j (base_progress n j)"
  by (simp_all add: base_on_alert_def base_progress_def)

lemma calm_disconnect: "calm j (swig_disconnect_director_self (audit_jvm J) n d j)"
  by (simp add: swig_disconnect_director_self_def Let_def split_beta)

lemma calm_upcalls:
  "calm j (snd (on_alert (audit_jvm J) c m base_on_alert d j))"
  "calm j (snd (pred_listener (audit_jvm J) c m base_pred d p j))"
  "calm j (snd (progress_listener (audit_jvm J) c m base_progress d n j))"
  by (simp_all add: on_alert_def pred_listener_def progress_listener_def base_on_alert_def base_pred_def base_progress_def
    Let_def split_beta)

lemma calm_read_string:
  assumes "read_string (audit_jvm J) r n = (str, n1)"
  shows "calm (machine n) (machine n1)" "objects n1 = objects n" "next_address n1 = next_address n"
proof -
  show "objects n1 = objects n" "next_address n1 = next_address n"
    using assms by (auto simp: read_string_def raise_def Let_def split: if_splits option.splits prod.splits)
  show "calm (machine n) (machine n1)"
  proof (cases "r = 0")
    case True
    with assms show ?thesis by (auto simp: read_string_def raise_def)
  next
    case False
    with assms show ?thesis
      by (cases "fst (GetStringUTFChars J r (fst (machine n)))")
        (auto simp: read_string_def calm_def audit_jvm_def noted_def split_beta)
  qed
qed

section \<open>The references of all directors\<close>

definition a_ref :: "jref \<Rightarrow> jref multiset" where
  "a_ref r = (if r = 0 then {#} else {#r#})"

definition class_ref :: "director_statics \<Rightarrow> jref multiset" where
  "class_ref st = (case st_baseclass st of None \<Rightarrow> {#} | Some c \<Rightarrow> a_ref c)"

text \<open>The references the module keeps for ever: its class and the base class of every kind of director.\<close>

definition module_refs :: "'j directors \<Rightarrow> jref multiset" where
  "module_refs s = a_ref (jclass_libtorrent_jni s) + class_ref (d_statics s Alert_notify_callback)
     + class_ref (d_statics s List_files_listener) + class_ref (d_statics s Set_piece_hashes_listener)"

definition held_by :: "(jobject_wrapper \<Rightarrow> jref multiset) \<Rightarrow> (nat \<rightharpoonup> director_kind \<times> director) \<Rightarrow> jref multiset" where
  "held_by h objs = (\<Sum>a\<in>dom objs. h (swig_self (snd (the (objs a)))))"

text \<open>\<open>lost\<close> are the weak references that deleted directors left behind.\<close>

definition directors_ok :: "jref multiset \<Rightarrow> ('j \<times> jtrace) directors \<Rightarrow> bool" where
  "directors_ok lost s \<longleftrightarrow> finite (dom (objects (d_native s))) \<and> (\<forall>a \<ge> next_address (d_native s). objects (d_native s) a = None)
     \<and> mset (live_globals (snd (machine (d_native s)))) = module_refs s + held_by held_globals (objects (d_native s))
     \<and> mset (live_weaks (snd (machine (d_native s)))) = held_by held_weaks (objects (d_native s)) + lost
     \<and> deletes_live (snd (machine (d_native s)))"

lemma held_by_simps [simp]:
  "held_by h Map.empty = {#}"
  "finite (dom objs) \<Longrightarrow> held_by h (objs(a \<mapsto> (K, d))) = held_by h (objs(a := None)) + h (swig_self d)"
proof -
  show "held_by h Map.empty = {#}" by (simp add: held_by_def)
  assume "finite (dom objs)"
  moreover have "(\<Sum>x\<in>dom objs - {a}. h (swig_self (snd (the ((objs(a \<mapsto> (K, d))) x)))))
      = (\<Sum>x\<in>dom objs - {a}. h (swig_self (snd (the ((objs(a := None)) x)))))"
    by (rule sum.cong) auto
  ultimately show "held_by h (objs(a \<mapsto> (K, d))) = held_by h (objs(a := None)) + h (swig_self d)"
    by (simp add: held_by_def sum.insert_remove add.commute)
qed

lemma held_by_at:
  assumes "finite (dom objs)" "objs a = Some (K, d)"
  shows "held_by h objs = held_by h (objs(a := None)) + h (swig_self d)"
  using held_by_simps(2) [OF assms(1), of h a K d] assms(2) by (simp add: fun_upd_idem)

text \<open>The references of one director, seen from the whole state.\<close>

lemma director_balanced:
  assumes "directors_ok lost s" "director_at K a s = Some d"
  shows "wrapper_balanced (module_refs s + held_by held_globals ((objects (d_native s))(a := None)))
    (held_by held_weaks ((objects (d_native s))(a := None)) + lost) (swig_self d) (snd (machine (d_native s)))"
proof -
  from assms(2) have "objects (d_native s) a = Some (K, d)" by (auto simp: director_at_def split: option.splits if_splits)
  with assms(1) held_by_at [of "objects (d_native s)" a K d] show ?thesis
    by (simp add: directors_ok_def wrapper_balanced_def ac_simps)
qed

lemma balanced_calm: "wrapper_balanced G W w (snd j) \<Longrightarrow> calm j j' \<Longrightarrow> wrapper_balanced G W w (snd j')"
  by (simp add: wrapper_balanced_def calm_def)

lemma base_class_balanced:
  assumes "swig_new_global_ref (audit_jvm J) n j = (c, j1)" "wrapper_balanced G W w (snd j)"
  shows "wrapper_balanced (G + a_ref c) W w (snd j1)"
  using assms
  by (auto simp: swig_new_global_ref_def wrapper_balanced_def a_ref_def audit_jvm_def noted_eq if_ref_def
    split: if_splits prod.splits)

lemma connect_balanced:
  assumes "swig_connect_director (audit_jvm J) n m sig jself jcls own weak st d j = (st', d', j')"
    and "wrapper_balanced (G + class_ref st) W (swig_self d) (snd j)"
  shows "wrapper_balanced (G + class_ref st') W (swig_self d') (snd j')"
proof -
  obtain c j1 where c: "(case st_baseclass st of None \<Rightarrow> swig_new_global_ref (audit_jvm J) n j | Some c \<Rightarrow> (c, j)) = (c, j1)"
    by (metis surj_pair)
  have b1: "wrapper_balanced (G + a_ref c) W (swig_self d) (snd j1)"
    using assms(2) c base_class_balanced [of J n j c j1 G W "swig_self d"] by (auto simp: class_ref_def split: option.splits)
  show ?thesis
  proof (cases "c = 0")
    case True
    with assms(1) c b1 show ?thesis by (auto simp: swig_connect_director_def class_ref_def)
  next
    case False
    obtain k j2 where k: "(case st_methid st of None \<Rightarrow> GetMethodID (audit_jvm J) c m sig j1 | Some k \<Rightarrow> (k, j1)) = (k, j2)"
      by (metis surj_pair)
    have "calm j1 j2" using k by (auto dest: calm_found split: option.splits)
    with b1 have b2: "wrapper_balanced (G + a_ref c) W (swig_self d) (snd j2)" by (rule balanced_calm)
    obtain f w j3 where w: "wrapper_set (audit_jvm J) jself own weak (swig_self d) j2 = (f, w, j3)" by (metis surj_pair)
    have b3: "wrapper_balanced (G + a_ref c) W w (snd j3)"
      using wrapper_step_balanced [of J "W_set jself own weak", OF _ b2] by (simp add: w)
    have "calm j3 j'" "class_ref st' = a_ref c" "swig_self d' = w"
      using assms(1) False
      by (auto simp: swig_connect_director_def c k w class_ref_def Let_def split: if_splits prod.splits dest: calm_found)
    with balanced_calm [OF b3] show ?thesis by simp
  qed
qed

text \<open>Putting a director back, or taking it away, when its own references are in order.\<close>

lemma put_director_ok:
  assumes "directors_ok lost s" "director_at K a s = Some d"
    and "wrapper_balanced (module_refs s' + held_by held_globals ((objects (d_native s))(a := None)))
      (held_by held_weaks ((objects (d_native s))(a := None)) + lost) (swig_self d') (snd (machine (d_native s')))"
    and "objects (d_native s') = (objects (d_native s))(a \<mapsto> (K', d'))" "next_address (d_native s') = next_address (d_native s)"
  shows "directors_ok lost s'"
proof -
  from assms(2) have "objects (d_native s) a \<noteq> None" by (auto simp: director_at_def split: option.splits)
  with assms(1) have "a < next_address (d_native s)" "finite (dom (objects (d_native s)))"
    by (auto simp: directors_ok_def not_le [symmetric])
  with assms show ?thesis by (auto simp: directors_ok_def wrapper_balanced_def ac_simps)
qed

lemma calm_directors:
  assumes "directors_ok lost s" "calm (machine (d_native s)) j"
  shows "directors_ok lost (with_machine j s)"
  using assms by (auto simp: directors_ok_def with_machine_def module_refs_def calm_def)

lemma with_machine_simps [simp]:
  "objects (d_native (with_machine j s)) = objects (d_native s)" "machine (d_native (with_machine j s)) = j"
  "next_address (d_native (with_machine j s)) = next_address (d_native s)" "module_refs (with_machine j s) = module_refs s"
  by (simp_all add: with_machine_def module_refs_def)

lemma end_upcall_ok:
  assumes "directors_ok lost s" "calm (machine (d_native s)) (snd r)"
  shows "directors_ok lost (snd (end_upcall (audit_jvm J) x r s))"
  using assms by (auto simp: end_upcall_def intro!: calm_directors split: upcall.splits)

lemma read_string_ok:
  assumes "directors_ok lost s" "read_string (audit_jvm J) r (d_native s) = (str, n)"
  shows "directors_ok lost (s\<lparr>d_native := n\<rparr>)"
proof -
  note k = calm_read_string [OF assms(2)]
  have "s\<lparr>d_native := n\<rparr> = with_machine (machine n) s" using k(2,3) by (simp add: with_machine_def)
  with calm_directors [OF assms(1) k(1)] show ?thesis by simp
qed

lemma make_ok: "directors_ok lost s \<Longrightarrow> directors_ok lost (snd (new_director_object K s))"
proof -
  assume ok: "directors_ok lost s"
  then have "(objects (d_native s))(next_address (d_native s) := None) = objects (d_native s)"
    by (auto simp: directors_ok_def)
  with ok show ?thesis
    by (auto simp: directors_ok_def new_director_object_def new_object_def new_director_def wrapper_init_def
      held_globals_def held_weaks_def module_refs_def)
qed

lemma connect_statics:
  "connect_director J K jself jcls own weak st d j = (st', d', j') \<Longrightarrow>
    \<exists>n m sig. swig_connect_director J n m sig jself jcls own weak st d j = (st', d', j')"
  by (cases K) (auto simp: connect_director_def alert_notify_callback_connect_def list_files_listener_connect_def
    set_piece_hashes_listener_connect_def)

lemma connect_ok:
  assumes "directors_ok lost s" "director_connect (audit_jvm J) K jself p own weak s = Some s'"
  shows "directors_ok lost s'"
proof -
  from assms(2) obtain a d where a: "p = Some a" "director_at K a s = Some d"
    by (auto simp: director_connect_def split: Option.bind_splits)
  obtain jcls j1 where c: "GetObjectClass (audit_jvm J) jself (machine (d_native s)) = (jcls, j1)" by (metis surj_pair)
  obtain st d' j2 where m: "connect_director (audit_jvm J) K jself jcls own weak (d_statics s K) d j1 = (st, d', j2)"
    by (metis surj_pair)
  obtain n k sig where m': "swig_connect_director (audit_jvm J) n k sig jself jcls own weak (d_statics s K) d j1 = (st, d', j2)"
    using connect_statics [OF m] by blast
  let ?G = "held_by held_globals ((objects (d_native s))(a := None))"
  let ?W = "held_by held_weaks ((objects (d_native s))(a := None)) + lost"
  have s': "s' = s\<lparr>d_native := put_object a (K, d') ((d_native s)\<lparr>machine := j2\<rparr>), d_statics := (d_statics s)(K := st)\<rparr>"
    using assms(2) a c m by (simp add: director_connect_def)
  have "calm (machine (d_native s)) j1" using c by (rule calm_found)
  with director_balanced [OF assms(1) a(2)] have b: "wrapper_balanced (module_refs s + ?G) ?W (swig_self d) (snd j1)"
    by (rule balanced_calm)
  obtain R where R: "module_refs s = R + class_ref (d_statics s K)" "module_refs s' = R + class_ref st"
    by (cases K) (auto simp: module_refs_def s' ac_simps)
  have "wrapper_balanced (R + ?G + class_ref st) ?W (swig_self d') (snd j2)"
    by (rule connect_balanced [OF m']) (use b R(1) in \<open>simp add: ac_simps\<close>)
  with R(2) have "wrapper_balanced (module_refs s' + ?G) ?W (swig_self d') (snd (machine (d_native s')))"
    by (simp add: s' put_object_def ac_simps)
  then show ?thesis by (rule put_director_ok [OF assms(1) a(2)]) (simp_all add: s' put_object_def)
qed

lemma change_ownership_ok:
  assumes "directors_ok lost s" "change_ownership (audit_jvm J) K jself p own s = Some s'"
  shows "directors_ok lost s'"
proof (cases p)
  case None
  with assms show ?thesis by (simp add: change_ownership_def)
next
  case (Some a)
  with assms(2) obtain d where d: "director_at K a s = Some d"
    by (auto simp: change_ownership_def split: Option.bind_splits)
  obtain w j1 where w: "java_change_ownership (audit_jvm J) jself own (swig_self d) (machine (d_native s)) = (w, j1)"
    by (metis surj_pair)
  have s': "s' = s\<lparr>d_native := put_object a (K, d\<lparr>swig_self := w\<rparr>) ((d_native s)\<lparr>machine := j1\<rparr>)\<rparr>"
    using assms(2) Some d w by (simp add: change_ownership_def)
  have "wrapper_step (audit_jvm J) (W_change_ownership jself own) (swig_self d, machine (d_native s)) = (w, j1)"
    by (simp add: w)
  from wrapper_step_balanced [OF this director_balanced [OF assms(1) d]] show ?thesis
    by (intro put_director_ok [OF assms(1) d, of s' "d\<lparr>swig_self := w\<rparr>" K]) (simp_all add: s' put_object_def module_refs_def)
qed

text \<open>The weak references a call leaves behind: that of a director it deletes when its Java object is gone.\<close>

definition abandoned :: "'j jvm \<Rightarrow> director_call \<Rightarrow> 'j directors \<Rightarrow> jref multiset" where
  "abandoned J c s = (case c of
      Delete_director K (Some a) \<Rightarrow> (case director_at K a s of
          None \<Rightarrow> {#}
        | Some d \<Rightarrow> left_behind J (swig_self d)
            (swig_disconnect_director_self J ''swigDirectorDisconnect'' d (machine (d_native s))))
    | _ \<Rightarrow> {#})"

fun abandoned_in :: "'j jvm \<Rightarrow> director_call list \<Rightarrow> 'j directors \<Rightarrow> jref multiset" where
  "abandoned_in J [] s = {#}"
| "abandoned_in J (c # cs) s =
     abandoned J c s + (case director_step J c s of None \<Rightarrow> {#} | Some s1 \<Rightarrow> abandoned_in J cs s1)"

lemma abandoned_present: "present J \<Longrightarrow> abandoned_in (audit_jvm J) cs s = {#}"
  by (induction cs arbitrary: s)
    (auto simp: abandoned_def left_behind_present split: director_call.splits option.splits)

lemma delete_ok:
  assumes "directors_ok lost s" "delete_director_object (audit_jvm J) K p s = Some s'"
  shows "directors_ok (lost + abandoned (audit_jvm J) (Delete_director K p) s) s'"
proof (cases p)
  case None
  with assms show ?thesis by (simp add: delete_director_object_def abandoned_def)
next
  case (Some a)
  with assms(2) obtain d where d: "director_at K a s = Some d"
    by (auto simp: delete_director_object_def split: Option.bind_splits)
  let ?j1 = "swig_disconnect_director_self (audit_jvm J) ''swigDirectorDisconnect'' d (machine (d_native s))"
  let ?left = "left_behind (audit_jvm J) (swig_self d) ?j1"
  obtain w j2 where w: "wrapper_release (audit_jvm J) (swig_self d) ?j1 = (w, j2)" by (metis surj_pair)
  have s': "s' = s\<lparr>d_native := (d_native s)\<lparr>objects := (objects (d_native s))(a := None), machine := j2\<rparr>\<rparr>"
    using assms(2) Some d w by (simp add: delete_director_object_def delete_director_def Let_def)
  have "wrapper_step (audit_jvm J) W_release (swig_self d, ?j1) = (w, j2)" by (simp add: w)
  from wrapper_step_balanced [OF this balanced_calm [OF director_balanced [OF assms(1) d] calm_disconnect]]
  have "wrapper_balanced (module_refs s + held_by held_globals ((objects (d_native s))(a := None)))
      (held_by held_weaks ((objects (d_native s))(a := None)) + lost + ?left) w (snd j2)" by simp
  moreover have "held_globals w = {#}" "held_weaks w = {#}"
    using w by (auto simp: wrapper_release_def held_globals_def held_weaks_def)
  moreover have "abandoned (audit_jvm J) (Delete_director K p) s = ?left" by (simp add: abandoned_def Some d)
  ultimately show ?thesis using assms(1)
    by (auto simp: directors_ok_def wrapper_balanced_def s' module_refs_def ac_simps)
qed

lemma upcall_ok:
  assumes "directors_ok lost s"
  shows "alert_notify_callback_on_alert (audit_jvm J) p s = Some s' \<Longrightarrow> directors_ok lost s'"
    "alert_notify_callback_on_alert_explicit p s = Some s' \<Longrightarrow> directors_ok lost s'"
    "set_piece_hashes_listener_progress (audit_jvm J) p n s = Some s' \<Longrightarrow> directors_ok lost s'"
    "set_piece_hashes_listener_progress_explicit p n s = Some s' \<Longrightarrow> directors_ok lost s'"
  using assms
  by (auto simp: alert_notify_callback_on_alert_def alert_notify_callback_on_alert_explicit_def
      set_piece_hashes_listener_progress_def set_piece_hashes_listener_progress_explicit_def
      intro!: end_upcall_ok calm_upcalls calm_directors split: Option.bind_splits)

lemma pred_ok:
  assumes "directors_ok lost s"
  shows "list_files_listener_pred (audit_jvm J) p r s = Some (x, s') \<Longrightarrow> directors_ok lost s'"
    "list_files_listener_pred_explicit (audit_jvm J) p r s = Some (x, s') \<Longrightarrow> directors_ok lost s'"
proof -
  obtain str n where r: "read_string (audit_jvm J) r (d_native s) = (str, n)" by (metis surj_pair)
  have ok: "directors_ok lost (s\<lparr>d_native := n\<rparr>)" by (rule read_string_ok [OF assms r])
  show "directors_ok lost s'" if "list_files_listener_pred (audit_jvm J) p r s = Some (x, s')"
  proof (cases str)
    case None
    with that ok show ?thesis by (simp add: list_files_listener_pred_def r)
  next
    case (Some q)
    with that obtain d where "end_upcall (audit_jvm J) False (pred_listener (audit_jvm J) (jclass_libtorrent_jni s)
        (director_method_ids s ! 1) base_pred d q (machine n)) (s\<lparr>d_native := n\<rparr>) = (x, s')"
      by (auto simp: list_files_listener_pred_def r Let_def split: Option.bind_splits)
    with end_upcall_ok [OF ok, of "pred_listener (audit_jvm J) (jclass_libtorrent_jni s)
        (director_method_ids s ! 1) base_pred d q (machine n)" J False] calm_upcalls(2) [of "machine n"] show ?thesis by simp
  qed
  show "list_files_listener_pred_explicit (audit_jvm J) p r s = Some (x, s') \<Longrightarrow> directors_ok lost s'"
    using ok calm_directors [OF ok, of "machine n"]
    by (auto simp: list_files_listener_pred_explicit_def r base_pred_def Let_def split: option.splits Option.bind_splits)
qed

lemma director_step_ok:
  assumes "directors_ok lost s" "director_step (audit_jvm J) c s = Some s'"
  shows "directors_ok (lost + abandoned (audit_jvm J) c s) s'"
proof (cases "\<exists>K p. c = Delete_director K p")
  case True
  with assms delete_ok [OF assms(1)] show ?thesis by (auto simp: director_step_def)
next
  case False
  then have "abandoned (audit_jvm J) c s = {#}" by (cases c) (auto simp: abandoned_def)
  moreover have "directors_ok lost s'"
    using assms(2) False
    by (cases c) (auto simp: director_step_def intro: make_ok [OF assms(1)] upcall_ok [OF assms(1)] pred_ok [OF assms(1)]
      dest: connect_ok [OF assms(1)] change_ownership_ok [OF assms(1)])
  ultimately show ?thesis by simp
qed

lemma run_directors_ok:
  assumes "run_directors (audit_jvm J) cs s = Some s'" "directors_ok lost s"
  shows "directors_ok (lost + abandoned_in (audit_jvm J) cs s) s'"
  using assms
proof (induction cs arbitrary: s lost)
  case (Cons c cs)
  then obtain s1 where s1: "director_step (audit_jvm J) c s = Some s1" "run_directors (audit_jvm J) cs s1 = Some s'"
    by (auto split: Option.bind_splits)
  from Cons.IH [OF s1(2) director_step_ok [OF Cons.prems(2) s1(1)]] s1(1) show ?case by (simp add: ac_simps)
qed simp

lemma find_methods_calm:
  "find_methods (audit_jvm J) c ms i ids j = (ids', j') \<Longrightarrow> calm j j'"
proof (induction ms arbitrary: i ids j)
  case (Cons m ms)
  obtain name sig where m: "m = (name, sig)" by (cases m)
  obtain k j1 where k: "GetStaticMethodID (audit_jvm J) c name sig j = (k, j1)" by (metis surj_pair)
  then have j1: "calm j j1" by (metis calm_calls(12) calm_refl snd_conv)
  show ?case
  proof (cases "k = 0")
    case True
    with Cons.prems m k j1 show ?thesis by simp
  next
    case False
    with Cons.prems m k have "find_methods (audit_jvm J) c ms (Suc i) (ids[i := k]) j1 = (ids', j')" by simp
    from calm_trans [OF j1 Cons.IH [OF this]] show ?thesis .
  qed
qed simp

lemma module_init_ok: "directors_ok {#} (swig_module_init (audit_jvm J) jcls (loaded (v, [])))"
proof -
  obtain r j1 where r: "NewGlobalRef (audit_jvm J) jcls (v, []) = (r, j1)" by (metis surj_pair)
  then have tr: "snd j1 = if_ref J_global r" by (auto simp: audit_jvm_def noted_eq)
  have ok: "directors_ok {#} (with_machine j1 (loaded (v, []) \<lparr>jclass_libtorrent_jni := r\<rparr>))"
    using tr by (simp add: directors_ok_def loaded_def module_refs_def class_ref_def a_ref_def if_ref_def with_machine_def)
  obtain ids j2 where m: "find_methods (audit_jvm J) jcls upcall_methods 0 [0, 0, 0] j1 = (ids, j2)" by (metis surj_pair)
  have "calm j1 j2" by (rule find_methods_calm [OF m])
  with ok have "directors_ok {#} (with_machine j2 (loaded (v, []) \<lparr>jclass_libtorrent_jni := r, director_method_ids := ids\<rparr>))"
    by (simp add: directors_ok_def calm_def module_refs_def with_machine_def)
  with ok r m show ?thesis by (cases "r = 0") (simp_all add: swig_module_init_def loaded_def Let_def with_machine_def)
qed

text \<open>Calls that are defined: those at directors that live, and the ones that allow null at null.\<close>

definition aims_at :: "director_call \<Rightarrow> 'j directors \<Rightarrow> bool" where
  "aims_at c s = (let live = (\<lambda>K p. case p of None \<Rightarrow> False | Some a \<Rightarrow> director_at K a s \<noteq> None)
     in case c of
       Make K \<Rightarrow> True
     | Connect K jself p mem_own weak \<Rightarrow> live K p
     | Change_ownership K jself p take_or_release \<Rightarrow> p = None \<or> live K p
     | On_alert p \<Rightarrow> live Alert_notify_callback p
     | On_alert_explicit p \<Rightarrow> live Alert_notify_callback p
     | Pred p r \<Rightarrow> r = 0 \<or> live List_files_listener p
     | Pred_explicit p r \<Rightarrow> r = 0 \<or> live List_files_listener p
     | Progress p n \<Rightarrow> live Set_piece_hashes_listener p
     | Progress_explicit p n \<Rightarrow> live Set_piece_hashes_listener p
     | Delete_director K p \<Rightarrow> p = None \<or> live K p)"

lemma read_string_director_at:
  "read_string J r (d_native s) = (str, n) \<Longrightarrow> director_at K a (s\<lparr>d_native := n\<rparr>) = director_at K a s"
  by (auto simp: director_at_def read_string_def raise_def Let_def split: if_splits option.splits prod.splits)

lemma read_string_refused: "read_string J 0 n = (str, n1) \<Longrightarrow> str = None"
  by (simp add: read_string_def)

lemma pred_defined:
  assumes "r = 0 \<or> (\<exists>a d. p = Some a \<and> director_at List_files_listener a s = Some d)"
  shows "list_files_listener_pred J p r s \<noteq> None" "list_files_listener_pred_explicit J p r s \<noteq> None"
proof -
  obtain str n where r: "read_string J r (d_native s) = (str, n)" by (metis surj_pair)
  show "list_files_listener_pred J p r s \<noteq> None" "list_files_listener_pred_explicit J p r s \<noteq> None"
    using assms r read_string_director_at [OF r] read_string_refused [of J "d_native s" str n]
    by (auto simp: list_files_listener_pred_def list_files_listener_pred_explicit_def base_pred_def Let_def split: option.splits)
qed

lemma director_step_defined:
  assumes "aims_at c s"
  shows "director_step J c s \<noteq> None"
proof (cases c)
  case (Pred p r)
  with assms pred_defined(1) [of r p s J] show ?thesis
    by (auto simp: aims_at_def director_step_def split: option.splits)
next
  case (Pred_explicit p r)
  with assms pred_defined(2) [of r p s J] show ?thesis
    by (auto simp: aims_at_def director_step_def split: option.splits)
qed (use assms in \<open>auto simp: aims_at_def director_step_def director_connect_def change_ownership_def
  alert_notify_callback_on_alert_def alert_notify_callback_on_alert_explicit_def delete_director_object_def
  set_piece_hashes_listener_progress_def set_piece_hashes_listener_progress_explicit_def Let_def
  split: option.splits prod.splits\<close>)

text \<open>C27. The references of directors: whatever sequence of exported methods Java calls after the module was loaded, the
  global references that are live are the module's and the strong references of the live directors, and none but live
  ones were deleted. The weak references that are live are those of the live directors and, the one way to leave some
  behind, those of the directors that were deleted after their Java object had been collected; so none are left over as
  long as no object is collected. A call at a live director never fails. Local references, which the machine
  frees when a native method returns, are not counted.\<close>

theorem director_references_balanced:
  assumes "run_directors (audit_jvm J) calls (swig_module_init (audit_jvm J) jcls (loaded (v, []))) = Some s"
    and "left = abandoned_in (audit_jvm J) calls (swig_module_init (audit_jvm J) jcls (loaded (v, [])))"
  shows "mset (live_globals (snd (machine (d_native s)))) = module_refs s + held_by held_globals (objects (d_native s))
    \<and> mset (live_weaks (snd (machine (d_native s)))) = held_by held_weaks (objects (d_native s)) + left
    \<and> deletes_live (snd (machine (d_native s)))
    \<and> (dom (objects (d_native s)) = {} \<longrightarrow> mset (live_weaks (snd (machine (d_native s)))) = left
         \<and> mset (live_globals (snd (machine (d_native s)))) = module_refs s)
    \<and> (present J \<longrightarrow> left = {#})
    \<and> (\<forall>c. aims_at c s \<longrightarrow> director_step (audit_jvm J) c s \<noteq> None)"
proof -
  have "directors_ok ({#} + left) s" unfolding assms(2) by (rule run_directors_ok [OF assms(1) module_init_ok])
  with director_step_defined [of _ s "audit_jvm J"] abandoned_present [of J] assms(2) show ?thesis
    by (auto simp: directors_ok_def)
qed

text \<open>A machine on which every object has been collected: the reference of the deleted director stays.\<close>

definition collecting_jvm :: "unit jvm" where
  "collecting_jvm = plain_jvm\<lparr>IsSameObject := (\<lambda>a b j. True)\<rparr>"

definition leaking_calls :: "director_call list" where
  "leaking_calls = [Make Alert_notify_callback, Connect Alert_notify_callback 1 (Some 1) True True,
     Delete_director Alert_notify_callback (Some 1)]"

theorem director_references_balanced_witness:
  "\<exists>s. run_directors (audit_jvm collecting_jvm) leaking_calls (swig_module_init (audit_jvm collecting_jvm) 1 (loaded ((), []))) = Some s
    \<and> objects (d_native s) = Map.empty \<and> live_weaks (snd (machine (d_native s))) = [1]
    \<and> mset (live_globals (snd (machine (d_native s)))) = module_refs s"
proof -
  have "\<exists>s. run_directors (audit_jvm collecting_jvm) leaking_calls (swig_module_init (audit_jvm collecting_jvm) 1 (loaded ((), []))) = Some s
     \<and> objects (d_native s) = Map.empty \<and> live_weaks (snd (machine (d_native s))) = [1]"
    by (simp add: leaking_calls_def swig_module_init_def loaded_def upcall_methods_def director_step_def new_director_object_def
      new_object_def new_director_def wrapper_init_def director_connect_def director_at_def connect_director_def
      alert_notify_callback_connect_def swig_connect_director_def swig_new_global_ref_def wrapper_set_def put_object_def
      delete_director_object_def delete_director_def swig_disconnect_director_self_def wrapper_get_def wrapper_release_def
      guard_release_def with_machine_def audit_jvm_def collecting_jvm_def plain_jvm_def noted_def if_ref_def)
  then obtain s where s: "run_directors (audit_jvm collecting_jvm) leaking_calls
      (swig_module_init (audit_jvm collecting_jvm) 1 (loaded ((), []))) = Some s"
    "objects (d_native s) = Map.empty" "live_weaks (snd (machine (d_native s))) = [1]" by blast
  from director_references_balanced [OF s(1) refl] s show ?thesis by auto
qed

end
