(* ===== verification/Value_Vector.thy ===== *)
theory Value_Vector
  imports Object_Vector
begin

text \<open>
  The native methods behind the Java vectors of plain values (\<^verbatim>\<open>int_vector\<close>, \<^verbatim>\<open>int64_vector\<close>, \<^verbatim>\<open>byte_vector\<close>,
  \<^verbatim>\<open>bool_vector\<close>, and \<^verbatim>\<open>alert_ptr_vector\<close>, whose elements are addresses). Arguments and results are cast between the
  Java type and the element type (\<open>arg\<close> and \<open>ret\<close>, \<open>zero\<close> for the result of a call that failed); nothing
  can be null but the vector to copy.
\<close>

type_synonym ('e, 'j) value_native = "('e cvec, 'j) native"

definition new_value_vector_0 :: "('e, 'j) value_native \<Rightarrow> (nat \<times> ('e, 'j) value_native) option" where
  "new_value_vector_0 s = Some (new_object \<lparr>elems = [], capacity = 0\<rparr> s)"

definition new_value_vector_1 :: "'j jvm \<Rightarrow> string \<Rightarrow> nat \<Rightarrow> ('e, 'j) value_native \<Rightarrow> (nat \<times> ('e, 'j) value_native) option" where
  "new_value_vector_1 J T p s =
     (if p = 0 then Some (0, raise J (null_error (vector_name T)) s)
      else do {
        v \<leftarrow> objects s p;
        Some (new_object \<lparr>elems = elems v, capacity = length (elems v)\<rparr> s)
      })"

definition value_vector_isEmpty :: "nat \<Rightarrow> ('e, 'j) value_native \<Rightarrow> (bool \<times> ('e, 'j) value_native) option" where
  "value_vector_isEmpty p s = do { v \<leftarrow> objects s p; Some (elems v = [], s) }"

definition value_vector_clear :: "nat \<Rightarrow> ('e, 'j) value_native \<Rightarrow> ('e, 'j) value_native option" where
  "value_vector_clear p s = do { v \<leftarrow> objects s p; Some (put_object p (v\<lparr>elems := []\<rparr>) s) }"

definition new_value_vector_2 ::
  "'j jvm \<Rightarrow> ('v \<Rightarrow> 'e) \<Rightarrow> 'e vector_class \<Rightarrow> jint \<Rightarrow> 'v \<Rightarrow> ('e, 'j) value_native \<Rightarrow> (nat \<times> ('e, 'j) value_native) option" where
  "new_value_vector_2 J arg C n x s =
     (case vc_new C n (arg x) of
        Inl e \<Rightarrow> Some (0, raise J (catch_range e) s)
      | Inr v \<Rightarrow> Some (new_object v s))"

definition value_vector_doCapacity ::
  "'j jvm \<Rightarrow> 'e vector_class \<Rightarrow> nat \<Rightarrow> ('e, 'j) value_native \<Rightarrow> (jint \<times> ('e, 'j) value_native) option" where
  "value_vector_doCapacity J C p s = do {
     v \<leftarrow> objects s p;
     (case vc_capacity C v of
        Inl e \<Rightarrow> Some (0, raise J (catch_range e) s)
      | Inr n \<Rightarrow> Some (n, s)) }"

definition value_vector_doReserve ::
  "'j jvm \<Rightarrow> 'e vector_class \<Rightarrow> nat \<Rightarrow> jint \<Rightarrow> ('e, 'j) value_native \<Rightarrow> ('e, 'j) value_native option" where
  "value_vector_doReserve J C p n s = do {
     v \<leftarrow> objects s p;
     (case vc_reserve C n v of
        Inl e \<Rightarrow> Some (raise J (catch_length_range e) s)
      | Inr v' \<Rightarrow> Some (put_object p v' s)) }"

definition value_vector_doSize ::
  "'j jvm \<Rightarrow> 'e vector_class \<Rightarrow> nat \<Rightarrow> ('e, 'j) value_native \<Rightarrow> (jint \<times> ('e, 'j) value_native) option" where
  "value_vector_doSize J C p s = do {
     v \<leftarrow> objects s p;
     (case vc_size C v of
        Inl e \<Rightarrow> Some (0, raise J (catch_range e) s)
      | Inr n \<Rightarrow> Some (n, s)) }"

definition value_vector_doAdd_0 ::
  "('v \<Rightarrow> 'e) \<Rightarrow> 'e vector_class \<Rightarrow> nat \<Rightarrow> 'v \<Rightarrow> ('e, 'j) value_native \<Rightarrow> ('e, 'j) value_native option" where
  "value_vector_doAdd_0 arg C p x s = do { v \<leftarrow> objects s p; Some (put_object p (vc_add C (arg x) v) s) }"

definition value_vector_doAdd_1 ::
  "'j jvm \<Rightarrow> ('v \<Rightarrow> 'e) \<Rightarrow> 'e vector_class \<Rightarrow> nat \<Rightarrow> jint \<Rightarrow> 'v \<Rightarrow> ('e, 'j) value_native \<Rightarrow> ('e, 'j) value_native option" where
  "value_vector_doAdd_1 J arg C p index x s = do {
     v \<leftarrow> objects s p;
     (case vc_add_at C index (arg x) v of
        Inl e \<Rightarrow> Some (raise J (catch_range e) s)
      | Inr v' \<Rightarrow> Some (put_object p v' s)) }"

definition value_vector_doRemove ::
  "'j jvm \<Rightarrow> ('e \<Rightarrow> 'v) \<Rightarrow> 'v \<Rightarrow> 'e vector_class \<Rightarrow> nat \<Rightarrow> jint \<Rightarrow> ('e, 'j) value_native \<Rightarrow> ('v \<times> ('e, 'j) value_native) option" where
  "value_vector_doRemove J ret zero C p index s = do {
     v \<leftarrow> objects s p;
     (case vc_remove C index v of
        Inl e \<Rightarrow> Some (zero, raise J (catch_range e) s)
      | Inr (x, v') \<Rightarrow> Some (ret x, put_object p v' s)) }"

definition value_vector_doGet ::
  "'j jvm \<Rightarrow> ('e \<Rightarrow> 'v) \<Rightarrow> 'v \<Rightarrow> 'e vector_class \<Rightarrow> nat \<Rightarrow> jint \<Rightarrow> ('e, 'j) value_native \<Rightarrow> ('v \<times> ('e, 'j) value_native) option" where
  "value_vector_doGet J ret zero C p index s = do {
     v \<leftarrow> objects s p;
     (case vc_get C index v of
        Inl e \<Rightarrow> Some (zero, raise J (catch_range e) s)
      | Inr x \<Rightarrow> Some (ret x, s)) }"

definition value_vector_doSet ::
  "'j jvm \<Rightarrow> ('v \<Rightarrow> 'e) \<Rightarrow> ('e \<Rightarrow> 'v) \<Rightarrow> 'v \<Rightarrow> 'e vector_class \<Rightarrow> nat \<Rightarrow> jint \<Rightarrow> 'v \<Rightarrow> ('e, 'j) value_native
     \<Rightarrow> ('v \<times> ('e, 'j) value_native) option" where
  "value_vector_doSet J arg ret zero C p index x s = do {
     v \<leftarrow> objects s p;
     (case vc_set C index (arg x) v of
        Inl e \<Rightarrow> Some (zero, raise J (catch_range e) s)
      | Inr (y, v') \<Rightarrow> Some (ret y, put_object p v' s)) }"

definition value_vector_doRemoveRange ::
  "'j jvm \<Rightarrow> 'e vector_class \<Rightarrow> nat \<Rightarrow> jint \<Rightarrow> jint \<Rightarrow> ('e, 'j) value_native \<Rightarrow> ('e, 'j) value_native option" where
  "value_vector_doRemoveRange J C p fromIndex toIndex s = do {
     v \<leftarrow> objects s p;
     (case vc_remove_range C fromIndex toIndex v of
        Inl e \<Rightarrow> Some (raise J (catch_range e) s)
      | Inr v' \<Rightarrow> Some (put_object p v' s)) }"

definition delete_value_vector :: "nat \<Rightarrow> ('e, 'j) value_native \<Rightarrow> ('e, 'j) value_native option" where
  "delete_value_vector p s =
     (if p = 0 then Some s
      else do { v \<leftarrow> objects s p; Some (s\<lparr>objects := (objects s)(p := None)\<rparr>) })"

text \<open>The methods of one vector class.\<close>

record ('v, 'e, 'j) value_vector_class =
  pc_new_0 :: "('e, 'j) value_native \<Rightarrow> (nat \<times> ('e, 'j) value_native) option"
  pc_new_1 :: "nat \<Rightarrow> ('e, 'j) value_native \<Rightarrow> (nat \<times> ('e, 'j) value_native) option"
  pc_isEmpty :: "nat \<Rightarrow> ('e, 'j) value_native \<Rightarrow> (bool \<times> ('e, 'j) value_native) option"
  pc_clear :: "nat \<Rightarrow> ('e, 'j) value_native \<Rightarrow> ('e, 'j) value_native option"
  pc_new_2 :: "jint \<Rightarrow> 'v \<Rightarrow> ('e, 'j) value_native \<Rightarrow> (nat \<times> ('e, 'j) value_native) option"
  pc_doCapacity :: "nat \<Rightarrow> ('e, 'j) value_native \<Rightarrow> (jint \<times> ('e, 'j) value_native) option"
  pc_doReserve :: "nat \<Rightarrow> jint \<Rightarrow> ('e, 'j) value_native \<Rightarrow> ('e, 'j) value_native option"
  pc_doSize :: "nat \<Rightarrow> ('e, 'j) value_native \<Rightarrow> (jint \<times> ('e, 'j) value_native) option"
  pc_doAdd_0 :: "nat \<Rightarrow> 'v \<Rightarrow> ('e, 'j) value_native \<Rightarrow> ('e, 'j) value_native option"
  pc_doAdd_1 :: "nat \<Rightarrow> jint \<Rightarrow> 'v \<Rightarrow> ('e, 'j) value_native \<Rightarrow> ('e, 'j) value_native option"
  pc_doRemove :: "nat \<Rightarrow> jint \<Rightarrow> ('e, 'j) value_native \<Rightarrow> ('v \<times> ('e, 'j) value_native) option"
  pc_doGet :: "nat \<Rightarrow> jint \<Rightarrow> ('e, 'j) value_native \<Rightarrow> ('v \<times> ('e, 'j) value_native) option"
  pc_doSet :: "nat \<Rightarrow> jint \<Rightarrow> 'v \<Rightarrow> ('e, 'j) value_native \<Rightarrow> ('v \<times> ('e, 'j) value_native) option"
  pc_doRemoveRange :: "nat \<Rightarrow> jint \<Rightarrow> jint \<Rightarrow> ('e, 'j) value_native \<Rightarrow> ('e, 'j) value_native option"
  pc_delete :: "nat \<Rightarrow> ('e, 'j) value_native \<Rightarrow> ('e, 'j) value_native option"

definition value_vector ::
  "'j jvm \<Rightarrow> string \<Rightarrow> ('v \<Rightarrow> 'e) \<Rightarrow> ('e \<Rightarrow> 'v) \<Rightarrow> 'v \<Rightarrow> 'e vector_class \<Rightarrow> ('v, 'e, 'j) value_vector_class" where
  "value_vector J T arg ret zero C = \<lparr>
     pc_new_0 = new_value_vector_0, pc_new_1 = new_value_vector_1 J T, pc_isEmpty = value_vector_isEmpty,
     pc_clear = value_vector_clear, pc_new_2 = new_value_vector_2 J arg C, pc_doCapacity = value_vector_doCapacity J C,
     pc_doReserve = value_vector_doReserve J C, pc_doSize = value_vector_doSize J C,
     pc_doAdd_0 = value_vector_doAdd_0 arg C, pc_doAdd_1 = value_vector_doAdd_1 J arg C,
     pc_doRemove = value_vector_doRemove J ret zero C, pc_doGet = value_vector_doGet J ret zero C,
     pc_doSet = value_vector_doSet J arg ret zero C, pc_doRemoveRange = value_vector_doRemoveRange J C,
     pc_delete = delete_value_vector\<rparr>"

section \<open>What a method does\<close>

datatype 'v pv_result = Pv_void | Pv_int jint | Pv_value 'v

fun pv_method :: "('v, 'e, 'j) value_vector_class \<Rightarrow> nat \<Rightarrow> 'v vec_op \<Rightarrow> ('e, 'j) value_native \<Rightarrow>
    ('v pv_result \<times> ('e, 'j) value_native) option" where
  "pv_method M p (Op_reserve n) s = map_option (Pair Pv_void) (pc_doReserve M p n s)"
| "pv_method M p Op_size s = map_option (apfst Pv_int) (pc_doSize M p s)"
| "pv_method M p (Op_add x) s = map_option (Pair Pv_void) (pc_doAdd_0 M p x s)"
| "pv_method M p (Op_add_at i x) s = map_option (Pair Pv_void) (pc_doAdd_1 M p i x s)"
| "pv_method M p (Op_remove i) s = map_option (apfst Pv_value) (pc_doRemove M p i s)"
| "pv_method M p (Op_get i) s = map_option (apfst Pv_value) (pc_doGet M p i s)"
| "pv_method M p (Op_set i x) s = map_option (apfst Pv_value) (pc_doSet M p i x s)"
| "pv_method M p (Op_remove_range a b) s = map_option (Pair Pv_void) (pc_doRemoveRange M p a b s)"

definition value_returned :: "('e \<Rightarrow> 'v) \<Rightarrow> 'v \<Rightarrow> 'e vec_result \<Rightarrow> 'v pv_result \<Rightarrow> bool" where
  "value_returned ret zero r out \<longleftrightarrow> (case r of
       R_unit \<Rightarrow> out = Pv_void
     | R_size n \<Rightarrow> out = Pv_int n
     | R_elem x \<Rightarrow> out = Pv_value (ret x)
     | R_error e \<Rightarrow> out \<in> {Pv_void, Pv_int 0, Pv_value zero})"

lemma value_method_answer:
  assumes "objects s p = Some v" and "vec_call (std_vector grow) (map_vec_op arg oper) v = (r, v')"
  shows "\<exists>out s'. pv_method (value_vector (audit_jvm J) T arg ret zero (std_vector grow)) p oper s = Some (out, s')
    \<and> objects s' = (objects s)(p \<mapsto> v') \<and> value_returned ret zero r out
    \<and> answers r (thrown (jtrace_of s)) (thrown (jtrace_of s'))"
proof -
  have range: "range_exception e" if "r = R_error e" for e using helper_exceptions assms(2) that by blast
  show ?thesis
    using assms range
    by (cases oper)
      (auto simp: value_vector_def std_vector_def value_vector_doReserve_def value_vector_doSize_def value_vector_doAdd_0_def
        value_vector_doAdd_1_def value_vector_doRemove_def value_vector_doGet_def value_vector_doSet_def
        value_vector_doRemoveRange_def value_returned_def fun_upd_idem split: sum.splits)
qed

text \<open>
  A method called on a live vector does not crash, does what the list operation does, returns its result through
  the cast and leaves a Java exception exactly for an index error.
\<close>

theorem value_method_correct:
  assumes "objects s p = Some v" and "0 < vector_room v"
  shows "\<exists>out s' r v'. pv_method (value_vector (audit_jvm J) T arg ret zero (std_vector grow)) p oper s = Some (out, s')
    \<and> list_call (map_vec_op arg oper) (elems v) = (r, elems v') \<and> objects s' = (objects s)(p \<mapsto> v')
    \<and> value_returned ret zero r out \<and> answers r (thrown (jtrace_of s)) (thrown (jtrace_of s'))"
proof -
  obtain r v' where c: "vec_call (std_vector grow) (map_vec_op arg oper) v = (r, v')" by (metis surj_pair)
  from value_method_answer [OF assms(1) c] vec_call_spec [OF assms(2) c] show ?thesis by blast
qed

end
