(* ===== verification/Native_Vectors.thy ===== *)
theory Native_Vectors
  imports Value_Vector
begin

text \<open>
  The native methods of the vector classes of the binding, in the order of the generated code. The methods of
  a class are one template at its element type; only the name of the type in messages differs. The class of
  pairs of \<^verbatim>\<open>int\<close> and \<^verbatim>\<open>byte\<close> spells its element type in two ways.
\<close>

definition int_vector :: "'j jvm \<Rightarrow> (nat \<Rightarrow> nat \<Rightarrow> nat) \<Rightarrow> (jint, jint, 'j) value_vector_class" where
  "int_vector J grow = value_vector J ''int'' id id 0 (std_vector_int grow)"

definition int64_vector :: "'j jvm \<Rightarrow> (nat \<Rightarrow> nat \<Rightarrow> nat) \<Rightarrow> (64 word, 64 word, 'j) value_vector_class" where
  "int64_vector J grow = value_vector J ''long long'' id id 0 (std_vector_long_long grow)"

definition byte_vector :: "'j jvm \<Rightarrow> (nat \<Rightarrow> nat \<Rightarrow> nat) \<Rightarrow> (byte, byte, 'j) value_vector_class" where
  "byte_vector J grow = value_vector J ''std::int8_t'' id id 0 (std_vector_int8 grow)"

definition bool_vector :: "'j jvm \<Rightarrow> (nat \<Rightarrow> nat \<Rightarrow> nat) \<Rightarrow> (8 word, bool, 'j) value_vector_class" where
  "bool_vector J grow = value_vector J ''bool'' (\<lambda>b. b \<noteq> 0) (\<lambda>b. if b then 1 else 0) 0 (std_vector_bool grow)"

definition int_byte_pair_vector :: "'j jvm \<Rightarrow> (nat \<Rightarrow> nat \<Rightarrow> nat) \<Rightarrow> (jint \<times> byte, 'j) object_vector_class" where
  "int_byte_pair_vector J grow = (object_vector J ''std::pair< int,signed char >'' (std_vector_int_int8_pair grow))\<lparr>
     oc_new_1 := new_object_vector_1 J ''std::pair< int,std::int8_t >'', oc_new_2 := new_object_vector_2 J ''std::pair< int,std::int8_t >'' (std_vector_int_int8_pair grow)\<rparr>"

definition string_int_pair_vector :: "'j jvm \<Rightarrow> (nat \<Rightarrow> nat \<Rightarrow> nat) \<Rightarrow> (string \<times> jint, 'j) object_vector_class" where
  "string_int_pair_vector J grow = object_vector J ''std::pair< std::string,int >'' (std_vector_string_int_pair grow)"

definition string_string_pair_vector :: "'j jvm \<Rightarrow> (nat \<Rightarrow> nat \<Rightarrow> nat) \<Rightarrow> (string \<times> string, 'j) object_vector_class" where
  "string_string_pair_vector J grow = object_vector J ''std::pair< std::string,std::string >'' (std_vector_string_string_pair grow)"

definition tcp_endpoint_vector :: "'j jvm \<Rightarrow> (nat \<Rightarrow> nat \<Rightarrow> nat) \<Rightarrow> ('tcp_endpoint, 'j) object_vector_class" where
  "tcp_endpoint_vector J grow = object_vector J ''libtorrent::tcp::endpoint'' (std_vector_tcp_endpoint grow)"

definition udp_endpoint_vector :: "'j jvm \<Rightarrow> (nat \<Rightarrow> nat \<Rightarrow> nat) \<Rightarrow> ('udp_endpoint, 'j) object_vector_class" where
  "udp_endpoint_vector J grow = object_vector J ''libtorrent::udp::endpoint'' (std_vector_udp_endpoint grow)"

definition announce_endpoint_vector :: "'j jvm \<Rightarrow> (nat \<Rightarrow> nat \<Rightarrow> nat) \<Rightarrow> ('announce_endpoint, 'j) object_vector_class" where
  "announce_endpoint_vector J grow = object_vector J ''libtorrent::announce_endpoint'' (std_vector_announce_endpoint grow)"

definition announce_entry_vector :: "'j jvm \<Rightarrow> (nat \<Rightarrow> nat \<Rightarrow> nat) \<Rightarrow> ('announce_entry, 'j) object_vector_class" where
  "announce_entry_vector J grow = object_vector J ''libtorrent::announce_entry'' (std_vector_announce_entry grow)"

definition web_seed_entry_vector :: "'j jvm \<Rightarrow> (nat \<Rightarrow> nat \<Rightarrow> nat) \<Rightarrow> ('web_seed_entry, 'j) object_vector_class" where
  "web_seed_entry_vector J grow = object_vector J ''libtorrent::web_seed_entry'' (std_vector_web_seed_entry grow)"

definition file_slice_vector :: "'j jvm \<Rightarrow> (nat \<Rightarrow> nat \<Rightarrow> nat) \<Rightarrow> ('file_slice, 'j) object_vector_class" where
  "file_slice_vector J grow = object_vector J ''libtorrent::file_slice'' (std_vector_file_slice grow)"

definition piece_block_vector :: "'j jvm \<Rightarrow> (nat \<Rightarrow> nat \<Rightarrow> nat) \<Rightarrow> ('piece_block, 'j) object_vector_class" where
  "piece_block_vector J grow = object_vector J ''libtorrent::piece_block'' (std_vector_piece_block grow)"

definition torrent_status_vector :: "'j jvm \<Rightarrow> (nat \<Rightarrow> nat \<Rightarrow> nat) \<Rightarrow> ('torrent_status, 'j) object_vector_class" where
  "torrent_status_vector J grow = object_vector J ''libtorrent::torrent_status'' (std_vector_torrent_status grow)"

definition dht_lookup_vector :: "'j jvm \<Rightarrow> (nat \<Rightarrow> nat \<Rightarrow> nat) \<Rightarrow> ('dht_lookup, 'j) object_vector_class" where
  "dht_lookup_vector J grow = object_vector J ''libtorrent::dht_lookup'' (std_vector_dht_lookup grow)"

definition dht_routing_bucket_vector :: "'j jvm \<Rightarrow> (nat \<Rightarrow> nat \<Rightarrow> nat) \<Rightarrow> ('dht_routing_bucket, 'j) object_vector_class" where
  "dht_routing_bucket_vector J grow = object_vector J ''libtorrent::dht_routing_bucket'' (std_vector_dht_routing_bucket grow)"

definition entry_vector :: "'j jvm \<Rightarrow> (nat \<Rightarrow> nat \<Rightarrow> nat) \<Rightarrow> ('entry, 'j) object_vector_class" where
  "entry_vector J grow = object_vector J ''libtorrent::entry'' (std_vector_entry grow)"

definition partial_piece_info_vector :: "'j jvm \<Rightarrow> (nat \<Rightarrow> nat \<Rightarrow> nat) \<Rightarrow> ('partial_piece_info, 'j) object_vector_class" where
  "partial_piece_info_vector J grow = object_vector J ''libtorrent::partial_piece_info'' (std_vector_partial_piece_info grow)"

definition peer_info_vector :: "'j jvm \<Rightarrow> (nat \<Rightarrow> nat \<Rightarrow> nat) \<Rightarrow> ('peer_info, 'j) object_vector_class" where
  "peer_info_vector J grow = object_vector J ''libtorrent::peer_info'' (std_vector_peer_info grow)"

definition torrent_handle_vector :: "'j jvm \<Rightarrow> (nat \<Rightarrow> nat \<Rightarrow> nat) \<Rightarrow> ('torrent_handle, 'j) object_vector_class" where
  "torrent_handle_vector J grow = object_vector J ''libtorrent::torrent_handle'' (std_vector_torrent_handle grow)"

definition alert_ptr_vector :: "'j jvm \<Rightarrow> (nat \<Rightarrow> nat \<Rightarrow> nat) \<Rightarrow> (64 word, 64 word, 'j) value_vector_class" where
  "alert_ptr_vector J grow = value_vector J ''libtorrent::alert *'' id id 0 (std_vector_alert_ptr grow)"

definition stats_metric_vector :: "'j jvm \<Rightarrow> (nat \<Rightarrow> nat \<Rightarrow> nat) \<Rightarrow> ('stats_metric, 'j) object_vector_class" where
  "stats_metric_vector J grow = object_vector J ''libtorrent::stats_metric'' (std_vector_stats_metric grow)"

definition ip_interface_vector :: "'j jvm \<Rightarrow> (nat \<Rightarrow> nat \<Rightarrow> nat) \<Rightarrow> ('ip_interface, 'j) object_vector_class" where
  "ip_interface_vector J grow = object_vector J ''ip_interface'' (std_vector_ip_interface grow)"

definition ip_route_vector :: "'j jvm \<Rightarrow> (nat \<Rightarrow> nat \<Rightarrow> nat) \<Rightarrow> ('ip_route, 'j) object_vector_class" where
  "ip_route_vector J grow = object_vector J ''ip_route'' (std_vector_ip_route grow)"

definition create_file_entry_vector :: "'j jvm \<Rightarrow> (nat \<Rightarrow> nat \<Rightarrow> nat) \<Rightarrow> ('create_file_entry, 'j) object_vector_class" where
  "create_file_entry_vector J grow = object_vector J ''libtorrent::create_file_entry'' (std_vector_create_file_entry grow)"

definition block_info_vector :: "'j jvm \<Rightarrow> (nat \<Rightarrow> nat \<Rightarrow> nat) \<Rightarrow> ('block_info, 'j) object_vector_class" where
  "block_info_vector J grow = object_vector J ''libtorrent::block_info'' (std_vector_block_info grow)"

definition bitfield_vector :: "'j jvm \<Rightarrow> (nat \<Rightarrow> nat \<Rightarrow> nat) \<Rightarrow> ('bitfield, 'j) object_vector_class" where
  "bitfield_vector J grow = object_vector J ''libtorrent::bitfield'' (std_vector_bitfield grow)"

definition bool_vector_vector :: "'j jvm \<Rightarrow> (nat \<Rightarrow> nat \<Rightarrow> nat) \<Rightarrow> (bool cvec, 'j) object_vector_class" where
  "bool_vector_vector J grow = object_vector J ''std::vector< bool >'' (std_vector_bool_vector grow)"

definition sha256_hash_vector_vector :: "'j jvm \<Rightarrow> (nat \<Rightarrow> nat \<Rightarrow> nat) \<Rightarrow> ('digest cvec, 'j) object_vector_class" where
  "sha256_hash_vector_vector J grow = object_vector J ''std::vector< libtorrent::digest32< 256 > >'' (std_vector_digest32_256_vector grow)"

definition sha1_hash_udp_endpoint_pair_vector :: "'j jvm \<Rightarrow> (nat \<Rightarrow> nat \<Rightarrow> nat) \<Rightarrow> ('digest \<times> 'endpoint, 'j) object_vector_class" where
  "sha1_hash_udp_endpoint_pair_vector J grow = object_vector J ''std::pair< libtorrent::digest32< 160 >,libtorrent::udp::endpoint >'' (std_vector_digest32_160_udp_endpoint_pair grow)"

definition address_sha1_hash_pair_vector :: "'j jvm \<Rightarrow> (nat \<Rightarrow> nat \<Rightarrow> nat) \<Rightarrow> ('address \<times> 'digest, 'j) object_vector_class" where
  "address_sha1_hash_pair_vector J grow = object_vector J ''std::pair< libtorrent::address,libtorrent::digest32< 160 > >'' (std_vector_address_digest32_160_pair grow)"

definition sha1_hash_vector :: "'j jvm \<Rightarrow> (nat \<Rightarrow> nat \<Rightarrow> nat) \<Rightarrow> ('digest, 'j) object_vector_class" where
  "sha1_hash_vector J grow = object_vector J ''libtorrent::digest32< 160 >'' (std_vector_digest32_160 grow)"

definition sha256_hash_vector :: "'j jvm \<Rightarrow> (nat \<Rightarrow> nat \<Rightarrow> nat) \<Rightarrow> ('digest, 'j) object_vector_class" where
  "sha256_hash_vector J grow = object_vector J ''libtorrent::digest32< 256 >'' (std_vector_digest32_256 grow)"

end
