(* ===== verification/Saf_Storage.thy ===== *)
theory Saf_Storage
  imports Disk_IO
begin

text \<open>
  \<^verbatim>\<open>flow_saf_storage.cpp\<close>: the replacements for \<^verbatim>\<open>getentropy\<close> and \<^verbatim>\<open>memfd_create\<close> on old Android versions, and
  the function that installs the disk backend in the parameters of a session. The calls on
  \<^verbatim>\<open>/dev/urandom\<close> are a record of functions on a world; what they are documented to do is a locale.
\<close>

section \<open>getentropy\<close>

text \<open>The result of \<^verbatim>\<open>open\<close>: the \<^verbatim>\<open>errno\<close> of a negative result, or a descriptor.\<close>

datatype open_ret = Open_fail int | Opened int

record 'w random_source =
  rs_open :: "'w \<Rightarrow> open_ret \<times> 'w"
  rs_read :: "int \<Rightarrow> nat \<Rightarrow> 'w \<Rightarrow> read_ret \<times> 'w"
  rs_close :: "int \<Rightarrow> 'w \<Rightarrow> 'w"

text \<open>The \<^verbatim>\<open>do\<close> loop that opens the device.\<close>

partial_function (option) open_urandom :: "'w random_source \<Rightarrow> 'w \<Rightarrow> (open_ret \<times> 'w) option" where
  "open_urandom S w =
     (case rs_open S w of
        (Open_fail e, w') \<Rightarrow> if e = EINTR then open_urandom S w' else Some (Open_fail e, w')
      | (Opened d, w') \<Rightarrow> Some (Opened d, w'))"

text \<open>The \<^verbatim>\<open>while\<close> loop that reads: the error it ends with, if any, and the buffer.\<close>

partial_function (option) read_entropy ::
  "'w random_source \<Rightarrow> int \<Rightarrow> nat \<Rightarrow> nat \<Rightarrow> byte list \<Rightarrow> 'w \<Rightarrow> (int option \<times> byte list \<times> 'w) option" where
  "read_entropy S descriptor len consumed output w =
     (if consumed < len then
        (case rs_read S descriptor (len - consumed) w of
           (ReadGot bs, w') \<Rightarrow>
             if bs \<noteq> [] then read_entropy S descriptor len (consumed + length bs) (overwrite output consumed bs) w'
             else Some (Some EIO, output, w')
         | (ReadFail e, w') \<Rightarrow>
             if e = EINTR then read_entropy S descriptor len consumed output w'
             else Some (Some e, output, w'))
      else Some (None, output, w))"

text \<open>The result, the \<^verbatim>\<open>errno\<close> it sets, the buffer.\<close>

definition getentropy ::
  "'w random_source \<Rightarrow> byte list \<Rightarrow> nat \<Rightarrow> 'w \<Rightarrow> (int \<times> int option \<times> byte list \<times> 'w) option" where
  "getentropy S buffer len w =
     (if len > 256 then Some (- 1, Some EIO, buffer, w)
      else do {
        (opened, w1) \<leftarrow> open_urandom S w;
        (case opened of
           Open_fail e \<Rightarrow> Some (- 1, Some e, buffer, w1)
         | Opened descriptor \<Rightarrow> do {
             (read_error, output, w2) \<leftarrow> read_entropy S descriptor len 0 buffer w1;
             let w3 = rs_close S descriptor w2;
             Some (case read_error of None \<Rightarrow> (0, None, output, w3) | Some e \<Rightarrow> (- 1, Some e, output, w3))
           })
      })"

section \<open>memfd_create\<close>

abbreviation ENOSYS :: int where "ENOSYS \<equiv> 38"

text \<open>\<open>nr\<close> is the number of the system call where the headers define it.\<close>

definition memfd_create ::
  "nat option \<Rightarrow> (nat \<Rightarrow> string \<Rightarrow> 32 word \<Rightarrow> 'w \<Rightarrow> 64 word \<times> int option \<times> 'w) \<Rightarrow> string \<Rightarrow> 32 word \<Rightarrow> 'w
     \<Rightarrow> 32 word \<times> int option \<times> 'w" where
  "memfd_create nr syscall name flags w =
     (case nr of
        Some n \<Rightarrow> (let (r, errno, w') = syscall n name flags w in (ucast r, errno, w'))
      | None \<Rightarrow> (- 1, Some ENOSYS, w))"

section \<open>Installing the backend\<close>

text \<open>The parameters of a session, of which only the constructor of the disk backend matters here.\<close>

record 'w session_params =
  disk_io_constructor :: "int \<Rightarrow> storage_exception + 'w saf"

definition flow_set_saf_disk_io_constructor ::
  "('w, 'z) session_params_scheme \<Rightarrow> 'w option \<Rightarrow> storage_exception + ('w, 'z) session_params_scheme" where
  "flow_set_saf_disk_io_constructor params bridge =
     (case bridge of
        None \<Rightarrow> Inl (InvalidArgument ''Flow SAF disk I/O requires a non-null storage bridge'')
      | Some w \<Rightarrow> Inr (params\<lparr>disk_io_constructor :=
          (\<lambda>file_pool_size. flow_saf_disk_io_constructor file_pool_size (Some w))\<rparr>))"

section \<open>What getentropy relies on\<close>

text \<open>
  The device: \<open>drawn w\<close> are the bytes it has given so far, \<open>in_use w\<close> the descriptors that are open, and
  \<open>pending w\<close> bounds the interruptions to come.
\<close>

locale random_device =
  fixes S :: "'w random_source" and pending :: "'w \<Rightarrow> nat" and drawn :: "'w \<Rightarrow> byte list"
    and in_use :: "'w \<Rightarrow> int multiset"
  assumes open_fails: "rs_open S w = (Open_fail e, w') \<Longrightarrow> drawn w' = drawn w \<and> in_use w' = in_use w
      \<and> (e = EINTR \<longrightarrow> pending w' < pending w)"
    and open_succeeds: "rs_open S w = (Opened d, w') \<Longrightarrow> drawn w' = drawn w \<and> in_use w' = add_mset d (in_use w)"
    and read_fails: "rs_read S d n w = (ReadFail e, w') \<Longrightarrow> drawn w' = drawn w \<and> in_use w' = in_use w
      \<and> (e = EINTR \<longrightarrow> pending w' < pending w)"
    and read_succeeds: "rs_read S d n w = (ReadGot bs, w') \<Longrightarrow> length bs \<le> n \<and> drawn w' = drawn w @ bs \<and> in_use w' = in_use w"
    and closes: "d \<in># in_use w \<Longrightarrow> in_use (rs_close S d w) = in_use w - {#d#} \<and> drawn (rs_close S d w) = drawn w"
begin

lemma open_urandom_result:
  "\<exists>r w'. open_urandom S w = Some (r, w') \<and> drawn w' = drawn w
    \<and> in_use w' = (case r of Open_fail e \<Rightarrow> in_use w | Opened d \<Rightarrow> add_mset d (in_use w))"
proof (induction "pending w" arbitrary: w rule: less_induct)
  case less
  obtain r w1 where r: "rs_open S w = (r, w1)" by (metis surj_pair)
  show ?case
  proof (cases r)
    case (Open_fail e)
    note same = open_fails [OF r [unfolded Open_fail]]
    show ?thesis
    proof (cases "e = EINTR")
      case True
      with same less [of w1] obtain r' w' where "open_urandom S w1 = Some (r', w')" "drawn w' = drawn w1"
        "in_use w' = (case r' of Open_fail e \<Rightarrow> in_use w1 | Opened d \<Rightarrow> add_mset d (in_use w1))" by blast
      with same r Open_fail True show ?thesis
        by (subst open_urandom.simps) (simp split: open_ret.splits)
    next
      case False
      with same r Open_fail show ?thesis by (subst open_urandom.simps) simp
    qed
  next
    case (Opened d)
    with r open_succeeds [of w d w1] show ?thesis by (subst open_urandom.simps) simp
  qed
qed

text \<open>The loop fills the rest of the buffer with the next bytes of the device, or stops with an error.\<close>

lemma read_entropy_result:
  assumes "consumed \<le> len" "len \<le> length buf"
  shows "\<exists>err out w'. read_entropy S d len consumed buf w = Some (err, out, w') \<and> in_use w' = in_use w
    \<and> length out = length buf \<and> drop len out = drop len buf \<and> take consumed out = take consumed buf
    \<and> (err = None \<longrightarrow> drawn w' = drawn w @ take (len - consumed) (drop consumed out))"
  using assms
proof (induction "(len - consumed, pending w)" arbitrary: consumed buf w
    rule: wf_induct_rule [OF wf_lex_prod [OF wf_less_than wf_less_than]])
  case 1
  note IH = "1.hyps" and prems = "1.prems"
  show ?case
  proof (cases "consumed < len")
    case False
    with prems show ?thesis by (subst read_entropy.simps) simp
  next
    case inside: True
    obtain r w1 where r: "rs_read S d (len - consumed) w = (r, w1)" by (metis surj_pair)
    show ?thesis
    proof (cases r)
      case (ReadFail e)
      with r read_fails [of d _ w e w1] IH [of consumed w1 buf] prems inside show ?thesis
        by (subst read_entropy.simps) auto
    next
      case (ReadGot bs)
      note got = read_succeeds [OF r [unfolded ReadGot]]
      show ?thesis
      proof (cases "bs = []")
        case True
        with r ReadGot got inside show ?thesis by (subst read_entropy.simps) auto
      next
        case False
        let ?out = "overwrite buf consumed bs" and ?c = "consumed + length bs"
        have fits: "?c \<le> len" using got inside by linarith
        then have same_length: "length ?out = length buf" using prems by simp
        have len: "?c \<le> len" "len \<le> length ?out" "length ?out = length buf"
          using fits same_length prems by simp_all
        have "((len - ?c, pending w1), len - consumed, pending w) \<in> less_than <*lex*> less_than"
          using False inside by (cases bs) auto
        from IH [OF this len(1,2)] obtain err out w' where
          rec: "read_entropy S d len ?c ?out w1 = Some (err, out, w')" "in_use w' = in_use w1"
            "length out = length buf" "drop len out = drop len ?out" "take ?c out = take ?c ?out"
            "err = None \<longrightarrow> drawn w' = drawn w1 @ take (len - ?c) (drop ?c out)" using len(3) by auto
        have "take ?c ?out = take consumed buf @ bs" "drop len ?out = drop len buf"
          using len prems inside by (simp_all add: overwrite_def)
        then have parts: "take ?c out = take consumed buf @ bs" "drop len out = drop len buf"
          using rec by simp_all
        have "take consumed (take ?c out) = take consumed (take consumed buf @ bs)" by (simp only: parts)
        then have "take consumed out = take consumed buf" using prems inside by simp
        moreover have "take (len - consumed) (drop consumed out) = bs @ take (len - ?c) (drop ?c out)"
        proof -
          have "take len out = take ?c out @ take (len - ?c) (drop ?c out)"
            using len(1) by (metis le_add_diff_inverse take_add)
          also have "\<dots> = take consumed buf @ bs @ take (len - ?c) (drop ?c out)" using parts by simp
          finally have "drop consumed (take len out) = bs @ take (len - ?c) (drop ?c out)"
            using prems inside by simp
          then show ?thesis by (simp add: drop_take)
        qed
        moreover have "read_entropy S d len consumed buf w = Some (err, out, w')"
          using rec(1) inside r ReadGot False by (subst read_entropy.simps) simp
        ultimately show ?thesis using rec(2,3,6) parts(2) got by auto
      qed
    qed
  qed
qed

end

section \<open>A device\<close>

text \<open>A device that counts, gives at most three bytes at a time and is interrupted some times first.\<close>

record counting_device =
  cd_position :: nat
  cd_open :: "int list"
  cd_interrupts :: nat

definition counting_source :: "counting_device random_source" where
  "counting_source = \<lparr>
     rs_open = (\<lambda>w. if cd_interrupts w > 0 then (Open_fail EINTR, w\<lparr>cd_interrupts := cd_interrupts w - 1\<rparr>)
                     else (Opened 5, w\<lparr>cd_open := 5 # cd_open w\<rparr>)),
     rs_read = (\<lambda>d n w. if cd_interrupts w > 0 then (ReadFail EINTR, w\<lparr>cd_interrupts := cd_interrupts w - 1\<rparr>)
                     else (ReadGot (map of_nat [cd_position w ..< cd_position w + min n 3]),
                           w\<lparr>cd_position := cd_position w + min n 3\<rparr>)),
     rs_close = (\<lambda>d w. w\<lparr>cd_open := remove1 d (cd_open w)\<rparr>)\<rparr>"

definition counted :: "counting_device \<Rightarrow> byte list" where
  "counted w = map of_nat [0 ..< cd_position w]"

interpretation counting: random_device counting_source cd_interrupts counted "\<lambda>w. mset (cd_open w)"
  by unfold_locales
    (auto simp: counting_source_def counted_def upt_add_eq_append [of 0, simplified] split: if_splits)

section \<open>Properties\<close>

text \<open>C29. \<^verbatim>\<open>getentropy\<close> returns whenever interruptions are finite, whatever the device does; it leaks no descriptor and
  writes at most the length asked for; with result \<open>0\<close> the buffer holds exactly the next bytes of the device, and
  otherwise the result is \<open>-1\<close> and \<^verbatim>\<open>errno\<close> is set, at once for more than 256 bytes.\<close>

theorem getentropy_correct:
  assumes "random_device S pending drawn in_use" and "len \<le> length buffer"
  shows "\<exists>ret errno out w'. getentropy S buffer len w = Some (ret, errno, out, w')
    \<and> in_use w' = in_use w \<and> length out = length buffer \<and> drop len out = drop len buffer
    \<and> (ret = 0 \<and> len \<le> 256 \<and> drawn w' = drawn w @ take len out
       \<or> ret = - 1 \<and> errno \<noteq> None \<and> (256 < len \<longrightarrow> errno = Some EIO \<and> w' = w))"
proof (cases "len > 256")
  case True
  then show ?thesis by (simp add: getentropy_def)
next
  case False
  from random_device.open_urandom_result [OF assms(1), of w] obtain r w1 where
    o: "open_urandom S w = Some (r, w1)" "drawn w1 = drawn w"
       "in_use w1 = (case r of Open_fail e \<Rightarrow> in_use w | Opened d \<Rightarrow> add_mset d (in_use w))" by blast
  show ?thesis
  proof (cases r)
    case (Open_fail e)
    with o False show ?thesis by (simp add: getentropy_def)
  next
    case (Opened d)
    from random_device.read_entropy_result [OF assms(1) _ assms(2), of 0 d w1] obtain err out w2 where
      l: "read_entropy S d len 0 buffer w1 = Some (err, out, w2)" "in_use w2 = in_use w1"
         "length out = length buffer" "drop len out = drop len buffer"
         "err = None \<longrightarrow> drawn w2 = drawn w1 @ take len out" by auto
    have "d \<in># in_use w2" using o(3) l(2) Opened by simp
    from random_device.closes [OF assms(1) this] l o Opened False show ?thesis
      by (cases err) (simp_all add: getentropy_def)
  qed
qed

theorem getentropy_correct_witness:
  "\<exists>ret errno out w'. getentropy counting_source (replicate 5 0) 4 \<lparr>cd_position = 0, cd_open = [], cd_interrupts = 2\<rparr>
      = Some (ret, errno, out, w') \<and> length out = 5 \<and> cd_open w' = []"
proof -
  have "4 \<le> length (replicate 5 (0 :: byte))" by simp
  from getentropy_correct [OF counting.random_device_axioms this, of "\<lparr>cd_position = 0, cd_open = [], cd_interrupts = 2\<rparr>"]
  show ?thesis by auto
qed

end
