(* ===== verification/Extension.thy ===== *)
theory Extension
  imports Prelude
begin

text \<open>
  \<^verbatim>\<open>libtorrent.hpp\<close>: the helper functions the binding adds to libtorrent. They convert between Java's
  byte vectors and the fixed arrays of libtorrent and call it; the functions called are parameters. A read
  beyond the end of a vector is undefined behaviour: \<open>None\<close>.
\<close>

section \<open>Ed25519\<close>

record ed25519 =
  ed_keypair :: "byte list \<Rightarrow> byte list \<times> byte list"
  ed_sign :: "byte list \<Rightarrow> byte list \<Rightarrow> byte list \<Rightarrow> byte list"
  ed_verify :: "byte list \<Rightarrow> byte list \<Rightarrow> byte list \<Rightarrow> bool"
  ed_add_public :: "byte list \<Rightarrow> byte list \<Rightarrow> byte list"
  ed_add_secret :: "byte list \<Rightarrow> byte list \<Rightarrow> byte list"
  ed_exchange :: "byte list \<Rightarrow> byte list \<Rightarrow> byte list"

text \<open>
  The first \<open>n\<close> bytes at the start of a vector, as \<^verbatim>\<open>copy_n\<close> and the constructors from \<^verbatim>\<open>char*\<close> read them: 32 for a
  seed, a scalar or a public key, 64 for a secret key or a signature.
\<close>

definition leading :: "nat \<Rightarrow> byte list \<Rightarrow> byte list option" where
  "leading n xs = (if n \<le> length xs then Some (take n xs) else None)"

definition ed25519_create_keypair :: "ed25519 \<Rightarrow> byte list \<Rightarrow> (byte list \<times> byte list) option" where
  "ed25519_create_keypair L seed = do { s \<leftarrow> leading 32 seed; Some (ed_keypair L s) }"

definition ed25519_sign :: "ed25519 \<Rightarrow> byte list \<Rightarrow> byte list \<Rightarrow> byte list \<Rightarrow> byte list option" where
  "ed25519_sign L msg pk sk = do { pk1 \<leftarrow> leading 32 pk; sk1 \<leftarrow> leading 64 sk; Some (ed_sign L msg pk1 sk1) }"

definition ed25519_verify :: "ed25519 \<Rightarrow> byte list \<Rightarrow> byte list \<Rightarrow> byte list \<Rightarrow> bool option" where
  "ed25519_verify L sig msg pk = do { sig1 \<leftarrow> leading 64 sig; pk1 \<leftarrow> leading 32 pk; Some (ed_verify L sig1 msg pk1) }"

definition ed25519_add_scalar_public :: "ed25519 \<Rightarrow> byte list \<Rightarrow> byte list \<Rightarrow> byte list option" where
  "ed25519_add_scalar_public L pk scalar = do { pk1 \<leftarrow> leading 32 pk; s \<leftarrow> leading 32 scalar; Some (ed_add_public L pk1 s) }"

definition ed25519_add_scalar_secret :: "ed25519 \<Rightarrow> byte list \<Rightarrow> byte list \<Rightarrow> byte list option" where
  "ed25519_add_scalar_secret L sk scalar = do { sk1 \<leftarrow> leading 64 sk; s \<leftarrow> leading 32 scalar; Some (ed_add_secret L sk1 s) }"

definition ed25519_key_exchange :: "ed25519 \<Rightarrow> byte list \<Rightarrow> byte list \<Rightarrow> byte list option" where
  "ed25519_key_exchange L pk sk = do { pk1 \<leftarrow> leading 32 pk; sk1 \<leftarrow> leading 64 sk; Some (ed_exchange L pk1 sk1) }"

section \<open>Network interfaces and routes\<close>

text \<open>libtorrent's structures have arrays of 64 and 128 bytes for the names, the binding's have vectors.\<close>

record ('a, 'x) lt_interface =
  li_address :: 'a
  li_netmask :: 'a
  li_name :: "byte list"
  li_friendly_name :: "byte list"
  li_description :: "byte list"
  li_preferred :: bool
  li_other :: 'x

record 'a lt_route =
  lr_destination :: 'a
  lr_netmask :: 'a
  lr_gateway :: 'a
  lr_source_hint :: 'a
  lr_name :: "byte list"
  lr_mtu :: int

record 'a ip_interface =
  interface_address :: 'a
  if_netmask :: 'a
  if_name :: "byte list"
  friendly_name :: "byte list"
  description :: "byte list"
  preferred :: bool

record 'a ip_route =
  destination :: 'a
  rt_netmask :: 'a
  gateway :: 'a
  source_hint :: 'a
  rt_name :: "byte list"
  mtu :: int

definition enum_net_interfaces :: "('a, 'x) lt_interface list \<Rightarrow> 'a ip_interface list" where
  "enum_net_interfaces v = foldl (\<lambda>ret e. ret @ [\<lparr>interface_address = li_address e, if_netmask = li_netmask e,
     if_name = li_name e, friendly_name = li_friendly_name e, description = li_description e,
     preferred = li_preferred e\<rparr>]) [] v"

definition enum_routes :: "'a lt_route list \<Rightarrow> 'a ip_route list" where
  "enum_routes v = foldl (\<lambda>ret e. ret @ [\<lparr>destination = lr_destination e, rt_netmask = lr_netmask e,
     gateway = lr_gateway e, source_hint = lr_source_hint e, rt_name = lr_name e, mtu = lr_mtu e\<rparr>]) [] v"

text \<open>\<^verbatim>\<open>memset\<close> of the target, then \<^verbatim>\<open>memcpy\<close> of what fits.\<close>

definition mem_copy :: "byte list \<Rightarrow> byte list \<Rightarrow> nat \<Rightarrow> byte list" where
  "mem_copy source target n =
     overwrite (overwrite target 0 (replicate n 0)) 0 (take (min (length source) n) source)"

text \<open>\<open>unspecified\<close> and \<open>other\<close> are the default address and the default of the fields the code leaves alone.\<close>

definition get_gateway ::
  "(('a, 'x) lt_interface \<Rightarrow> 'a lt_route list \<Rightarrow> 'a option) \<Rightarrow> 'a \<Rightarrow> 'x \<Rightarrow> 'a ip_interface \<Rightarrow> 'a ip_route list \<Rightarrow> 'a" where
  "get_gateway lt_get_gateway unspecified other iface routes =
     (let lt_iface = \<lparr>li_address = interface_address iface, li_netmask = if_netmask iface,
            li_name = mem_copy (if_name iface) (replicate 64 0) 64,
            li_friendly_name = mem_copy (friendly_name iface) (replicate 128 0) 128,
            li_description = mem_copy (description iface) (replicate 128 0) 128,
            li_preferred = preferred iface, li_other = other\<rparr>;
          lt_routes = foldl (\<lambda>rs r. rs @ [\<lparr>lr_destination = destination r, lr_netmask = rt_netmask r,
            lr_gateway = gateway r, lr_source_hint = source_hint r,
            lr_name = mem_copy (rt_name r) (replicate 64 0) 64, lr_mtu = mtu r\<rparr>]) [] routes
      in case lt_get_gateway lt_iface lt_routes of None \<Rightarrow> unspecified | Some a \<Rightarrow> a)"

section \<open>DHT items and resume data\<close>

text \<open>The entry, the signature and the sequence number after the call; the number is a 64-bit integer.\<close>

definition dht_put_item_cb ::
  "('e \<Rightarrow> byte list) \<Rightarrow> (byte list \<Rightarrow> string \<Rightarrow> 64 word \<Rightarrow> byte list \<Rightarrow> byte list \<Rightarrow> byte list) \<Rightarrow> 64 word \<Rightarrow> string
     \<Rightarrow> byte list \<Rightarrow> byte list \<Rightarrow> 'e \<Rightarrow> 'e \<times> byte list \<times> 64 word" where
  "dht_put_item_cb bencode sign_mutable_item seq salt pk sk data =
     (let e = data; buf = bencode e; seq1 = seq + 1
      in (e, sign_mutable_item buf salt seq1 pk sk, seq1))"

text \<open>\<^verbatim>\<open>&buffer[0]\<close> is undefined for an empty vector.\<close>

definition read_resume_data_ex :: "(byte list \<Rightarrow> 'c \<Rightarrow> 'p \<times> 'ec) \<Rightarrow> byte list \<Rightarrow> 'c \<Rightarrow> ('p \<times> 'ec) option" where
  "read_resume_data_ex read_resume_data buffer cfg = (if buffer = [] then None else Some (read_resume_data buffer cfg))"

section \<open>Magnet links\<close>

record torrent_handle =
  is_valid :: bool
  hash_v1 :: "byte list option"
  hash_v2 :: "byte list option"
  status_name :: string
  trackers :: "string list"
  url_seeds :: "string list"

definition make_magnet_uri_from_torrent_handle ::
  "(byte list \<Rightarrow> string) \<Rightarrow> (string \<Rightarrow> string) \<Rightarrow> torrent_handle \<Rightarrow> string" where
  "make_magnet_uri_from_torrent_handle hex escape_string handle =
     (if \<not> is_valid handle then ''''
      else
        let ret0 = ''magnet:?'';
            ret1 = (case hash_v1 handle of None \<Rightarrow> ret0 | Some h \<Rightarrow> ret0 @ ''xt=urn:btih:'' @ hex h);
            ret2 = (case hash_v2 handle of None \<Rightarrow> ret1
                    | Some h \<Rightarrow> ret1 @ (if hash_v1 handle \<noteq> None then ''&'' else '''') @ ''xt=urn:btmh:1220'' @ hex h);
            ret3 = (if status_name handle = '''' then ret2 else ret2 @ ''&dn='' @ escape_string (status_name handle));
            ret4 = foldl (\<lambda>r url. r @ ''&tr='' @ escape_string url) ret3 (trackers handle)
        in foldl (\<lambda>r s. r @ ''&ws='' @ escape_string s) ret4 (url_seeds handle))"

section \<open>Signatures\<close>

text \<open>What the Ed25519 library promises.\<close>

locale ed25519_scheme =
  fixes L :: ed25519
  assumes keypair_lengths: "length s = 32 \<Longrightarrow> ed_keypair L s = (pk, sk) \<Longrightarrow> length pk = 32 \<and> length sk = 64"
    and sign_length: "length (ed_sign L msg pk sk) = 64"
    and sign_verifies: "length s = 32 \<Longrightarrow> ed_keypair L s = (pk, sk) \<Longrightarrow> ed_verify L (ed_sign L msg pk sk) msg pk"
    and exchange_agrees: "length s = 32 \<Longrightarrow> length s' = 32 \<Longrightarrow> ed_keypair L s = (pk, sk) \<Longrightarrow> ed_keypair L s' = (pk', sk')
      \<Longrightarrow> ed_exchange L pk sk' = ed_exchange L pk' sk"
begin

lemma keypair:
  assumes "32 \<le> length seed"
  obtains pk sk where "ed25519_create_keypair L seed = Some (pk, sk)" "ed_keypair L (take 32 seed) = (pk, sk)"
    "leading 32 pk = Some pk" "leading 64 sk = Some sk"
proof -
  obtain pk sk where k: "ed_keypair L (take 32 seed) = (pk, sk)" by (metis surj_pair)
  have "length (take 32 seed) = 32" using assms by simp
  from keypair_lengths [OF this k] k assms that show ?thesis by (simp add: ed25519_create_keypair_def leading_def)
qed

end

text \<open>A scheme without secrets, with the sizes and laws of Ed25519.\<close>

definition toy_scheme :: ed25519 where
  "toy_scheme = \<lparr>ed_keypair = (\<lambda>s. (s, s @ s)), ed_sign = (\<lambda>msg pk sk. take 64 (sk @ replicate 64 0)),
     ed_verify = (\<lambda>sig msg pk. sig = pk @ pk), ed_add_public = (\<lambda>pk s. pk), ed_add_secret = (\<lambda>sk s. sk),
     ed_exchange = (\<lambda>pk sk. map2 (+) pk (take 32 sk))\<rparr>"

interpretation toy: ed25519_scheme toy_scheme
  by unfold_locales (auto simp: toy_scheme_def add.commute intro: nth_equalityI)

text \<open>C30. Signatures through the binding: for seeds of at least 32 bytes the calls read no byte beyond their arguments,
  what is signed with a generated key pair verifies under its public key, and two key pairs agree on a shared
  secret; a shorter seed, key or signature is undefined.\<close>

theorem ed25519_binding_sound:
  assumes "ed25519_scheme L" and "32 \<le> length seed" and "32 \<le> length seed'"
  shows "\<exists>pk sk pk' sk' sig. ed25519_create_keypair L seed = Some (pk, sk) \<and> ed25519_create_keypair L seed' = Some (pk', sk')
    \<and> ed25519_sign L msg pk sk = Some sig \<and> ed25519_verify L sig msg pk = Some True
    \<and> ed25519_key_exchange L pk sk' = ed25519_key_exchange L pk' sk \<and> ed25519_key_exchange L pk sk' \<noteq> None
    \<and> (\<forall>xs. length xs < 32 \<longrightarrow> ed25519_create_keypair L xs = None \<and> ed25519_verify L sig msg xs = None)"
proof -
  obtain pk sk where k: "ed25519_create_keypair L seed = Some (pk, sk)" "ed_keypair L (take 32 seed) = (pk, sk)"
    "leading 32 pk = Some pk" "leading 64 sk = Some sk" by (rule ed25519_scheme.keypair [OF assms(1,2)])
  obtain pk' sk' where k': "ed25519_create_keypair L seed' = Some (pk', sk')" "ed_keypair L (take 32 seed') = (pk', sk')"
    "leading 32 pk' = Some pk'" "leading 64 sk' = Some sk'" by (rule ed25519_scheme.keypair [OF assms(1,3)])
  have len: "length (take 32 seed) = 32" "length (take 32 seed') = 32" using assms(2,3) by simp_all
  have s: "ed25519_sign L msg pk sk = Some (ed_sign L msg pk sk)" using k by (simp add: ed25519_sign_def)
  have "leading 64 (ed_sign L msg pk sk) = Some (ed_sign L msg pk sk)"
    using ed25519_scheme.sign_length [OF assms(1), of msg pk sk] by (simp add: leading_def)
  then have v: "ed25519_verify L (ed_sign L msg pk sk) msg pk = Some True"
    using k ed25519_scheme.sign_verifies [OF assms(1) len(1) k(2)] by (simp add: ed25519_verify_def)
  have x: "ed25519_key_exchange L pk sk' = Some (ed_exchange L pk sk')" "ed25519_key_exchange L pk' sk = Some (ed_exchange L pk' sk)"
    using k k' by (simp_all add: ed25519_key_exchange_def)
  have "ed_exchange L pk sk' = ed_exchange L pk' sk"
    by (rule ed25519_scheme.exchange_agrees [OF assms(1) len k(2) k'(2)])
  moreover have "length xs < 32 \<Longrightarrow> ed25519_create_keypair L xs = None \<and> ed25519_verify L sig msg xs = None" for xs sig
    by (simp add: ed25519_create_keypair_def ed25519_verify_def leading_def)
  ultimately show ?thesis using k(1) k'(1) s v x by (metis option.distinct(1))
qed

theorem ed25519_binding_sound_witness:
  "\<exists>pk sk sig. ed25519_create_keypair toy_scheme (replicate 32 7) = Some (pk, sk)
     \<and> ed25519_sign toy_scheme [1, 2] pk sk = Some sig \<and> ed25519_verify toy_scheme sig [1, 2] pk = Some True"
proof -
  have "32 \<le> length (replicate 32 (7 :: byte))" by simp
  from ed25519_binding_sound [OF toy.ed25519_scheme_axioms this this, of "[1, 2]"] show ?thesis by blast
qed

section \<open>Gateways\<close>

lemma mem_copy_result:
  "length target = n \<Longrightarrow> mem_copy source target n = take n source @ replicate (n - length source) 0"
  by (simp add: mem_copy_def) (simp add: overwrite_def min_def)

lemma foldl_snoc: "foldl (\<lambda>r e. r @ [f e]) xs ys = xs @ map f ys"
  by (induction ys arbitrary: xs) auto

text \<open>An interface and a route with names of the sizes of libtorrent's arrays.\<close>

definition sized_interface :: "('a, 'x) lt_interface \<Rightarrow> bool" where
  "sized_interface i \<longleftrightarrow> length (li_name i) = 64 \<and> length (li_friendly_name i) = 128 \<and> length (li_description i) = 128"

text \<open>Enumerating and asking for the gateway fit together: the interfaces and routes the binding lists, given back
  to \<^verbatim>\<open>get_gateway\<close>, reach libtorrent as they came from it, names included, and an interface without a gateway
  gives the default address.\<close>

theorem gateway_round_trip:
  assumes "\<forall>i \<in> set is. sized_interface i \<and> li_other i = x" and "\<forall>r \<in> set rs. length (lr_name r) = 64"
    and "k < length is"
  shows "length (enum_net_interfaces is) = length is
    \<and> get_gateway G unspecified x (enum_net_interfaces is ! k) (enum_routes rs)
      = (case G (is ! k) rs of None \<Rightarrow> unspecified | Some a \<Rightarrow> a)"
proof -
  have i: "sized_interface (is ! k)" "li_other (is ! k) = x" using assms(1,3) by auto
  have name: "length (lr_name r) = 64" if "r \<in> set rs" for r using assms(2) that by blast
  have routes: "map (\<lambda>r. \<lparr>lr_destination = lr_destination r, lr_netmask = lr_netmask r, lr_gateway = lr_gateway r,
      lr_source_hint = lr_source_hint r, lr_name = mem_copy (lr_name r) (replicate 64 0) 64, lr_mtu = lr_mtu r\<rparr>) rs = rs"
    by (rule map_idI) (simp add: mem_copy_result name)
  have iface: "\<lparr>li_address = li_address (is ! k), li_netmask = li_netmask (is ! k),
      li_name = mem_copy (li_name (is ! k)) (replicate 64 0) 64,
      li_friendly_name = mem_copy (li_friendly_name (is ! k)) (replicate 128 0) 128,
      li_description = mem_copy (li_description (is ! k)) (replicate 128 0) 128,
      li_preferred = li_preferred (is ! k), li_other = x\<rparr> = is ! k"
    using i by (cases "is ! k") (simp add: mem_copy_result sized_interface_def)
  show ?thesis
    using assms(3)
    by (simp add: get_gateway_def enum_net_interfaces_def enum_routes_def foldl_snoc comp_def routes iface)
qed

theorem gateway_round_trip_witness:
  "get_gateway (\<lambda>i rs. case rs of [] \<Rightarrow> None | r # _ \<Rightarrow> Some (lr_gateway r)) 0 ()
     (enum_net_interfaces [\<lparr>li_address = 7, li_netmask = 8, li_name = replicate 64 1, li_friendly_name = replicate 128 0,
        li_description = replicate 128 0, li_preferred = True, li_other = ()\<rparr>] ! 0)
     (enum_routes [\<lparr>lr_destination = 0, lr_netmask = 0, lr_gateway = 9, lr_source_hint = 7, lr_name = replicate 64 1,
        lr_mtu = 1500\<rparr>]) = (9 :: nat)"
proof -
  let ?i = "\<lparr>li_address = 7 :: nat, li_netmask = 8, li_name = replicate 64 1, li_friendly_name = replicate 128 0,
        li_description = replicate 128 0, li_preferred = True, li_other = ()\<rparr>"
  let ?r = "\<lparr>lr_destination = 0 :: nat, lr_netmask = 0, lr_gateway = 9, lr_source_hint = 7, lr_name = replicate 64 1,
        lr_mtu = 1500\<rparr>"
  have "\<forall>i \<in> set [?i]. sized_interface i \<and> li_other i = ()" "\<forall>r \<in> set [?r]. length (lr_name r) = 64" "0 < length [?i]"
    by (simp_all add: sized_interface_def)
  from gateway_round_trip [OF this] show ?thesis by simp
qed

section \<open>The parameters of a magnet link\<close>

fun split_on :: "char \<Rightarrow> string \<Rightarrow> string list" where
  "split_on c [] = [[]]"
| "split_on c (x # xs) = (if x = c then [] # split_on c xs else (x # hd (split_on c xs)) # tl (split_on c xs))"

lemma split_on_append:
  "c \<notin> set y \<Longrightarrow> split_on c (y @ c # zs) = y # split_on c zs"
  by (induction y) auto

lemma split_on_single: "c \<notin> set y \<Longrightarrow> split_on c y = [y]"
  by (induction y) auto

definition amp_all :: "string list \<Rightarrow> string" where
  "amp_all fs = concat (map (\<lambda>f. ''&'' @ f) fs)"

lemma split_on_fields:
  "CHR ''&'' \<notin> set f \<Longrightarrow> (\<And>g. g \<in> set fs \<Longrightarrow> CHR ''&'' \<notin> set g) \<Longrightarrow> split_on (CHR ''&'') (f @ amp_all fs) = f # fs"
proof (induction fs arbitrary: f)
  case (Cons g fs)
  then have "split_on (CHR ''&'') (g @ amp_all fs) = g # fs" by simp
  with Cons.prems(1) show ?case by (simp add: amp_all_def split_on_append)
qed (simp add: amp_all_def split_on_single)

text \<open>The parameters a link should have, in order.\<close>

definition magnet_parameters :: "(byte list \<Rightarrow> string) \<Rightarrow> (string \<Rightarrow> string) \<Rightarrow> torrent_handle \<Rightarrow> string list" where
  "magnet_parameters hex esc h =
     (case hash_v1 h of None \<Rightarrow> [] | Some x \<Rightarrow> [''xt=urn:btih:'' @ hex x])
     @ (case hash_v2 h of None \<Rightarrow> [] | Some x \<Rightarrow> [''xt=urn:btmh:1220'' @ hex x])
     @ (if status_name h = [] then [] else [''dn='' @ esc (status_name h)])
     @ map (\<lambda>u. ''tr='' @ esc u) (trackers h) @ map (\<lambda>u. ''ws='' @ esc u) (url_seeds h)"

lemma foldl_append: "foldl (\<lambda>r u. r @ g u) a us = a @ concat (map g us)"
  by (induction us arbitrary: a) auto

lemma magnet_link_eq:
  assumes "is_valid h" "magnet_parameters hex esc h = f # fs" "hash_v1 h \<noteq> None \<or> hash_v2 h \<noteq> None"
  shows "make_magnet_uri_from_torrent_handle hex esc h = ''magnet:?'' @ f @ amp_all fs"
    using assms
    by (cases "hash_v1 h"; cases "hash_v2 h")
      (auto simp: make_magnet_uri_from_torrent_handle_def magnet_parameters_def foldl_append amp_all_def comp_def Let_def)

text \<open>C31. A magnet link carries what the torrent has: for a valid torrent with a hash, splitting the query of the link
  at \<^verbatim>\<open>&\<close> gives exactly the hashes, the name, the trackers and the web seeds, in this order, provided hexadecimal
  digits and escaped strings contain no \<^verbatim>\<open>&\<close>.\<close>

theorem magnet_link_parses_back:
  assumes "is_valid h" and "hash_v1 h \<noteq> None \<or> hash_v2 h \<noteq> None"
    and "\<And>x. CHR ''&'' \<notin> set (hex x)" and "\<And>s. CHR ''&'' \<notin> set (esc s)"
  shows "take 8 (make_magnet_uri_from_torrent_handle hex esc h) = ''magnet:?''
    \<and> split_on (CHR ''&'') (drop 8 (make_magnet_uri_from_torrent_handle hex esc h)) = magnet_parameters hex esc h"
proof -
  obtain f fs where p: "magnet_parameters hex esc h = f # fs"
    using assms(2) by (cases "magnet_parameters hex esc h") (auto simp: magnet_parameters_def)
  have "CHR ''&'' \<notin> set g" if "g \<in> set (magnet_parameters hex esc h)" for g
    using that assms(3,4) by (auto simp: magnet_parameters_def split: option.splits if_splits)
  then have "split_on (CHR ''&'') (f @ amp_all fs) = f # fs" unfolding p by (intro split_on_fields) auto
  then show ?thesis using magnet_link_eq [OF assms(1) p assms(2)] p by simp
qed

theorem magnet_link_parses_back_witness:
  "split_on (CHR ''&'') (drop 8 (make_magnet_uri_from_torrent_handle (\<lambda>_. ''ab'') (filter (\<lambda>c. c \<noteq> CHR ''&''))
     \<lparr>is_valid = True, hash_v1 = Some [1], hash_v2 = None, status_name = ''n'', trackers = [''u''], url_seeds = []\<rparr>))
   = [''xt=urn:btih:ab'', ''dn=n'', ''tr=u'']"
  using magnet_link_parses_back [of "\<lparr>is_valid = True, hash_v1 = Some [1], hash_v2 = None, status_name = ''n'',
      trackers = [''u''], url_seeds = []\<rparr>" "\<lambda>_. ''ab''" "filter (\<lambda>c. c \<noteq> CHR ''&'')"]
  by (simp add: magnet_parameters_def)

end
