(* ===== verification/Spec2Isabelle.thy ===== *)
theory Spec2Isabelle
  imports Storage_Properties Binding_Properties Binding_Calls Helper_Calls Director_Exports Native_Vectors Native_Flags Saf_Storage Extension
begin

text \<open>
  A verification library for the native part of libtorrent4j: the Storage Access Framework disk backend
  (\<^verbatim>\<open>src/swig/flow_saf_disk_io.cpp\<close>, \<^verbatim>\<open>flow_saf_disk_io.hpp\<close>, \<^verbatim>\<open>flow_saf_storage.hpp\<close>, \<^verbatim>\<open>flow_saf_storage.cpp\<close>), the helpers
  the binding adds to libtorrent (\<^verbatim>\<open>libtorrent.hpp\<close>) and the runtime and container helpers of the generated Java
  binding (\<^verbatim>\<open>libtorrent_jni.cpp\<close>).

  \<^bold>\<open>The program.\<close> libtorrent calls \<^verbatim>\<open>flow_saf_disk_io\<close> from its network thread. Each request is checked against
  the table of torrents and put on a queue; one worker thread runs the jobs in order and posts a completion for
  each. A job reads, writes, hashes, checks, moves, renames or deletes the files of a torrent. Files are reached
  through a bridge the host application implements, which hands over descriptors for relative paths; the backend
  keeps a bounded pool of them and transfers with \<^verbatim>\<open>pread\<close> and \<^verbatim>\<open>pwrite\<close>. The Java side talks to libtorrent through
  generated functions that convert arguments, call C++ and turn C++ exceptions into Java exceptions.

  \<^bold>\<open>The model.\<close> State is passed explicitly; errors are values; machine integers are words where they can overflow;
  loops that retry or evict are \<^theory_text>\<open>partial_function (option)\<close>, where \<open>None\<close> is not returning. The bridge, the POSIX
  calls, the clock, the Java machine and the functions of libtorrent are not code of this repository: they
  are records of functions on an arbitrary world, and what the code relies on are locales.

    \<^item> \<^verbatim>\<open>Prelude\<close>: error numbers, buffers (\<open>overwrite\<close>, \<open>write_at\<close>), lists and their lemmas. \<^verbatim>\<open>Errors\<close>: \<open>storage_error\<close>.
    \<^item> \<^verbatim>\<open>Paths\<close>: \<open>safe_relative_path\<close>, save roots; the loop is equal to a predicate on path components.
    \<^item> \<^verbatim>\<open>Environment\<close>: the bridge and the POSIX calls (\<open>env\<close>), the law \<open>posix_io\<close>, and \<open>audit E\<close>, which records
      every call so that path safety and descriptor ownership are properties of the trace. \<^verbatim>\<open>Memory_Bridge\<close>: the
      bridge of the repository's test, in memory; every law is interpreted on it.
    \<^item> \<^verbatim>\<open>Transfers\<close>: \<open>pread_all\<close> and \<open>pwrite_all\<close>. \<^verbatim>\<open>Descriptors\<close>: the pool, \<open>open_file\<close> and eviction, with the
      invariants \<open>pool_inv\<close>, \<open>within_limit\<close> and \<open>use_order\<close>. \<^verbatim>\<open>Torrents\<close>: \<open>torrent_storage\<close> and its constructor.
    \<^item> \<^verbatim>\<open>Blocks\<close>: \<open>read_block\<close> and \<open>write_block\<close>. \<^verbatim>\<open>Check_Files\<close>: resume data. \<^verbatim>\<open>Move_Storage\<close>: moving a torrent.
      \<^verbatim>\<open>Priorities\<close>: moving a file between its path and the part file.
    \<^item> \<^verbatim>\<open>Disk_IO\<close>: the state \<open>saf\<close>, slots, queue and every asynchronous operation. \<^verbatim>\<open>Jobs\<close>: the job bodies, the worker
      and \<open>abort\<close>, with one contract per job. \<^verbatim>\<open>System\<close>: the interleaving of client and worker as the relation \<open>runs\<close>, its
      invariant \<open>sys_inv\<close>, the accounting of requests and the order of jobs; the job a request asks for (\<open>requested_jobs\<close>) is
      stated apart from the queue. \<^verbatim>\<open>Scenario\<close>: concrete runs, evaluated by the kernel.
    \<^item> \<^verbatim>\<open>Contents\<close> and \<^verbatim>\<open>Copies\<close>: the abstract view of files as byte lists (locale \<open>file_world\<close>) and the proof that
      blocks, hashes, copies and migrations implement it. \<^verbatim>\<open>Moves\<close>: the same for moving a torrent (locale \<open>stored_world\<close>,
      which adds to \<open>file_world\<close> that checks of a path and of a size change nothing and that the size tells what is
      stored). \<^verbatim>\<open>Storage_Properties\<close>: the properties of these components.
    \<^item> \<^verbatim>\<open>Saf_Storage\<close>: \<open>getentropy\<close>, \<open>memfd_create\<close>, installing the backend. \<^verbatim>\<open>Extension\<close>: the helpers of \<^verbatim>\<open>libtorrent.hpp\<close>.
    \<^item> \<^verbatim>\<open>Jni_Runtime\<close>: Java exceptions and sizes, with an audited Java machine. \<^verbatim>\<open>Vectors\<close>, \<^verbatim>\<open>Vector_Instances\<close>,
      \<^verbatim>\<open>String_Vector\<close>, \<^verbatim>\<open>Object_Vector\<close>, \<^verbatim>\<open>Value_Vector\<close>, \<^verbatim>\<open>Native_Vectors\<close>: \<^verbatim>\<open>std::vector\<close> as a Java list, down to the
      exported methods of every vector class; for vectors of objects also the addresses of elements and their life
      time. \<^verbatim>\<open>Flags\<close>, \<^verbatim>\<open>Native_Flags\<close>: flag types and their exported methods.
      \<^verbatim>\<open>Containers\<close>: arrays, maps, comparison and hash codes. \<^verbatim>\<open>Binding_Properties\<close>: the properties of these.
    \<^item> \<^verbatim>\<open>Director\<close>: C++ classes implemented in Java, with the references they hold and the upcalls; \<^verbatim>\<open>Director_Exports\<close>: their
      exported methods, the initialisation of the module, and the references of all directors over any sequence of calls.
    \<^item> \<^verbatim>\<open>Native_Calls\<close>: what every other exported method does, \<open>run_export\<close>: it translates the arguments, evaluates one C++
      expression, turns C++ exceptions into Java exceptions and translates the result; memory is a map from addresses to
      values with members. \<^verbatim>\<open>Exports_Basic\<close>, \<^verbatim>\<open>Exports_Torrents\<close>, \<^verbatim>\<open>Exports_Alerts\<close>, \<^verbatim>\<open>Exports_Session\<close>: a table entry for each of
      the 2849 methods, class by class. \<^verbatim>\<open>Call_Laws\<close>: reading and writing through addresses, types of members, the
      form of the tables. \<^verbatim>\<open>Binding_Calls\<close>: the properties of all the methods in the tables.
    \<^item> \<^verbatim>\<open>Extension_Helpers\<close>: the bodies of the helpers that exported methods call, as expressions; \<open>linked_with\<close> puts them in
      the place of the library. \<^verbatim>\<open>Helper_Calls\<close>: methods and helpers together.

  \<^bold>\<open>What is shown.\<close> This theory: every request is answered exactly once, also across shutdown; jobs run in the order they were asked for; the worker
  never stops at a job; only safe paths and live descriptors reach the bridge; slots are exclusive. \<^verbatim>\<open>Storage_Properties\<close>:
  a block that was written is read back, hashes are those of the bytes in the files, a move that fails keeps the
  bytes of every stored file, refuses paths taken by other files and otherwise brings the files to their new paths,
  priorities change up to the first file that cannot migrate, the pool evicts the least recently used entry. \<^verbatim>\<open>Binding_Properties\<close>: index checks are safe, containers
  refine lists and maps, exceptions and references are accounted for. \<^verbatim>\<open>Director_Exports\<close>: no global reference is freed
  twice or lost, but for the weak ones of directors deleted after their Java object was collected. \<^verbatim>\<open>Binding_Calls\<close>: null arguments are refused, the characters of strings are given back, getters and setters
  are type safe, copy what they are given and agree with each other. \<^verbatim>\<open>Helper_Calls\<close>: members behind a cast are copies.

  \<^bold>\<open>Bounds and termination.\<close> Retry loops return when interruptions are finite (\<open>pending\<close> bounds those to come);
  eviction ends because the limit is at least one; all other loops are structural or have a measure. There is no fuel
  apart from \<open>traverse\<close>, which gets as many steps as the map has entries and is shown to need no more.

  \<^bold>\<open>Not modelled.\<close> Threads below the granularity of one queue operation or one job: jobs touch the state only on the
  worker, requests only under the queue and table locks, so the relation \<open>runs\<close> interleaves them as single steps. Attaching
  threads to the Java machine. Real time, memory exhaustion outside the buffer pool. The functions, constants, static objects, destructors and
  the widths of types of libtorrent, whose code is not in the repository: they are the fields of the record
  \<open>library\<close>, an arbitrary parameter. In \<open>run_export\<close> copying an object gives an equal value; the address of a base is that of the object;
  an index or flag type is its number; a container read through a \<^verbatim>\<open>reinterpret_cast\<close> is the value that was stored. 14 helpers that make addresses from numbers, bind callbacks, share ownership or read a
  variant are left to the parameter, and so are, in the tables, the helpers for maps, arrays and hash codes and those of
  \<^verbatim>\<open>libtorrent.hpp\<close>, which \<^verbatim>\<open>Containers\<close> and \<^verbatim>\<open>Extension\<close> model on their own types. Names of files inside a torrent are taken as
  libtorrent sanitised them where a property needs it (\<open>act_safe\<close>).
\<close>

section \<open>Properties of the running system\<close>

text \<open>C1. Every request is answered exactly once: after any run from the constructor, the handlers of the
  completions posted so far and the handlers of the jobs still queued are together exactly the
  handlers of the requests made, none lost and none called twice.\<close>

theorem answered_exactly_once:
  assumes "runs E (initial_saf n w) acts s"
  shows "mset (completed s) + mset (pending_handlers (m_jobs s)) = mset (submitted acts)"
  using runs_accounted [OF assms initial_sys_inv]
  by (simp add: accounted_def completed_def initial_saf_def set_descriptor_limit_def)

theorem answered_exactly_once_witness: "mset (completed demo_end) = {#1, 2, 3, 6, 4#}"
  using answered_exactly_once [OF demo_run [unfolded demo_start_def]] demo_facts by simp

text \<open>C4. The worker runs the jobs in the order they were asked for, and answers in that order: in any run, in which calls
  and turns of the worker interleave freely, the jobs the requests asked for are the jobs executed, oldest first,
  followed by those still in the queue, and the completions the worker posted are those of the executed jobs, in order.\<close>

theorem jobs_run_in_order:
  assumes "runs E (initial_saf n w) acts s"
  shows "queued acts = executed acts @ m_jobs s
    \<and> map completion_handler (worker_answers acts) = pending_handlers (executed acts)"
  using runs_fifo [OF assms initial_sys_inv] by (simp add: initial_saf_def set_descriptor_limit_def)

theorem jobs_run_in_order_witness:
  "queued demo_acts = executed demo_acts \<and> map completion_handler (worker_answers demo_acts) = [1, 3, 6]"
  using jobs_run_in_order [OF demo_run [unfolded demo_start_def]] demo_facts by simp

text \<open>C2. Shutdown: from any reachable state, provided interruptions are finite, \<^verbatim>\<open>abort\<close> returns; it is a run
  that executes every job still queued and accepts no new request, and afterwards every request ever made
  has been answered exactly once, no descriptor is held, the worker has ended and jobs are refused.\<close>

theorem abort_answers_and_closes:
  assumes "runs E (initial_saf n w) acts s" and "posix_io E pending"
  shows "\<exists>s' acts'. abort E s = Some s' \<and> runs E s acts' s' \<and> executed acts' = m_jobs s \<and> submitted acts' = []
    \<and> mset (completed s') = mset (submitted acts) \<and> m_descriptors s' = []
    \<and> \<not> worker_running s' \<and> \<not> worker_joinable s' \<and> \<not> m_accepting s'"
proof -
  have inv: "sys_inv s" by (rule runs_sys_inv [OF assms(1) initial_sys_inv])
  from posix_io.abort_completes [OF assms(2) inv] obtain s' acts' where
    a: "abort E s = Some s'" "runs E s acts' s'" "submitted acts' = []" "executed acts' = m_jobs s" "m_jobs s' = []"
       "m_descriptors s' = []" "\<not> m_accepting s'" "\<not> worker_running s'" "\<not> worker_joinable s'" by blast
  from runs_accounted [OF runs_trans [OF assms(1) a(2)] initial_sys_inv] a(3,5)
  have "mset (completed s') = mset (submitted acts)"
    by (simp add: accounted_def completed_def initial_saf_def set_descriptor_limit_def submitted_def)
  with a show ?thesis by blast
qed

theorem abort_answers_and_closes_witness:
  "\<exists>s'. abort memory_env mid_state = Some s' \<and> mset (completed s') = {#1#} \<and> m_descriptors s' = []"
  using abort_answers_and_closes [OF mid_run memory.posix_io_axioms] mid_facts by auto

text \<open>C3. What reaches the bridge: in any run whose torrents have safe file names, every path handed to the
  bridge is a safe relative path, every transfer, truncation and close is on a descriptor the bridge
  handed over and that is still open, and the descriptors open are exactly those of the pool; so none is
  left once the worker has ended.\<close>

theorem bridge_sees_safe_paths:
  assumes "runs (audit E) (initial_saf n (w, [])) acts s" and "list_all (act_safe E) acts" and "posix_io E pending"
  shows "safe_trace (snd (world s)) \<and> well_used (snd (world s))
    \<and> mset (live (snd (world s))) = mset (map od_descriptor (m_descriptors s))
    \<and> (\<not> worker_running s \<longrightarrow> live (snd (world s)) = [])"
proof -
  have inv: "sys_inv s" by (rule runs_sys_inv [OF assms(1) initial_sys_inv])
  then have "flags_ok s" by (rule sys_invE)
  moreover have "clean_saf s" by (rule runs_clean [OF assms(1) initial_sys_inv initial_clean assms(2,3)])
  ultimately show ?thesis
    by (auto simp: clean_saf_def clean_world_def clean_trace_def owned_def flags_ok_def)
qed

theorem bridge_sees_safe_paths_witness:
  "safe_trace (snd (world audit_end)) \<and> well_used (snd (world audit_end)) \<and> live (snd (world audit_end)) = []"
  using bridge_sees_safe_paths [OF audit_run [unfolded audit_start_def] audit_acts_safe memory.posix_io_axioms]
    audit_end_stopped by simp

text \<open>C6. Once \<^verbatim>\<open>abort\<close> has begun, every later request is refused: it queues no job, and its handler is called
  with an error, or without one where the handler takes none.\<close>

theorem refused_after_abort:
  assumes "runs E (initial_saf n w) acts s" and "Abort_begin \<in> set acts"
  shows "m_jobs (submit E r s) = m_jobs s \<and> (\<exists>cs. posted (submit E r s) = posted s @ cs
    \<and> map completion_handler cs = handlers (request_handler r) \<and> list_all refusal cs)"
  using submit_refused [OF abort_stays [OF assms(1) initial_sys_inv assms(2)]] by blast

theorem refused_after_abort_witness:
  "m_jobs (submit memory_env (R_write 0 demo_block [1] 9) demo_end) = []"
  using refused_after_abort [OF demo_run [unfolded demo_start_def], of "R_write 0 demo_block [1] 9"] demo_facts demo_aborts
  by simp

text \<open>C5. The worker never stops at a job: in any reachable state with a job at the front of the queue, provided
  interruptions are finite, the job returns; it calls the handler of its request exactly once, takes
  nothing else from the queue and keeps the invariant of the system.\<close>

theorem worker_step_total:
  assumes "runs E (initial_saf n w) acts s" and "m_jobs s = j # js" and "posix_io E pending"
  shows "\<exists>s' cs. worker_step E s = Some s' \<and> posted s' = posted s @ cs
    \<and> map completion_handler cs = handlers (job_handler j) \<and> m_jobs s' = js \<and> sys_inv s'"
proof -
  have inv: "sys_inv s" by (rule runs_sys_inv [OF assms(1) initial_sys_inv])
  then have ok: "list_all (job_ok s) (m_jobs s)" and "pool_inv (s\<lparr>m_jobs := js\<rparr>)" and "flags_ok s"
    by (auto simp: sys_inv_def pool_inv_def)
  from posix_io.run_job_returns [OF assms(3) this(2)] assms(2) obtain s' where s': "worker_step E s = Some s'"
    by (auto simp: worker_step_def)
  from \<open>flags_ok s\<close> assms(2) have "worker_running s" by (auto simp: flags_ok_def)
  with worker_step_sys_inv [OF inv _ s' assms(2)] worker_step_contract [OF s' assms(2) ok] s' show ?thesis
    by (auto simp: job_contract_def)
qed

theorem worker_step_total_witness: "\<exists>s'. worker_step memory_env mid_state = Some s' \<and> m_jobs s' = [] \<and> sys_inv s'"
proof -
  obtain j where "m_jobs mid_state = [j]" using mid_facts(2) by (cases "m_jobs mid_state") auto
  from worker_step_total [OF mid_run this memory.posix_io_axioms] show ?thesis by blast
qed

text \<open>C7. Slots: in any reachable state, a new torrent gets a slot that was empty, the other slots keep their
  torrents, no two slots hold the same torrent, and giving the slot back restores the table as it was.\<close>

theorem slots_are_exclusive:
  assumes "runs E (initial_saf n w) acts s" and "new_torrent E params s = (Inr i, s')"
    and "length (m_torrents s) < 2 ^ 32"
  shows "find_storage i s = None \<and> find_storage i s' = Some (length (heap s))
    \<and> (\<forall>j. j \<noteq> i \<longrightarrow> find_storage j s' = find_storage j s)
    \<and> (\<forall>j k a. find_storage j s' = Some a \<and> find_storage k s' = Some a \<longrightarrow> j = k)
    \<and> (\<forall>j. find_storage j (remove_torrent i s') = find_storage j s)"
proof -
  have v: "slots_ok s" using runs_sys_inv [OF assms(1) initial_sys_inv] by (rule sys_invE)
  have t: "takes_slot E s (length (heap s)) i s'" using assms(2,3) by (auto simp: takes_slot_def)
  show ?thesis
  proof (intro conjI)
    show "find_storage i s = None" by (rule slots.take_fresh [OF v t])
    show "find_storage i s' = Some (length (heap s))" "\<forall>j. j \<noteq> i \<longrightarrow> find_storage j s' = find_storage j s"
      using slots.take_lookup [OF v t] by auto
    show "\<forall>j k a. find_storage j s' = Some a \<and> find_storage k s' = Some a \<longrightarrow> j = k"
      using slots.valid_inj [OF slots.valid_take [OF v t]] by blast
    show "\<forall>j. find_storage j (remove_torrent i s') = find_storage j s"
      by (rule allI, rule fun_cong [OF slots.take_give_back [OF v t]])
  qed
qed

theorem slots_are_exclusive_witness:
  "find_storage (fst mid_new) (snd mid_new) = Some 1 \<and> find_storage 0 (snd mid_new) = find_storage 0 mid_state"
proof -
  have new: "new_torrent memory_env demo_params mid_state = (Inr (fst mid_new), snd mid_new)" and "fst mid_new = 1"
    and small: "length (m_torrents mid_state) < 2 ^ 32" and "length (heap mid_state) = 1"
    using mid_new_facts by auto
  note p = slots_are_exclusive [OF mid_run new small]
  have "find_storage (fst mid_new) (snd mid_new) = Some (length (heap mid_state))" by (rule p [THEN conjunct2, THEN conjunct1])
  moreover have "find_storage 0 (snd mid_new) = find_storage 0 mid_state"
    using p [THEN conjunct2, THEN conjunct2, THEN conjunct1] \<open>fst mid_new = 1\<close> by simp
  ultimately show ?thesis using \<open>length (heap mid_state) = 1\<close> by simp
qed

end
